(* ===== verification/Prelude.thy ===== *)
theory Prelude imports Main "HOL-Library.Sublist" begin

text \<open>
  Shared groundwork. An asynchronous handler of the services is an \<open>action\<close>: it takes the
  state, and returns the exception it throws or its value, with the state it leaves behind. The
  services open no database transaction, so an exception keeps every effect made before it: that
  is why the state is returned in both cases. The combinators below are the control flow of the
  TypeScript (\<open>await\<close>, \<open>throw\<close>, \<open>try/catch\<close>, \<open>for ... of\<close>). Their
  execution rules are collected in \<open>exec\<close>, and the locale \<open>state_rel\<close> gives the rules by
  which a relation between the states before and after is established for a composed action.
\<close>

named_theorems exec \<open>execution rules of the action combinators\<close>

type_synonym ('s, 'e, 'a) action = "'s \<Rightarrow> ('e + 'a) \<times> 's"

section \<open>Control flow\<close>

definition ret :: "'a \<Rightarrow> ('s, 'e, 'a) action" where
  "ret x = (\<lambda>s. (Inr x, s))"

definition throw :: "'e \<Rightarrow> ('s, 'e, 'a) action" where
  "throw e = (\<lambda>s. (Inl e, s))"

definition andThen :: "('s, 'e, 'a) action \<Rightarrow> ('a \<Rightarrow> ('s, 'e, 'b) action) \<Rightarrow> ('s, 'e, 'b) action" where
  "andThen m f = (\<lambda>s. case m s of (Inl e, s') \<Rightarrow> (Inl e, s') | (Inr x, s') \<Rightarrow> f x s')"

definition catching :: "('s, 'e, 'a) action \<Rightarrow> ('e \<Rightarrow> ('s, 'e, 'a) action) \<Rightarrow> ('s, 'e, 'a) action" where
  "catching m h = (\<lambda>s. case m s of (Inl e, s') \<Rightarrow> h e s' | (Inr x, s') \<Rightarrow> (Inr x, s'))"

definition attempt :: "('s, 'e, 'a) action \<Rightarrow> ('s, 'f, 'e + 'a) action" where
  "attempt m = (\<lambda>s. case m s of (r, s') \<Rightarrow> (Inr r, s'))"

definition gets :: "('s \<Rightarrow> 'a) \<Rightarrow> ('s, 'e, 'a) action" where
  "gets f = (\<lambda>s. (Inr (f s), s))"

definition modify :: "('s \<Rightarrow> 's) \<Rightarrow> ('s, 'e, unit) action" where
  "modify f = (\<lambda>s. (Inr (), f s))"

definition whenever :: "bool \<Rightarrow> ('s, 'e, unit) action \<Rightarrow> ('s, 'e, unit) action" where
  "whenever b m = (if b then m else ret ())"

definition throwIf :: "bool \<Rightarrow> 'e \<Rightarrow> ('s, 'e, unit) action" where
  "throwIf b e = (if b then throw e else ret ())"

definition orThrow :: "'e \<Rightarrow> 'a option \<Rightarrow> ('s, 'e, 'a) action" where
  "orThrow e v = (case v of None \<Rightarrow> throw e | Some x \<Rightarrow> ret x)"

fun forEach :: "('a \<Rightarrow> ('s, 'e, unit) action) \<Rightarrow> 'a list \<Rightarrow> ('s, 'e, unit) action" where
  "forEach f [] = ret ()"
| "forEach f (x # xs) = andThen (f x) (\<lambda>_. forEach f xs)"

fun mapEach :: "('a \<Rightarrow> ('s, 'e, 'b) action) \<Rightarrow> 'a list \<Rightarrow> ('s, 'e, 'b list) action" where
  "mapEach f [] = ret []"
| "mapEach f (x # xs) = andThen (f x) (\<lambda>y. andThen (mapEach f xs) (\<lambda>ys. ret (y # ys)))"

lemma exec_ret [exec]: "ret x s = (Inr x, s)"
  by (simp add: ret_def)

lemma exec_throw [exec]: "throw e s = (Inl e, s)"
  by (simp add: throw_def)

lemma exec_andThen [exec]:
  "andThen m f s = (case m s of (Inl e, s') \<Rightarrow> (Inl e, s') | (Inr x, s') \<Rightarrow> f x s')"
  by (simp add: andThen_def)

lemma exec_catching [exec]:
  "catching m h s = (case m s of (Inl e, s') \<Rightarrow> h e s' | (Inr x, s') \<Rightarrow> (Inr x, s'))"
  by (simp add: catching_def)

lemma exec_attempt [exec]: "attempt m s = (Inr (fst (m s)), snd (m s))"
  by (simp add: attempt_def split: prod.split)

lemma exec_gets [exec]: "gets f s = (Inr (f s), s)"
  by (simp add: gets_def)

lemma exec_modify [exec]: "modify f s = (Inr (), f s)"
  by (simp add: modify_def)

lemma exec_whenever [exec]: "whenever b m s = (if b then m s else (Inr (), s))"
  by (simp add: whenever_def exec_ret)

lemma exec_throwIf [exec]: "throwIf b e s = (if b then (Inl e, s) else (Inr (), s))"
  by (simp add: throwIf_def exec_ret exec_throw)

lemma exec_orThrow [exec]:
  "orThrow e v s = (case v of None \<Rightarrow> (Inl e, s) | Some x \<Rightarrow> (Inr x, s))"
  by (simp add: orThrow_def exec_ret exec_throw split: option.split)

lemma andThen_ret_left [simp]: "andThen (ret x) f = f x"
  by (simp add: andThen_def ret_def)

lemma andThen_throw [simp]: "andThen (throw e) f = throw e"
  by (simp add: andThen_def throw_def)

lemma andThen_Inr:
  assumes "andThen m f s = (Inr y, t)"
  obtains x u where "m s = (Inr x, u)" and "f x u = (Inr y, t)"
  using assms by (auto simp: andThen_def split: prod.splits sum.splits)

section \<open>Relations between the states before and after\<close>

definition relates :: "('s \<Rightarrow> 's \<Rightarrow> bool) \<Rightarrow> ('s, 'e, 'a) action \<Rightarrow> bool" where
  "relates R m \<longleftrightarrow> (\<forall>s. R s (snd (m s)))"

lemma relatesD: "relates R m \<Longrightarrow> R s (snd (m s))"
  by (simp add: relates_def)

lemma relatesI: "(\<And>s. R s (snd (m s))) \<Longrightarrow> relates R m"
  by (simp add: relates_def)

named_theorems pres \<open>rules that establish a state relation for a composed action\<close>

locale state_rel =
  fixes R :: "'s \<Rightarrow> 's \<Rightarrow> bool"
  assumes R_refl: "R s s"
    and R_trans: "R s t \<Longrightarrow> R t u \<Longrightarrow> R s u"
begin

lemma rel_ret: "relates R (ret x)"
  by (simp add: relates_def ret_def R_refl)

lemma rel_throw: "relates R (throw e)"
  by (simp add: relates_def throw_def R_refl)

lemma rel_gets: "relates R (gets f)"
  by (simp add: relates_def gets_def R_refl)

lemma rel_modify: "(\<And>s. R s (f s)) \<Longrightarrow> relates R (modify f)"
  by (simp add: relates_def modify_def)

lemma rel_andThen:
  assumes "relates R m" and "\<And>x. relates R (f x)"
  shows "relates R (andThen m f)"
proof (rule relatesI)
  fix s
  from relatesD [OF assms(1), of s] relatesD [OF assms(2)]
  show "R s (snd (andThen m f s))"
    by (auto simp: exec_andThen split: prod.split sum.split intro: R_trans)
qed

lemma rel_catching:
  assumes "relates R m" and "\<And>e. relates R (h e)"
  shows "relates R (catching m h)"
proof (rule relatesI)
  fix s
  from relatesD [OF assms(1), of s] relatesD [OF assms(2)]
  show "R s (snd (catching m h s))"
    by (auto simp: exec_catching split: prod.split sum.split intro: R_trans)
qed

lemma rel_attempt: "relates R m \<Longrightarrow> relates R (attempt m)"
  by (simp add: relates_def exec_attempt)

lemma rel_whenever: "(b \<Longrightarrow> relates R m) \<Longrightarrow> relates R (whenever b m)"
  by (simp add: whenever_def rel_ret)

lemma rel_throwIf: "relates R (throwIf b e)"
  by (simp add: throwIf_def rel_ret rel_throw)

lemma rel_orThrow: "relates R (orThrow e v)"
  by (simp add: orThrow_def rel_ret rel_throw split: option.split)

lemma rel_if: "(b \<Longrightarrow> relates R m) \<Longrightarrow> (\<not> b \<Longrightarrow> relates R n) \<Longrightarrow> relates R (if b then m else n)"
  by simp

lemma rel_option:
  "(v = None \<Longrightarrow> relates R m) \<Longrightarrow> (\<And>x. v = Some x \<Longrightarrow> relates R (f x)) \<Longrightarrow>
    relates R (case v of None \<Rightarrow> m | Some x \<Rightarrow> f x)"
  by (cases v) simp_all

lemma rel_sum:
  "(\<And>e. v = Inl e \<Longrightarrow> relates R (g e)) \<Longrightarrow> (\<And>x. v = Inr x \<Longrightarrow> relates R (f x)) \<Longrightarrow>
    relates R (case v of Inl e \<Rightarrow> g e | Inr x \<Rightarrow> f x)"
  by (cases v) simp_all

lemma rel_forEach: "(\<And>x. x \<in> set xs \<Longrightarrow> relates R (f x)) \<Longrightarrow> relates R (forEach f xs)"
  by (induction xs) (simp_all add: rel_ret rel_andThen)

lemma rel_mapEach: "(\<And>x. x \<in> set xs \<Longrightarrow> relates R (f x)) \<Longrightarrow> relates R (mapEach f xs)"
  by (induction xs) (simp_all add: rel_ret rel_andThen)

lemma rel_let: "relates R (f v) \<Longrightarrow> relates R (let x = v in f x)"
  by simp

lemmas rel_rules = rel_ret rel_throw rel_gets rel_andThen rel_catching rel_attempt rel_whenever
  rel_throwIf rel_orThrow rel_if rel_option rel_sum rel_forEach rel_mapEach rel_let

end

text \<open>An invariant is kept, and a part of the state is left alone: two instances.\<close>

definition keeps :: "('s \<Rightarrow> bool) \<Rightarrow> 's \<Rightarrow> 's \<Rightarrow> bool" where
  "keeps I s t \<longleftrightarrow> (I s \<longrightarrow> I t)"

definition same :: "('s \<Rightarrow> 'a) \<Rightarrow> 's \<Rightarrow> 's \<Rightarrow> bool" where
  "same f s t \<longleftrightarrow> f t = f s"

interpretation keeping: state_rel "keeps I" for I
  by unfold_locales (auto simp: keeps_def)

interpretation sameness: state_rel "same f" for f
  by unfold_locales (auto simp: same_def)

lemma keeping_modify: "(\<And>s. I s \<Longrightarrow> I (f s)) \<Longrightarrow> relates (keeps I) (modify f)"
  by (rule keeping.rel_modify) (simp add: keeps_def)

lemma sameness_modify: "(\<And>s. g (f s) = g s) \<Longrightarrow> relates (same g) (modify f)"
  by (rule sameness.rel_modify) (simp add: same_def)

lemma keepsD: "relates (keeps I) m \<Longrightarrow> I s \<Longrightarrow> I (snd (m s))"
  by (auto dest: relatesD [where s = s] simp: keeps_def)

lemma sameD: "relates (same f) m \<Longrightarrow> f (snd (m s)) = f s"
  by (auto dest: relatesD [where s = s] simp: same_def)

end
