(* ===== verification/Tables.thy ===== *)
theory Tables imports Prelude begin

text \<open>
  What the services use of a TypeORM repository. A table is the list of its rows in the order they
  were inserted, every row with a generated identifier; the criteria of \<open>find\<close>, \<open>update\<close> and
  \<open>remove\<close> are predicates on rows. \<open>save\<close> replaces the row with the identifier of its
  argument or inserts a new one. The locale \<open>repository\<close> has the laws of a table kept in a
  component of the state; every table of the model interprets it.
\<close>

definition save_row :: "('r \<Rightarrow> string) \<Rightarrow> 'r \<Rightarrow> 'r list \<Rightarrow> 'r list" where
  "save_row key r rs =
     (if key r \<in> key ` set rs then map (\<lambda>x. if key x = key r then r else x) rs else rs @ [r])"

definition update_rows :: "('r \<Rightarrow> bool) \<Rightarrow> ('r \<Rightarrow> 'r) \<Rightarrow> 'r list \<Rightarrow> 'r list" where
  "update_rows P f = map (\<lambda>x. if P x then f x else x)"

definition delete_rows :: "('r \<Rightarrow> bool) \<Rightarrow> 'r list \<Rightarrow> 'r list" where
  "delete_rows P = filter (\<lambda>x. \<not> P x)"

definition count_rows :: "('r \<Rightarrow> bool) \<Rightarrow> 'r list \<Rightarrow> nat" where
  "count_rows P rs = length (filter P rs)"

definition row_of :: "('r \<Rightarrow> string) \<Rightarrow> string \<Rightarrow> 'r list \<Rightarrow> 'r option" where
  "row_of key k = find (\<lambda>x. key x = k)"

text \<open>\<open>skip((page - 1) * pageSize).take(pageSize)\<close>.\<close>

definition page_rows :: "nat \<Rightarrow> nat \<Rightarrow> 'r list \<Rightarrow> 'r list" where
  "page_rows page pageSize rs = take pageSize (drop ((page - 1) * pageSize) rs)"

definition unique_keys :: "('r \<Rightarrow> 'k) \<Rightarrow> 'r list \<Rightarrow> bool" where
  "unique_keys key rs \<longleftrightarrow> distinct (map key rs)"

section \<open>Laws of the row lists\<close>

lemma find_app: "find P (xs @ ys) = (case find P xs of None \<Rightarrow> find P ys | Some x \<Rightarrow> Some x)"
  by (induction xs) auto

lemma find_in: "find P xs = Some x \<Longrightarrow> x \<in> set xs \<and> P x"
  by (auto simp: find_Some_iff)

lemma find_map: "find P (map f xs) = map_option f (find (P \<circ> f) xs)"
  by (induction xs) auto

lemma find_unique:
  "unique_keys key rs \<Longrightarrow> r \<in> set rs \<Longrightarrow> row_of key (key r) rs = Some r"
  unfolding row_of_def
  by (induction rs) (auto simp: unique_keys_def image_iff)

lemma row_of_in: "row_of key k rs = Some r \<Longrightarrow> r \<in> set rs \<and> key r = k"
  by (auto simp: row_of_def dest: find_in)

lemma row_of_None: "row_of key k rs = None \<longleftrightarrow> k \<notin> key ` set rs"
  by (auto simp: row_of_def find_None_iff)

lemma row_of_save: "row_of key k (save_row key r rs) = (if k = key r then Some r else row_of key k rs)"
proof (cases "key r \<in> key ` set rs")
  case True
  have "find (\<lambda>x. key x = k) (map (\<lambda>x. if key x = key r then r else x) rs) =
      (if k = key r then (if k \<in> key ` set rs then Some r else None) else find (\<lambda>x. key x = k) rs)"
    by (induction rs) auto
  with True show ?thesis by (auto simp: save_row_def row_of_def)
next
  case False
  then have "k = key r \<Longrightarrow> row_of key k rs = None" by (auto simp: row_of_None)
  with False show ?thesis
    by (auto simp: save_row_def row_of_def find_app split: option.split)
qed

lemma row_of_update:
  assumes "\<And>x. key (f x) = key x"
  shows "row_of key k (update_rows P f rs) =
    map_option (\<lambda>x. if P x then f x else x) (row_of key k rs)"
  unfolding row_of_def update_rows_def by (induction rs) (auto simp: assms)

lemma keys_save: "map key (save_row key r rs) = (if key r \<in> key ` set rs then map key rs else map key rs @ [key r])"
  by (auto simp: save_row_def)

lemma keys_update: "(\<And>x. key (f x) = key x) \<Longrightarrow> map key (update_rows P f rs) = map key rs"
  by (simp add: update_rows_def)

lemma unique_save: "unique_keys key rs \<Longrightarrow> unique_keys key (save_row key r rs)"
  by (auto simp: unique_keys_def keys_save)

lemma unique_update: "(\<And>x. key (f x) = key x) \<Longrightarrow> unique_keys key rs \<Longrightarrow> unique_keys key (update_rows P f rs)"
  by (simp add: unique_keys_def keys_update)

lemma unique_delete: "unique_keys key rs \<Longrightarrow> unique_keys key (delete_rows P rs)"
  by (auto simp: unique_keys_def delete_rows_def distinct_map_filter)

lemma set_update: "set (update_rows P f rs) = f ` {x \<in> set rs. P x} \<union> {x \<in> set rs. \<not> P x}"
  by (auto simp: update_rows_def)

lemma set_delete: "set (delete_rows P rs) = {x \<in> set rs. \<not> P x}"
  by (auto simp: delete_rows_def)

lemma set_save:
  "unique_keys key rs \<Longrightarrow> set (save_row key r rs) = insert r {x \<in> set rs. key x \<noteq> key r}"
  by (auto simp: save_row_def image_iff)

lemma update_rows_in: "x \<in> set (update_rows P f rs) \<Longrightarrow> \<exists>y \<in> set rs. x = (if P y then f y else y)"
  by (auto simp: update_rows_def)

lemma length_update [simp]: "length (update_rows P f rs) = length rs"
  by (simp add: update_rows_def)

lemma update_none: "\<forall>x \<in> set rs. \<not> P x \<Longrightarrow> update_rows P f rs = rs"
  by (induction rs) (auto simp: update_rows_def)

section \<open>A table in the state\<close>

locale repository =
  fixes rows :: "'s \<Rightarrow> 'r list"
    and put :: "('r list \<Rightarrow> 'r list) \<Rightarrow> 's \<Rightarrow> 's"
    and key :: "'r \<Rightarrow> string"
  assumes rows_put: "rows (put f s) = f (rows s)"
    and put_put: "put f (put g s) = put (f \<circ> g) s"
begin

lemma saved_row_found: "row_of key k (rows (put (save_row key r) s)) = (if k = key r then Some r else row_of key k (rows s))"
  by (simp add: rows_put row_of_save)

lemma updated_row_found:
  "(\<And>x. key (f x) = key x) \<Longrightarrow>
     row_of key k (rows (put (update_rows P f) s)) = map_option (\<lambda>x. if P x then f x else x) (row_of key k (rows s))"
  by (simp add: rows_put row_of_update)

lemma deleted_row_gone: "r \<in> set (rows (put (delete_rows P) s)) \<Longrightarrow> \<not> P r"
  by (simp add: rows_put set_delete)

lemma keys_stay_unique:
  "unique_keys key (rows s) \<Longrightarrow> unique_keys key (rows (put (save_row key r) s))"
  "(\<And>x. key (f x) = key x) \<Longrightarrow> unique_keys key (rows s) \<Longrightarrow> unique_keys key (rows (put (update_rows P f) s))"
  "unique_keys key (rows s) \<Longrightarrow> unique_keys key (rows (put (delete_rows P) s))"
  by (simp_all add: rows_put unique_save unique_update unique_delete)

lemma save_twice: "key r = key r' \<Longrightarrow> row_of key (key r') (rows (put (save_row key r') (put (save_row key r) s))) = Some r'"
  by (simp add: rows_put row_of_save)

end

end
