(* ===== verification/Json.thy ===== *)
theory Json imports Prelude begin

text \<open>
  The part of \<open>JSON.stringify\<close> and \<open>JSON.parse\<close> the services rely on (template
  interpolation, the cache, the queue). Text is a list of code units below 256. A number is kept
  as the text that ECMAScript prints for it, so no rounding is modelled; \<open>canon\<close> stands for
  \<open>Number(text).toString()\<close>. The reader is a recursive descent over the text with fuel, and
  \<open>fuel_enough\<close> shows that the fuel \<open>json_parse\<close> gives is never exhausted: its
  \<open>None\<close> is always a \<open>SyntaxError\<close>. The main lemma is the round trip.
\<close>

section \<open>Values and printing\<close>

datatype json =
    JNull
  | JBool bool
  | JNum string
  | JStr string
  | JArr "json list"
  | JObj "(string \<times> json) list"

definition hex_digits :: string where
  "hex_digits = ''0123456789abcdef''"

definition special_char :: "char \<Rightarrow> bool" where
  "special_char c \<longleftrightarrow> c = CHR 0x22 \<or> c = CHR 0x5C \<or> (of_char c :: nat) < 32"

definition escape_char :: "char \<Rightarrow> string" where
  "escape_char c =
     (if c = CHR 0x22 then [CHR 0x5C, CHR 0x22]
      else if c = CHR 0x5C then [CHR 0x5C, CHR 0x5C]
      else if c = CHR 0x08 then [CHR 0x5C, CHR ''b'']
      else if c = CHR 0x0C then [CHR 0x5C, CHR ''f'']
      else if c = CHR 0x0A then [CHR 0x5C, CHR ''n'']
      else if c = CHR 0x0D then [CHR 0x5C, CHR ''r'']
      else if c = CHR 0x09 then [CHR 0x5C, CHR ''t'']
      else if (of_char c :: nat) < 32 then
        [CHR 0x5C, CHR ''u'', CHR ''0'', CHR ''0'',
         hex_digits ! (of_char c div 16), hex_digits ! (of_char c mod 16)]
      else [c])"

definition escape :: "string \<Rightarrow> string" where
  "escape s = concat (map escape_char s)"

definition quote :: "string \<Rightarrow> string" where
  "quote s = CHR 0x22 # escape s @ [CHR 0x22]"

fun stringify :: "json \<Rightarrow> string"
  and str_items :: "json list \<Rightarrow> string"
  and str_fields :: "(string \<times> json) list \<Rightarrow> string" where
  "stringify JNull = ''null''"
| "stringify (JBool b) = (if b then ''true'' else ''false'')"
| "stringify (JNum n) = n"
| "stringify (JStr s) = quote s"
| "stringify (JArr js) = ''['' @ str_items js @ '']''"
| "stringify (JObj kvs) = ''{'' @ str_fields kvs @ ''}''"
| "str_items [] = ''''"
| "str_items [j] = stringify j"
| "str_items (j # j' # js) = stringify j @ '','' @ str_items (j' # js)"
| "str_fields [] = ''''"
| "str_fields [(k, j)] = quote k @ '':'' @ stringify j"
| "str_fields ((k, j) # kv # kvs) = quote k @ '':'' @ stringify j @ '','' @ str_fields (kv # kvs)"

section \<open>Reading\<close>

definition is_ws :: "char \<Rightarrow> bool" where
  "is_ws c \<longleftrightarrow> c \<in> {CHR 0x20, CHR 0x09, CHR 0x0A, CHR 0x0D}"

definition skip_ws :: "string \<Rightarrow> string" where
  "skip_ws = dropWhile is_ws"

definition is_digit :: "char \<Rightarrow> bool" where
  "is_digit c \<longleftrightarrow> c \<in> set ''0123456789''"

definition is_num_char :: "char \<Rightarrow> bool" where
  "is_num_char c \<longleftrightarrow> is_digit c \<or> c \<in> set ''+-.eE''"

text \<open>\<open>-? (0 | [1-9] digits) (. digits+)? ([eE] [+-]? digits+)?\<close>\<close>

definition num_exp_ok :: "string \<Rightarrow> bool" where
  "num_exp_ok s \<longleftrightarrow>
     (case s of
        [] \<Rightarrow> True
      | e # t \<Rightarrow> (e = CHR ''e'' \<or> e = CHR ''E'') \<and>
          (let u = (case t of [] \<Rightarrow> [] | c # t' \<Rightarrow> if c = CHR ''+'' \<or> c = CHR ''-'' then t' else t)
           in u \<noteq> [] \<and> list_all is_digit u))"

definition num_frac_ok :: "string \<Rightarrow> bool" where
  "num_frac_ok s \<longleftrightarrow>
     (case s of
        [] \<Rightarrow> True
      | c # t \<Rightarrow> if c = CHR ''.'' then takeWhile is_digit t \<noteq> [] \<and> num_exp_ok (dropWhile is_digit t)
                 else num_exp_ok s)"

definition num_ok :: "string \<Rightarrow> bool" where
  "num_ok s =
     (let t = (case s of [] \<Rightarrow> [] | c # s' \<Rightarrow> if c = CHR ''-'' then s' else s);
          ds = takeWhile is_digit t
      in ds \<noteq> [] \<and> (hd ds = CHR ''0'' \<longrightarrow> length ds = 1) \<and> num_frac_ok (dropWhile is_digit t))"

definition hex_val :: "char \<Rightarrow> nat option" where
  "hex_val c =
     (let n = (of_char c :: nat) in
      if 48 \<le> n \<and> n \<le> 57 then Some (n - 48)
      else if 97 \<le> n \<and> n \<le> 102 then Some (n - 87)
      else if 65 \<le> n \<and> n \<le> 70 then Some (n - 55)
      else None)"

definition read_hex4 :: "string \<Rightarrow> (char \<times> string) option" where
  "read_hex4 s =
     (case s of
        a # b # c # d # r \<Rightarrow>
          (case (hex_val a, hex_val b, hex_val c, hex_val d) of
             (Some x, Some y, Some z, Some w) \<Rightarrow>
               (if x = 0 \<and> y = 0 then Some (char_of (16 * z + w), r) else None)
           | _ \<Rightarrow> None)
      | _ \<Rightarrow> None)"

definition read_escape :: "string \<Rightarrow> (char \<times> string) option" where
  "read_escape s =
     (case s of
        [] \<Rightarrow> None
      | c # r \<Rightarrow>
          (if c = CHR 0x22 \<or> c = CHR 0x5C \<or> c = CHR ''/'' then Some (c, r)
           else if c = CHR ''b'' then Some (CHR 0x08, r)
           else if c = CHR ''f'' then Some (CHR 0x0C, r)
           else if c = CHR ''n'' then Some (CHR 0x0A, r)
           else if c = CHR ''r'' then Some (CHR 0x0D, r)
           else if c = CHR ''t'' then Some (CHR 0x09, r)
           else if c = CHR ''u'' then read_hex4 r
           else None))"

lemma read_escape_shorter: "read_escape s = Some (c, r) \<Longrightarrow> length r < length s"
  by (auto simp: read_escape_def read_hex4_def split: list.splits if_splits option.splits)

text \<open>The characters of a string literal, up to its closing quote.\<close>

function read_chars :: "string \<Rightarrow> (string \<times> string) option" where
  "read_chars [] = None"
| "read_chars (c # r) =
     (if c = CHR 0x22 then Some ([], r)
      else if c = CHR 0x5C then
        (case read_escape r of
           None \<Rightarrow> None
         | Some (d, r') \<Rightarrow> map_option (\<lambda>(s, t). (d # s, t)) (read_chars r'))
      else if (of_char c :: nat) < 32 then None
      else map_option (\<lambda>(s, t). (c # s, t)) (read_chars r))"
  by pat_completeness auto
termination
  by (relation "measure length") (auto dest: read_escape_shorter)

lemma read_chars_shorter: "read_chars s = Some (v, r) \<Longrightarrow> length r < length s"
proof (induction s arbitrary: v r rule: read_chars.induct)
  case (2 c s)
  then show ?case
    by (auto split: if_splits option.splits dest!: read_escape_shorter) fastforce+
qed simp

definition read_literal :: "string \<Rightarrow> 'a \<Rightarrow> string \<Rightarrow> ('a \<times> string) option" where
  "read_literal w v s = (if prefix w s then Some (v, drop (length w) s) else None)"

definition read_num :: "(string \<Rightarrow> string) \<Rightarrow> string \<Rightarrow> (json \<times> string) option" where
  "read_num canon s =
     (let n = takeWhile is_num_char s
      in if num_ok n then Some (JNum (canon n), dropWhile is_num_char s) else None)"

text \<open>An object keeps the first position of a key and its last value.\<close>

fun obj_put :: "string \<Rightarrow> json \<Rightarrow> (string \<times> json) list \<Rightarrow> (string \<times> json) list" where
  "obj_put k v [] = [(k, v)]"
| "obj_put k v ((k', v') # kvs) = (if k = k' then (k, v) # kvs else (k', v') # obj_put k v kvs)"

fun read_value :: "(string \<Rightarrow> string) \<Rightarrow> nat \<Rightarrow> string \<Rightarrow> (json \<times> string) option"
  and read_items :: "(string \<Rightarrow> string) \<Rightarrow> nat \<Rightarrow> string \<Rightarrow> (json list \<times> string) option"
  and read_fields :: "(string \<Rightarrow> string) \<Rightarrow> nat \<Rightarrow> (string \<times> json) list \<Rightarrow> string
        \<Rightarrow> ((string \<times> json) list \<times> string) option" where
  "read_value canon 0 s = None"
| "read_value canon (Suc n) s =
     (case skip_ws s of
        [] \<Rightarrow> None
      | c # r \<Rightarrow>
          if c = CHR 0x22 then map_option (\<lambda>(v, t). (JStr v, t)) (read_chars r)
          else if c = CHR ''['' then
            (case skip_ws r of
               [] \<Rightarrow> None
             | d # t \<Rightarrow> if d = CHR '']'' then Some (JArr [], t)
                        else map_option (\<lambda>(v, t). (JArr v, t)) (read_items canon n r))
          else if c = CHR ''{'' then
            (case skip_ws r of
               [] \<Rightarrow> None
             | d # t \<Rightarrow> if d = CHR ''}'' then Some (JObj [], t)
                        else map_option (\<lambda>(v, t). (JObj v, t)) (read_fields canon n [] r))
          else if c = CHR ''n'' then read_literal ''null'' JNull (c # r)
          else if c = CHR ''t'' then read_literal ''true'' (JBool True) (c # r)
          else if c = CHR ''f'' then read_literal ''false'' (JBool False) (c # r)
          else read_num canon (c # r))"
| "read_items canon 0 s = None"
| "read_items canon (Suc n) s =
     (case read_value canon n s of
        None \<Rightarrow> None
      | Some (v, r) \<Rightarrow>
          (case skip_ws r of
             [] \<Rightarrow> None
           | c # t \<Rightarrow> if c = CHR '']'' then Some ([v], t)
                      else if c = CHR '','' then
                        map_option (\<lambda>(vs, u). (v # vs, u)) (read_items canon n t)
                      else None))"
| "read_fields canon 0 acc s = None"
| "read_fields canon (Suc n) acc s =
     (case skip_ws s of
        [] \<Rightarrow> None
      | q # s1 \<Rightarrow>
          if q \<noteq> CHR 0x22 then None
          else (case read_chars s1 of
             None \<Rightarrow> None
           | Some (k, s2) \<Rightarrow>
               (case skip_ws s2 of
                  [] \<Rightarrow> None
                | col # s3 \<Rightarrow>
                    if col \<noteq> CHR '':'' then None
                    else (case read_value canon n s3 of
                       None \<Rightarrow> None
                     | Some (v, r) \<Rightarrow>
                         (case skip_ws r of
                            [] \<Rightarrow> None
                          | c # t \<Rightarrow> if c = CHR ''}'' then Some (obj_put k v acc, t)
                                     else if c = CHR '','' then read_fields canon n (obj_put k v acc) t
                                     else None)))))"

definition json_parse :: "(string \<Rightarrow> string) \<Rightarrow> string \<Rightarrow> json option" where
  "json_parse canon s =
     (case read_value canon (Suc (2 * length s)) s of
        None \<Rightarrow> None
      | Some (v, r) \<Rightarrow> if skip_ws r = [] then Some v else None)"

section \<open>Fuel\<close>

lemma skip_ws_shorter: "length (skip_ws s) \<le> length s"
  unfolding skip_ws_def by (rule length_dropWhile_le)

lemma skip_ws_Cons_shorter: "skip_ws s = c # r \<Longrightarrow> length r < length s"
  using skip_ws_shorter [of s] by simp

lemma read_literal_shorter: "read_literal w v (c # s) = Some (x, r) \<Longrightarrow> w \<noteq> [] \<Longrightarrow> length r \<le> length s"
  by (cases w) (auto simp: read_literal_def split: if_splits)

lemma num_ok_Nil [simp]: "\<not> num_ok []"
  by (simp add: num_ok_def)

lemma read_num_shorter: "read_num canon s = Some (x, r) \<Longrightarrow> length r < length s"
proof -
  assume a: "read_num canon s = Some (x, r)"
  then have "takeWhile is_num_char s \<noteq> []" and r: "r = dropWhile is_num_char s"
    by (auto simp: read_num_def Let_def split: if_splits)
  then have "0 < length (takeWhile is_num_char s)" by blast
  moreover have "length (takeWhile is_num_char s) + length r = length s"
    using r by (metis length_append takeWhile_dropWhile_id)
  ultimately show ?thesis by linarith
qed

lemma read_shorter:
  "read_value canon n s = Some (v, r) \<Longrightarrow> length r < length s"
  "read_items canon n s = Some (vs, r) \<Longrightarrow> length r < length s"
  "read_fields canon n acc s = Some (fs, r) \<Longrightarrow> length r < length s"
proof (induction canon n s and canon n s and canon n acc s arbitrary: v r and vs r and fs r
    rule: read_value_read_items_read_fields.induct)
  case (2 canon n s)
  then show ?case
    by (auto split: list.splits if_splits dest!: skip_ws_Cons_shorter read_chars_shorter
        read_literal_shorter read_num_shorter) (fastforce dest: less_trans Suc_lessD)+
next
  case (4 canon n s)
  then show ?case
    by (auto split: list.splits if_splits option.splits dest!: skip_ws_Cons_shorter) fastforce+
next
  case (6 canon n acc s)
  then show ?case
    apply (auto split: list.splits if_splits option.splits dest!: skip_ws_Cons_shorter read_chars_shorter)
    apply fastforce+
    done
qed simp_all

text \<open>Once the fuel exceeds twice the length of the text, more of it changes nothing.\<close>

lemma fuel_irrelevant:
  "(2 * length s < n \<longrightarrow> 2 * length s < m \<longrightarrow> read_value canon n s = read_value canon m s) \<and>
   (2 * length s + 1 < n \<longrightarrow> 2 * length s + 1 < m \<longrightarrow> read_items canon n s = read_items canon m s) \<and>
   (2 * length s + 1 < n \<longrightarrow> 2 * length s + 1 < m \<longrightarrow>
     read_fields canon n acc s = read_fields canon m acc s)"
proof (induction n arbitrary: m s acc)
  case (Suc n)
  show ?case
  proof (cases m)
    case m: (Suc k)
    have V: "read_value canon n s = read_value canon k s"
      if "2 * length s < n" "2 * length s < k" for s
      using Suc that by blast
    have I: "read_items canon n s = read_items canon k s"
      if "2 * length s + 1 < n" "2 * length s + 1 < k" for s
      using Suc that by blast
    have F: "read_fields canon n acc s = read_fields canon k acc s"
      if "2 * length s + 1 < n" "2 * length s + 1 < k" for s acc
      using Suc that by blast
    have "read_value canon (Suc n) s = read_value canon (Suc k) s"
      if l: "2 * length s < Suc n" "2 * length s < Suc k"
    proof (cases "skip_ws s")
      case (Cons c r)
      with l I [of r] F [of r] skip_ws_Cons_shorter [OF Cons] show ?thesis
        by (simp split: list.split)
    qed simp
    moreover have "read_items canon (Suc n) s = read_items canon (Suc k) s"
      if l: "2 * length s + 1 < Suc n" "2 * length s + 1 < Suc k"
    proof (cases "read_value canon k s")
      case (Some p)
      obtain x r where p: "p = (x, r)" by (cases p)
      have "length r < length s" using Some p by (auto dest: read_shorter)
      with l V [of s] I Some p show ?thesis
        by (auto split: list.split dest!: skip_ws_Cons_shorter)
    qed (use l V [of s] in simp)
    moreover have "read_fields canon (Suc n) acc s = read_fields canon (Suc k) acc s"
      if l: "2 * length s + 1 < Suc n" "2 * length s + 1 < Suc k"
    proof -
      have V': "read_value canon n u = read_value canon k u" if "length u < length s" for u
        using V l that by simp
      have F': "read_fields canon n a u = read_fields canon k a u" if "length u < length s" for u a
        using F l that by simp
      show ?thesis
      proof (cases "skip_ws s")
        case s1: (Cons q s1)
        note l1 = skip_ws_Cons_shorter [OF s1]
        show ?thesis
        proof (cases "read_chars s1")
          case (Some p)
          obtain key s2 where s2: "read_chars s1 = Some (key, s2)" using Some by (cases p) auto
          note l2 = read_chars_shorter [OF s2]
          show ?thesis
          proof (cases "skip_ws s2")
            case s3: (Cons col s3)
            note l3 = skip_ws_Cons_shorter [OF s3]
            have v: "read_value canon n s3 = read_value canon k s3" using V' l1 l2 l3 by simp
            show ?thesis
            proof (cases "read_value canon k s3")
              case (Some p)
              obtain x r where r: "read_value canon k s3 = Some (x, r)" using Some by (cases p) auto
              note l4 = read_shorter(1) [OF r]
              show ?thesis
              proof (cases "skip_ws r")
                case t: (Cons c t)
                have "read_fields canon n a t = read_fields canon k a t" for a
                  using F' l1 l2 l3 l4 skip_ws_Cons_shorter [OF t] by simp
                then show ?thesis using s1 s2 s3 v r t by simp
              qed (use s1 s2 s3 v r in simp)
            qed (use s1 s2 s3 v in simp)
          qed (use s1 s2 in simp)
        qed (use s1 in simp)
      qed simp
    qed
    ultimately show ?thesis using m by blast
  qed simp
qed simp

section \<open>Round trip\<close>

text \<open>The values \<open>JSON.parse\<close> and the services produce: numbers printed the way
  ECMAScript prints them, no key twice.\<close>

fun wf_json :: "(string \<Rightarrow> string) \<Rightarrow> json \<Rightarrow> bool" where
  "wf_json canon (JNum n) \<longleftrightarrow> num_ok n \<and> list_all is_num_char n \<and> canon n = n"
| "wf_json canon (JArr js) \<longleftrightarrow> (\<forall>j \<in> set js. wf_json canon j)"
| "wf_json canon (JObj kvs) \<longleftrightarrow> distinct (map fst kvs) \<and> (\<forall>p \<in> set kvs. wf_json canon (snd p))"
| "wf_json canon JNull \<longleftrightarrow> True"
| "wf_json canon (JBool b) \<longleftrightarrow> True"
| "wf_json canon (JStr s) \<longleftrightarrow> True"

definition special_chars :: "char list" where
  "special_chars = CHR 0x22 # CHR 0x5C # map char_of [0..<32::nat]"

lemma special_in: "special_char c \<Longrightarrow> c \<in> set special_chars"
proof -
  assume "special_char c"
  moreover have "c = char_of (of_char c :: nat)" by simp
  ultimately show ?thesis
    unfolding special_char_def special_chars_def
    by (metis atLeastLessThan_iff image_eqI le0 list.set_intros(1,2) list.set_map set_upt)
qed

lemma escape_char_special_all:
  "list_all (\<lambda>c. hd (escape_char c) = CHR 0x5C \<and> tl (escape_char c) \<noteq> [] \<and>
     (tl (tl (escape_char c)) = [] \<or> length (tl (escape_char c)) = 5) \<and>
     read_escape (tl (escape_char c)) = Some (c, [])) special_chars"
  by code_simp

lemma read_escape_append:
  "read_escape s = Some (c, u) \<Longrightarrow> read_escape (s @ r) = Some (c, u @ r)"
  by (auto simp: read_escape_def read_hex4_def split: list.splits if_splits option.splits)

lemma escape_char_special:
  assumes "special_char c"
  shows "\<exists>e. escape_char c = CHR 0x5C # e \<and> (\<forall>r. read_escape (e @ r) = Some (c, r))"
proof -
  from special_in [OF assms] escape_char_special_all
  have h: "hd (escape_char c) = CHR 0x5C" "tl (escape_char c) \<noteq> []"
    "read_escape (tl (escape_char c)) = Some (c, [])"
    by (auto simp: list_all_iff)
  then have "escape_char c = CHR 0x5C # tl (escape_char c)"
    by (metis hd_Cons_tl tl_Nil)
  with h(3) show ?thesis
    using read_escape_append by fastforce
qed

lemma escape_char_plain: "\<not> special_char c \<Longrightarrow> escape_char c = [c]"
  by (auto simp: special_char_def escape_char_def)

lemma escape_Cons: "escape (c # s) = escape_char c @ escape s"
  by (simp add: escape_def)

lemma escape_append: "escape (s @ t) = escape s @ escape t"
  by (simp add: escape_def)

lemma read_chars_escape: "read_chars (escape s @ CHR 0x22 # r) = Some (s, r)"
proof (induction s)
  case Nil
  show ?case by (simp add: escape_def)
next
  case (Cons c s)
  show ?case
  proof (cases "special_char c")
    case True
    then obtain e where "escape_char c = CHR 0x5C # e" "\<forall>r. read_escape (e @ r) = Some (c, r)"
      using escape_char_special by blast
    with Cons show ?thesis by (simp add: escape_Cons)
  next
    case False
    with Cons show ?thesis by (auto simp: escape_Cons escape_char_plain special_char_def)
  qed
qed

lemma skip_ws_id: "\<not> is_ws c \<Longrightarrow> skip_ws (c # r) = c # r"
  by (simp add: skip_ws_def)

lemma ws_marks [simp]:
  "\<not> is_ws CHR 0x22" "\<not> is_ws CHR ''[''" "\<not> is_ws CHR '']''" "\<not> is_ws CHR ''{''"
  "\<not> is_ws CHR ''}''" "\<not> is_ws CHR '':''" "\<not> is_ws CHR '',''" "\<not> is_ws CHR ''n''"
  "\<not> is_ws CHR ''t''" "\<not> is_ws CHR ''f''"
  by (simp_all add: is_ws_def)

lemma num_ok_first:
  assumes "num_ok (c # n)"
  shows "is_digit c \<or> c = CHR ''-''"
  using assms by (auto simp: num_ok_def Let_def split: if_splits)

lemma num_first_plain:
  "is_digit c \<or> c = CHR ''-'' \<Longrightarrow> \<not> is_ws c \<and> c \<notin> set ''[]{}ntf'' \<and> c \<noteq> CHR 0x22"
  by (auto simp: is_digit_def is_ws_def)

definition ends_num :: "string \<Rightarrow> bool" where
  "ends_num r \<longleftrightarrow> (case r of [] \<Rightarrow> True | c # _ \<Rightarrow> \<not> is_num_char c)"

lemma ends_num_simps [simp]:
  "ends_num []" "ends_num (CHR '','' # r)" "ends_num (CHR '']'' # r)" "ends_num (CHR ''}'' # r)"
  by (auto simp: ends_num_def is_num_char_def is_digit_def)

lemma read_num_canonical:
  assumes "num_ok n" "list_all is_num_char n" "canon n = n" "ends_num r"
  shows "read_num canon (n @ r) = Some (JNum n, r)"
proof -
  have "takeWhile is_num_char (n @ r) = n" "dropWhile is_num_char (n @ r) = r"
    using assms(2,4) by (cases r; auto simp: list_all_iff ends_num_def takeWhile_append dropWhile_append)+
  then show ?thesis using assms by (simp add: read_num_def)
qed

text \<open>A printed value starts with a character that says which kind of value it is.\<close>

lemma stringify_first:
  assumes "wf_json canon j"
  obtains c t where "stringify j = c # t" and "\<not> is_ws c" and "c \<noteq> CHR '']''"
proof (cases j)
  case (JNum n)
  with assms obtain c t where "n = c # t" by (cases n) auto
  with JNum assms have "is_digit c \<or> c = CHR ''-''"
    using num_ok_first [of c t] by simp
  with num_first_plain have "\<not> is_ws c" "c \<noteq> CHR '']''" by auto
  with JNum \<open>n = c # t\<close> that show ?thesis by simp
next
  case (JBool b)
  with that show ?thesis by (cases b) simp_all
qed (use that in \<open>simp_all add: quote_def\<close>)

lemma skip_ws_stringify: "wf_json canon j \<Longrightarrow> skip_ws (stringify j @ r) = stringify j @ r"
  by (erule stringify_first) (auto simp: skip_ws_id)

lemma obj_put_new: "k \<notin> fst ` set acc \<Longrightarrow> obj_put k v acc = acc @ [(k, v)]"
  by (induction acc) auto


text \<open>A statement that holds from some fuel on.\<close>

definition late :: "(nat \<Rightarrow> bool) \<Rightarrow> bool" where
  "late P \<longleftrightarrow> (\<exists>N. \<forall>n \<ge> N. P n)"

lemma late_Suc:
  assumes "late P" and "\<And>n. P n \<Longrightarrow> Q (Suc n)"
  shows "late Q"
proof -
  obtain N where "\<forall>n \<ge> N. P n" using assms(1) by (auto simp: late_def)
  with assms(2) have "\<forall>n \<ge> Suc N. Q n" by (metis Suc_le_D Suc_le_mono)
  then show ?thesis by (auto simp: late_def)
qed

lemma late_always: "(\<And>n. P (Suc n)) \<Longrightarrow> late P"
  by (rule late_Suc [where P = "\<lambda>_. True"]) (simp_all add: late_def)

lemma late_both: "late P \<Longrightarrow> late Q \<Longrightarrow> late (\<lambda>n. P n \<and> Q n)"
  unfolding late_def by (metis le_trans linear)

definition reads_back :: "(string \<Rightarrow> string) \<Rightarrow> json \<Rightarrow> nat \<Rightarrow> bool" where
  "reads_back canon j n \<longleftrightarrow>
     (\<forall>r. ends_num r \<longrightarrow> read_value canon n (stringify j @ r) = Some (j, r))"

definition items_back :: "(string \<Rightarrow> string) \<Rightarrow> json list \<Rightarrow> nat \<Rightarrow> bool" where
  "items_back canon js n \<longleftrightarrow>
     (\<forall>r. read_items canon n (str_items js @ CHR '']'' # r) = Some (js, r))"

definition fields_back :: "(string \<Rightarrow> string) \<Rightarrow> (string \<times> json) list \<Rightarrow> nat \<Rightarrow> bool" where
  "fields_back canon kvs n \<longleftrightarrow>
     (\<forall>r acc. distinct (map fst (acc @ kvs)) \<longrightarrow>
        read_fields canon n acc (str_fields kvs @ CHR ''}'' # r) = Some (acc @ kvs, r))"

lemma num_reads_back: "wf_json canon (JNum m) \<Longrightarrow> reads_back canon (JNum m) (Suc n)"
proof -
  assume w: "wf_json canon (JNum m)"
  then obtain c t where m: "m = c # t" by (cases m) auto
  with w have "is_digit c \<or> c = CHR ''-''" using num_ok_first [of c t] by simp
  note f = num_first_plain [OF this]
  show ?thesis
    unfolding reads_back_def
  proof (intro allI impI)
    fix r assume "ends_num r"
    with w have "read_num canon (m @ r) = Some (JNum m, r)"
      by (intro read_num_canonical) auto
    with f m show "read_value canon (Suc n) (stringify (JNum m) @ r) = Some (JNum m, r)"
      by (simp add: skip_ws_id)
  qed
qed

lemma items_first:
  assumes "wf_json canon j"
  obtains c t where "str_items (j # js) = c # t" and "\<not> is_ws c" and "c \<noteq> CHR '']''"
proof -
  obtain c t where "stringify j = c # t" "\<not> is_ws c" "c \<noteq> CHR '']''"
    using stringify_first [OF assms] .
  with that show ?thesis by (cases js) simp_all
qed

lemma arr_reads_back:
  assumes "\<forall>j \<in> set js. wf_json canon j" "items_back canon js n" "js \<noteq> []"
  shows "reads_back canon (JArr js) (Suc n)"
proof -
  obtain j js' where js: "js = j # js'" using assms(3) by (cases js) auto
  then obtain c t where i: "str_items js = c # t" "\<not> is_ws c" "c \<noteq> CHR '']''"
    using assms(1) items_first by (metis list.set_intros(1))
  show ?thesis
    unfolding reads_back_def
  proof (intro allI impI)
    fix r
    have "read_items canon n (c # t @ CHR '']'' # r) = Some (js, r)"
      using assms(2) i(1) by (simp add: items_back_def)
    with i show "read_value canon (Suc n) (stringify (JArr js) @ r) = Some (JArr js, r)"
      by (simp add: skip_ws_id)
  qed
qed

lemma fields_first: "kvs \<noteq> [] \<Longrightarrow> \<exists>t. str_fields kvs = CHR 0x22 # t"
  by (cases kvs rule: str_fields.cases) (auto simp: quote_def)

lemma obj_reads_back:
  assumes "distinct (map fst kvs)" "fields_back canon kvs n" "kvs \<noteq> []"
  shows "reads_back canon (JObj kvs) (Suc n)"
proof -
  obtain t where t: "str_fields kvs = CHR 0x22 # t" using fields_first assms(3) by blast
  show ?thesis
    unfolding reads_back_def
  proof (intro allI impI)
    fix r
    have "read_fields canon n [] (CHR 0x22 # t @ CHR ''}'' # r) = Some (kvs, r)"
      using assms(1,2) t by (fastforce simp: fields_back_def)
    with t show "read_value canon (Suc n) (stringify (JObj kvs) @ r) = Some (JObj kvs, r)"
      by (simp add: skip_ws_id)
  qed
qed

lemma str_items_more:
  "js \<noteq> [] \<Longrightarrow> str_items (j # js) = stringify j @ CHR '','' # str_items js"
  by (cases js) auto

lemma str_fields_more:
  "str_fields ((k, j) # kvs) = quote k @ CHR '':'' # stringify j @
     (if kvs = [] then [] else CHR '','' # str_fields kvs)"
  by (cases kvs) auto

lemma items_back_one: "reads_back canon j n \<Longrightarrow> items_back canon [j] (Suc n)"
  by (simp add: reads_back_def items_back_def skip_ws_id)

lemma items_back_more:
  "reads_back canon j n \<Longrightarrow> items_back canon js n \<Longrightarrow> js \<noteq> [] \<Longrightarrow> items_back canon (j # js) (Suc n)"
  by (simp add: reads_back_def items_back_def skip_ws_id str_items_more)

lemma fields_back_step:
  assumes "reads_back canon j n" "kvs \<noteq> [] \<Longrightarrow> fields_back canon kvs n"
  shows "fields_back canon ((k, j) # kvs) (Suc n)"
  unfolding fields_back_def
proof (intro allI impI)
  fix r acc
  assume d: "distinct (map fst (acc @ (k, j) # kvs))"
  then have p: "obj_put k j acc = acc @ [(k, j)]" by (intro obj_put_new) auto
  have v: "read_value canon n (stringify j @ CHR ''}'' # r) = Some (j, CHR ''}'' # r)"
    "read_value canon n (stringify j @ CHR '','' # u) = Some (j, CHR '','' # u)" for u
    using assms(1) by (simp_all add: reads_back_def)
  have "kvs \<noteq> [] \<Longrightarrow>
      read_fields canon n (acc @ [(k, j)]) (str_fields kvs @ CHR ''}'' # r) = Some (acc @ (k, j) # kvs, r)"
    using assms(2) d by (simp add: fields_back_def)
  then show "read_fields canon (Suc n) acc (str_fields ((k, j) # kvs) @ CHR ''}'' # r) =
      Some (acc @ (k, j) # kvs, r)"
    by (simp add: str_fields_more quote_def read_chars_escape skip_ws_id v p)
qed

lemma read_stringify:
  "wf_json canon j \<Longrightarrow> late (reads_back canon j)"
  "\<forall>j \<in> set js. wf_json canon j \<Longrightarrow> js \<noteq> [] \<Longrightarrow> late (items_back canon js)"
  "\<forall>p \<in> set kvs. wf_json canon (snd p) \<Longrightarrow> kvs \<noteq> [] \<Longrightarrow> late (fields_back canon kvs)"
proof (induction j and js and kvs rule: stringify_str_items_str_fields.induct)
  case (3 n)
  then show ?case by (intro late_always num_reads_back)
next
  case (5 js)
  show ?case
  proof (cases "js = []")
    case False
    with 5 have "late (items_back canon js)" by simp
    then show ?thesis by (rule late_Suc) (use 5 False in \<open>auto intro: arr_reads_back\<close>)
  qed (auto intro!: late_always simp: reads_back_def skip_ws_id)
next
  case (6 kvs)
  show ?case
  proof (cases "kvs = []")
    case False
    with 6 have "late (fields_back canon kvs)" by simp
    then show ?thesis by (rule late_Suc) (use 6 False in \<open>auto intro: obj_reads_back\<close>)
  qed (auto intro!: late_always simp: reads_back_def skip_ws_id)
next
  case (8 j)
  then show ?case by (auto intro: late_Suc items_back_one)
next
  case (9 j j' js)
  then have "late (\<lambda>n. reads_back canon j n \<and> items_back canon (j' # js) n)"
    by (intro late_both) auto
  then show ?case by (rule late_Suc) (auto intro: items_back_more)
next
  case (11 k j)
  then show ?case by (auto intro: late_Suc fields_back_step)
next
  case (12 k j kv kvs)
  then have "late (\<lambda>n. reads_back canon j n \<and> fields_back canon (kv # kvs) n)"
    by (intro late_both) auto
  then show ?case by (rule late_Suc) (auto intro: fields_back_step)
qed (auto intro!: late_always simp: reads_back_def skip_ws_id read_literal_def quote_def read_chars_escape)

lemma json_round_trip:
  assumes "wf_json canon j"
  shows "json_parse canon (stringify j) = Some j"
proof -
  define s where "s = stringify j"
  obtain N where "\<forall>n \<ge> N. reads_back canon j n"
    using read_stringify(1) [OF assms] by (auto simp: late_def)
  then have "read_value canon (max N (Suc (2 * length s))) s = Some (j, [])"
    unfolding s_def reads_back_def by (metis append_Nil2 ends_num_simps(1) max.cobounded1)
  moreover have "read_value canon (Suc (2 * length s)) s = read_value canon (max N (Suc (2 * length s))) s"
    using fuel_irrelevant [of s "Suc (2 * length s)" "max N (Suc (2 * length s))"] by fastforce
  ultimately show ?thesis by (simp add: json_parse_def s_def skip_ws_def)
qed

lemma fuel_enough:
  "2 * length s < n \<Longrightarrow>
     json_parse canon s =
       (case read_value canon n s of
          None \<Rightarrow> None
        | Some (v, r) \<Rightarrow> if skip_ws r = [] then Some v else None)"
  unfolding json_parse_def
  using fuel_irrelevant [of s "Suc (2 * length s)" n] by (metis lessI)

end
