(* ===== verification/Entities.thy ===== *)
theory Entities imports Tables Json begin

text \<open>
  The entities of \<open>libs/database/src/entities\<close>: one record per table, with its columns. A
  relation is kept as the column that holds its foreign key; the many-to-many relation of users and
  roles is the list of role identifiers in the user. A nullable column is an option. Dates are
  milliseconds since the epoch; balances and notification costs, declared \<open>decimal(3, 1)\<close>, are
  counted in tenths of a credit. Columns that rows get from the store (\<open>id\<close>,
  \<open>createdAt\<close>) are filled by the operations that insert them.
\<close>

type_synonym time = int
type_synonym credits = int

section \<open>Enumerations\<close>

(* libs/database/src/entities/role.entity.ts 4-12 Permission *)
datatype permission = ADMIN | READ_APPS | MANAGE_APPS | READ_ROLES | MANAGE_ROLES

(* libs/database/src/entities/user.entity.ts 8-11 AccountStatus *)
datatype account_status = ACTIVE | BLOCKED

(* libs/database/src/entities/twitch-app.entity.ts 4-8 TwitchAppStatus *)
datatype app_status = AppActive | AppInternal | AppLocked

(* libs/database/src/entities/twitch-streamer-event.ts 7-14 TwitchStreamerEvents *)
datatype streamer_events =
    STREAM_ONLINE | STREAM_OFFLINE | CHANNEL_UPDATE | CHANNEL_RAID | CHANNEL_SUBSCRIBE | CHANNEL_CHEER

(* libs/database/src/entities/twitch-streamer-event.ts 7-14 TwitchStreamerEvents *)
fun event_text :: "streamer_events \<Rightarrow> string" where
  "event_text STREAM_ONLINE = ''stream.online''"
| "event_text STREAM_OFFLINE = ''stream.offline''"
| "event_text CHANNEL_UPDATE = ''channel.update''"
| "event_text CHANNEL_RAID = ''channel.raid''"
| "event_text CHANNEL_SUBSCRIBE = ''channel.subscribe''"
| "event_text CHANNEL_CHEER = ''channel.cheer''"

(* libs/database/src/entities/twitch-streamer-event.ts 16-21 TwitchEventStatuses *)
datatype event_status = PENDING | VERIFIED | REVOKED | DEACTIVATED

(* libs/database/src/entities/notification-status.enum.ts 1-4 NotificationStatus *)
datatype notification_status = Active | Suspended

(* libs/database/src/entities/discord-notification.entity.ts 7-11 NotificationCostType *)
datatype cost_type = Personal | Credit | Guild

(* libs/database/src/entities/webhook-notification.entity.ts 8-10 WebhookType *)
datatype webhook_type = WebhookDiscord

(* libs/database/src/entities/notification-log.entity.ts 3-6 NotificationLogType *)
datatype log_type = LogDiscord | LogWebhook

(* libs/database/src/entities/notification-log.entity.ts 8-11 NotificationLogStatus *)
datatype log_status = Sent | Failed

(* libs/database/src/entities/manager-permission.constant.ts 1-11 DiscordPermissionFlag *)
datatype discord_flag =
    KICK_MEMBERS | BAN_MEMBERS | ADMINISTRATOR | MANAGE_CHANNELS | MANAGE_GUILD | MANAGE_MESSAGES
  | FLAG_MANAGE_ROLES | MANAGE_WEBHOOKS | MODERATE_MEMBERS

(* libs/database/src/entities/manager-permission.constant.ts 1-11 DiscordPermissionFlag *)
fun flag_text :: "discord_flag \<Rightarrow> string" where
  "flag_text KICK_MEMBERS = ''2''"
| "flag_text BAN_MEMBERS = ''4''"
| "flag_text ADMINISTRATOR = ''8''"
| "flag_text MANAGE_CHANNELS = ''16''"
| "flag_text MANAGE_GUILD = ''32''"
| "flag_text MANAGE_MESSAGES = ''8192''"
| "flag_text FLAG_MANAGE_ROLES = ''268435456''"
| "flag_text MANAGE_WEBHOOKS = ''536870912''"
| "flag_text MODERATE_MEMBERS = ''1099511627776''"

(* libs/database/src/entities/manager-permission.constant.ts 18-27 MANAGER_PERMISSION_OPTIONS *)
definition manager_permission_options :: "discord_flag list" where
  "manager_permission_options =
    [MANAGE_GUILD, FLAG_MANAGE_ROLES, MANAGE_CHANNELS, MANAGE_MESSAGES, MANAGE_WEBHOOKS,
     MODERATE_MEMBERS, KICK_MEMBERS, BAN_MEMBERS]"

section \<open>Rows\<close>

(* libs/database/src/entities/role.entity.ts 14-34 RoleEntity *)
record role =
  r_id :: string
  r_name :: string
  r_priority :: int
  r_permissions :: "permission list"

(* libs/database/src/entities/user.entity.ts 13-93 UserEntity *)
record user =
  u_id :: string
  u_displayName :: string
  u_balance :: credits
  u_email :: "string option"
  u_discordId :: "string option"
  u_password :: "string option"
  u_status :: account_status
  u_discordAccessToken :: "string option"
  u_discordRefreshToken :: "string option"
  u_discordTokenExpiresAt :: "time option"
  u_twitchAccessToken :: "string option"
  u_twitchRefreshToken :: "string option"
  u_twitchTokenExpiresAt :: "time option"
  u_twitchAccountId :: "string option"
  u_roles :: "string list"
  u_createdAt :: time

(* libs/database/src/entities/user-session.entity.ts 4-24 UserSessionEntity *)
record session =
  s_id :: string
  s_userId :: string
  s_refreshTokenHash :: string
  s_expiresAt :: time
  s_createdAt :: time

(* libs/database/src/entities/twitch-app.entity.ts 10-47 TwitchAppEntity *)
record app =
  a_id :: string
  a_name :: string
  a_status :: app_status
  a_clientId :: string
  a_clientSecret :: string
  a_webhookSecret :: string
  a_accessToken :: "string option"
  a_tokenExpiresAt :: "time option"
  a_currentCost :: int
  a_maxCost :: int
  a_createdAt :: time

(* libs/database/src/entities/twitch-streamer.ts 5-50 TwitchStreamerEntity *)
record streamer =
  st_id :: string
  st_broadcasterId :: string
  st_twitchLogin :: string
  st_displayName :: string
  st_profileImageUrl :: "string option"
  st_profileImageUpdatedAt :: "time option"
  st_isPartner :: bool
  st_isInternal :: "bool option"
  st_userId :: "string option"
  st_allowPersonalSubscriptions :: bool
  st_createdAt :: time

(* libs/database/src/entities/twitch-streamer-event.ts 23-71 TwitchStreamerEventEntity *)
record event =
  e_id :: string
  e_streamerId :: string
  e_twitchAppId :: string
  e_appCost :: int
  e_subscriptionId :: "string option"
  e_event :: streamer_events
  e_status :: event_status
  e_createdAt :: time

(* libs/database/src/entities/discord-guild.entity.ts 6-37 DiscordGuildEntity *)
record guild =
  g_id :: string
  g_discordGuildId :: string
  g_managerPermission :: "string option"
  g_balance :: credits
  g_createdAt :: time

(* libs/database/src/entities/discord-notification.entity.ts 13-77 DiscordNotificationEntity *)
record discord_notification =
  dn_id :: string
  dn_ownerId :: string
  dn_cost :: credits
  dn_status :: notification_status
  dn_isDisabled :: "bool option"
  dn_costType :: cost_type
  dn_channelId :: string
  dn_guildId :: string
  dn_streamerEventId :: string
  dn_messagePayload :: "json option"
  dn_gameFilters :: "string list"
  dn_createdAt :: time

(* libs/database/src/entities/webhook-notification.entity.ts 12-80 WebhookNotificationEntity *)
record webhook_notification =
  wn_id :: string
  wn_streamerEventId :: string
  wn_ownerId :: string
  wn_cost :: credits
  wn_status :: notification_status
  wn_isDisabled :: "bool option"
  wn_costType :: cost_type
  wn_type :: webhook_type
  wn_webhookUrl :: "string option"
  wn_guildId :: "string option"
  wn_messagePayload :: "json option"
  wn_gameFilters :: "string list"
  wn_createdAt :: time

(* libs/database/src/entities/notification-log.entity.ts 13-49 NotificationLogEntity *)
record notification_log =
  l_id :: string
  l_notificationId :: string
  l_notificationType :: log_type
  l_status :: log_status
  l_ownerId :: string
  l_discordGuildId :: "string option"
  l_streamerLogin :: string
  l_eventType :: string
  l_requestPayload :: "json option"
  l_errorMessage :: "string option"
  l_createdAt :: time

section \<open>Orders\<close>

text \<open>Permissions are listed and compared in the order of their declaration.\<close>

fun permission_rank :: "permission \<Rightarrow> nat" where
  "permission_rank ADMIN = 0"
| "permission_rank READ_APPS = 1"
| "permission_rank MANAGE_APPS = 2"
| "permission_rank READ_ROLES = 3"
| "permission_rank MANAGE_ROLES = 4"

lemma permission_rank_inj: "permission_rank p = permission_rank q \<Longrightarrow> p = q"
  by (cases p; cases q) simp_all

instantiation permission :: linorder
begin

definition less_eq_permission :: "permission \<Rightarrow> permission \<Rightarrow> bool" where
  "less_eq_permission p q \<longleftrightarrow> permission_rank p \<le> permission_rank q"

definition less_permission :: "permission \<Rightarrow> permission \<Rightarrow> bool" where
  "less_permission p q \<longleftrightarrow> permission_rank p < permission_rank q"

instance
  by intro_classes (auto simp: less_eq_permission_def less_permission_def dest: permission_rank_inj)

end

end
