(* ===== verification/Redis.thy ===== *)
theory Redis imports Json begin

text \<open>
  \<open>libs/redis/src\<close>: the keys, and the store itself with expiring entries. The server is a map
  from keys to texts with an optional expiry; an entry whose expiry has passed is not there. What
  \<open>KEYS\<close> matches is a parameter (\<open>glob\<close>), with its documented behaviour on a literal text
  followed by an asterisk as the hypothesis \<open>glob_ok\<close>. The lock that \<open>getOrSet\<close> takes
  around its resolver is a step relation over interleaved processes.
\<close>

section \<open>Keys\<close>

(* libs/redis/src/redis.constants.ts 4-5 twitchWebhookSecret *)
definition twitchWebhookSecret :: "string \<Rightarrow> string" where
  "twitchWebhookSecret clientId = ''twitch:webhook:secret:'' @ clientId"

(* libs/redis/src/redis.constants.ts 7-8 twitchWebhookMessage *)
definition twitchWebhookMessage :: "string \<Rightarrow> string" where
  "twitchWebhookMessage messageId = ''twitch:webhook:log:'' @ messageId"

(* libs/redis/src/redis.constants.ts 10-11 twitchGameName *)
definition twitchGameName :: "string \<Rightarrow> string" where
  "twitchGameName gameId = ''twitch:game-name:'' @ gameId"

(* libs/redis/src/redis.constants.ts 13-14 accessTokenBlackList *)
definition accessTokenBlackList :: "string \<Rightarrow> string" where
  "accessTokenBlackList jti = ''blacklist:access:'' @ jti"

(* libs/redis/src/redis.constants.ts 16-17 botGuildIds *)
definition botGuildIds :: string where
  "botGuildIds = ''discord:bot:guild_ids''"

(* libs/redis/src/redis.constants.ts 19-20 userGuilds *)
definition userGuilds :: "string \<Rightarrow> string" where
  "userGuilds userId = ''discord:users:'' @ userId @ '':guild_ids''"

(* libs/redis/src/redis.constants.ts 22-23 discordGuildChannels *)
definition discordGuildChannels :: "string \<Rightarrow> string" where
  "discordGuildChannels guildId = ''discord:guild:'' @ guildId @ '':channels''"

(* libs/redis/src/redis.constants.ts 25-26 discordGuildRoles *)
definition discordGuildRoles :: "string \<Rightarrow> string" where
  "discordGuildRoles guildId = ''discord:guild:'' @ guildId @ '':roles''"

(* libs/redis/src/redis.constants.ts 28-29 guildUserAccess *)
definition guildUserAccess :: "string \<Rightarrow> string \<Rightarrow> string" where
  "guildUserAccess guildId userId = ''discord:guild_access:'' @ guildId @ '':'' @ userId"

(* libs/redis/src/redis.constants.ts 31-32 guildAdminAccess *)
definition guildAdminAccess :: "string \<Rightarrow> string \<Rightarrow> string" where
  "guildAdminAccess guildId userId = ''discord:guild_access:'' @ guildId @ '':'' @ userId @ '':admin''"

(* libs/redis/src/redis.constants.ts 34-35 guildUserAccessPattern *)
definition guildUserAccessPattern :: "string \<Rightarrow> string" where
  "guildUserAccessPattern guildId = ''discord:guild_access:'' @ guildId @ '':*''"

(* libs/redis/src/redis.constants.ts 37-38 platformStatistics *)
definition platformStatistics :: string where
  "platformStatistics = ''statistics:platform''"

(* libs/redis/src/redis.constants.ts 40-41 dailyStatistics *)
definition dailyStatistics :: string where
  "dailyStatistics = ''statistics:daily''"

(* libs/redis/src/redis.constants.ts 43-44 userStatistics *)
definition userStatistics :: "string \<Rightarrow> string" where
  "userStatistics userId = ''statistics:user:'' @ userId"

(* libs/redis/src/redis.constants.ts 46-47 topStreamersStatistics *)
definition topStreamersStatistics :: string where
  "topStreamersStatistics = ''statistics:top-streamers''"

(* libs/redis/src/redis.constants.ts 49-50 notificationSplitStatistics *)
definition notificationSplitStatistics :: string where
  "notificationSplitStatistics = ''statistics:notification-split''"

section \<open>The store\<close>

type_synonym store = "string \<Rightarrow> (string \<times> int option) option"

definition lookup :: "int \<Rightarrow> string \<Rightarrow> store \<Rightarrow> string option" where
  "lookup now k st =
     (case st k of
        None \<Rightarrow> None
      | Some (v, None) \<Rightarrow> Some v
      | Some (v, Some t) \<Rightarrow> if now < t then Some v else None)"

text \<open>A time to live of zero seconds is falsy: the key is then set without one.\<close>

(* libs/redis/src/redis.service.ts 59-66 RedisService.set *)
definition put_key :: "int \<Rightarrow> string \<Rightarrow> string \<Rightarrow> nat \<Rightarrow> store \<Rightarrow> store" where
  "put_key now k v ttl st =
     st(k \<mapsto> (v, if ttl = 0 then None else Some (now + 1000 * int ttl)))"

(* libs/redis/src/redis.service.ts 112-114 RedisService.delete *)
definition drop_key :: "string \<Rightarrow> store \<Rightarrow> store" where
  "drop_key k st = st(k := None)"

(* libs/redis/src/redis.service.ts 116-120 RedisService.setNX *)
definition put_new :: "int \<Rightarrow> string \<Rightarrow> string \<Rightarrow> nat \<Rightarrow> store \<Rightarrow> bool \<times> store" where
  "put_new now k v ttl st =
     (if lookup now k st = None then (True, st(k \<mapsto> (v, Some (now + 1000 * int ttl)))) else (False, st))"

(* libs/redis/src/redis.service.ts 122-125 RedisService.deleteByPattern *)
definition drop_pattern :: "(string \<Rightarrow> string \<Rightarrow> bool) \<Rightarrow> string \<Rightarrow> store \<Rightarrow> store" where
  "drop_pattern glob pattern st = (\<lambda>k. if glob pattern k then None else st k)"

text \<open>The documented behaviour of \<open>KEYS\<close> used here: a text without glob characters and
  then an asterisk matches the keys that begin with the text.\<close>

definition glob_plain :: "string \<Rightarrow> bool" where
  "glob_plain t \<longleftrightarrow> (\<forall>c \<in> set t. c \<notin> {CHR ''*'', CHR ''?'', CHR ''['', CHR '']'', CHR 0x5C})"

definition glob_ok :: "(string \<Rightarrow> string \<Rightarrow> bool) \<Rightarrow> bool" where
  "glob_ok glob \<longleftrightarrow> (\<forall>t k. glob_plain t \<longrightarrow> (glob (t @ ''*'') k \<longleftrightarrow> prefix t k))"

section \<open>Laws\<close>

lemma lookup_put: "lookup now k' (put_key now k v ttl st) = (if k' = k then Some v else lookup now k' st)"
  by (simp add: lookup_def put_key_def)

lemma lookup_drop: "lookup now k' (drop_key k st) = (if k' = k then None else lookup now k' st)"
  by (simp add: lookup_def drop_key_def)

lemma lookup_later:
  "lookup now k st = None \<Longrightarrow> now \<le> later \<Longrightarrow> lookup later k st = None"
  by (auto simp: lookup_def split: option.splits if_splits)

lemma lookup_earlier: "lookup later k st = Some v \<Longrightarrow> now \<le> later \<Longrightarrow> lookup now k st = Some v"
  by (auto simp: lookup_def split: option.splits if_splits)

text \<open>The laws of a key-value store at a moment, which the clients of the cache rely on.\<close>

locale key_value =
  fixes get :: "string \<Rightarrow> 'st \<Rightarrow> string option"
    and put :: "string \<Rightarrow> string \<Rightarrow> nat \<Rightarrow> 'st \<Rightarrow> 'st"
    and del :: "string \<Rightarrow> 'st \<Rightarrow> 'st"
    and put_nx :: "string \<Rightarrow> string \<Rightarrow> nat \<Rightarrow> 'st \<Rightarrow> bool \<times> 'st"
  assumes get_put: "get k' (put k v n st) = (if k' = k then Some v else get k' st)"
    and get_del: "get k' (del k st) = (if k' = k then None else get k' st)"
    and nx_fresh: "get k st = None \<Longrightarrow> 0 < n \<Longrightarrow> put_nx k v n st = (True, put k v n st)"
    and nx_taken: "get k st \<noteq> None \<Longrightarrow> put_nx k v n st = (False, st)"
begin

lemma nx_iff: "0 < n \<Longrightarrow> fst (put_nx k v n st) \<longleftrightarrow> get k st = None"
  using nx_fresh nx_taken by (cases "get k st") auto

lemma nx_present: "0 < n \<Longrightarrow> get k (snd (put_nx k v n st)) \<noteq> None"
  using nx_fresh [of k st n v] nx_taken [of k st v n] by (cases "get k st") (auto simp: get_put)

lemma nx_other: "0 < n \<Longrightarrow> k' \<noteq> k \<Longrightarrow> get k' (snd (put_nx k v n st)) = get k' st"
  using nx_fresh [of k st n v] nx_taken [of k st v n] by (cases "get k st") (auto simp: get_put)

lemma nx_twice: "0 < n \<Longrightarrow> 0 < m \<Longrightarrow> \<not> fst (put_nx k v' m (snd (put_nx k v n st)))"
  by (simp add: nx_iff nx_present)

lemma locked_then_released: "0 < n \<Longrightarrow> get k (del k (snd (put_nx k v n st))) = None"
  by (simp add: get_del)

end

interpretation redis_at: key_value "lookup now" "put_key now" drop_key "put_new now" for now
  by unfold_locales (auto simp: lookup_def drop_key_def put_new_def put_key_def)

lemma put_new_other_time:
  "k' \<noteq> k \<Longrightarrow> lookup later k' (snd (put_new now k v ttl st)) = lookup later k' st"
  by (simp add: put_new_def lookup_def)

lemma put_new_lives:
  assumes "put_new now k v ttl st = (True, st')"
  shows "lookup later k st' \<noteq> None \<longleftrightarrow> later < now + 1000 * int ttl"
  using assms by (auto simp: put_new_def lookup_def split: if_splits)

section \<open>Evicting a guild\<close>

text \<open>
  Evicting the access cache of a guild drops every access entry of that guild, its entries for
  administrators included, and no access entry of another guild, when the guild identifiers hold no
  colon and no glob character.
\<close>

theorem evict_guild_exactly:
  assumes "glob_ok glob" and "glob_plain g" and "CHR '':'' \<notin> set g" and "CHR '':'' \<notin> set h"
  shows "lookup now (guildUserAccess h u) (drop_pattern glob (guildUserAccessPattern g) st) =
      (if h = g then None else lookup now (guildUserAccess h u) st) \<and>
    lookup now (guildAdminAccess h u) (drop_pattern glob (guildUserAccessPattern g) st) =
      (if h = g then None else lookup now (guildAdminAccess h u) st)"
proof -
  have pre: "glob (guildUserAccessPattern g) k \<longleftrightarrow> prefix (''discord:guild_access:'' @ g @ '':'') k" for k
  proof -
    have "glob_plain (''discord:guild_access:'' @ g @ '':'')"
      using assms(2) by (auto simp: glob_plain_def)
    then have "glob ((''discord:guild_access:'' @ g @ '':'') @ ''*'') k \<longleftrightarrow>
        prefix (''discord:guild_access:'' @ g @ '':'') k"
      using assms(1) unfolding glob_ok_def by blast
    then show ?thesis by (simp add: guildUserAccessPattern_def)
  qed
  have split: "prefix (g @ '':'') (h @ '':'' @ r) \<longleftrightarrow> h = g" for r
  proof
    assume "prefix (g @ '':'') (h @ '':'' @ r)"
    then obtain z where "g @ CHR '':'' # z = h @ CHR '':'' # r" by (auto simp: prefix_def)
    then have "takeWhile (\<lambda>c. c \<noteq> CHR '':'') (g @ CHR '':'' # z) = takeWhile (\<lambda>c. c \<noteq> CHR '':'') (h @ CHR '':'' # r)"
      by simp
    moreover have "takeWhile (\<lambda>c. c \<noteq> CHR '':'') (x @ CHR '':'' # y) = x" if "CHR '':'' \<notin> set x" for x y
      using that by (induction x) auto
    ultimately show "h = g" using assms(3,4) by simp
  qed (simp add: prefix_def)
  have "glob (guildUserAccessPattern g) (guildUserAccess h u) \<longleftrightarrow> h = g"
    "glob (guildUserAccessPattern g) (guildAdminAccess h u) \<longleftrightarrow> h = g"
    using pre split by (simp_all add: guildUserAccess_def guildAdminAccess_def)
  then show ?thesis by (simp add: drop_pattern_def lookup_def)
qed

definition simple_glob :: "string \<Rightarrow> string \<Rightarrow> bool" where
  "simple_glob p k = (p \<noteq> [] \<and> last p = CHR ''*'' \<and> prefix (butlast p) k)"

theorem evict_guild_exactly_witness:
  "lookup 5 (guildUserAccess ''7'' ''u'')
     (drop_pattern simple_glob (guildUserAccessPattern ''7'') [guildUserAccess ''7'' ''u'' \<mapsto> (''true'', None)]) = None"
proof -
  have "glob_ok simple_glob" by (auto simp: glob_ok_def simple_glob_def)
  moreover have "glob_plain ''7''" by (simp add: glob_plain_def)
  ultimately show ?thesis
    using evict_guild_exactly [of simple_glob "''7''" "''7''" 5 "''u''"] by simp
qed


section \<open>The lock of \<open>getOrSet\<close>\<close>

text \<open>
  Processes that call \<open>getOrSet\<close> for one key, interleaved between their awaits. A process
  holds the lock from the \<open>SET NX\<close> that answered \<open>OK\<close> to the \<open>DEL\<close> of its
  \<open>finally\<close>; the phases between carry the time of the acquisition. Time passes between any two
  steps. The parameter of the relation is the time a holder may take: \<open>None\<close> for any.
\<close>

text \<open>What \<open>get\<close> makes of an entry: a text that is empty, and the text \<open>null\<close>, count as no value.\<close>

(* libs/redis/src/redis.service.ts 102-106 RedisService.get *)
definition cached :: "int \<Rightarrow> string \<Rightarrow> store \<Rightarrow> string option" where
  "cached now k st =
     (case lookup now k st of
        None \<Rightarrow> None
      | Some v \<Rightarrow> if v = [] \<or> v = ''null'' then None else Some v)"

lemma cached_None: "lookup now k st = None \<Longrightarrow> cached now k st = None"
  by (simp add: cached_def)

(* libs/redis/src/redis.service.ts 68-100 RedisService.getOrSet *)
datatype phase = Outside | Missed | Waiting | Holding int | Resolving int | Leaving int

record lock_state =
  ls_now :: int
  ls_store :: store
  ls_phase :: "nat \<Rightarrow> phase"
  ls_published :: "string list"

fun held_since :: "phase \<Rightarrow> int option" where
  "held_since (Holding t) = Some t"
| "held_since (Resolving t) = Some t"
| "held_since (Leaving t) = Some t"
| "held_since _ = None"

(* libs/redis/src/redis.service.ts 80-80 RedisService.getOrSet, lockKey *)
definition lock_key :: "string \<Rightarrow> string" where
  "lock_key k = ''lock:'' @ k"

(* libs/redis/src/redis.service.ts 83-83 RedisService.getOrSet, the lock's time to live *)
definition lock_ttl :: nat where
  "lock_ttl = 10"

definition set_phase :: "nat \<Rightarrow> phase \<Rightarrow> lock_state \<Rightarrow> lock_state" where
  "set_phase p ph s = s\<lparr>ls_phase := (ls_phase s)(p := ph)\<rparr>"

(* libs/redis/src/redis.service.ts 68-100 RedisService.getOrSet *)
inductive lock_step :: "int option \<Rightarrow> string \<Rightarrow> nat \<Rightarrow> lock_state \<Rightarrow> lock_state \<Rightarrow> bool"
  for limit :: "int option" and k :: string and ttl :: nat where
  tick: "ls_now s \<le> t \<Longrightarrow>
     (\<And>p a l. limit = Some l \<Longrightarrow> held_since (ls_phase s p) = Some a \<Longrightarrow> t < a + l) \<Longrightarrow>
     lock_step limit k ttl s (s\<lparr>ls_now := t\<rparr>)"
| hit: "ls_phase s p = Outside \<Longrightarrow> cached (ls_now s) k (ls_store s) = Some v \<Longrightarrow>
     lock_step limit k ttl s s"
| miss: "ls_phase s p = Outside \<Longrightarrow> cached (ls_now s) k (ls_store s) = None \<Longrightarrow>
     lock_step limit k ttl s (set_phase p Missed s)"
| acquire: "ls_phase s p = Missed \<Longrightarrow>
     put_new (ls_now s) (lock_key k) ''\"1\"'' lock_ttl (ls_store s) = (True, st) \<Longrightarrow>
     lock_step limit k ttl s (set_phase p (Holding (ls_now s)) (s\<lparr>ls_store := st\<rparr>))"
| wait: "ls_phase s p = Missed \<Longrightarrow>
     put_new (ls_now s) (lock_key k) ''\"1\"'' lock_ttl (ls_store s) = (False, st) \<Longrightarrow>
     lock_step limit k ttl s (set_phase p Waiting s)"
| double_check_hit: "ls_phase s p = Holding a \<Longrightarrow> cached (ls_now s) k (ls_store s) = Some v \<Longrightarrow>
     lock_step limit k ttl s (set_phase p (Leaving a) s)"
| double_check_miss: "ls_phase s p = Holding a \<Longrightarrow> cached (ls_now s) k (ls_store s) = None \<Longrightarrow>
     lock_step limit k ttl s (set_phase p (Resolving a) s)"
| resolved: "ls_phase s p = Resolving a \<Longrightarrow>
     lock_step limit k ttl s (set_phase p (Leaving a)
       (s\<lparr>ls_store := put_key (ls_now s) k v ttl (ls_store s), ls_published := ls_published s @ [v]\<rparr>))"
| resolver_failed: "ls_phase s p = Resolving a \<Longrightarrow>
     lock_step limit k ttl s (set_phase p (Leaving a) s)"
| release: "ls_phase s p = Leaving a \<Longrightarrow>
     lock_step limit k ttl s
       (set_phase p Outside (s\<lparr>ls_store := drop_key (lock_key k) (ls_store s)\<rparr>))"
| woken: "ls_phase s p = Waiting \<Longrightarrow> lock_step limit k ttl s (set_phase p Outside s)"

definition lock_start :: lock_state where
  "lock_start = \<lparr>ls_now = 0, ls_store = Map.empty, ls_phase = (\<lambda>_. Outside), ls_published = []\<rparr>"

definition lock_reach :: "int option \<Rightarrow> string \<Rightarrow> nat \<Rightarrow> lock_state \<Rightarrow> bool" where
  "lock_reach limit k ttl s \<longleftrightarrow> (lock_step limit k ttl)\<^sup>*\<^sup>* lock_start s"

text \<open>A holder's entry is in the store, with the expiry of its acquisition, and it has not expired;
  and no two processes hold the lock.\<close>

definition lock_inv :: "string \<Rightarrow> lock_state \<Rightarrow> bool" where
  "lock_inv k s \<longleftrightarrow>
     (\<forall>p a. held_since (ls_phase s p) = Some a \<longrightarrow>
        ls_store s (lock_key k) = Some (''\"1\"'', Some (a + 10000)) \<and> ls_now s < a + 10000 \<and> a \<le> ls_now s) \<and>
     (\<forall>p q. held_since (ls_phase s p) \<noteq> None \<longrightarrow> held_since (ls_phase s q) \<noteq> None \<longrightarrow> p = q)"

lemma lock_key_differs [simp]: "lock_key k \<noteq> k" "k \<noteq> lock_key k"
  using arg_cong [of "lock_key k" k length] by (auto simp: lock_key_def)

lemma lock_invI:
  assumes "\<And>p a. held_since (ls_phase s p) = Some a \<Longrightarrow>
      ls_store s (lock_key k) = Some (''\"1\"'', Some (a + 10000)) \<and> ls_now s < a + 10000 \<and> a \<le> ls_now s"
    and "\<And>p q a b. held_since (ls_phase s p) = Some a \<Longrightarrow> held_since (ls_phase s q) = Some b \<Longrightarrow> p = q"
  shows "lock_inv k s"
  using assms by (auto simp: lock_inv_def)

lemma lock_inv_moved:
  assumes "lock_inv k s" "ls_phase s p = ph" "held_since ph = Some a"
    "held_since ph' = Some a \<or> held_since ph' = None"
    "ls_store s' (lock_key k) = ls_store s (lock_key k)" "ls_now s' = ls_now s"
    "ls_phase s' = (ls_phase s)(p := ph')"
  shows "lock_inv k s'"
  using assms unfolding lock_inv_def by (auto split: if_splits)

lemma lock_inv_idle:
  assumes "lock_inv k s" "held_since (ls_phase s p) = None" "held_since ph = None"
  shows "lock_inv k (set_phase p ph s)"
  using assms unfolding lock_inv_def by (auto simp: set_phase_def split: if_splits)

lemma lock_inv_step: "lock_step (Some 10000) k ttl s s' \<Longrightarrow> lock_inv k s \<Longrightarrow> lock_inv k s'"
proof (induction rule: lock_step.induct)
  case (tick s t)
  then show ?case unfolding lock_inv_def by force
next
  case (acquire s p st)
  then have free: "lookup (ls_now s) (lock_key k) (ls_store s) = None"
    and st: "st = (ls_store s)(lock_key k \<mapsto> (''\"1\"'', Some (ls_now s + 10000)))"
    by (auto simp: put_new_def lock_ttl_def split: if_splits)
  have idle: "held_since (ls_phase s q) = None" for q
  proof (rule ccontr)
    assume "held_since (ls_phase s q) \<noteq> None"
    then obtain a where "held_since (ls_phase s q) = Some a" by blast
    with acquire.prems have "ls_store s (lock_key k) = Some (''\"1\"'', Some (a + 10000))" "ls_now s < a + 10000"
      unfolding lock_inv_def by blast+
    with free show False by (simp add: lookup_def)
  qed
  show ?case
    unfolding lock_inv_def set_phase_def using idle by (simp add: st)
next
  case (double_check_hit s p a v)
  show ?case
    by (rule lock_inv_moved [of k s p "Holding a" a "Leaving a"])
      (use double_check_hit in \<open>auto simp: set_phase_def\<close>)
next
  case (double_check_miss s p a)
  show ?case
    by (rule lock_inv_moved [of k s p "Holding a" a "Resolving a"])
      (use double_check_miss in \<open>auto simp: set_phase_def\<close>)
next
  case (resolved s p a v)
  show ?case
    by (rule lock_inv_moved [of k s p "Resolving a" a "Leaving a"])
      (use resolved in \<open>auto simp: set_phase_def put_key_def\<close>)
next
  case (resolver_failed s p a)
  show ?case
    by (rule lock_inv_moved [of k s p "Resolving a" a "Leaving a"])
      (use resolver_failed in \<open>auto simp: set_phase_def\<close>)
next
  case (release s p a)
  then have "held_since (ls_phase s q) = None" if "q \<noteq> p" for q
    using that unfolding lock_inv_def by (metis held_since.simps(3) option.distinct(1))
  then show ?case by (intro lock_invI) (auto simp: set_phase_def split: if_splits)
qed (auto intro: lock_inv_idle)

lemma lock_inv_reach: "lock_reach (Some 10000) k ttl s \<Longrightarrow> lock_inv k s"
  unfolding lock_reach_def
proof (induction rule: rtranclp_induct)
  case base
  show ?case by (simp add: lock_inv_def lock_start_def)
next
  case (step s s')
  then show ?case by (blast intro: lock_inv_step)
qed

text \<open>
  C13. As long as no process keeps the lock of \<open>getOrSet\<close> for the lock's ten seconds, at most one
  process at a time runs the resolver of a key.
\<close>

theorem getOrSet_mutual_exclusion:
  assumes "lock_reach (Some 10000) k ttl s"
    and "ls_phase s p = Resolving a" and "ls_phase s q = Resolving b"
  shows "p = q"
  using lock_inv_reach [OF assms(1)] assms(2,3) unfolding lock_inv_def
  by (metis held_since.simps(2) option.distinct(1))

lemma lock_reach_step: "lock_reach limit k ttl s \<Longrightarrow> lock_step limit k ttl s s' \<Longrightarrow> lock_reach limit k ttl s'"
  unfolding lock_reach_def by (rule rtranclp.rtrancl_into_rtrancl)

definition resolving_once :: lock_state where
  "resolving_once = \<lparr>ls_now = 0, ls_store = [lock_key ''k'' \<mapsto> (''\"1\"'', Some 10000)],
     ls_phase = (\<lambda>_. Outside)(0 := Resolving 0), ls_published = []\<rparr>"

lemma resolving_once_reach: "lock_reach limit ''k'' ttl resolving_once"
proof -
  let ?a = "set_phase 0 Missed lock_start"
  have "lock_reach limit ''k'' ttl lock_start" by (simp add: lock_reach_def)
  then have "lock_reach limit ''k'' ttl ?a"
    by (rule lock_reach_step) (rule lock_step.miss, auto simp: lock_start_def lookup_def cached_def)
  then have "lock_reach limit ''k'' ttl
      (set_phase 0 (Holding 0) (?a\<lparr>ls_store := [lock_key ''k'' \<mapsto> (''\"1\"'', Some 10000)]\<rparr>))" (is "lock_reach _ _ _ ?b")
    using lock_step.acquire [of ?a 0 "''k''" "[lock_key ''k'' \<mapsto> (''\"1\"'', Some 10000)]"]
    by (auto intro: lock_reach_step simp: lock_start_def set_phase_def put_new_def lookup_def lock_ttl_def)
  then have "lock_reach limit ''k'' ttl (set_phase 0 (Resolving 0) ?b)"
    by (rule lock_reach_step) (rule lock_step.double_check_miss, auto simp: set_phase_def lookup_def lock_key_def cached_def)
  moreover have "set_phase 0 (Resolving 0) ?b = resolving_once"
    by (simp add: set_phase_def resolving_once_def lock_start_def)
  ultimately show ?thesis by simp
qed

theorem getOrSet_mutual_exclusion_witness:
  "lock_reach (Some 10000) ''k'' 300 resolving_once \<and> (0::nat) = 0"
  using resolving_once_reach
    getOrSet_mutual_exclusion [OF resolving_once_reach, of 0 0 0 0] by (simp add: resolving_once_def)

text \<open>
  The lock does not cover a slow resolver: once the ten seconds have passed, a second process
  takes the lock and both resolve the key at once.
\<close>

theorem getOrSet_lock_expires:
  "\<exists>s. lock_reach None ''k'' ttl s \<and> ls_phase s 0 = Resolving 0 \<and> ls_phase s 1 = Resolving 10000"
proof -
  let ?a = "resolving_once\<lparr>ls_now := 10000\<rparr>"
  have "lock_reach None ''k'' ttl ?a"
    by (rule lock_reach_step [OF resolving_once_reach]) (rule lock_step.tick, auto simp: resolving_once_def)
  then have "lock_reach None ''k'' ttl (set_phase 1 Missed ?a)" (is "lock_reach _ _ _ ?b")
    by (rule lock_reach_step) (rule lock_step.miss, auto simp: resolving_once_def lookup_def lock_key_def cached_def)
  then have "lock_reach None ''k'' ttl (set_phase 1 (Holding 10000)
      (?b\<lparr>ls_store := (ls_store ?b)(lock_key ''k'' \<mapsto> (''\"1\"'', Some 20000))\<rparr>))" (is "lock_reach _ _ _ ?c")
    using lock_step.acquire [of ?b 1 "''k''" "(ls_store ?b)(lock_key ''k'' \<mapsto> (''\"1\"'', Some 20000))"]
    by (auto intro: lock_reach_step simp: resolving_once_def set_phase_def put_new_def lookup_def lock_ttl_def)
  then have "lock_reach None ''k'' ttl (set_phase 1 (Resolving 10000) ?c)"
    by (rule lock_reach_step)
      (rule lock_step.double_check_miss, auto simp: set_phase_def lookup_def lock_key_def resolving_once_def cached_def)
  moreover have "ls_phase (set_phase 1 (Resolving 10000) ?c) 0 = Resolving 0"
    "ls_phase (set_phase 1 (Resolving 10000) ?c) 1 = Resolving 10000"
    by (simp_all add: set_phase_def resolving_once_def)
  ultimately show ?thesis by blast
qed

end
