(* ===== verification/World.thy ===== *)
theory World imports Entities Redis begin

text \<open>
  The state the services share, what they throw, and what the program does not contain. \<open>world\<close> is
  the database, the Redis store, the messages put on the queues, the requests sent to the outside
  and the token cache of the API process. \<open>env\<close> stands for the code outside the repository: the
  HTTP services answer as functions of the requests sent so far, and encryption, hashing, tokens
  and identifiers are the functions of their libraries.
\<close>

section \<open>Exceptions and requests\<close>

text \<open>\<open>AxiosError\<close>: the status of the response, when there is one, and the message.\<close>

datatype failure = Failure "nat option" string

text \<open>
  \<open>HttpExc\<close> is an \<open>HttpException\<close> of Nest with its status, its message and the \<open>data\<close> of
  its response; \<open>RpcExc\<close> is the \<open>RpcBusinessException\<close> of the remote handlers, with its code, its
  message and its data;
  \<open>ScriptExc\<close> is an error of the language or of a library.
\<close>

datatype exc =
    HttpExc nat string "string option"
  | RpcExc string string "string option"
  | AxiosExc failure
  | ScriptExc string

abbreviation badRequest :: "string \<Rightarrow> exc" where
  "badRequest m \<equiv> HttpExc 400 m None"

abbreviation unauthorized :: "string \<Rightarrow> exc" where
  "unauthorized m \<equiv> HttpExc 401 m None"

abbreviation forbidden :: "string \<Rightarrow> exc" where
  "forbidden m \<equiv> HttpExc 403 m None"

abbreviation notFound :: "string \<Rightarrow> exc" where
  "notFound m \<equiv> HttpExc 404 m None"

abbreviation internalError :: "string \<Rightarrow> exc" where
  "internalError m \<equiv> HttpExc 500 m None"

record request =
  rq_method :: string
  rq_url :: string
  rq_fields :: "(string \<times> string) list"
  rq_clientId :: "string option"
  rq_bearer :: "string option"

type_synonym 'r endpoint = "request list \<Rightarrow> request \<Rightarrow> failure + 'r"

section \<open>Answers of the outside services\<close>

(* apps/api/src/modules/twitch/models/twitch-token-response.model.ts 7-10 ITwitchUserTokenResponseModel *)
record token_reply =
  tr_access_token :: string
  tr_refresh_token :: string
  tr_expires_in :: int

(* apps/api/src/modules/twitch/models/twitch-api/twitch-user.model.ts 16-28 ITwitchApiUserModel *)
record twitch_user =
  tu_id :: string
  tu_login :: string
  tu_display_name :: string
  tu_type :: string
  tu_broadcaster_type :: string
  tu_description :: string
  tu_profile_image_url :: "string option"
  tu_offline_image_url :: "string option"
  tu_view_count :: int
  tu_email :: string
  tu_created_at :: time

(* apps/api/src/modules/twitch/models/twitch-api/twitch-channel.model.ts 3-16 ITwitchApiChannelModel *)
record twitch_channel =
  tc_id :: string
  tc_broadcaster_language :: "string option"
  tc_broadcaster_login :: string
  tc_display_name :: string
  tc_game_id :: string
  tc_game_name :: "string option"
  tc_is_live :: bool
  tc_tag_ids :: "string list"
  tc_tags :: "string list"
  tc_thumbnail_url :: string
  tc_title :: "string option"
  tc_started_at :: "string option"

(* apps/api/src/modules/twitch/models/twitch-api/twitch-category.model.ts 3-7 ITwitchApiCategoryModel *)
record twitch_category =
  tg_id :: string
  tg_name :: string
  tg_box_art_url :: string

(* apps/api/src/modules/twitch/models/twitch-subscriptions-api.model.ts 3-14 ITwitchStreamOnlineApiModel *)
record registered_event =
  re_id :: string
  re_cost :: "int option"

(* apps/api/src/modules/twitch/models/twitch-api/twitch-subscription.model.ts 30-42 ITwitchApiSubscriptionModel *)
record twitch_subscription =
  ts_id :: string
  ts_status :: string
  ts_type :: string
  ts_cost :: int
  ts_created_at :: string

(* apps/api/src/modules/twitch/models/twitch-api/twitch-subscription.model.ts 22-28 ITwitchGetSubscriptionsApiResponseModel *)
record subscriptions_reply =
  sr_data :: "twitch_subscription list"
  sr_total :: int
  sr_total_cost :: int
  sr_max_total_cost :: int
  sr_cursor :: "string option"

(* apps/api/src/modules/discord/models/discord-tokens.model.ts 9-15 IDiscordApiTokensModel *)
record discord_token_reply =
  dt_access_token :: string
  dt_token_type :: string
  dt_expires_in :: int
  dt_refresh_token :: string
  dt_scope :: string

(* apps/api/src/modules/discord/models/discord-me.model.ts 10-17 IDiscordApiMeModel *)
record discord_me_reply =
  dm_id :: string
  dm_username :: string
  dm_avatar :: string
  dm_global_name :: string
  dm_email :: "string option"
  dm_verified :: bool

(* apps/api/src/modules/discord/models/discord-guild.model.ts 15-25 IDiscordApiGuildModel *)
record discord_guild_reply =
  dg_id :: string
  dg_name :: string
  dg_icon :: string
  dg_banner :: string
  dg_owner :: bool
  dg_permissions :: string
  dg_features :: "string list"
  dg_member_count :: nat
  dg_presence_count :: nat

(* libs/config/src/configs/discord.config.ts 6-11 discordConfig *)
record discord_settings =
  ds_clientId :: string
  ds_clientSecret :: string
  ds_redirectUri :: string
  ds_apiUrl :: string

record message =
  ms_queue :: string
  ms_pattern :: string
  ms_data :: json

record env =
  x_uuid :: "nat \<Rightarrow> string"
  x_random_hex :: "nat \<Rightarrow> string"
  x_canon :: "string \<Rightarrow> string"
  x_glob :: "string \<Rightarrow> string \<Rightarrow> bool"
  x_seal :: "nat \<Rightarrow> string \<Rightarrow> string"
  x_open :: "string \<Rightarrow> string option"
  x_webhook_base :: string
  x_redirect_uri :: string
  x_scopes :: string
  x_encode :: "string \<Rightarrow> string"
  x_token :: "token_reply endpoint"
  x_users :: "twitch_user list endpoint"
  x_channels :: "twitch_channel list endpoint"
  x_search_channels :: "(twitch_channel list \<times> string option) endpoint"
  x_search_categories :: "(twitch_category list \<times> string option) endpoint"
  x_games :: "twitch_category list endpoint"
  x_register :: "registered_event list endpoint"
  x_subscriptions :: "subscriptions_reply endpoint"
  x_delete_subscription :: "unit endpoint"
  x_cache_message :: "int \<Rightarrow> string \<Rightarrow> string option"
  x_hmac :: "string \<Rightarrow> string \<Rightarrow> string"
  x_iso :: "time \<Rightarrow> string"
  x_seconds :: "string \<Rightarrow> string"
  x_broker :: "message list \<Rightarrow> message \<Rightarrow> string option"
  x_post :: "nat endpoint"
  x_discord_settings :: discord_settings
  x_discord_token :: "discord_token_reply endpoint"
  x_discord_me :: "discord_me_reply endpoint"
  x_discord_guilds :: "discord_guild_reply list endpoint"
  x_discord_webhook :: "string endpoint"
  x_bot_channels :: "json endpoint"
  x_bot_guild_ids :: "json endpoint"
  x_bot_roles :: "json endpoint"
  x_hash :: "nat \<Rightarrow> string \<Rightarrow> string"
  x_compare :: "string \<Rightarrow> string \<Rightarrow> bool"
  x_sign :: "string \<Rightarrow> json \<Rightarrow> time \<Rightarrow> string"
  x_access_ttl :: int
  x_refresh_ttl :: int
  x_is_url :: "string \<Rightarrow> bool"
  x_is_datetime :: "string \<Rightarrow> bool"

section \<open>The state\<close>

(* apps/api/src/modules/twitch/models/twitch-token.model.ts 1-5 ITwitchTokenModel *)
record cached_token =
  ct_accessToken :: string
  ct_expiresAt :: int

record world =
  w_now :: time
  w_ids :: nat
  w_users :: "user list"
  w_sessions :: "session list"
  w_roles :: "role list"
  w_apps :: "app list"
  w_streamers :: "streamer list"
  w_events :: "event list"
  w_guilds :: "guild list"
  w_dnotifs :: "discord_notification list"
  w_wnotifs :: "webhook_notification list"
  w_logs :: "notification_log list"
  w_redis :: store
  w_published :: "(string \<times> string) list"
  w_requests :: "request list"
  w_outbox :: "message list"
  w_tokens :: "string \<Rightarrow> cached_token option"
  w_unhandled :: "exc list"

type_synonym 'a act = "(world, exc, 'a) action"

interpretation users: repository w_users w_users_update u_id
  by unfold_locales simp_all

interpretation sessions: repository w_sessions w_sessions_update s_id
  by unfold_locales simp_all

interpretation roles: repository w_roles w_roles_update r_id
  by unfold_locales simp_all

interpretation apps: repository w_apps w_apps_update a_id
  by unfold_locales simp_all

interpretation streamers: repository w_streamers w_streamers_update st_id
  by unfold_locales simp_all

interpretation events: repository w_events w_events_update e_id
  by unfold_locales simp_all

interpretation guilds: repository w_guilds w_guilds_update g_id
  by unfold_locales simp_all

interpretation dnotifs: repository w_dnotifs w_dnotifs_update dn_id
  by unfold_locales simp_all

interpretation wnotifs: repository w_wnotifs w_wnotifs_update wn_id
  by unfold_locales simp_all

interpretation logs: repository w_logs w_logs_update l_id
  by unfold_locales simp_all

section \<open>Basic operations\<close>

text \<open>A number never used before: identifiers, salts and nonces are made from it.\<close>

definition fresh :: "nat act" where
  "fresh = (\<lambda>w. (Inr (w_ids w), w\<lparr>w_ids := Suc (w_ids w)\<rparr>))"

definition fresh_id :: "env \<Rightarrow> string act" where
  "fresh_id E = andThen fresh (\<lambda>n. ret (x_uuid E n))"

definition send :: "'r endpoint \<Rightarrow> request \<Rightarrow> 'r act" where
  "send orc rq = (\<lambda>w.
     ((case orc (w_requests w) rq of Inl f \<Rightarrow> Inl (AxiosExc f) | Inr r \<Rightarrow> Inr r),
      w\<lparr>w_requests := w_requests w @ [rq]\<rparr>))"

text \<open>The message is sent as the JSON text of its pattern and its data.\<close>

(* libs/queue/src/queue.service.ts 12-22 QueueService.emit *)
definition emit :: "env \<Rightarrow> string \<Rightarrow> string \<Rightarrow> json \<Rightarrow> unit act" where
  "emit E queue pattern d = (\<lambda>w.
     let m = \<lparr>ms_queue = queue, ms_pattern = pattern, ms_data = d\<rparr> in
     (case x_broker E (w_outbox w) m of
        Some reason \<Rightarrow> (Inl (ScriptExc reason), w)
      | None \<Rightarrow> (Inr (), w\<lparr>w_outbox := w_outbox w @ [m]\<rparr>)))"

text \<open>
  A call whose promise nobody awaits: its effects happen, its result is not seen, and when it fails
  the rejection is unhandled, which ends a Node process that installs no handler for it.
\<close>

definition unawaited :: "'a act \<Rightarrow> unit act" where
  "unawaited m = (\<lambda>w.
     case m w of
       (Inl e, w') \<Rightarrow> (Inr (), w'\<lparr>w_unhandled := w_unhandled w' @ [e]\<rparr>)
     | (Inr _, w') \<Rightarrow> (Inr (), w'))"

text \<open>The status of an error as the templates of the services print it.\<close>

fun nat_text :: "nat \<Rightarrow> string" where
  "nat_text n = (if n < 10 then [char_of (48 + n)] else nat_text (n div 10) @ [char_of (48 + n mod 10)])"

declare nat_text.simps [simp del]

fun status_text :: "exc \<Rightarrow> string" where
  "status_text (AxiosExc (Failure (Some n) _)) = nat_text n"
| "status_text (HttpExc n _ _) = nat_text n"
| "status_text _ = ''undefined''"

fun status_of :: "exc \<Rightarrow> nat option" where
  "status_of (AxiosExc (Failure s _)) = s"
| "status_of (HttpExc n _ _) = Some n"
| "status_of _ = None"

lemma exec_fresh [exec]: "fresh w = (Inr (w_ids w), w\<lparr>w_ids := Suc (w_ids w)\<rparr>)"
  by (simp add: fresh_def)

lemma exec_fresh_id [exec]: "fresh_id E w = (Inr (x_uuid E (w_ids w)), w\<lparr>w_ids := Suc (w_ids w)\<rparr>)"
  by (simp add: fresh_id_def exec)

lemma exec_send [exec]:
  "send orc rq w =
     ((case orc (w_requests w) rq of Inl f \<Rightarrow> Inl (AxiosExc f) | Inr r \<Rightarrow> Inr r),
      w\<lparr>w_requests := w_requests w @ [rq]\<rparr>)"
  by (simp add: send_def)

lemma exec_emit [exec]:
  "emit E q p d w =
     (case x_broker E (w_outbox w) \<lparr>ms_queue = q, ms_pattern = p, ms_data = d\<rparr> of
        Some reason \<Rightarrow> (Inl (ScriptExc reason), w)
      | None \<Rightarrow> (Inr (), w\<lparr>w_outbox := w_outbox w @ [\<lparr>ms_queue = q, ms_pattern = p, ms_data = d\<rparr>]\<rparr>))"
  by (simp add: emit_def Let_def)

lemma exec_unawaited [exec]:
  "unawaited m w =
     (case m w of (Inl e, w') \<Rightarrow> (Inr (), w'\<lparr>w_unhandled := w_unhandled w' @ [e]\<rparr>) | (Inr _, w') \<Rightarrow> (Inr (), w'))"
  by (simp add: unawaited_def)

section \<open>The cache, with values as JSON\<close>

(* libs/redis/src/redis.service.ts 59-66 RedisService.set *)
definition redis_set :: "string \<Rightarrow> json \<Rightarrow> nat \<Rightarrow> unit act" where
  "redis_set k v ttl = (\<lambda>w. (Inr (), w\<lparr>w_redis := put_key (w_now w) k (stringify v) ttl (w_redis w)\<rparr>))"

text \<open>An absent or empty value is null, and so is the text \<open>null\<close>: both are \<open>None\<close>.\<close>

(* libs/redis/src/redis.service.ts 102-106 RedisService.get *)
definition redis_get :: "env \<Rightarrow> string \<Rightarrow> json option act" where
  "redis_get E k = (\<lambda>w.
     (case lookup (w_now w) k (w_redis w) of
        None \<Rightarrow> (Inr None, w)
      | Some t \<Rightarrow>
          if t = [] then (Inr None, w)
          else (case json_parse (x_canon E) t of
             None \<Rightarrow> (Inl (ScriptExc ''SyntaxError''), w)
           | Some j \<Rightarrow> (Inr (if j = JNull then None else Some j), w))))"

(* libs/redis/src/redis.service.ts 108-110 RedisService.exists *)
definition redis_exists :: "string \<Rightarrow> bool act" where
  "redis_exists k = gets (\<lambda>w. lookup (w_now w) k (w_redis w) \<noteq> None)"

(* libs/redis/src/redis.service.ts 112-114 RedisService.delete *)
definition redis_delete :: "string \<Rightarrow> unit act" where
  "redis_delete k = modify (w_redis_update (drop_key k))"

(* libs/redis/src/redis.service.ts 116-120 RedisService.setNX *)
definition redis_setNX :: "string \<Rightarrow> json \<Rightarrow> nat \<Rightarrow> bool act" where
  "redis_setNX k v ttl = (\<lambda>w.
     let (ok, st) = put_new (w_now w) k (stringify v) ttl (w_redis w) in (Inr ok, w\<lparr>w_redis := st\<rparr>))"

(* libs/redis/src/redis.service.ts 122-125 RedisService.deleteByPattern *)
definition redis_deleteByPattern :: "env \<Rightarrow> string \<Rightarrow> unit act" where
  "redis_deleteByPattern E pattern = modify (w_redis_update (drop_pattern (x_glob E) pattern))"

(* libs/redis/src/redis.service.ts 15-17 RedisService.publish *)
definition redis_publish :: "string \<Rightarrow> string \<Rightarrow> unit act" where
  "redis_publish channel text = modify (w_published_update (\<lambda>ps. ps @ [(channel, text)]))"

text \<open>Waiting for another process: the message it publishes in time (\<open>x_cache_message\<close>), or
  the cache after the timeout.\<close>

(* libs/redis/src/redis.service.ts 30-57 RedisService.waitForCacheReady *)
definition waitForCacheReady :: "env \<Rightarrow> string \<Rightarrow> string \<Rightarrow> nat \<Rightarrow> json act" where
  "waitForCacheReady E cacheKey channelKey timeoutMs =
     andThen (gets w_now) (\<lambda>now.
     (case x_cache_message E now channelKey of
        Some m \<Rightarrow> orThrow (ScriptExc ''SyntaxError'') (json_parse (x_canon E) m)
      | None \<Rightarrow>
          andThen (modify (w_now_update (\<lambda>t. t + int timeoutMs))) (\<lambda>_.
          andThen (redis_get E cacheKey) (\<lambda>cached.
          orThrow (internalError (''Timeout waiting for cache key \"'' @ cacheKey @ ''\" to be set'')) cached))))"

definition finally_do :: "'a act \<Rightarrow> unit act \<Rightarrow> 'a act" where
  "finally_do m f = andThen (attempt m) (\<lambda>r. andThen f (\<lambda>_. case r of Inl e \<Rightarrow> throw e | Inr x \<Rightarrow> ret x))"

(* libs/redis/src/redis.service.ts 68-100 RedisService.getOrSet *)
definition getOrSet :: "env \<Rightarrow> string \<Rightarrow> json act \<Rightarrow> nat \<Rightarrow> json act" where
  "getOrSet E cacheKey resolver ttl =
     andThen (redis_get E cacheKey) (\<lambda>cached.
     case cached of
       Some v \<Rightarrow> ret v
     | None \<Rightarrow>
         andThen (redis_setNX (lock_key cacheKey) (JStr ''1'') lock_ttl) (\<lambda>acquired.
         if \<not> acquired then waitForCacheReady E cacheKey (''notify:'' @ cacheKey) 3000
         else finally_do
           (andThen (redis_get E cacheKey) (\<lambda>again.
            case again of
              Some v \<Rightarrow> ret v
            | None \<Rightarrow>
                andThen resolver (\<lambda>result.
                andThen (redis_set cacheKey result ttl) (\<lambda>_.
                andThen (redis_publish (''notify:'' @ cacheKey) (stringify result)) (\<lambda>_.
                ret result)))))
           (redis_delete (lock_key cacheKey))))"

lemma exec_finally [exec]:
  "finally_do m f w =
     (case m w of (r, w') \<Rightarrow> (case f w' of (Inl e, w'') \<Rightarrow> (Inl e, w'') | (Inr _, w'') \<Rightarrow> (r, w'')))"
  by (auto simp: finally_do_def exec split: prod.splits sum.splits)

lemma stringify_not_Nil: "wf_json canon j \<Longrightarrow> stringify j \<noteq> []"
  by (erule stringify_first) simp

text \<open>What was put in the cache comes back while it lives.\<close>

lemma get_after_set:
  assumes "wf_json (x_canon E) v"
  shows "redis_get E k (snd (redis_set k v ttl w)) =
    (Inr (if v = JNull then None else Some v), snd (redis_set k v ttl w))"
  using json_round_trip [OF assms] stringify_not_Nil [OF assms]
  by (simp add: redis_get_def redis_set_def redis_at.get_put)

lemma get_other: "k' \<noteq> k \<Longrightarrow> lookup now k' (w_redis (snd (redis_set k v ttl w))) = lookup now k' (w_redis w)"
  by (simp add: redis_set_def lookup_def put_key_def)

lemma redis_get_state [simp]: "snd (redis_get E k w) = w"
  by (simp add: redis_get_def split: option.split)

end
