(* ===== verification/Samples.thy ===== *)
theory Samples imports World begin

text \<open>
  A small concrete environment and state, at which the theorems of the other theories are applied:
  identifiers are rows of \<open>i\<close>, the cipher writes the number of the nonce in front of the text as
  a row of \<open>n\<close> ended by a colon, and every outside service refuses.
\<close>

definition rows_of :: "char \<Rightarrow> nat \<Rightarrow> string" where
  "rows_of c n = replicate (Suc n) c"

definition after_colon :: "string \<Rightarrow> string option" where
  "after_colon s = (case dropWhile (\<lambda>c. c \<noteq> CHR '':'') s of [] \<Rightarrow> None | _ # t \<Rightarrow> Some t)"

definition refuses :: "'r endpoint" where
  "refuses rs rq = Inl (Failure (Some 503) ''Service Unavailable'')"

definition sample_env :: env where
  "sample_env = \<lparr>
     x_uuid = rows_of (CHR ''i''),
     x_random_hex = rows_of (CHR ''f''),
     x_canon = (\<lambda>n. n),
     x_glob = (\<lambda>p k. p \<noteq> [] \<and> last p = CHR ''*'' \<and> prefix (butlast p) k),
     x_seal = (\<lambda>n s. rows_of (CHR ''n'') n @ '':'' @ s),
     x_open = after_colon,
     x_webhook_base = ''https://hook'',
     x_redirect_uri = ''https://app'',
     x_scopes = ''user:read:email'',
     x_encode = (\<lambda>s. s),
     x_token = refuses,
     x_users = refuses,
     x_channels = refuses,
     x_search_channels = refuses,
     x_search_categories = refuses,
     x_games = refuses,
     x_register = refuses,
     x_subscriptions = refuses,
     x_delete_subscription = refuses,
     x_cache_message = (\<lambda>t c. None),
     x_hmac = (\<lambda>k m. k @ m),
     x_iso = (\<lambda>t. ''2026-01-01T00:00:00.000Z''),
     x_seconds = (\<lambda>t. ''0''),
     x_broker = (\<lambda>ms m. None),
     x_post = refuses,
     x_discord_settings = \<lparr>ds_clientId = ''dc'', ds_clientSecret = ''ds'', ds_redirectUri = ''https://app'',
       ds_apiUrl = ''https://discord''\<rparr>,
     x_discord_token = refuses,
     x_discord_me = refuses,
     x_discord_guilds = refuses,
     x_discord_webhook = refuses,
     x_bot_channels = refuses,
     x_bot_guild_ids = refuses,
     x_bot_roles = refuses,
     x_hash = (\<lambda>n p. rows_of (CHR ''s'') n @ '':'' @ take 72 p),
     x_compare = (\<lambda>p h. after_colon h = Some (take 72 p)),
     x_sign = (\<lambda>t claims now. t @ stringify claims),
     x_access_ttl = 900,
     x_refresh_ttl = 604800,
     x_is_url = prefix ''https://'',
     x_is_datetime = (\<lambda>s. False)\<rparr>"

definition sample_world :: world where
  "sample_world = \<lparr>
     w_now = 1000, w_ids = 0, w_users = [], w_sessions = [], w_roles = [], w_apps = [],
     w_streamers = [], w_events = [], w_guilds = [], w_dnotifs = [], w_wnotifs = [], w_logs = [],
     w_redis = Map.empty, w_published = [], w_requests = [], w_outbox = [], w_tokens = Map.empty,
     w_unhandled = []\<rparr>"

definition sample_user :: user where
  "sample_user = \<lparr>
     u_id = ''u'', u_displayName = ''Ann'', u_balance = 100, u_email = Some ''a@b.c'', u_discordId = None,
     u_password = None, u_status = ACTIVE, u_discordAccessToken = None, u_discordRefreshToken = None,
     u_discordTokenExpiresAt = None, u_twitchAccessToken = Some ''t'', u_twitchRefreshToken = Some ''r'',
     u_twitchTokenExpiresAt = Some 0, u_twitchAccountId = None, u_roles = [], u_createdAt = 0\<rparr>"

definition sample_app :: app where
  "sample_app = \<lparr>
     a_id = ''a'', a_name = ''App'', a_status = AppActive, a_clientId = ''c'', a_clientSecret = ''cs'',
     a_webhookSecret = ''ws'', a_accessToken = Some ''at'', a_tokenExpiresAt = Some 100000,
     a_currentCost = 2, a_maxCost = 100, a_createdAt = 0\<rparr>"

definition sample_streamer :: streamer where
  "sample_streamer = \<lparr>
     st_id = ''s'', st_broadcasterId = ''b'', st_twitchLogin = ''ann'', st_displayName = ''Ann'',
     st_profileImageUrl = None, st_profileImageUpdatedAt = None, st_isPartner = False,
     st_isInternal = Some False, st_userId = Some ''u'', st_allowPersonalSubscriptions = True,
     st_createdAt = 0\<rparr>"

definition sample_event :: event where
  "sample_event = \<lparr>
     e_id = ''e'', e_streamerId = ''s'', e_twitchAppId = ''a'', e_appCost = 2, e_subscriptionId = Some ''sub'',
     e_event = STREAM_ONLINE, e_status = VERIFIED, e_createdAt = 0\<rparr>"

text \<open>One streamer with one event, on an application that carries its cost.\<close>

definition populated_world :: world where
  "populated_world = sample_world\<lparr>
     w_users := [sample_user], w_apps := [sample_app], w_streamers := [sample_streamer],
     w_events := [sample_event]\<rparr>"

lemmas samples = sample_env_def sample_world_def sample_user_def sample_app_def sample_streamer_def
  sample_event_def populated_world_def refuses_def

lemma sample_world_fields [simp]:
  "w_now sample_world = 1000" "w_ids sample_world = 0" "w_users sample_world = []"
  "w_sessions sample_world = []" "w_roles sample_world = []" "w_apps sample_world = []"
  "w_streamers sample_world = []" "w_events sample_world = []" "w_guilds sample_world = []"
  "w_dnotifs sample_world = []" "w_wnotifs sample_world = []" "w_logs sample_world = []"
  "w_redis sample_world = Map.empty" "w_requests sample_world = []" "w_outbox sample_world = []"
  "w_tokens sample_world = Map.empty" "w_unhandled sample_world = []"
  by (simp_all add: sample_world_def)

lemma populated_fields [simp]:
  "w_now populated_world = 1000" "w_ids populated_world = 0" "w_users populated_world = [sample_user]"
  "w_apps populated_world = [sample_app]" "w_streamers populated_world = [sample_streamer]"
  "w_events populated_world = [sample_event]" "w_dnotifs populated_world = []" "w_wnotifs populated_world = []"
  "w_requests populated_world = []" "w_outbox populated_world = []" "w_tokens populated_world = Map.empty"
  by (simp_all add: populated_world_def)

lemma sample_answers [simp]:
  "x_token sample_env rs rq = Inl (Failure (Some 503) ''Service Unavailable'')"
  "x_register sample_env rs rq = Inl (Failure (Some 503) ''Service Unavailable'')"
  "x_users sample_env rs rq = Inl (Failure (Some 503) ''Service Unavailable'')"
  "x_delete_subscription sample_env rs rq = Inl (Failure (Some 503) ''Service Unavailable'')"
  "x_post sample_env rs rq = Inl (Failure (Some 503) ''Service Unavailable'')"
  "x_discord_token sample_env rs rq = Inl (Failure (Some 503) ''Service Unavailable'')"
  "x_broker sample_env ms m = None"
  by (simp_all add: sample_env_def refuses_def)

lemma rows_of_colon [simp]: "dropWhile (\<lambda>c. c \<noteq> CHR '':'') (rows_of (CHR ''n'') n @ s) = dropWhile (\<lambda>c. c \<noteq> CHR '':'') s"
  unfolding rows_of_def by (induction n) simp_all

lemma sample_cipher [simp]: "x_open sample_env (x_seal sample_env n s) = Some s"
  by (simp add: sample_env_def after_colon_def)

end
