(* ===== verification/Crypto.thy ===== *)
theory Crypto imports Samples begin

text \<open>
  \<open>libs/shared/src/modules/crypto/services/crypto.service.ts\<close>. The cipher is a parameter:
  \<open>x_seal n\<close> is AES-256-GCM under the service's key with the \<open>n\<close>-th nonce and its base64,
  and \<open>x_open\<close> its inverse, which throws when the tag does not fit. The prefix that marks an
  encrypted value, and what it does to a value that already has it, are the code's.
\<close>

(* libs/shared/src/modules/crypto/services/crypto.service.ts 9-9 ENCRYPTED_PREFIX *)
definition encrypted_prefix :: string where
  "encrypted_prefix = ''enc:''"

(* libs/shared/src/modules/crypto/services/crypto.service.ts 22-24 CryptoService.isEncrypted *)
definition isEncrypted :: "string \<Rightarrow> bool" where
  "isEncrypted v = prefix encrypted_prefix v"

(* libs/shared/src/modules/crypto/services/crypto.service.ts 26-41 CryptoService.encrypt *)
definition encrypt :: "env \<Rightarrow> string \<Rightarrow> bool \<Rightarrow> string act" where
  "encrypt E plaintext skipCheck =
     (if isEncrypted plaintext \<and> \<not> skipCheck then ret plaintext
      else andThen fresh (\<lambda>n. ret (encrypted_prefix @ x_seal E n plaintext)))"

(* libs/shared/src/modules/crypto/services/crypto.service.ts 43-61 CryptoService.decrypt *)
definition decrypt :: "env \<Rightarrow> string \<Rightarrow> bool \<Rightarrow> string act" where
  "decrypt E ciphertext skipCheck =
     (if \<not> isEncrypted ciphertext \<and> \<not> skipCheck then ret ciphertext
      else orThrow (ScriptExc ''Unsupported state or unable to authenticate data'')
             (x_open E (drop (length encrypted_prefix) ciphertext)))"

text \<open>What the cipher guarantees: it opens what it sealed.\<close>

definition cipher_ok :: "env \<Rightarrow> bool" where
  "cipher_ok E \<longleftrightarrow> (\<forall>n p. x_open E (x_seal E n p) = Some p)"

lemma encrypt_result:
  "encrypt E p skip w =
     (Inr (if isEncrypted p \<and> \<not> skip then p else encrypted_prefix @ x_seal E (w_ids w) p),
      if isEncrypted p \<and> \<not> skip then w else w\<lparr>w_ids := Suc (w_ids w)\<rparr>)"
  by (simp add: encrypt_def exec)

lemma encrypted_is [simp]: "isEncrypted (encrypted_prefix @ s)"
  by (simp add: isEncrypted_def)

lemma decrypt_state [simp]: "snd (decrypt E c skip w) = w"
  by (simp add: decrypt_def exec split: option.split)

lemma decrypt_sealed: "cipher_ok E \<Longrightarrow> decrypt E (encrypted_prefix @ x_seal E n p) skip w = (Inr p, w)"
  by (simp add: decrypt_def cipher_ok_def exec)

lemma decrypt_plain: "\<not> isEncrypted c \<Longrightarrow> decrypt E c False w = (Inr c, w)"
  by (simp add: decrypt_def exec)

text \<open>What an encryption leaves alone: everything but the counter of the nonces.\<close>

lemma encrypt_same: "(\<And>w n. g (w\<lparr>w_ids := n\<rparr>) = g w) \<Longrightarrow> relates (same g) (encrypt E p skip)"
  by (rule relatesI) (simp add: encrypt_result same_def)

text \<open>
  What the service encrypts it decrypts, and encrypting twice is encrypting once, for every
  value that does not itself begin with the mark of an encrypted value.
\<close>

theorem crypto_round_trip:
  assumes "cipher_ok E" and "\<not> isEncrypted p"
  shows "\<exists>c w'. encrypt E p False w = (Inr c, w') \<and> isEncrypted c \<and>
    decrypt E c False w' = (Inr p, w') \<and> encrypt E c False w' = (Inr c, w')"
  using assms by (auto simp: encrypt_result decrypt_sealed)

theorem crypto_round_trip_witness:
  "\<exists>c w'. encrypt sample_env ''secret'' False sample_world = (Inr c, w') \<and> isEncrypted c \<and>
    decrypt sample_env c False w' = (Inr ''secret'', w') \<and> encrypt sample_env c False w' = (Inr c, w')"
  by (rule crypto_round_trip) (simp_all add: cipher_ok_def isEncrypted_def encrypted_prefix_def)

end
