(* ===== verification/TwitchApps.thy ===== *)
theory TwitchApps imports Crypto begin

text \<open>
  The Twitch applications of \<open>apps/api/src/modules/twitch\<close>: the repository that keeps their
  secrets encrypted (\<open>twitch-app.repository.ts\<close>), the cache of application tokens
  (\<open>twitch-token.manager.ts\<close>), the service that fetches tokens (\<open>twitch-app-auth.service.ts\<close>)
  and the administration of the applications (\<open>twitch-app.service.ts\<close>).
\<close>

section \<open>The repository\<close>

(* apps/api/src/modules/twitch/models/twitch-app.model.ts 11-15 ITwitchAppEncryptOptionsModel *)
record encrypt_options =
  o_webhookSecret :: bool
  o_accessToken :: bool
  o_clientSecret :: bool

(* apps/api/src/modules/twitch/repositories/twitch-app.repository.ts 7-11 defaultEncryptOptions *)
definition all_secrets :: encrypt_options where
  "all_secrets = \<lparr>o_webhookSecret = True, o_accessToken = True, o_clientSecret = True\<rparr>"

definition only_clientSecret :: encrypt_options where
  "only_clientSecret = \<lparr>o_webhookSecret = False, o_accessToken = False, o_clientSecret = True\<rparr>"

definition only_accessToken :: encrypt_options where
  "only_accessToken = \<lparr>o_webhookSecret = False, o_accessToken = True, o_clientSecret = False\<rparr>"

definition only_webhookSecret :: encrypt_options where
  "only_webhookSecret = \<lparr>o_webhookSecret = True, o_accessToken = False, o_clientSecret = False\<rparr>"

(* apps/api/src/modules/twitch/repositories/twitch-app.repository.ts 101-114 TwitchAppsRepository.encryptFields, one field *)
definition encrypt_if :: "env \<Rightarrow> string \<Rightarrow> string act" where
  "encrypt_if E s = (if s = [] then ret s else encrypt E s False)"

(* apps/api/src/modules/twitch/repositories/twitch-app.repository.ts 116-129 TwitchAppsRepository.decryptFields, one field *)
definition decrypt_if :: "env \<Rightarrow> bool \<Rightarrow> string \<Rightarrow> string act" where
  "decrypt_if E wanted s = (if s \<noteq> [] \<and> wanted then decrypt E s False else ret s)"

definition opt_map :: "('a \<Rightarrow> 'b act) \<Rightarrow> 'a option \<Rightarrow> 'b option act" where
  "opt_map f v = (case v of None \<Rightarrow> ret None | Some x \<Rightarrow> andThen (f x) (\<lambda>y. ret (Some y)))"

(* apps/api/src/modules/twitch/repositories/twitch-app.repository.ts 101-114 TwitchAppsRepository.encryptFields *)
definition encryptFields :: "env \<Rightarrow> app \<Rightarrow> app act" where
  "encryptFields E a =
     andThen (encrypt_if E (a_clientSecret a)) (\<lambda>cs.
     andThen (opt_map (encrypt_if E) (a_accessToken a)) (\<lambda>at.
     andThen (encrypt_if E (a_webhookSecret a)) (\<lambda>ws.
     ret (a\<lparr>a_clientSecret := cs, a_accessToken := at, a_webhookSecret := ws\<rparr>))))"

(* apps/api/src/modules/twitch/repositories/twitch-app.repository.ts 116-129 TwitchAppsRepository.decryptFields *)
definition decryptFields :: "env \<Rightarrow> encrypt_options \<Rightarrow> app \<Rightarrow> app act" where
  "decryptFields E opts a =
     andThen (decrypt_if E (o_clientSecret opts) (a_clientSecret a)) (\<lambda>cs.
     andThen (opt_map (decrypt_if E (o_accessToken opts)) (a_accessToken a)) (\<lambda>at.
     andThen (decrypt_if E (o_webhookSecret opts) (a_webhookSecret a)) (\<lambda>ws.
     ret (a\<lparr>a_clientSecret := cs, a_accessToken := at, a_webhookSecret := ws\<rparr>))))"

(* apps/api/src/modules/twitch/repositories/twitch-app.repository.ts 30-42 TwitchAppsRepository.findOne, the decryption *)
definition decrypted :: "env \<Rightarrow> encrypt_options option \<Rightarrow> app option \<Rightarrow> app option act" where
  "decrypted E opts found = opt_map (\<lambda>a. case opts of None \<Rightarrow> ret a | Some o' \<Rightarrow> decryptFields E o' a) found"

(* apps/api/src/modules/twitch/repositories/twitch-app.repository.ts 22-28 TwitchAppsRepository.saveApp *)
definition saveApp :: "env \<Rightarrow> app \<Rightarrow> app act" where
  "saveApp E a =
     andThen (encryptFields E a) (\<lambda>sealed.
     andThen (modify (w_apps_update (save_row a_id sealed))) (\<lambda>_.
     decryptFields E all_secrets sealed))"

(* apps/api/src/modules/twitch/repositories/twitch-app.repository.ts 30-42 TwitchAppsRepository.findOne *)
definition findApp :: "env \<Rightarrow> (app \<Rightarrow> bool) \<Rightarrow> encrypt_options option \<Rightarrow> app option act" where
  "findApp E P opts = andThen (gets (\<lambda>w. find P (w_apps w))) (decrypted E opts)"

(* apps/api/src/modules/twitch/repositories/twitch-app.repository.ts 44-52 TwitchAppsRepository.find *)
definition findApps :: "env \<Rightarrow> (app \<Rightarrow> bool) \<Rightarrow> bool \<Rightarrow> app list act" where
  "findApps E P shouldDecrypt =
     andThen (gets (\<lambda>w. filter P (w_apps w))) (\<lambda>as.
     if shouldDecrypt then mapEach (decryptFields E all_secrets) as else ret as)"

(* apps/api/src/modules/twitch/repositories/twitch-app.repository.ts 62-71 TwitchAppsRepository.updateToken *)
definition updateToken :: "env \<Rightarrow> string \<Rightarrow> string \<Rightarrow> time \<Rightarrow> unit act" where
  "updateToken E clientId accessToken expiresAt =
     andThen (encrypt E accessToken False) (\<lambda>sealed.
     modify (w_apps_update (update_rows (\<lambda>a. a_clientId a = clientId)
       (\<lambda>a. a\<lparr>a_accessToken := Some sealed, a_tokenExpiresAt := Some expiresAt\<rparr>))))"

text \<open>\<open>orderBy('app.currentCost', 'ASC').getOne()\<close>: the first of the cheapest.\<close>

(* apps/api/src/modules/twitch/repositories/twitch-app.repository.ts 73-86 TwitchAppsRepository.findLeastLoaded, the order *)
fun cheapest :: "app list \<Rightarrow> app option" where
  "cheapest [] = None"
| "cheapest (a # as) =
     (case cheapest as of
        None \<Rightarrow> Some a
      | Some b \<Rightarrow> if a_currentCost a \<le> a_currentCost b then Some a else Some b)"

(* apps/api/src/modules/twitch/repositories/twitch-app.repository.ts 73-86 TwitchAppsRepository.findLeastLoaded *)
definition findLeastLoaded :: "env \<Rightarrow> encrypt_options option \<Rightarrow> app option act" where
  "findLeastLoaded E opts =
     andThen (gets (\<lambda>w. cheapest (filter (\<lambda>a. a_currentCost a < a_maxCost a \<and> a_status a = AppActive) (w_apps w))))
       (decrypted E opts)"

(* apps/api/src/modules/twitch/repositories/twitch-app.repository.ts 88-99 TwitchAppsRepository.findInternalApp *)
definition findInternalApp :: "env \<Rightarrow> encrypt_options option \<Rightarrow> app option act" where
  "findInternalApp E opts = findApp E (\<lambda>a. a_status a = AppInternal) opts"

section \<open>Tokens\<close>

(* apps/api/src/modules/twitch/twitch-token.manager.ts 14-21 TwitchAppTokenManager.setToken *)
definition setToken :: "string \<Rightarrow> string \<Rightarrow> int \<Rightarrow> unit act" where
  "setToken clientId token expiresIn =
     modify (\<lambda>w. w\<lparr>w_tokens := (w_tokens w)(clientId \<mapsto>
       \<lparr>ct_accessToken = token, ct_expiresAt = w_now w + (expiresIn - 60) * 1000\<rparr>)\<rparr>)"

(* apps/api/src/modules/twitch/twitch-token.manager.ts 23-26 TwitchAppTokenManager.isExpired *)
definition isExpired :: "string \<Rightarrow> world \<Rightarrow> bool" where
  "isExpired clientId w =
     (case w_tokens w clientId of None \<Rightarrow> True | Some st \<Rightarrow> ct_expiresAt st \<le> w_now w)"

(* apps/api/src/modules/twitch/twitch-token.manager.ts 28-33 TwitchAppTokenManager.invalidate *)
definition invalidate :: "string \<Rightarrow> unit act" where
  "invalidate clientId =
     modify (\<lambda>w. w\<lparr>w_tokens := (w_tokens w)(clientId :=
       map_option (\<lambda>st. st\<lparr>ct_expiresAt := 0\<rparr>) (w_tokens w clientId))\<rparr>)"

text \<open>
  The refresh, with its \<open>finally\<close>: whatever the cache holds for the application then is
  written to the database. When there is no entry yet, an empty token that has expired is put in
  its place while the refresh runs. Two calls for one application at the same time share one
  refresh; a single call never finds one running.
\<close>

(* apps/api/src/modules/twitch/twitch-token.manager.ts 68-93 TwitchAppTokenManager.getOrRefresh, the refresh *)
definition run_refresh :: "env \<Rightarrow> string \<Rightarrow> string act \<Rightarrow> string act" where
  "run_refresh E clientId refreshFn =
     andThen (modify (\<lambda>w. w\<lparr>w_tokens := (w_tokens w)(clientId :=
       (case w_tokens w clientId of
          None \<Rightarrow> Some \<lparr>ct_accessToken = [], ct_expiresAt = 0\<rparr>
        | Some st \<Rightarrow> Some st))\<rparr>)) (\<lambda>_.
     finally_do refreshFn
       (andThen (gets (\<lambda>w. w_tokens w clientId)) (\<lambda>current.
        case current of
          None \<Rightarrow> ret ()
        | Some st \<Rightarrow> updateToken E clientId (ct_accessToken st) (ct_expiresAt st))))"

(* apps/api/src/modules/twitch/twitch-token.manager.ts 62-67 TwitchAppTokenManager.getOrRefresh, the cached token *)
definition cached_or_refresh :: "env \<Rightarrow> string \<Rightarrow> string act \<Rightarrow> string act" where
  "cached_or_refresh E clientId refreshFn =
     andThen (gets (\<lambda>w. (w_tokens w clientId, isExpired clientId w))) (\<lambda>(state, expired).
     case state of
       Some st \<Rightarrow> if \<not> expired then ret (ct_accessToken st) else run_refresh E clientId refreshFn
     | None \<Rightarrow> run_refresh E clientId refreshFn)"

(* apps/api/src/modules/twitch/twitch-token.manager.ts 36-94 TwitchAppTokenManager.getOrRefresh *)
definition getOrRefresh :: "env \<Rightarrow> string \<Rightarrow> string act \<Rightarrow> string act" where
  "getOrRefresh E clientId refreshFn =
     andThen (gets (\<lambda>w. w_tokens w clientId)) (\<lambda>state.
     if state \<noteq> None then cached_or_refresh E clientId refreshFn
     else
       andThen (findApp E (\<lambda>a. a_clientId a = clientId) (Some only_accessToken)) (\<lambda>found.
       andThen (gets w_now) (\<lambda>now.
       case found of
         None \<Rightarrow> run_refresh E clientId refreshFn
       | Some a \<Rightarrow>
           (case (a_accessToken a, a_tokenExpiresAt a) of
              (Some token, Some expiresAt) \<Rightarrow>
                if token \<noteq> [] \<and> now < expiresAt then
                  andThen (setToken clientId token expiresAt) (\<lambda>_.
                  cached_or_refresh E clientId refreshFn)
                else run_refresh E clientId refreshFn
            | _ \<Rightarrow> run_refresh E clientId refreshFn))))"

(* apps/api/src/modules/twitch/services/twitch-app-auth.service.ts 39-61 TwitchAppAuthService.fetchToken *)
definition fetchToken :: "env \<Rightarrow> string \<Rightarrow> string \<Rightarrow> token_reply act" where
  "fetchToken E clientId clientSecret =
     catching
       (send (x_token E)
         \<lparr>rq_method = ''POST'', rq_url = ''https://id.twitch.tv/oauth2/token'',
          rq_fields = [(''client_id'', clientId), (''client_secret'', clientSecret),
            (''grant_type'', ''client_credentials'')],
          rq_clientId = None, rq_bearer = None\<rparr>)
       (\<lambda>e. throw (internalError
         (''Twitch App authorization went wrong. Please contact administrator for more information ['' @
          status_text e @ '']'')))"

(* apps/api/src/modules/twitch/services/twitch-app-auth.service.ts 19-37 TwitchAppAuthService.getTokenForApp *)
definition getTokenForApp :: "env \<Rightarrow> string \<Rightarrow> bool \<Rightarrow> string act" where
  "getTokenForApp E clientId forceRefresh =
     andThen (whenever forceRefresh (invalidate clientId)) (\<lambda>_.
     getOrRefresh E clientId
       (andThen (findApp E (\<lambda>a. a_clientId a = clientId) (Some only_clientSecret)) (\<lambda>found.
        case found of
          None \<Rightarrow> throw (notFound (''Twitch app '' @ clientId @ '' not found''))
        | Some a \<Rightarrow>
            andThen (fetchToken E (a_clientId a) (a_clientSecret a)) (\<lambda>tokenData.
            andThen (setToken clientId (tr_access_token tokenData) (tr_expires_in tokenData)) (\<lambda>_.
            ret (tr_access_token tokenData))))))"

section \<open>Administration\<close>

(* apps/api/src/modules/twitch/models/twitch-app.model.ts 3-9 ITwitchAppShortModel *)
record app_item =
  ai_id :: string
  ai_name :: "string option"
  ai_clientId :: string
  ai_createdAt :: time
  ai_status :: "app_status option"

(* apps/api/src/modules/twitch/mappers/twitch-app.mapper.ts 7-15 TwitchAppMapper.entityToListItem *)
definition appToListItem :: "app \<Rightarrow> app_item" where
  "appToListItem a =
     \<lparr>ai_id = a_id a, ai_name = Some (a_name a), ai_clientId = a_clientId a,
      ai_createdAt = a_createdAt a, ai_status = Some (a_status a)\<rparr>"

(* apps/api/src/modules/twitch/dto/add-twitch-app.dto.ts 5-28 AddTwitchAppDto *)
record add_app_dto =
  aa_clientId :: string
  aa_clientSecret :: string
  aa_name :: string
  aa_webhookSecret :: "string option"
  aa_status :: "app_status option"

(* apps/api/src/modules/twitch/dto/edit-twitch-app.dto.ts 5-27 EditTwitchAppDto *)
record edit_app_dto =
  ea_clientSecret :: "string option"
  ea_webhookSecret :: "string option"
  ea_name :: "string option"
  ea_status :: "app_status option"

(* apps/api/src/modules/twitch/services/twitch-app.service.ts 23-41 TwitchAppService.getAllTwitchApps *)
definition getAllTwitchApps :: "nat \<Rightarrow> nat \<Rightarrow> (app_item list \<times> nat) act" where
  "getAllTwitchApps page pageSize =
     gets (\<lambda>w. (map appToListItem (page_rows page pageSize (w_apps w)), length (w_apps w)))"

(* apps/api/src/modules/twitch/services/twitch-app.service.ts 43-53 TwitchAppService.getById *)
definition getAppById :: "env \<Rightarrow> string \<Rightarrow> app_item act" where
  "getAppById E appId =
     andThen (findApp E (\<lambda>a. a_id a = appId) None) (\<lambda>found.
     case found of
       None \<Rightarrow> throw (badRequest (''Cannot find Twitch App with id \"'' @ appId @ ''\"''))
     | Some a \<Rightarrow> ret (appToListItem a))"

(* apps/api/src/modules/twitch/services/twitch-app.service.ts 55-80 TwitchAppService.addTwitchApp *)
definition addTwitchApp :: "env \<Rightarrow> add_app_dto \<Rightarrow> app_item act" where
  "addTwitchApp E dto =
     andThen (findApp E (\<lambda>a. a_clientId a = aa_clientId dto) None) (\<lambda>existing.
     if existing \<noteq> None then
       throw (badRequest (''Twitch app with clientId \"'' @ aa_clientId dto @ ''\" already exists.''))
     else
       andThen (fetchToken E (aa_clientId dto) (aa_clientSecret dto)) (\<lambda>tokenData.
       andThen
         (case aa_webhookSecret dto of
            None \<Rightarrow> andThen fresh (\<lambda>n. ret (x_random_hex E n))
          | Some s \<Rightarrow> if s = [] then andThen fresh (\<lambda>n. ret (x_random_hex E n)) else ret s) (\<lambda>secret.
       andThen (fresh_id E) (\<lambda>newId.
       andThen (gets w_now) (\<lambda>now.
       andThen (saveApp E
         \<lparr>a_id = newId, a_name = aa_name dto,
          a_status = (case aa_status dto of None \<Rightarrow> AppActive | Some s \<Rightarrow> s),
          a_clientId = aa_clientId dto, a_clientSecret = aa_clientSecret dto, a_webhookSecret = secret,
          a_accessToken = Some (tr_access_token tokenData),
          a_tokenExpiresAt = Some (now + tr_expires_in tokenData * 1000),
          a_currentCost = 0, a_maxCost = 9500, a_createdAt = now\<rparr>) (\<lambda>a.
       ret (appToListItem a)))))))"

text \<open>
  \<open>Object.assign(twitchApp, dto)\<close> also copies the fields of the DTO that are undefined (the
  class fields of the compiled DTO are own properties). An undefined column is not written, so the
  row keeps it; the entity that is returned has lost it.
\<close>

(* apps/api/src/modules/twitch/services/twitch-app.service.ts 82-102 TwitchAppService.editTwitchApp *)
definition editTwitchApp :: "env \<Rightarrow> string \<Rightarrow> edit_app_dto \<Rightarrow> app_item act" where
  "editTwitchApp E appId dto =
     andThen (findApp E (\<lambda>a. a_id a = appId) (Some all_secrets)) (\<lambda>found.
     case found of
       None \<Rightarrow> throw (notFound (''Twitch App with ID '' @ appId @ '' not found''))
     | Some a \<Rightarrow>
         andThen (gets (\<lambda>w. count_rows (\<lambda>e. e_twitchAppId e = appId) (w_events w))) (\<lambda>appEvents.
         if a_webhookSecret a \<noteq> [] \<and> ea_webhookSecret dto \<notin> {None, Some []} \<and> 0 < appEvents then
           throw (badRequest (''Cannot replace existing webhook secret for app with id '' @ appId))
         else
           andThen (saveApp E
             (a\<lparr>a_clientSecret := (case ea_clientSecret dto of None \<Rightarrow> a_clientSecret a | Some s \<Rightarrow> s),
                a_webhookSecret := (case ea_webhookSecret dto of None \<Rightarrow> a_webhookSecret a | Some s \<Rightarrow> s),
                a_name := (case ea_name dto of None \<Rightarrow> a_name a | Some s \<Rightarrow> s),
                a_status := (case ea_status dto of None \<Rightarrow> a_status a | Some s \<Rightarrow> s)\<rparr>)) (\<lambda>saved.
           ret ((appToListItem saved)\<lparr>ai_name := ea_name dto, ai_status := ea_status dto\<rparr>))))"

text \<open>An application that events refer to cannot be removed: the foreign key is violated.\<close>

(* apps/api/src/modules/twitch/services/twitch-app.service.ts 104-113 TwitchAppService.deleteTwitchApp *)
definition deleteTwitchApp :: "env \<Rightarrow> string \<Rightarrow> bool act" where
  "deleteTwitchApp E appId =
     andThen (findApp E (\<lambda>a. a_id a = appId) None) (\<lambda>found.
     case found of
       None \<Rightarrow> throw (notFound (''Twitch App with ID '' @ appId @ '' not found''))
     | Some a \<Rightarrow>
         andThen (gets (\<lambda>w. \<exists>e \<in> set (w_events w). e_twitchAppId e = a_id a)) (\<lambda>referenced.
         andThen (throwIf referenced (ScriptExc ''QueryFailedError'')) (\<lambda>_.
         andThen (modify (w_apps_update (delete_rows (\<lambda>x. a_id x = a_id a)))) (\<lambda>_. ret True))))"

definition add_cost :: "string \<Rightarrow> int \<Rightarrow> app list \<Rightarrow> app list" where
  "add_cost clientId cost =
     update_rows (\<lambda>a. a_clientId a = clientId) (\<lambda>a. a\<lparr>a_currentCost := a_currentCost a + cost\<rparr>)"

(* apps/api/src/modules/twitch/services/twitch-app.service.ts 115-121 TwitchAppService.releaseAppCost *)
definition releaseAppCost :: "string \<Rightarrow> int \<Rightarrow> unit act" where
  "releaseAppCost clientId cost = modify (w_apps_update (add_cost clientId (- cost)))"

(* apps/api/src/modules/twitch/services/twitch-app.service.ts 123-129 TwitchAppService.consumeAppCost *)
definition consumeAppCost :: "string \<Rightarrow> int \<Rightarrow> unit act" where
  "consumeAppCost clientId cost = modify (w_apps_update (add_cost clientId cost))"


section \<open>Lemmas\<close>

lemma cheapest_None [simp]: "cheapest as = None \<longleftrightarrow> as = []"
  by (cases as) (auto split: option.splits)

lemma cheapest_in: "cheapest as = Some a \<Longrightarrow> a \<in> set as"
  by (induction as arbitrary: a) (auto split: option.splits if_splits)

lemma cheapest_least: "cheapest as = Some a \<Longrightarrow> b \<in> set as \<Longrightarrow> a_currentCost a \<le> a_currentCost b"
  by (induction as arbitrary: a) (auto split: option.splits if_splits dest: cheapest_in)

text \<open>
  An event is registered with a Twitch application that is active, has cost left and carries
  the least cost of all such applications; no application is found only when there is none.
\<close>

theorem least_loaded_app:
  "case fst (findLeastLoaded E None w) of
     Inl _ \<Rightarrow> False
   | Inr None \<Rightarrow> \<forall>b. b \<in> set (w_apps w) \<longrightarrow> a_status b \<noteq> AppActive \<or> a_maxCost b \<le> a_currentCost b
   | Inr (Some a) \<Rightarrow> a \<in> set (w_apps w) \<and> a_status a = AppActive \<and> a_currentCost a < a_maxCost a \<and>
       (\<forall>b. b \<in> set (w_apps w) \<and> a_status b = AppActive \<and> a_currentCost b < a_maxCost b \<longrightarrow>
          a_currentCost a \<le> a_currentCost b)"
  by (auto simp: findLeastLoaded_def decrypted_def opt_map_def exec filter_empty_conv not_less
      split: option.split dest: cheapest_in cheapest_least)

lemma encrypt_if_exec:
  "encrypt_if E s w =
     (if s = [] \<or> isEncrypted s then (Inr s, w)
      else (Inr (encrypted_prefix @ x_seal E (w_ids w) s), w\<lparr>w_ids := Suc (w_ids w)\<rparr>))"
  by (auto simp: encrypt_if_def encrypt_result exec)

lemma exec_opt_map [exec]:
  "opt_map f v w = (case v of None \<Rightarrow> (Inr None, w)
     | Some x \<Rightarrow> (case f x w of (Inl e, w') \<Rightarrow> (Inl e, w') | (Inr y, w') \<Rightarrow> (Inr (Some y), w')))"
  by (auto simp: opt_map_def exec split: option.split prod.split sum.split)

text \<open>A text that is a secret to be sealed: not empty, and without the mark.\<close>

definition raw_secret :: "string \<Rightarrow> bool" where
  "raw_secret s \<longleftrightarrow> s \<noteq> [] \<and> \<not> isEncrypted s"

lemma encrypted_prefix_not_Nil [simp]: "encrypted_prefix \<noteq> []"
  by (simp add: encrypted_prefix_def)

lemma decrypt_if_not [simp]: "decrypt_if E False s w = (Inr s, w)"
  by (simp add: decrypt_if_def exec)

lemma decrypt_if_sealed:
  "cipher_ok E \<Longrightarrow> decrypt_if E True (encrypted_prefix @ x_seal E n s) w = (Inr s, w)"
  by (simp add: decrypt_if_def decrypt_sealed)

text \<open>
  C31. Saving an application never stores a secret in the clear: the client secret, the access
  token and the webhook secret of the row are sealed, and the caller gets back what it saved.
\<close>

theorem saveApp_seals_secrets:
  assumes "cipher_ok E" "raw_secret (a_clientSecret a)" "raw_secret (a_webhookSecret a)"
    and "a_accessToken a = Some token" "raw_secret token"
  shows "\<exists>row. fst (saveApp E a w) = Inr a \<and>
    row_of a_id (a_id a) (w_apps (snd (saveApp E a w))) = Some row \<and>
    isEncrypted (a_clientSecret row) \<and> isEncrypted (a_webhookSecret row) \<and>
    (\<exists>t. a_accessToken row = Some t \<and> isEncrypted t)"
  using assms
  by (auto simp: saveApp_def encryptFields_def decryptFields_def all_secrets_def exec encrypt_if_exec
      raw_secret_def decrypt_if_sealed row_of_save)

lemma findApp_exec:
  "findApp E P None w = (Inr (find P (w_apps w)), w)"
  by (auto simp: findApp_def decrypted_def exec split: option.split)

text \<open>Decrypting changes nothing.\<close>

lemma decrypt_reads [pres]: "relates (same g) (decrypt E c skip)"
  by (rule relatesI) (simp add: same_def)

lemma decrypt_if_reads [pres]: "relates (same g) (decrypt_if E b s)"
  unfolding decrypt_if_def by (intro sameness.rel_rules pres)

lemma opt_map_reads [pres]: "(\<And>x. relates (same g) (f x)) \<Longrightarrow> relates (same g) (opt_map f v)"
  unfolding opt_map_def by (intro sameness.rel_rules pres)

lemma decryptFields_reads [pres]: "relates (same g) (decryptFields E opts a)"
  unfolding decryptFields_def by (intro sameness.rel_rules pres)

lemma decrypted_reads [pres]: "relates (same g) (decrypted E opts found)"
  unfolding decrypted_def by (intro sameness.rel_rules pres)

lemma findApp_reads [pres]: "relates (same g) (findApp E P opts)"
  unfolding findApp_def by (intro sameness.rel_rules pres)

lemma findLeastLoaded_reads [pres]: "relates (same g) (findLeastLoaded E opts)"
  unfolding findLeastLoaded_def by (intro sameness.rel_rules pres)

lemma findApp_state: "snd (findApp E P opts w) = w"
  using sameD [OF findApp_reads [where g = "\<lambda>w. w"]] .

lemma findLeastLoaded_state: "snd (findLeastLoaded E opts w) = w"
  using sameD [OF findLeastLoaded_reads [where g = "\<lambda>w. w"]] .

text \<open>
  A webhook secret that events already depend on is never replaced: the edit is refused and the
  applications stay as they are.
\<close>

theorem webhook_secret_kept:
  assumes "findApp E (\<lambda>a. a_id a = appId) (Some all_secrets) w = (Inr (Some a), w')"
    and "a_webhookSecret a \<noteq> []" and "ea_webhookSecret dto = Some s" and "s \<noteq> []"
    and "e \<in> set (w_events w)" and "e_twitchAppId e = appId"
  shows "editTwitchApp E appId dto w =
    (Inl (badRequest (''Cannot replace existing webhook secret for app with id '' @ appId)), w)"
proof -
  have "w' = w" using findApp_state [of E _ "Some all_secrets" w] assms(1) by (metis snd_conv)
  moreover have "0 < count_rows (\<lambda>e. e_twitchAppId e = appId) (w_events w)"
    using assms(5,6) by (auto simp: count_rows_def filter_empty_conv)
  ultimately show ?thesis
    using assms(1-4) by (simp add: editTwitchApp_def exec)
qed

text \<open>
  A token taken over from the database is cached for about a thousand times the time since
  1970: its expiry in milliseconds is passed where a lifetime in seconds is expected. From then on
  the token is handed out without any request, long after it has expired.
\<close>

theorem cached_token_outlives_expiry:
  assumes "w_tokens w clientId = None"
    and "find (\<lambda>a. a_clientId a = clientId) (w_apps w) = Some a"
    and "a_accessToken a = Some (encrypted_prefix @ x_seal E n token)" and "cipher_ok E"
    and "a_tokenExpiresAt a = Some t" and "w_now w < t" and "token \<noteq> []"
    and "later < w_now w + (t - 60) * 1000" and "w_now w \<le> later" and "60 < t"
  shows "getTokenForApp E clientId False w = (Inr token, snd (getTokenForApp E clientId False w)) \<and>
    (let w1 = (snd (getTokenForApp E clientId False w))\<lparr>w_now := later\<rparr>
     in getTokenForApp E clientId False w1 = (Inr token, w1))"
proof -
  let ?w1 = "w\<lparr>w_tokens := (w_tokens w)(clientId \<mapsto>
       \<lparr>ct_accessToken = token, ct_expiresAt = w_now w + (t - 60) * 1000\<rparr>)\<rparr>"
  have f: "findApp E (\<lambda>a. a_clientId a = clientId) (Some only_accessToken) w =
      (Inr (Some (a\<lparr>a_accessToken := Some token\<rparr>)), w)"
    using assms(2-4)
    by (simp add: findApp_def decrypted_def exec decryptFields_def only_accessToken_def
        decrypt_if_sealed)
  have "getTokenForApp E clientId False w = (Inr token, ?w1)"
    using assms by (simp add: getTokenForApp_def getOrRefresh_def exec f setToken_def
        cached_or_refresh_def isExpired_def)
  moreover have "getTokenForApp E clientId False (?w1\<lparr>w_now := later\<rparr>) = (Inr token, ?w1\<lparr>w_now := later\<rparr>)"
    using assms(8) by (simp add: getTokenForApp_def getOrRefresh_def exec cached_or_refresh_def isExpired_def)
  ultimately show ?thesis by (simp add: Let_def)
qed

theorem least_loaded_app_witness:
  "fst (findLeastLoaded sample_env None populated_world) = Inr (Some sample_app) \<and>
   a_currentCost sample_app < a_maxCost sample_app"
  using least_loaded_app [where E = sample_env and w = populated_world]
  by (simp add: findLeastLoaded_def decrypted_def opt_map_def exec samples)

theorem saveApp_seals_secrets_witness:
  "\<exists>row. row_of a_id ''a'' (w_apps (snd (saveApp sample_env sample_app sample_world))) = Some row \<and>
     isEncrypted (a_clientSecret row)"
  using saveApp_seals_secrets [where E = sample_env and a = sample_app and token = "''at''" and w = sample_world]
  by (auto simp: cipher_ok_def raw_secret_def isEncrypted_def encrypted_prefix_def sample_app_def)

theorem webhook_secret_kept_witness:
  "editTwitchApp sample_env ''a'' \<lparr>ea_clientSecret = None, ea_webhookSecret = Some ''new'', ea_name = None, ea_status = None\<rparr>
     populated_world =
     (Inl (badRequest (''Cannot replace existing webhook secret for app with id '' @ ''a'')), populated_world)"
  by (rule webhook_secret_kept [where a = sample_app and w' = populated_world and s = "''new''" and e = sample_event])
    (simp_all add: findApp_def decrypted_def opt_map_def decryptFields_def decrypt_if_def decrypt_def
      isEncrypted_def encrypted_prefix_def all_secrets_def exec samples)

definition token_app :: app where
  "token_app = sample_app\<lparr>a_accessToken := Some (''enc:n:t''), a_tokenExpiresAt := Some 2000\<rparr>"

theorem cached_token_outlives_expiry_witness:
  "let w1 = (snd (getTokenForApp sample_env ''c'' False (sample_world\<lparr>w_apps := [token_app]\<rparr>)))\<lparr>w_now := 1900000\<rparr>
   in getTokenForApp sample_env ''c'' False w1 = (Inr ''t'', w1)"
proof -
  have "a_clientId token_app = ''c''" "a_accessToken token_app = Some (encrypted_prefix @ x_seal sample_env 0 ''t'')"
    "a_tokenExpiresAt token_app = Some 2000"
    by (simp_all add: token_app_def sample_app_def encrypted_prefix_def sample_env_def rows_of_def)
  then show ?thesis
    by (intro cached_token_outlives_expiry [where a = token_app and n = 0 and t = 2000, THEN conjunct2])
      (simp_all add: cipher_ok_def)
qed

end
