(* ===== verification/TwitchUserTokens.thy ===== *)
theory TwitchUserTokens imports TwitchApps begin

text \<open>
  The Twitch accounts of users: the OAuth calls of \<open>twitch-user-auth.service.ts\<close> and the
  stored tokens of \<open>twitch-user-token.service.ts\<close>.
\<close>

section \<open>Authorization\<close>

(* apps/api/src/modules/auth/exceptions/twitch.exceptions.ts 3-10 TwitchNotConnectedException *)
definition twitchNotConnected :: exc where
  "twitchNotConnected = HttpExc 403 ''Twitch account not connected'' (Some ''TWITCH_NOT_CONNECTED'')"

(* apps/api/src/modules/auth/exceptions/twitch.exceptions.ts 12-19 TwitchTokenRevokedException *)
definition twitchTokenRevoked :: exc where
  "twitchTokenRevoked =
     HttpExc 403 ''Twitch access was revoked, please reconnect'' (Some ''TWITCH_TOKEN_REVOKED'')"

(* apps/api/src/modules/twitch/models/twitch-token-response.model.ts 12-16 ITwitchUserTokensModel *)
record tokens_model =
  tm_accessToken :: string
  tm_refreshToken :: string
  tm_expiresIn :: int

(* apps/api/src/modules/twitch/services/twitch-user-auth.service.ts 98-104 TwitchUserAuthService.toTokensModel *)
definition toTokensModel :: "token_reply \<Rightarrow> tokens_model" where
  "toTokensModel d =
     \<lparr>tm_accessToken = tr_access_token d, tm_refreshToken = tr_refresh_token d, tm_expiresIn = tr_expires_in d\<rparr>"

(* apps/api/src/modules/twitch/services/twitch-user-auth.service.ts 90-96 TwitchUserAuthService.getInternalApp *)
definition getInternalApp :: "env \<Rightarrow> bool \<Rightarrow> app act" where
  "getInternalApp E shouldDecrypt =
     andThen (findInternalApp E (if shouldDecrypt then Some only_clientSecret else None))
       (orThrow (notFound ''No internal Twitch app is configured for user authorization''))"

text \<open>\<open>URLSearchParams\<close> prints \<open>name=value\<close> pairs with the values encoded (\<open>x_encode\<close>).\<close>

definition url_params :: "env \<Rightarrow> (string \<times> string) list \<Rightarrow> string" where
  "url_params E ps =
     concat (map (\<lambda>(i, k, v). (if i = 0 then [] else ''&'') @ k @ ''='' @ x_encode E v)
       (zip [0..<length ps] ps))"

(* apps/api/src/modules/twitch/services/twitch-user-auth.service.ts 22-32 TwitchUserAuthService.getAuthRedirectUri *)
definition getAuthRedirectUri :: "env \<Rightarrow> string act" where
  "getAuthRedirectUri E =
     andThen (getInternalApp E False) (\<lambda>a.
     ret (''https://id.twitch.tv/oauth2/authorize?'' @ url_params E
       [(''client_id'', a_clientId a), (''response_type'', ''code''),
        (''redirect_uri'', x_redirect_uri E), (''scope'', x_scopes E)]))"

definition oauth_request :: "(string \<times> string) list \<Rightarrow> request" where
  "oauth_request fs =
     \<lparr>rq_method = ''POST'', rq_url = ''https://id.twitch.tv/oauth2/token'', rq_fields = fs,
      rq_clientId = None, rq_bearer = None\<rparr>"

definition authorization_failed :: "exc \<Rightarrow> exc" where
  "authorization_failed e = internalError
     (''Twitch authorization went wrong. Please contact administrator for more information ['' @
      status_text e @ '']'')"

(* apps/api/src/modules/twitch/services/twitch-user-auth.service.ts 34-59 TwitchUserAuthService.exchangeCodeForTokens *)
definition exchangeCodeForTokens :: "env \<Rightarrow> string \<Rightarrow> tokens_model act" where
  "exchangeCodeForTokens E code =
     andThen (getInternalApp E True) (\<lambda>a.
     catching
       (andThen (send (x_token E) (oauth_request
          [(''client_id'', a_clientId a), (''client_secret'', a_clientSecret a),
           (''grant_type'', ''authorization_code''), (''code'', code),
           (''redirect_uri'', x_redirect_uri E)])) (\<lambda>d. ret (toTokensModel d)))
       (\<lambda>e. throw (authorization_failed e)))"

(* apps/api/src/modules/twitch/services/twitch-user-auth.service.ts 61-88 TwitchUserAuthService.refreshUserToken *)
definition refreshUserToken :: "env \<Rightarrow> string \<Rightarrow> tokens_model act" where
  "refreshUserToken E refreshToken =
     andThen (getInternalApp E True) (\<lambda>a.
     catching
       (andThen (send (x_token E) (oauth_request
          [(''client_id'', a_clientId a), (''client_secret'', a_clientSecret a),
           (''grant_type'', ''refresh_token''), (''refresh_token'', refreshToken)])) (\<lambda>d. ret (toTokensModel d)))
       (\<lambda>e. if status_of e = Some 401 then throw twitchTokenRevoked else throw (authorization_failed e)))"

section \<open>Stored tokens\<close>

(* apps/api/src/modules/twitch/services/twitch-user-token.service.ts 9-9 REFRESH_BUFFER_MS *)
definition twitch_refresh_buffer :: int where
  "twitch_refresh_buffer = 5 * 60 * 1000"

(* apps/api/src/modules/twitch/services/twitch-user-token.service.ts 77-81 TwitchUserTokenService.isExpired *)
definition twitchIsExpired :: "time option \<Rightarrow> world \<Rightarrow> bool" where
  "twitchIsExpired expiresAt w =
     (case expiresAt of None \<Rightarrow> True | Some t \<Rightarrow> t - twitch_refresh_buffer \<le> w_now w)"

(* apps/api/src/modules/twitch/services/twitch-user-token.service.ts 61-75 TwitchUserTokenService.clearTokens *)
definition clearTwitchTokens :: "string \<Rightarrow> unit act" where
  "clearTwitchTokens userId =
     andThen (modify (w_users_update (update_rows (\<lambda>u. u_id u = userId)
       (\<lambda>u. u\<lparr>u_twitchAccessToken := None, u_twitchRefreshToken := None, u_twitchTokenExpiresAt := None\<rparr>)))) (\<lambda>_.
     modify (w_streamers_update (update_rows (\<lambda>st. st_userId st = Some userId)
       (\<lambda>st. st\<lparr>st_allowPersonalSubscriptions := False\<rparr>))))"

definition store_twitch_tokens :: "env \<Rightarrow> string \<Rightarrow> tokens_model \<Rightarrow> unit act" where
  "store_twitch_tokens E userId tokens =
     andThen (encrypt E (tm_accessToken tokens) False) (\<lambda>at.
     andThen (encrypt E (tm_refreshToken tokens) False) (\<lambda>rt.
     modify (\<lambda>w. w\<lparr>w_users := update_rows (\<lambda>u. u_id u = userId)
       (\<lambda>u. u\<lparr>u_twitchAccessToken := Some at, u_twitchRefreshToken := Some rt,
              u_twitchTokenExpiresAt := Some (w_now w + tm_expiresIn tokens * 1000)\<rparr>) (w_users w)\<rparr>)))"

(* apps/api/src/modules/twitch/services/twitch-user-token.service.ts 37-59 TwitchUserTokenService.refresh *)
definition refreshTwitch :: "env \<Rightarrow> string \<Rightarrow> string \<Rightarrow> string act" where
  "refreshTwitch E userId encryptedRefreshToken =
     andThen (decrypt E encryptedRefreshToken False) (\<lambda>refreshToken.
     catching
       (andThen (refreshUserToken E refreshToken) (\<lambda>tokens.
        andThen (store_twitch_tokens E userId tokens) (\<lambda>_.
        ret (tm_accessToken tokens))))
       (\<lambda>e. andThen (whenever (e = twitchTokenRevoked) (clearTwitchTokens userId)) (\<lambda>_. throw e)))"

definition truthy :: "string option \<Rightarrow> bool" where
  "truthy s \<longleftrightarrow> s \<noteq> None \<and> s \<noteq> Some []"

(* apps/api/src/modules/twitch/services/twitch-user-token.service.ts 83-103 TwitchUserTokenService.getUserWithTokens *)
definition twitchUserWithTokens :: "string \<Rightarrow> (string \<times> string \<times> time) act" where
  "twitchUserWithTokens userId =
     andThen (gets (\<lambda>w. row_of u_id userId (w_users w))) (\<lambda>found.
     case found of
       None \<Rightarrow> throw twitchNotConnected
     | Some u \<Rightarrow>
         (case (u_twitchAccessToken u, u_twitchRefreshToken u, u_twitchTokenExpiresAt u) of
            (Some at, Some rt, Some t) \<Rightarrow>
              if at \<noteq> [] \<and> rt \<noteq> [] then ret (at, rt, t) else throw twitchNotConnected
          | _ \<Rightarrow> throw twitchNotConnected))"

(* apps/api/src/modules/twitch/services/twitch-user-token.service.ts 22-30 TwitchUserTokenService.getValidToken *)
definition getValidTwitchToken :: "env \<Rightarrow> string \<Rightarrow> string act" where
  "getValidTwitchToken E userId =
     andThen (twitchUserWithTokens userId) (\<lambda>(at, rt, t).
     andThen (gets (twitchIsExpired (Some t))) (\<lambda>expired.
     if \<not> expired then decrypt E at False else refreshTwitch E userId rt))"

(* apps/api/src/modules/twitch/services/twitch-user-token.service.ts 32-35 TwitchUserTokenService.forceRefresh *)
definition forceRefreshTwitch :: "env \<Rightarrow> string \<Rightarrow> string act" where
  "forceRefreshTwitch E userId = andThen (twitchUserWithTokens userId) (\<lambda>(at, rt, t). refreshTwitch E userId rt)"

section \<open>Lemmas\<close>

lemma findInternalApp_reads [pres]: "relates (same g) (findInternalApp E opts)"
  unfolding findInternalApp_def by (intro pres)

lemma getInternalApp_reads [pres]: "relates (same g) (getInternalApp E b)"
  unfolding getInternalApp_def by (intro sameness.rel_rules pres)

lemma send_same [pres]: "(\<And>w rs. g (w\<lparr>w_requests := rs\<rparr>) = g w) \<Longrightarrow> relates (same g) (send orc rq)"
  by (rule relatesI) (simp add: exec_send same_def)

lemma refreshUserToken_same [pres]:
  "(\<And>w rs. g (w\<lparr>w_requests := rs\<rparr>) = g w) \<Longrightarrow> relates (same g) (refreshUserToken E rt)"
  unfolding refreshUserToken_def by (intro sameness.rel_rules pres)



lemma findInternalApp_state: "snd (findInternalApp E opts w) = w"
  using sameD [OF findInternalApp_reads [where g = "\<lambda>w. w"]] .

lemma refreshUserToken_users: "w_users (snd (refreshUserToken E rt w)) = w_users w"
  "w_streamers (snd (refreshUserToken E rt w)) = w_streamers w"
  by (rule sameD [OF refreshUserToken_same]; simp)+

lemma encrypt_never_fails: "encrypt E p b w = (Inl e, w') \<Longrightarrow> P"
  by (auto simp: encrypt_result)

lemma cleared_twitch_tokens:
  "u \<in> set (w_users (snd (clearTwitchTokens userId w))) \<Longrightarrow> u_id u = userId \<Longrightarrow>
     u_twitchAccessToken u = None \<and> u_twitchRefreshToken u = None \<and> u_twitchTokenExpiresAt u = None"
  "st \<in> set (w_streamers (snd (clearTwitchTokens userId w))) \<Longrightarrow> st_userId st = Some userId \<Longrightarrow>
     \<not> st_allowPersonalSubscriptions st"
proof -
  let ?f = "\<lambda>u. u\<lparr>u_twitchAccessToken := None, u_twitchRefreshToken := None, u_twitchTokenExpiresAt := None\<rparr>"
  assume "u \<in> set (w_users (snd (clearTwitchTokens userId w)))" and u: "u_id u = userId"
  then have "u \<in> set (update_rows (\<lambda>u. u_id u = userId) ?f (w_users w))"
    by (simp add: clearTwitchTokens_def exec)
  from update_rows_in [OF this] obtain v where "u = (if u_id v = userId then ?f v else v)" by blast
  with u show "u_twitchAccessToken u = None \<and> u_twitchRefreshToken u = None \<and> u_twitchTokenExpiresAt u = None"
    by (cases "u_id v = userId") simp_all
next
  let ?f = "\<lambda>st. st\<lparr>st_allowPersonalSubscriptions := False\<rparr>"
  assume "st \<in> set (w_streamers (snd (clearTwitchTokens userId w)))" and st: "st_userId st = Some userId"
  then have "st \<in> set (update_rows (\<lambda>st. st_userId st = Some userId) ?f (w_streamers w))"
    by (simp add: clearTwitchTokens_def exec)
  from update_rows_in [OF this] obtain v where "st = (if st_userId v = Some userId then ?f v else v)" by blast
  with st show "\<not> st_allowPersonalSubscriptions st"
    by (cases "st_userId v = Some userId") simp_all
qed

text \<open>
  C29. When the refresh of a user's Twitch tokens fails, the stored tokens are cleared and the
  streamer's personal subscriptions are switched off exactly when Twitch has revoked the access;
  any other failure leaves users and streamers as they were.
\<close>

theorem twitch_refresh_failure:
  assumes "refreshTwitch E userId rt w = (Inl e, w')"
  shows "if e = twitchTokenRevoked
    then (\<forall>u. u \<in> set (w_users w') \<and> u_id u = userId \<longrightarrow>
            u_twitchAccessToken u = None \<and> u_twitchRefreshToken u = None \<and> u_twitchTokenExpiresAt u = None) \<and>
         (\<forall>st. st \<in> set (w_streamers w') \<and> st_userId st = Some userId \<longrightarrow> \<not> st_allowPersonalSubscriptions st)
    else w_users w' = w_users w \<and> w_streamers w' = w_streamers w"
proof (cases "decrypt E rt False w")
  case (Pair r w0)
  have w0: "w0 = w" using decrypt_state [of E rt False w] Pair by simp
  show ?thesis
  proof (cases r)
    case (Inl e0)
    then have "e = e0" "w' = w" using assms Pair w0 by (auto simp: refreshTwitch_def exec)
    moreover have "e0 \<noteq> twitchTokenRevoked"
      using Pair Inl by (auto simp: decrypt_def exec twitchTokenRevoked_def split: if_splits option.splits)
    ultimately show ?thesis by simp
  next
    case (Inr token)
    obtain r1 w1 where r1: "refreshUserToken E token w = (r1, w1)" by (cases "refreshUserToken E token w")
    have same: "w_users w1 = w_users w" "w_streamers w1 = w_streamers w"
      using refreshUserToken_users [of E token w] r1 by simp_all
    show ?thesis
    proof (cases r1)
      case (Inl e1)
      then have "e = e1" "w' = (if e1 = twitchTokenRevoked then snd (clearTwitchTokens userId w1) else w1)"
        using assms Pair w0 Inr r1
        by (auto simp: refreshTwitch_def clearTwitchTokens_def exec split: if_splits prod.splits sum.splits)
      then show ?thesis
        using same cleared_twitch_tokens [of _ userId w1] by simp
    next
      case (Inr tokens)
      then have False
        using assms Pair w0 r1 \<open>r = Inr token\<close>
        by (auto simp: refreshTwitch_def store_twitch_tokens_def exec encrypt_result)
      then show ?thesis ..
    qed
  qed
qed

text \<open>
  C28. After a successful refresh the new access token is what the service hands out, without asking
  Twitch again, as long as more than five minutes of its lifetime remain.
\<close>

theorem refreshed_twitch_token_served:
  assumes "refreshTwitch E userId rt w = (Inr token, w')" and "cipher_ok E"
    and "row_of u_id userId (w_users w) = Some u"
    and "\<And>rq rs d. x_token E rs rq = Inr d \<Longrightarrow>
      raw_secret (tr_access_token d) \<and> raw_secret (tr_refresh_token d) \<and> lifetime \<le> tr_expires_in d"
    and "later < w_now w + lifetime * 1000 - 300000"
  shows "getValidTwitchToken E userId (w'\<lparr>w_now := later\<rparr>) = (Inr token, w'\<lparr>w_now := later\<rparr>)"
proof -
  obtain rtoken where d: "decrypt E rt False w = (Inr rtoken, w)"
    using assms(1) decrypt_state [of E rt False w]
    by (cases "decrypt E rt False w"; cases "fst (decrypt E rt False w)") (auto simp: refreshTwitch_def exec)
  obtain r1 w1 where r1: "refreshUserToken E rtoken w = (r1, w1)" by (cases "refreshUserToken E rtoken w")
  have keep: "w_users w1 = w_users w" "w_now w1 = w_now w"
    using refreshUserToken_users [of E rtoken w] r1
      sameD [OF refreshUserToken_same, of w_now E rtoken w] by simp_all
  obtain tokens where t: "r1 = Inr tokens"
    using assms(1) d r1
    by (cases r1) (auto simp: refreshTwitch_def exec split: if_splits prod.splits sum.splits)
  have "\<exists>rs rq dd. x_token E rs rq = Inr dd \<and> tokens = toTokensModel dd"
    using r1 t by (auto simp: refreshUserToken_def exec split: prod.splits sum.splits if_splits)
  then have tok: "raw_secret (tm_accessToken tokens)" "raw_secret (tm_refreshToken tokens)"
    "lifetime \<le> tm_expiresIn tokens"
    using assms(4) by (auto simp: toTokensModel_def)
  let ?f = "\<lambda>u. u\<lparr>u_twitchAccessToken := Some (encrypted_prefix @ x_seal E (w_ids w1) (tm_accessToken tokens)),
       u_twitchRefreshToken := Some (encrypted_prefix @ x_seal E (Suc (w_ids w1)) (tm_refreshToken tokens)),
       u_twitchTokenExpiresAt := Some (w_now w + tm_expiresIn tokens * 1000)\<rparr>"
  have w': "w_users w' = update_rows (\<lambda>u. u_id u = userId) ?f (w_users w)" and "token = tm_accessToken tokens"
    using assms(1) d r1 t tok keep
    by (auto simp: refreshTwitch_def store_twitch_tokens_def exec encrypt_result raw_secret_def)
  have "row_of u_id userId (w_users w') = Some (?f u)"
    using assms(3) by (auto simp: w' row_of_update dest: row_of_in)
  moreover have "\<not> twitchIsExpired (Some (w_now w + tm_expiresIn tokens * 1000)) (w'\<lparr>w_now := later\<rparr>)"
    using assms(5) tok(3) by (simp add: twitchIsExpired_def twitch_refresh_buffer_def)
  ultimately show ?thesis
    using assms(2) \<open>token = tm_accessToken tokens\<close>
    by (simp add: getValidTwitchToken_def twitchUserWithTokens_def exec decrypt_sealed)
qed

definition revoking_env :: env where
  "revoking_env = sample_env\<lparr>x_token := (\<lambda>rs rq. Inl (Failure (Some 401) ''Unauthorized''))\<rparr>"

theorem twitch_refresh_failure_witness:
  "\<exists>w'. refreshTwitch revoking_env ''u'' ''r'' (populated_world\<lparr>w_apps := [sample_app\<lparr>a_status := AppInternal\<rparr>]\<rparr>) =
       (Inl twitchTokenRevoked, w') \<and>
     (\<forall>st. st \<in> set (w_streamers w') \<and> st_userId st = Some ''u'' \<longrightarrow> \<not> st_allowPersonalSubscriptions st)"
proof -
  let ?w = "populated_world\<lparr>w_apps := [sample_app\<lparr>a_status := AppInternal\<rparr>]\<rparr>"
  obtain w' where w': "refreshTwitch revoking_env ''u'' ''r'' ?w = (Inl twitchTokenRevoked, w')"
    by (simp add: refreshTwitch_def decrypt_def refreshUserToken_def getInternalApp_def findInternalApp_def findApp_def
        decrypted_def opt_map_def decryptFields_def decrypt_if_def only_clientSecret_def isEncrypted_def
        encrypted_prefix_def clearTwitchTokens_def exec revoking_env_def sample_app_def)
  show ?thesis using twitch_refresh_failure [OF w'] w' by auto
qed

definition granting_env :: env where
  "granting_env = sample_env\<lparr>x_token := (\<lambda>rs rq. Inr \<lparr>tr_access_token = ''AT'', tr_refresh_token = ''RT'', tr_expires_in = 14400\<rparr>)\<rparr>"

theorem refreshed_twitch_token_served_witness:
  "\<exists>w'. refreshTwitch granting_env ''u'' ''r'' (populated_world\<lparr>w_apps := [sample_app\<lparr>a_status := AppInternal\<rparr>]\<rparr>) =
       (Inr ''AT'', w') \<and>
     getValidTwitchToken granting_env ''u'' (w'\<lparr>w_now := 9000000\<rparr>) = (Inr ''AT'', w'\<lparr>w_now := 9000000\<rparr>)"
proof -
  let ?w = "populated_world\<lparr>w_apps := [sample_app\<lparr>a_status := AppInternal\<rparr>]\<rparr>"
  obtain w' where w': "refreshTwitch granting_env ''u'' ''r'' ?w = (Inr ''AT'', w')"
    by (simp add: refreshTwitch_def decrypt_def refreshUserToken_def getInternalApp_def findInternalApp_def findApp_def
        decrypted_def opt_map_def decryptFields_def decrypt_if_def only_clientSecret_def isEncrypted_def
        encrypted_prefix_def store_twitch_tokens_def encrypt_result toTokensModel_def exec granting_env_def samples)
  have "getValidTwitchToken granting_env ''u'' (w'\<lparr>w_now := 9000000\<rparr>) = (Inr ''AT'', w'\<lparr>w_now := 9000000\<rparr>)"
    by (rule refreshed_twitch_token_served [OF w', where u = sample_user and lifetime = 14400])
      (auto simp: cipher_ok_def granting_env_def raw_secret_def isEncrypted_def encrypted_prefix_def samples row_of_def
        after_colon_def)
  with w' show ?thesis by blast
qed

end
