(* ===== verification/TwitchApi.thy ===== *)
theory TwitchApi imports TwitchUserTokens begin

text \<open>
  The calls to the Twitch API: the request and response interceptors of
  \<open>twitch-auth.interceptor.ts\<close>, the service \<open>twitch-api.service.ts\<close> with the mapper of its
  answers, and the cached game names of \<open>twitch-games.service.ts\<close>. The retry of a request
  that names no application is part of the outside (\<open>x_token\<close>).
\<close>

section \<open>Interceptors\<close>

(* apps/api/src/modules/twitch/models/twitch-http-config.model.ts 3-7 ITwitchHttpConfigModel *)
record http_config =
  hc_twitchClientId :: string
  hc_accessToken :: "string option"
  hc_twitchUserId :: "string option"

definition app_config :: "string \<Rightarrow> http_config" where
  "app_config clientId = \<lparr>hc_twitchClientId = clientId, hc_accessToken = None, hc_twitchUserId = None\<rparr>"

(* apps/api/src/modules/twitch/twitch-auth.interceptor.ts 28-38 TwitchAuthInterceptor.createAxiosInterceptors, request *)
definition authorized_send :: "env \<Rightarrow> http_config \<Rightarrow> 'r endpoint \<Rightarrow> request \<Rightarrow> 'r act" where
  "authorized_send E cfg orc rq =
     andThen (case hc_accessToken cfg of
         Some t \<Rightarrow> ret t
       | None \<Rightarrow> getTokenForApp E (hc_twitchClientId cfg) False) (\<lambda>token.
     send orc (rq\<lparr>rq_clientId := Some (hc_twitchClientId cfg), rq_bearer := Some token\<rparr>))"

definition unauthorized_answer :: "exc \<Rightarrow> bool" where
  "unauthorized_answer e \<longleftrightarrow> (case e of AxiosExc (Failure s _) \<Rightarrow> s = Some 401 | _ \<Rightarrow> False)"

(* apps/api/src/modules/twitch/twitch-auth.interceptor.ts 24-80 TwitchAuthInterceptor.createAxiosInterceptors *)
definition twitch_http :: "env \<Rightarrow> http_config \<Rightarrow> 'r endpoint \<Rightarrow> request \<Rightarrow> 'r act" where
  "twitch_http E cfg orc rq =
     catching (authorized_send E cfg orc rq) (\<lambda>e.
       if \<not> unauthorized_answer e then throw e
       else if \<not> truthy (hc_accessToken cfg) then
         andThen (getTokenForApp E (hc_twitchClientId cfg) True) (\<lambda>_. authorized_send E cfg orc rq)
       else if truthy (hc_twitchUserId cfg) then
         andThen (attempt (forceRefreshTwitch E (the (hc_twitchUserId cfg)))) (\<lambda>r.
         case r of
           Inl _ \<Rightarrow> throw e
         | Inr token \<Rightarrow> authorized_send E (cfg\<lparr>hc_accessToken := Some token\<rparr>) orc rq)
       else throw e)"

section \<open>Mapper\<close>

(* apps/api/src/modules/twitch/models/twitch-api/twitch-category.model.ts 9-13 ITwitchApiCategoryNormalizedModel *)
record category_model =
  cm_id :: string
  cm_name :: string
  cm_boxArtUrl :: string

(* apps/api/src/modules/twitch/models/twitch-api/twitch-channel.model.ts 18-31 ITwitchApiChannelNormalizedModel *)
record channel_model =
  ch_broadcasterId :: string
  ch_broadcasterLanguage :: "string option"
  ch_broadcasterLogin :: string
  ch_displayName :: string
  ch_gameId :: string
  ch_gameName :: "string option"
  ch_isLive :: bool
  ch_tagIds :: "string list"
  ch_tags :: "string list"
  ch_thumbnailUrl :: string
  ch_streamTitle :: "string option"
  ch_streamStartedAt :: "string option"

(* apps/api/src/modules/twitch/models/twitch-api/twitch-user.model.ts 30-42 ITwitchApiUserNormalizedModel *)
record api_user =
  au_broadcasterId :: string
  au_login :: string
  au_displayName :: string
  au_type :: string
  au_broadcasterType :: string
  au_description :: string
  au_profileImageUrl :: "string option"
  au_offlineImageUrl :: "string option"
  au_viewCount :: int
  au_email :: string
  au_createdAt :: time

(* apps/api/src/modules/twitch/mappers/twitch-api.mapper.ts 6-12 TwitchApiMapper.twitchApiCategoryToNormalized *)
definition twitchApiCategoryToNormalized :: "twitch_category \<Rightarrow> category_model" where
  "twitchApiCategoryToNormalized c = \<lparr>cm_id = tg_id c, cm_name = tg_name c, cm_boxArtUrl = tg_box_art_url c\<rparr>"

(* apps/api/src/modules/twitch/mappers/twitch-api.mapper.ts 14-29 TwitchApiMapper.twitchApiChannelToNormalized *)
definition twitchApiChannelToNormalized :: "twitch_channel \<Rightarrow> channel_model" where
  "twitchApiChannelToNormalized c =
     \<lparr>ch_broadcasterId = tc_id c, ch_broadcasterLanguage = tc_broadcaster_language c,
      ch_broadcasterLogin = tc_broadcaster_login c, ch_displayName = tc_display_name c,
      ch_gameId = tc_game_id c, ch_gameName = tc_game_name c, ch_isLive = tc_is_live c,
      ch_tagIds = tc_tag_ids c, ch_tags = tc_tags c, ch_thumbnailUrl = tc_thumbnail_url c,
      ch_streamTitle = tc_title c, ch_streamStartedAt = tc_started_at c\<rparr>"

(* apps/api/src/modules/twitch/mappers/twitch-api.mapper.ts 31-45 TwitchApiMapper.twitchApiUserToNormalized *)
definition twitchApiUserToNormalized :: "twitch_user \<Rightarrow> api_user" where
  "twitchApiUserToNormalized b =
     \<lparr>au_broadcasterId = tu_id b, au_login = tu_login b, au_displayName = tu_display_name b,
      au_type = tu_type b, au_broadcasterType = tu_broadcaster_type b, au_description = tu_description b,
      au_profileImageUrl = tu_profile_image_url b, au_offlineImageUrl = tu_offline_image_url b,
      au_viewCount = tu_view_count b, au_email = tu_email b, au_createdAt = tu_created_at b\<rparr>"

section \<open>Service\<close>

definition request_to :: "string \<Rightarrow> string \<Rightarrow> (string \<times> string) list \<Rightarrow> request" where
  "request_to meth url fs =
     \<lparr>rq_method = meth, rq_url = url, rq_fields = fs, rq_clientId = None, rq_bearer = None\<rparr>"

definition opt_field :: "string \<Rightarrow> string option \<Rightarrow> (string \<times> string) list" where
  "opt_field k v = (case v of None \<Rightarrow> [] | Some t \<Rightarrow> [(k, t)])"

definition wrapped :: "string \<Rightarrow> 'a act \<Rightarrow> 'a act" where
  "wrapped m act = catching act (\<lambda>e. throw (internalError
     (m @ '' Please contact administrator for more information ['' @ status_text e @ '']'')))"

(* apps/api/src/modules/twitch/services/twitch-api.service.ts 271-277 TwitchApiService.getLeastLoadedApp *)
definition getLeastLoadedApp :: "env \<Rightarrow> app act" where
  "getLeastLoadedApp E = andThen (findLeastLoaded E None) (orThrow (internalError ''No Twitch app available''))"

(* apps/api/src/modules/twitch/services/twitch-api.service.ts 35-56 TwitchApiService.getChannels *)
definition getChannels :: "env \<Rightarrow> string option \<Rightarrow> string option \<Rightarrow> nat \<Rightarrow> (channel_model list \<times> string option) act" where
  "getChannels E searchStr cursor limit =
     andThen (getLeastLoadedApp E) (\<lambda>a.
     andThen (twitch_http E (app_config (a_clientId a)) (x_search_channels E)
       (request_to ''GET'' ''/helix/search/channels''
         ([(''query'', if truthy searchStr then x_encode E (the searchStr) else []),
           (''first'', nat_text limit)] @ opt_field ''after'' cursor))) (\<lambda>(cs, pagination).
     ret (map twitchApiChannelToNormalized cs, pagination)))"

(* apps/api/src/modules/twitch/services/twitch-api.service.ts 58-79 TwitchApiService.searchCategories *)
definition searchCategories :: "env \<Rightarrow> string \<Rightarrow> string option \<Rightarrow> nat \<Rightarrow> (category_model list \<times> string option) act" where
  "searchCategories E searchStr cursor limit =
     andThen (getLeastLoadedApp E) (\<lambda>a.
     andThen (twitch_http E (app_config (a_clientId a)) (x_search_categories E)
       (request_to ''GET'' ''/helix/search/categories''
         ([(''query'', x_encode E searchStr), (''first'', nat_text limit)] @ opt_field ''after'' cursor)))
       (\<lambda>(cs, pagination).
     ret (map twitchApiCategoryToNormalized cs, pagination)))"

(* apps/api/src/modules/twitch/services/twitch-api.service.ts 81-96 TwitchApiService.getGamesByIds *)
definition getGamesByIds :: "env \<Rightarrow> string list \<Rightarrow> category_model list act" where
  "getGamesByIds E gameIds =
     (if gameIds = [] then ret []
      else if 100 < length gameIds then throw (internalError ''Reached limit for Twitch API search params'')
      else
        andThen (getLeastLoadedApp E) (\<lambda>a.
        andThen (twitch_http E (app_config (a_clientId a)) (x_games E)
          (request_to ''GET'' ''/helix/games'' (map (Pair ''id'') gameIds))) (\<lambda>gs.
        ret (map twitchApiCategoryToNormalized gs))))"

(* apps/api/src/modules/twitch/services/twitch-api.service.ts 103-128 TwitchApiService.getUsers *)
definition getUsers :: "env \<Rightarrow> string list \<Rightarrow> string list \<Rightarrow> api_user list act" where
  "getUsers E broadcasterIds logins =
     (if 100 < length broadcasterIds + length logins then
        throw (internalError ''Reached limit for Twitch API search params'')
      else
        andThen (getLeastLoadedApp E) (\<lambda>a.
        wrapped ''Something went wrong with Twitch API.''
          (andThen (twitch_http E (app_config (a_clientId a)) (x_users E)
             (request_to ''GET'' ''/helix/users'' (map (Pair ''id'') broadcasterIds @ map (Pair ''login'') logins)))
           (\<lambda>us. ret (map twitchApiUserToNormalized us)))))"

(* apps/api/src/modules/twitch/services/twitch-api.service.ts 98-101 TwitchApiService.getUserById *)
definition getUserById :: "env \<Rightarrow> string \<Rightarrow> api_user option act" where
  "getUserById E broadcasterId =
     andThen (getUsers E [broadcasterId] []) (\<lambda>us. ret (case us of [] \<Rightarrow> None | u # _ \<Rightarrow> Some u))"

(* apps/api/src/modules/twitch/services/twitch-api.service.ts 130-168 TwitchApiService.registerEvent *)
definition registerEvent ::
  "env \<Rightarrow> string \<Rightarrow> string \<Rightarrow> string \<Rightarrow> string \<Rightarrow> streamer_events \<Rightarrow> string option \<Rightarrow> string option
     \<Rightarrow> registered_event list act" where
  "registerEvent E clientId webhookUrl webhookSecret broadcasterId ev userAccessToken twitchUserId =
     wrapped ''Twitch Event registration went wrong.''
       (twitch_http E
         \<lparr>hc_twitchClientId = clientId, hc_accessToken = userAccessToken, hc_twitchUserId = twitchUserId\<rparr>
         (x_register E)
         (request_to ''POST'' ''helix/eventsub/subscriptions''
           [(''type'', event_text ev), (''version'', ''1''),
            (''condition.broadcaster_user_id'', broadcasterId), (''transport.method'', ''webhook''),
            (''transport.callback'', webhookUrl), (''transport.secret'', webhookSecret)]))"

(* apps/api/src/modules/twitch/services/twitch-api.service.ts 170-180 TwitchApiService.getUserByToken *)
definition getUserByToken :: "env \<Rightarrow> string \<Rightarrow> string \<Rightarrow> api_user option act" where
  "getUserByToken E accessToken clientId =
     andThen (twitch_http E
       \<lparr>hc_twitchClientId = clientId, hc_accessToken = Some accessToken, hc_twitchUserId = None\<rparr>
       (x_users E) (request_to ''GET'' ''/helix/users'' [])) (\<lambda>us.
     ret (case us of [] \<Rightarrow> None | u # _ \<Rightarrow> Some (twitchApiUserToNormalized u)))"

(* apps/api/src/modules/twitch/models/twitch-params.model.ts 3-8 IGetTwitchSubscriptionParamsModel *)
record subscription_params =
  sp_after :: "string option"
  sp_subscriptionIds :: "string list"
  sp_userIds :: "string list"
  sp_statuses :: "string list"

definition no_params :: subscription_params where
  "no_params = \<lparr>sp_after = None, sp_subscriptionIds = [], sp_userIds = [], sp_statuses = []\<rparr>"

(* apps/api/src/modules/twitch/services/twitch-api.service.ts 187-222 TwitchApiService.getSubscriptions *)
definition getSubscriptions :: "env \<Rightarrow> string \<Rightarrow> subscription_params \<Rightarrow> subscriptions_reply act" where
  "getSubscriptions E clientId ps =
     andThen (findApp E (\<lambda>a. a_clientId a = clientId) None) (\<lambda>found.
     if found = None then throw (internalError ''Cannot find Twitch app for provided clientId'')
     else
       wrapped ''Twitch API subscription error.''
         (twitch_http E (app_config clientId) (x_subscriptions E)
           (request_to ''GET'' ''helix/eventsub/subscriptions''
             (map (Pair ''subscription_id'') (sp_subscriptionIds ps) @ map (Pair ''status'') (sp_statuses ps) @
              opt_field ''after'' (sp_after ps) @ map (Pair ''user_id'') (sp_userIds ps)))))"

(* apps/api/src/modules/twitch/services/twitch-api.service.ts 182-185 TwitchApiService.getSubscriptionById *)
definition getSubscriptionById :: "env \<Rightarrow> string \<Rightarrow> string \<Rightarrow> twitch_subscription option act" where
  "getSubscriptionById E subscriptionId clientId =
     andThen (getSubscriptions E clientId (no_params\<lparr>sp_subscriptionIds := [subscriptionId]\<rparr>)) (\<lambda>r.
     ret (case sr_data r of [] \<Rightarrow> None | s # _ \<Rightarrow> Some s))"

text \<open>The \<open>NotFoundException\<close> is thrown inside the \<open>try\<close>, and its \<open>catch\<close> turns it
  into the general error.\<close>

(* apps/api/src/modules/twitch/services/twitch-api.service.ts 224-249 TwitchApiService.getChannelById *)
definition getChannelById :: "env \<Rightarrow> string \<Rightarrow> channel_model act" where
  "getChannelById E broadcasterId =
     andThen (getLeastLoadedApp E) (\<lambda>a.
     wrapped ''Twitch API error.''
       (andThen (twitch_http E (app_config (a_clientId a)) (x_channels E)
          (request_to ''GET'' ''/helix/channels'' [(''broadcaster_id'', broadcasterId)])) (\<lambda>cs.
        case cs of
          [] \<Rightarrow> throw (notFound (''Cannot find broadcaster channel with id: '' @ broadcasterId))
        | c # _ \<Rightarrow> ret (twitchApiChannelToNormalized c))))"

(* apps/api/src/modules/twitch/services/twitch-api.service.ts 251-269 TwitchApiService.deleteSubscription *)
definition deleteSubscription :: "env \<Rightarrow> string \<Rightarrow> string \<Rightarrow> unit act" where
  "deleteSubscription E subscriptionId clientId =
     wrapped ''Twitch subscription delete failed.''
       (twitch_http E (app_config clientId) (x_delete_subscription E)
         (request_to ''DELETE'' ''helix/eventsub/subscriptions'' [(''id'', subscriptionId)]))"

(* apps/api/src/modules/twitch/controllers/twitch-rpc.controller.ts 12-18 TwitchRpcController.getChannelInfo *)
definition getChannelInfo :: "env \<Rightarrow> string \<Rightarrow> channel_model act" where
  "getChannelInfo E broadcasterId = getChannelById E broadcasterId"

section \<open>Games\<close>

(* apps/api/src/modules/twitch/services/twitch-games.service.ts 6-6 GAME_NAME_CACHE_TTL_SECONDS *)
definition game_name_ttl :: nat where
  "game_name_ttl = 60 * 60 * 24 * 7"

definition category_json :: "category_model \<Rightarrow> json" where
  "category_json c = JObj [(''id'', JStr (cm_id c)), (''name'', JStr (cm_name c)), (''boxArtUrl'', JStr (cm_boxArtUrl c))]"

definition json_text :: "string \<Rightarrow> json \<Rightarrow> string" where
  "json_text k j = (case j of JObj kvs \<Rightarrow> (case map_of kvs k of Some (JStr s) \<Rightarrow> s | _ \<Rightarrow> []) | _ \<Rightarrow> [])"

definition json_category :: "json \<Rightarrow> category_model" where
  "json_category j = \<lparr>cm_id = json_text ''id'' j, cm_name = json_text ''name'' j, cm_boxArtUrl = json_text ''boxArtUrl'' j\<rparr>"

(* apps/api/src/modules/twitch/services/twitch-games.service.ts 15-35 TwitchGamesService.resolveNames *)
definition resolveNames :: "env \<Rightarrow> string list \<Rightarrow> category_model list act" where
  "resolveNames E gameIds =
     (let uniqueIds = rev (remdups (rev gameIds)) in
      if uniqueIds = [] then ret []
      else
        andThen (mapEach (\<lambda>i. redis_get E (twitchGameName i)) uniqueIds) (\<lambda>cached.
        let missing = map fst (filter (\<lambda>(i, c). c = None) (zip uniqueIds cached)) in
        andThen (if missing = [] then ret [] else getGamesByIds E missing) (\<lambda>resolved.
        andThen (forEach (\<lambda>g. redis_set (twitchGameName (cm_id g)) (category_json g) game_name_ttl) resolved) (\<lambda>_.
        let byId = rev (map (\<lambda>g. (cm_id g, g))
              (map json_category (List.map_filter id cached) @ resolved)) in
        ret (List.map_filter (map_of byId) uniqueIds)))))"


section \<open>What a call to Twitch may change\<close>

lemma update_is_set:
  "w_apps_update fa w = w\<lparr>w_apps := fa (w_apps w)\<rparr>"
  "w_users_update fu w = w\<lparr>w_users := fu (w_users w)\<rparr>"
  "w_streamers_update fs w = w\<lparr>w_streamers := fs (w_streamers w)\<rparr>"
  by (cases w, simp)+

text \<open>
  A part of the state that no call to Twitch changes: it does not show the requests, the counter,
  the token cache, the stored tokens of applications and users, nor whether a streamer allows
  personal subscriptions.
\<close>

locale twitch_frame =
  fixes g :: "world \<Rightarrow> 'v"
  assumes g_requests: "g (w\<lparr>w_requests := rs\<rparr>) = g w"
    and g_ids: "g (w\<lparr>w_ids := n\<rparr>) = g w"
    and g_tokens: "g (w\<lparr>w_tokens := ts\<rparr>) = g w"
    and g_apps: "g (w\<lparr>w_apps := update_rows P (\<lambda>a. a\<lparr>a_accessToken := at, a_tokenExpiresAt := te\<rparr>) (w_apps w)\<rparr>) = g w"
    and g_users: "g (w\<lparr>w_users := update_rows Q (\<lambda>u. u\<lparr>u_twitchAccessToken := ua, u_twitchRefreshToken := ur,
        u_twitchTokenExpiresAt := ut\<rparr>) (w_users w)\<rparr>) = g w"
    and g_streamers: "g (w\<lparr>w_streamers := update_rows S (\<lambda>st. st\<lparr>st_allowPersonalSubscriptions := False\<rparr>)
        (w_streamers w)\<rparr>) = g w"
begin

lemma keep_send: "relates (same g) (send orc rq)"
  by (rule send_same) (rule g_requests)

lemma keep_encrypt: "relates (same g) (encrypt E p b)"
  by (rule encrypt_same) (rule g_ids)

lemma keep_updateToken: "relates (same g) (updateToken E c t e)"
  unfolding updateToken_def
  by (intro sameness.rel_andThen keep_encrypt sameness_modify) (subst update_is_set, rule g_apps)

lemma keep_setToken: "relates (same g) (setToken c t e)"
  unfolding setToken_def by (intro sameness_modify) (rule g_tokens)

lemma keep_finally: "relates (same g) m \<Longrightarrow> relates (same g) f \<Longrightarrow> relates (same g) (finally_do m f)"
  unfolding finally_do_def by (intro sameness.rel_rules)

lemma keep_run_refresh: "relates (same g) f \<Longrightarrow> relates (same g) (run_refresh E c f)"
  unfolding run_refresh_def
  by (intro sameness.rel_rules keep_finally keep_updateToken sameness_modify) (auto simp: g_tokens)

lemma keep_cached: "relates (same g) f \<Longrightarrow> relates (same g) (cached_or_refresh E c f)"
  unfolding cached_or_refresh_def prod.case_distrib
  by (auto intro!: sameness.rel_rules keep_run_refresh split: prod.split)

lemma keep_getOrRefresh: "relates (same g) f \<Longrightarrow> relates (same g) (getOrRefresh E c f)"
  unfolding getOrRefresh_def
  by (auto intro!: sameness.rel_rules keep_run_refresh keep_cached keep_setToken pres split: prod.split option.split)

lemma keep_getTokenForApp: "relates (same g) (getTokenForApp E c b)"
  unfolding getTokenForApp_def fetchToken_def invalidate_def
  by (intro sameness.rel_rules keep_getOrRefresh keep_setToken keep_send pres sameness_modify) (rule g_tokens)

lemma keep_refreshUserToken: "relates (same g) (refreshUserToken E rt)"
  by (rule refreshUserToken_same) (rule g_requests)

lemma keep_store_tokens: "relates (same g) (store_twitch_tokens E i t)"
  unfolding store_twitch_tokens_def
  by (intro sameness.rel_rules keep_encrypt sameness_modify) (rule g_users)

lemma keep_clearTokens: "relates (same g) (clearTwitchTokens i)"
  unfolding clearTwitchTokens_def
  by (intro sameness.rel_rules sameness_modify) (subst update_is_set, rule g_users g_streamers)+

lemma keep_refreshTwitch: "relates (same g) (refreshTwitch E i rt)"
  unfolding refreshTwitch_def
  by (intro sameness.rel_rules pres keep_refreshUserToken keep_store_tokens keep_clearTokens)

lemma keep_tokens_of: "relates (same g) (twitchUserWithTokens i)"
  unfolding twitchUserWithTokens_def by (auto intro!: sameness.rel_rules split: option.split)

lemma keep_forceRefresh: "relates (same g) (forceRefreshTwitch E i)"
  unfolding forceRefreshTwitch_def
  by (auto intro!: sameness.rel_andThen keep_tokens_of keep_refreshTwitch split: prod.split)

lemma keep_getValid: "relates (same g) (getValidTwitchToken E i)"
  unfolding getValidTwitchToken_def
  by (auto intro!: sameness.rel_rules keep_tokens_of keep_refreshTwitch pres split: prod.split)

lemma keep_authorized: "relates (same g) (authorized_send E cfg orc rq)"
  unfolding authorized_send_def
  by (intro sameness.rel_rules keep_getTokenForApp keep_send)

lemma keep_http: "relates (same g) (twitch_http E cfg orc rq)"
  unfolding twitch_http_def
  by (intro sameness.rel_rules keep_authorized keep_getTokenForApp keep_forceRefresh)

lemma keep_wrapped: "relates (same g) m \<Longrightarrow> relates (same g) (wrapped t m)"
  unfolding wrapped_def by (intro sameness.rel_rules)

lemma keep_leastLoaded: "relates (same g) (getLeastLoadedApp E)"
  unfolding getLeastLoadedApp_def by (intro sameness.rel_rules pres)

lemma keep_getUsers: "relates (same g) (getUsers E is ls)"
  unfolding getUsers_def by (intro sameness.rel_rules keep_leastLoaded keep_wrapped keep_http)

lemma keep_getUserById: "relates (same g) (getUserById E i)"
  unfolding getUserById_def by (intro sameness.rel_rules keep_getUsers)

lemma keep_registerEvent: "relates (same g) (registerEvent E c u s b e t i)"
  unfolding registerEvent_def by (intro keep_wrapped keep_http)

lemma keep_deleteSubscription: "relates (same g) (deleteSubscription E s c)"
  unfolding deleteSubscription_def by (intro keep_wrapped keep_http)

lemma keep_getSubscriptions: "relates (same g) (getSubscriptions E c ps)"
  unfolding getSubscriptions_def by (intro sameness.rel_rules keep_wrapped keep_http pres)

lemma keep_getChannelById: "relates (same g) (getChannelById E b)"
  unfolding getChannelById_def by (intro sameness.rel_rules keep_wrapped keep_leastLoaded keep_http) (auto intro!: sameness.rel_rules split: list.split)

lemmas keep_api = keep_getUserById keep_registerEvent keep_deleteSubscription keep_getSubscriptions
  keep_getValid keep_refreshTwitch keep_getChannelById

end

text \<open>The rest of the state, as one value.\<close>

definition app_view :: "app \<Rightarrow> app" where
  "app_view a = a\<lparr>a_accessToken := None, a_tokenExpiresAt := None\<rparr>"

definition user_view :: "user \<Rightarrow> user" where
  "user_view u = u\<lparr>u_twitchAccessToken := None, u_twitchRefreshToken := None, u_twitchTokenExpiresAt := None\<rparr>"

definition streamer_view :: "streamer \<Rightarrow> streamer" where
  "streamer_view st = st\<lparr>st_allowPersonalSubscriptions := False\<rparr>"

definition rest_view :: "world \<Rightarrow> world" where
  "rest_view w = w\<lparr>w_requests := [], w_ids := 0, w_tokens := Map.empty, w_apps := map app_view (w_apps w),
     w_users := map user_view (w_users w), w_streamers := map streamer_view (w_streamers w)\<rparr>"

lemma view_updates:
  "map app_view (update_rows P (\<lambda>a. a\<lparr>a_accessToken := at, a_tokenExpiresAt := te\<rparr>) as) = map app_view as"
  "map user_view (update_rows Q (\<lambda>u. u\<lparr>u_twitchAccessToken := ua, u_twitchRefreshToken := ur,
     u_twitchTokenExpiresAt := ut\<rparr>) us) = map user_view us"
  "map streamer_view (update_rows S (\<lambda>st. st\<lparr>st_allowPersonalSubscriptions := False\<rparr>) sts) = map streamer_view sts"
  by (simp_all add: update_rows_def app_view_def user_view_def streamer_view_def)

interpretation rest: twitch_frame rest_view
  by unfold_locales (simp_all add: rest_view_def view_updates)

lemma rest_view_parts:
  assumes "rest_view w' = rest_view w"
  shows "w_events w' = w_events w" "w_dnotifs w' = w_dnotifs w" "w_wnotifs w' = w_wnotifs w"
    "w_guilds w' = w_guilds w" "w_logs w' = w_logs w" "w_redis w' = w_redis w" "w_now w' = w_now w"
    "w_outbox w' = w_outbox w" "w_sessions w' = w_sessions w" "w_roles w' = w_roles w"
    "map app_view (w_apps w') = map app_view (w_apps w)"
    "map user_view (w_users w') = map user_view (w_users w)"
    "map streamer_view (w_streamers w') = map streamer_view (w_streamers w)"
proof -
  have "f (rest_view w') = f (rest_view w)" for f :: "world \<Rightarrow> 'z" using assms by simp
  note h = this
  show "w_events w' = w_events w" using arg_cong [OF assms, of w_events] by (simp add: rest_view_def)
  show "w_dnotifs w' = w_dnotifs w" using arg_cong [OF assms, of w_dnotifs] by (simp add: rest_view_def)
  show "w_wnotifs w' = w_wnotifs w" using arg_cong [OF assms, of w_wnotifs] by (simp add: rest_view_def)
  show "w_guilds w' = w_guilds w" using arg_cong [OF assms, of w_guilds] by (simp add: rest_view_def)
  show "w_logs w' = w_logs w" using arg_cong [OF assms, of w_logs] by (simp add: rest_view_def)
  show "w_redis w' = w_redis w" using arg_cong [OF assms, of w_redis] by (simp add: rest_view_def)
  show "w_now w' = w_now w" using arg_cong [OF assms, of w_now] by (simp add: rest_view_def)
  show "w_outbox w' = w_outbox w" using arg_cong [OF assms, of w_outbox] by (simp add: rest_view_def)
  show "w_sessions w' = w_sessions w" using arg_cong [OF assms, of w_sessions] by (simp add: rest_view_def)
  show "w_roles w' = w_roles w" using arg_cong [OF assms, of w_roles] by (simp add: rest_view_def)
  show "map app_view (w_apps w') = map app_view (w_apps w)"
    using arg_cong [OF assms, of w_apps] by (simp add: rest_view_def)
  show "map user_view (w_users w') = map user_view (w_users w)"
    using arg_cong [OF assms, of w_users] by (simp add: rest_view_def)
  show "map streamer_view (w_streamers w') = map streamer_view (w_streamers w)"
    using arg_cong [OF assms, of w_streamers] by (simp add: rest_view_def)
qed

end
