(* ===== verification/Subscriptions.thy ===== *)
theory Subscriptions imports TwitchApi begin

text \<open>
  The EventSub subscriptions of \<open>apps/api/src/modules/twitch-subscriptions\<close>: the events of a
  streamer, registered with Twitch through an application or with the streamer's own token, their
  cost accounted on the application, and the two scheduled jobs.
\<close>

section \<open>Events and their relations\<close>

definition app_of :: "event \<Rightarrow> world \<Rightarrow> app option" where
  "app_of e w = row_of a_id (e_twitchAppId e) (w_apps w)"

definition streamer_of :: "event \<Rightarrow> world \<Rightarrow> streamer option" where
  "streamer_of e w = row_of st_id (e_streamerId e) (w_streamers w)"

text \<open>\<open>@Unique(['event', 'streamerId'])\<close>: a second event of a kind for a streamer is refused.\<close>

(* libs/database/src/entities/twitch-streamer-event.ts 23-24 TwitchStreamerEventEntity, its unique constraint *)
definition insert_event :: "event \<Rightarrow> unit act" where
  "insert_event e =
     andThen (gets (\<lambda>w. \<exists>x \<in> set (w_events w). e_event x = e_event e \<and> e_streamerId x = e_streamerId e)) (\<lambda>taken.
     andThen (throwIf taken (ScriptExc ''QueryFailedError'')) (\<lambda>_.
     modify (w_events_update (save_row e_id e))))"

definition update_event :: "string \<Rightarrow> (event \<Rightarrow> event) \<Rightarrow> unit act" where
  "update_event i f = modify (w_events_update (update_rows (\<lambda>e. e_id e = i) f))"

text \<open>Removing an event removes the notifications that refer to it (\<open>onDelete: 'CASCADE'\<close>).\<close>

(* libs/database/src/entities/twitch-streamer-event.ts 23-71 TwitchStreamerEventEntity, the relations of the notifications *)
definition remove_event :: "string \<Rightarrow> unit act" where
  "remove_event i = modify (\<lambda>w. w\<lparr>
     w_events := delete_rows (\<lambda>e. e_id e = i) (w_events w),
     w_dnotifs := delete_rows (\<lambda>n. dn_streamerEventId n = i) (w_dnotifs w),
     w_wnotifs := delete_rows (\<lambda>n. wn_streamerEventId n = i) (w_wnotifs w)\<rparr>)"

(* apps/api/src/modules/twitch-subscriptions/services/twitch-subscriptions.service.ts 60-67 TwitchSubscriptionService.registerSubscription, the event saved before the call *)
definition new_event :: "env \<Rightarrow> streamer_events \<Rightarrow> string \<Rightarrow> string \<Rightarrow> int \<Rightarrow> event act" where
  "new_event E ev appId streamerId appCost =
     andThen (fresh_id E) (\<lambda>newId.
     andThen (gets w_now) (\<lambda>now.
     let e = \<lparr>e_id = newId, e_streamerId = streamerId, e_twitchAppId = appId, e_appCost = appCost,
          e_subscriptionId = None, e_event = ev, e_status = PENDING, e_createdAt = now\<rparr> in
     andThen (insert_event e) (\<lambda>_. ret e)))"

(* apps/api/src/modules/twitch-subscriptions/services/twitch-subscriptions.service.ts 69-73 TwitchSubscriptionService.registerSubscription, the callback *)
definition callback_url :: "env \<Rightarrow> string \<Rightarrow> string \<Rightarrow> string" where
  "callback_url E clientId eventId = x_webhook_base E @ ''/'' @ clientId @ ''/'' @ eventId"

(* apps/api/src/modules/twitch-subscriptions/services/twitch-subscriptions.service.ts 77-77 TwitchSubscriptionService.registerSubscription, the first registered *)
definition first_registered :: "registered_event list \<Rightarrow> registered_event act" where
  "first_registered rs = (case rs of [] \<Rightarrow> throw (ScriptExc ''TypeError'') | r # _ \<Rightarrow> ret r)"

(* apps/api/src/modules/twitch-subscriptions/services/twitch-subscriptions.service.ts 78-78 TwitchSubscriptionService.registerSubscription, the cost *)
definition cost_of :: "registered_event \<Rightarrow> int" where
  "cost_of r = (case re_cost r of None \<Rightarrow> 1 | Some c \<Rightarrow> c)"

section \<open>Registering\<close>

(* apps/api/src/modules/twitch-subscriptions/services/twitch-subscriptions.service.ts 460-492 TwitchSubscriptionService.getOrCreateStreamer *)
definition getOrCreateStreamer :: "env \<Rightarrow> string \<Rightarrow> streamer act" where
  "getOrCreateStreamer E broadcasterId =
     andThen (gets (\<lambda>w. find (\<lambda>st. st_broadcasterId st = broadcasterId) (w_streamers w))) (\<lambda>existing.
     andThen (getUserById E broadcasterId) (\<lambda>found.
     case found of
       None \<Rightarrow> throw (badRequest (''Cannot find streamer with Twitch Id \"'' @ broadcasterId @ ''\"''))
     | Some d \<Rightarrow>
         andThen (gets w_now) (\<lambda>now.
         case existing of
           Some st \<Rightarrow>
             if st_profileImageUrl st \<noteq> au_profileImageUrl d then
               andThen (modify (w_streamers_update (update_rows (\<lambda>x. st_id x = st_id st)
                 (\<lambda>x. x\<lparr>st_profileImageUrl := au_profileImageUrl d, st_profileImageUpdatedAt := Some now\<rparr>)))) (\<lambda>_.
               ret (st\<lparr>st_profileImageUrl := au_profileImageUrl d, st_profileImageUpdatedAt := Some now\<rparr>))
             else ret st
         | None \<Rightarrow>
             andThen (fresh_id E) (\<lambda>newId.
             let st = \<lparr>st_id = newId, st_broadcasterId = broadcasterId, st_twitchLogin = au_login d,
                  st_displayName = au_displayName d, st_profileImageUrl = au_profileImageUrl d,
                  st_profileImageUpdatedAt = Some now, st_isPartner = False, st_isInternal = Some False,
                  st_userId = None, st_allowPersonalSubscriptions = True, st_createdAt = now\<rparr> in
             andThen (modify (w_streamers_update (save_row st_id st))) (\<lambda>_. ret st)))))"

(* apps/api/src/modules/twitch-subscriptions/services/twitch-subscriptions.service.ts 514-522 TwitchSubscriptionService.findTwitchApp *)
definition findTwitchApp :: "env \<Rightarrow> string option \<Rightarrow> app option act" where
  "findTwitchApp E appId =
     (if truthy appId then findApp E (\<lambda>a. a_id a = the appId) (Some only_webhookSecret)
      else findLeastLoaded E (Some only_webhookSecret))"

(* apps/api/src/modules/twitch-subscriptions/services/twitch-subscriptions.service.ts 495-502 TwitchSubscriptionService.getTwitchAppForBroadcaster, the query *)
definition used_app :: "string \<Rightarrow> world \<Rightarrow> app option" where
  "used_app broadcasterId w =
     Option.bind
       (find (\<lambda>e. (case streamer_of e w of None \<Rightarrow> False | Some st \<Rightarrow> st_broadcasterId st = broadcasterId) \<and>
                  (case app_of e w of None \<Rightarrow> False | Some a \<Rightarrow> a_status a \<noteq> AppInternal)) (w_events w))
       (\<lambda>e. app_of e w)"

text \<open>The application of an earlier event is taken as its row is, without decryption.\<close>

(* apps/api/src/modules/twitch-subscriptions/services/twitch-subscriptions.service.ts 494-512 TwitchSubscriptionService.getTwitchAppForBroadcaster *)
definition getTwitchAppForBroadcaster :: "env \<Rightarrow> string \<Rightarrow> app option act" where
  "getTwitchAppForBroadcaster E broadcasterId =
     andThen (gets (used_app broadcasterId)) (\<lambda>used.
     case used of
       Some a \<Rightarrow> if a_currentCost a < a_maxCost a then ret (Some a) else findTwitchApp E None
     | None \<Rightarrow> findTwitchApp E None)"

(* apps/api/src/modules/twitch-subscriptions/services/twitch-subscriptions.service.ts 371-423 TwitchSubscriptionService.tryRegisterWithUserToken *)
definition tryRegisterWithUserToken :: "env \<Rightarrow> streamer \<Rightarrow> streamer_events \<Rightarrow> event option act" where
  "tryRegisterWithUserToken E st ev =
     andThen (attempt (getValidTwitchToken E (the (st_userId st)))) (\<lambda>r.
     case r of
       Inl _ \<Rightarrow> ret None
     | Inr userToken \<Rightarrow>
         andThen (findInternalApp E (Some only_webhookSecret)) (\<lambda>internal.
         case internal of
           None \<Rightarrow> ret None
         | Some a \<Rightarrow>
             andThen (new_event E ev (a_id a) (st_id st) 0) (\<lambda>e.
             catching
               (andThen (registerEvent E (a_clientId a) (callback_url E (a_clientId a) (e_id e)) (a_webhookSecret a)
                   (st_broadcasterId st) ev (Some userToken) (st_userId st)) (\<lambda>rs.
                andThen (first_registered rs) (\<lambda>reg.
                andThen (update_event (e_id e) (\<lambda>x. x\<lparr>e_subscriptionId := Some (re_id reg)\<rparr>)) (\<lambda>_.
                ret (Some (e\<lparr>e_subscriptionId := Some (re_id reg)\<rparr>))))))
               (\<lambda>_. andThen (remove_event (e_id e)) (\<lambda>_. ret None)))))"

(* apps/api/src/modules/twitch-subscriptions/services/twitch-subscriptions.service.ts 58-92 TwitchSubscriptionService.registerSubscription, with an application *)
definition register_with_app :: "env \<Rightarrow> app \<Rightarrow> string \<Rightarrow> streamer \<Rightarrow> streamer_events \<Rightarrow> event act" where
  "register_with_app E a broadcasterId st ev =
     andThen (new_event E ev (a_id a) (st_id st) 1) (\<lambda>e.
     andThen (registerEvent E (a_clientId a) (callback_url E (a_clientId a) (e_id e)) (a_webhookSecret a)
         broadcasterId ev None None) (\<lambda>rs.
     andThen (first_registered rs) (\<lambda>reg.
     andThen (update_event (e_id e)
         (\<lambda>x. x\<lparr>e_subscriptionId := Some (re_id reg), e_appCost := cost_of reg\<rparr>)) (\<lambda>_.
     andThen (whenever (0 < cost_of reg) (consumeAppCost (a_clientId a) (cost_of reg))) (\<lambda>_.
     ret (e\<lparr>e_subscriptionId := Some (re_id reg), e_appCost := cost_of reg\<rparr>))))))"

(* apps/api/src/modules/twitch-subscriptions/services/twitch-subscriptions.service.ts 42-93 TwitchSubscriptionService.registerSubscription *)
definition registerSubscription :: "env \<Rightarrow> string \<Rightarrow> streamer_events \<Rightarrow> event act" where
  "registerSubscription E broadcasterId ev =
     andThen (getOrCreateStreamer E broadcasterId) (\<lambda>st.
     andThen (if truthy (st_userId st) \<and> st_allowPersonalSubscriptions st
              then tryRegisterWithUserToken E st ev else ret None) (\<lambda>authorized.
     case authorized of
       Some e \<Rightarrow> ret e
     | None \<Rightarrow>
         andThen (getTwitchAppForBroadcaster E broadcasterId) (\<lambda>found.
         case found of
           None \<Rightarrow> throw (internalError ''No Twitch app available'')
         | Some a \<Rightarrow> register_with_app E a broadcasterId st ev)))"

(* apps/api/src/modules/twitch-subscriptions/services/twitch-subscriptions.service.ts 351-362 TwitchSubscriptionService.getOrCreateEvent, the query *)
definition event_of_broadcaster :: "string \<Rightarrow> streamer_events \<Rightarrow> world \<Rightarrow> event option" where
  "event_of_broadcaster broadcasterId ev w =
     (case find (\<lambda>st. st_broadcasterId st = broadcasterId) (w_streamers w) of
        None \<Rightarrow> None
      | Some st \<Rightarrow> find (\<lambda>e. e_streamerId e = st_id st \<and> e_event e = ev) (w_events w))"

(* apps/api/src/modules/twitch-subscriptions/services/twitch-subscriptions.service.ts 347-369 TwitchSubscriptionService.getOrCreateEvent *)
definition getOrCreateEvent :: "env \<Rightarrow> string \<Rightarrow> streamer_events \<Rightarrow> event act" where
  "getOrCreateEvent E broadcasterId ev =
     andThen (gets (event_of_broadcaster broadcasterId ev)) (\<lambda>found.
     case found of
       Some e \<Rightarrow> ret e
     | None \<Rightarrow> registerSubscription E broadcasterId ev)"

section \<open>Moving between applications and user tokens\<close>

(* apps/api/src/modules/twitch-subscriptions/services/twitch-subscriptions.service.ts 117-155 TwitchSubscriptionService.migrateToUserAuthorizedSubscriptions, one event *)
definition migrate_event :: "env \<Rightarrow> app \<Rightarrow> streamer \<Rightarrow> string \<Rightarrow> string \<Rightarrow> event \<Rightarrow> unit act" where
  "migrate_event E internal st userToken userId e =
     andThen (gets (app_of e)) (\<lambda>oldApp.
     andThen (registerEvent E (a_clientId internal) (callback_url E (a_clientId internal) (e_id e))
         (a_webhookSecret internal) (st_broadcasterId st) (e_event e) (Some userToken) (Some userId)) (\<lambda>rs.
     andThen (first_registered rs) (\<lambda>reg.
     andThen (update_event (e_id e) (\<lambda>x. x\<lparr>e_subscriptionId := Some (re_id reg),
         e_twitchAppId := a_id internal, e_appCost := 0, e_status := PENDING\<rparr>)) (\<lambda>_.
     case oldApp of
       None \<Rightarrow> ret ()
     | Some old \<Rightarrow>
         andThen (if truthy (e_subscriptionId e)
                  then catching (deleteSubscription E (the (e_subscriptionId e)) (a_clientId old)) (\<lambda>_. ret ())
                  else ret ()) (\<lambda>_.
         whenever (0 < e_appCost e) (releaseAppCost (a_clientId old) (e_appCost e)))))))"

(* apps/api/src/modules/twitch-subscriptions/services/twitch-subscriptions.service.ts 95-158 TwitchSubscriptionService.migrateToUserAuthorizedSubscriptions *)
definition migrateToUserAuthorizedSubscriptions :: "env \<Rightarrow> string \<Rightarrow> string \<Rightarrow> unit act" where
  "migrateToUserAuthorizedSubscriptions E streamerId userId =
     andThen (gets (\<lambda>w. row_of st_id streamerId (w_streamers w))) (\<lambda>found.
     case found of
       None \<Rightarrow> ret ()
     | Some st \<Rightarrow>
         if \<not> st_allowPersonalSubscriptions st then ret ()
         else
           andThen (attempt (getValidTwitchToken E userId)) (\<lambda>r.
           case r of
             Inl _ \<Rightarrow> ret ()
           | Inr userToken \<Rightarrow>
               andThen (findInternalApp E (Some only_webhookSecret)) (\<lambda>internal.
               case internal of
                 None \<Rightarrow> ret ()
               | Some a \<Rightarrow>
                   andThen (gets (\<lambda>w. filter (\<lambda>e. e_streamerId e = streamerId \<and> e_twitchAppId e \<noteq> a_id a) (w_events w)))
                     (forEach (\<lambda>e. catching (migrate_event E a st userToken userId e) (\<lambda>_. ret ()))))))"

(* apps/api/src/modules/twitch-subscriptions/services/twitch-subscriptions.service.ts 425-433 TwitchSubscriptionService.deleteRemoteSubscription *)
definition deleteRemoteSubscription :: "env \<Rightarrow> event \<Rightarrow> app option \<Rightarrow> unit act" where
  "deleteRemoteSubscription E e a =
     (if truthy (e_subscriptionId e) \<and> truthy (map_option a_clientId a)
      then catching (deleteSubscription E (the (e_subscriptionId e)) (a_clientId (the a))) (\<lambda>_. ret ())
      else ret ())"

(* apps/api/src/modules/twitch-subscriptions/services/twitch-subscriptions.service.ts 435-445 TwitchSubscriptionService.hasNonCreditNotifications *)
definition hasNonCreditNotifications :: "string \<Rightarrow> world \<Rightarrow> bool" where
  "hasNonCreditNotifications eventId w \<longleftrightarrow>
     0 < count_rows (\<lambda>n. dn_streamerEventId n = eventId \<and> dn_costType n \<noteq> Credit) (w_dnotifs w) +
         count_rows (\<lambda>n. wn_streamerEventId n = eventId \<and> wn_costType n \<noteq> Credit) (w_wnotifs w)"

(* apps/api/src/modules/twitch-subscriptions/services/twitch-subscriptions.service.ts 447-458 TwitchSubscriptionService.deactivateNotifications *)
definition deactivateNotifications :: "string \<Rightarrow> unit act" where
  "deactivateNotifications eventId = modify (\<lambda>w. w\<lparr>
     w_dnotifs := update_rows (\<lambda>n. dn_streamerEventId n = eventId) (\<lambda>n. n\<lparr>dn_status := Suspended\<rparr>) (w_dnotifs w),
     w_wnotifs := update_rows (\<lambda>n. wn_streamerEventId n = eventId) (\<lambda>n. n\<lparr>wn_status := Suspended\<rparr>) (w_wnotifs w)\<rparr>)"

(* apps/api/src/modules/twitch-subscriptions/services/twitch-subscriptions.service.ts 179-204 TwitchSubscriptionService.downgradeUserAuthorizedSubscriptions, a paid event *)
definition downgrade_paid :: "env \<Rightarrow> app \<Rightarrow> event \<Rightarrow> app option \<Rightarrow> string \<Rightarrow> unit act" where
  "downgrade_paid E newApp e oldApp broadcasterId =
     andThen (registerEvent E (a_clientId newApp) (callback_url E (a_clientId newApp) (e_id e))
         (a_webhookSecret newApp) broadcasterId (e_event e) None None) (\<lambda>rs.
     andThen (first_registered rs) (\<lambda>reg.
     andThen (deleteRemoteSubscription E e oldApp) (\<lambda>_.
     andThen (update_event (e_id e) (\<lambda>x. x\<lparr>e_subscriptionId := Some (re_id reg),
         e_twitchAppId := a_id newApp, e_appCost := cost_of reg, e_status := PENDING\<rparr>)) (\<lambda>_.
     whenever (0 < cost_of reg) (consumeAppCost (a_clientId newApp) (cost_of reg))))))"

(* apps/api/src/modules/twitch-subscriptions/services/twitch-subscriptions.service.ts 172-216 TwitchSubscriptionService.downgradeUserAuthorizedSubscriptions, one event *)
definition downgrade_event :: "env \<Rightarrow> event \<Rightarrow> unit act" where
  "downgrade_event E e =
     andThen (gets (\<lambda>w. (hasNonCreditNotifications (e_id e) w, app_of e w, streamer_of e w))) (\<lambda>(paid, oldApp, owner).
     if paid then
       andThen (findLeastLoaded E (Some only_webhookSecret)) (\<lambda>newApp.
       case newApp of
         None \<Rightarrow> ret ()
       | Some a \<Rightarrow>
           catching
             (case owner of
                None \<Rightarrow> throw (ScriptExc ''TypeError'')
              | Some st \<Rightarrow> downgrade_paid E a e oldApp (st_broadcasterId st))
             (\<lambda>_. ret ()))
     else
       andThen (deleteRemoteSubscription E e oldApp) (\<lambda>_.
       andThen (update_event (e_id e) (\<lambda>x. x\<lparr>e_status := DEACTIVATED\<rparr>)) (\<lambda>_.
       deactivateNotifications (e_id e))))"

(* apps/api/src/modules/twitch-subscriptions/services/twitch-subscriptions.service.ts 160-219 TwitchSubscriptionService.downgradeUserAuthorizedSubscriptions *)
definition downgradeUserAuthorizedSubscriptions :: "env \<Rightarrow> string \<Rightarrow> unit act" where
  "downgradeUserAuthorizedSubscriptions E streamerId =
     andThen (findInternalApp E None) (\<lambda>internal.
     case internal of
       None \<Rightarrow> ret ()
     | Some a \<Rightarrow>
         andThen (gets (\<lambda>w. filter (\<lambda>e. e_streamerId e = streamerId \<and> e_twitchAppId e = a_id a) (w_events w)))
           (forEach (downgrade_event E)))"

section \<open>Queries and administration\<close>

(* apps/api/src/modules/twitch-subscriptions/services/twitch-subscriptions.service.ts 221-227 TwitchSubscriptionService.allowsPersonalSubscriptions *)
definition allowsPersonalSubscriptions :: "string \<Rightarrow> bool act" where
  "allowsPersonalSubscriptions broadcasterId =
     gets (\<lambda>w. case find (\<lambda>st. st_broadcasterId st = broadcasterId) (w_streamers w) of
       None \<Rightarrow> False | Some st \<Rightarrow> st_allowPersonalSubscriptions st)"

(* apps/api/src/modules/twitch-subscriptions/services/twitch-subscriptions.service.ts 229-235 TwitchSubscriptionService.changeEventStatus *)
definition changeEventStatus :: "string \<Rightarrow> event_status \<Rightarrow> bool act" where
  "changeEventStatus eventId status =
     andThen (gets (\<lambda>w. \<exists>e \<in> set (w_events w). e_id e = eventId)) (\<lambda>affected.
     andThen (update_event eventId (\<lambda>e. e\<lparr>e_status := status\<rparr>)) (\<lambda>_. ret affected))"

(* apps/api/src/modules/twitch-subscriptions/mappers/twitch-subscriptions.mapper.ts 6-32 TwitchSubscriptionMapper.entityToDto *)
record subscription_dto =
  sd_event :: event
  sd_app :: "(string \<times> string \<times> string \<times> app_status) option"
  sd_streamer :: "(string \<times> string \<times> string \<times> string \<times> string option) option"

(* apps/api/src/modules/twitch-subscriptions/mappers/twitch-subscriptions.mapper.ts 6-32 TwitchSubscriptionMapper.entityToDto *)
definition subscriptionToDto :: "event \<Rightarrow> app option \<Rightarrow> streamer option \<Rightarrow> subscription_dto" where
  "subscriptionToDto e a st =
     \<lparr>sd_event = e,
      sd_app = map_option (\<lambda>a. (a_id a, a_name a, a_clientId a, a_status a)) a,
      sd_streamer = map_option (\<lambda>st. (st_id st, st_broadcasterId st, st_twitchLogin st, st_displayName st,
        st_profileImageUrl st)) st\<rparr>"

(* apps/api/src/modules/twitch-subscriptions/services/twitch-subscriptions.service.ts 237-255 TwitchSubscriptionService.getAllTwitchSubscriptions *)
definition getAllTwitchSubscriptions :: "nat \<Rightarrow> nat \<Rightarrow> (subscription_dto list \<times> nat) act" where
  "getAllTwitchSubscriptions page pageSize =
     gets (\<lambda>w. (map (\<lambda>e. subscriptionToDto e (app_of e w) (streamer_of e w)) (page_rows page pageSize (w_events w)),
       length (w_events w)))"

(* apps/api/src/modules/twitch-subscriptions/services/twitch-subscriptions.service.ts 257-282 TwitchSubscriptionService.deleteLocalSubscription *)
definition deleteLocalSubscription :: "env \<Rightarrow> string \<Rightarrow> unit act" where
  "deleteLocalSubscription E eventId =
     andThen (gets (\<lambda>w. row_of e_id eventId (w_events w))) (\<lambda>found.
     case found of
       None \<Rightarrow> throw (notFound (''Subscription with id \"'' @ eventId @ ''\" not found''))
     | Some e \<Rightarrow>
         andThen (gets (app_of e)) (\<lambda>appRow.
         case appRow of
           None \<Rightarrow> throw (ScriptExc ''TypeError'')
         | Some a \<Rightarrow>
             andThen (if truthy (e_subscriptionId e)
                      then catching (deleteSubscription E (the (e_subscriptionId e)) (a_clientId a)) (\<lambda>_. ret ())
                      else ret ()) (\<lambda>_.
             andThen (whenever (0 < e_appCost e) (releaseAppCost (a_clientId a) (e_appCost e))) (\<lambda>_.
             remove_event (e_id e)))))"

(* apps/api/src/modules/twitch-subscriptions/services/twitch-subscriptions.service.ts 284-296 TwitchSubscriptionService.deleteTwitchOnlySubscription *)
definition deleteTwitchOnlySubscription :: "env \<Rightarrow> string \<Rightarrow> string \<Rightarrow> unit act" where
  "deleteTwitchOnlySubscription E subscriptionId clientId =
     andThen (gets (\<lambda>w. find (\<lambda>e. e_subscriptionId e = Some subscriptionId) (w_events w))) (\<lambda>existing.
     case existing of
       Some e \<Rightarrow> throw (badRequest (''This subscription has a local entity (id: '' @ e_id e @
                    ''). Use the local delete endpoint instead.''))
     | None \<Rightarrow> deleteSubscription E subscriptionId clientId)"

(* apps/api/src/modules/twitch-subscriptions/services/twitch-subscriptions.service.ts 314-335 TwitchSubscriptionService.getRawTwitchSubscriptions, an item *)
record raw_item =
  ri_subscription :: twitch_subscription
  ri_clientId :: string
  ri_isOrphaned :: bool
  ri_local :: "(string \<times> event_status \<times> string \<times> string option) option"

text \<open>\<open>new Map(entries)\<close> keeps the last entry of a key.\<close>

(* apps/api/src/modules/twitch-subscriptions/services/twitch-subscriptions.service.ts 298-345 TwitchSubscriptionService.getRawTwitchSubscriptions *)
definition getRawTwitchSubscriptions :: "env \<Rightarrow> string \<Rightarrow> string option
    \<Rightarrow> (raw_item list \<times> int \<times> int \<times> int \<times> string option) act" where
  "getRawTwitchSubscriptions E clientId after =
     andThen (getSubscriptions E clientId (no_params\<lparr>sp_after := after\<rparr>)) (\<lambda>r.
     andThen (gets (\<lambda>w. w)) (\<lambda>w.
     let ids = map ts_id (sr_data r);
         locals = filter (\<lambda>e. e_subscriptionId e \<in> Some ` set ids) (w_events w);
         bySubscription = rev (map (\<lambda>e. (e_subscriptionId e, e)) locals);
         item = (\<lambda>sub. let l = map_of bySubscription (Some (ts_id sub)) in
           \<lparr>ri_subscription = sub, ri_clientId = clientId, ri_isOrphaned = (l = None),
            ri_local = map_option (\<lambda>e. (e_id e, e_status e, e_streamerId e,
              map_option st_twitchLogin (streamer_of e w))) l\<rparr>)
     in ret (map item (sr_data r), sr_total r, sr_total_cost r, sr_max_total_cost r, sr_cursor r)))"

section \<open>Scheduled jobs\<close>

text \<open>
  The rows the job selects. \<open>select\<close> does not list \<open>createdAt\<close>, so the entities come without
  it, and the age computed from it is \<open>NaN\<close> (\<open>None\<close>), greater than nothing.
\<close>

(* apps/api/src/modules/twitch-subscriptions/services/twitch-subscriptions.cron.ts 25-32 TwitchSubscriptionsCronService.syncStaleSubscriptions, the selected rows *)
record stale_event =
  se_id :: string
  se_subscriptionId :: "string option"
  se_clientId :: string
  se_createdAt :: "time option"

(* apps/api/src/modules/twitch-subscriptions/services/twitch-subscriptions.cron.ts 10-10 TWITCH_EVENT_STALE_THRESHOLD_MS *)
definition stale_threshold :: int where
  "stale_threshold = 24 * 60 * 60 * 1000"

(* apps/api/src/modules/twitch-subscriptions/services/twitch-subscriptions.cron.ts 23-32 TwitchSubscriptionsCronService.syncStaleSubscriptions, the query *)
definition stale_events :: "world \<Rightarrow> stale_event list" where
  "stale_events w =
     List.map_filter (\<lambda>e. map_option (\<lambda>a. \<lparr>se_id = e_id e, se_subscriptionId = e_subscriptionId e,
         se_clientId = a_clientId a, se_createdAt = None\<rparr>) (app_of e w))
       (filter (\<lambda>e. e_status e = PENDING \<and> e_createdAt e < w_now w - stale_threshold) (w_events w))"

(* apps/api/src/modules/twitch-subscriptions/services/twitch-subscriptions.cron.ts 34-41 TwitchSubscriptionsCronService.syncStaleSubscriptions, the groups *)
fun group_by_client :: "stale_event list \<Rightarrow> (string \<times> stale_event list) list" where
  "group_by_client [] = []"
| "group_by_client (e # es) =
     (se_clientId e, e # filter (\<lambda>x. se_clientId x = se_clientId e) es) #
       group_by_client (filter (\<lambda>x. se_clientId x \<noteq> se_clientId e) es)"

(* apps/api/src/modules/twitch-subscriptions/services/twitch-subscriptions.cron.ts 55-58 TwitchSubscriptionsCronService.syncStaleSubscriptions, isFailed *)
definition failed_status :: "string option \<Rightarrow> bool" where
  "failed_status s \<longleftrightarrow> \<not> truthy s \<or>
     s \<in> {Some ''webhook_callback_verification_failed'', Some ''authorization_revoked'', Some ''user_removed''}"

(* apps/api/src/modules/twitch-subscriptions/services/twitch-subscriptions.cron.ts 60-62 TwitchSubscriptionsCronService.syncStaleSubscriptions, the age *)
definition older_than :: "int \<Rightarrow> time \<Rightarrow> time option \<Rightarrow> bool" where
  "older_than ms now created = (case created of None \<Rightarrow> False | Some t \<Rightarrow> ms < now - t)"

(* apps/api/src/modules/twitch-subscriptions/services/twitch-subscriptions.cron.ts 43-45 TwitchSubscriptionsCronService.syncStaleSubscriptions, what it collects *)
record sync_plan =
  sy_enable :: "string list"
  sy_delete :: "string list"
  sy_release :: "(string \<times> int) list"

(* apps/api/src/modules/twitch-subscriptions/services/twitch-subscriptions.cron.ts 52-69 TwitchSubscriptionsCronService.syncStaleSubscriptions, the inner loop *)
fun plan_events :: "time \<Rightarrow> twitch_subscription list \<Rightarrow> stale_event list \<Rightarrow> string list \<times> string list \<times> int" where
  "plan_events now subs [] = ([], [], 0)"
| "plan_events now subs (e # es) =
     (let (enable, delete, cost) = plan_events now subs es;
          sub = find (\<lambda>s. Some (ts_id s) = se_subscriptionId e) subs
      in if failed_status (map_option ts_status sub) then
           if older_than (60 * 60 * 1000) now (se_createdAt e)
           then (enable, se_id e # delete, cost + (case sub of None \<Rightarrow> 0 | Some s \<Rightarrow> ts_cost s))
           else (enable, delete, cost)
         else (se_id e # enable, delete, cost))"

(* apps/api/src/modules/twitch-subscriptions/services/twitch-subscriptions.cron.ts 47-73 TwitchSubscriptionsCronService.syncStaleSubscriptions, the loop *)
fun plan_groups :: "env \<Rightarrow> (string \<times> stale_event list) list \<Rightarrow> sync_plan act" where
  "plan_groups E [] = ret \<lparr>sy_enable = [], sy_delete = [], sy_release = []\<rparr>"
| "plan_groups E ((clientId, es) # gs) =
     andThen (getSubscriptions E clientId
       (no_params\<lparr>sp_subscriptionIds := filter (\<lambda>i. i \<noteq> []) (List.map_filter se_subscriptionId es)\<rparr>)) (\<lambda>r.
     andThen (gets w_now) (\<lambda>now.
     let (enable, delete, cost) = plan_events now (sr_data r) es in
     andThen (plan_groups E gs) (\<lambda>p.
     ret \<lparr>sy_enable = enable @ sy_enable p, sy_delete = delete @ sy_delete p,
          sy_release = (if 0 < cost then [(clientId, cost)] else []) @ sy_release p\<rparr>)))"

text \<open>\<open>Repository.update\<close> with an empty list of identifiers throws.\<close>

(* apps/api/src/modules/twitch-subscriptions/services/twitch-subscriptions.cron.ts 75-82 TwitchSubscriptionsCronService.syncStaleSubscriptions, the updates *)
definition update_events_by_id :: "string list \<Rightarrow> (event \<Rightarrow> event) \<Rightarrow> unit act" where
  "update_events_by_id ids f =
     (if ids = [] then throw (ScriptExc ''Empty criteria(s) are not allowed for the update method.'')
      else modify (w_events_update (update_rows (\<lambda>e. e_id e \<in> set ids) f)))"

(* apps/api/src/modules/twitch-subscriptions/services/twitch-subscriptions.cron.ts 21-87 TwitchSubscriptionsCronService.syncStaleSubscriptions *)
definition syncStaleSubscriptions :: "env \<Rightarrow> unit act" where
  "syncStaleSubscriptions E =
     andThen (gets stale_events) (\<lambda>stale.
     andThen (plan_groups E (group_by_client stale)) (\<lambda>p.
     andThen (update_events_by_id (sy_enable p) (\<lambda>e. e\<lparr>e_status := VERIFIED\<rparr>)) (\<lambda>_.
     andThen (update_events_by_id (sy_delete p) (\<lambda>e. e\<lparr>e_status := REVOKED\<rparr>)) (\<lambda>_.
     forEach (\<lambda>(clientId, cost). releaseAppCost clientId cost) (sy_release p)))))"

(* apps/api/src/modules/twitch-subscriptions/services/twitch-user-token.cron.ts 11-11 TOKEN_REFRESH_WINDOW_MS *)
definition token_refresh_window :: int where
  "token_refresh_window = 60 * 60 * 1000"

(* apps/api/src/modules/twitch-subscriptions/services/twitch-user-token.cron.ts 40-51 TwitchUserTokenRefreshCronService.refreshExpiringTokens, one user *)
definition refresh_user_tokens :: "env \<Rightarrow> user \<Rightarrow> unit act" where
  "refresh_user_tokens E u =
     catching (andThen (refreshTwitch E (u_id u) (the (u_twitchRefreshToken u))) (\<lambda>_. ret ()))
       (\<lambda>e. if e = twitchTokenRevoked then
              andThen (gets (\<lambda>w. find (\<lambda>st. st_userId st = Some (u_id u)) (w_streamers w))) (\<lambda>found.
              case found of
                None \<Rightarrow> ret ()
              | Some st \<Rightarrow> downgradeUserAuthorizedSubscriptions E (st_id st))
            else ret ())"

(* apps/api/src/modules/twitch-subscriptions/services/twitch-user-token.cron.ts 24-53 TwitchUserTokenRefreshCronService.refreshExpiringTokens *)
definition refreshExpiringTokens :: "env \<Rightarrow> unit act" where
  "refreshExpiringTokens E =
     andThen (gets (\<lambda>w. filter (\<lambda>u. u_twitchRefreshToken u \<noteq> None \<and>
         (case u_twitchTokenExpiresAt u of None \<Rightarrow> False | Some t \<Rightarrow> t < w_now w + token_refresh_window)) (w_users w)))
       (forEach (refresh_user_tokens E))"


section \<open>The hourly job\<close>

lemma plan_events_keep:
  "\<forall>e \<in> set es. se_createdAt e = None \<Longrightarrow> plan_events now subs es = (en, de, c) \<Longrightarrow>
     de = [] \<and> c = 0"
  by (induction es arbitrary: en de c)
    (auto simp: older_than_def Let_def split: prod.splits if_splits)

lemma group_members: "(c, es) \<in> set (group_by_client xs) \<Longrightarrow> set es \<subseteq> set xs"
  by (induction xs rule: group_by_client.induct) auto

lemma stale_without_date: "e \<in> set (stale_events w) \<Longrightarrow> se_createdAt e = None"
  by (auto simp: stale_events_def List.map_filter_def)

lemma plan_groups_keep:
  "\<forall>(c, es) \<in> set gs. \<forall>e \<in> set es. se_createdAt e = None \<Longrightarrow>
     plan_groups E gs w = (r, w') \<Longrightarrow>
     rest_view w' = rest_view w \<and> (\<forall>p. r = Inr p \<longrightarrow> sy_delete p = [] \<and> sy_release p = [])"
proof (induction gs arbitrary: w r w')
  case Nil
  then show ?case by (auto simp: exec)
next
  case (Cons g gs)
  obtain c es where g: "g = (c, es)" by (cases g)
  let ?ps = "no_params\<lparr>sp_subscriptionIds := filter (\<lambda>i. i \<noteq> []) (List.map_filter se_subscriptionId es)\<rparr>"
  obtain r0 w0 where s: "getSubscriptions E c ?ps w = (r0, w0)" by (cases "getSubscriptions E c ?ps w")
  have v: "rest_view w0 = rest_view w" using sameD [OF rest.keep_getSubscriptions, of E c ?ps w] s by simp
  obtain r1 w1 where p: "plan_groups E gs w0 = (r1, w1)" by (cases "plan_groups E gs w0")
  have ih: "rest_view w1 = rest_view w0 \<and> (\<forall>p. r1 = Inr p \<longrightarrow> sy_delete p = [] \<and> sy_release p = [])"
    using Cons.IH [OF _ p] Cons.prems(1) by auto
  show ?case
  proof (cases r0)
    case (Inl e)
    with Cons.prems(2) s g v show ?thesis by (auto simp: exec)
  next
    case (Inr rep)
    obtain en de co where pe: "plan_events (w_now w0) (sr_data rep) es = (en, de, co)"
      by (cases "plan_events (w_now w0) (sr_data rep) es") auto
    have "de = [] \<and> co = 0" using plan_events_keep [OF _ pe] Cons.prems(1) g by auto
    with Cons.prems(2) s g v Inr pe p ih show ?thesis
      by (cases r1) (auto simp: exec Let_def)
  qed
qed

text \<open>
  The hourly job that should settle stale subscriptions never finishes: it always ends in an
  exception, no event is ever revoked by it and no cost is ever released. Events that are pending
  may only become verified.
\<close>

theorem stale_sync_never_revokes:
  "\<exists>e w'. syncStaleSubscriptions E w = (Inl e, w') \<and>
     map app_view (w_apps w') = map app_view (w_apps w) \<and>
     (\<exists>ids. w_events w' = update_rows (\<lambda>x. e_id x \<in> ids) (\<lambda>x. x\<lparr>e_status := VERIFIED\<rparr>) (w_events w))"
proof -
  let ?gs = "group_by_client (stale_events w)"
  obtain r w0 where p: "plan_groups E ?gs w = (r, w0)" by (cases "plan_groups E ?gs w")
  have "\<forall>(c, es) \<in> set ?gs. \<forall>e \<in> set es. se_createdAt e = None"
    using group_members stale_without_date by blast
  from plan_groups_keep [OF this p]
  have v: "rest_view w0 = rest_view w" and d: "\<forall>p. r = Inr p \<longrightarrow> sy_delete p = []" by auto
  have same: "w_events w0 = w_events w" "map app_view (w_apps w0) = map app_view (w_apps w)"
    using rest_view_parts [OF v] by simp_all
  have none: "update_rows (\<lambda>x. e_id x \<in> {}) f es = es" for f :: "event \<Rightarrow> event" and es
    by (simp add: update_rows_def)
  show ?thesis
  proof (cases r)
    case (Inl e)
    then have "syncStaleSubscriptions E w = (Inl e, w0)"
      using p by (simp add: syncStaleSubscriptions_def exec)
    then show ?thesis using same none by (intro exI [of _ e] exI [of _ w0] conjI exI [of _ "{}"]) simp_all
  next
    case (Inr pl)
    let ?x = "ScriptExc ''Empty criteria(s) are not allowed for the update method.''"
    show ?thesis
    proof (cases "sy_enable pl = []")
      case True
      then have "syncStaleSubscriptions E w = (Inl ?x, w0)"
        using p Inr by (simp add: syncStaleSubscriptions_def update_events_by_id_def exec)
      then show ?thesis using same none by (intro exI [of _ ?x] exI [of _ w0] conjI exI [of _ "{}"]) simp_all
    next
      case False
      then show ?thesis using p same Inr d
        by (simp add: syncStaleSubscriptions_def update_events_by_id_def exec)
          (rule exI [of _ "set (sy_enable pl)"], simp)
    qed
  qed
qed

section \<open>The cost of the applications\<close>

definition load :: "string \<Rightarrow> event list \<Rightarrow> int" where
  "load i es = sum_list (map e_appCost (filter (\<lambda>e. e_twitchAppId e = i) es))"

text \<open>Every application carries the cost of the events registered with it.\<close>

definition accounts :: "app list \<Rightarrow> event list \<Rightarrow> bool" where
  "accounts as es \<longleftrightarrow> unique_keys a_id as \<and> unique_keys a_clientId as \<and> unique_keys e_id es \<and>
     (\<forall>e \<in> set es. 0 \<le> e_appCost e) \<and> (\<forall>a \<in> set as. a_currentCost a = load (a_id a) es)"

definition accounted :: "world \<Rightarrow> bool" where
  "accounted w \<longleftrightarrow> accounts (w_apps w) (w_events w)"

lemma load_append [simp]: "load i (es @ fs) = load i es + load i fs"
  by (simp add: load_def)

lemma load_simps [simp]: "load i [] = 0" "load i (e # es) = (if e_twitchAppId e = i then e_appCost e else 0) + load i es"
  by (simp_all add: load_def)

lemma app_view_simps [simp]: "a_id (app_view a) = a_id a" "a_clientId (app_view a) = a_clientId a"
  "a_currentCost (app_view a) = a_currentCost a" "a_status (app_view a) = a_status a"
  "a_maxCost (app_view a) = a_maxCost a"
  by (simp_all add: app_view_def)

lemma accounts_view: "accounts (map app_view as) es = accounts as es"
  by (simp add: accounts_def unique_keys_def comp_def)

lemma accounted_same: "rest_view w' = rest_view w \<Longrightarrow> accounted w' = accounted w"
  using rest_view_parts [of w' w] accounts_view by (metis accounted_def)

lemma add_cost_keys [simp]:
  "map a_id (add_cost c x as) = map a_id as" "map a_clientId (add_cost c x as) = map a_clientId as"
  by (simp_all add: add_cost_def keys_update)

lemma add_cost_view: "map app_view (add_cost c x as) = add_cost c x (map app_view as)"
  by (simp add: add_cost_def update_rows_def app_view_def)

lemma accounts_zero:
  "accounts as es \<Longrightarrow> e_id e \<notin> e_id ` set es \<Longrightarrow> e_appCost e = 0 \<Longrightarrow> accounts as (es @ [e])"
  by (auto simp: accounts_def unique_keys_def)

lemma same_client: "unique_keys a_id as \<Longrightarrow> unique_keys a_clientId as \<Longrightarrow> a \<in> set as \<Longrightarrow> b \<in> set as \<Longrightarrow>
    a_clientId b = a_clientId a \<longleftrightarrow> a_id b = a_id a"
  unfolding unique_keys_def by (metis find_unique option.inject unique_keys_def inj_onD distinct_map)

lemma accounts_move:
  assumes "accounts as es" "a \<in> set as" "unique_keys e_id es'" "\<forall>e \<in> set es'. 0 \<le> e_appCost e"
    and "\<And>i. load i es' = load i es + (if i = a_id a then x else 0)"
  shows "accounts (add_cost (a_clientId a) x as) es'"
proof -
  have "a_currentCost b' = load (a_id b') es'" if b': "b' \<in> set (add_cost (a_clientId a) x as)" for b'
  proof -
    obtain b where b: "b \<in> set as"
      "b' = (if a_clientId b = a_clientId a then b\<lparr>a_currentCost := a_currentCost b + x\<rparr> else b)"
      using update_rows_in [OF b' [unfolded add_cost_def]] by blast
    have "a_clientId b = a_clientId a \<longleftrightarrow> a_id b = a_id a"
      using same_client [OF _ _ assms(2) b(1)] assms(1) by (simp add: accounts_def)
    then show ?thesis using b assms(1,5) by (simp add: accounts_def)
  qed
  with assms(1,3,4) show ?thesis by (simp add: accounts_def unique_keys_def)
qed

lemma accounts_add:
  assumes "accounts as es" "a \<in> set as" "e_id e \<notin> e_id ` set es" "0 \<le> e_appCost e" "e_twitchAppId e = a_id a"
  shows "accounts (add_cost (a_clientId a) (e_appCost e) as) (es @ [e])"
  by (rule accounts_move [OF assms(1,2)]) (use assms in \<open>auto simp: accounts_def unique_keys_def\<close>)

lemma load_delete:
  "unique_keys e_id es \<Longrightarrow> e \<in> set es \<Longrightarrow>
     load i (delete_rows (\<lambda>x. e_id x = e_id e) es) = load i es - (if i = e_twitchAppId e then e_appCost e else 0)"
proof (induction es)
  case (Cons x es)
  show ?case
  proof (cases "x = e")
    case True
    then have "\<forall>y \<in> set es. e_id y \<noteq> e_id e" using Cons.prems(1)
      by (metis distinct.simps(2) image_eqI list.set_map list.simps(9) unique_keys_def)
    then have "delete_rows (\<lambda>x. e_id x = e_id e) es = es" by (simp add: delete_rows_def filter_id_conv)
    with True show ?thesis by (simp add: delete_rows_def)
  next
    case False
    with Cons have "e \<in> set es" "e_id x \<noteq> e_id e" by (auto simp: unique_keys_def)
    with Cons show ?thesis by (simp add: delete_rows_def unique_keys_def)
  qed
qed simp

lemma accounts_remove:
  assumes "accounts as es" "a \<in> set as" "e \<in> set es" "e_twitchAppId e = a_id a"
  shows "accounts (add_cost (a_clientId a) (- e_appCost e) as) (delete_rows (\<lambda>x. e_id x = e_id e) es)"
  by (rule accounts_move [OF assms(1,2)])
    (use assms in \<open>auto simp: accounts_def unique_delete set_delete load_delete\<close>)

lemma add_cost_zero [simp]: "add_cost c 0 as = as"
  by (simp add: add_cost_def update_rows_def)

text \<open>What a successful registration does to the events and to the applications.\<close>

lemma decryptFields_result:
  "fst (decryptFields E o' a w) = Inr a' \<Longrightarrow> a_id a' = a_id a \<and> a_clientId a' = a_clientId a \<and>
     a_status a' = a_status a \<and> a_currentCost a' = a_currentCost a \<and> a_maxCost a' = a_maxCost a"
  by (auto simp: decryptFields_def exec split: prod.splits sum.splits)

lemma decrypted_result:
  "decrypted E opts found w = (Inr (Some a'), w') \<Longrightarrow>
     \<exists>a. found = Some a \<and> a_id a' = a_id a \<and> a_clientId a' = a_clientId a"
  by (auto simp: decrypted_def exec split: prod.splits sum.splits option.splits
      dest!: arg_cong [where f = fst] dest: decryptFields_result)

lemma found_app_in:
  assumes "getTwitchAppForBroadcaster E b w = (Inr (Some a), w')"
  shows "w' = w \<and> (\<exists>a0 \<in> set (w_apps w). a_id a = a_id a0 \<and> a_clientId a = a_clientId a0)"
proof (cases "\<exists>u. used_app b w = Some u \<and> a_currentCost u < a_maxCost u")
  case True
  then obtain u where u: "used_app b w = Some u" "a_currentCost u < a_maxCost u" by blast
  then have "a = u" "w' = w" using assms by (auto simp: getTwitchAppForBroadcaster_def exec)
  moreover have "u \<in> set (w_apps w)"
    using u(1) by (auto simp: used_app_def app_of_def bind_eq_Some_conv dest: row_of_in)
  ultimately show ?thesis by blast
next
  case False
  then have f: "findLeastLoaded E (Some only_webhookSecret) w = (Inr (Some a), w')"
    using assms by (auto simp: getTwitchAppForBroadcaster_def findTwitchApp_def truthy_def exec
        split: option.splits if_splits)
  moreover have "w' = w" using findLeastLoaded_state [of E "Some only_webhookSecret" w] f by simp
  ultimately show ?thesis
    by (auto simp: findLeastLoaded_def exec dest!: decrypted_result cheapest_in)
qed


lemma new_event_exec:
  "new_event E ev i st c w =
     (let e = \<lparr>e_id = x_uuid E (w_ids w), e_streamerId = st, e_twitchAppId = i, e_appCost = c,
          e_subscriptionId = None, e_event = ev, e_status = PENDING, e_createdAt = w_now w\<rparr>;
          w1 = w\<lparr>w_ids := Suc (w_ids w)\<rparr>
      in if \<exists>x \<in> set (w_events w). e_event x = ev \<and> e_streamerId x = st
         then (Inl (ScriptExc ''QueryFailedError''), w1)
         else (Inr e, w1\<lparr>w_events := save_row e_id e (w_events w)\<rparr>))"
  by (auto simp: new_event_def insert_event_def exec Let_def)

lemma save_new: "key r \<notin> key ` set rs \<Longrightarrow> save_row key r rs = rs @ [r]"
  by (simp add: save_row_def)

lemma update_last:
  "e_id e \<notin> e_id ` set es \<Longrightarrow> update_rows (\<lambda>x. e_id x = e_id e) f (es @ [e]) = es @ [f e]"
proof -
  assume n: "e_id e \<notin> e_id ` set es"
  then have "\<forall>x \<in> set es. e_id x \<noteq> e_id e" by (metis image_eqI)
  then show ?thesis by (simp add: update_rows_def map_idI)
qed

text \<open>Twitch never reports a negative cost.\<close>

definition costs_nonneg :: "env \<Rightarrow> bool" where
  "costs_nonneg E \<longleftrightarrow>
     (\<forall>rs rq regs r c. x_register E rs rq = Inr regs \<longrightarrow> r \<in> set regs \<longrightarrow> re_cost r = Some c \<longrightarrow> 0 \<le> c)"

definition new_ids :: "env \<Rightarrow> world \<Rightarrow> bool" where
  "new_ids E w \<longleftrightarrow> (\<forall>n. x_uuid E n \<notin> e_id ` set (w_events w))"

lemma send_answer: "send orc rq w = (Inr r, w') \<Longrightarrow> \<exists>rs. orc rs rq = Inr r"
  by (auto simp: exec split: sum.splits)

lemma authorized_answer: "authorized_send E cfg orc rq w = (Inr r, w') \<Longrightarrow> \<exists>rs rq. orc rs rq = Inr r"
  unfolding authorized_send_def by (erule andThen_Inr) (blast dest: send_answer)

lemma http_answer: "twitch_http E cfg orc rq w = (Inr r, w') \<Longrightarrow> \<exists>rs rq. orc rs rq = Inr r"
  unfolding twitch_http_def exec_catching
  by (auto split: prod.splits sum.splits if_splits dest: authorized_answer elim!: andThen_Inr simp: exec)

lemma registerEvent_answer: "registerEvent E c u s b ev t i w = (Inr regs, w') \<Longrightarrow> \<exists>rs rq. x_register E rs rq = Inr regs"
  unfolding registerEvent_def wrapped_def exec_catching
  by (auto split: prod.splits sum.splits dest: http_answer simp: exec)

lemma cost_of_nonneg:
  "costs_nonneg E \<Longrightarrow> registerEvent E c u s b ev t i w = (Inr (r # rs), w') \<Longrightarrow> 0 \<le> cost_of r"
  by (auto simp: costs_nonneg_def cost_of_def split: option.split dest!: registerEvent_answer)
    (metis list.set_intros(1))

lemma register_with_app_success:
  assumes "register_with_app E a b st ev w = (Inr e, w')" and "new_ids E w" and "costs_nonneg E"
  shows "w_events w' = w_events w @ [e] \<and> e_id e \<notin> e_id ` set (w_events w) \<and> e_twitchAppId e = a_id a \<and>
    0 \<le> e_appCost e \<and> map app_view (w_apps w') = add_cost (a_clientId a) (e_appCost e) (map app_view (w_apps w))"
proof -
  obtain e0 w1 where n: "new_event E ev (a_id a) (st_id st) 1 w = (Inr e0, w1)"
    using assms(1) unfolding register_with_app_def by (elim andThen_Inr)
  then have "e_id e0 = x_uuid E (w_ids w)" by (auto simp: new_event_exec Let_def split: if_splits)
  then have new: "e_id e0 \<notin> e_id ` set (w_events w)" using assms(2) by (simp add: new_ids_def)
  with n have e0: "w_events w1 = w_events w @ [e0]" "w_apps w1 = w_apps w" "e_twitchAppId e0 = a_id a"
    by (auto simp: new_event_exec Let_def save_new split: if_splits)
  let ?call = "registerEvent E (a_clientId a) (callback_url E (a_clientId a) (e_id e0)) (a_webhookSecret a) b ev None None"
  obtain reg regs w2 where c: "?call w1 = (Inr (reg # regs), w2)"
    and e: "e = e0\<lparr>e_subscriptionId := Some (re_id reg), e_appCost := cost_of reg\<rparr>"
    and w': "w' = snd (whenever (0 < cost_of reg) (consumeAppCost (a_clientId a) (cost_of reg))
      (w_events_update (update_rows (\<lambda>x. e_id x = e_id e0)
         (\<lambda>x. x\<lparr>e_subscriptionId := Some (re_id reg), e_appCost := cost_of reg\<rparr>)) w2))"
    using assms(1) n unfolding register_with_app_def
    by (auto simp: exec first_registered_def update_event_def consumeAppCost_def
        split: prod.splits sum.splits list.splits if_splits)
  have v: "rest_view w2 = rest_view w1" using sameD [OF rest.keep_registerEvent] c by (metis snd_conv)
  have cost: "0 \<le> cost_of reg" using cost_of_nonneg [OF assms(3) c] .
  have "w_events w' = update_rows (\<lambda>x. e_id x = e_id e0)
      (\<lambda>x. x\<lparr>e_subscriptionId := Some (re_id reg), e_appCost := cost_of reg\<rparr>) (w_events w @ [e0])"
    using w' rest_view_parts(1) [OF v] e0(1) by (simp add: exec consumeAppCost_def)
  then have "w_events w' = w_events w @ [e]" using e new by (simp add: update_last)
  moreover have "map app_view (w_apps w') = add_cost (a_clientId a) (cost_of reg) (map app_view (w_apps w))"
    using w' rest_view_parts(11) [OF v] e0(2) cost
    by (cases "cost_of reg = 0") (simp_all add: exec consumeAppCost_def add_cost_view)
  ultimately show ?thesis using e e0 new cost by simp
qed


text \<open>The books: the events and the applications without their tokens.\<close>

definition books :: "world \<Rightarrow> event list \<times> app list" where
  "books w = (w_events w, map app_view (w_apps w))"

interpretation bk: twitch_frame books
  by unfold_locales (simp_all add: books_def view_updates)

lemma accounted_books: "accounted w = accounts (snd (books w)) (fst (books w))"
  by (simp add: accounted_def books_def accounts_view)

lemma getOrCreateStreamer_books: "relates (same books) (getOrCreateStreamer E b)"
  unfolding getOrCreateStreamer_def fresh_id_def fresh_def
  by (intro sameness.rel_rules bk.keep_getUserById sameness_modify relatesI)
    (simp_all add: books_def same_def)

lemma books_of: "relates (same books) m \<Longrightarrow> m w = (r, w') \<Longrightarrow> books w' = books w"
  using sameD [of books m w] by simp

lemma delete_last:
  "e_id e \<notin> e_id ` set es \<Longrightarrow> delete_rows (\<lambda>x. e_id x = e_id e) (es @ [e]) = es"
proof -
  assume "e_id e \<notin> e_id ` set es"
  then have "\<forall>x \<in> set es. e_id x \<noteq> e_id e" by (metis image_eqI)
  then show ?thesis by (simp add: delete_rows_def filter_id_conv)
qed

lemma new_event_books:
  assumes "new_event E ev i st c w = (Inr e, w')" "new_ids E w"
  shows "books w' = (w_events w @ [e], map app_view (w_apps w))" "e_id e \<notin> e_id ` set (w_events w)"
    "e_appCost e = c" "e_twitchAppId e = i"
proof -
  have e: "e_id e = x_uuid E (w_ids w)" "e_appCost e = c" "e_twitchAppId e = i"
    and w': "w_events w' = save_row e_id e (w_events w)" "w_apps w' = w_apps w"
    using assms(1) by (auto simp: new_event_exec Let_def split: if_splits)
  show "e_id e \<notin> e_id ` set (w_events w)" using assms(2) e(1) by (simp add: new_ids_def)
  with w' show "books w' = (w_events w @ [e], map app_view (w_apps w))" by (simp add: books_def save_new)
  show "e_appCost e = c" "e_twitchAppId e = i" using e by simp_all
qed

lemma tryRegister_result:
  assumes "tryRegisterWithUserToken E st ev w = (Inr r, w')" "new_ids E w"
  shows "case r of
      None \<Rightarrow> books w' = books w
    | Some e \<Rightarrow> books w' = (w_events w @ [e], map app_view (w_apps w)) \<and> e_appCost e = 0 \<and>
        e_id e \<notin> e_id ` set (w_events w)"
proof -
  obtain t w1 where t: "getValidTwitchToken E (the (st_userId st)) w = (t, w1)"
    by (cases "getValidTwitchToken E (the (st_userId st)) w")
  have b1: "books w1 = books w" using books_of [OF bk.keep_getValid t] .
  obtain i w2 where i: "findInternalApp E (Some only_webhookSecret) w1 = (i, w2)"
    by (cases "findInternalApp E (Some only_webhookSecret) w1")
  have b2: "w2 = w1" using findInternalApp_state [of E "Some only_webhookSecret" w1] i by simp
  show ?thesis
  proof (cases "\<exists>token a. t = Inr token \<and> i = Inr (Some a)")
    case False
    then have "r = None \<and> w' = w1"
      using assms(1) t i b2
      by (auto simp: tryRegisterWithUserToken_def exec split: sum.splits option.splits prod.splits)
    then show ?thesis using b1 by simp
  next
    case True
    then obtain token a where ta: "t = Inr token" "i = Inr (Some a)" by blast
    obtain n w3 where n: "new_event E ev (a_id a) (st_id st) 0 w1 = (n, w3)"
      by (cases "new_event E ev (a_id a) (st_id st) 0 w1")
    obtain e where e: "n = Inr e"
      using assms(1) t i b2 ta n by (cases n) (auto simp: tryRegisterWithUserToken_def exec)
    have ids: "new_ids E w1" using assms(2) b1 by (simp add: new_ids_def books_def)
    note nb = new_event_books [OF n [unfolded e] ids]
    have ev1: "w_events w1 = w_events w" "map app_view (w_apps w1) = map app_view (w_apps w)"
      using b1 by (simp_all add: books_def)
    let ?call = "registerEvent E (a_clientId a) (callback_url E (a_clientId a) (e_id e)) (a_webhookSecret a)
      (st_broadcasterId st) ev (Some token) (st_userId st)"
    obtain q w4 where q: "?call w3 = (q, w4)" by (cases "?call w3")
    have b4: "books w4 = (w_events w @ [e], map app_view (w_apps w))"
      using books_of [OF bk.keep_registerEvent q] nb(1) ev1 by simp
    show ?thesis
    proof (cases "\<exists>reg regs. q = Inr (reg # regs)")
      case True
      then obtain reg regs where reg: "q = Inr (reg # regs)" by blast
      let ?f = "\<lambda>x. x\<lparr>e_subscriptionId := Some (re_id reg)\<rparr>"
      have "r = Some (?f e)" "w' = w_events_update (update_rows (\<lambda>x. e_id x = e_id e) ?f) w4"
        using assms(1) t i b2 ta n e q reg
        by (simp_all add: tryRegisterWithUserToken_def exec first_registered_def update_event_def)
      then show ?thesis using b4 nb(2,3) ev1 by (simp add: books_def update_last)
    next
      case False
      then have "r = None" "w' = snd (remove_event (e_id e) w4)"
        using assms(1) t i b2 ta n e q
        by (cases q; auto simp: tryRegisterWithUserToken_def exec first_registered_def remove_event_def
            split: list.splits)+
      then show ?thesis
        using b4 nb(2) ev1 by (simp add: books_def remove_event_def exec delete_last)
    qed
  qed
qed

text \<open>
  C4. Registering a subscription keeps the books: if every application carried the summed cost of
  its events before, it does so after a registration that succeeds, through the application or with
  the streamer's own token.
\<close>

theorem registration_keeps_accounts:
  assumes "registerSubscription E b ev w = (Inr e, w')" and "accounted w"
    and "\<And>n. x_uuid E n \<notin> e_id ` set (w_events w)" and "costs_nonneg E"
  shows "accounted w'"
proof -
  obtain st w1 where st: "getOrCreateStreamer E b w = (Inr st, w1)"
    using assms(1) unfolding registerSubscription_def by (elim andThen_Inr)
  have b1: "books w1 = books w" using books_of [OF getOrCreateStreamer_books st] .
  then have ids1: "new_ids E w1" using assms(3) by (simp add: new_ids_def books_def)
  let ?step = "if truthy (st_userId st) \<and> st_allowPersonalSubscriptions st
              then tryRegisterWithUserToken E st ev else ret None"
  obtain r w2 where r: "?step w1 = (Inr r, w2)"
    using assms(1) st unfolding registerSubscription_def by (auto simp: exec split: prod.splits sum.splits)
  have c: "case r of
      None \<Rightarrow> books w2 = books w1
    | Some e \<Rightarrow> books w2 = (w_events w1 @ [e], map app_view (w_apps w1)) \<and> e_appCost e = 0 \<and>
        e_id e \<notin> e_id ` set (w_events w1)"
    using tryRegister_result [OF _ ids1] r by (auto simp: exec split: if_splits)
  show ?thesis
  proof (cases r)
    case (Some x)
    then have "w' = w2" using assms(1) st r by (simp add: registerSubscription_def exec)
    then show ?thesis
      using c Some b1 assms(2) accounts_zero by (auto simp: accounted_books books_def)
  next
    case None
    with c b1 have b2: "books w2 = books w" by simp
    then have acc: "accounted w2" and ids2: "new_ids E w2"
      using assms(2,3) by (simp_all add: accounted_books new_ids_def books_def)
    obtain a w3 where a: "getTwitchAppForBroadcaster E b w2 = (Inr (Some a), w3)"
      and reg: "register_with_app E a b st ev w3 = (Inr e, w')"
      using assms(1) st r None
      by (auto simp: registerSubscription_def exec split: prod.splits sum.splits option.splits)
    from found_app_in [OF a] obtain a0 where a0: "w3 = w2" "a0 \<in> set (w_apps w2)"
      "a_id a = a_id a0" "a_clientId a = a_clientId a0" by blast
    note s = register_with_app_success [OF reg [unfolded a0(1)] ids2 assms(4)]
    have "accounts (add_cost (a_clientId (app_view a0)) (e_appCost e) (map app_view (w_apps w2))) (w_events w2 @ [e])"
      by (rule accounts_add) (use acc a0 s in \<open>auto simp: accounted_def accounts_view\<close>)
    then have "accounts (map app_view (w_apps w')) (w_events w')" using s a0 by simp
    then show ?thesis by (simp add: accounted_def accounts_view)
  qed
qed


text \<open>
  C5. Deleting a local subscription keeps the books, removes the event and every notification that
  refers to it, and leaves the other events as they are.
\<close>

theorem deletion_keeps_accounts:
  assumes "deleteLocalSubscription E i w = (Inr (), w')" and "accounted w"
  shows "accounted w' \<and> w_events w' = delete_rows (\<lambda>e. e_id e = i) (w_events w) \<and>
    w_dnotifs w' = delete_rows (\<lambda>n. dn_streamerEventId n = i) (w_dnotifs w) \<and>
    w_wnotifs w' = delete_rows (\<lambda>n. wn_streamerEventId n = i) (w_wnotifs w)"
proof -
  obtain e a where e: "row_of e_id i (w_events w) = Some e" and a: "app_of e w = Some a"
    using assms(1) by (auto simp: deleteLocalSubscription_def exec split: option.splits)
  let ?d = "if truthy (e_subscriptionId e)
    then catching (deleteSubscription E (the (e_subscriptionId e)) (a_clientId a)) (\<lambda>_. ret ()) else ret ()"
  obtain r w1 where d: "?d w = (r, w1)" by (cases "?d w")
  have v: "rest_view w1 = rest_view w"
  proof -
    have "relates (same rest_view) ?d"
      by (intro sameness.rel_rules rest.keep_deleteSubscription)
    then show ?thesis using sameD d by (metis snd_conv)
  qed
  have "e_id e = i" "e \<in> set (w_events w)" using e by (auto dest: row_of_in)
  have "a \<in> set (w_apps w)" "e_twitchAppId e = a_id a" using a by (auto simp: app_of_def dest: row_of_in)
  have pos: "0 \<le> e_appCost e" using assms(2) \<open>e \<in> set (w_events w)\<close> by (simp add: accounted_def accounts_def)
  have w': "w' = snd (remove_event i (snd (whenever (0 < e_appCost e) (releaseAppCost (a_clientId a) (e_appCost e)) w1)))"
    using assms(1) e a d \<open>e_id e = i\<close>
    by (cases r) (auto simp: deleteLocalSubscription_def exec releaseAppCost_def remove_event_def)
  note parts = rest_view_parts [OF v]
  have ev: "w_events w' = delete_rows (\<lambda>x. e_id x = e_id e) (w_events w)"
    using w' parts(1) \<open>e_id e = i\<close> by (simp add: exec remove_event_def releaseAppCost_def)
  have ap: "map app_view (w_apps w') = add_cost (a_clientId (app_view a)) (- e_appCost e) (map app_view (w_apps w))"
    using w' parts(11) pos
    by (cases "e_appCost e = 0") (simp_all add: exec remove_event_def releaseAppCost_def add_cost_view)
  have "accounts (map app_view (w_apps w')) (w_events w')"
    unfolding ev ap
    by (rule accounts_remove)
      (use assms(2) \<open>a \<in> set (w_apps w)\<close> \<open>e \<in> set (w_events w)\<close> \<open>e_twitchAppId e = a_id a\<close>
        in \<open>auto simp: accounted_def accounts_view\<close>)
  then show ?thesis
    using ev w' parts(2,3) \<open>e_id e = i\<close>
    by (simp add: accounted_def accounts_view exec remove_event_def releaseAppCost_def)
qed

lemma find_new: "\<forall>x \<in> set xs. \<not> P x \<Longrightarrow> P y \<Longrightarrow> find P (xs @ [y]) = Some y"
  by (induction xs) auto

text \<open>
  When Twitch refuses the registration, the event that was saved before the call stays: pending,
  without a subscription and with a cost its application never took. From then on
  \<open>getOrCreateEvent\<close> returns it and Twitch is not asked again.
\<close>

theorem failed_registration_leaves_orphan:
  assumes "register_with_app E a b st ev w = (Inl x, w')"
    and "\<And>c u s b' ev' t i v. \<exists>y v'. registerEvent E c u s b' ev' t i v = (Inl y, v')"
    and "\<And>n. x_uuid E n \<notin> e_id ` set (w_events w)"
    and "find (\<lambda>s. st_broadcasterId s = b) (w_streamers w) = Some st"
    and "\<forall>e \<in> set (w_events w). e_streamerId e \<noteq> st_id st"
  shows "\<exists>e. w_events w' = w_events w @ [e] \<and> e_subscriptionId e = None \<and> e_status e = PENDING \<and>
    e_appCost e = 1 \<and> map app_view (w_apps w') = map app_view (w_apps w) \<and>
    getOrCreateEvent E b ev w' = (Inr e, w')"
proof -
  obtain e w1 where n: "new_event E ev (a_id a) (st_id st) 1 w = (Inr e, w1)"
    using assms(5) by (auto simp: new_event_exec Let_def)
  have e: "e_streamerId e = st_id st" "e_event e = ev" "e_subscriptionId e = None" "e_status e = PENDING"
    and st1: "w_streamers w1 = w_streamers w"
    using n by (auto simp: new_event_exec Let_def split: if_splits)
  have "new_ids E w" using assms(3) by (simp add: new_ids_def)
  note nb = new_event_books [OF n this]
  let ?call = "registerEvent E (a_clientId a) (callback_url E (a_clientId a) (e_id e)) (a_webhookSecret a) b ev None None"
  obtain y w2 where c: "?call w1 = (Inl y, w2)" using assms(2) by blast
  then have w': "w' = w2" using assms(1) n by (simp add: register_with_app_def exec)
  have v: "rest_view w2 = rest_view w1" using sameD [OF rest.keep_registerEvent] c by (metis snd_conv)
  have ev2: "w_events w' = w_events w @ [e]" "map app_view (w_apps w') = map app_view (w_apps w)"
    using nb(1) rest_view_parts(1,11) [OF v] w' by (simp_all add: books_def)
  have "map_option streamer_view (find (\<lambda>s. st_broadcasterId s = b) (w_streamers w')) =
      map_option streamer_view (find (\<lambda>s. st_broadcasterId s = b) (w_streamers w))"
  proof -
    have "map_option streamer_view (find (\<lambda>s. st_broadcasterId s = b) sts) =
        find (\<lambda>s. st_broadcasterId s = b) (map streamer_view sts)" for sts
      by (simp add: find_map comp_def streamer_view_def)
    then show ?thesis using rest_view_parts(13) [OF v] st1 w' by simp
  qed
  then obtain st' where "find (\<lambda>s. st_broadcasterId s = b) (w_streamers w') = Some st'" "st_id st' = st_id st"
    using assms(4) by (auto simp: streamer_view_def dest!: arg_cong [where f = st_id])
  moreover have "find (\<lambda>x. e_streamerId x = st_id st \<and> e_event x = ev) (w_events w') = Some e"
    unfolding ev2 by (rule find_new) (use assms(5) e in auto)
  ultimately have "event_of_broadcaster b ev w' = Some e" by (simp add: event_of_broadcaster_def)
  then show ?thesis using ev2 e nb by (simp add: getOrCreateEvent_def exec)
qed

lemma cached_token:
  "w_tokens w c = Some tk \<Longrightarrow> w_now w < ct_expiresAt tk \<Longrightarrow>
     getTokenForApp E c False w = (Inr (ct_accessToken tk), w)"
  by (simp add: getTokenForApp_def getOrRefresh_def cached_or_refresh_def isExpired_def exec)

text \<open>
  A further kind of event of a broadcaster is registered through the application of the first,
  whose row is used without decryption: the secret handed to Twitch is the sealed text, not the
  secret that incoming messages are checked with.
\<close>

theorem reused_app_sends_sealed_secret:
  assumes "used_app b w = Some a" and "a_currentCost a < a_maxCost a" and "isEncrypted (a_webhookSecret a)"
    and "w_tokens w (a_clientId a) = Some tk" and "w_now w < ct_expiresAt tk"
    and "\<And>e. e \<in> set (w_events w) \<Longrightarrow> \<not> (e_event e = ev \<and> e_streamerId e = st_id st)"
    and "\<And>rs rq. x_register E rs rq = Inr (reg # regs)"
  shows "getTwitchAppForBroadcaster E b w = (Inr (Some a), w) \<and>
    (\<exists>rq. w_requests (snd (register_with_app E a b st ev w)) = w_requests w @ [rq] \<and>
       (\<exists>s. (''transport.secret'', s) \<in> set (rq_fields rq) \<and> isEncrypted s))"
proof
  show "getTwitchAppForBroadcaster E b w = (Inr (Some a), w)"
    using assms(1,2) by (simp add: getTwitchAppForBroadcaster_def exec)
  obtain e w1 where n: "new_event E ev (a_id a) (st_id st) 1 w = (Inr e, w1)"
    and w1: "w_tokens w1 = w_tokens w" "w_now w1 = w_now w" "w_requests w1 = w_requests w"
    using assms(6) by (auto simp: new_event_exec Let_def)
  let ?rq = "(request_to ''POST'' ''helix/eventsub/subscriptions''
     [(''type'', event_text ev), (''version'', ''1''), (''condition.broadcaster_user_id'', b),
      (''transport.method'', ''webhook''), (''transport.callback'', callback_url E (a_clientId a) (e_id e)),
      (''transport.secret'', a_webhookSecret a)])
     \<lparr>rq_clientId := Some (a_clientId a), rq_bearer := Some (ct_accessToken tk)\<rparr>"
  have "registerEvent E (a_clientId a) (callback_url E (a_clientId a) (e_id e)) (a_webhookSecret a) b ev None None w1 =
      (Inr (reg # regs), w1\<lparr>w_requests := w_requests w1 @ [?rq]\<rparr>)"
    using assms(4,5,7) w1 cached_token [of w1 "a_clientId a" tk E]
    by (simp add: registerEvent_def wrapped_def twitch_http_def authorized_send_def exec)
  then have "w_requests (snd (register_with_app E a b st ev w)) = w_requests w @ [?rq]"
    using n w1 by (simp add: register_with_app_def exec first_registered_def update_event_def consumeAppCost_def)
  moreover have "(''transport.secret'', a_webhookSecret a) \<in> set (rq_fields ?rq)"
    by (simp add: request_to_def)
  ultimately show "\<exists>rq. w_requests (snd (register_with_app E a b st ev w)) = w_requests w @ [rq] \<and>
       (\<exists>s. (''transport.secret'', s) \<in> set (rq_fields rq) \<and> isEncrypted s)"
    using assms(3) by blast
qed

theorem deletion_keeps_accounts_witness:
  "\<exists>w'. deleteLocalSubscription sample_env ''e'' populated_world = (Inr (), w') \<and> accounted w' \<and> w_events w' = []"
proof -
  have r: "row_of e_id ''e'' (w_events populated_world) = Some sample_event" "app_of sample_event populated_world = Some sample_app"
    by (simp_all add: samples row_of_def app_of_def)
  obtain r w1 where d: "deleteSubscription sample_env ''sub'' ''c'' populated_world = (r, w1)"
    by (cases "deleteSubscription sample_env ''sub'' ''c'' populated_world")
  obtain w' where w': "deleteLocalSubscription sample_env ''e'' populated_world = (Inr (), w')"
    using r d by (cases r)
      (simp_all add: deleteLocalSubscription_def exec remove_event_def releaseAppCost_def truthy_def,
       simp_all add: exec sample_event_def sample_app_def)
  have "accounted populated_world" by (simp add: accounted_def accounts_def samples unique_keys_def)
  from deletion_keeps_accounts [OF w' this] w' show ?thesis by (auto simp: delete_rows_def samples)
qed

definition free_app :: app where
  "free_app = sample_app\<lparr>a_currentCost := 0\<rparr>"

definition start_world :: world where
  "start_world = sample_world\<lparr>w_apps := [free_app],
     w_tokens := [''c'' \<mapsto> \<lparr>ct_accessToken = ''at'', ct_expiresAt = 500000\<rparr>]\<rparr>"

definition answering_env :: env where
  "answering_env = sample_env\<lparr>
     x_users := (\<lambda>rs rq. Inr [\<lparr>tu_id = ''b'', tu_login = ''ann'', tu_display_name = ''Ann'', tu_type = [],
        tu_broadcaster_type = [], tu_description = [], tu_profile_image_url = None, tu_offline_image_url = None,
        tu_view_count = 0, tu_email = [], tu_created_at = 0\<rparr>]),
     x_register := (\<lambda>rs rq. Inr [\<lparr>re_id = ''sub'', re_cost = Some 3\<rparr>])\<rparr>"

theorem registration_keeps_accounts_witness:
  "\<exists>e w'. registerSubscription answering_env ''b'' STREAM_ONLINE start_world = (Inr e, w') \<and> accounted w'"
proof -
  obtain e w' where r: "registerSubscription answering_env ''b'' STREAM_ONLINE start_world = (Inr e, w')"
    by (simp add: registerSubscription_def getOrCreateStreamer_def getUserById_def getUsers_def wrapped_def
        getLeastLoadedApp_def findLeastLoaded_def decrypted_def opt_map_def exec twitch_http_def authorized_send_def
        app_config_def cached_token truthy_def getTwitchAppForBroadcaster_def used_app_def findTwitchApp_def
        decryptFields_def decrypt_if_def decrypt_def isEncrypted_def encrypted_prefix_def only_webhookSecret_def
        register_with_app_def new_event_exec registerEvent_def first_registered_def update_event_def
        consumeAppCost_def cost_of_def start_world_def free_app_def sample_app_def answering_env_def sample_env_def
        twitchApiUserToNormalized_def Let_def)
  have "accounted start_world"
    by (simp add: accounted_def accounts_def start_world_def free_app_def sample_app_def unique_keys_def)
  then have "accounted w'"
    by (rule registration_keeps_accounts [OF r]) (auto simp: start_world_def costs_nonneg_def answering_env_def)
  with r show ?thesis by blast
qed

theorem failed_registration_leaves_orphan_witness:
  "\<exists>e x w'. register_with_app sample_env sample_app ''b'' sample_streamer STREAM_ONLINE
       (populated_world\<lparr>w_events := []\<rparr>) = (Inl x, w') \<and> w_events w' = [e] \<and> e_status e = PENDING"
proof -
  let ?w = "populated_world\<lparr>w_events := []\<rparr>"
  have f: "\<exists>y v'. registerEvent sample_env c u s b' ev' t i v = (Inl y, v')" for c u s b' ev' t i v
    by (auto simp: registerEvent_def wrapped_def twitch_http_def authorized_send_def exec split: prod.splits sum.splits option.splits)
  have g: "registerEvent sample_env c u s b' ev' t i v \<noteq> (Inr z, v'')" for c u s b' ev' t i v z v''
    using f [of c u s b' ev' t i v] by auto
  obtain q w' where q: "register_with_app sample_env sample_app ''b'' sample_streamer STREAM_ONLINE ?w = (q, w')"
    by (cases "register_with_app sample_env sample_app ''b'' sample_streamer STREAM_ONLINE ?w")
  then obtain x where "q = Inl x"
    by (cases q) (auto simp: g register_with_app_def exec new_event_exec Let_def split: prod.splits sum.splits)
  with q have r: "register_with_app sample_env sample_app ''b'' sample_streamer STREAM_ONLINE ?w = (Inl x, w')"
    by simp
  have "\<exists>e. w_events w' = w_events ?w @ [e] \<and> e_subscriptionId e = None \<and> e_status e = PENDING \<and>
    e_appCost e = 1 \<and> map app_view (w_apps w') = map app_view (w_apps ?w) \<and>
    getOrCreateEvent sample_env ''b'' STREAM_ONLINE w' = (Inr e, w')"
    by (rule failed_registration_leaves_orphan [OF r f]) (simp_all add: sample_streamer_def)
  with r show ?thesis by auto
qed

definition sealed_app :: app where
  "sealed_app = sample_app\<lparr>a_webhookSecret := ''enc:n:ws''\<rparr>"

theorem reused_app_sends_sealed_secret_witness:
  "\<exists>rq s. w_requests (snd (register_with_app answering_env sealed_app ''b'' sample_streamer CHANNEL_RAID
       (populated_world\<lparr>w_apps := [sealed_app], w_tokens := [''c'' \<mapsto> \<lparr>ct_accessToken = ''at'', ct_expiresAt = 500000\<rparr>]\<rparr>))) = [rq] \<and>
     (''transport.secret'', s) \<in> set (rq_fields rq) \<and> isEncrypted s"
proof -
  let ?w = "populated_world\<lparr>w_apps := [sealed_app], w_tokens := [''c'' \<mapsto> \<lparr>ct_accessToken = ''at'', ct_expiresAt = 500000\<rparr>]\<rparr>"
  have "used_app ''b'' ?w = Some sealed_app"
    by (simp add: used_app_def streamer_of_def app_of_def row_of_def sample_event_def sample_streamer_def sealed_app_def sample_app_def)
  from reused_app_sends_sealed_secret [of "''b''" ?w sealed_app "\<lparr>ct_accessToken = ''at'', ct_expiresAt = 500000\<rparr>"
      CHANNEL_RAID sample_streamer answering_env, OF this]
  show ?thesis
    by (auto simp: sealed_app_def sample_app_def isEncrypted_def encrypted_prefix_def sample_event_def answering_env_def)
qed

end
