(* ===== verification/Interpolation.thy ===== *)
theory Interpolation imports Json begin

text \<open>
  \<open>apps/notification-worker/src/interpolation.ts\<close>: the variables of a stream and the
  template substitution, which works on the printed JSON and reads the result back. The lemmas show
  when that is the substitution of the strings inside the value, and what a quote in a stream title
  does to it.
\<close>

section \<open>Replacement of placeholders\<close>

definition is_word :: "char \<Rightarrow> bool" where
  "is_word c \<longleftrightarrow> c \<in> set ''ABCDEFGHIJKLMNOPQRSTUVWXYZabcdefghijklmnopqrstuvwxyz0123456789_''"

text \<open>What follows a dollar sign: \<open>\{(\w+)\}\<close>, the captured name and the rest.\<close>

(* apps/notification-worker/src/interpolation.ts 27-27 interpolatePayload, the regular expression *)
definition placeholder :: "string \<Rightarrow> (string \<times> string) option" where
  "placeholder s =
     (case s of
        [] \<Rightarrow> None
      | b # t \<Rightarrow>
          if b \<noteq> CHR ''{'' \<or> takeWhile is_word t = [] then None
          else (case dropWhile is_word t of
             [] \<Rightarrow> None
           | e # r \<Rightarrow> if e = CHR ''}'' then Some (takeWhile is_word t, r) else None))"

lemma placeholder_shorter: "placeholder s = Some (k, r) \<Longrightarrow> length r < length s"
  by (auto simp: placeholder_def split: list.splits if_splits)
    (metis length_Cons length_dropWhile_le less_Suc_eq_le Suc_leD)

(* apps/notification-worker/src/interpolation.ts 26-29 interpolatePayload, the replacement *)
function replace_vars :: "(string \<Rightarrow> string) \<Rightarrow> string \<Rightarrow> string" where
  "replace_vars f [] = []"
| "replace_vars f (c # s) =
     (if c = CHR ''$'' then
        (case placeholder s of
           None \<Rightarrow> c # replace_vars f s
         | Some (k, r) \<Rightarrow> f k @ replace_vars f r)
      else c # replace_vars f s)"
  by pat_completeness auto
termination
  by (relation "measure (length \<circ> snd)") (auto dest: placeholder_shorter)

section \<open>The variables of a stream\<close>

(* libs/queue/src/payloads.ts 1-8 ITwitchStreamOnlineEvent *)
record stream_event =
  ev_id :: string
  broadcaster_user_id :: string
  broadcaster_user_login :: string
  broadcaster_user_name :: string
  ev_type :: string
  started_at :: string

(* libs/queue/src/payloads.ts 13-25 IStreamOnlineMessage.channelInfo *)
record channel_info =
  ci_broadcasterId :: string
  ci_broadcasterLogin :: string
  ci_displayName :: string
  ci_gameId :: string
  ci_gameName :: "string option"
  ci_isLive :: bool
  ci_tagIds :: "string list"
  ci_tags :: "string list"
  ci_thumbnailUrl :: string
  ci_streamTitle :: "string option"
  ci_streamStartedAt :: "string option"

type_synonym vars = "(string \<times> string) list"

text \<open>\<open>seconds\<close> stands for \<open>String(Math.floor(new Date(t).getTime() / 1000))\<close>.\<close>

(* apps/notification-worker/src/interpolation.ts 3-22 buildStreamOnlineVars *)
definition buildStreamOnlineVars ::
  "(string \<Rightarrow> string) \<Rightarrow> stream_event \<Rightarrow> channel_info option \<Rightarrow> string option \<Rightarrow> vars" where
  "buildStreamOnlineVars seconds event channelInfo avatarUrl =
    [(''streamerName'', broadcaster_user_name event),
     (''streamerLogin'', broadcaster_user_login event),
     (''streamerId'', broadcaster_user_id event),
     (''streamType'', ev_type event),
     (''startedAt'', started_at event),
     (''startedAtTimestamp'', seconds (started_at event)),
     (''streamUrl'', ''https://twitch.tv/'' @ broadcaster_user_login event),
     (''thumbnailUrl'', ''https://static-cdn.jtvnw.net/previews-ttv/live_user_'' @
        broadcaster_user_login event @ ''-1280x720.jpg''),
     (''avatarUrl'', case avatarUrl of None \<Rightarrow> [] | Some u \<Rightarrow> u),
     (''streamTitle'', case Option.bind channelInfo ci_streamTitle of None \<Rightarrow> [] | Some t \<Rightarrow> t),
     (''gameName'', case Option.bind channelInfo ci_gameName of None \<Rightarrow> [] | Some g \<Rightarrow> g),
     (''gameId'', case channelInfo of None \<Rightarrow> [] | Some c \<Rightarrow> ci_gameId c)]"

text \<open>\<open>vars\<close> is an object literal, so a name it does not have is looked up in
  \<open>Object.prototype\<close>; what is found there is printed into the text.\<close>

definition native :: "string \<Rightarrow> string" where
  "native f = ''function '' @ f @ ''() { [native code] }''"

definition prototype_methods :: "string list" where
  "prototype_methods =
    [''toString'', ''toLocaleString'', ''valueOf'', ''hasOwnProperty'', ''isPrototypeOf'',
     ''propertyIsEnumerable'', ''__defineGetter__'', ''__defineSetter__'',
     ''__lookupGetter__'', ''__lookupSetter__'']"

definition object_prototype :: "string \<Rightarrow> string option" where
  "object_prototype k =
     (if k \<in> set prototype_methods then Some (native k)
      else if k = ''constructor'' then Some (native ''Object'')
      else if k = ''__proto__'' then Some ''[object Object]''
      else None)"

(* apps/notification-worker/src/interpolation.ts 28-28 interpolatePayload, the replacer *)
definition var_text :: "vars \<Rightarrow> string \<Rightarrow> string" where
  "var_text vars k =
     (case map_of vars k of
        Some t \<Rightarrow> t
      | None \<Rightarrow> (case object_prototype k of
           Some t \<Rightarrow> t
         | None \<Rightarrow> ''${'' @ k @ ''}''))"

text \<open>An undefined payload is \<open>None\<close>; \<open>Inl ()\<close> is the \<open>SyntaxError\<close>
  of \<open>JSON.parse\<close>.\<close>

(* apps/notification-worker/src/interpolation.ts 24-31 interpolatePayload *)
definition interpolatePayload ::
  "(string \<Rightarrow> string) \<Rightarrow> vars \<Rightarrow> json option \<Rightarrow> unit + json option" where
  "interpolatePayload canon vars payload =
     (case payload of
        None \<Rightarrow> Inr None
      | Some p \<Rightarrow>
          if p = JNull then Inr (Some JNull)
          else (case json_parse canon (replace_vars (var_text vars) (stringify p)) of
             None \<Rightarrow> Inl ()
           | Some j \<Rightarrow> Inr (Some j)))"

section \<open>The structural substitution it should be\<close>

fun subst_json :: "(string \<Rightarrow> string) \<Rightarrow> json \<Rightarrow> json" where
  "subst_json f (JStr s) = JStr (replace_vars f s)"
| "subst_json f (JArr js) = JArr (map (subst_json f) js)"
| "subst_json f (JObj kvs) = JObj (map (\<lambda>(k, j). (replace_vars f k, subst_json f j)) kvs)"
| "subst_json f JNull = JNull"
| "subst_json f (JBool b) = JBool b"
| "subst_json f (JNum n) = JNum n"

definition plain :: "string \<Rightarrow> bool" where
  "plain s \<longleftrightarrow> list_all (\<lambda>c. \<not> special_char c) s"

lemma escape_plain: "plain s \<Longrightarrow> escape s = s"
  by (induction s) (auto simp: plain_def escape_def escape_char_plain)

text \<open>A character that occurs in no placeholder separates the replacement.\<close>

definition separator :: "char \<Rightarrow> bool" where
  "separator c \<longleftrightarrow> \<not> is_word c \<and> c \<notin> set ''${}''"

lemma word_not_special: "is_word c \<Longrightarrow> \<not> special_char c"
proof -
  have "list_all (\<lambda>c. \<not> special_char c)
    ''ABCDEFGHIJKLMNOPQRSTUVWXYZabcdefghijklmnopqrstuvwxyz0123456789_''"
    by code_simp
  then show "is_word c \<Longrightarrow> \<not> special_char c" by (auto simp: is_word_def list_all_iff)
qed

lemma escape_char_head: "special_char c \<Longrightarrow> \<exists>e. escape_char c = CHR 0x5C # e"
  using escape_char_special by blast

lemma words_of_escape:
  "takeWhile is_word (escape s) = takeWhile is_word s"
  "dropWhile is_word (escape s) = escape (dropWhile is_word s)"
proof (induction s)
  case (Cons c s)
  have b: "\<not> is_word CHR 0x5C" by code_simp
  { case 1 show ?case
      using Cons b word_not_special [of c] escape_char_head [of c] escape_char_plain [of c]
      by (cases "special_char c") (auto simp: escape_Cons) }
  { case 2 show ?case
      using Cons b word_not_special [of c] escape_char_head [of c] escape_char_plain [of c]
      by (cases "special_char c") (auto simp: escape_Cons) }
qed (simp_all add: escape_def)


lemma placeholder_escape:
  "placeholder (escape s) = map_option (\<lambda>(k, r). (k, escape r)) (placeholder s)"
proof (cases s)
  case (Cons b t)
  show ?thesis
  proof (cases "b = CHR ''{''")
    case True
    then have "escape s = b # escape t"
      using Cons by (simp add: escape_Cons escape_char_plain special_char_def)
    moreover have "(case escape u of [] \<Rightarrow> None | e # r \<Rightarrow> if e = CHR ''}'' then Some (w, r) else None) =
        map_option (\<lambda>(k, r). (k, escape r)) (case u of [] \<Rightarrow> None | e # r \<Rightarrow> if e = CHR ''}'' then Some (w, r) else None)"
      for u and w :: string
    proof (cases u)
      case (Cons e r)
      then show ?thesis
        using escape_char_head [of e] escape_char_plain [of e]
        by (cases "special_char e") (auto simp: escape_Cons special_char_def)
    qed (simp add: escape_def)
    ultimately show ?thesis
      using Cons True by (simp add: placeholder_def words_of_escape cong: list.case_cong if_cong)
  next
    case False
    then show ?thesis
      using Cons escape_char_head [of b] escape_char_plain [of b]
      by (cases "special_char b") (auto simp: escape_Cons placeholder_def special_char_def)
  qed
qed (simp add: placeholder_def escape_def)

lemma placeholder_words: "placeholder s = Some (k, r) \<Longrightarrow> list_all is_word k"
  by (auto simp: placeholder_def list_all_iff split: list.splits if_splits dest: set_takeWhileD)

lemma replace_no_dollar: "CHR ''$'' \<notin> set a \<Longrightarrow> replace_vars f (a @ s) = a @ replace_vars f s"
  by (induction a) auto

lemma replace_no_dollar_all: "CHR ''$'' \<notin> set a \<Longrightarrow> replace_vars f a = a"
  using replace_no_dollar [of a f "[]"] by simp

lemma replace_Cons: "c \<noteq> CHR ''$'' \<Longrightarrow> replace_vars f (c # s) = c # replace_vars f s"
  by simp

lemma placeholder_separator:
  assumes "separator c"
  shows "placeholder (a @ c # b) = map_option (\<lambda>(k, r). (k, r @ c # b)) (placeholder a)"
proof (cases a)
  case Nil
  then show ?thesis using assms by (auto simp: placeholder_def separator_def)
next
  case (Cons x t)
  have tw: "takeWhile is_word (t @ c # b) = takeWhile is_word t"
    using assms by (induction t) (auto simp: separator_def)
  have dw: "dropWhile is_word (t @ c # b) = dropWhile is_word t @ c # b"
    using assms by (induction t) (auto simp: separator_def)
  show ?thesis
  proof (cases "dropWhile is_word t")
    case Nil
    then show ?thesis
      using Cons assms
      by (simp add: placeholder_def tw dw separator_def del: dropWhile_eq_Nil_conv)
  next
    case (Cons e r)
    then show ?thesis
      using \<open>a = x # t\<close> by (simp add: placeholder_def tw dw)
  qed
qed

lemma replace_separator:
  assumes "separator c"
  shows "replace_vars f (a @ c # b) = replace_vars f a @ c # replace_vars f b"
proof (induction f a rule: replace_vars.induct)
  case (1 f)
  then show ?case using assms by (simp add: separator_def)
next
  case (2 f x s)
  then show ?case by (auto simp: placeholder_separator [OF assms] split: option.split)
qed

definition plain_vars :: "(string \<Rightarrow> string) \<Rightarrow> bool" where
  "plain_vars f \<longleftrightarrow> (\<forall>k. list_all is_word k \<longrightarrow> plain (f k))"

lemma replace_escape: "plain_vars f \<Longrightarrow> replace_vars f (escape s) = escape (replace_vars f s)"
proof (induction f s rule: replace_vars.induct)
  case (2 f c s)
  show ?case
  proof (cases "c = CHR ''$''")
    case True
    then have e: "escape (c # s) = c # escape s"
      by (simp add: escape_Cons escape_char_plain special_char_def)
    show ?thesis
    proof (cases "placeholder s")
      case None
      with 2 True e show ?thesis
        by (simp add: placeholder_escape escape_Cons escape_char_plain special_char_def)
    next
      case (Some p)
      obtain k r where p: "placeholder s = Some (k, r)" using Some by (cases p) auto
      then have "plain (f k)" using 2(4) placeholder_words by (auto simp: plain_vars_def)
      then show ?thesis
        using 2 True e p by (simp add: placeholder_escape escape_append escape_plain)
    qed
  next
    case False
    have "CHR ''$'' \<notin> set (escape_char c)"
    proof (cases "special_char c")
      case True
      have "list_all (\<lambda>c. CHR ''$'' \<notin> set (escape_char c)) special_chars" by code_simp
      then show ?thesis using special_in [OF True] by (auto simp: list_all_iff)
    qed (use False in \<open>simp add: escape_char_plain\<close>)
    with 2 False show ?thesis by (simp add: escape_Cons replace_no_dollar)
  qed
qed (simp add: escape_def)

lemma separators [simp]:
  "separator CHR 0x22" "separator CHR '',''" "separator CHR '']''" "separator CHR '':''" "separator CHR ''[''"
  by (simp_all add: separator_def is_word_def)

lemma num_no_dollar: "list_all is_num_char n \<Longrightarrow> CHR ''$'' \<notin> set n"
proof -
  have "\<not> is_num_char CHR ''$''" by (simp add: is_num_char_def is_digit_def)
  then show "list_all is_num_char n \<Longrightarrow> CHR ''$'' \<notin> set n" by (auto simp: list_all_iff)
qed

lemma replace_quote:
  "plain_vars f \<Longrightarrow> replace_vars f (quote s @ t) = quote (replace_vars f s) @ replace_vars f t"
  by (simp add: quote_def replace_separator replace_escape)

text \<open>No placeholder reaches over the end of a printed value.\<close>

lemma replace_stringify_append:
  "plain_vars f \<Longrightarrow> wf_json canon j \<Longrightarrow>
     replace_vars f (stringify j @ t) = stringify (subst_json f j) @ replace_vars f t"
  "plain_vars f \<Longrightarrow> \<forall>j \<in> set js. wf_json canon j \<Longrightarrow>
     replace_vars f (str_items js @ t) = str_items (map (subst_json f) js) @ replace_vars f t"
  "plain_vars f \<Longrightarrow> \<forall>p \<in> set kvs. wf_json canon (snd p) \<Longrightarrow>
     replace_vars f (str_fields kvs @ t) =
       str_fields (map (\<lambda>(k, j). (replace_vars f k, subst_json f j)) kvs) @ replace_vars f t"
proof (induction j and js and kvs arbitrary: t and t and t rule: stringify_str_items_str_fields.induct)
  case (3 n)
  then show ?case by (simp add: replace_no_dollar num_no_dollar)
qed (simp_all add: replace_quote)

lemma replace_stringify:
  "plain_vars f \<Longrightarrow> wf_json canon j \<Longrightarrow> replace_vars f (stringify j) = stringify (subst_json f j)"
  using replace_stringify_append(1) [of f canon j "[]"] by simp

lemma plain_append [simp]: "plain (s @ t) \<longleftrightarrow> plain s \<and> plain t"
  by (simp add: plain_def)

lemma plain_prototype: "object_prototype k = Some t \<Longrightarrow> plain t"
proof -
  have "list_all (\<lambda>k. plain (native k)) (''Object'' # prototype_methods)" by code_simp
  moreover have "plain ''[object Object]''" by code_simp
  ultimately show "object_prototype k = Some t \<Longrightarrow> plain t"
    by (auto simp: object_prototype_def list_all_iff split: if_splits)
qed

lemma plain_var_text:
  assumes "\<forall>(k, t) \<in> set vars. plain t"
  shows "plain_vars (var_text vars)"
  unfolding plain_vars_def
proof (intro allI impI)
  fix k assume k: "list_all is_word k"
  have "plain k" using k word_not_special by (auto simp: plain_def list_all_iff)
  then have "plain (''${'' @ k @ ''}'')" by (simp add: plain_def special_char_def)
  then show "plain (var_text vars k)"
    using assms plain_prototype by (auto simp: var_text_def split: option.split dest!: map_of_SomeD)
qed

text \<open>
  C20. When no variable of the stream contains a quote, a backslash or a control character,
  substituting in the printed JSON and reading it back is substituting in every string and key of
  the payload, and nothing else of the payload changes.
\<close>

theorem interpolation_structural:
  assumes "wf_json canon p"
    and "\<forall>(k, t) \<in> set vars. plain t"
    and "wf_json canon (subst_json (var_text vars) p)"
  shows "interpolatePayload canon vars (Some p) = Inr (Some (subst_json (var_text vars) p))"
  using json_round_trip [OF assms(3)] replace_stringify [OF plain_var_text [OF assms(2)] assms(1)]
  by (simp add: interpolatePayload_def)

text \<open>A quote in a value ends the string literal it is put into.\<close>

lemma read_chars_plain: "plain s \<Longrightarrow> read_chars (s @ CHR 0x22 # r) = Some (s, r)"
  using read_chars_escape [of s r] by (simp add: escape_plain)

lemma quote_breaks:
  assumes "map_of vars k = Some (pre @ CHR 0x22 # post)"
    and "plain pre" and "list_all is_word k" and "k \<noteq> []"
    and "\<not> (\<exists>c t. skip_ws post = c # t \<and> c \<in> set ''},'')"
  shows "interpolatePayload canon vars (Some (JObj [(''content'', JStr (''${'' @ k @ ''}''))])) = Inl ()"
proof -
  let ?p = "JObj [(''content'', JStr (''${'' @ k @ ''}''))]"
  let ?v = "pre @ CHR 0x22 # post"
  have b: "\<not> is_word CHR ''}''" by code_simp
  have pl: "placeholder (CHR ''{'' # k @ CHR ''}'' # r) = Some (k, r)" for r
    using assms(3,4) b by (simp add: placeholder_def takeWhile_append2 dropWhile_append2 list_all_iff)
  have "plain (''${'' @ k @ ''}'')"
    using assms(3) word_not_special by (auto simp: plain_def list_all_iff special_char_def)
  moreover have "plain ''content''" by code_simp
  ultimately have a: "stringify ?p =
      ''{\"content\":\"'' @ CHR ''$'' # CHR ''{'' # k @ CHR ''}'' # ''\"}''"
    by (simp add: quote_def escape_plain)
  have "CHR ''$'' \<notin> set ''{\"content\":\"''" "CHR ''$'' \<notin> set ''\"}''" by simp_all
  note nd = replace_no_dollar [OF this(1)] replace_no_dollar_all [OF this(2)]
  have r: "replace_vars (var_text vars) (stringify ?p) = ''{\"content\":\"'' @ ?v @ ''\"}''"
    unfolding a nd by (simp only: replace_vars.simps pl nd option.case prod.case if_True var_text_def assms(1))
      simp
  have q: "skip_ws (post @ ''\"}'') = [] \<or> (\<exists>c t. skip_ws (post @ ''\"}'') = c # t \<and> c \<noteq> CHR ''}'' \<and> c \<noteq> CHR '','')"
  proof (cases "skip_ws post")
    case Nil
    then have "\<forall>c \<in> set post. is_ws c" by (simp add: skip_ws_def dropWhile_eq_Nil_conv)
    then have "skip_ws (post @ ''\"}'') = ''\"}''" by (simp add: skip_ws_def dropWhile_append2 is_ws_def)
    then show ?thesis by simp
  next
    case (Cons c t)
    then have "skip_ws (post @ ''\"}'') = c # t @ ''\"}''"
      unfolding skip_ws_def by (metis append_Cons dropWhile_append1 dropWhile_eq_Nil_conv list.distinct(1))
    with Cons assms(5) show ?thesis by auto
  qed
  have "read_value canon (Suc (Suc (Suc n))) (''{\"content\":\"'' @ ?v @ ''\"}'') = None" for n
    using q read_chars_plain [OF assms(2)] read_chars_plain [of "''content''"]
    by (auto simp: skip_ws_id plain_def special_char_def split: list.split)
  then have "json_parse canon (''{\"content\":\"'' @ ?v @ ''\"}'') = None"
    using fuel_enough by (simp add: json_parse_def numeral_eq_Suc)
  with r show ?thesis by (simp add: interpolatePayload_def)
qed

text \<open>
  A quote in a value breaks the message: when the text after it does not go on like JSON,
  \<open>JSON.parse\<close> throws, whatever comes before the quote.
\<close>

theorem quote_in_title_breaks:
  assumes "map_of vars k = Some (pre @ CHR 0x22 # post)"
    and "plain pre" and "list_all is_word k" and "k \<noteq> []"
    and "\<not> (\<exists>c t. skip_ws post = c # t \<and> c \<in> set ''},'')"
  shows "interpolatePayload canon vars (Some (JObj [(''content'', JStr (''${'' @ k @ ''}''))])) = Inl ()"
  using assms by (rule quote_breaks)

theorem interpolation_structural_witness:
  "interpolatePayload (\<lambda>n. n) [(''title'', ''Run'')] (Some (JObj [(''content'', JStr ''${title}!'')])) =
     Inr (Some (JObj [(''content'', JStr ''Run!'')]))"
proof -
  have "subst_json (var_text [(''title'', ''Run'')]) (JObj [(''content'', JStr ''${title}!'')]) =
      JObj [(''content'', JStr ''Run!'')]"
    by code_simp
  then show ?thesis
    using interpolation_structural [of "\<lambda>n. n" "JObj [(''content'', JStr ''${title}!'')]" "[(''title'', ''Run'')]"]
    by (simp add: plain_def special_char_def)
qed

theorem quote_in_title_breaks_witness:
  "interpolatePayload (\<lambda>n. n) [(''title'', ''My \"best'')] (Some (JObj [(''content'', JStr ''${title}'')])) = Inl ()"
  using quote_in_title_breaks [of "[(''title'', ''My \"best'')]" "''title''" "''My ''" "''best''" "\<lambda>n. n"]
  by (simp add: plain_def special_char_def is_word_def skip_ws_def is_ws_def)

end
