(* ===== verification/Rpc.thy ===== *)
theory Rpc imports Samples begin

text \<open>
  \<open>libs/rpc\<close>: a call of a remote handler. A reply is the handler's value. The interceptor and
  the filter of \<open>libs/rpc\<close> are global ones of the HTTP application, which Nest does not hand on to
  the microservices connected to it; so an error travels as Nest's own filter writes it: a
  \<open>RpcBusinessException\<close> as its object, which has no \<open>status\<close>, and any other exception as
  \<open>{ status: 'error', message: 'Internal server error' }\<close>, whose \<open>status\<close> is truthy.
\<close>

(* libs/shared/src/models/rpc/rpc-result.model.ts 1-15 TRpcCallResultModel *)
record 'r call_result =
  cr_status :: bool
  cr_data :: "'r option"
  cr_rpcError :: "string option"
  cr_message :: "string option"
  cr_errorData :: "string option"

(* libs/shared/src/models/rpc/rpc-result.model.ts 18-27 RpcError *)
datatype rpc_error =
    NOT_REGISTERED | STREAMER_NOT_FOUND | INSUFFICIENT_CREDITS | DESTINATION_EXISTS | VALIDATION_ERROR
  | NOT_FOUND | FORBIDDEN | INTERNAL_ERROR

(* libs/shared/src/models/rpc/rpc-result.model.ts 18-27 RpcError *)
fun rpc_error_text :: "rpc_error \<Rightarrow> string" where
  "rpc_error_text NOT_REGISTERED = ''NOT_REGISTERED''"
| "rpc_error_text STREAMER_NOT_FOUND = ''STREAMER_NOT_FOUND''"
| "rpc_error_text INSUFFICIENT_CREDITS = ''INSUFFICIENT_CREDITS''"
| "rpc_error_text DESTINATION_EXISTS = ''DESTINATION_EXISTS''"
| "rpc_error_text VALIDATION_ERROR = ''VALIDATION_ERROR''"
| "rpc_error_text NOT_FOUND = ''NOT_FOUND''"
| "rpc_error_text FORBIDDEN = ''FORBIDDEN''"
| "rpc_error_text INTERNAL_ERROR = ''INTERNAL_ERROR''"

(* libs/shared/src/models/rpc/rpc.exception.ts 4-13 RpcBusinessException *)
definition rpcBusinessException :: "rpc_error \<Rightarrow> string \<Rightarrow> string option \<Rightarrow> exc" where
  "rpcBusinessException code m d = RpcExc (rpc_error_text code) m d"

definition error_reply :: "exc \<Rightarrow> 'r call_result" where
  "error_reply e = (case e of
     RpcExc code m d \<Rightarrow> \<lparr>cr_status = False, cr_data = None, cr_rpcError = Some code, cr_message = Some m, cr_errorData = d\<rparr>
   | _ \<Rightarrow> \<lparr>cr_status = True, cr_data = None, cr_rpcError = None, cr_message = Some ''Internal server error'',
       cr_errorData = None\<rparr>)"

(* libs/rpc/src/rpc.service.ts 31-46 RpcService.callSafe *)
definition callSafe :: "'r act \<Rightarrow> 'r call_result act" where
  "callSafe handler =
     catching
       (andThen handler (\<lambda>x. ret \<lparr>cr_status = True, cr_data = Some x, cr_rpcError = None, cr_message = None, cr_errorData = None\<rparr>))
       (\<lambda>e. ret (error_reply e))"

lemma exec_callSafe [exec]:
  "callSafe m w =
     (case m w of
        (Inl e, w') \<Rightarrow> (Inr (error_reply e), w')
      | (Inr x, w') \<Rightarrow> (Inr \<lparr>cr_status = True, cr_data = Some x, cr_rpcError = None, cr_message = None, cr_errorData = None\<rparr>, w'))"
  by (simp add: callSafe_def exec split: prod.split sum.split)

lemma callSafe_total: "\<exists>r w'. callSafe m w = (Inr r, w')"
  by (simp add: exec split: prod.split sum.split)

lemma error_reply_data [simp]: "cr_data (error_reply e) = None"
  by (simp add: error_reply_def split: exc.split)

end
