(* ===== verification/Untyped.thy ===== *)
theory Untyped imports Samples begin

text \<open>
  JSON as a value of type \<open>any\<close>: property access, truthiness, object literals, and numbers as
  text, which the services use on message bodies and on what they cache.
\<close>

text \<open>\<open>v?.k\<close>: undefined on anything that has no such property.\<close>

definition field_of :: "string \<Rightarrow> json option \<Rightarrow> json option" where
  "field_of k v = (case v of Some (JObj kvs) \<Rightarrow> map_of kvs k | _ \<Rightarrow> None)"

text \<open>\<open>v.k\<close> throws on \<open>undefined\<close> and \<open>null\<close>.\<close>

definition member :: "string \<Rightarrow> json option \<Rightarrow> json option act" where
  "member k v = (if v = None \<or> v = Some JNull then throw (ScriptExc ''TypeError'') else ret (field_of k v))"

definition truthy_json :: "json option \<Rightarrow> bool" where
  "truthy_json v = (case v of
     None \<Rightarrow> False
   | Some JNull \<Rightarrow> False
   | Some (JBool b) \<Rightarrow> b
   | Some (JNum n) \<Rightarrow> n \<noteq> ''0''
   | Some (JStr s) \<Rightarrow> s \<noteq> []
   | Some _ \<Rightarrow> True)"

text \<open>The fields of an object literal: those that are undefined are not printed.\<close>

definition object :: "(string \<times> json option) list \<Rightarrow> json" where
  "object kvs = JObj (List.map_filter (\<lambda>(k, v). map_option (Pair k) v) kvs)"

text \<open>A property that is expected to hold a text, a number, a truth value or a list.\<close>

definition text_of :: "string \<Rightarrow> json \<Rightarrow> string" where
  "text_of k j = (case field_of k (Some j) of Some (JStr s) \<Rightarrow> s | _ \<Rightarrow> [])"

definition bool_of :: "string \<Rightarrow> json \<Rightarrow> bool" where
  "bool_of k j = truthy_json (field_of k (Some j))"

definition list_of :: "json option \<Rightarrow> json list" where
  "list_of v = (case v of Some (JArr js) \<Rightarrow> js | _ \<Rightarrow> [])"

definition texts_of :: "json option \<Rightarrow> string list" where
  "texts_of v = List.map_filter (\<lambda>j. case j of JStr s \<Rightarrow> Some s | _ \<Rightarrow> None) (list_of v)"

lemma texts_of_strings [simp]: "texts_of (Some (JArr (map JStr ss))) = ss"
  by (induction ss) (simp_all add: texts_of_def list_of_def List.map_filter_def)

section \<open>Decimal numerals\<close>

definition digit_value :: "char \<Rightarrow> nat option" where
  "digit_value c = (if 48 \<le> (of_char c :: nat) \<and> (of_char c :: nat) \<le> 57 then Some (of_char c - 48) else None)"

fun read_digits :: "nat \<Rightarrow> string \<Rightarrow> nat option" where
  "read_digits acc [] = Some acc"
| "read_digits acc (c # s) =
     (case digit_value c of None \<Rightarrow> None | Some d \<Rightarrow> read_digits (10 * acc + d) s)"

definition nat_of_text :: "string \<Rightarrow> nat option" where
  "nat_of_text s = (if s = [] then None else read_digits 0 s)"

lemma digit_value_char [simp]: "d < 10 \<Longrightarrow> digit_value (char_of (48 + d)) = Some d"
  by (simp add: digit_value_def)

lemma read_digits_append:
  "read_digits acc (s @ t) = (case read_digits acc s of None \<Rightarrow> None | Some n \<Rightarrow> read_digits n t)"
  by (induction acc s rule: read_digits.induct) (auto split: option.split)

lemma nat_text_not_Nil [simp]: "nat_text n \<noteq> []"
  by (subst nat_text.simps) simp

lemma read_nat_text: "read_digits 0 (nat_text n) = Some n"
proof (induction n rule: nat_text.induct)
  case (1 n)
  show ?case
  proof (cases "n < 10")
    case True
    then show ?thesis by (subst nat_text.simps) simp
  next
    case False
    then show ?thesis using 1 by (subst nat_text.simps) (simp add: read_digits_append)
  qed
qed

lemma nat_of_nat_text [simp]: "nat_of_text (nat_text n) = Some n"
  by (simp add: nat_of_text_def read_nat_text)

text \<open>\<open>BigInt(s)\<close> of a text without blanks and not in hexadecimal: the empty text is zero,
  and anything that is no decimal numeral with an optional sign is a \<open>SyntaxError\<close>, \<open>None\<close>.\<close>

definition big_int :: "string \<Rightarrow> int option" where
  "big_int s =
     (case s of
        [] \<Rightarrow> Some 0
      | c # t \<Rightarrow>
          if c = CHR ''-'' then map_option (\<lambda>n. - int n) (nat_of_text t)
          else if c = CHR ''+'' then map_option int (nat_of_text t)
          else map_option int (nat_of_text s))"

end
