(* ===== verification/Receiver.thy ===== *)
theory Receiver imports TwitchApi Rpc Untyped begin

text \<open>
  \<open>apps/webhook-receiver\<close>: the endpoint Twitch calls. It checks the signature of a message with the
  secret of its application, drops messages it has seen, and hands the events to the queues. The
  body is JSON as it comes; a header that is missing is \<open>None\<close>.
\<close>

section \<open>Secrets\<close>

(* apps/webhook-receiver/src/modules/twitch-receiver/services/twitch-secret-cache.service.ts 7-7 TwitchSecretCacheService.TTL *)
definition secret_ttl :: nat where
  "secret_ttl = 4 * 60 * 60"

(* apps/webhook-receiver/src/modules/twitch-receiver/services/twitch-secret-cache.service.ts 13-15 TwitchSecretCacheService.getSecret *)
definition cachedSecret :: "env \<Rightarrow> string \<Rightarrow> json option act" where
  "cachedSecret E clientId = redis_get E (twitchWebhookSecret clientId)"

(* apps/webhook-receiver/src/modules/twitch-receiver/services/twitch-secret-cache.service.ts 17-19 TwitchSecretCacheService.setSecret *)
definition cacheSecret :: "string \<Rightarrow> string \<Rightarrow> unit act" where
  "cacheSecret clientId secret = redis_set (twitchWebhookSecret clientId) (JStr secret) secret_ttl"

(* apps/webhook-receiver/src/modules/twitch-receiver/services/twitch-secret-cache.service.ts 21-23 TwitchSecretCacheService.invalidate *)
definition invalidateSecret :: "string \<Rightarrow> unit act" where
  "invalidateSecret clientId = redis_delete (twitchWebhookSecret clientId)"

text \<open>A cached value that is no text makes \<open>createHmac\<close> throw.\<close>

definition as_text :: "json \<Rightarrow> string act" where
  "as_text j = (case j of JStr s \<Rightarrow> ret s | _ \<Rightarrow> throw (ScriptExc ''TypeError''))"

(* apps/webhook-receiver/src/modules/twitch-receiver/services/twitch-secret.service.ts 47-65 TwitchSecretService.getSecret *)
definition getSecret :: "env \<Rightarrow> string \<Rightarrow> string option act" where
  "getSecret E clientId =
     andThen (cachedSecret E clientId) (\<lambda>cached.
     if truthy_json cached then andThen (as_text (the cached)) (\<lambda>s. ret (Some s))
     else
       andThen (gets (\<lambda>w. find (\<lambda>a. a_clientId a = clientId) (w_apps w))) (\<lambda>found.
       case found of
         None \<Rightarrow> ret None
       | Some a \<Rightarrow>
           if a_webhookSecret a = [] then ret None
           else
             andThen (decrypt E (a_webhookSecret a) False) (\<lambda>secret.
             andThen (cacheSecret clientId secret) (\<lambda>_. ret (Some secret)))))"

text \<open>\<open>+\<close> of two headers: the text \<open>undefined\<close> for a missing one, and for two missing ones their
  sum, which is \<open>NaN\<close>.\<close>

definition plus_text :: "string option \<Rightarrow> string option \<Rightarrow> string" where
  "plus_text a b =
     (case (a, b) of
        (None, None) \<Rightarrow> ''NaN''
      | (Some x, None) \<Rightarrow> x @ ''undefined''
      | (None, Some y) \<Rightarrow> ''undefined'' @ y
      | (Some x, Some y) \<Rightarrow> x @ y)"

(* apps/webhook-receiver/src/modules/twitch-receiver/services/twitch-secret.service.ts 18-45 TwitchSecretService.verify *)
definition verify :: "env \<Rightarrow> string \<Rightarrow> string option \<Rightarrow> string option \<Rightarrow> string \<Rightarrow> string option \<Rightarrow> bool act" where
  "verify E clientId messageId timestamp rawBody signature =
     andThen (getSecret E clientId) (\<lambda>secret.
     if \<not> truthy secret then throw (internalError (''Cannot find data for \"'' @ clientId @ ''\"''))
     else ret (signature = Some (''sha256='' @ x_hmac E (the secret) (plus_text messageId timestamp @ rawBody))))"

section \<open>Messages seen before\<close>

(* apps/webhook-receiver/src/modules/twitch-receiver/services/twitch-dedup.service.ts 11-11 TwitchDedupService.TTL *)
definition dedup_ttl :: nat where
  "dedup_ttl = 20 * 60"

definition template_text :: "string option \<Rightarrow> string" where
  "template_text v = (case v of None \<Rightarrow> ''undefined'' | Some s \<Rightarrow> s)"

(* apps/webhook-receiver/src/modules/twitch-receiver/services/twitch-dedup.service.ts 17-23 TwitchDedupService.markIfNew *)
definition markIfNew :: "env \<Rightarrow> string option \<Rightarrow> string option \<Rightarrow> bool act" where
  "markIfNew E messageId messageType =
     andThen (gets w_now) (\<lambda>now.
     redis_setNX (twitchWebhookMessage (template_text messageId))
       (object [(''receivedAt'', Some (JStr (x_iso E now))), (''type'', map_option JStr messageType)]) dedup_ttl)"

(* apps/webhook-receiver/src/modules/twitch-receiver/services/twitch-dedup.service.ts 25-27 TwitchDedupService.isDuplicate *)
definition isDuplicate :: "string \<Rightarrow> bool act" where
  "isDuplicate messageId = redis_exists (twitchWebhookMessage messageId)"

section \<open>Handling\<close>

(* libs/queue/src/queue.constants.ts 3-7 Queues *)
datatype queue = TWITCH_SUBSCRIPTIONS | STREAM_EVENTS | DISCORD_NOTIFICATIONS

(* libs/queue/src/queue.constants.ts 3-7 Queues *)
fun queue_name :: "queue \<Rightarrow> string" where
  "queue_name TWITCH_SUBSCRIPTIONS = ''twitch.subscriptions''"
| "queue_name STREAM_EVENTS = ''stream.events''"
| "queue_name DISCORD_NOTIFICATIONS = ''discord.notifications''"

(* libs/queue/src/patterns.ts 1-16 QueuePatterns *)
datatype queue_pattern = Verified | Revoked | Online | SendNotification

(* libs/queue/src/patterns.ts 1-16 QueuePatterns *)
fun pattern_name :: "queue_pattern \<Rightarrow> string" where
  "pattern_name Verified = ''twitch.subscriptions.verified''"
| "pattern_name Revoked = ''twitch.subscriptions.revoked''"
| "pattern_name Online = ''stream.events.online''"
| "pattern_name SendNotification = ''discord.notifications.send''"

(* apps/webhook-receiver/src/modules/twitch-receiver/services/twitch-receiver.service.ts 16-22 TwitchReceiverService.acknowledgeEvent *)
definition acknowledgeEvent :: "env \<Rightarrow> string \<Rightarrow> unit act" where
  "acknowledgeEvent E eventId =
     unawaited (emit E (queue_name TWITCH_SUBSCRIPTIONS) (pattern_name Verified) (JObj [(''eventId'', JStr eventId)]))"

(* apps/webhook-receiver/src/modules/twitch-receiver/services/twitch-receiver.service.ts 24-30 TwitchReceiverService.revokeTwitchSubscription *)
definition revokeTwitchSubscription :: "env \<Rightarrow> string \<Rightarrow> unit act" where
  "revokeTwitchSubscription E eventId =
     unawaited (emit E (queue_name TWITCH_SUBSCRIPTIONS) (pattern_name Revoked) (JObj [(''eventId'', JStr eventId)]))"

(* libs/shared/src/models/rpc/get-channel-info.model.ts 5-18 ITwitchChannelInfoResult *)
definition channel_json :: "channel_model \<Rightarrow> json" where
  "channel_json c = object
     [(''broadcasterId'', Some (JStr (ch_broadcasterId c))),
      (''broadcasterLanguage'', map_option JStr (ch_broadcasterLanguage c)),
      (''broadcasterLogin'', Some (JStr (ch_broadcasterLogin c))),
      (''displayName'', Some (JStr (ch_displayName c))),
      (''gameId'', Some (JStr (ch_gameId c))),
      (''gameName'', map_option JStr (ch_gameName c)),
      (''isLive'', Some (JBool (ch_isLive c))),
      (''tagIds'', Some (JArr (map JStr (ch_tagIds c)))),
      (''tags'', Some (JArr (map JStr (ch_tags c)))),
      (''thumbnailUrl'', Some (JStr (ch_thumbnailUrl c))),
      (''streamTitle'', map_option JStr (ch_streamTitle c)),
      (''streamStartedAt'', map_option JStr (ch_streamStartedAt c))]"

text \<open>The identifier of the broadcaster as it is put into the request: as text.\<close>

definition as_param :: "json option \<Rightarrow> string" where
  "as_param v = (case v of Some (JStr s) \<Rightarrow> s | Some j \<Rightarrow> stringify j | None \<Rightarrow> [])"

(* apps/webhook-receiver/src/modules/twitch-receiver/services/twitch-receiver.service.ts 32-60 TwitchReceiverService.handleEvent *)
definition handleEvent :: "env \<Rightarrow> json option \<Rightarrow> unit act" where
  "handleEvent E dto =
     (let subscriptionType = field_of ''type'' (field_of ''subscription'' dto) in
      if \<not> truthy_json subscriptionType then ret ()
      else if subscriptionType = Some (JStr ''stream.online'') then
        andThen (member ''broadcaster_user_id'' (field_of ''event'' dto)) (\<lambda>broadcasterId.
        andThen (callSafe (getChannelInfo E (as_param broadcasterId))) (\<lambda>channelInfo.
        unawaited (emit E (queue_name STREAM_EVENTS) (pattern_name Online)
          (object [(''subscription'', Some (object [(''id'', field_of ''id'' (field_of ''subscription'' dto))])),
                   (''event'', field_of ''event'' dto),
                   (''channelInfo'', if cr_status channelInfo then map_option channel_json (cr_data channelInfo) else None)]))))
      else ret ())"

section \<open>The endpoint\<close>

record webhook_call =
  wc_messageId :: "string option"
  wc_messageType :: "string option"
  wc_timestamp :: "string option"
  wc_signature :: "string option"
  wc_clientId :: string
  wc_eventId :: string
  wc_rawBody :: "string option"
  wc_body :: "json option"

datatype webhook_answer = Status string | Challenge "json option"

text \<open>
  \<open>verify\<close> is an asynchronous function called without \<open>await\<close>: \<open>isValid\<close> is its promise, an
  object, and \<open>!isValid\<close> is never true.
\<close>

(* apps/webhook-receiver/src/modules/twitch-receiver/controllers/twitch-receiver.controller.ts 16-85 TwitchReceiverController.handleTwitchWebhook *)
definition handleTwitchWebhook :: "env \<Rightarrow> webhook_call \<Rightarrow> webhook_answer act" where
  "handleTwitchWebhook E c =
     (case wc_rawBody c of
        None \<Rightarrow> throw (badRequest ''Invalid request body'')
      | Some rawBody \<Rightarrow>
          if wc_clientId c = [] \<or> wc_eventId c = [] then throw (badRequest ''Invalid request body'')
          else
            andThen (unawaited (verify E (wc_clientId c) (wc_messageId c) (wc_timestamp c) rawBody (wc_signature c))) (\<lambda>_.
            if wc_messageType c = Some ''webhook_callback_verification'' then
              andThen (acknowledgeEvent E (wc_eventId c)) (\<lambda>_.
              andThen (member ''challenge'' (wc_body c)) (\<lambda>challenge. ret (Challenge challenge)))
            else if wc_messageType c = Some ''revocation'' then
              andThen (revokeTwitchSubscription E (wc_eventId c)) (\<lambda>_. ret (Status ''ok''))
            else
              andThen (markIfNew E (wc_messageId c) (wc_messageType c)) (\<lambda>isNew.
              if \<not> isNew then ret (Status ''duplicate'')
              else andThen (handleEvent E (wc_body c)) (\<lambda>_. ret (Status ''ok'')))))"

section \<open>What the endpoint does\<close>

lemma verify_effects:
  "(case verify E c m t b s1 w of (Inl e, w') \<Rightarrow> f (Inl e) w' | (Inr x, w') \<Rightarrow> g w') =
   (case verify E c m t b s2 w of (Inl e, w') \<Rightarrow> f (Inl e) w' | (Inr x, w') \<Rightarrow> g w')"
  by (simp add: verify_def exec split: prod.split sum.split)

lemma unawaited_verify: "unawaited (verify E c m t b s1) = unawaited (verify E c m t b s2)"
  by (rule ext) (simp add: verify_def exec split: prod.split sum.split)

text \<open>
  C12. The signature of a message has no influence: whatever it is, the answer, the messages put on
  the queues and the whole state afterwards are the same.
\<close>

theorem signature_is_irrelevant:
  "handleTwitchWebhook E (c\<lparr>wc_signature := s\<rparr>) w = handleTwitchWebhook E c w"
proof -
  have "unawaited (verify E ci m t b s) = unawaited (verify E ci m t b (wc_signature c))" for ci m t b
    by (rule unawaited_verify)
  then show ?thesis
    unfolding handleTwitchWebhook_def by (simp cong: option.case_cong if_cong)
qed

definition acceptable :: "webhook_call \<Rightarrow> bool" where
  "acceptable c \<longleftrightarrow> wc_rawBody c \<noteq> None \<and> wc_clientId c \<noteq> [] \<and> wc_eventId c \<noteq> []"

lemma rejections_stay: "relates (\<lambda>s t. prefix (w_unhandled s) (w_unhandled t)) (unawaited m)"
  if "relates (same w_unhandled) m"
proof (rule relatesI)
  fix s
  show "prefix (w_unhandled s) (w_unhandled (snd (unawaited m s)))"
    using sameD [OF that, of s] by (cases "m s"; cases "fst (m s)") (auto simp: exec)
qed

interpretation unhandled_grows: state_rel "\<lambda>s t. prefix (w_unhandled s) (w_unhandled t)"
  by unfold_locales auto

interpretation redis_kept: twitch_frame w_redis
  by unfold_locales simp_all

interpretation outbox_kept: twitch_frame w_outbox
  by unfold_locales simp_all

interpretation unhandled_kept: twitch_frame w_unhandled
  by unfold_locales simp_all

interpretation clock_kept: twitch_frame w_now
  by unfold_locales simp_all

lemma same_prefix: "relates (same w_unhandled) m \<Longrightarrow> relates (\<lambda>s t. prefix (w_unhandled s) (w_unhandled t)) m"
  by (rule relatesI) (simp add: sameD)

lemma callSafe_same: "relates (same g) m \<Longrightarrow> relates (same g) (callSafe m)"
  unfolding callSafe_def by (intro sameness.rel_rules)

lemma emit_unhandled: "relates (same w_unhandled) (emit E q p d)"
  by (rule relatesI) (simp add: exec same_def split: option.split)

lemma member_same: "relates (same g) (member k v)"
  unfolding member_def by (intro sameness.rel_rules)

lemma emit_redis: "relates (same w_redis) (emit E q p d)"
  by (rule relatesI) (simp add: exec same_def split: option.split)

lemma unawaited_same:
  assumes "\<And>w es. g (w\<lparr>w_unhandled := es\<rparr>) = g w" and "relates (same g) m"
  shows "relates (same g) (unawaited m)"
proof (rule relatesI)
  fix s
  show "same g s (snd (unawaited m s))"
    using sameD [OF assms(2), of s] assms(1) by (cases "m s"; cases "fst (m s)") (auto simp: exec same_def)
qed

lemma handleEvent_redis: "relates (same w_redis) (handleEvent E dto)"
  unfolding handleEvent_def Let_def getChannelInfo_def
  by (intro sameness.rel_rules member_same callSafe_same redis_kept.keep_getChannelById unawaited_same emit_redis) simp

lemma handleEvent_rejections: "relates (\<lambda>s t. prefix (w_unhandled s) (w_unhandled t)) (handleEvent E dto)"
  unfolding handleEvent_def Let_def getChannelInfo_def
  by (intro unhandled_grows.rel_rules same_prefix member_same callSafe_same unhandled_kept.keep_getChannelById
      rejections_stay emit_unhandled)

lemma markIfNew_rejections: "relates (\<lambda>s t. prefix (w_unhandled s) (w_unhandled t)) (markIfNew E m t)"
  by (rule relatesI) (simp add: markIfNew_def redis_setNX_def exec split: prod.split)

text \<open>
  A message that names an application the database does not have, and whose secret is not
  cached, leaves an unhandled rejection behind, whatever else happens to it: whoever reaches the
  endpoint can end the process.
\<close>

theorem unknown_app_ends_process:
  assumes "acceptable c" and "lookup (w_now w) (twitchWebhookSecret (wc_clientId c)) (w_redis w) = None"
    and "find (\<lambda>a. a_clientId a = wc_clientId c) (w_apps w) = None"
  shows "prefix (w_unhandled w @ [internalError (''Cannot find data for \"'' @ wc_clientId c @ ''\"'')])
    (w_unhandled (snd (handleTwitchWebhook E c w)))"
proof -
  obtain b where b: "wc_rawBody c = Some b" "wc_clientId c \<noteq> []" "wc_eventId c \<noteq> []"
    using assms(1) by (auto simp: acceptable_def)
  let ?e = "internalError (''Cannot find data for \"'' @ wc_clientId c @ ''\"'')"
  let ?w = "w\<lparr>w_unhandled := w_unhandled w @ [?e]\<rparr>"
  have v: "unawaited (verify E (wc_clientId c) (wc_messageId c) (wc_timestamp c) b (wc_signature c)) w = (Inr (), ?w)"
    using assms(2,3)
    by (simp add: verify_def getSecret_def cachedSecret_def redis_get_def truthy_json_def truthy_def exec)
  let ?rest = "if wc_messageType c = Some ''webhook_callback_verification'' then
      andThen (acknowledgeEvent E (wc_eventId c)) (\<lambda>_.
      andThen (member ''challenge'' (wc_body c)) (\<lambda>challenge. ret (Challenge challenge)))
    else if wc_messageType c = Some ''revocation'' then
      andThen (revokeTwitchSubscription E (wc_eventId c)) (\<lambda>_. ret (Status ''ok''))
    else
      andThen (markIfNew E (wc_messageId c) (wc_messageType c)) (\<lambda>isNew.
      if \<not> isNew then ret (Status ''duplicate'')
      else andThen (handleEvent E (wc_body c)) (\<lambda>_. ret (Status ''ok'')))"
  have "handleTwitchWebhook E c w = ?rest ?w"
    using b v by (simp add: handleTwitchWebhook_def exec_andThen [of "unawaited _"])
  moreover have "relates (\<lambda>s t. prefix (w_unhandled s) (w_unhandled t)) ?rest"
    unfolding acknowledgeEvent_def revokeTwitchSubscription_def
    by (intro unhandled_grows.rel_rules rejections_stay emit_unhandled same_prefix member_same
        handleEvent_rejections markIfNew_rejections)
  ultimately show ?thesis using relatesD [where s = ?w] by fastforce
qed

text \<open>A message of any other type than the two Twitch uses for the subscription itself.\<close>

definition is_notification :: "webhook_call \<Rightarrow> bool" where
  "is_notification c \<longleftrightarrow> acceptable c \<and>
     wc_messageType c \<noteq> Some ''webhook_callback_verification'' \<and> wc_messageType c \<noteq> Some ''revocation''"

definition message_key :: "webhook_call \<Rightarrow> string" where
  "message_key c = twitchWebhookMessage (template_text (wc_messageId c))"

definition check_signature :: "env \<Rightarrow> webhook_call \<Rightarrow> unit act" where
  "check_signature E c = unawaited (verify E (wc_clientId c) (wc_messageId c) (wc_timestamp c)
     (case wc_rawBody c of None \<Rightarrow> [] | Some b \<Rightarrow> b) (wc_signature c))"

lemma notification_unfold:
  "is_notification c \<Longrightarrow> handleTwitchWebhook E c =
     andThen (check_signature E c) (\<lambda>_.
     andThen (markIfNew E (wc_messageId c) (wc_messageType c)) (\<lambda>isNew.
     if \<not> isNew then ret (Status ''duplicate'')
     else andThen (handleEvent E (wc_body c)) (\<lambda>_. ret (Status ''ok''))))"
  by (auto simp: is_notification_def acceptable_def handleTwitchWebhook_def check_signature_def)

lemma keys_differ [simp]: "twitchWebhookMessage m \<noteq> twitchWebhookSecret c"
  by (simp add: twitchWebhookMessage_def twitchWebhookSecret_def)

text \<open>Checking a signature leaves the entries of the messages alone, and the queues and the clock.\<close>

definition message_view :: "world \<Rightarrow> (string \<Rightarrow> (string \<times> int option) option) \<times> int \<times> message list" where
  "message_view w = (\<lambda>m. w_redis w (twitchWebhookMessage m), w_now w, w_outbox w)"

lemma redis_get_reads: "relates (same g) (redis_get E k)"
  by (rule relatesI) (simp add: same_def)

lemma cacheSecret_view: "relates (same message_view) (cacheSecret c s)"
  by (rule relatesI) (simp add: cacheSecret_def redis_set_def same_def message_view_def put_key_def)

lemma check_signature_view: "relates (same message_view) (check_signature E c)"
proof -
  have "relates (same message_view) (getSecret E i)" for i
    unfolding getSecret_def cachedSecret_def as_text_def
    by (auto intro!: sameness.rel_rules redis_get_reads decrypt_reads cacheSecret_view split: json.split)
  then have "relates (same message_view) (verify E ci m t b s)" for ci m t b s
    unfolding verify_def by (intro sameness.rel_rules)
  then show ?thesis
    unfolding check_signature_def by (intro unawaited_same) (simp add: message_view_def)
qed

lemma check_signature_result: "\<exists>w1. check_signature E c w = (Inr (), w1) \<and> message_view w1 = message_view w"
  using sameD [OF check_signature_view, of E c w]
  by (auto simp: check_signature_def exec split: prod.splits sum.splits)

lemma markIfNew_exec:
  "markIfNew E m t w =
     (if lookup (w_now w) (twitchWebhookMessage (template_text m)) (w_redis w) = None
      then (Inr True, w\<lparr>w_redis := (w_redis w)(twitchWebhookMessage (template_text m) \<mapsto>
        (stringify (object [(''receivedAt'', Some (JStr (x_iso E (w_now w)))), (''type'', map_option JStr t)]),
         Some (w_now w + 1200000)))\<rparr>)
      else (Inr False, w))"
  by (simp add: markIfNew_def redis_setNX_def put_new_def dedup_ttl_def exec)

lemma view_lookup: "message_view w1 = message_view w \<Longrightarrow>
    lookup now (twitchWebhookMessage m) (w_redis w1) = lookup now (twitchWebhookMessage m) (w_redis w)"
  by (auto simp: message_view_def lookup_def fun_eq_iff split: option.split)

lemma duplicate_answer:
  assumes "is_notification c" and "lookup (w_now w) (message_key c) (w_redis w) \<noteq> None"
  shows "\<exists>w'. handleTwitchWebhook E c w = (Inr (Status ''duplicate''), w') \<and> w_outbox w' = w_outbox w"
proof -
  obtain w1 where w1: "check_signature E c w = (Inr (), w1)" "message_view w1 = message_view w"
    using check_signature_result by blast
  have "w_now w1 = w_now w" "w_outbox w1 = w_outbox w" using w1(2) by (simp_all add: message_view_def)
  moreover have "lookup (w_now w) (message_key c) (w_redis w1) \<noteq> None"
    using assms(2) view_lookup [OF w1(2)] by (simp add: message_key_def)
  ultimately show ?thesis
    using w1(1) assms(1) by (auto simp: notification_unfold exec markIfNew_exec message_key_def)
qed

lemma seen_before:
  assumes "is_notification c" and "lookup (w_now w) (message_key c) (w_redis w) = None"
    and "handleTwitchWebhook E c w = (r, w')" and "later < w_now w + 20 * 60 * 1000"
  shows "\<exists>w''. handleTwitchWebhook E c (w'\<lparr>w_now := later\<rparr>) = (Inr (Status ''duplicate''), w'') \<and>
    w_outbox w'' = w_outbox w'"
proof -
  obtain w1 where w1: "check_signature E c w = (Inr (), w1)" "message_view w1 = message_view w"
    using check_signature_result by blast
  have now: "w_now w1 = w_now w" using w1(2) by (simp add: message_view_def)
  have free: "lookup (w_now w) (message_key c) (w_redis w1) = None"
    using assms(2) view_lookup [OF w1(2)] by (simp add: message_key_def)
  define w2 where "w2 = snd (markIfNew E (wc_messageId c) (wc_messageType c) w1)"
  have "w_redis w' = w_redis w2"
    using assms(1,3) w1(1) now free sameD [OF handleEvent_redis, of E "wc_body c" w2]
    by (auto simp: notification_unfold exec markIfNew_exec message_key_def w2_def split: prod.splits sum.splits)
  moreover have "lookup later (message_key c) (w_redis w2) \<noteq> None"
    using free now assms(4) by (simp add: w2_def markIfNew_exec message_key_def lookup_def)
  ultimately show ?thesis using duplicate_answer [OF assms(1), of "w'\<lparr>w_now := later\<rparr>"] by simp
qed

text \<open>
  C11. A message that was new is taken at most once in twenty minutes: a redelivery in that time is
  answered with \<open>duplicate\<close> and puts nothing on a queue, whether the first delivery was handled
  or ended in an error.
\<close>

theorem redelivery_dropped:
  assumes "is_notification c" and "lookup (w_now w) (message_key c) (w_redis w) = None"
    and "handleTwitchWebhook E c w = (r, w')" and "later < w_now w + 20 * 60 * 1000"
  shows "\<exists>w''. handleTwitchWebhook E c (w'\<lparr>w_now := later\<rparr>) = (Inr (Status ''duplicate''), w'') \<and>
    w_outbox w'' = w_outbox w'"
  using assms by (rule seen_before)

text \<open>
  When the broker refuses the message, the event is lost: Twitch is told \<open>ok\<close>, nothing is on
  the queue, the failure is a rejection nobody handles, and the message counts as seen, so that a
  redelivery is dropped.
\<close>

theorem broker_outage_loses_event:
  assumes "is_notification c" and "lookup (w_now w) (message_key c) (w_redis w) = None"
    and "field_of ''type'' (field_of ''subscription'' (wc_body c)) = Some (JStr ''stream.online'')"
    and "field_of ''event'' (wc_body c) = Some (JObj ev)"
    and "\<And>ms m. x_broker E ms m = Some reason" and "later < w_now w + 20 * 60 * 1000"
  shows "\<exists>w' w''. handleTwitchWebhook E c w = (Inr (Status ''ok''), w') \<and> w_outbox w' = w_outbox w \<and>
    ScriptExc reason \<in> set (w_unhandled w') \<and>
    handleTwitchWebhook E c (w'\<lparr>w_now := later\<rparr>) = (Inr (Status ''duplicate''), w'') \<and>
    w_outbox w'' = w_outbox w"
proof -
  obtain w1 where w1: "check_signature E c w = (Inr (), w1)" "message_view w1 = message_view w"
    using check_signature_result by blast
  have view: "w_now w1 = w_now w" "w_outbox w1 = w_outbox w" using w1(2) by (simp_all add: message_view_def)
  have free: "lookup (w_now w) (message_key c) (w_redis w1) = None"
    using assms(2) view_lookup [OF w1(2)] by (simp add: message_key_def)
  obtain w2 where w2: "markIfNew E (wc_messageId c) (wc_messageType c) w1 = (Inr True, w2)" "w_outbox w2 = w_outbox w"
    using free view by (simp add: markIfNew_exec message_key_def)
  obtain b where b: "member ''broadcaster_user_id'' (Some (JObj ev)) w2 = (Inr b, w2)"
    by (simp add: member_def exec)
  obtain ci w3 where ci: "callSafe (getChannelInfo E (as_param b)) w2 = (Inr ci, w3)"
    using callSafe_total by blast
  have "w_outbox w3 = w_outbox w2"
    using sameD [OF callSafe_same [OF outbox_kept.keep_getChannelById], of E "as_param b" w2] ci
    by (simp add: getChannelInfo_def)
  then have "handleEvent E (wc_body c) w2 =
      (Inr (), w3\<lparr>w_unhandled := w_unhandled w3 @ [ScriptExc reason]\<rparr>)"
    using assms(3,4,5) b ci by (simp add: handleEvent_def truthy_json_def exec_andThen exec_unawaited exec_emit)
  then have first: "handleTwitchWebhook E c w =
      (Inr (Status ''ok''), w3\<lparr>w_unhandled := w_unhandled w3 @ [ScriptExc reason]\<rparr>)"
    using assms(1) w1(1) w2(1) by (simp add: notification_unfold exec)
  obtain w'' where "handleTwitchWebhook E c (w3\<lparr>w_unhandled := w_unhandled w3 @ [ScriptExc reason], w_now := later\<rparr>) =
      (Inr (Status ''duplicate''), w'')" "w_outbox w'' = w_outbox w"
    using seen_before [OF assms(1,2) first assms(6)] view w2 \<open>w_outbox w3 = w_outbox w2\<close> by auto
  then show ?thesis
    using first w2(2) \<open>w_outbox w3 = w_outbox w2\<close>
    by (intro exI [of _ "w3\<lparr>w_unhandled := w_unhandled w3 @ [ScriptExc reason]\<rparr>"] exI [of _ w''] conjI) simp_all
qed

text \<open>
  Twitch's challenge to a new callback is answered with the challenge itself, and exactly one
  message goes out, which says that the event of the callback is verified.
\<close>

theorem callback_acknowledged:
  assumes "acceptable c" and "wc_messageType c = Some ''webhook_callback_verification''"
    and "wc_body c = Some (JObj kvs)" and "\<And>ms m. x_broker E ms m = None"
  shows "\<exists>w'. handleTwitchWebhook E c w = (Inr (Challenge (map_of kvs ''challenge'')), w') \<and>
    w_outbox w' = w_outbox w @ [\<lparr>ms_queue = ''twitch.subscriptions'', ms_pattern = ''twitch.subscriptions.verified'',
      ms_data = JObj [(''eventId'', JStr (wc_eventId c))]\<rparr>]"
proof -
  obtain w1 where w1: "check_signature E c w = (Inr (), w1)" "message_view w1 = message_view w"
    using check_signature_result by blast
  have "w_outbox w1 = w_outbox w" using w1(2) by (simp add: message_view_def)
  moreover obtain b where "wc_rawBody c = Some b" "wc_clientId c \<noteq> []" "wc_eventId c \<noteq> []"
    using assms(1) by (auto simp: acceptable_def)
  ultimately show ?thesis
    using w1(1) assms(2-4)
    by (simp add: handleTwitchWebhook_def check_signature_def exec_andThen [of "unawaited _"])
      (simp add: exec acknowledgeEvent_def member_def field_of_def)
qed

section \<open>The theorems at a concrete call\<close>

definition online_call :: webhook_call where
  "online_call = \<lparr>wc_messageId = Some ''m1'', wc_messageType = Some ''notification'',
     wc_timestamp = Some ''t'', wc_signature = None, wc_clientId = ''c'', wc_eventId = ''e'',
     wc_rawBody = Some ''{}'',
     wc_body = Some (JObj [(''subscription'', JObj [(''id'', JStr ''sub''), (''type'', JStr ''stream.online'')]),
       (''event'', JObj [(''broadcaster_user_id'', JStr ''b'')])])\<rparr>"

lemma online_call_is: "is_notification online_call" "acceptable online_call"
  by (simp_all add: is_notification_def acceptable_def online_call_def)

theorem unknown_app_ends_process_witness:
  "w_unhandled (snd (handleTwitchWebhook sample_env online_call sample_world)) \<noteq> []"
  using unknown_app_ends_process [OF online_call_is(2), where w = sample_world and E = sample_env]
  by (auto simp: lookup_def)

theorem redelivery_dropped_witness:
  "\<exists>w''. handleTwitchWebhook sample_env online_call
      ((snd (handleTwitchWebhook sample_env online_call sample_world))\<lparr>w_now := 1200000\<rparr>) =
      (Inr (Status ''duplicate''), w'')"
proof -
  obtain r w' where r: "handleTwitchWebhook sample_env online_call sample_world = (r, w')"
    by (cases "handleTwitchWebhook sample_env online_call sample_world")
  have "lookup (w_now sample_world) (message_key online_call) (w_redis sample_world) = None"
    by (simp add: lookup_def)
  from redelivery_dropped [OF online_call_is(1) this r, of 1200000] r show ?thesis by auto
qed

theorem broker_outage_loses_event_witness:
  "\<exists>w'. handleTwitchWebhook (sample_env\<lparr>x_broker := (\<lambda>ms m. Some ''closed'')\<rparr>) online_call sample_world =
      (Inr (Status ''ok''), w') \<and> w_outbox w' = []"
  using broker_outage_loses_event
    [OF online_call_is(1), of sample_world "[(''broadcaster_user_id'', JStr ''b'')]"
      "sample_env\<lparr>x_broker := (\<lambda>ms m. Some ''closed'')\<rparr>" "''closed''" 5000]
  by (auto simp: lookup_def online_call_def field_of_def)

theorem callback_acknowledged_witness:
  "\<exists>w'. handleTwitchWebhook sample_env (online_call\<lparr>wc_messageType := Some ''webhook_callback_verification'',
        wc_body := Some (JObj [(''challenge'', JStr ''xyz'')])\<rparr>) sample_world = (Inr (Challenge (Some (JStr ''xyz''))), w')"
  using callback_acknowledged
    [of "online_call\<lparr>wc_messageType := Some ''webhook_callback_verification'',
        wc_body := Some (JObj [(''challenge'', JStr ''xyz'')])\<rparr>" "[(''challenge'', JStr ''xyz'')]" sample_env sample_world]
  by (auto simp: acceptable_def online_call_def sample_env_def)

end
