(* ===== verification/Worker.thy ===== *)
theory Worker imports Subscriptions Interpolation Receiver begin

text \<open>
  \<open>apps/notification-worker/src/handlers/stream-online.handler.ts\<close>: what happens to the message
  that a stream has begun. The notifications of its event are sent as messages to the bot and as
  posts to webhooks, every attempt is logged, and a webhook that fails is suspended. The message is
  acknowledged, or put back in the queue when anything throws.
\<close>

(* libs/queue/src/payloads.ts 10-26 IStreamOnlineMessage *)
record stream_message =
  sm_subscriptionId :: string
  sm_event :: stream_event
  sm_channelInfo :: "channel_info option"

datatype delivery = Ack | Requeue

section \<open>The notifications of an event\<close>

definition guild_of :: "string \<Rightarrow> world \<Rightarrow> guild option" where
  "guild_of i w = row_of g_id i (w_guilds w)"

(* apps/notification-worker/src/handlers/stream-online.handler.ts 37-48 StreamOnlineHandler.handle, the Discord notifications of the query *)
definition active_discord :: "event \<Rightarrow> world \<Rightarrow> discord_notification list" where
  "active_discord e w =
     filter (\<lambda>n. dn_streamerEventId n = e_id e \<and> dn_status n = Active \<and> dn_isDisabled n \<noteq> Some True) (w_dnotifs w)"

(* apps/notification-worker/src/handlers/stream-online.handler.ts 37-48 StreamOnlineHandler.handle, the webhooks of the query *)
definition active_webhooks :: "event \<Rightarrow> world \<Rightarrow> webhook_notification list" where
  "active_webhooks e w =
     filter (\<lambda>n. wn_streamerEventId n = e_id e \<and> wn_status n = Active \<and> wn_isDisabled n \<noteq> Some True) (w_wnotifs w)"

(* apps/notification-worker/src/handlers/stream-online.handler.ts 64-67 StreamOnlineHandler.matchesGameFilter *)
definition matchesGameFilter :: "string list \<Rightarrow> string \<Rightarrow> bool" where
  "matchesGameFilter gameFilters gameId \<longleftrightarrow>
     gameFilters = [] \<or> (gameId \<noteq> [] \<and> gameId \<in> set gameFilters)"

definition game_of :: "vars \<Rightarrow> string" where
  "game_of vars = (case map_of vars ''gameId'' of None \<Rightarrow> [] | Some g \<Rightarrow> g)"

definition interpolated :: "env \<Rightarrow> vars \<Rightarrow> json option \<Rightarrow> json option act" where
  "interpolated E vars payload =
     (case interpolatePayload (x_canon E) vars payload of
        Inl _ \<Rightarrow> throw (ScriptExc ''SyntaxError'')
      | Inr j \<Rightarrow> ret j)"

definition or_null :: "json option \<Rightarrow> json" where
  "or_null j = (case j of None \<Rightarrow> JNull | Some v \<Rightarrow> v)"

fun exc_message :: "exc \<Rightarrow> string" where
  "exc_message (HttpExc _ m _) = m"
| "exc_message (RpcExc _ m _) = m"
| "exc_message (AxiosExc (Failure _ m)) = m"
| "exc_message (ScriptExc m) = m"

definition save_log :: "env \<Rightarrow> (string \<Rightarrow> time \<Rightarrow> notification_log) \<Rightarrow> unit act" where
  "save_log E l =
     andThen (fresh_id E) (\<lambda>newId.
     andThen (gets w_now) (\<lambda>now.
     modify (w_logs_update (save_row l_id (l newId now)))))"

section \<open>Discord\<close>

(* apps/notification-worker/src/handlers/stream-online.handler.ts 79-84 StreamOnlineHandler.dispatchDiscord, the message *)
definition discord_message :: "discord_notification \<Rightarrow> guild \<Rightarrow> json option \<Rightarrow> json" where
  "discord_message n g payload =
     JObj [(''notificationId'', JStr (dn_id n)), (''channelId'', JStr (dn_channelId n)),
           (''discordGuildId'', JStr (g_discordGuildId g)), (''messagePayload'', or_null payload)]"

definition login_of :: "streamer option \<Rightarrow> string" where
  "login_of st = (case st of None \<Rightarrow> [] | Some s \<Rightarrow> st_twitchLogin s)"

(* apps/notification-worker/src/handlers/stream-online.handler.ts 77-112 StreamOnlineHandler.dispatchDiscord, one notification *)
definition dispatch_one :: "env \<Rightarrow> event \<Rightarrow> streamer option \<Rightarrow> vars \<Rightarrow> discord_notification \<Rightarrow> unit act" where
  "dispatch_one E e st vars n =
     andThen (interpolated E vars (dn_messagePayload n)) (\<lambda>payload.
     andThen (gets (guild_of (dn_guildId n))) (\<lambda>found.
     andThen (orThrow (ScriptExc ''TypeError'') found) (\<lambda>g.
     andThen (attempt (emit E (queue_name DISCORD_NOTIFICATIONS) (pattern_name SendNotification)
         (discord_message n g payload))) (\<lambda>r.
     save_log E (\<lambda>newId now.
       \<lparr>l_id = newId, l_notificationId = dn_id n, l_notificationType = LogDiscord,
        l_status = (case r of Inl _ \<Rightarrow> Failed | Inr _ \<Rightarrow> Sent), l_ownerId = dn_ownerId n,
        l_discordGuildId = Some (g_discordGuildId g), l_streamerLogin = login_of st,
        l_eventType = event_text (e_event e), l_requestPayload = payload,
        l_errorMessage = (case r of Inl x \<Rightarrow> Some (exc_message x) | Inr _ \<Rightarrow> None), l_createdAt = now\<rparr>)))))"

(* apps/notification-worker/src/handlers/stream-online.handler.ts 69-113 StreamOnlineHandler.dispatchDiscord *)
definition dispatchDiscord ::
  "env \<Rightarrow> event \<Rightarrow> streamer option \<Rightarrow> discord_notification list \<Rightarrow> vars \<Rightarrow> unit act" where
  "dispatchDiscord E e st ns vars =
     forEach (dispatch_one E e st vars) (filter (\<lambda>n. matchesGameFilter (dn_gameFilters n) (game_of vars)) ns)"

section \<open>Webhooks\<close>

text \<open>The payload is interpolated before the request is made, outside the promise.\<close>

(* apps/notification-worker/src/handlers/stream-online.handler.ts 123-131 StreamOnlineHandler.dispatchWebhooks, one request *)
definition post_webhook :: "env \<Rightarrow> vars \<Rightarrow> webhook_notification \<Rightarrow> (exc + nat) act" where
  "post_webhook E vars n =
     andThen (interpolated E vars (wn_messagePayload n)) (\<lambda>payload.
     attempt (send (x_post E) (request_to ''POST'' (the (wn_webhookUrl n)) [(''body'', stringify (or_null payload))])))"

(* apps/notification-worker/src/handlers/stream-online.handler.ts 140-140 StreamOnlineHandler.dispatchWebhooks, failed *)
definition post_failed :: "exc + nat \<Rightarrow> bool" where
  "post_failed r = (case r of Inl _ \<Rightarrow> True | Inr code \<Rightarrow> \<not> (200 \<le> code \<and> code \<le> 299))"

(* apps/notification-worker/src/handlers/stream-online.handler.ts 136-163 StreamOnlineHandler.dispatchWebhooks, one log *)
definition webhook_log ::
  "env \<Rightarrow> event \<Rightarrow> streamer option \<Rightarrow> vars \<Rightarrow> webhook_notification \<times> (exc + nat)
     \<Rightarrow> (string \<Rightarrow> time \<Rightarrow> notification_log) act" where
  "webhook_log E e st vars = (\<lambda>(n, r).
     andThen (interpolated E vars (wn_messagePayload n)) (\<lambda>payload.
     andThen (gets (\<lambda>w. Option.bind (wn_guildId n) (\<lambda>i. guild_of i w))) (\<lambda>g.
     ret (\<lambda>newId now.
       \<lparr>l_id = newId, l_notificationId = wn_id n, l_notificationType = LogWebhook,
        l_status = (if post_failed r then Failed else Sent), l_ownerId = wn_ownerId n,
        l_discordGuildId = map_option g_discordGuildId g, l_streamerLogin = login_of st,
        l_eventType = event_text (e_event e), l_requestPayload = payload,
        l_errorMessage = (if post_failed r then Some (case r of Inl x \<Rightarrow> exc_message x | Inr code \<Rightarrow> ''HTTP '' @ nat_text code)
          else None),
        l_createdAt = now\<rparr>))))"

definition suspended_ids :: "(webhook_notification \<times> (exc + nat)) list \<Rightarrow> string list" where
  "suspended_ids nrs = map (wn_id \<circ> fst) (filter (post_failed \<circ> snd) nrs)"

definition suspend_webhooks :: "string list \<Rightarrow> unit act" where
  "suspend_webhooks ids =
     modify (w_wnotifs_update (update_rows (\<lambda>n. wn_id n \<in> set ids) (\<lambda>n. n\<lparr>wn_status := Suspended\<rparr>)))"

(* apps/notification-worker/src/handlers/stream-online.handler.ts 119-121 StreamOnlineHandler.dispatchWebhooks, active *)
definition wanted_webhooks :: "vars \<Rightarrow> webhook_notification list \<Rightarrow> webhook_notification list" where
  "wanted_webhooks vars = filter (\<lambda>n. truthy (wn_webhookUrl n) \<and> matchesGameFilter (wn_gameFilters n) (game_of vars))"

(* apps/notification-worker/src/handlers/stream-online.handler.ts 115-172 StreamOnlineHandler.dispatchWebhooks *)
definition dispatchWebhooks ::
  "env \<Rightarrow> event \<Rightarrow> streamer option \<Rightarrow> webhook_notification list \<Rightarrow> vars \<Rightarrow> unit act" where
  "dispatchWebhooks E e st ns vars =
     andThen (mapEach (post_webhook E vars) (wanted_webhooks vars ns)) (\<lambda>results.
     let nrs = zip (wanted_webhooks vars ns) results in
     andThen (mapEach (webhook_log E e st vars) nrs) (\<lambda>logs.
     andThen (forEach (save_log E) logs) (\<lambda>_.
     whenever (suspended_ids nrs \<noteq> []) (suspend_webhooks (suspended_ids nrs)))))"

section \<open>The handler\<close>

(* apps/notification-worker/src/handlers/stream-online.handler.ts 31-62 StreamOnlineHandler.handle *)
definition handleStreamOnline :: "env \<Rightarrow> stream_message \<Rightarrow> delivery act" where
  "handleStreamOnline E data =
     catching
       (andThen (gets (\<lambda>w. find (\<lambda>e. e_subscriptionId e = Some (sm_subscriptionId data)) (w_events w))) (\<lambda>found.
        case found of
          None \<Rightarrow> ret Ack
        | Some e \<Rightarrow>
            andThen (gets (\<lambda>w. (streamer_of e w, active_discord e w, active_webhooks e w))) (\<lambda>(st, ds, ws).
            let vars = buildStreamOnlineVars (x_seconds E) (sm_event data) (sm_channelInfo data)
                  (Option.bind st st_profileImageUrl) in
            andThen (dispatchDiscord E e st ds vars) (\<lambda>_.
            andThen (dispatchWebhooks E e st ws vars) (\<lambda>_. ret Ack)))))
       (\<lambda>_. ret Requeue)"

section \<open>What is sent\<close>

text \<open>The variables and the notifications of a message in a state.\<close>

definition message_event :: "stream_message \<Rightarrow> world \<Rightarrow> event option" where
  "message_event data w = find (\<lambda>e. e_subscriptionId e = Some (sm_subscriptionId data)) (w_events w)"

definition message_vars :: "env \<Rightarrow> stream_message \<Rightarrow> event \<Rightarrow> world \<Rightarrow> vars" where
  "message_vars E data e w = buildStreamOnlineVars (x_seconds E) (sm_event data) (sm_channelInfo data)
     (Option.bind (streamer_of e w) st_profileImageUrl)"

definition wanted_discord :: "vars \<Rightarrow> discord_notification list \<Rightarrow> discord_notification list" where
  "wanted_discord vars = filter (\<lambda>n. matchesGameFilter (dn_gameFilters n) (game_of vars))"

lemma handle_unfold:
  "message_event data w = Some e \<Longrightarrow>
     handleStreamOnline E data w =
       catching
         (andThen (forEach (dispatch_one E e (streamer_of e w) (message_vars E data e w))
             (wanted_discord (message_vars E data e w) (active_discord e w))) (\<lambda>_.
          andThen (dispatchWebhooks E e (streamer_of e w) (active_webhooks e w) (message_vars E data e w)) (\<lambda>_. ret Ack)))
         (\<lambda>_. ret Requeue) w"
  by (simp add: handleStreamOnline_def message_event_def message_vars_def wanted_discord_def dispatchDiscord_def exec Let_def)

definition bot_message :: "discord_notification \<Rightarrow> guild \<Rightarrow> json option \<Rightarrow> message" where
  "bot_message n g p =
     \<lparr>ms_queue = ''discord.notifications'', ms_pattern = ''discord.notifications.send'', ms_data = discord_message n g p\<rparr>"

text \<open>What \<open>handle\<close> reads of the state.\<close>

definition read_view :: "world \<Rightarrow> event list \<times> streamer list \<times> discord_notification list \<times> webhook_notification list \<times> guild list" where
  "read_view w = (w_events w, w_streamers w, w_dnotifs w, w_wnotifs w, w_guilds w)"

lemma dispatch_one_sent:
  assumes "interpolatePayload (x_canon E) vars (dn_messagePayload n) = Inr p"
    and "guild_of (dn_guildId n) w = Some g" and "\<And>ms m. x_broker E ms m = None"
  shows "\<exists>w'. dispatch_one E e st vars n w = (Inr (), w') \<and> w_outbox w' = w_outbox w @ [bot_message n g p] \<and>
    read_view w' = read_view w"
  using assms by (simp add: dispatch_one_def interpolated_def save_log_def exec bot_message_def read_view_def)

lemma dispatch_sent:
  assumes "\<And>n. n \<in> set ns \<Longrightarrow> interpolatePayload (x_canon E) vars (dn_messagePayload n) = Inr (p n)"
    and "\<And>n. n \<in> set ns \<Longrightarrow> guild_of (dn_guildId n) w = Some (g n)" and "\<And>ms m. x_broker E ms m = None"
  shows "\<exists>w'. forEach (dispatch_one E e st vars) ns w = (Inr (), w') \<and>
    w_outbox w' = w_outbox w @ map (\<lambda>n. bot_message n (g n) (p n)) ns \<and> read_view w' = read_view w"
  using assms(1,2)
proof (induction ns arbitrary: w)
  case Nil
  then show ?case by (simp add: exec)
next
  case (Cons n ns)
  obtain w1 where w1: "dispatch_one E e st vars n w = (Inr (), w1)"
    "w_outbox w1 = w_outbox w @ [bot_message n (g n) (p n)]" "read_view w1 = read_view w"
    using dispatch_one_sent [OF Cons.prems(1) Cons.prems(2) assms(3), of n] by auto
  have "guild_of (dn_guildId x) w1 = Some (g x)" if "x \<in> set ns" for x
    using Cons.prems(2) [of x] that w1(3) by (simp add: guild_of_def read_view_def)
  from Cons.IH [OF Cons.prems(1) this] w1 show ?case by (auto simp: exec)
qed

lemma save_log_outbox: "relates (same w_outbox) (save_log E l)"
  by (rule relatesI) (simp add: save_log_def exec same_def)

lemma suspend_webhooks_outbox: "relates (same w_outbox) (suspend_webhooks ids)"
  unfolding suspend_webhooks_def by (rule sameness_modify) simp

lemma dispatchWebhooks_outbox: "relates (same w_outbox) (dispatchWebhooks E e st ns vars)"
proof -
  have i: "relates (same w_outbox) (interpolated E vars p)" for p
    unfolding interpolated_def by (intro sameness.rel_rules)
  have "relates (same w_outbox) (post_webhook E vars n)" for n
    unfolding post_webhook_def by (intro sameness.rel_rules i outbox_kept.keep_send)
  moreover have "relates (same w_outbox) (webhook_log E e st vars nr)" for nr
    unfolding webhook_log_def by (cases nr) (auto intro!: sameness.rel_rules i)
  ultimately show ?thesis
    unfolding dispatchWebhooks_def Let_def
    by (intro sameness.rel_rules save_log_outbox suspend_webhooks_outbox)
qed

lemma stream_dispatched:
  assumes "message_event data w = Some e"
    and "\<And>n. n \<in> set (wanted_discord (message_vars E data e w) (active_discord e w)) \<Longrightarrow>
      interpolatePayload (x_canon E) (message_vars E data e w) (dn_messagePayload n) = Inr (p n)"
    and "\<And>n. n \<in> set (active_discord e w) \<Longrightarrow> guild_of (dn_guildId n) w = Some (g n)"
    and "\<And>ms m. x_broker E ms m = None"
  shows "w_outbox (snd (handleStreamOnline E data w)) =
    w_outbox w @ map (\<lambda>n. bot_message n (g n) (p n)) (wanted_discord (message_vars E data e w) (active_discord e w))"
proof -
  let ?vars = "message_vars E data e w"
  have "guild_of (dn_guildId n) w = Some (g n)" if "n \<in> set (wanted_discord ?vars (active_discord e w))" for n
    using assms(3) that by (simp add: wanted_discord_def)
  from dispatch_sent [OF assms(2) this assms(4)]
  obtain w1 where w1: "forEach (dispatch_one E e (streamer_of e w) ?vars) (wanted_discord ?vars (active_discord e w)) w = (Inr (), w1)"
    "w_outbox w1 = w_outbox w @ map (\<lambda>n. bot_message n (g n) (p n)) (wanted_discord ?vars (active_discord e w))"
    by blast
  have "w_outbox (snd (dispatchWebhooks E e (streamer_of e w) (active_webhooks e w) ?vars w1)) = w_outbox w1"
    using sameD [OF dispatchWebhooks_outbox] .
  then show ?thesis
    using w1 by (auto simp: handle_unfold [OF assms(1)] exec split: prod.split sum.split)
qed

text \<open>
  The start of a stream reaches the bot exactly once for every active notification of its event
  whose game filter lets it through, in order, with the payload interpolated, and nothing else
  reaches it, however the webhooks go.
\<close>

theorem discord_dispatch_exact:
  assumes "message_event data w = Some e"
    and "\<And>n. n \<in> set (wanted_discord (message_vars E data e w) (active_discord e w)) \<Longrightarrow>
      interpolatePayload (x_canon E) (message_vars E data e w) (dn_messagePayload n) = Inr (p n)"
    and "\<And>n. n \<in> set (active_discord e w) \<Longrightarrow> guild_of (dn_guildId n) w = Some (g n)"
    and "\<And>ms m. x_broker E ms m = None"
  shows "w_outbox (snd (handleStreamOnline E data w)) =
    w_outbox w @ map (\<lambda>n. bot_message n (g n) (p n)) (wanted_discord (message_vars E data e w) (active_discord e w))"
  by (rule stream_dispatched [OF assms])

section \<open>A payload that does not interpolate\<close>

definition redelivered :: "env \<Rightarrow> stream_message \<Rightarrow> nat \<Rightarrow> world \<Rightarrow> world" where
  "redelivered E data k = ((\<lambda>w. snd (handleStreamOnline E data w)) ^^ k)"

lemma forEach_append: "forEach f (xs @ ys) w =
    (case forEach f xs w of (Inl e, w') \<Rightarrow> (Inl e, w') | (Inr _, w') \<Rightarrow> forEach f ys w')"
  by (induction xs arbitrary: w) (auto simp: exec split: prod.split sum.split)

lemma poison_once:
  assumes "message_event data w = Some e"
    and "wanted_discord (message_vars E data e w) (active_discord e w) = good @ bad # rest"
    and "\<And>n. n \<in> set good \<Longrightarrow> interpolatePayload (x_canon E) (message_vars E data e w) (dn_messagePayload n) = Inr (p n)"
    and "\<And>n. n \<in> set good \<Longrightarrow> guild_of (dn_guildId n) w = Some (g n)"
    and "interpolatePayload (x_canon E) (message_vars E data e w) (dn_messagePayload bad) = Inl ()"
    and "\<And>ms m. x_broker E ms m = None"
  shows "\<exists>w'. handleStreamOnline E data w = (Inr Requeue, w') \<and>
    w_outbox w' = w_outbox w @ map (\<lambda>n. bot_message n (g n) (p n)) good \<and> read_view w' = read_view w"
proof -
  from dispatch_sent [OF assms(3,4,6)]
  obtain w1 where w1: "forEach (dispatch_one E e (streamer_of e w) (message_vars E data e w)) good w = (Inr (), w1)"
    "w_outbox w1 = w_outbox w @ map (\<lambda>n. bot_message n (g n) (p n)) good" "read_view w1 = read_view w"
    by blast
  then show ?thesis
    using assms(2,5)
    by (simp add: handle_unfold [OF assms(1)] forEach_append exec dispatch_one_def interpolated_def)
qed

lemma view_queries:
  assumes "read_view w' = read_view w"
  shows "message_event data w' = message_event data w" "message_vars E data e w' = message_vars E data e w"
    "active_discord e w' = active_discord e w" "guild_of i w' = guild_of i w"
  using assms
  by (simp_all add: read_view_def message_event_def message_vars_def active_discord_def guild_of_def streamer_of_def)

text \<open>
  One payload that does not interpolate poisons the message: every delivery puts it back in the
  queue, without end, and every delivery sends the notifications that come before the bad one once
  more.
\<close>

theorem poison_message_repeats:
  assumes "message_event data w = Some e"
    and "wanted_discord (message_vars E data e w) (active_discord e w) = good @ bad # rest"
    and "\<And>n. n \<in> set good \<Longrightarrow> interpolatePayload (x_canon E) (message_vars E data e w) (dn_messagePayload n) = Inr (p n)"
    and "\<And>n. n \<in> set good \<Longrightarrow> guild_of (dn_guildId n) w = Some (g n)"
    and "interpolatePayload (x_canon E) (message_vars E data e w) (dn_messagePayload bad) = Inl ()"
    and "\<And>ms m. x_broker E ms m = None"
  shows "fst (handleStreamOnline E data (redelivered E data k w)) = Inr Requeue \<and>
    w_outbox (redelivered E data k w) =
      w_outbox w @ concat (replicate k (map (\<lambda>n. bot_message n (g n) (p n)) good))"
proof -
  let ?ms = "map (\<lambda>n. bot_message n (g n) (p n)) good"
  have step: "\<exists>u. handleStreamOnline E data v = (Inr Requeue, u) \<and> w_outbox u = w_outbox v @ ?ms \<and>
      read_view u = read_view v" if "read_view v = read_view w" for v
    by (rule poison_once [of data v e E good bad rest p g])
      (use assms view_queries [OF that] in simp_all)
  have "read_view (redelivered E data k w) = read_view w \<and>
      w_outbox (redelivered E data k w) = w_outbox w @ concat (replicate k ?ms)"
  proof (induction k)
    case 0
    then show ?case by (simp add: redelivered_def)
  next
    case (Suc k)
    have "concat (replicate k ?ms) @ ?ms = ?ms @ concat (replicate k ?ms)"
      by (induction k) simp_all
    with step [of "redelivered E data k w"] Suc show ?case by (auto simp: redelivered_def)
  qed
  with step [of "redelivered E data k w"] show ?thesis by auto
qed

section \<open>Webhooks that fail\<close>

definition post_request :: "(webhook_notification \<Rightarrow> json option) \<Rightarrow> webhook_notification \<Rightarrow> request" where
  "post_request p n = request_to ''POST'' (the (wn_webhookUrl n)) [(''body'', stringify (or_null (p n)))]"

text \<open>The answers to a list of posts, each made after those before it.\<close>

fun answers :: "env \<Rightarrow> request list \<Rightarrow> request list \<Rightarrow> (exc + nat) list" where
  "answers E done [] = []"
| "answers E done (rq # rqs) =
     (case x_post E done rq of Inl f \<Rightarrow> Inl (AxiosExc f) | Inr code \<Rightarrow> Inr code) # answers E (done @ [rq]) rqs"

lemma posts_made:
  assumes "\<And>n. n \<in> set ns \<Longrightarrow> interpolatePayload (x_canon E) vars (wn_messagePayload n) = Inr (p n)"
  shows "mapEach (post_webhook E vars) ns w =
    (Inr (answers E (w_requests w) (map (post_request p) ns)),
     w\<lparr>w_requests := w_requests w @ map (post_request p) ns\<rparr>)"
  using assms
  by (induction ns arbitrary: w)
    (auto simp: exec post_webhook_def interpolated_def post_request_def split: sum.split)

lemma answers_length [simp]: "length (answers E done rqs) = length rqs"
  by (induction rqs arbitrary: "done") auto

lemma log_made:
  "interpolatePayload (x_canon E) vars (wn_messagePayload n) = Inr p \<Longrightarrow>
     \<exists>l. webhook_log E e st vars (n, r) w = (Inr l, w)"
  by (simp add: webhook_log_def interpolated_def exec)

lemma logs_made:
  assumes "\<And>n r. (n, r) \<in> set nrs \<Longrightarrow> interpolatePayload (x_canon E) vars (wn_messagePayload n) = Inr (p n)"
  shows "\<exists>ls. mapEach (webhook_log E e st vars) nrs w = (Inr ls, w)"
  using assms
proof (induction nrs)
  case (Cons nr nrs)
  obtain n r where nr: "nr = (n, r)" by (cases nr)
  obtain ls where "mapEach (webhook_log E e st vars) nrs w = (Inr ls, w)" using Cons by auto
  moreover obtain l where "webhook_log E e st vars nr w = (Inr l, w)" using log_made Cons.prems nr by fastforce
  ultimately show ?case by (simp add: exec)
qed (simp add: exec)

lemma logs_saved: "\<exists>w'. forEach (save_log E) ls w = (Inr (), w') \<and> w_requests w' = w_requests w \<and>
    w_wnotifs w' = w_wnotifs w"
  by (induction ls arbitrary: w) (fastforce simp: exec save_log_def)+

text \<open>
  C21. Every active webhook that is wanted gets exactly one post, in order, with its interpolated
  payload; those whose post fails, or is answered with anything but a 2xx, are suspended, and no
  other notification is.
\<close>

theorem failing_webhooks_suspended:
  assumes "\<And>n. n \<in> set (wanted_webhooks vars ns) \<Longrightarrow>
    interpolatePayload (x_canon E) vars (wn_messagePayload n) = Inr (p n)"
  shows "\<exists>w'. dispatchWebhooks E e st ns vars w = (Inr (), w') \<and>
    w_requests w' = w_requests w @ map (post_request p) (wanted_webhooks vars ns) \<and>
    w_wnotifs w' = update_rows
      (\<lambda>n. \<exists>m r. (m, r) \<in> set (zip (wanted_webhooks vars ns)
               (answers E (w_requests w) (map (post_request p) (wanted_webhooks vars ns)))) \<and>
             post_failed r \<and> wn_id m = wn_id n)
      (\<lambda>n. n\<lparr>wn_status := Suspended\<rparr>) (w_wnotifs w)"
proof -
  let ?ws = "wanted_webhooks vars ns"
  let ?rs = "answers E (w_requests w) (map (post_request p) ?ws)"
  let ?w1 = "w\<lparr>w_requests := w_requests w @ map (post_request p) ?ws\<rparr>"
  obtain ls where ls: "mapEach (webhook_log E e st vars) (zip ?ws ?rs) ?w1 = (Inr ls, ?w1)"
    using logs_made [of "zip ?ws ?rs" E vars p e st ?w1] assms by (auto dest: set_zip_leftD)
  obtain w2 where w2: "forEach (save_log E) ls ?w1 = (Inr (), w2)" "w_requests w2 = w_requests ?w1"
    "w_wnotifs w2 = w_wnotifs ?w1"
    using logs_saved by blast
  have ids: "i \<in> set (suspended_ids nrs) \<longleftrightarrow> (\<exists>m r. (m, r) \<in> set nrs \<and> post_failed r \<and> wn_id m = i)" for i nrs
    by (force simp: suspended_ids_def)
  show ?thesis
    using ls w2 ids [of _ "zip ?ws ?rs"]
    by (auto simp: dispatchWebhooks_def posts_made [OF assms] exec Let_def suspend_webhooks_def update_none)
qed

section \<open>The theorems at a concrete message\<close>

definition sample_guild :: guild where
  "sample_guild = \<lparr>g_id = ''g'', g_discordGuildId = ''77'', g_managerPermission = None, g_balance = 50, g_createdAt = 0\<rparr>"

definition good_notification :: discord_notification where
  "good_notification = \<lparr>dn_id = ''n1'', dn_ownerId = ''u'', dn_cost = 10, dn_status = Active, dn_isDisabled = Some False,
     dn_costType = Personal, dn_channelId = ''ch'', dn_guildId = ''g'', dn_streamerEventId = ''e'',
     dn_messagePayload = Some (JObj [(''content'', JStr ''live'')]), dn_gameFilters = [], dn_createdAt = 0\<rparr>"

definition bad_notification :: discord_notification where
  "bad_notification = good_notification\<lparr>dn_id := ''n2'', dn_messagePayload := Some (JObj [(''content'', JStr ''${streamTitle}'')])\<rparr>"

definition sample_hook :: webhook_notification where
  "sample_hook = \<lparr>wn_id = ''h'', wn_streamerEventId = ''e'', wn_ownerId = ''u'', wn_cost = 10, wn_status = Active,
     wn_isDisabled = None, wn_costType = Personal, wn_type = WebhookDiscord, wn_webhookUrl = Some ''https://w'',
     wn_guildId = None, wn_messagePayload = None, wn_gameFilters = [], wn_createdAt = 0\<rparr>"

definition online_message :: stream_message where
  "online_message = \<lparr>sm_subscriptionId = ''sub'',
     sm_event = \<lparr>ev_id = ''1'', broadcaster_user_id = ''b'', broadcaster_user_login = ''ann'',
       broadcaster_user_name = ''Ann'', ev_type = ''live'', started_at = ''t''\<rparr>,
     sm_channelInfo = Some \<lparr>ci_broadcasterId = ''b'', ci_broadcasterLogin = ''ann'', ci_displayName = ''Ann'',
       ci_gameId = ''1'', ci_gameName = None, ci_isLive = True, ci_tagIds = [], ci_tags = [], ci_thumbnailUrl = [],
       ci_streamTitle = Some ''My \"best'', ci_streamStartedAt = None\<rparr>\<rparr>"

definition worker_world :: "discord_notification list \<Rightarrow> world" where
  "worker_world ns = populated_world\<lparr>w_guilds := [sample_guild], w_dnotifs := ns\<rparr>"

lemma worker_fields:
  "message_event online_message (worker_world ns) = Some sample_event"
  "guild_of ''g'' (worker_world ns) = Some sample_guild"
  "w_outbox (worker_world ns) = []"
  by (simp_all add: message_event_def worker_world_def online_message_def sample_event_def guild_of_def row_of_def
      sample_guild_def)

lemma worker_wanted:
  "wanted_discord (message_vars sample_env online_message sample_event w) [good_notification] = [good_notification]"
  "wanted_discord (message_vars sample_env online_message sample_event w) [good_notification, bad_notification] =
     [good_notification, bad_notification]"
  by (simp_all add: wanted_discord_def matchesGameFilter_def good_notification_def bad_notification_def)

lemma worker_active:
  "active_discord sample_event (worker_world [good_notification]) = [good_notification]"
  "active_discord sample_event (worker_world [good_notification, bad_notification]) =
     [good_notification, bad_notification]"
  by (simp_all add: active_discord_def worker_world_def good_notification_def bad_notification_def sample_event_def)

lemma good_interpolates:
  "interpolatePayload (x_canon sample_env) (message_vars sample_env online_message sample_event w)
     (dn_messagePayload good_notification) = Inr (Some (JObj [(''content'', JStr ''live'')]))"
proof -
  have "replace_vars f (stringify (JObj [(''content'', JStr ''live'')])) = stringify (JObj [(''content'', JStr ''live'')])" for f
    by (rule replace_no_dollar_all) (simp add: quote_def escape_plain plain_def special_char_def)
  then show ?thesis
    using json_round_trip [of "x_canon sample_env" "JObj [(''content'', JStr ''live'')]"]
    by (simp add: good_notification_def interpolatePayload_def)
qed

lemma bad_fails:
  "interpolatePayload (x_canon sample_env) (message_vars sample_env online_message sample_event w)
     (dn_messagePayload bad_notification) = Inl ()"
proof -
  have "dn_messagePayload bad_notification = Some (JObj [(''content'', JStr (''${'' @ ''streamTitle'' @ ''}''))])"
    by (simp add: bad_notification_def)
  moreover have "map_of (message_vars sample_env online_message sample_event w) ''streamTitle'' =
      Some (''My '' @ CHR 0x22 # ''best'')"
    by (simp add: message_vars_def buildStreamOnlineVars_def online_message_def)
  ultimately show ?thesis
    using quote_breaks [of "message_vars sample_env online_message sample_event w" "''streamTitle''" "''My ''" "''best''"]
    by (simp add: plain_def special_char_def is_word_def skip_ws_def is_ws_def)
qed

lemma good_guild: "dn_guildId good_notification = ''g''"
  by (simp add: good_notification_def)

theorem discord_dispatch_exact_witness:
  "w_outbox (snd (handleStreamOnline sample_env online_message (worker_world [good_notification]))) =
     [bot_message good_notification sample_guild (Some (JObj [(''content'', JStr ''live'')]))]"
  using discord_dispatch_exact
    [of online_message "worker_world [good_notification]" sample_event sample_env
      "\<lambda>_. Some (JObj [(''content'', JStr ''live'')])" "\<lambda>_. sample_guild"]
  by (simp add: worker_fields worker_active worker_wanted good_interpolates good_guild)

theorem poison_message_repeats_witness:
  "fst (handleStreamOnline sample_env online_message
      (redelivered sample_env online_message 3 (worker_world [good_notification, bad_notification]))) = Inr Requeue \<and>
   length (w_outbox (redelivered sample_env online_message 3 (worker_world [good_notification, bad_notification]))) = 3"
  using poison_message_repeats
    [of online_message "worker_world [good_notification, bad_notification]" sample_event sample_env
      "[good_notification]" bad_notification "[]" "\<lambda>_. Some (JObj [(''content'', JStr ''live'')])" "\<lambda>_. sample_guild" 3]
  by (simp add: worker_fields worker_active worker_wanted good_interpolates bad_fails good_guild numeral_eq_Suc)

theorem failing_webhooks_suspended_witness:
  "\<exists>w'. dispatchWebhooks sample_env sample_event None [sample_hook] [] (sample_world\<lparr>w_wnotifs := [sample_hook]\<rparr>) = (Inr (), w') \<and>
     w_wnotifs w' = [sample_hook\<lparr>wn_status := Suspended\<rparr>]"
  using failing_webhooks_suspended
    [of "[]" "[sample_hook]" sample_env "\<lambda>_. None" sample_event None "sample_world\<lparr>w_wnotifs := [sample_hook]\<rparr>"]
  by (auto simp: wanted_webhooks_def matchesGameFilter_def sample_hook_def truthy_def interpolatePayload_def
      update_rows_def post_failed_def)

end
