(* ===== verification/Discord.thy ===== *)
theory Discord imports TwitchUserTokens Interpolation Untyped begin

unbundle bit_operations_syntax

text \<open>
  \<open>apps/api/src/modules/discord\<close>: permissions, OAuth and the stored tokens of users, the guilds a
  user is in, who may manage a guild, the balances of guilds, and the answers of the bot process.
\<close>

section \<open>Permissions\<close>

text \<open>\<open>None\<close> is the \<open>SyntaxError\<close> of \<open>BigInt\<close>.\<close>

(* apps/api/src/modules/discord/utils/discord-permission.util.ts 1-5 hasDiscordPermission *)
definition hasDiscordPermission :: "string \<Rightarrow> string \<Rightarrow> bool option" where
  "hasDiscordPermission permissions flag =
     (case (big_int permissions, big_int flag) of
        (Some perms, Some required) \<Rightarrow> Some (perms AND required = required)
      | _ \<Rightarrow> None)"

definition has_permission :: "string \<Rightarrow> string \<Rightarrow> bool act" where
  "has_permission permissions flag = orThrow (ScriptExc ''SyntaxError'') (hasDiscordPermission permissions flag)"

section \<open>Models\<close>

(* apps/api/src/modules/discord/models/discord-tokens.model.ts 1-7 IDiscordTokensModel *)
record discord_tokens =
  dk_accessToken :: string
  dk_tokenType :: string
  dk_expiresIn :: int
  dk_refreshToken :: string
  dk_scope :: string

(* apps/api/src/modules/discord/models/discord-me.model.ts 1-8 IDiscordMeModel *)
record discord_me =
  me_id :: string
  me_userName :: string
  me_avatar :: string
  me_globalName :: string
  me_email :: "string option"
  me_verified :: bool

(* apps/api/src/modules/discord/models/discord-guild.model.ts 3-13 IDiscordGuildModel *)
record guild_model =
  gm_id :: string
  gm_name :: string
  gm_icon :: string
  gm_banner :: string
  gm_owner :: bool
  gm_permissions :: string
  gm_features :: "string list"
  gm_memberCount :: nat
  gm_presenceCount :: nat

(* apps/api/src/modules/discord/models/discord-guild.model.ts 27-32 IDiscordUserGuildItemModel *)
record guild_item =
  gi_guild :: guild_model
  gi_hasBot :: bool
  gi_balance :: credits
  gi_notificationCount :: nat
  gi_managerPermission :: "string option"

(* apps/api/src/modules/discord/mappers/discord-auth.mapper.ts 6-15 DiscordAuthMapper.apiToMeModel *)
definition apiToMeModel :: "discord_me_reply \<Rightarrow> discord_me" where
  "apiToMeModel d =
     \<lparr>me_id = dm_id d, me_userName = dm_username d, me_avatar = dm_avatar d,
      me_globalName = dm_global_name d, me_email = dm_email d, me_verified = dm_verified d\<rparr>"

(* apps/api/src/modules/discord/mappers/discord-auth.mapper.ts 17-25 DiscordAuthMapper.apiToTokensModel *)
definition apiToTokensModel :: "discord_token_reply \<Rightarrow> discord_tokens" where
  "apiToTokensModel d =
     \<lparr>dk_accessToken = dt_access_token d, dk_tokenType = dt_token_type d, dk_expiresIn = dt_expires_in d,
      dk_refreshToken = dt_refresh_token d, dk_scope = dt_scope d\<rparr>"

(* apps/api/src/modules/discord/mappers/discord-guild.mapper.ts 11-23 DiscordGuildMapper.ApiToGuildModel *)
definition apiToGuildModel :: "discord_guild_reply \<Rightarrow> guild_model" where
  "apiToGuildModel d =
     \<lparr>gm_id = dg_id d, gm_name = dg_name d, gm_icon = dg_icon d, gm_banner = dg_banner d,
      gm_owner = dg_owner d, gm_permissions = dg_permissions d, gm_features = dg_features d,
      gm_memberCount = dg_member_count d, gm_presenceCount = dg_presence_count d\<rparr>"

text \<open>A guild in the cache.\<close>

definition guild_json :: "guild_model \<Rightarrow> json" where
  "guild_json g = JObj
     [(''id'', JStr (gm_id g)), (''name'', JStr (gm_name g)), (''icon'', JStr (gm_icon g)),
      (''banner'', JStr (gm_banner g)), (''owner'', JBool (gm_owner g)),
      (''permissions'', JStr (gm_permissions g)), (''features'', JArr (map JStr (gm_features g))),
      (''memberCount'', JNum (nat_text (gm_memberCount g))),
      (''presenceCount'', JNum (nat_text (gm_presenceCount g)))]"

definition number_of :: "string \<Rightarrow> json \<Rightarrow> nat" where
  "number_of k j = (case field_of k (Some j) of
     Some (JNum n) \<Rightarrow> (case nat_of_text n of Some v \<Rightarrow> v | None \<Rightarrow> 0) | _ \<Rightarrow> 0)"

definition json_guild :: "json \<Rightarrow> guild_model" where
  "json_guild j =
     \<lparr>gm_id = text_of ''id'' j, gm_name = text_of ''name'' j, gm_icon = text_of ''icon'' j,
      gm_banner = text_of ''banner'' j, gm_owner = bool_of ''owner'' j,
      gm_permissions = text_of ''permissions'' j, gm_features = texts_of (field_of ''features'' (Some j)),
      gm_memberCount = number_of ''memberCount'' j, gm_presenceCount = number_of ''presenceCount'' j\<rparr>"

lemma guild_json_back [simp]: "json_guild (guild_json g) = g"
  by (simp add: json_guild_def guild_json_def text_of_def bool_of_def number_of_def field_of_def truthy_json_def)

section \<open>Authorization\<close>

(* apps/api/src/modules/auth/exceptions/discord.exceptions.ts 3-10 DiscordNotConnectedException *)
definition discordNotConnected :: exc where
  "discordNotConnected = HttpExc 403 ''Discord account not connected'' (Some ''DISCORD_NOT_CONNECTED'')"

(* apps/api/src/modules/auth/exceptions/discord.exceptions.ts 12-19 DiscordTokenRevokedException *)
definition discordTokenRevoked :: exc where
  "discordTokenRevoked = HttpExc 403 ''Discord access was revoked, please reconnect'' (Some ''DISCORD_TOKEN_REVOKED'')"

(* apps/api/src/modules/discord/services/discord-auth.service.ts 20-30 DiscordAuthService.getDiscordAuthRedirectUri *)
definition getDiscordAuthRedirectUri :: "env \<Rightarrow> string" where
  "getDiscordAuthRedirectUri E =
     ds_apiUrl (x_discord_settings E) @ ''/oauth2/authorize?'' @ url_params E
       [(''client_id'', ds_clientId (x_discord_settings E)), (''response_type'', ''code''),
        (''redirect_uri'', ds_redirectUri (x_discord_settings E)),
        (''scope'', ''identify email guilds guilds.members.read connections'')]"

definition discord_request :: "string \<Rightarrow> string \<Rightarrow> (string \<times> string) list \<Rightarrow> string option \<Rightarrow> request" where
  "discord_request meth url fs bearer =
     \<lparr>rq_method = meth, rq_url = url, rq_fields = fs, rq_clientId = None, rq_bearer = bearer\<rparr>"

definition discord_went_wrong :: "exc \<Rightarrow> exc" where
  "discord_went_wrong e = internalError
     (''Something went wrong with Discord API. Please contact administrator for more information ['' @
      status_text e @ '']'')"

(* apps/api/src/modules/discord/services/discord-auth.service.ts 32-60 DiscordAuthService.exchangeCodeForTokens *)
definition exchangeDiscordCode :: "env \<Rightarrow> string \<Rightarrow> discord_tokens act" where
  "exchangeDiscordCode E code =
     catching
       (andThen (send (x_discord_token E) (discord_request ''POST'' ''oauth2/token''
          [(''client_id'', ds_clientId (x_discord_settings E)), (''client_secret'', ds_clientSecret (x_discord_settings E)),
           (''grant_type'', ''authorization_code''), (''code'', code),
           (''redirect_uri'', ds_redirectUri (x_discord_settings E))] None)) (\<lambda>d. ret (apiToTokensModel d)))
       (\<lambda>e. throw (discord_went_wrong e))"

(* apps/api/src/modules/discord/services/discord-auth.service.ts 62-93 DiscordAuthService.refreshToken *)
definition refreshDiscordGrant :: "env \<Rightarrow> string \<Rightarrow> discord_tokens act" where
  "refreshDiscordGrant E refreshToken =
     catching
       (andThen (send (x_discord_token E) (discord_request ''POST'' ''oauth2/token''
          [(''client_id'', ds_clientId (x_discord_settings E)), (''client_secret'', ds_clientSecret (x_discord_settings E)),
           (''grant_type'', ''refresh_token''), (''refresh_token'', refreshToken),
           (''redirect_uri'', ds_redirectUri (x_discord_settings E))] None)) (\<lambda>d. ret (apiToTokensModel d)))
       (\<lambda>e. if status_of e = Some 401 then throw discordTokenRevoked else throw (discord_went_wrong e))"

section \<open>Stored tokens\<close>

(* apps/api/src/modules/discord/services/discord-token.service.ts 71-93 DiscordTokenService.getUserWithTokens *)
definition discordUserWithTokens :: "string \<Rightarrow> (string \<times> string \<times> time) act" where
  "discordUserWithTokens userId =
     andThen (gets (\<lambda>w. row_of u_id userId (w_users w))) (\<lambda>found.
     case found of
       None \<Rightarrow> throw discordNotConnected
     | Some u \<Rightarrow>
         if \<not> truthy (u_discordId u) \<or> \<not> truthy (u_discordAccessToken u) \<or> \<not> truthy (u_discordRefreshToken u)
         then throw discordNotConnected
         else (case u_discordTokenExpiresAt u of
             None \<Rightarrow> throw discordNotConnected
           | Some t \<Rightarrow> ret (the (u_discordAccessToken u), the (u_discordRefreshToken u), t)))"

(* apps/api/src/modules/discord/services/discord-token.service.ts 65-69 DiscordTokenService.isExpired *)
definition discordIsExpired :: "time option \<Rightarrow> world \<Rightarrow> bool" where
  "discordIsExpired expiresAt w =
     (case expiresAt of None \<Rightarrow> True | Some t \<Rightarrow> t - 5 * 60 * 1000 \<le> w_now w)"

definition set_discord_tokens :: "string \<Rightarrow> string option \<Rightarrow> string option \<Rightarrow> time option \<Rightarrow> unit act" where
  "set_discord_tokens userId at rt t =
     modify (w_users_update (update_rows (\<lambda>u. u_id u = userId)
       (\<lambda>u. u\<lparr>u_discordAccessToken := at, u_discordRefreshToken := rt, u_discordTokenExpiresAt := t\<rparr>)))"

(* apps/api/src/modules/discord/services/discord-token.service.ts 36-63 DiscordTokenService.refresh *)
definition refreshDiscord :: "env \<Rightarrow> string \<Rightarrow> string \<Rightarrow> string act" where
  "refreshDiscord E userId encryptedRefreshToken =
     andThen (decrypt E encryptedRefreshToken False) (\<lambda>refreshToken.
     catching
       (andThen (refreshDiscordGrant E refreshToken) (\<lambda>d.
        andThen (encrypt E (dk_accessToken d) False) (\<lambda>at.
        andThen (encrypt E (dk_refreshToken d) False) (\<lambda>rt.
        andThen (gets w_now) (\<lambda>now.
        andThen (set_discord_tokens userId (Some at) (Some rt) (Some (now + dk_expiresIn d * 1000))) (\<lambda>_.
        ret (dk_accessToken d)))))))
       (\<lambda>e. andThen (set_discord_tokens userId None None None) (\<lambda>_. throw e)))"

(* apps/api/src/modules/discord/services/discord-token.service.ts 18-26 DiscordTokenService.getValidToken *)
definition getValidDiscordToken :: "env \<Rightarrow> string \<Rightarrow> string act" where
  "getValidDiscordToken E userId =
     andThen (discordUserWithTokens userId) (\<lambda>(at, rt, t).
     andThen (gets (discordIsExpired (Some t))) (\<lambda>expired.
     if \<not> expired then decrypt E at False else refreshDiscord E userId rt))"

(* apps/api/src/modules/discord/services/discord-token.service.ts 28-34 DiscordTokenService.validateConnection *)
definition validateDiscordConnection :: "env \<Rightarrow> string \<Rightarrow> unit act" where
  "validateDiscordConnection E userId =
     andThen (discordUserWithTokens userId) (\<lambda>(at, rt, t).
     andThen (gets (discordIsExpired (Some t))) (\<lambda>expired.
     if expired then andThen (refreshDiscord E userId rt) (\<lambda>_. ret ()) else ret ()))"

(* apps/api/src/modules/discord/services/discord-api-base.service.ts 13-26 DiscordApiBaseService.getUserDiscordAccessToken *)
definition getUserDiscordAccessToken :: "string \<Rightarrow> string act" where
  "getUserDiscordAccessToken userId =
     andThen (gets (\<lambda>w. Option.bind (row_of u_id userId (w_users w)) u_discordAccessToken)) (\<lambda>token.
     if \<not> truthy token then throw (badRequest ''User not found or not authenticated with Discord'')
     else ret (the token))"

section \<open>The Discord API\<close>

(* apps/api/src/modules/discord/services/discord-api.service.ts 10-10 DISCORD_API_CACHE *)
definition discord_api_cache :: nat where
  "discord_api_cache = 30 * 60"

(* apps/api/src/modules/discord/services/discord-api.service.ts 23-48 DiscordApiService.fetchUserGuilds *)
definition fetchUserGuilds :: "env \<Rightarrow> string \<Rightarrow> guild_model list act" where
  "fetchUserGuilds E userId =
     andThen (redis_get E (userGuilds userId)) (\<lambda>cachedGuilds.
     if truthy_json cachedGuilds then ret (map json_guild (list_of cachedGuilds))
     else
       andThen (getValidDiscordToken E userId) (\<lambda>token.
       andThen (send (x_discord_guilds E)
          (discord_request ''GET'' ''https://discord.com/api/users/@me/guilds'' [(''with_counts'', ''true'')] (Some token))) (\<lambda>d.
       andThen (redis_set (userGuilds userId) (JArr (map guild_json (map apiToGuildModel d))) discord_api_cache) (\<lambda>_.
       ret (map apiToGuildModel d)))))"

(* apps/api/src/modules/discord/services/discord-api.service.ts 50-62 DiscordApiService.fetchUserGuildById *)
definition fetchUserGuildById :: "env \<Rightarrow> string \<Rightarrow> string \<Rightarrow> guild_model act" where
  "fetchUserGuildById E userId guildId =
     andThen (fetchUserGuilds E userId) (\<lambda>guilds.
     if guilds = [] then throw (notFound ''User has no guilds'')
     else orThrow (notFound ''Cannot find specified guild'') (find (\<lambda>g. gm_id g = guildId) guilds))"

(* apps/api/src/modules/discord/services/discord-api.service.ts 69-77 DiscordApiService.fetchMeUserByToken *)
definition fetchMeUserByToken :: "env \<Rightarrow> string \<Rightarrow> discord_me act" where
  "fetchMeUserByToken E token =
     andThen (send (x_discord_me E) (discord_request ''GET'' ''users/@me'' [] (Some token))) (\<lambda>d. ret (apiToMeModel d))"

(* apps/api/src/modules/discord/services/discord-api.service.ts 64-67 DiscordApiService.fetchMeUser *)
definition fetchMeUser :: "env \<Rightarrow> string \<Rightarrow> discord_me act" where
  "fetchMeUser E userId = andThen (getValidDiscordToken E userId) (fetchMeUserByToken E)"

section \<open>The bot process\<close>

(* apps/api/src/modules/discord/services/discord-bot.service.ts 10-10 DISCORD_BOT_CACHE *)
definition discord_bot_cache :: nat where
  "discord_bot_cache = 60 * 10"

definition bot_request :: "string \<Rightarrow> (string \<times> string) list \<Rightarrow> request" where
  "bot_request pattern fs = discord_request ''RPC'' pattern fs None"

(* apps/api/src/modules/discord/services/discord-bot.service.ts 20-29 DiscordBotService.getGuildTextChannels *)
definition getGuildTextChannels :: "env \<Rightarrow> string \<Rightarrow> json act" where
  "getGuildTextChannels E guildId =
     andThen (redis_get E (discordGuildChannels guildId)) (\<lambda>cached.
     if truthy_json cached then ret (the cached)
     else send (x_bot_channels E) (bot_request ''bot.discord.guild-channels'' [(''guildId'', guildId)]))"

(* apps/api/src/modules/discord/services/discord-bot.service.ts 31-40 DiscordBotService.getBotGuildIds *)
definition getBotGuildIds :: "env \<Rightarrow> string list act" where
  "getBotGuildIds E =
     andThen (redis_get E botGuildIds) (\<lambda>cached.
     if truthy_json cached then ret (texts_of cached)
     else andThen (send (x_bot_guild_ids E) (bot_request ''bot.discord.guild-ids'' [])) (\<lambda>j. ret (texts_of (Some j))))"

(* apps/api/src/modules/discord/services/discord-bot.service.ts 42-54 DiscordBotService.getGuildRoles *)
definition getGuildRoles :: "env \<Rightarrow> string \<Rightarrow> json act" where
  "getGuildRoles E guildId =
     andThen (redis_get E (discordGuildRoles guildId)) (\<lambda>cached.
     if truthy_json cached then ret (the cached)
     else
       andThen (send (x_bot_roles E) (bot_request ''bot.discord.guild-roles'' [(''guildId'', guildId)])) (\<lambda>roles.
       andThen (redis_set (discordGuildRoles guildId) roles discord_bot_cache) (\<lambda>_. ret roles)))"

section \<open>Who may manage a guild\<close>

(* apps/api/src/modules/discord/services/discord-guild-access.service.ts 9-9 GUILD_ACCESS_TTL *)
definition guild_access_ttl :: nat where
  "guild_access_ttl = 60 * 2 * 60"

definition guild_row :: "string \<Rightarrow> world \<Rightarrow> guild option" where
  "guild_row discordGuildId w = find (\<lambda>g. g_discordGuildId g = discordGuildId) (w_guilds w)"

text \<open>\<open>managerPermission && hasDiscordPermission(...)\<close>: an absent or empty permission grants nothing.\<close>

(* apps/api/src/modules/discord/services/discord-guild-access.service.ts 76-79 DiscordGuildAccessService.resolveAccess, the manager permission *)
definition manager_grants :: "guild_model \<Rightarrow> string option \<Rightarrow> bool act" where
  "manager_grants g managerPermission =
     (if truthy managerPermission then has_permission (gm_permissions g) (the managerPermission) else ret False)"

(* apps/api/src/modules/discord/services/discord-guild-access.service.ts 55-80 DiscordGuildAccessService.resolveAccess *)
definition resolveAccess :: "env \<Rightarrow> string \<Rightarrow> string \<Rightarrow> bool \<Rightarrow> bool act" where
  "resolveAccess E userId discordGuildId shouldBeAdmin =
     andThen (fetchUserGuildById E userId discordGuildId) (\<lambda>g.
     if gm_owner g then ret True
     else
       andThen (has_permission (gm_permissions g) (flag_text ADMINISTRATOR)) (\<lambda>admin.
       if admin then ret True
       else if shouldBeAdmin then ret False
       else
         andThen (gets (\<lambda>w. Option.bind (guild_row discordGuildId w) g_managerPermission)) (manager_grants g)))"

definition cached_access :: "env \<Rightarrow> string \<Rightarrow> bool act \<Rightarrow> bool act" where
  "cached_access E key resolver =
     andThen (getOrSet E key (andThen resolver (\<lambda>b. ret (JBool b))) guild_access_ttl) (\<lambda>j. ret (truthy_json (Some j)))"

(* apps/api/src/modules/discord/services/discord-guild-access.service.ts 20-26 DiscordGuildAccessService.canAccessGuild *)
definition canAccessGuild :: "env \<Rightarrow> string \<Rightarrow> string \<Rightarrow> bool act" where
  "canAccessGuild E userId discordGuildId =
     cached_access E (guildUserAccess discordGuildId userId) (resolveAccess E userId discordGuildId False)"

(* apps/api/src/modules/discord/services/discord-guild-access.service.ts 29-35 DiscordGuildAccessService.canManageGuild *)
definition canManageGuild :: "env \<Rightarrow> string \<Rightarrow> string \<Rightarrow> bool act" where
  "canManageGuild E userId discordGuildId =
     cached_access E (guildAdminAccess discordGuildId userId) (resolveAccess E userId discordGuildId True)"

(* apps/api/src/modules/discord/services/discord-guild-access.service.ts 37-42 DiscordGuildAccessService.assertAccess *)
definition assertAccess :: "env \<Rightarrow> string \<Rightarrow> string \<Rightarrow> unit act" where
  "assertAccess E userId discordGuildId =
     andThen (canAccessGuild E userId discordGuildId) (\<lambda>ok.
     throwIf (\<not> ok) (forbidden ''User has no access to this action''))"

(* apps/api/src/modules/discord/services/discord-guild-access.service.ts 44-49 DiscordGuildAccessService.assertAccessAdmin *)
definition assertAccessAdmin :: "env \<Rightarrow> string \<Rightarrow> string \<Rightarrow> unit act" where
  "assertAccessAdmin E userId discordGuildId =
     andThen (canManageGuild E userId discordGuildId) (\<lambda>ok.
     throwIf (\<not> ok) (forbidden ''User has no access to this action''))"

(* apps/api/src/modules/discord/services/discord-guild-access.service.ts 51-53 DiscordGuildAccessService.invalidateGuildCache *)
definition invalidateGuildCache :: "env \<Rightarrow> string \<Rightarrow> unit act" where
  "invalidateGuildCache E guildId = redis_deleteByPattern E (guildUserAccessPattern guildId)"

section \<open>Guilds\<close>

(* apps/api/src/modules/discord/services/discord-guild.service.ts 11-11 BASE_GUILD_BALANCE *)
definition base_guild_balance :: credits where
  "base_guild_balance = 50"

text \<open>\<open>COUNT(DISTINCT ...)\<close> of the notifications of both kinds.\<close>

definition notification_count :: "guild \<Rightarrow> world \<Rightarrow> nat" where
  "notification_count g w =
     count_rows (\<lambda>n. dn_guildId n = g_id g) (w_dnotifs w) + count_rows (\<lambda>n. wn_guildId n = Some (g_id g)) (w_wnotifs w)"

definition filterEach :: "('a \<Rightarrow> bool act) \<Rightarrow> 'a list \<Rightarrow> 'a list act" where
  "filterEach f xs =
     andThen (mapEach (\<lambda>x. andThen (f x) (\<lambda>b. ret (x, b))) xs) (\<lambda>xbs. ret (map fst (filter snd xbs)))"

(* apps/api/src/modules/discord/services/discord-guild.service.ts 48-54 DiscordGuildService.getUserGuilds, the filter *)
definition may_manage :: "guild_model \<Rightarrow> bool act" where
  "may_manage g =
     (if gm_owner g then ret True
      else
        andThen (has_permission (gm_permissions g) (flag_text ADMINISTRATOR)) (\<lambda>admin.
        if admin then ret True
        else andThen (gets (\<lambda>w. Option.bind (guild_row (gm_id g) w) g_managerPermission)) (manager_grants g)))"

text \<open>With no guild left the query asks for \<open>IN ()\<close>, which the database refuses.\<close>

(* apps/api/src/modules/discord/services/discord-guild.service.ts 23-87 DiscordGuildService.getUserGuilds *)
definition getUserGuilds :: "env \<Rightarrow> string \<Rightarrow> guild_item list act" where
  "getUserGuilds E userId =
     andThen (fetchUserGuilds E userId) (\<lambda>guilds.
     andThen (getBotGuildIds E) (\<lambda>botIds.
     if guilds = [] then ret []
     else
       andThen (filterEach may_manage guilds) (\<lambda>filtered.
       if filtered = [] then throw (ScriptExc ''QueryFailedError'')
       else gets (\<lambda>w. map (\<lambda>g.
         \<lparr>gi_guild = g, gi_hasBot = gm_id g \<in> set botIds,
          gi_balance = (case guild_row (gm_id g) w of None \<Rightarrow> 0 | Some r \<Rightarrow> g_balance r),
          gi_notificationCount = (case guild_row (gm_id g) w of None \<Rightarrow> 0 | Some r \<Rightarrow> notification_count r w),
          gi_managerPermission = Option.bind (guild_row (gm_id g) w) g_managerPermission\<rparr>) filtered))))"

(* apps/api/src/modules/discord/services/discord-guild.service.ts 157-170 DiscordGuildService.getOrCreateGuild *)
definition getOrCreateGuild :: "env \<Rightarrow> string \<Rightarrow> guild act" where
  "getOrCreateGuild E guildId =
     andThen (gets (guild_row guildId)) (\<lambda>found.
     case found of
       Some g \<Rightarrow> ret g
     | None \<Rightarrow>
         andThen (fresh_id E) (\<lambda>newId.
         andThen (gets w_now) (\<lambda>now.
         let g = \<lparr>g_id = newId, g_discordGuildId = guildId, g_managerPermission = None,
              g_balance = base_guild_balance, g_createdAt = now\<rparr> in
         andThen (modify (w_guilds_update (save_row g_id g))) (\<lambda>_. ret g))))"

(* apps/api/src/modules/discord/services/discord-guild.service.ts 89-120 DiscordGuildService.getUserGuildInfo *)
definition getUserGuildInfo :: "env \<Rightarrow> string \<Rightarrow> string \<Rightarrow> guild_item act" where
  "getUserGuildInfo E userId guildId =
     andThen (getBotGuildIds E) (\<lambda>botIds.
     if guildId \<notin> set botIds then throw (badRequest ''Discord guild does not have bot'')
     else
       andThen (fetchUserGuildById E userId guildId) (\<lambda>apiUserGuild.
       andThen (getOrCreateGuild E guildId) (\<lambda>info.
       gets (\<lambda>w.
         \<lparr>gi_guild = apiUserGuild, gi_hasBot = True, gi_balance = g_balance info,
          gi_notificationCount = (case guild_row guildId w of None \<Rightarrow> 0 | Some r \<Rightarrow> notification_count r w),
          gi_managerPermission = g_managerPermission info\<rparr>))))"

(* apps/api/src/modules/discord/services/discord-guild.service.ts 122-128 DiscordGuildService.setManagerPermission *)
definition setManagerPermission :: "env \<Rightarrow> string \<Rightarrow> string option \<Rightarrow> unit act" where
  "setManagerPermission E guildId permission =
     andThen (modify (w_guilds_update (update_rows (\<lambda>g. g_discordGuildId g = guildId)
       (\<lambda>g. g\<lparr>g_managerPermission := permission\<rparr>)))) (\<lambda>_.
     invalidateGuildCache E guildId)"

(* apps/api/src/modules/discord/services/discord-guild.service.ts 130-138 DiscordGuildService.assertGuildBalance *)
definition assertGuildBalance :: "string \<Rightarrow> credits \<Rightarrow> unit act" where
  "assertGuildBalance discordGuildId amount =
     andThen (gets (guild_row discordGuildId)) (\<lambda>found.
     throwIf (case found of None \<Rightarrow> True | Some g \<Rightarrow> g_balance g < amount) (badRequest ''Insufficient guild balance''))"

(* apps/api/src/modules/discord/services/discord-guild.service.ts 140-155 DiscordGuildService.deductGuildBalance *)
definition deductGuildBalance :: "string \<Rightarrow> credits \<Rightarrow> unit act" where
  "deductGuildBalance guildId amount =
     (if amount \<le> 0 then ret ()
      else
        andThen (gets (\<lambda>w. \<exists>g \<in> set (w_guilds w). g_discordGuildId g = guildId \<and> amount \<le> g_balance g)) (\<lambda>affected.
        andThen (modify (w_guilds_update (update_rows (\<lambda>g. g_discordGuildId g = guildId \<and> amount \<le> g_balance g)
          (\<lambda>g. g\<lparr>g_balance := g_balance g - amount\<rparr>)))) (\<lambda>_.
        throwIf (\<not> affected) (badRequest ''Insufficient guild balance''))))"

section \<open>Webhooks\<close>

text \<open>\<open>^https:\/\/discord\.com\/api\/webhooks\/\d+\/[\w-]+$\<close>\<close>

(* apps/api/src/modules/discord/services/discord-webhook.service.ts 14-14 DiscordWebhookService.validateDiscordWebhook, webhookRegex *)
definition webhook_url :: "string \<Rightarrow> bool" where
  "webhook_url url \<longleftrightarrow>
     (let base = ''https://discord.com/api/webhooks/''; t = drop (length base) url in
      prefix base url \<and> takeWhile is_digit t \<noteq> [] \<and>
      (case dropWhile is_digit t of
         [] \<Rightarrow> False
       | c # r \<Rightarrow> c = CHR ''/'' \<and> r \<noteq> [] \<and> list_all (\<lambda>c. is_word c \<or> c = CHR ''-'') r))"

(* apps/api/src/modules/discord/services/discord-webhook.service.ts 13-33 DiscordWebhookService.validateDiscordWebhook *)
definition validateDiscordWebhook :: "env \<Rightarrow> string \<Rightarrow> string \<Rightarrow> unit act" where
  "validateDiscordWebhook E url guildId =
     (if \<not> webhook_url url then throw (badRequest ''Invalid Discord webhook URL format'')
      else
        andThen (catching (send (x_discord_webhook E) (discord_request ''GET'' url [] None))
          (\<lambda>_. throw (badRequest ''Discord webhook URL is not accessible''))) (\<lambda>owner.
        throwIf (owner \<noteq> guildId) (badRequest ''Webhook does not belong to the specified guild'')))"

section \<open>Guard and routes\<close>

(* apps/api/src/modules/discord/guards/discord.guard.ts 11-22 DiscordGuard.canActivate *)
definition discordGuard :: "env \<Rightarrow> string \<Rightarrow> unit act" where
  "discordGuard E userId =
     (if userId = [] then throw discordTokenRevoked else validateDiscordConnection E userId)"

(* apps/api/src/modules/discord/controllers/discord.controller.ts 24-28 DiscordController.getUserGuilds *)
definition routeUserGuilds :: "env \<Rightarrow> string \<Rightarrow> guild_item list act" where
  "routeUserGuilds E sub = andThen (discordGuard E sub) (\<lambda>_. getUserGuilds E sub)"

(* apps/api/src/modules/discord/controllers/discord.controller.ts 30-38 DiscordController.getGuildInfo *)
definition routeGuildInfo :: "env \<Rightarrow> string \<Rightarrow> string \<Rightarrow> guild_item act" where
  "routeGuildInfo E sub guildId =
     andThen (discordGuard E sub) (\<lambda>_.
     andThen (assertAccess E sub guildId) (\<lambda>_. getUserGuildInfo E sub guildId))"

(* apps/api/src/modules/discord/controllers/discord.controller.ts 40-48 DiscordController.getGuildTextChannels *)
definition routeGuildChannels :: "env \<Rightarrow> string \<Rightarrow> string \<Rightarrow> json act" where
  "routeGuildChannels E sub guildId =
     andThen (discordGuard E sub) (\<lambda>_.
     andThen (assertAccess E sub guildId) (\<lambda>_. getGuildTextChannels E guildId))"

(* apps/api/src/modules/discord/controllers/discord.controller.ts 50-58 DiscordController.getGuildRoles *)
definition routeGuildRoles :: "env \<Rightarrow> string \<Rightarrow> string \<Rightarrow> json act" where
  "routeGuildRoles E sub guildId =
     andThen (discordGuard E sub) (\<lambda>_.
     andThen (assertAccess E sub guildId) (\<lambda>_. getGuildRoles E guildId))"

(* apps/api/src/modules/discord/controllers/discord.controller.ts 60-72 DiscordController.setManagerPermission *)
definition routeSetManagerPermission :: "env \<Rightarrow> string \<Rightarrow> string \<Rightarrow> string option \<Rightarrow> unit act" where
  "routeSetManagerPermission E sub guildId permission =
     andThen (discordGuard E sub) (\<lambda>_.
     andThen (assertAccessAdmin E sub guildId) (\<lambda>_. setManagerPermission E guildId permission))"

section \<open>Permissions are bits\<close>

fun flag_bit :: "discord_flag \<Rightarrow> nat" where
  "flag_bit KICK_MEMBERS = 1"
| "flag_bit BAN_MEMBERS = 2"
| "flag_bit ADMINISTRATOR = 3"
| "flag_bit MANAGE_CHANNELS = 4"
| "flag_bit MANAGE_GUILD = 5"
| "flag_bit MANAGE_MESSAGES = 13"
| "flag_bit FLAG_MANAGE_ROLES = 28"
| "flag_bit MANAGE_WEBHOOKS = 29"
| "flag_bit MODERATE_MEMBERS = 40"

lemma nat_text_first: "\<exists>(d::nat) t. d < 10 \<and> nat_text n = char_of (48 + d) # t"
proof (induction n rule: nat_text.induct)
  case (1 n)
  show ?case
  proof (cases "n < 10")
    case True
    then show ?thesis by (subst nat_text.simps) auto
  next
    case False
    with 1 show ?thesis by (subst nat_text.simps) fastforce
  qed
qed

lemma digit_not_sign:
  assumes "d < (10::nat)"
  shows "char_of (48 + d) \<noteq> CHR ''-''" "char_of (48 + d) \<noteq> CHR ''+''"
proof -
  have v: "of_char (char_of (48 + d)) = 48 + d" using assms by simp
  show "char_of (48 + d) \<noteq> CHR ''-''"
  proof
    assume "char_of (48 + d) = CHR ''-''"
    then have "48 + d = (45::nat)" using v by simp
    then show False by simp
  qed
  show "char_of (48 + d) \<noteq> CHR ''+''"
  proof
    assume "char_of (48 + d) = CHR ''+''"
    then have "48 + d = (43::nat)" using v by simp
    then show False by simp
  qed
qed

lemma big_int_nat_text [simp]: "big_int (nat_text n) = Some (int n)"
proof -
  obtain d :: nat and t where "d < 10" "nat_text n = char_of (48 + d) # t" using nat_text_first by blast
  then show ?thesis using digit_not_sign [of d] nat_of_nat_text [of n] by (simp add: big_int_def)
qed

lemma big_int_flag [simp]: "big_int (flag_text f) = Some (2 ^ flag_bit f)"
  by (cases f) (simp_all add: big_int_def nat_of_text_def digit_value_def)

lemma and_bit: "(int n AND 2 ^ k = 2 ^ k) = bit n k"
proof -
  have "(int n AND 2 ^ k) = (if bit n k then 2 ^ k else 0)"
    by (rule bit_eqI) (auto simp: bit_and_iff bit_exp_iff bit_of_nat_iff_bit)
  then show ?thesis by simp
qed

lemma permission_bits: "hasDiscordPermission (nat_text n) (flag_text f) = Some (bit n (flag_bit f))"
  by (simp add: hasDiscordPermission_def and_bit)

text \<open>
  A permission test on Discord's decimal permissions is the test of one bit: the bit of the flag.
\<close>

theorem permission_is_bit:
  "hasDiscordPermission (nat_text n) (flag_text f) = Some (bit n (flag_bit f))"
  by (rule permission_bits)

lemma exec_has_permission [exec]:
  "has_permission (nat_text n) (flag_text f) w = (Inr (bit n (flag_bit f)), w)"
  by (simp add: has_permission_def hasDiscordPermission_def and_bit exec)

text \<open>
  C27. Who has access to a guild: its owner, whoever holds the administrator bit and, unless an
  administrator is asked for, whoever holds the permission the guild has set for its managers.
\<close>

theorem guild_access_exact:
  assumes "fetchUserGuilds E userId w = (Inr gs, w1)" and "find (\<lambda>g. gm_id g = gid) gs = Some g"
    and "gm_permissions g = nat_text p"
    and "Option.bind (guild_row gid w1) g_managerPermission = map_option flag_text m"
  shows "fst (resolveAccess E userId gid adm w) =
    Inr (gm_owner g \<or> bit p (flag_bit ADMINISTRATOR) \<or> (\<not> adm \<and> (\<exists>f. m = Some f \<and> bit p (flag_bit f))))"
proof -
  have "gs \<noteq> []" using assms(2) by auto
  moreover have "truthy (Some (flag_text f))" for f by (cases f) (simp_all add: truthy_def)
  ultimately show ?thesis
    using assms exec_has_permission [of p ADMINISTRATOR]
    by (cases m) (auto simp: resolveAccess_def fetchUserGuildById_def exec manager_grants_def truthy_def simp del: flag_text.simps)
qed

text \<open>
  The permission of the managers is stored without a check: once it is set to \<open>0\<close>, every member
  of the guild has access to it, whatever their permissions.
\<close>

theorem zero_permission_admits_members:
  assumes "fetchUserGuilds E userId w = (Inr gs, w1)" and "find (\<lambda>g. gm_id g = gid) gs = Some g"
    and "gm_permissions g = nat_text p"
    and "Option.bind (guild_row gid w1) g_managerPermission = Some ''0''"
  shows "fst (resolveAccess E userId gid False w) = Inr True"
proof -
  have "gs \<noteq> []" using assms(2) by auto
  moreover have "big_int ''0'' = Some 0" by (simp add: big_int_def nat_of_text_def digit_value_def)
  ultimately show ?thesis
    using assms exec_has_permission [of p ADMINISTRATOR]
    by (auto simp: resolveAccess_def fetchUserGuildById_def exec manager_grants_def truthy_def has_permission_def
        hasDiscordPermission_def simp del: flag_text.simps)
qed

section \<open>The list of guilds\<close>

lemma may_manage_state: "snd (may_manage g w) = w"
proof -
  have "relates (same (\<lambda>w. w)) (may_manage g)"
    unfolding may_manage_def has_permission_def manager_grants_def by (intro sameness.rel_rules)
  then show ?thesis using sameD by fastforce
qed

lemma may_manage_error: "fst (may_manage g w) = Inl e \<Longrightarrow> e = ScriptExc ''SyntaxError''"
  by (auto simp: may_manage_def has_permission_def manager_grants_def exec split: if_splits option.splits)

text \<open>A guild whose members are neither owner nor administrator and whose manager permission is no number.\<close>

definition unreadable :: "world \<Rightarrow> guild_model \<Rightarrow> bool" where
  "unreadable w g \<longleftrightarrow> \<not> gm_owner g \<and> hasDiscordPermission (gm_permissions g) (flag_text ADMINISTRATOR) = Some False \<and>
     (\<exists>s. Option.bind (guild_row (gm_id g) w) g_managerPermission = Some s \<and> s \<noteq> [] \<and> big_int s = None)"

lemma may_manage_unreadable: "unreadable w g \<Longrightarrow> may_manage g w = (Inl (ScriptExc ''SyntaxError''), w)"
  by (auto simp: unreadable_def may_manage_def has_permission_def manager_grants_def truthy_def
      hasDiscordPermission_def exec split: option.splits)

lemma filter_unreadable:
  assumes "g \<in> set gs" and "unreadable w g"
  shows "mapEach (\<lambda>x. andThen (may_manage x) (\<lambda>b. ret (x, b))) gs w = (Inl (ScriptExc ''SyntaxError''), w)"
  using assms(1)
proof (induction gs)
  case (Cons x gs)
  obtain r where r: "may_manage x w = (r, w)" using may_manage_state [of x w] by (cases "may_manage x w") auto
  show ?case
  proof (cases r)
    case (Inl e)
    then show ?thesis using r may_manage_error [of x w e] by (simp add: exec)
  next
    case (Inr b)
    then have "x \<noteq> g" using r may_manage_unreadable [OF assms(2)] by auto
    then show ?thesis using Cons r Inr by (simp add: exec)
  qed
qed simp

text \<open>
  A manager permission that is no number breaks the guild list of every ordinary member of the
  guild: all they get is an error.
\<close>

theorem unreadable_permission_breaks_list:
  assumes "fetchUserGuilds E userId w = (Inr gs, w1)" and "getBotGuildIds E w1 = (Inr ids, w2)"
    and "g \<in> set gs" and "unreadable w2 g"
  shows "getUserGuilds E userId w = (Inl (ScriptExc ''SyntaxError''), w2)"
proof -
  have "gs \<noteq> []" using assms(3) by auto
  then show ?thesis
    using assms(1,2) filter_unreadable [OF assms(3,4)] by (simp add: getUserGuilds_def filterEach_def exec)
qed

lemma filter_none:
  assumes "\<And>g. g \<in> set gs \<Longrightarrow> may_manage g w = (Inr False, w)"
  shows "filterEach may_manage gs w = (Inr [], w)"
proof -
  have "mapEach (\<lambda>x. andThen (may_manage x) (\<lambda>b. ret (x, b))) gs w = (Inr (map (\<lambda>x. (x, False)) gs), w)"
    using assms by (induction gs) (simp_all add: exec)
  then show ?thesis by (simp add: filterEach_def exec comp_def)
qed

text \<open>
  A user who is in guilds but may manage none gets an error in place of the empty list.
\<close>

theorem plain_member_list_fails:
  assumes "fetchUserGuilds E userId w = (Inr gs, w1)" and "getBotGuildIds E w1 = (Inr ids, w2)"
    and "gs \<noteq> []" and "\<And>g. g \<in> set gs \<Longrightarrow> may_manage g w2 = (Inr False, w2)"
  shows "getUserGuilds E userId w = (Inl (ScriptExc ''QueryFailedError''), w2)"
  using assms(1-3) filter_none [OF assms(4)] by (simp add: getUserGuilds_def exec)

section \<open>Refreshing\<close>

lemma discord_grant_users: "relates (same w_users) (refreshDiscordGrant E t)"
  unfolding refreshDiscordGrant_def by (intro sameness.rel_rules send_same) simp

text \<open>
  Any failure of a refresh, a timeout of Discord's as well as a revocation, disconnects the user
  from Discord: exactly this user's tokens are erased.
\<close>

theorem discord_refresh_failure:
  assumes "decrypt E rt False w = (Inr token, w)" and "refreshDiscord E userId rt w = (Inl e, w')"
  shows "w_users w' = update_rows (\<lambda>u. u_id u = userId)
    (\<lambda>u. u\<lparr>u_discordAccessToken := None, u_discordRefreshToken := None, u_discordTokenExpiresAt := None\<rparr>) (w_users w)"
proof (cases "refreshDiscordGrant E token w")
  case (Pair r w1)
  then have "w_users w1 = w_users w" using sameD [OF discord_grant_users, of E token w] by simp
  then show ?thesis
    using assms Pair
    by (cases r) (auto simp: refreshDiscord_def set_discord_tokens_def exec encrypt_result split: if_splits)
qed

section \<open>The theorems at concrete guilds\<close>

definition member_guild :: guild_model where
  "member_guild = \<lparr>gm_id = ''77'', gm_name = ''G'', gm_icon = [], gm_banner = [], gm_owner = False,
     gm_permissions = nat_text 32, gm_features = [], gm_memberCount = 5, gm_presenceCount = 1\<rparr>"

definition guild_env :: env where
  "guild_env = sample_env\<lparr>
     x_discord_guilds := (\<lambda>rs rq. Inr [\<lparr>dg_id = ''77'', dg_name = ''G'', dg_icon = [], dg_banner = [], dg_owner = False,
       dg_permissions = nat_text 32, dg_features = [], dg_member_count = 5, dg_presence_count = 1\<rparr>]),
     x_bot_guild_ids := (\<lambda>rs rq. Inr (JArr [JStr ''77'']))\<rparr>"

definition guild_world :: "string option \<Rightarrow> world" where
  "guild_world m = sample_world\<lparr>
     w_users := [sample_user\<lparr>u_discordId := Some ''d'', u_discordAccessToken := Some ''t'',
       u_discordRefreshToken := Some ''r'', u_discordTokenExpiresAt := Some 900000\<rparr>],
     w_guilds := [\<lparr>g_id = ''g'', g_discordGuildId = ''77'', g_managerPermission = m, g_balance = 50, g_createdAt = 0\<rparr>]\<rparr>"

lemma guild_world_fetch:
  "\<exists>w1. fetchUserGuilds guild_env ''u'' (guild_world m) = (Inr [member_guild], w1) \<and> w_guilds w1 = w_guilds (guild_world m)
     \<and> w_redis w1 botGuildIds = None"
  by (simp add: fetchUserGuilds_def redis_get_def lookup_def guild_world_def truthy_json_def exec getValidDiscordToken_def
      discordUserWithTokens_def row_of_def sample_user_def truthy_def discordIsExpired_def decrypt_def isEncrypted_def
      encrypted_prefix_def guild_env_def redis_set_def apiToGuildModel_def member_guild_def put_key_def userGuilds_def botGuildIds_def)

lemma guild_world_row: "Option.bind (guild_row ''77'' w1) g_managerPermission = m" if "w_guilds w1 = w_guilds (guild_world m)"
  using that by (simp add: guild_row_def guild_world_def)

lemma member_guild_fields [simp]: "gm_id member_guild = ''77''" "gm_owner member_guild = False"
  "gm_permissions member_guild = nat_text 32"
  by (simp_all add: member_guild_def)

theorem guild_access_exact_witness:
  "fst (resolveAccess guild_env ''u'' ''77'' False (guild_world (Some (flag_text MANAGE_GUILD)))) = Inr True"
proof -
  obtain w1 where w1: "fetchUserGuilds guild_env ''u'' (guild_world (Some (flag_text MANAGE_GUILD))) = (Inr [member_guild], w1)"
    "w_guilds w1 = w_guilds (guild_world (Some (flag_text MANAGE_GUILD)))"
    using guild_world_fetch by blast
  show ?thesis
    using guild_access_exact [OF w1(1), of "''77''" member_guild 32 "Some MANAGE_GUILD" False] guild_world_row [OF w1(2)]
    by (simp add: bit_iff_odd del: flag_text.simps)
qed

theorem zero_permission_admits_members_witness:
  "fst (resolveAccess guild_env ''u'' ''77'' False (guild_world (Some ''0''))) = Inr True"
proof -
  obtain w1 where w1: "fetchUserGuilds guild_env ''u'' (guild_world (Some ''0'')) = (Inr [member_guild], w1)"
    "w_guilds w1 = w_guilds (guild_world (Some ''0''))"
    using guild_world_fetch by blast
  show ?thesis
    using zero_permission_admits_members [OF w1(1), of "''77''" member_guild 32] guild_world_row [OF w1(2)] by simp
qed

lemma guild_world_bots:
  "w_redis w1 botGuildIds = None \<Longrightarrow>
     \<exists>w2. getBotGuildIds guild_env w1 = (Inr [''77''], w2) \<and> w_guilds w2 = w_guilds w1"
  using texts_of_strings [of "[''77'']"]
  by (simp add: getBotGuildIds_def redis_get_def lookup_def truthy_json_def exec guild_env_def)

theorem unreadable_permission_breaks_list_witness:
  "fst (getUserGuilds guild_env ''u'' (guild_world (Some ''all''))) = Inl (ScriptExc ''SyntaxError'')"
proof -
  obtain w1 where w1: "fetchUserGuilds guild_env ''u'' (guild_world (Some ''all'')) = (Inr [member_guild], w1)"
    "w_guilds w1 = w_guilds (guild_world (Some ''all''))" "w_redis w1 botGuildIds = None"
    using guild_world_fetch by blast
  obtain w2 where w2: "getBotGuildIds guild_env w1 = (Inr [''77''], w2)" "w_guilds w2 = w_guilds w1"
    using guild_world_bots [OF w1(3)] by blast
  have "big_int ''all'' = None" by (simp add: big_int_def nat_of_text_def digit_value_def)
  then have "unreadable w2 member_guild"
    using guild_world_row [of w2 "Some ''all''"] w1(2) w2(2) permission_bits [of 32 ADMINISTRATOR]
    by (simp add: unreadable_def bit_iff_odd)
  then show ?thesis using unreadable_permission_breaks_list [OF w1(1) w2(1)] by simp
qed

theorem plain_member_list_fails_witness:
  "fst (getUserGuilds guild_env ''u'' (guild_world None)) = Inl (ScriptExc ''QueryFailedError'')"
proof -
  obtain w1 where w1: "fetchUserGuilds guild_env ''u'' (guild_world None) = (Inr [member_guild], w1)"
    "w_guilds w1 = w_guilds (guild_world None)" "w_redis w1 botGuildIds = None"
    using guild_world_fetch by blast
  obtain w2 where w2: "getBotGuildIds guild_env w1 = (Inr [''77''], w2)" "w_guilds w2 = w_guilds w1"
    using guild_world_bots [OF w1(3)] by blast
  have "may_manage member_guild w2 = (Inr False, w2)"
    using guild_world_row [of w2 None] w1(2) w2(2) exec_has_permission [of 32 ADMINISTRATOR w2]
    by (simp add: may_manage_def exec manager_grants_def truthy_def bit_iff_odd del: flag_text.simps)
  then show ?thesis using plain_member_list_fails [OF w1(1) w2(1)] by simp
qed

theorem discord_refresh_failure_witness:
  "u_discordAccessToken (hd (w_users (snd (refreshDiscord sample_env ''u'' ''r'' (guild_world None))))) = None"
proof -
  have d: "decrypt sample_env ''r'' False (guild_world None) = (Inr ''r'', guild_world None)"
    by (simp add: decrypt_def isEncrypted_def encrypted_prefix_def exec)
  obtain e w' where "refreshDiscord sample_env ''u'' ''r'' (guild_world None) = (Inl e, w')"
    by (simp add: refreshDiscord_def d exec refreshDiscordGrant_def set_discord_tokens_def)
  then show ?thesis
    using discord_refresh_failure [OF d, of "''u''"] by (simp add: update_rows_def guild_world_def sample_user_def)
qed

end
