(* ===== verification/NotificationPayload.thy ===== *)
theory NotificationPayload imports Interpolation Untyped begin

text \<open>
  \<open>apps/api/src/modules/notification-payload\<close>: what a Discord message of a notification may
  contain. A schema is the predicate of the values it accepts. The lengths are those of the text as
  it is stored, before the variables of the stream are put in.
\<close>

section \<open>Schemas of \<open>zod\<close>\<close>

fun text_up_to :: "nat \<Rightarrow> json \<Rightarrow> bool" where
  "text_up_to n (JStr s) = (length s \<le> n)"
| "text_up_to n _ = False"

fun items_up_to :: "nat option \<Rightarrow> (json \<Rightarrow> bool) \<Rightarrow> json \<Rightarrow> bool" where
  "items_up_to limit P (JArr js) = ((case limit of None \<Rightarrow> True | Some n \<Rightarrow> length js \<le> n) \<and> list_all P js)"
| "items_up_to limit P _ = False"

fun is_boolean :: "json \<Rightarrow> bool" where
  "is_boolean (JBool b) = True"
| "is_boolean _ = False"

fun is_object :: "json \<Rightarrow> bool" where
  "is_object (JObj kvs) = True"
| "is_object _ = False"

text \<open>A number is kept as its JSON text, so an integer from 0 is one written with digits only.\<close>

fun integer_up_to :: "nat \<Rightarrow> json \<Rightarrow> bool" where
  "integer_up_to m (JNum n) = (case nat_of_text n of None \<Rightarrow> False | Some v \<Rightarrow> v \<le> m)"
| "integer_up_to m _ = False"

definition required_field :: "string \<Rightarrow> (json \<Rightarrow> bool) \<Rightarrow> json \<Rightarrow> bool" where
  "required_field k P j = (case field_of k (Some j) of None \<Rightarrow> False | Some v \<Rightarrow> P v)"

definition optional_field :: "string \<Rightarrow> (json \<Rightarrow> bool) \<Rightarrow> json \<Rightarrow> bool" where
  "optional_field k P j = (case field_of k (Some j) of None \<Rightarrow> True | Some v \<Rightarrow> P v)"

definition object_with :: "(json \<Rightarrow> bool) list \<Rightarrow> json \<Rightarrow> bool" where
  "object_with Ps j \<longleftrightarrow> is_object j \<and> list_all (\<lambda>P. P j) Ps"

section \<open>The payload\<close>

(* apps/api/src/modules/notification-payload/schemas/base-payload.schema.ts 4-4 TEMPLATE_VAR_RE *)
fun has_template :: "string \<Rightarrow> bool" where
  "has_template [] = False"
| "has_template (c # s) = (c = CHR ''$'' \<and> placeholder s \<noteq> None \<or> has_template s)"

(* apps/api/src/modules/notification-payload/schemas/base-payload.schema.ts 7-10 urlOrTemplate *)
fun urlOrTemplate :: "env \<Rightarrow> json \<Rightarrow> bool" where
  "urlOrTemplate E (JStr s) = (x_is_url E s \<or> has_template s)"
| "urlOrTemplate E _ = False"

fun dateOrTemplate :: "env \<Rightarrow> json \<Rightarrow> bool" where
  "dateOrTemplate E (JStr s) = (x_is_datetime E s \<or> has_template s)"
| "dateOrTemplate E _ = False"

(* apps/api/src/modules/notification-payload/schemas/base-payload.schema.ts 17-21 EmbedSchema, a field *)
definition embedField :: "json \<Rightarrow> bool" where
  "embedField = object_with
     [required_field ''name'' (text_up_to 256), required_field ''value'' (text_up_to 1024),
      optional_field ''inline'' is_boolean]"

(* apps/api/src/modules/notification-payload/schemas/base-payload.schema.ts 12-34 EmbedSchema *)
definition embedSchema :: "env \<Rightarrow> json \<Rightarrow> bool" where
  "embedSchema E = object_with
     [optional_field ''title'' (text_up_to 256),
      optional_field ''description'' (text_up_to 4096),
      optional_field ''color'' (integer_up_to 0xFFFFFF),
      optional_field ''url'' (urlOrTemplate E),
      optional_field ''fields'' (items_up_to (Some 25) embedField),
      optional_field ''author'' (object_with
        [required_field ''name'' (text_up_to 256), optional_field ''url'' (urlOrTemplate E),
         optional_field ''icon_url'' (urlOrTemplate E)]),
      optional_field ''footer'' (object_with
        [required_field ''text'' (text_up_to 2048), optional_field ''icon_url'' (urlOrTemplate E)]),
      optional_field ''thumbnail'' (object_with [required_field ''url'' (urlOrTemplate E)]),
      optional_field ''image'' (object_with [required_field ''url'' (urlOrTemplate E)]),
      optional_field ''timestamp'' (dateOrTemplate E)]"

(* apps/api/src/modules/notification-payload/schemas/base-payload.schema.ts 37-41 NotificationPayloadObjectSchema *)
definition payloadObject :: "env \<Rightarrow> json \<Rightarrow> bool" where
  "payloadObject E = object_with
     [optional_field ''content'' (text_up_to 2000),
      optional_field ''embeds'' (items_up_to (Some 10) (embedSchema E)),
      optional_field ''actions'' (items_up_to None is_object)]"

(* apps/api/src/modules/notification-payload/schemas/base-payload.schema.ts 43-45 hasContentOrEmbeds *)
definition hasContentOrEmbeds :: "json \<Rightarrow> bool" where
  "hasContentOrEmbeds j \<longleftrightarrow>
     truthy_json (field_of ''content'' (Some j)) \<or> list_of (field_of ''embeds'' (Some j)) \<noteq> []"

(* apps/api/src/modules/notification-payload/schemas/discord-bot-payload.schema.ts 9-10 DiscordBotPayloadSchema *)
definition botPayload :: "env \<Rightarrow> json \<Rightarrow> bool" where
  "botPayload E j \<longleftrightarrow> payloadObject E j \<and> hasContentOrEmbeds j"

(* apps/api/src/modules/notification-payload/schemas/discord-payload.schema.ts 10-15 DiscordWebhookPayloadSchema *)
definition webhookPayload :: "env \<Rightarrow> json \<Rightarrow> bool" where
  "webhookPayload E j \<longleftrightarrow>
     payloadObject E j \<and> optional_field ''username'' (text_up_to 80) j \<and>
     optional_field ''avatar_url'' (urlOrTemplate E) j \<and> hasContentOrEmbeds j"

section \<open>The service\<close>

text \<open>The exception carries the tree of the issues in place of a message.\<close>

(* apps/api/src/modules/notification-payload/services/discord-payload.service.ts 12-18 DiscordPayloadService.validateBotPayload *)
definition validateBotPayload :: "env \<Rightarrow> json \<Rightarrow> bool act" where
  "validateBotPayload E payload =
     andThen (throwIf (\<not> botPayload E payload) (badRequest ''Bad Request Exception'')) (\<lambda>_. ret True)"

(* apps/api/src/modules/notification-payload/services/discord-payload.service.ts 20-26 DiscordPayloadService.validateWebhookPayload *)
definition validateWebhookPayload :: "env \<Rightarrow> json \<Rightarrow> bool act" where
  "validateWebhookPayload E payload =
     andThen (throwIf (\<not> webhookPayload E payload) (badRequest ''Bad Request Exception'')) (\<lambda>_. ret True)"

(* apps/api/src/modules/notification-payload/services/discord-payload.service.ts 42-48 DiscordPayloadService.interpolate *)
definition interpolate :: "env \<Rightarrow> json \<Rightarrow> vars \<Rightarrow> json act" where
  "interpolate E payload context =
     orThrow (ScriptExc ''SyntaxError'')
       (json_parse (x_canon E) (replace_vars (var_text context) (stringify payload)))"

(* apps/api/src/modules/notification-payload/services/discord-payload.service.ts 28-33 DiscordPayloadService.interpolateBotPayload *)
definition interpolateBotPayload :: "env \<Rightarrow> json \<Rightarrow> vars \<Rightarrow> json act" where
  "interpolateBotPayload E payload context = interpolate E payload context"

(* apps/api/src/modules/notification-payload/services/discord-payload.service.ts 35-40 DiscordPayloadService.interpolateWebhookPayload *)
definition interpolateWebhookPayload :: "env \<Rightarrow> json \<Rightarrow> vars \<Rightarrow> json act" where
  "interpolateWebhookPayload E payload context = interpolate E payload context"

section \<open>What an accepted payload looks like\<close>

lemma webhook_is_bot: "webhookPayload E j \<Longrightarrow> botPayload E j"
  by (simp add: webhookPayload_def botPayload_def)

text \<open>The service and the worker substitute alike.\<close>

lemma interpolate_agrees:
  "p \<noteq> JNull \<Longrightarrow> interpolate E p vars w =
     (case interpolatePayload (x_canon E) vars (Some p) of
        Inr (Some j) \<Rightarrow> (Inr j, w) | _ \<Rightarrow> (Inl (ScriptExc ''SyntaxError''), w))"
  by (simp add: interpolate_def interpolatePayload_def exec split: option.split)

lemma accepted_object: "botPayload E j \<Longrightarrow> \<exists>kvs. j = JObj kvs"
  by (cases j) (simp_all add: botPayload_def payloadObject_def object_with_def)

lemma accepted_content: "botPayload E j \<Longrightarrow> field_of ''content'' (Some j) = Some (JStr s) \<Longrightarrow> length s \<le> 2000"
  by (simp add: botPayload_def payloadObject_def object_with_def optional_field_def)

lemma accepted_embeds:
  "botPayload E j \<Longrightarrow> field_of ''embeds'' (Some j) = Some (JArr es) \<Longrightarrow>
     length es \<le> 10 \<and> (\<forall>e \<in> set es. embedSchema E e)"
  by (simp add: botPayload_def payloadObject_def object_with_def optional_field_def list_all_iff)

lemma content_payload: "botPayload E (JObj [(''content'', JStr s)]) \<longleftrightarrow> s \<noteq> [] \<and> length s \<le> 2000"
  by (auto simp: botPayload_def payloadObject_def object_with_def optional_field_def hasContentOrEmbeds_def
      field_of_def truthy_json_def list_of_def)

lemma replace_one:
  assumes "list_all is_word k" and "k \<noteq> []"
  shows "replace_vars f (''${'' @ k @ ''}'') = f k"
proof -
  have b: "\<not> is_word CHR ''}''" by code_simp
  have "placeholder (CHR ''{'' # k @ [CHR ''}'']) = Some (k, [])"
    using assms b by (simp add: placeholder_def takeWhile_append2 dropWhile_append2 list_all_iff)
  then show ?thesis by simp
qed

lemma template_into_text:
  assumes "map_of vars k = Some t" and "list_all is_word k" and "k \<noteq> []"
    and "wf_json canon (JObj [(''content'', JStr t)])" and "wf_json canon (JObj [(''content'', JStr (''${'' @ k @ ''}''))])"
    and "\<forall>(k, t) \<in> set vars. plain t"
  shows "interpolatePayload canon vars (Some (JObj [(''content'', JStr (''${'' @ k @ ''}''))])) =
    Inr (Some (JObj [(''content'', JStr t)]))"
proof -
  have "subst_json (var_text vars) (JObj [(''content'', JStr (''${'' @ k @ ''}''))]) = JObj [(''content'', JStr t)]"
    using replace_one [OF assms(2,3)] assms(1) by (simp add: var_text_def)
  then show ?thesis
    using json_round_trip [OF assms(4)] replace_stringify [OF plain_var_text [OF assms(6)] assms(5)]
    by (simp add: interpolatePayload_def)
qed

text \<open>
  The limits hold for the template only: a message that is accepted can, once the variables of
  the stream are in it, be one that the schema refuses.
\<close>

theorem limits_are_of_the_template:
  assumes "map_of vars k = Some t" and "2000 < length t" and "list_all is_word k" and "k \<noteq> []"
    and "length k < 1000" and "\<forall>(k, t) \<in> set vars. plain t"
  shows "botPayload E (JObj [(''content'', JStr (''${'' @ k @ ''}''))]) \<and>
    interpolatePayload canon vars (Some (JObj [(''content'', JStr (''${'' @ k @ ''}''))])) =
      Inr (Some (JObj [(''content'', JStr t)])) \<and>
    \<not> botPayload E (JObj [(''content'', JStr t)])"
  using template_into_text [OF assms(1,3,4) _ _ assms(6), of canon] assms(2,5)
  by (simp add: content_payload)

theorem limits_are_of_the_template_witness:
  "\<not> botPayload sample_env (JObj [(''content'', JStr (replicate 2001 CHR ''a''))])"
proof -
  have "plain (replicate 2001 CHR ''a'')" by (simp add: plain_def special_char_def list_all_iff)
  then show ?thesis
    using limits_are_of_the_template [of "[(''t'', replicate 2001 CHR ''a'')]" "''t''" "replicate 2001 CHR ''a''"
        sample_env "\<lambda>n. n"]
    by (simp add: is_word_def)
qed

end
