(* ===== verification/Notifications.thy ===== *)
theory Notifications imports Discord Subscriptions NotificationPayload begin

text \<open>
  \<open>apps/api/src/modules/notifications\<close>: who may create a notification, what it costs and who is
  charged, and how notifications are changed and deleted. A field of a request body that may be left
  out is \<open>None\<close> when it is absent and \<open>Some None\<close> when it is \<open>null\<close>, which
  \<open>@IsOptional()\<close> lets through. The user who calls is the first argument of a route.
\<close>

type_synonym 'a field = "'a option option"

section \<open>Requests\<close>

(* apps/api/src/modules/notifications/dto/create-discord-notification.dto.ts 6-30 CreateDiscordNotificationDto *)
record create_discord =
  cd_broadcasterId :: string
  cd_event :: streamer_events
  cd_costType :: cost_type
  cd_payload :: json
  cd_guildId :: string
  cd_channelId :: string
  cd_gameFilters :: "string list option"

(* apps/api/src/modules/notifications/dto/create-webhook-notification.dto.ts 6-27 CreateWebhookNotificationDto *)
record create_webhook =
  cw_broadcasterId :: string
  cw_event :: streamer_events
  cw_costType :: cost_type
  cw_payload :: json
  cw_webhookUrl :: string
  cw_gameFilters :: "string list option"

(* apps/api/src/modules/notifications/dto/update-discord-notification.dto.ts 5-32 UpdateDiscordNotificationDto *)
record update_discord =
  ud_costType :: "cost_type field"
  ud_channelId :: "string field"
  ud_payload :: "json field"
  ud_isDisabled :: "bool field"
  ud_gameFilters :: "string list field"

(* apps/api/src/modules/notifications/dto/update-webhook-notification.dto.ts 5-31 UpdateWebhookNotificationDto *)
record update_webhook =
  uw_costType :: "cost_type field"
  uw_webhookUrl :: "string field"
  uw_payload :: "json field"
  uw_isDisabled :: "bool field"
  uw_gameFilters :: "string list field"

(* apps/api/src/modules/notifications/models/twitch-events-restrictions.model.ts 3-7 AllowedTwitchEvents *)
definition allowedTwitchEvents :: "streamer_events list" where
  "allowedTwitchEvents = [STREAM_ONLINE, CHANNEL_CHEER, CHANNEL_SUBSCRIBE]"

(* apps/api/src/modules/notifications/models/twitch-events-restrictions.model.ts 9-14 privateTwitchEvents *)
definition privateTwitchEvents :: "streamer_events list" where
  "privateTwitchEvents = [CHANNEL_CHEER, CHANNEL_RAID, CHANNEL_UPDATE, CHANNEL_SUBSCRIBE]"

section \<open>Prices and webhook types\<close>

text \<open>Prices in tenths of a credit.\<close>

(* apps/api/src/modules/notifications/notifications.constants.ts 2-2 NotificationPrice.FREE *)
definition price_free :: credits where
  "price_free = 0"

(* apps/api/src/modules/notifications/notifications.constants.ts 3-3 NotificationPrice.STANDARD *)
definition price_standard :: credits where
  "price_standard = 10"

(* apps/api/src/modules/notifications/services/notifications.service.ts 17-22 NotificationsService.resolveCost *)
definition resolveCost :: "cost_type \<Rightarrow> credits" where
  "resolveCost costType = (if costType = Credit then price_free else price_standard)"

(* apps/api/src/modules/notifications/services/notifications.service.ts 10-15 NotificationsService.detectWebhookType *)
definition detectWebhookType :: "string \<Rightarrow> webhook_type act" where
  "detectWebhookType url =
     (if webhook_url url then ret WebhookDiscord
      else throw (badRequest (''Unsupported webhook URL '' @ [CHR 0xE2, CHR 0x80, CHR 0x94] @
        '' only Discord webhooks are supported'')))"

section \<open>Permission and payment\<close>

(* apps/api/src/modules/notifications/services/twitch-notifications.service.ts 13-15 TwitchNotificationsService.publicStreamerEvents *)
definition publicStreamerEvents :: "streamer_events list" where
  "publicStreamerEvents = [STREAM_ONLINE]"

definition twitch_account_of :: "user \<Rightarrow> world \<Rightarrow> streamer option" where
  "twitch_account_of u w = Option.bind (u_twitchAccountId u) (\<lambda>i. row_of st_id i (w_streamers w))"

(* apps/api/src/modules/notifications/services/twitch-notifications.service.ts 275-296 TwitchNotificationsService.assertCanCreate *)
definition assertCanCreate :: "string \<Rightarrow> string \<Rightarrow> streamer_events \<Rightarrow> unit act" where
  "assertCanCreate userId broadcasterId ev =
     whenever (ev \<notin> set publicStreamerEvents)
       (andThen (allowsPersonalSubscriptions broadcasterId) (\<lambda>allowed.
        andThen (throwIf (\<not> allowed)
          (badRequest ''This event is only available for streamers who authorized personal subscriptions'')) (\<lambda>_.
        andThen (gets (\<lambda>w. Option.bind (row_of u_id userId (w_users w)) (\<lambda>u. twitch_account_of u w))) (\<lambda>account.
        throwIf (map_option st_broadcasterId account \<noteq> Some broadcasterId)
          (badRequest ''You can only create notifications for your own streams'')))))"

(* apps/api/src/modules/notifications/services/twitch-notifications.service.ts 298-331 TwitchNotificationsService.assertCanAfford *)
definition assertCanAfford :: "string \<Rightarrow> string \<Rightarrow> cost_type \<Rightarrow> string option \<Rightarrow> unit act" where
  "assertCanAfford userId broadcasterId costType discordGuildId =
     (if costType = Credit then
        andThen (allowsPersonalSubscriptions broadcasterId) (\<lambda>allowed.
        throwIf (\<not> allowed) (badRequest ''This streamer has not enabled free notifications''))
      else if resolveCost costType \<le> 0 then ret ()
      else
        andThen (whenever (costType = Personal)
          (andThen (gets (\<lambda>w. row_of u_id userId (w_users w))) (\<lambda>found.
           throwIf (case found of None \<Rightarrow> True | Some u \<Rightarrow> u_balance u < resolveCost costType)
             (badRequest ''Insufficient balance'')))) (\<lambda>_.
        whenever (costType = Guild)
          (if \<not> truthy discordGuildId then throw (badRequest ''Guild ID required for guild-funded notifications'')
           else assertGuildBalance (the discordGuildId) (resolveCost costType))))"

(* apps/api/src/modules/notifications/services/twitch-notifications.service.ts 341-353 TwitchNotificationsService.applyCharge, a personal charge *)
definition charge_user :: "string \<Rightarrow> credits \<Rightarrow> unit act" where
  "charge_user userId cost =
     andThen (gets (\<lambda>w. \<exists>u \<in> set (w_users w). u_id u = userId \<and> cost \<le> u_balance u)) (\<lambda>affected.
     andThen (modify (w_users_update (update_rows (\<lambda>u. u_id u = userId \<and> cost \<le> u_balance u)
       (\<lambda>u. u\<lparr>u_balance := u_balance u - cost\<rparr>)))) (\<lambda>_.
     throwIf (\<not> affected) (badRequest ''Insufficient balance'')))"

(* apps/api/src/modules/notifications/services/twitch-notifications.service.ts 333-358 TwitchNotificationsService.applyCharge *)
definition applyCharge :: "string \<Rightarrow> credits \<Rightarrow> cost_type \<Rightarrow> string option \<Rightarrow> unit act" where
  "applyCharge userId cost costType guildId =
     (if cost \<le> 0 then ret ()
      else
        andThen (whenever (costType = Personal) (charge_user userId cost)) (\<lambda>_.
        whenever (costType = Guild \<and> truthy guildId) (deductGuildBalance (the guildId) cost)))"

section \<open>Creating\<close>

definition insert_discord :: "env \<Rightarrow> (string \<Rightarrow> time \<Rightarrow> discord_notification) \<Rightarrow> discord_notification act" where
  "insert_discord E f =
     andThen (fresh_id E) (\<lambda>newId.
     andThen (gets w_now) (\<lambda>now.
     andThen (modify (w_dnotifs_update (save_row dn_id (f newId now)))) (\<lambda>_. ret (f newId now))))"

definition insert_webhook :: "env \<Rightarrow> (string \<Rightarrow> time \<Rightarrow> webhook_notification) \<Rightarrow> webhook_notification act" where
  "insert_webhook E f =
     andThen (fresh_id E) (\<lambda>newId.
     andThen (gets w_now) (\<lambda>now.
     andThen (modify (w_wnotifs_update (save_row wn_id (f newId now)))) (\<lambda>_. ret (f newId now))))"

definition or_empty :: "'a list option \<Rightarrow> 'a list" where
  "or_empty v = (case v of None \<Rightarrow> [] | Some x \<Rightarrow> x)"

(* apps/api/src/modules/notifications/services/twitch-notifications.service.ts 32-63 TwitchNotificationsService.createDiscordNotification *)
definition createDiscordNotification :: "env \<Rightarrow> create_discord \<Rightarrow> string \<Rightarrow> discord_notification act" where
  "createDiscordNotification E dto ownerId =
     andThen (assertCanCreate ownerId (cd_broadcasterId dto) (cd_event dto)) (\<lambda>_.
     andThen (assertCanAfford ownerId (cd_broadcasterId dto) (cd_costType dto) (Some (cd_guildId dto))) (\<lambda>_.
     andThen (getOrCreateEvent E (cd_broadcasterId dto) (cd_event dto)) (\<lambda>subscription.
     andThen (validateBotPayload E (cd_payload dto)) (\<lambda>_.
     andThen (applyCharge ownerId (resolveCost (cd_costType dto)) (cd_costType dto) (Some (cd_guildId dto))) (\<lambda>_.
     andThen (getOrCreateGuild E (cd_guildId dto)) (\<lambda>g.
     insert_discord E (\<lambda>newId now.
       \<lparr>dn_id = newId, dn_ownerId = ownerId, dn_cost = resolveCost (cd_costType dto), dn_status = Active,
        dn_isDisabled = Some False, dn_costType = cd_costType dto, dn_channelId = cd_channelId dto,
        dn_guildId = g_id g, dn_streamerEventId = e_id subscription, dn_messagePayload = Some (cd_payload dto),
        dn_gameFilters = or_empty (cd_gameFilters dto), dn_createdAt = now\<rparr>)))))))"

(* apps/api/src/modules/notifications/services/twitch-notifications.service.ts 96-101 TwitchNotificationsService.createWebhookNotification, the guild *)
definition webhook_guild :: "env \<Rightarrow> string \<Rightarrow> string option \<Rightarrow> string option act" where
  "webhook_guild E url guildId =
     (if truthy guildId then
        andThen (validateDiscordWebhook E url (the guildId)) (\<lambda>_.
        andThen (getOrCreateGuild E (the guildId)) (\<lambda>g. ret (Some (g_id g))))
      else ret None)"

(* apps/api/src/modules/notifications/services/twitch-notifications.service.ts 65-106 TwitchNotificationsService.createWebhookNotification *)
definition createWebhookNotification ::
  "env \<Rightarrow> create_webhook \<Rightarrow> string \<Rightarrow> string option \<Rightarrow> webhook_notification act" where
  "createWebhookNotification E dto ownerId guildId =
     andThen (assertCanCreate ownerId (cw_broadcasterId dto) (cw_event dto)) (\<lambda>_.
     andThen (assertCanAfford ownerId (cw_broadcasterId dto) (cw_costType dto) guildId) (\<lambda>_.
     andThen (getOrCreateEvent E (cw_broadcasterId dto) (cw_event dto)) (\<lambda>subscription.
     andThen (detectWebhookType (cw_webhookUrl dto)) (\<lambda>webhookType.
     andThen (whenever (webhookType = WebhookDiscord)
       (andThen (validateWebhookPayload E (cw_payload dto)) (\<lambda>_. ret ()))) (\<lambda>_.
     andThen (webhook_guild E (cw_webhookUrl dto) guildId) (\<lambda>g.
     andThen (applyCharge ownerId (resolveCost (cw_costType dto)) (cw_costType dto) guildId) (\<lambda>_.
     insert_webhook E (\<lambda>newId now.
       \<lparr>wn_id = newId, wn_streamerEventId = e_id subscription, wn_ownerId = ownerId,
        wn_cost = resolveCost (cw_costType dto), wn_status = Active, wn_isDisabled = Some False,
        wn_costType = cw_costType dto, wn_type = webhookType, wn_webhookUrl = Some (cw_webhookUrl dto),
        wn_guildId = g, wn_messagePayload = Some (cw_payload dto),
        wn_gameFilters = or_empty (cw_gameFilters dto), wn_createdAt = now\<rparr>))))))))"

section \<open>Listing\<close>

definition event_row :: "string \<Rightarrow> world \<Rightarrow> event option" where
  "event_row i w = row_of e_id i (w_events w)"

definition guild_by_id :: "string \<Rightarrow> world \<Rightarrow> guild option" where
  "guild_by_id i w = row_of g_id i (w_guilds w)"

text \<open>A notification with its event, the streamer of the event and its guild.\<close>

type_synonym 'n loaded = "'n \<times> event option \<times> streamer option \<times> guild option"

definition load_discord :: "world \<Rightarrow> discord_notification \<Rightarrow> discord_notification loaded" where
  "load_discord w n =
     (let e = event_row (dn_streamerEventId n) w
      in (n, e, Option.bind e (\<lambda>e. streamer_of e w), guild_by_id (dn_guildId n) w))"

text \<open>The URL of a webhook is a column that is not selected.\<close>

definition load_webhook :: "world \<Rightarrow> webhook_notification \<Rightarrow> webhook_notification loaded" where
  "load_webhook w n =
     (let e = event_row (wn_streamerEventId n) w
      in (n\<lparr>wn_webhookUrl := None\<rparr>, e, Option.bind e (\<lambda>e. streamer_of e w), Option.bind (wn_guildId n) (\<lambda>i. guild_by_id i w)))"

definition of_guild :: "string \<Rightarrow> 'n loaded \<Rightarrow> bool" where
  "of_guild discordGuildId = (\<lambda>(n, e, st, g). map_option g_discordGuildId g = Some discordGuildId)"

(* apps/api/src/modules/notifications/services/twitch-notifications.service.ts 108-124 TwitchNotificationsService.getGuildNotifications *)
definition getGuildNotifications ::
  "string \<Rightarrow> (discord_notification loaded list \<times> webhook_notification loaded list) act" where
  "getGuildNotifications discordGuildId =
     gets (\<lambda>w. (filter (of_guild discordGuildId) (map (load_discord w) (w_dnotifs w)),
                 filter (of_guild discordGuildId) (map (load_webhook w) (w_wnotifs w))))"

(* apps/api/src/modules/notifications/services/twitch-notifications.service.ts 126-138 TwitchNotificationsService.getUserNotifications *)
definition getUserNotifications ::
  "string \<Rightarrow> (discord_notification loaded list \<times> (webhook_notification \<times> event option \<times> streamer option) list) act" where
  "getUserNotifications ownerId =
     gets (\<lambda>w. (map (load_discord w) (filter (\<lambda>n. dn_ownerId n = ownerId) (w_dnotifs w)),
                 map (\<lambda>n. case load_webhook w n of (n, e, st, g) \<Rightarrow> (n, e, st))
                   (filter (\<lambda>n. wn_ownerId n = ownerId) (w_wnotifs w))))"

section \<open>Changing\<close>

text \<open>Assigning a field that is not absent; \<open>null\<close> into a column that is not nullable is
  refused when the row is saved.\<close>

definition assign :: "'a field \<Rightarrow> ('a \<Rightarrow> 'r \<Rightarrow> 'r) \<Rightarrow> 'r act \<Rightarrow> 'r act" where
  "assign v f m =
     (case v of
        None \<Rightarrow> m
      | Some None \<Rightarrow> andThen m (\<lambda>_. throw (ScriptExc ''QueryFailedError''))
      | Some (Some x) \<Rightarrow> andThen m (\<lambda>r. ret (f x r)))"

(* apps/api/src/modules/notifications/services/twitch-notifications.service.ts 154-156 TwitchNotificationsService.updateDiscordNotification, the access *)
definition discord_owner_or_admin :: "env \<Rightarrow> discord_notification \<Rightarrow> string \<Rightarrow> unit act" where
  "discord_owner_or_admin E n ownerId =
     whenever (dn_ownerId n \<noteq> ownerId)
       (andThen (gets (guild_by_id (dn_guildId n))) (\<lambda>found.
        andThen (orThrow (ScriptExc ''TypeError'') found) (\<lambda>g. assertAccessAdmin E ownerId (g_discordGuildId g))))"

(* apps/api/src/modules/notifications/services/twitch-notifications.service.ts 188-193 TwitchNotificationsService.updateWebhookNotification, the access *)
definition webhook_owner_or_admin :: "env \<Rightarrow> webhook_notification \<Rightarrow> string \<Rightarrow> unit act" where
  "webhook_owner_or_admin E n ownerId =
     whenever (wn_ownerId n \<noteq> ownerId)
       (if \<not> truthy (wn_guildId n) then throw (forbidden ''You have no access to this notification'')
        else
          andThen (gets (guild_by_id (the (wn_guildId n)))) (\<lambda>found.
          andThen (orThrow (ScriptExc ''TypeError'') found) (\<lambda>g. assertAccessAdmin E ownerId (g_discordGuildId g))))"

text \<open>\<open>null\<close> as a payload does not validate; \<open>null\<close> is no URL either.\<close>

definition payload_or_null :: "json option \<Rightarrow> json" where
  "payload_or_null v = (case v of None \<Rightarrow> JNull | Some j \<Rightarrow> j)"

definition url_or_null :: "string option \<Rightarrow> string" where
  "url_or_null v = (case v of None \<Rightarrow> ''null'' | Some u \<Rightarrow> u)"

(* apps/api/src/modules/notifications/services/twitch-notifications.service.ts 158-166 TwitchNotificationsService.updateDiscordNotification, the fields *)
definition changed_discord :: "env \<Rightarrow> update_discord \<Rightarrow> discord_notification \<Rightarrow> discord_notification act" where
  "changed_discord E dto n =
     andThen (case ud_payload dto of
         None \<Rightarrow> ret n
       | Some p \<Rightarrow>
           andThen (validateBotPayload E (payload_or_null p)) (\<lambda>_. ret (n\<lparr>dn_messagePayload := p\<rparr>))) (\<lambda>n.
     assign (ud_costType dto) (\<lambda>x n. n\<lparr>dn_costType := x\<rparr>)
       (assign (ud_channelId dto) (\<lambda>x n. n\<lparr>dn_channelId := x\<rparr>)
         (assign (ud_gameFilters dto) (\<lambda>x n. n\<lparr>dn_gameFilters := x\<rparr>)
           (ret (case ud_isDisabled dto of None \<Rightarrow> n | Some b \<Rightarrow> n\<lparr>dn_isDisabled := b\<rparr>)))))"

(* apps/api/src/modules/notifications/services/twitch-notifications.service.ts 140-171 TwitchNotificationsService.updateDiscordNotification *)
definition updateDiscordNotification ::
  "env \<Rightarrow> string \<Rightarrow> update_discord \<Rightarrow> string \<Rightarrow> discord_notification act" where
  "updateDiscordNotification E i dto ownerId =
     andThen (gets (\<lambda>w. row_of dn_id i (w_dnotifs w))) (\<lambda>found.
     andThen (orThrow (notFound ''Notification not found'') found) (\<lambda>n.
     andThen (discord_owner_or_admin E n ownerId) (\<lambda>_.
     andThen (changed_discord E dto n) (\<lambda>n'.
     andThen (modify (w_dnotifs_update (save_row dn_id (n'\<lparr>dn_status := Active\<rparr>)))) (\<lambda>_.
     ret (n'\<lparr>dn_status := Active\<rparr>))))))"

(* apps/api/src/modules/notifications/services/twitch-notifications.service.ts 195-202 TwitchNotificationsService.updateWebhookNotification, the payload *)
definition changed_payload :: "env \<Rightarrow> update_webhook \<Rightarrow> webhook_notification \<Rightarrow> webhook_notification act" where
  "changed_payload E dto n =
     (case uw_payload dto of
        None \<Rightarrow> ret n
      | Some p \<Rightarrow>
          andThen (detectWebhookType
            (case uw_webhookUrl dto of
               Some (Some u) \<Rightarrow> u
             | _ \<Rightarrow> (case wn_webhookUrl n of None \<Rightarrow> [] | Some u \<Rightarrow> u))) (\<lambda>webhookType.
          andThen (whenever (webhookType = WebhookDiscord)
            (andThen (validateWebhookPayload E (payload_or_null p)) (\<lambda>_. ret ()))) (\<lambda>_.
          ret (n\<lparr>wn_messagePayload := p\<rparr>))))"

text \<open>The URL is taken over only when the notification belongs to a guild.\<close>

(* apps/api/src/modules/notifications/services/twitch-notifications.service.ts 208-215 TwitchNotificationsService.updateWebhookNotification, the URL *)
definition changed_url :: "env \<Rightarrow> update_webhook \<Rightarrow> webhook_notification \<Rightarrow> webhook_notification act" where
  "changed_url E dto n =
     (case uw_webhookUrl dto of
        None \<Rightarrow> ret n
      | Some u \<Rightarrow>
          if \<not> truthy (wn_guildId n) \<or> wn_webhookUrl n = u then ret n
          else
            andThen (gets (guild_by_id (the (wn_guildId n)))) (\<lambda>found.
            andThen (orThrow (ScriptExc ''TypeError'') found) (\<lambda>g.
            andThen (validateDiscordWebhook E (url_or_null u) (g_discordGuildId g)) (\<lambda>_.
            ret (n\<lparr>wn_webhookUrl := u\<rparr>)))))"

(* apps/api/src/modules/notifications/services/twitch-notifications.service.ts 195-215 TwitchNotificationsService.updateWebhookNotification, the fields *)
definition changed_webhook :: "env \<Rightarrow> update_webhook \<Rightarrow> webhook_notification \<Rightarrow> webhook_notification act" where
  "changed_webhook E dto n =
     andThen (changed_payload E dto n) (\<lambda>n.
     assign (uw_costType dto) (\<lambda>x n. n\<lparr>wn_costType := x\<rparr>)
       (assign (uw_gameFilters dto) (\<lambda>x n. n\<lparr>wn_gameFilters := x\<rparr>)
         (changed_url E dto (case uw_isDisabled dto of None \<Rightarrow> n | Some b \<Rightarrow> n\<lparr>wn_isDisabled := b\<rparr>))))"

text \<open>What was selected of the row, and what was assigned to it.\<close>

record updated_webhook =
  up_id :: string
  up_ownerId :: string
  up_guildId :: "string option"
  up_webhookUrl :: "string option"
  up_messagePayload :: "json option"
  up_costType :: cost_type
  up_isDisabled :: "bool field"
  up_gameFilters :: "string list field"
  up_status :: notification_status

(* apps/api/src/modules/notifications/services/twitch-notifications.service.ts 173-220 TwitchNotificationsService.updateWebhookNotification *)
definition updateWebhookNotification ::
  "env \<Rightarrow> string \<Rightarrow> update_webhook \<Rightarrow> string \<Rightarrow> updated_webhook act" where
  "updateWebhookNotification E i dto ownerId =
     andThen (gets (\<lambda>w. row_of wn_id i (w_wnotifs w))) (\<lambda>found.
     andThen (orThrow (notFound ''Notification not found'') found) (\<lambda>n.
     andThen (webhook_owner_or_admin E n ownerId) (\<lambda>_.
     andThen (changed_webhook E dto n) (\<lambda>n'.
     andThen (modify (w_wnotifs_update (save_row wn_id (n'\<lparr>wn_status := Active\<rparr>)))) (\<lambda>_.
     ret \<lparr>up_id = wn_id n', up_ownerId = wn_ownerId n', up_guildId = wn_guildId n',
          up_webhookUrl = wn_webhookUrl n', up_messagePayload = wn_messagePayload n',
          up_costType = wn_costType n', up_isDisabled = uw_isDisabled dto, up_gameFilters = uw_gameFilters dto,
          up_status = Active\<rparr>)))))"

section \<open>Deleting\<close>

(* apps/api/src/modules/notifications/services/twitch-notifications.service.ts 264-273 TwitchNotificationsService.cleanupSubscriptionIfUnused *)
definition cleanupSubscriptionIfUnused :: "env \<Rightarrow> string \<Rightarrow> unit act" where
  "cleanupSubscriptionIfUnused E streamerEventId =
     andThen (gets (\<lambda>w. (count_rows (\<lambda>n. dn_streamerEventId n = streamerEventId) (w_dnotifs w),
                          count_rows (\<lambda>n. wn_streamerEventId n = streamerEventId) (w_wnotifs w)))) (\<lambda>(discordCount, webhookCount).
     whenever (discordCount = 0 \<and> webhookCount = 0) (deleteLocalSubscription E streamerEventId))"

(* apps/api/src/modules/notifications/services/twitch-notifications.service.ts 222-239 TwitchNotificationsService.deleteDiscordNotification *)
definition deleteDiscordNotification :: "env \<Rightarrow> string \<Rightarrow> string \<Rightarrow> unit act" where
  "deleteDiscordNotification E i ownerId =
     andThen (gets (\<lambda>w. row_of dn_id i (w_dnotifs w))) (\<lambda>found.
     andThen (orThrow (notFound ''Notification not found'') found) (\<lambda>n.
     andThen (discord_owner_or_admin E n ownerId) (\<lambda>_.
     andThen (modify (w_dnotifs_update (delete_rows (\<lambda>x. dn_id x = dn_id n)))) (\<lambda>_.
     cleanupSubscriptionIfUnused E (dn_streamerEventId n)))))"

(* apps/api/src/modules/notifications/services/twitch-notifications.service.ts 241-261 TwitchNotificationsService.deleteWebhookNotification *)
definition deleteWebhookNotification :: "env \<Rightarrow> string \<Rightarrow> string \<Rightarrow> unit act" where
  "deleteWebhookNotification E i ownerId =
     andThen (gets (\<lambda>w. row_of wn_id i (w_wnotifs w))) (\<lambda>found.
     andThen (orThrow (notFound ''Notification not found'') found) (\<lambda>n.
     andThen (webhook_owner_or_admin E n ownerId) (\<lambda>_.
     andThen (modify (w_wnotifs_update (delete_rows (\<lambda>x. wn_id x = wn_id n)))) (\<lambda>_.
     cleanupSubscriptionIfUnused E (wn_streamerEventId n)))))"

section \<open>Routes\<close>

text \<open>The validation pipe refuses an event that is not offered.\<close>

definition offered :: "streamer_events \<Rightarrow> unit act" where
  "offered ev = throwIf (ev \<notin> set allowedTwitchEvents) (badRequest ''Bad Request Exception'')"

(* apps/api/src/modules/notifications/controllers/twitch-notifications.controller.ts 18-22 DiscordNotificationsController.getUserNotifications *)
definition routeUserNotifications ::
  "string \<Rightarrow> (discord_notification loaded list \<times> (webhook_notification \<times> event option \<times> streamer option) list) act" where
  "routeUserNotifications sub = getUserNotifications sub"

(* apps/api/src/modules/notifications/controllers/twitch-notifications.controller.ts 24-33 DiscordNotificationsController.getGuildNotifications *)
definition routeGuildNotifications ::
  "env \<Rightarrow> string \<Rightarrow> string \<Rightarrow> (discord_notification loaded list \<times> webhook_notification loaded list) act" where
  "routeGuildNotifications E sub discordGuildId =
     andThen (discordGuard E sub) (\<lambda>_.
     andThen (assertAccess E sub discordGuildId) (\<lambda>_. getGuildNotifications discordGuildId))"

(* apps/api/src/modules/notifications/controllers/twitch-notifications.controller.ts 35-41 DiscordNotificationsController.createDiscordNotification *)
definition routeCreateDiscord :: "env \<Rightarrow> string \<Rightarrow> create_discord \<Rightarrow> discord_notification act" where
  "routeCreateDiscord E sub dto =
     andThen (discordGuard E sub) (\<lambda>_.
     andThen (offered (cd_event dto)) (\<lambda>_.
     andThen (assertAccess E sub (cd_guildId dto)) (\<lambda>_. createDiscordNotification E dto sub)))"

(* apps/api/src/modules/notifications/controllers/twitch-notifications.controller.ts 43-53 DiscordNotificationsController.createDiscordWebhookNotification *)
definition routeCreateGuildWebhook :: "env \<Rightarrow> string \<Rightarrow> string \<Rightarrow> create_webhook \<Rightarrow> webhook_notification act" where
  "routeCreateGuildWebhook E sub guildId dto =
     andThen (discordGuard E sub) (\<lambda>_.
     andThen (offered (cw_event dto)) (\<lambda>_.
     andThen (assertAccess E sub guildId) (\<lambda>_. createWebhookNotification E dto sub (Some guildId))))"

(* apps/api/src/modules/notifications/controllers/twitch-notifications.controller.ts 55-62 DiscordNotificationsController.createWebhookNotification *)
definition routeCreateWebhook :: "env \<Rightarrow> string \<Rightarrow> create_webhook \<Rightarrow> webhook_notification act" where
  "routeCreateWebhook E sub dto =
     andThen (offered (cw_event dto)) (\<lambda>_. createWebhookNotification E dto sub None)"

(* apps/api/src/modules/notifications/controllers/twitch-notifications.controller.ts 64-72 DiscordNotificationsController.updateDiscordNotification *)
definition routeUpdateDiscord :: "env \<Rightarrow> string \<Rightarrow> string \<Rightarrow> update_discord \<Rightarrow> discord_notification act" where
  "routeUpdateDiscord E sub i dto = updateDiscordNotification E i dto sub"

(* apps/api/src/modules/notifications/controllers/twitch-notifications.controller.ts 74-82 DiscordNotificationsController.updateWebhookNotification *)
definition routeUpdateWebhook :: "env \<Rightarrow> string \<Rightarrow> string \<Rightarrow> update_webhook \<Rightarrow> updated_webhook act" where
  "routeUpdateWebhook E sub i dto = updateWebhookNotification E i dto sub"

(* apps/api/src/modules/notifications/controllers/twitch-notifications.controller.ts 84-89 DiscordNotificationsController.deleteDiscordNotification *)
definition routeDeleteDiscord :: "env \<Rightarrow> string \<Rightarrow> string \<Rightarrow> unit act" where
  "routeDeleteDiscord E sub i = deleteDiscordNotification E i sub"

(* apps/api/src/modules/notifications/controllers/twitch-notifications.controller.ts 91-96 DiscordNotificationsController.deleteWebhookNotification *)
definition routeDeleteWebhook :: "env \<Rightarrow> string \<Rightarrow> string \<Rightarrow> unit act" where
  "routeDeleteWebhook E sub i = deleteWebhookNotification E i sub"

end
