(* ===== verification/DiscordFrame.thy ===== *)
theory DiscordFrame imports Discord begin

text \<open>
  What asking Discord leaves alone: requests, the cache, the clock and the stored Discord tokens may
  change, nothing else. The locale has the law for any view of the state that does not show these.
\<close>

locale discord_frame =
  fixes g :: "world \<Rightarrow> 'v"
  assumes g_requests: "g (w\<lparr>w_requests := rs\<rparr>) = g w"
    and g_ids: "g (w\<lparr>w_ids := n\<rparr>) = g w"
    and g_redis: "g (w_redis_update f w) = g w"
    and g_published: "g (w_published_update fp w) = g w"
    and g_now: "g (w_now_update ft w) = g w"
    and g_users: "g (w_users_update (update_rows Q (\<lambda>u. u\<lparr>u_discordAccessToken := ua, u_discordRefreshToken := ur,
        u_discordTokenExpiresAt := ut\<rparr>)) w) = g w"
begin

lemma keep_send: "relates (same g) (send orc rq)"
  by (rule send_same) (rule g_requests)

lemma keep_redis: "relates (same g) (redis_get E k)" "relates (same g) (redis_set k v t)"
  "relates (same g) (redis_setNX k v t)" "relates (same g) (redis_delete k)" "relates (same g) (redis_publish c m)"
  "relates (same g) (redis_deleteByPattern E pat)"
proof -
  show "relates (same g) (redis_get E k)" by (simp add: relates_def same_def)
  show "relates (same g) (redis_set k v t)"
    using g_redis [of "\<lambda>_. put_key now k t' n st" for now t' n st] by (simp add: relates_def same_def redis_set_def)
  show "relates (same g) (redis_setNX k v t)"
    using g_redis [of "\<lambda>_. st" for st] by (simp add: relates_def same_def redis_setNX_def split: prod.split)
  show "relates (same g) (redis_delete k)" unfolding redis_delete_def by (rule sameness_modify) (rule g_redis)
  show "relates (same g) (redis_publish c m)" unfolding redis_publish_def by (rule sameness_modify) (rule g_published)
  show "relates (same g) (redis_deleteByPattern E pat)"
    unfolding redis_deleteByPattern_def by (rule sameness_modify) (rule g_redis)
qed

lemma keep_wait: "relates (same g) (waitForCacheReady E k c t)"
  unfolding waitForCacheReady_def by (intro sameness.rel_rules keep_redis sameness_modify) (rule g_now)

lemma keep_finally: "relates (same g) m \<Longrightarrow> relates (same g) f \<Longrightarrow> relates (same g) (finally_do m f)"
  unfolding finally_do_def by (intro sameness.rel_rules)

lemma keep_getOrSet: "relates (same g) m \<Longrightarrow> relates (same g) (getOrSet E k m t)"
  unfolding getOrSet_def by (intro sameness.rel_rules keep_redis keep_wait keep_finally)

lemma keep_encrypt: "relates (same g) (encrypt E p b)"
  by (rule encrypt_same) (rule g_ids)

lemma keep_set_tokens: "relates (same g) (set_discord_tokens u a r t)"
  unfolding set_discord_tokens_def by (rule sameness_modify) (rule g_users)

lemma keep_refreshDiscord: "relates (same g) (refreshDiscord E u rt)"
  unfolding refreshDiscord_def refreshDiscordGrant_def
  by (intro sameness.rel_rules pres keep_send keep_encrypt keep_set_tokens) (rule g_requests)

lemma keep_withTokens: "relates (same g) (discordUserWithTokens u)"
  unfolding discordUserWithTokens_def by (intro sameness.rel_rules)

lemma keep_getValidDiscord: "relates (same g) (getValidDiscordToken E u)"
  unfolding getValidDiscordToken_def prod.case_distrib
  by (auto intro!: sameness.rel_rules keep_withTokens pres keep_refreshDiscord split: prod.split)

lemma keep_connection: "relates (same g) (validateDiscordConnection E u)"
  unfolding validateDiscordConnection_def prod.case_distrib
  by (auto intro!: sameness.rel_rules keep_withTokens keep_refreshDiscord split: prod.split)

lemma keep_guard: "relates (same g) (discordGuard E u)"
  unfolding discordGuard_def by (intro sameness.rel_rules keep_connection)

lemma keep_fetchUserGuilds: "relates (same g) (fetchUserGuilds E u)"
  unfolding fetchUserGuilds_def by (intro sameness.rel_rules keep_redis keep_getValidDiscord keep_send)

lemma keep_resolveAccess: "relates (same g) (resolveAccess E u d adm)"
  unfolding resolveAccess_def fetchUserGuildById_def has_permission_def manager_grants_def
  by (intro sameness.rel_rules keep_fetchUserGuilds)

lemma keep_access: "relates (same g) (assertAccess E u d)" "relates (same g) (assertAccessAdmin E u d)"
  unfolding assertAccess_def assertAccessAdmin_def canAccessGuild_def canManageGuild_def cached_access_def
  by (intro sameness.rel_rules keep_getOrSet keep_resolveAccess)+

lemma keep_canAccess: "relates (same g) (canAccessGuild E u d)"
  unfolding canAccessGuild_def cached_access_def by (intro sameness.rel_rules keep_getOrSet keep_resolveAccess)

lemma keep_webhook: "relates (same g) (validateDiscordWebhook E url d)"
  unfolding validateDiscordWebhook_def by (intro sameness.rel_rules keep_send)

end

end
