(* ===== verification/Charges.thy ===== *)
theory Charges imports Notifications DiscordFrame begin

text \<open>
  What creating and changing notifications does to the balances and to the stored payloads. The
  balances of users and guilds are a ledger of accounts, and creating a notification refines one
  purchase on it.
\<close>

section \<open>The ledger\<close>

datatype account = UserAccount string | GuildAccount string

type_synonym ledger = "account \<Rightarrow> credits option"

definition money :: "world \<Rightarrow> (string \<times> credits) list \<times> guild list" where
  "money w = (map (\<lambda>u. (u_id u, u_balance u)) (w_users w), w_guilds w)"

fun ledger :: "world \<Rightarrow> ledger" where
  "ledger w (UserAccount i) = map_option u_balance (row_of u_id i (w_users w))"
| "ledger w (GuildAccount d) = map_option g_balance (guild_row d w)"

definition accounts_unique :: "world \<Rightarrow> bool" where
  "accounts_unique w \<longleftrightarrow> unique_keys u_id (w_users w) \<and> unique_keys g_discordGuildId (w_guilds w)"

definition payer :: "cost_type \<Rightarrow> string \<Rightarrow> string \<Rightarrow> account option" where
  "payer costType owner guildId =
     (case costType of Credit \<Rightarrow> None | Personal \<Rightarrow> Some (UserAccount owner) | Guild \<Rightarrow> Some (GuildAccount guildId))"

definition debit :: "account \<Rightarrow> credits \<Rightarrow> ledger \<Rightarrow> ledger option" where
  "debit a c L = (case L a of None \<Rightarrow> None | Some b \<Rightarrow> if c \<le> b then Some (L(a \<mapsto> b - c)) else None)"

definition open_guild :: "string \<Rightarrow> ledger \<Rightarrow> ledger" where
  "open_guild d L = (case L (GuildAccount d) of None \<Rightarrow> L(GuildAccount d \<mapsto> 50) | Some _ \<Rightarrow> L)"

text \<open>The abstract purchase: the payer loses one credit and is never overdrawn; a guild that is not
  known gets an account with five credits.\<close>

definition purchase :: "cost_type \<Rightarrow> string \<Rightarrow> string \<Rightarrow> ledger \<Rightarrow> ledger option" where
  "purchase costType owner guildId L =
     map_option (open_guild guildId)
       (case payer costType owner guildId of None \<Rightarrow> Some L | Some a \<Rightarrow> debit a 10 L)"

lemma find_map_of: "map_option v (find (\<lambda>x. key x = k) xs) = map_of (map (\<lambda>x. (key x, v x)) xs) k"
  by (induction xs) auto

lemma ledger_money: "money w' = money w \<Longrightarrow> ledger w' = ledger w"
proof
  fix a assume "money w' = money w"
  then show "ledger w' a = ledger w a"
    by (cases a) (simp_all add: row_of_def guild_row_def find_map_of money_def)
qed

lemma accounts_money: "money w' = money w \<Longrightarrow> accounts_unique w' = accounts_unique w"
proof -
  have "unique_keys u_id (w_users v) = distinct (map fst (fst (money v)))"
    "unique_keys g_discordGuildId (w_guilds v) = distinct (map g_discordGuildId (snd (money v)))" for v
    by (simp_all add: unique_keys_def money_def comp_def)
  then show "money w' = money w \<Longrightarrow> accounts_unique w' = accounts_unique w" by (simp add: accounts_unique_def)
qed

section \<open>What leaves the money alone\<close>

lemma money_users: "map (\<lambda>u. (u_id u, u_balance u)) (update_rows Q (\<lambda>u. u\<lparr>u_twitchAccessToken := ua,
    u_twitchRefreshToken := ur, u_twitchTokenExpiresAt := ut\<rparr>) us) =
  map (\<lambda>u. (u_id u, u_balance u)) us"
  by (simp add: update_rows_def)

interpretation money: twitch_frame money
  by unfold_locales (simp_all add: money_def money_users)

text \<open>
  Registering and removing an event changes events, costs of applications, streamers and tokens, and
  it removes notifications. A relation that allows this holds between the states before and after.
\<close>

locale event_effects = twitch_frame g + state_rel R for g :: "world \<Rightarrow> 'v" and R :: "world \<Rightarrow> world \<Rightarrow> bool" +
  assumes R_view: "g w' = g w \<Longrightarrow> R w w'"
    and R_events: "R w (w_events_update f w)"
    and R_apps: "R w (w_apps_update fa w)"
    and R_streamers: "R w (w_streamers_update fs w)"
    and R_removed: "R w (w\<lparr>w_dnotifs := delete_rows P (w_dnotifs w), w_wnotifs := delete_rows Q (w_wnotifs w)\<rparr>)"
begin

lemma view: "relates (same g) m \<Longrightarrow> relates R m"
  by (simp add: relates_def same_def R_view)

lemma update_event_effect: "relates R (update_event i f)"
  unfolding update_event_def by (rule rel_modify) (simp add: R_events)

lemma remove_event_effect: "relates R (remove_event i)"
proof (rule relatesI)
  fix w :: world
  let ?v = "w\<lparr>w_events := delete_rows (\<lambda>e. e_id e = i) (w_events w)\<rparr>"
  have "R w ?v" by (rule R_events)
  moreover have "R ?v (?v\<lparr>w_dnotifs := delete_rows (\<lambda>n. dn_streamerEventId n = i) (w_dnotifs ?v),
      w_wnotifs := delete_rows (\<lambda>n. wn_streamerEventId n = i) (w_wnotifs ?v)\<rparr>)"
    by (rule R_removed)
  ultimately have "R w (?v\<lparr>w_dnotifs := delete_rows (\<lambda>n. dn_streamerEventId n = i) (w_dnotifs ?v),
      w_wnotifs := delete_rows (\<lambda>n. wn_streamerEventId n = i) (w_wnotifs ?v)\<rparr>)"
    by (rule R_trans)
  then show "R w (snd (remove_event i w))" by (simp add: remove_event_def modify_def)
qed

lemma fresh_id_effect: "relates R (fresh_id E)"
  by (rule view) (simp add: relates_def same_def exec g_ids)

lemma insert_event_effect: "relates R (insert_event e)"
  unfolding insert_event_def by (intro rel_rules rel_modify) (simp add: R_events)

lemma new_event_effect: "relates R (new_event E ev a st c)"
  unfolding new_event_def by (intro rel_rules insert_event_effect fresh_id_effect)

lemma cost_effect: "relates R (consumeAppCost c x)" "relates R (releaseAppCost c x)"
  unfolding consumeAppCost_def releaseAppCost_def by (intro rel_modify; simp add: R_apps)+

lemma first_registered_effect: "relates R (first_registered rs)"
  unfolding first_registered_def by (cases rs) (simp_all add: rel_rules)

lemma register_with_app_effect: "relates R (register_with_app E a b st ev)"
  unfolding register_with_app_def
  by (intro rel_rules new_event_effect view [OF keep_registerEvent] first_registered_effect update_event_effect cost_effect)

lemma tryRegister_effect: "relates R (tryRegisterWithUserToken E st ev)"
  unfolding tryRegisterWithUserToken_def
  by (intro rel_rules new_event_effect view [OF keep_registerEvent] view [OF keep_getValid]
      view [OF findInternalApp_reads] first_registered_effect update_event_effect remove_event_effect)

lemma getOrCreateStreamer_effect: "relates R (getOrCreateStreamer E b)"
  unfolding getOrCreateStreamer_def
  by (intro rel_rules view [OF keep_getUserById] rel_modify fresh_id_effect) (simp_all add: R_streamers)

lemma getTwitchApp_effect: "relates R (getTwitchAppForBroadcaster E b)"
  unfolding getTwitchAppForBroadcaster_def findTwitchApp_def
  by (intro rel_rules view [OF findApp_reads] view [OF findLeastLoaded_reads])

lemma getOrCreateEvent_effect: "relates R (getOrCreateEvent E b ev)"
  unfolding getOrCreateEvent_def registerSubscription_def
  by (intro rel_rules getOrCreateStreamer_effect tryRegister_effect getTwitchApp_effect register_with_app_effect)

lemma deleteLocalSubscription_effect: "relates R (deleteLocalSubscription E i)"
  unfolding deleteLocalSubscription_def
  by (intro rel_rules view [OF keep_deleteSubscription] cost_effect remove_event_effect)

lemma cleanup_effect: "relates R (cleanupSubscriptionIfUnused E i)"
  unfolding cleanupSubscriptionIfUnused_def prod.case_distrib
  by (auto intro!: rel_andThen rel_gets rel_whenever deleteLocalSubscription_effect split: prod.split)

end

interpretation money_effects: event_effects money "same money"
  by unfold_locales (simp_all add: same_def money_def)

text \<open>No notification appears, and none changes.\<close>

definition fewer :: "world \<Rightarrow> world \<Rightarrow> bool" where
  "fewer w w' \<longleftrightarrow> set (w_dnotifs w') \<subseteq> set (w_dnotifs w) \<and> set (w_wnotifs w') \<subseteq> set (w_wnotifs w)"

interpretation fewer_effects: event_effects "\<lambda>w. (w_dnotifs w, w_wnotifs w)" fewer
  by unfold_locales (auto simp: fewer_def set_delete)

section \<open>Charging\<close>

lemma update_one:
  assumes "unique_keys key rs" and "r \<in> set rs" and "\<And>x. key (f x) = key x" and "P r"
  shows "row_of key k (update_rows (\<lambda>x. key x = key r \<and> P x) f rs) =
    (if k = key r then Some (f r) else row_of key k rs)"
proof -
  have "row_of key (key r) rs = Some r" using assms(1,2) by (rule find_unique)
  then show ?thesis
    using assms(4) by (cases "row_of key k rs") (auto simp: row_of_update assms(3) dest: row_of_in)
qed

lemma guild_row_is: "guild_row d w = row_of g_discordGuildId d (w_guilds w)"
  by (simp add: guild_row_def row_of_def)

lemma charge_user_ledger:
  assumes "charge_user u c w = (r, w')" and "accounts_unique w"
  shows "case r of Inl _ \<Rightarrow> ledger w' = ledger w | Inr _ \<Rightarrow> debit (UserAccount u) c (ledger w) = Some (ledger w')"
proof (cases "\<exists>x \<in> set (w_users w). u_id x = u \<and> c \<le> u_balance x")
  case True
  then obtain x where x: "x \<in> set (w_users w)" "u_id x = u" "c \<le> u_balance x" by blast
  have r: "r = Inr ()" "w_users w' = update_rows (\<lambda>y. u_id y = u_id x \<and> c \<le> u_balance y)
      (\<lambda>y. y\<lparr>u_balance := u_balance y - c\<rparr>) (w_users w)" "w_guilds w' = w_guilds w"
    using assms(1) True x(2) by (auto simp: charge_user_def exec)
  have u: "row_of u_id u (w_users w) = Some x"
    using find_unique [of u_id "w_users w" x] x assms(2) by (simp add: accounts_unique_def)
  have "ledger w' = (ledger w)(UserAccount u \<mapsto> u_balance x - c)"
  proof
    fix a
    show "ledger w' a = ((ledger w)(UserAccount u \<mapsto> u_balance x - c)) a"
      using assms(2) x update_one [where key = u_id and r = x and P = "\<lambda>y. c \<le> u_balance y"
          and f = "\<lambda>y. y\<lparr>u_balance := u_balance y - c\<rparr>"]
      by (cases a) (simp_all add: r accounts_unique_def guild_row_def)
  qed
  then show ?thesis using r(1) u x(3) by (simp add: debit_def)
next
  case False
  then have "r = Inl (badRequest ''Insufficient balance'')" "w' = w"
    using assms(1) update_none [of "w_users w" "\<lambda>x. u_id x = u \<and> c \<le> u_balance x"]
    by (auto simp: charge_user_def exec)
  then show ?thesis by simp
qed

lemma charge_guild_ledger:
  assumes "deductGuildBalance d c w = (r, w')" and "accounts_unique w" and "0 < c"
  shows "case r of Inl _ \<Rightarrow> ledger w' = ledger w | Inr _ \<Rightarrow> debit (GuildAccount d) c (ledger w) = Some (ledger w')"
proof (cases "\<exists>g \<in> set (w_guilds w). g_discordGuildId g = d \<and> c \<le> g_balance g")
  case True
  then obtain g where g: "g \<in> set (w_guilds w)" "g_discordGuildId g = d" "c \<le> g_balance g" by blast
  have r: "r = Inr ()" "w_guilds w' = update_rows (\<lambda>y. g_discordGuildId y = g_discordGuildId g \<and> c \<le> g_balance y)
      (\<lambda>y. y\<lparr>g_balance := g_balance y - c\<rparr>) (w_guilds w)" "w_users w' = w_users w"
    using assms(1,3) True g(2) by (auto simp: deductGuildBalance_def exec)
  have u: "row_of g_discordGuildId d (w_guilds w) = Some g"
    using find_unique [of g_discordGuildId "w_guilds w" g] g assms(2) by (simp add: accounts_unique_def)
  have "ledger w' = (ledger w)(GuildAccount d \<mapsto> g_balance g - c)"
  proof
    fix a
    show "ledger w' a = ((ledger w)(GuildAccount d \<mapsto> g_balance g - c)) a"
      using assms(2) g update_one [where key = g_discordGuildId and r = g and P = "\<lambda>y. c \<le> g_balance y"
          and f = "\<lambda>y. y\<lparr>g_balance := g_balance y - c\<rparr>"]
      by (cases a) (simp_all add: r accounts_unique_def guild_row_is)
  qed
  then show ?thesis using r(1) u g(3) by (simp add: debit_def guild_row_is)
next
  case False
  then have "r = Inl (badRequest ''Insufficient guild balance'')" "w' = w"
    using assms(1,3) update_none [of "w_guilds w" "\<lambda>x. g_discordGuildId x = d \<and> c \<le> g_balance x"]
    by (auto simp: deductGuildBalance_def exec)
  then show ?thesis by simp
qed

text \<open>One charge is one debit of the payer, or nothing at all.\<close>

definition debit_payer :: "cost_type \<Rightarrow> string \<Rightarrow> string \<Rightarrow> ledger \<Rightarrow> ledger option" where
  "debit_payer costType owner guildId L =
     (case payer costType owner guildId of None \<Rightarrow> Some L | Some a \<Rightarrow> debit a 10 L)"

lemma andThen_unit: "andThen m ret = (m :: unit act)"
  by (rule ext) (auto simp: exec split: prod.split sum.split)

lemma applyCharge_cases:
  "applyCharge u (resolveCost Credit) Credit d = ret ()"
  "applyCharge u (resolveCost Personal) Personal d = charge_user u 10"
  "g \<noteq> [] \<Longrightarrow> applyCharge u (resolveCost Guild) Guild (Some g) = deductGuildBalance g 10"
  by (simp_all add: applyCharge_def resolveCost_def price_free_def price_standard_def whenever_def andThen_unit truthy_def)

lemma applyCharge_ledger:
  assumes "applyCharge u (resolveCost ct) ct (Some d) w = (r, w')" and "accounts_unique w" and "ct = Guild \<longrightarrow> d \<noteq> []"
  shows "case r of Inl _ \<Rightarrow> ledger w' = ledger w | Inr _ \<Rightarrow> debit_payer ct u d (ledger w) = Some (ledger w')"
proof (cases ct)
  case Credit
  then have "r = Inr ()" "w' = w" using assms(1) by (simp_all add: applyCharge_cases exec)
  then show ?thesis using Credit by (simp add: debit_payer_def payer_def)
next
  case Personal
  then show ?thesis using charge_user_ledger [of u 10 w r w'] assms
    by (simp add: applyCharge_cases debit_payer_def payer_def cong: sum.case_cong)
next
  case Guild
  then show ?thesis using charge_guild_ledger [of d 10 w r w'] assms
    by (simp add: applyCharge_cases debit_payer_def payer_def cong: sum.case_cong)
qed

lemma applyCharge_guilds: "map g_id (w_guilds (snd (applyCharge u c ct d w))) = map g_id (w_guilds w)"
  by (auto simp: applyCharge_def charge_user_def deductGuildBalance_def exec keys_update split: prod.split sum.split)

lemma allowed_reads: "relates (same g) (allowsPersonalSubscriptions b)"
  unfolding allowsPersonalSubscriptions_def by (intro sameness.rel_rules)

lemma canCreate_reads: "relates (same g) (assertCanCreate u b ev)"
  unfolding assertCanCreate_def by (intro sameness.rel_rules allowed_reads)

lemma canAfford_reads: "relates (same g) (assertCanAfford u b ct d)"
  unfolding assertCanAfford_def assertGuildBalance_def by (intro sameness.rel_rules allowed_reads)

lemma validate_reads: "relates (same g) (validateBotPayload E p)" "relates (same g) (validateWebhookPayload E p)"
  unfolding validateBotPayload_def validateWebhookPayload_def by (intro sameness.rel_rules)+

lemma canAfford_guild: "assertCanAfford u b Guild (Some d) w = (Inr (), w1) \<Longrightarrow> d \<noteq> []"
  by (auto simp: assertCanAfford_def exec resolveCost_def price_standard_def truthy_def split: if_splits)

definition new_guild_ids :: "env \<Rightarrow> world \<Rightarrow> bool" where
  "new_guild_ids E w \<longleftrightarrow> (\<forall>n. x_uuid E n \<notin> g_id ` set (w_guilds w))"

lemma getOrCreateGuild_ledger:
  assumes "getOrCreateGuild E d w = (r, w')" and "new_guild_ids E w"
  shows "(\<exists>g. r = Inr g) \<and> ledger w' = open_guild d (ledger w)"
proof (cases "guild_row d w")
  case None
  let ?g = "\<lparr>g_id = x_uuid E (w_ids w), g_discordGuildId = d, g_managerPermission = None, g_balance = 50, g_createdAt = w_now w\<rparr>"
  have r: "r = Inr ?g" "w_guilds w' = w_guilds w @ [?g]" "w_users w' = w_users w"
    using assms None by (auto simp: getOrCreateGuild_def exec Let_def base_guild_balance_def new_guild_ids_def save_row_def)
  have "ledger w' a = open_guild d (ledger w) a" for a
    using None by (cases a) (auto simp: r guild_row_def open_guild_def find_app split: option.split)
  then show ?thesis using r(1) by blast
next
  case (Some g)
  then have "r = Inr g" "w' = w" using assms(1) by (simp_all add: getOrCreateGuild_def exec)
  then show ?thesis using Some by (simp add: open_guild_def)
qed

lemma insert_discord_result: "insert_discord E f w = (r, w') \<Longrightarrow> ledger w' = ledger w \<and> (\<exists>n. r = Inr n)"
  by (auto simp: insert_discord_def exec intro!: ledger_money simp: money_def)

text \<open>An action implements an operation on ledgers: success performs it, failure leaves the ledger.\<close>

definition books_open :: "env \<Rightarrow> world \<Rightarrow> bool" where
  "books_open E w \<longleftrightarrow> accounts_unique w \<and> new_guild_ids E w"

definition implements :: "env \<Rightarrow> (ledger \<Rightarrow> ledger option) \<Rightarrow> 'a act \<Rightarrow> bool" where
  "implements E A m \<longleftrightarrow> (\<forall>w r w'. books_open E w \<longrightarrow> m w = (r, w') \<longrightarrow>
     (case r of Inl _ \<Rightarrow> ledger w' = ledger w | Inr _ \<Rightarrow> A (ledger w) = Some (ledger w')))"

lemma books_money: "money w' = money w \<Longrightarrow> books_open E w' = books_open E w"
proof -
  assume m: "money w' = money w"
  then have "w_guilds w' = w_guilds w" by (simp add: money_def)
  with accounts_money [OF m] show "books_open E w' = books_open E w" by (simp add: books_open_def new_guild_ids_def)
qed

lemma implements_frame:
  assumes "relates (same money) m" and "\<And>x w w'. m w = (Inr x, w') \<Longrightarrow> implements E A (f x)"
  shows "implements E A (andThen m f)"
  unfolding implements_def
proof (intro allI impI)
  fix w r w' assume w: "books_open E w" and r: "andThen m f w = (r, w')"
  obtain r1 w1 where m: "m w = (r1, w1)" by fastforce
  then have s: "money w1 = money w" using sameD [OF assms(1), of w] by simp
  note l = ledger_money [OF s] and b = books_money [OF s, of E]
  show "case r of Inl _ \<Rightarrow> ledger w' = ledger w | Inr _ \<Rightarrow> A (ledger w) = Some (ledger w')"
  proof (cases r1)
    case (Inl e)
    then show ?thesis using r m l by (auto simp: exec)
  next
    case (Inr x)
    have i: "implements E A (f x)" using m Inr by (intro assms(2)) simp
    have "books_open E w1" using b w by simp
    from i [unfolded implements_def, rule_format, OF this, of r w'] show ?thesis
      using r m Inr by (simp add: exec l cong: sum.case_cong)
  qed
qed

lemma implements_then:
  assumes "implements E A m" and "\<And>w. books_open E w \<Longrightarrow> new_guild_ids E (snd (m w))"
    and "\<And>x w r w'. new_guild_ids E w \<Longrightarrow> f x w = (r, w') \<Longrightarrow> (\<exists>y. r = Inr y) \<and> ledger w' = F (ledger w)"
  shows "implements E (map_option F \<circ> A) (andThen m f)"
  unfolding implements_def
proof (intro allI impI)
  fix w r w' assume w: "books_open E w" and r: "andThen m f w = (r, w')"
  obtain r1 w1 where m: "m w = (r1, w1)" by fastforce
  then have g: "new_guild_ids E w1" using assms(2) [OF w] by simp
  note h = assms(1) [unfolded implements_def, rule_format, OF w m]
  show "case r of Inl _ \<Rightarrow> ledger w' = ledger w | Inr _ \<Rightarrow> (map_option F \<circ> A) (ledger w) = Some (ledger w')"
  proof (cases r1)
    case (Inl e)
    then show ?thesis using r m h by (auto simp: exec)
  next
    case (Inr x)
    then have "f x w1 = (r, w')" using r m by (simp add: exec)
    from assms(3) [OF g this] Inr h show ?thesis by auto
  qed
qed

lemma implements_charge:
  "ct = Guild \<longrightarrow> d \<noteq> [] \<Longrightarrow> implements E (debit_payer ct u d) (applyCharge u (resolveCost ct) ct (Some d))"
  using applyCharge_ledger by (auto simp: implements_def books_open_def)

lemma purchase_is: "purchase ct u d = map_option (open_guild d) \<circ> debit_payer ct u d"
  by (rule ext) (simp add: purchase_def debit_payer_def)

lemma charge_keeps_guild_ids: "new_guild_ids E (snd (applyCharge u c ct d w)) = new_guild_ids E w"
proof -
  have "g_id ` set (w_guilds (snd (applyCharge u c ct d w))) = g_id ` set (w_guilds w)"
    using arg_cong [OF applyCharge_guilds [of u c ct d w], of set] by simp
  then show ?thesis by (simp add: new_guild_ids_def)
qed

lemma open_and_insert:
  assumes "new_guild_ids E w" and "andThen (getOrCreateGuild E d) (\<lambda>g. insert_discord E (f g)) w = (r, w')"
  shows "(\<exists>n. r = Inr n) \<and> ledger w' = open_guild d (ledger w)"
proof -
  obtain r1 w1 where g: "getOrCreateGuild E d w = (r1, w1)" by fastforce
  from getOrCreateGuild_ledger [OF g assms(1)] obtain x where x: "r1 = Inr x" "ledger w1 = open_guild d (ledger w)" by blast
  then have "insert_discord E (f x) w1 = (r, w')" using assms(2) g by (simp add: exec)
  from insert_discord_result [OF this] x(2) show ?thesis by simp
qed

lemma charge_and_insert:
  assumes "ct = Guild \<longrightarrow> d \<noteq> []"
  shows "implements E (map_option (open_guild d) \<circ> debit_payer ct u d)
    (andThen (applyCharge u (resolveCost ct) ct (Some d))
       (\<lambda>_. andThen (getOrCreateGuild E d) (\<lambda>g. insert_discord E (f g))))"
proof (rule implements_then [OF implements_charge [OF assms]])
  fix w r w' and x :: unit
  assume "new_guild_ids E w" and "andThen (getOrCreateGuild E d) (\<lambda>g. insert_discord E (f g)) w = (r, w')"
  then show "(\<exists>y. r = Inr y) \<and> ledger w' = open_guild d (ledger w)" by (rule open_and_insert)
qed (simp add: charge_keeps_guild_ids books_open_def)

lemma creation_implements:
  "implements E (purchase (cd_costType dto) owner (cd_guildId dto)) (createDiscordNotification E dto owner)"
  unfolding createDiscordNotification_def purchase_is
  by (rule implements_frame [OF canCreate_reads], rule implements_frame [OF canAfford_reads],
      rule implements_frame [OF money_effects.getOrCreateEvent_effect], rule implements_frame [OF validate_reads(1)],
      rule charge_and_insert) (auto dest: canAfford_guild)


section \<open>Changing costs nothing\<close>

lemma changed_discord_result:
  assumes "changed_discord E dto n w = (r, w1)"
  shows "w1 = w" and "r = Inr n' \<Longrightarrow> dn_id n' = dn_id n \<and> dn_cost n' = dn_cost n \<and>
      (\<forall>c. ud_costType dto = Some (Some c) \<longrightarrow> dn_costType n' = c) \<and>
      (dn_messagePayload n' = dn_messagePayload n \<or> (\<exists>p. dn_messagePayload n' = Some p \<and> botPayload E p))"
proof -
  have "relates (same (\<lambda>w. w)) (changed_discord E dto n)"
    unfolding changed_discord_def assign_def by (intro sameness.rel_rules validate_reads)
  then show "w1 = w" using sameD [of "\<lambda>w. w" "changed_discord E dto n" w] assms by simp
  have j: "\<not> botPayload E JNull"
    by (simp add: botPayload_def payloadObject_def object_with_def)
  show "r = Inr n' \<Longrightarrow> dn_id n' = dn_id n \<and> dn_cost n' = dn_cost n \<and>
      (\<forall>c. ud_costType dto = Some (Some c) \<longrightarrow> dn_costType n' = c) \<and>
      (dn_messagePayload n' = dn_messagePayload n \<or> (\<exists>p. dn_messagePayload n' = Some p \<and> botPayload E p))"
    using assms j by (cases "ud_payload dto"; cases "ud_costType dto"; cases "ud_channelId dto"; cases "ud_gameFilters dto";
        cases "ud_isDisabled dto")
      (auto simp: changed_discord_def assign_def exec validateBotPayload_def payload_or_null_def split: option.splits if_splits)
qed

interpretation money_discord: discord_frame money
  by unfold_locales (simp_all add: money_def update_rows_def)

lemma discord_access_money: "relates (same money) (discord_owner_or_admin E n u)"
  unfolding discord_owner_or_admin_def by (intro sameness.rel_rules money_discord.keep_access)

lemma update_ledger:
  assumes "updateDiscordNotification E i dto u w = (Inr n', w')" and "row_of dn_id i (w_dnotifs w) = Some n"
  shows "ledger w' = ledger w \<and> dn_cost n' = dn_cost n \<and> dn_status n' = Active \<and>
    (\<forall>c. ud_costType dto = Some (Some c) \<longrightarrow> dn_costType n' = c)"
proof -
  let ?fin = "\<lambda>m. andThen (modify (w_dnotifs_update (save_row dn_id (m\<lparr>dn_status := Active\<rparr>)))) (\<lambda>_. ret (m\<lparr>dn_status := Active\<rparr>)) :: discord_notification act"
  have "andThen (discord_owner_or_admin E n u) (\<lambda>_. andThen (changed_discord E dto n) ?fin) w = (Inr n', w')"
    using assms by (simp add: updateDiscordNotification_def exec_andThen [of "gets f" for f] exec_gets
        exec_andThen [of "orThrow e v" for e v] exec_orThrow)
  then obtain x w1 where a: "discord_owner_or_admin E n u w = (Inr x, w1)"
    and t: "andThen (changed_discord E dto n) ?fin w1 = (Inr n', w')" by (rule andThen_Inr)
  from t obtain m w2 where c: "changed_discord E dto n w1 = (Inr m, w2)" and f: "?fin m w2 = (Inr n', w')"
    by (rule andThen_Inr)
  have e: "?fin m w2 = (Inr (m\<lparr>dn_status := Active\<rparr>), w_dnotifs_update (save_row dn_id (m\<lparr>dn_status := Active\<rparr>)) w2)"
    by (simp add: exec)
  have n': "n' = m\<lparr>dn_status := Active\<rparr>" "w' = w_dnotifs_update (save_row dn_id (m\<lparr>dn_status := Active\<rparr>)) w2"
    using f unfolding e prod.inject sum.inject by blast+
  have "w2 = w1" using changed_discord_result(1) [OF c] .
  moreover have "money w1 = money w" using sameD [OF discord_access_money, of E n u w] a by simp
  ultimately have "money w' = money w" using n'(2) by (simp add: money_def)
  from ledger_money [OF this] changed_discord_result(2) [OF c refl] show ?thesis unfolding n'(1) by simp
qed

text \<open>
  Changing a notification is free: a successful change may take any cost type and always makes a
  suspended notification active again, but it leaves every balance and the recorded cost as they are.
\<close>

theorem update_never_charges:
  assumes "updateDiscordNotification E i dto u w = (Inr n', w')" and "row_of dn_id i (w_dnotifs w) = Some n"
  shows "ledger w' = ledger w \<and> dn_cost n' = dn_cost n \<and> dn_status n' = Active \<and>
    (\<forall>c. ud_costType dto = Some (Some c) \<longrightarrow> dn_costType n' = c)"
  using assms by (rule update_ledger)

section \<open>What every call keeps\<close>

definition discord_row_ok :: "env \<Rightarrow> discord_notification \<Rightarrow> bool" where
  "discord_row_ok E n \<longleftrightarrow> (case dn_messagePayload n of None \<Rightarrow> True | Some p \<Rightarrow> botPayload E p)"

definition webhook_row_ok :: "env \<Rightarrow> webhook_notification \<Rightarrow> bool" where
  "webhook_row_ok E n \<longleftrightarrow> (case wn_messagePayload n of None \<Rightarrow> True | Some p \<Rightarrow> webhookPayload E p)"

definition stored_valid :: "env \<Rightarrow> world \<Rightarrow> bool" where
  "stored_valid E w \<longleftrightarrow> (\<forall>n \<in> set (w_dnotifs w). discord_row_ok E n) \<and> (\<forall>n \<in> set (w_wnotifs w). webhook_row_ok E n)"

definition solvent :: "world \<Rightarrow> bool" where
  "solvent w \<longleftrightarrow> (\<forall>u \<in> set (w_users w). 0 \<le> u_balance u) \<and> (\<forall>g \<in> set (w_guilds w). 0 \<le> g_balance g)"

definition sound :: "env \<Rightarrow> world \<Rightarrow> bool" where
  "sound E w \<longleftrightarrow> stored_valid E w \<and> solvent w"

datatype notification_call =
    CreateDiscord string create_discord
  | CreateWebhook string create_webhook "string option"
  | UpdateDiscord string string update_discord
  | UpdateWebhook string string update_webhook
  | DeleteDiscord string string
  | DeleteWebhook string string

fun perform :: "env \<Rightarrow> notification_call \<Rightarrow> world \<Rightarrow> world" where
  "perform E (CreateDiscord u dto) w = snd (createDiscordNotification E dto u w)"
| "perform E (CreateWebhook u dto g) w = snd (createWebhookNotification E dto u g w)"
| "perform E (UpdateDiscord u i dto) w = snd (updateDiscordNotification E i dto u w)"
| "perform E (UpdateWebhook u i dto) w = snd (updateWebhookNotification E i dto u w)"
| "perform E (DeleteDiscord u i) w = snd (deleteDiscordNotification E i u w)"
| "perform E (DeleteWebhook u i) w = snd (deleteWebhookNotification E i u w)"

inductive reached :: "env \<Rightarrow> world \<Rightarrow> world \<Rightarrow> bool" for E where
  start: "reached E w w"
| call: "reached E w v \<Longrightarrow> reached E w (perform E c v)"

text \<open>What is looked at: notifications, the balances of users and the guilds.\<close>

definition shown :: "world \<Rightarrow> discord_notification list \<times> webhook_notification list \<times> credits list \<times> credits list" where
  "shown w = (w_dnotifs w, w_wnotifs w, map u_balance (w_users w), map g_balance (w_guilds w))"

interpretation shown: discord_frame shown
  by unfold_locales (simp_all add: shown_def update_rows_def)

lemma sound_of: "sound E w \<longleftrightarrow> (case shown w of (ds, ws, us, gs) \<Rightarrow>
    (\<forall>n \<in> set ds. discord_row_ok E n) \<and> (\<forall>n \<in> set ws. webhook_row_ok E n) \<and>
    (\<forall>b \<in> set us. 0 \<le> b) \<and> (\<forall>b \<in> set gs. 0 \<le> b))"
  by (auto simp: sound_def stored_valid_def solvent_def shown_def)

lemma keeps_sound: "relates (same shown) m \<Longrightarrow> relates (keeps (sound E)) m"
  by (simp add: relates_def same_def keeps_def sound_of)

interpretation sound_events: event_effects shown "keeps (sound E)" for E
proof unfold_locales
  have "map u_balance (update_rows Q (\<lambda>u. u\<lparr>u_twitchAccessToken := ua, u_twitchRefreshToken := ur,
      u_twitchTokenExpiresAt := ut\<rparr>) us) = map u_balance us" for Q ua ur ut us
    by (simp add: update_rows_def)
  then show "shown (w\<lparr>w_users := update_rows Q (\<lambda>u. u\<lparr>u_twitchAccessToken := ua, u_twitchRefreshToken := ur,
      u_twitchTokenExpiresAt := ut\<rparr>) (w_users w)\<rparr>) = shown w" for w Q ua ur ut
    by (simp add: shown_def)
qed (auto simp: keeps_def sound_of shown_def set_delete)

context state_rel
begin

lemma rel_andThen_if:
  assumes "relates R m" and "\<And>x s s'. m s = (Inr x, s') \<Longrightarrow> relates R (f x)"
  shows "relates R (andThen m f)"
proof (rule relatesI)
  fix s
  obtain r t where m: "m s = (r, t)" by fastforce
  then have "R s t" using relatesD [OF assms(1), of s] by simp
  then show "R s (snd (andThen m f s))"
    using m assms(2) [of s] by (cases r) (auto simp: exec_andThen intro: R_trans dest: relatesD)
qed

end

lemma sound_keeps: "(\<And>w. sound E w \<Longrightarrow> sound E (snd (m w))) \<Longrightarrow> relates (keeps (sound E)) m"
  by (simp add: relates_def keeps_def)

lemma charge_sound: "relates (keeps (sound E)) (applyCharge u c ct d)"
proof -
  have "relates (keeps (sound E)) (charge_user u c)" for u c
    by (rule sound_keeps) (auto simp: charge_user_def exec sound_def stored_valid_def solvent_def dest!: update_rows_in split: if_splits)
  moreover have "relates (keeps (sound E)) (deductGuildBalance d c)" for d c
    by (rule sound_keeps) (auto simp: deductGuildBalance_def exec sound_def stored_valid_def solvent_def dest!: update_rows_in split: if_splits)
  ultimately show ?thesis unfolding applyCharge_def by (intro keeping.rel_rules)
qed

lemma save_row_in: "x \<in> set (save_row key r rs) \<Longrightarrow> x = r \<or> x \<in> set rs"
  by (auto simp: save_row_def split: if_splits)

lemma open_guild_sound: "relates (keeps (sound E)) (getOrCreateGuild E d)"
  by (rule sound_keeps) (auto simp: getOrCreateGuild_def exec Let_def sound_def stored_valid_def solvent_def base_guild_balance_def
      dest!: save_row_in split: option.splits)

lemma insert_discord_sound:
  "(\<And>i t. dn_messagePayload (f i t) = Some p) \<Longrightarrow> botPayload E p \<Longrightarrow> relates (keeps (sound E)) (insert_discord E f)"
  by (rule sound_keeps) (auto simp: insert_discord_def exec sound_def stored_valid_def solvent_def discord_row_ok_def
      dest!: save_row_in)

lemma insert_webhook_sound:
  "(\<And>i t. wn_messagePayload (f i t) = Some p) \<Longrightarrow> webhookPayload E p \<Longrightarrow> relates (keeps (sound E)) (insert_webhook E f)"
  by (rule sound_keeps) (auto simp: insert_webhook_def exec sound_def stored_valid_def solvent_def webhook_row_ok_def
      dest!: save_row_in)

lemma validated: "validateBotPayload E p w = (Inr x, w') \<Longrightarrow> botPayload E p"
  "andThen (validateWebhookPayload E p) (\<lambda>_. ret y) w = (Inr z, w') \<Longrightarrow> webhookPayload E p"
  by (auto simp: validateBotPayload_def validateWebhookPayload_def exec split: if_splits)

lemma create_discord_sound: "relates (keeps (sound E)) (createDiscordNotification E dto u)"
  unfolding createDiscordNotification_def
  by (intro keeping.rel_andThen keeps_sound [OF canCreate_reads] keeps_sound [OF canAfford_reads]
      sound_events.getOrCreateEvent_effect keeping.rel_andThen_if [OF keeps_sound [OF validate_reads(1)]]
      charge_sound open_guild_sound insert_discord_sound) (auto dest: validated)

lemma detect_reads: "relates (same g) (detectWebhookType url)"
  unfolding detectWebhookType_def by (intro sameness.rel_rules)

lemma webhook_guild_sound: "relates (keeps (sound E)) (webhook_guild E url d)"
  unfolding webhook_guild_def
  by (intro keeping.rel_rules open_guild_sound keeps_sound [OF shown.keep_webhook])

lemma is_discord: "t = WebhookDiscord" by (cases t) simp

lemma create_webhook_sound: "relates (keeps (sound E)) (createWebhookNotification E dto u d)"
  unfolding createWebhookNotification_def is_discord [THEN eqTrueI] whenever_def if_True
  by (intro keeping.rel_andThen keeps_sound [OF canCreate_reads] keeps_sound [OF canAfford_reads]
      sound_events.getOrCreateEvent_effect keeps_sound [OF detect_reads]
      keeping.rel_andThen_if [OF keeping.rel_andThen [OF keeps_sound [OF validate_reads(2)] keeping.rel_ret]]
      charge_sound webhook_guild_sound insert_webhook_sound) (auto dest: validated)

lemma changed_discord_reads: "relates (same g) (changed_discord E dto n)"
  unfolding changed_discord_def assign_def by (intro sameness.rel_rules validate_reads)

lemma discord_access_sound: "relates (keeps (sound E)) (discord_owner_or_admin F n u)"
  by (rule keeps_sound) (unfold discord_owner_or_admin_def, intro sameness.rel_rules shown.keep_access)

lemma webhook_access_sound: "relates (keeps (sound E)) (webhook_owner_or_admin F n u)"
  by (rule keeps_sound) (unfold webhook_owner_or_admin_def, intro sameness.rel_rules shown.keep_access)

lemma found_row:
  assumes "\<And>n. P n \<Longrightarrow> relates (keeps I) (f n)" and "\<And>w n. I w \<Longrightarrow> q w = Some n \<Longrightarrow> P n"
  shows "relates (keeps I) (andThen (gets q) (\<lambda>found. andThen (orThrow e found) f))"
proof (rule relatesI)
  fix w
  show "keeps I w (snd (andThen (gets q) (\<lambda>found. andThen (orThrow e found) f) w))"
    using assms relatesD by (cases "q w") (fastforce simp: exec keeps_def)+
qed

lemma update_discord_sound: "relates (keeps (sound E)) (updateDiscordNotification E i dto u)"
  unfolding updateDiscordNotification_def
proof (rule found_row [where P = "discord_row_ok E"])
  fix w n assume "sound E w" and "row_of dn_id i (w_dnotifs w) = Some n"
  then show "discord_row_ok E n" by (auto simp: sound_def stored_valid_def dest: row_of_in)
next
  fix n assume ok: "discord_row_ok E n"
  show "relates (keeps (sound E)) (andThen (discord_owner_or_admin E n u) (\<lambda>_. andThen (changed_discord E dto n) (\<lambda>n'.
      andThen (modify (w_dnotifs_update (save_row dn_id (n'\<lparr>dn_status := Active\<rparr>)))) (\<lambda>_. ret (n'\<lparr>dn_status := Active\<rparr>)))))"
  proof (rule keeping.rel_andThen [OF discord_access_sound],
      rule keeping.rel_andThen_if [OF keeps_sound [OF changed_discord_reads]], intro keeping.rel_andThen keeping.rel_ret keeping_modify)
    fix n' s s' w assume "changed_discord E dto n s = (Inr n', s')" and w: "sound E w"
    then have "discord_row_ok E n'" using ok changed_discord_result(2) by (fastforce simp: discord_row_ok_def)
    then show "sound E (w_dnotifs_update (save_row dn_id (n'\<lparr>dn_status := Active\<rparr>)) w)"
      using w by (auto simp: sound_def stored_valid_def solvent_def discord_row_ok_def dest!: save_row_in)
  qed
qed

lemma changed_payload_result:
  assumes "changed_payload E dto n w = (Inr n', w')"
  shows "wn_messagePayload n' = wn_messagePayload n \<or> (\<exists>p. wn_messagePayload n' = Some p \<and> webhookPayload E p)"
  using assms webhook_is_bot [of E JNull] accepted_object [of E JNull]
  by (auto simp: changed_payload_def exec detectWebhookType_def validateWebhookPayload_def payload_or_null_def
      split: option.splits if_splits)

lemma changed_url_payload: "changed_url E dto n w = (Inr n', w') \<Longrightarrow> wn_messagePayload n' = wn_messagePayload n"
  by (auto simp: changed_url_def exec split: option.splits if_splits prod.splits sum.splits)

lemma changed_webhook_result:
  assumes "changed_webhook E dto n w = (Inr n', w')"
  shows "wn_messagePayload n' = wn_messagePayload n \<or> (\<exists>p. wn_messagePayload n' = Some p \<and> webhookPayload E p)"
proof -
  obtain m w1 where m: "changed_payload E dto n w = (Inr m, w1)"
    and r: "assign (uw_costType dto) (\<lambda>x n. n\<lparr>wn_costType := x\<rparr>) (assign (uw_gameFilters dto) (\<lambda>x n. n\<lparr>wn_gameFilters := x\<rparr>)
         (changed_url E dto (case uw_isDisabled dto of None \<Rightarrow> m | Some b \<Rightarrow> m\<lparr>wn_isDisabled := b\<rparr>))) w1 = (Inr n', w')"
    using assms unfolding changed_webhook_def by (rule andThen_Inr)
  let ?m = "case uw_isDisabled dto of None \<Rightarrow> m | Some b \<Rightarrow> m\<lparr>wn_isDisabled := b\<rparr>"
  obtain k w2 where k: "changed_url E dto ?m w1 = (Inr k, w2)" "wn_messagePayload n' = wn_messagePayload k"
    using r by (cases "uw_costType dto"; cases "uw_gameFilters dto")
      (auto simp: assign_def exec split: option.splits prod.splits sum.splits)
  have "wn_messagePayload ?m = wn_messagePayload m" by (simp split: option.split)
  then show ?thesis using changed_payload_result [OF m] changed_url_payload [OF k(1)] k(2) by simp
qed

lemma changed_webhook_sound: "relates (keeps (sound E)) (changed_webhook F dto n)"
proof (rule keeps_sound)
  show "relates (same shown) (changed_webhook F dto n)"
    unfolding changed_webhook_def changed_payload_def assign_def changed_url_def
    by (intro sameness.rel_rules detect_reads validate_reads shown.keep_webhook)
qed

lemma update_webhook_sound: "relates (keeps (sound E)) (updateWebhookNotification E i dto u)"
  unfolding updateWebhookNotification_def
proof (rule found_row [where P = "webhook_row_ok E"])
  fix w n assume "sound E w" and "row_of wn_id i (w_wnotifs w) = Some n"
  then show "webhook_row_ok E n" by (auto simp: sound_def stored_valid_def dest: row_of_in)
next
  fix n assume ok: "webhook_row_ok E n"
  have "relates (keeps (sound E)) (andThen (webhook_owner_or_admin E n u) (\<lambda>_. andThen (changed_webhook E dto n) (\<lambda>n'.
      andThen (modify (w_wnotifs_update (save_row wn_id (n'\<lparr>wn_status := Active\<rparr>)))) (\<lambda>_. ret (f n')))))" for f :: "webhook_notification \<Rightarrow> updated_webhook"
  proof (rule keeping.rel_andThen [OF webhook_access_sound], rule keeping.rel_andThen_if [OF changed_webhook_sound],
      intro keeping.rel_andThen keeping.rel_ret keeping_modify)
    fix n' s s' w assume "changed_webhook E dto n s = (Inr n', s')" and w: "sound E w"
    then have "webhook_row_ok E n'" using ok changed_webhook_result by (fastforce simp: webhook_row_ok_def)
    then show "sound E (w_wnotifs_update (save_row wn_id (n'\<lparr>wn_status := Active\<rparr>)) w)"
      using w by (auto simp: sound_def stored_valid_def solvent_def webhook_row_ok_def dest!: save_row_in)
  qed
  then show "relates (keeps (sound E)) (andThen (webhook_owner_or_admin E n u) (\<lambda>_. andThen (changed_webhook E dto n) (\<lambda>n'.
      andThen (modify (w_wnotifs_update (save_row wn_id (n'\<lparr>wn_status := Active\<rparr>)))) (\<lambda>_.
      ret \<lparr>up_id = wn_id n', up_ownerId = wn_ownerId n', up_guildId = wn_guildId n',
          up_webhookUrl = wn_webhookUrl n', up_messagePayload = wn_messagePayload n',
          up_costType = wn_costType n', up_isDisabled = uw_isDisabled dto, up_gameFilters = uw_gameFilters dto,
          up_status = Active\<rparr>))))" .
qed

lemma delete_sound: "relates (keeps (sound E)) (deleteDiscordNotification F i u)"
  "relates (keeps (sound E)) (deleteWebhookNotification F i u)"
proof -
  have d: "relates (keeps (sound E)) (modify (w_dnotifs_update (delete_rows P)))" for P
    by (rule keeping_modify) (auto simp: sound_def stored_valid_def solvent_def set_delete)
  have h: "relates (keeps (sound E)) (modify (w_wnotifs_update (delete_rows P)))" for P
    by (rule keeping_modify) (auto simp: sound_def stored_valid_def solvent_def set_delete)
  show "relates (keeps (sound E)) (deleteDiscordNotification F i u)"
    unfolding deleteDiscordNotification_def
    by (intro keeping.rel_andThen sound_events.cleanup_effect keeping.rel_gets keeping.rel_orThrow discord_access_sound d sound_events.cleanup_effect)
  show "relates (keeps (sound E)) (deleteWebhookNotification F i u)"
    unfolding deleteWebhookNotification_def
    by (intro keeping.rel_andThen keeping.rel_gets keeping.rel_orThrow webhook_access_sound h sound_events.cleanup_effect)
qed

lemma perform_sound: "sound E w \<Longrightarrow> sound E (perform E c w)"
  by (cases c) (auto intro: keepsD create_discord_sound create_webhook_sound update_discord_sound update_webhook_sound delete_sound)

lemma reached_sound: "reached E w v \<Longrightarrow> sound E w \<Longrightarrow> sound E v"
  by (induction rule: reached.induct) (auto intro: perform_sound)

text \<open>
  C10. Whatever sequence of calls of the notification service is made, by whatever users, each stored
  payload of a bot message or of a webhook is one its schema accepts.
\<close>

theorem stored_payloads_valid:
  assumes "reached E w v" and "sound E w"
  shows "stored_valid E v"
  using reached_sound [OF assms] by (simp add: sound_def)

text \<open>
  No sequence of calls of the notification service takes the balance of a user or of a guild
  below zero.
\<close>

theorem balances_never_negative:
  assumes "reached E w v" and "sound E w"
  shows "solvent v"
  using reached_sound [OF assms] by (simp add: sound_def)

section \<open>Events that are not public\<close>

text \<open>
  No operation of the program sets the Twitch account of a user, the link that creating a
  notification for a private event asks for; so every such creation is refused, the streamer's own
  included, and nothing changes.
\<close>

theorem private_events_refused:
  assumes "\<forall>u \<in> set (w_users w). u_twitchAccountId u = None" and "cd_event dto \<noteq> STREAM_ONLINE"
  shows "\<exists>m. createDiscordNotification E dto owner w = (Inl (badRequest m), w)"
proof -
  have "Option.bind (row_of u_id owner (w_users w)) (\<lambda>u. twitch_account_of u w) = None"
    using assms(1) by (cases "row_of u_id owner (w_users w)") (auto simp: twitch_account_of_def dest: row_of_in)
  then have "\<exists>m. assertCanCreate owner (cd_broadcasterId dto) (cd_event dto) w = (Inl (badRequest m), w)"
    using assms(2) by (auto simp: assertCanCreate_def publicStreamerEvents_def allowsPersonalSubscriptions_def exec)
  then show ?thesis by (auto simp: createDiscordNotification_def exec)
qed

section \<open>The theorems at concrete notifications\<close>

definition sample_create :: "cost_type \<Rightarrow> streamer_events \<Rightarrow> create_discord" where
  "sample_create ct ev = \<lparr>cd_broadcasterId = ''b'', cd_event = ev, cd_costType = ct,
     cd_payload = JObj [(''content'', JStr ''live'')], cd_guildId = ''77'', cd_channelId = ''5'', cd_gameFilters = None\<rparr>"

lemma sample_create_fields [simp]:
  "cd_broadcasterId (sample_create ct ev) = ''b''" "cd_event (sample_create ct ev) = ev"
  "cd_costType (sample_create ct ev) = ct" "cd_payload (sample_create ct ev) = JObj [(''content'', JStr ''live'')]"
  "cd_guildId (sample_create ct ev) = ''77''"
  by (simp_all add: sample_create_def)

lemma populated_guilds [simp]: "w_guilds populated_world = []"
  by (simp add: populated_world_def)

lemma sample_event_found: "event_of_broadcaster ''b'' STREAM_ONLINE populated_world = Some sample_event"
  by (simp add: event_of_broadcaster_def sample_streamer_def sample_event_def)

lemma sample_user_fields [simp]: "u_id sample_user = ''u''" "u_balance sample_user = 100" "u_twitchAccountId sample_user = None"
  by (simp_all add: sample_user_def)

theorem private_events_refused_witness:
  "\<exists>m. createDiscordNotification sample_env (sample_create Personal CHANNEL_CHEER) ''u'' populated_world =
     (Inl (badRequest m), populated_world)"
  by (rule private_events_refused) simp_all

lemma sample_creation:
  "\<exists>n w'. createDiscordNotification sample_env (sample_create Personal STREAM_ONLINE) ''u'' populated_world = (Inr n, w')"
  using sample_event_found
  by (simp add: createDiscordNotification_def assertCanCreate_def publicStreamerEvents_def assertCanAfford_def exec
      resolveCost_def price_standard_def row_of_def getOrCreateEvent_def validateBotPayload_def content_payload
      applyCharge_def charge_user_def getOrCreateGuild_def guild_row_def insert_discord_def Let_def)


lemma populated_sound: "sound sample_env populated_world"
  by (simp add: sound_def stored_valid_def solvent_def)

theorem stored_payloads_valid_witness:
  "stored_valid sample_env (perform sample_env (CreateDiscord ''u'' (sample_create Personal STREAM_ONLINE)) populated_world)"
  using stored_payloads_valid [OF call [OF start] populated_sound] .

theorem balances_never_negative_witness:
  "solvent (perform sample_env (CreateDiscord ''u'' (sample_create Personal STREAM_ONLINE)) populated_world)"
  using balances_never_negative [OF call [OF start] populated_sound] .

definition own_notification :: discord_notification where
  "own_notification = \<lparr>dn_id = ''n'', dn_ownerId = ''u'', dn_cost = 0, dn_status = Suspended, dn_isDisabled = Some False,
     dn_costType = Credit, dn_channelId = ''5'', dn_guildId = ''g'', dn_streamerEventId = ''e'', dn_messagePayload = None,
     dn_gameFilters = [], dn_createdAt = 0\<rparr>"

definition to_guild :: update_discord where
  "to_guild = \<lparr>ud_costType = Some (Some Guild), ud_channelId = None, ud_payload = None, ud_isDisabled = None, ud_gameFilters = None\<rparr>"

theorem update_never_charges_witness:
  "\<exists>n'. fst (updateDiscordNotification sample_env ''n'' to_guild ''u'' (populated_world\<lparr>w_dnotifs := [own_notification]\<rparr>)) = Inr n'
     \<and> dn_costType n' = Guild \<and> dn_cost n' = 0 \<and> dn_status n' = Active"
proof -
  let ?w = "populated_world\<lparr>w_dnotifs := [own_notification]\<rparr>"
  have f: "row_of dn_id ''n'' (w_dnotifs ?w) = Some own_notification" by (simp add: row_of_def own_notification_def)
  obtain n' w' where r: "updateDiscordNotification sample_env ''n'' to_guild ''u'' ?w = (Inr n', w')"
    by (simp add: updateDiscordNotification_def exec discord_owner_or_admin_def changed_discord_def assign_def row_of_def
        own_notification_def to_guild_def)
  from update_never_charges [OF r f] r show ?thesis by (simp add: to_guild_def own_notification_def)
qed

end
