(* ===== verification/Roles.thy ===== *)
theory Roles imports Untyped begin

text \<open>
  \<open>apps/api/src/modules/roles\<close>: roles, the access they give, and who may change them. What a list
  endpoint takes from the database (pages, \<open>LIKE\<close>, orders) is here too, for all services.
\<close>

section \<open>Lists of rows\<close>

text \<open>\<open>new Set(xs)\<close> in the order of the first occurrences.\<close>

definition first_occurrences :: "'a list \<Rightarrow> 'a list" where
  "first_occurrences xs = rev (remdups (rev xs))"

lemma set_first_occurrences [simp]: "set (first_occurrences xs) = set xs"
  by (simp add: first_occurrences_def)

text \<open>\<open>text LIKE pattern\<close>: a percent sign is any text, an underscore any character, and a
  backslash takes the next character literally. A pattern that ends in a backslash is refused by
  the database; here it matches nothing.\<close>

function sql_like :: "string \<Rightarrow> string \<Rightarrow> bool" where
  "sql_like [] s = (s = [])"
| "sql_like (c # p) s =
     (if c = CHR ''%'' then sql_like p s \<or> (case s of [] \<Rightarrow> False | _ # t \<Rightarrow> sql_like (c # p) t)
      else if c = CHR 0x5C then
        (case p of [] \<Rightarrow> False | e # q \<Rightarrow> (case s of [] \<Rightarrow> False | x # t \<Rightarrow> x = e \<and> sql_like q t))
      else (case s of [] \<Rightarrow> False | x # t \<Rightarrow> (c = CHR ''_'' \<or> c = x) \<and> sql_like p t))"
  by pat_completeness auto
termination
  by (relation "measure (\<lambda>(p, s). length p + length s)") auto

definition like_or_all :: "string option \<Rightarrow> string \<Rightarrow> bool" where
  "like_or_all search s \<longleftrightarrow> (case search of None \<Rightarrow> True | Some [] \<Rightarrow> True | Some p \<Rightarrow> sql_like p s)"

definition newest_first :: "('r \<Rightarrow> time) \<Rightarrow> 'r list \<Rightarrow> 'r list" where
  "newest_first created = sort_key (\<lambda>r. - created r)"

section \<open>Access\<close>

(* apps/api/src/modules/roles/models/access.model.ts 3-6 IAccessModel *)
record access =
  ac_roles :: "string list"
  ac_permissions :: "permission list"

(* apps/api/src/modules/roles/mappers/roles.mapper.ts 22-31 RolesMapper.rolesToAccess *)
definition rolesToAccess :: "role list \<Rightarrow> access" where
  "rolesToAccess rs =
     \<lparr>ac_roles = map r_name rs, ac_permissions = first_occurrences (concat (map r_permissions rs))\<rparr>"

(* apps/api/src/modules/roles/models/role-item.model.ts 3-8 IRoleItemModel *)
record role_item =
  ri_id :: "string option"
  ri_name :: string
  ri_rolePriority :: int
  ri_permissions :: "permission list"

(* apps/api/src/modules/roles/mappers/roles.mapper.ts 7-10 RolesMapper.entityToListItem *)
definition entityToListItem :: "role \<Rightarrow> role_item" where
  "entityToListItem r =
     \<lparr>ri_id = Some (r_id r), ri_name = r_name r, ri_rolePriority = r_priority r, ri_permissions = r_permissions r\<rparr>"

(* apps/api/src/modules/roles/mappers/roles.mapper.ts 12-15 RolesMapper.entityToItem *)
definition entityToItem :: "role \<Rightarrow> role_item" where
  "entityToItem r =
     \<lparr>ri_id = Some (r_id r), ri_name = r_name r, ri_rolePriority = r_priority r, ri_permissions = r_permissions r\<rparr>"

(* apps/api/src/modules/roles/mappers/roles.mapper.ts 17-20 RolesMapper.entityToDictionaryItem *)
definition entityToDictionaryItem :: "role \<Rightarrow> string \<times> string" where
  "entityToDictionaryItem r = (r_id r, r_name r)"

definition roles_of :: "user \<Rightarrow> world \<Rightarrow> role list" where
  "roles_of u w = filter (\<lambda>r. r_id r \<in> set (u_roles u)) (w_roles w)"

definition user_roles :: "string \<Rightarrow> world \<Rightarrow> role list" where
  "user_roles userId w = (case row_of u_id userId (w_users w) of None \<Rightarrow> [] | Some u \<Rightarrow> roles_of u w)"

(* apps/api/src/modules/roles/services/roles.service.ts 19-32 RolesService.getRolesAccessesForUser *)
definition getRolesAccessesForUser :: "string \<Rightarrow> access act" where
  "getRolesAccessesForUser userId = gets (\<lambda>w. rolesToAccess (user_roles userId w))"

section \<open>Reading roles\<close>

(* apps/api/src/modules/roles/services/roles.service.ts 34-55 RolesService.getAll *)
definition getAllRoles :: "nat \<Rightarrow> nat \<Rightarrow> string option \<Rightarrow> (role_item list \<times> nat) act" where
  "getAllRoles page pageSize search =
     gets (\<lambda>w. let found = filter (\<lambda>r. like_or_all search (r_name r)) (w_roles w)
       in (map entityToListItem (page_rows page pageSize found), length found))"

(* apps/api/src/modules/roles/services/roles.service.ts 57-67 RolesService.getById *)
definition getRoleById :: "string \<Rightarrow> role_item act" where
  "getRoleById i =
     andThen (gets (\<lambda>w. row_of r_id i (w_roles w))) (\<lambda>found.
     andThen (orThrow (badRequest (''Cannot find Role with id \"'' @ i @ ''\"'')) found) (\<lambda>r. ret (entityToItem r)))"

section \<open>Changing roles\<close>

(* apps/api/src/modules/roles/dto/edit-role-request.dto.ts 6-23 EditRoleRequestDto *)
record edit_role =
  er_name :: string
  er_permissions :: "permission list"
  er_rolePriority :: int

(* apps/api/src/modules/roles/services/roles.service.ts 159-168 RolesService.checkUserRoleManageAccess *)
definition checkUserRoleManageAccess :: "permission list \<Rightarrow> role list \<Rightarrow> bool act" where
  "checkUserRoleManageAccess permissions owned =
     (let own = ac_permissions (rolesToAccess owned) in
      andThen (throwIf (ADMIN \<notin> set own \<and> (\<exists>p \<in> set permissions. p \<notin> set own))
        (forbidden ''Cannot performe action with not owned permission or without admin access'')) (\<lambda>_. ret True))"

text \<open>The name of a role is unique.\<close>

(* libs/database/src/entities/role.entity.ts 19-20 RoleEntity.name *)
definition name_free :: "string \<Rightarrow> string \<Rightarrow> unit act" where
  "name_free i name =
     andThen (gets (\<lambda>w. \<exists>r \<in> set (w_roles w). r_name r = name \<and> r_id r \<noteq> i)) (\<lambda>taken.
     throwIf taken (ScriptExc ''QueryFailedError''))"

text \<open>The priority defaults to 1 when the request leaves it out.\<close>

(* apps/api/src/modules/roles/services/roles.service.ts 69-82 RolesService.createRole *)
definition createRole :: "env \<Rightarrow> edit_role \<Rightarrow> string \<Rightarrow> role_item act" where
  "createRole E dto userId =
     andThen (gets (\<lambda>w. row_of u_id userId (w_users w))) (\<lambda>found.
     andThen (orThrow (ScriptExc ''EntityNotFoundError'') found) (\<lambda>u.
     andThen (gets (roles_of u)) (\<lambda>owned.
     andThen (checkUserRoleManageAccess (er_permissions dto) owned) (\<lambda>_.
     andThen (fresh_id E) (\<lambda>newId.
     andThen (name_free newId (er_name dto)) (\<lambda>_.
     let r = \<lparr>r_id = newId, r_name = er_name dto, r_priority = er_rolePriority dto, r_permissions = er_permissions dto\<rparr> in
     andThen (modify (w_roles_update (save_row r_id r))) (\<lambda>_. ret (entityToItem r))))))))"

text \<open>The highest role of a user above a priority.\<close>

definition role_above :: "int \<Rightarrow> string \<Rightarrow> world \<Rightarrow> role option" where
  "role_above p userId w =
     (case sort_key (\<lambda>r. - r_priority r) (filter (\<lambda>r. p < r_priority r) (user_roles userId w)) of
        [] \<Rightarrow> None | r # _ \<Rightarrow> Some r)"

(* apps/api/src/modules/roles/services/roles.service.ts 94-114 RolesService.editRole, the priorities *)
definition check_priority :: "int \<Rightarrow> int \<Rightarrow> string \<Rightarrow> unit act" where
  "check_priority current wanted userId =
     andThen (gets (role_above current userId)) (\<lambda>above.
     throwIf (case above of None \<Rightarrow> True | Some r \<Rightarrow> wanted \<noteq> 0 \<and> r_priority r \<le> wanted)
       (forbidden ''Cannot edit role for higher or equal prioirty''))"

(* apps/api/src/modules/roles/services/roles.service.ts 84-133 RolesService.editRole *)
definition editRole :: "edit_role \<Rightarrow> string \<Rightarrow> string \<Rightarrow> bool act" where
  "editRole dto roleId userId =
     andThen (gets (\<lambda>w. row_of r_id roleId (w_roles w))) (\<lambda>found.
     andThen (orThrow (badRequest (''Cannot find role with id \"'' @ roleId @ ''\"'')) found) (\<lambda>current.
     andThen (check_priority (r_priority current) (er_rolePriority dto) userId) (\<lambda>_.
     andThen (gets (user_roles userId)) (\<lambda>owned.
     andThen (checkUserRoleManageAccess (r_permissions current) owned) (\<lambda>_.
     andThen (checkUserRoleManageAccess (er_permissions dto) owned) (\<lambda>_.
     andThen (name_free roleId (er_name dto)) (\<lambda>_.
     andThen (gets (\<lambda>w. \<exists>r \<in> set (w_roles w). r_id r = roleId)) (\<lambda>affected.
     andThen (modify (w_roles_update (update_rows (\<lambda>r. r_id r = roleId)
       (\<lambda>r. r\<lparr>r_name := er_name dto, r_permissions := er_permissions dto, r_priority := er_rolePriority dto\<rparr>)))) (\<lambda>_.
     ret affected)))))))))"

text \<open>An entity that was removed has no identifier any more; its rows in the join table go with it.\<close>

(* apps/api/src/modules/roles/services/roles.service.ts 135-157 RolesService.deleteRole *)
definition deleteRole :: "string \<Rightarrow> string \<Rightarrow> role_item act" where
  "deleteRole roleId userId =
     andThen (gets (\<lambda>w. row_of r_id roleId (w_roles w))) (\<lambda>found.
     andThen (orThrow (badRequest (''Cannot find role with id \"'' @ roleId @ ''\"'')) found) (\<lambda>r.
     andThen (gets (role_above (r_priority r) userId)) (\<lambda>above.
     andThen (orThrow (ScriptExc ''EntityNotFoundError'') above) (\<lambda>_.
     andThen (modify (w_users_update (update_rows (\<lambda>u. True)
       (\<lambda>u. u\<lparr>u_roles := filter (\<lambda>i. i \<noteq> roleId) (u_roles u)\<rparr>)))) (\<lambda>_.
     andThen (modify (w_roles_update (delete_rows (\<lambda>x. r_id x = roleId)))) (\<lambda>_.
     ret ((entityToItem r)\<lparr>ri_id := None\<rparr>)))))))"

section \<open>No escalation\<close>

definition perms :: "string \<Rightarrow> world \<Rightarrow> permission set" where
  "perms userId w = set (ac_permissions (rolesToAccess (user_roles userId w)))"

definition new_role_ids :: "env \<Rightarrow> world \<Rightarrow> bool" where
  "new_role_ids E w \<longleftrightarrow> (\<forall>n. x_uuid E n \<notin> r_id ` set (w_roles w) \<and> (\<forall>u \<in> set (w_users w). x_uuid E n \<notin> set (u_roles u)))"

lemma perms_is: "perms userId w = (case row_of u_id userId (w_users w) of None \<Rightarrow> {}
    | Some u \<Rightarrow> (\<Union>r \<in> {r \<in> set (w_roles w). r_id r \<in> set (u_roles u)}. set (r_permissions r)))"
  by (auto simp: perms_def user_roles_def rolesToAccess_def roles_of_def split: option.split)

lemma access_checked:
  "checkUserRoleManageAccess ps (user_roles userId w) v = (Inr x, v') \<Longrightarrow>
     v' = v \<and> (ADMIN \<in> perms userId w \<or> set ps \<subseteq> perms userId w)"
  by (auto simp: checkUserRoleManageAccess_def Let_def perms_def exec split: if_splits)

lemma create_perms:
  assumes "new_role_ids E w"
  shows "perms v (snd (createRole E dto u w)) = perms v w"
proof -
  let ?r = "\<lparr>r_id = x_uuid E (w_ids w), r_name = er_name dto, r_priority = er_rolePriority dto, r_permissions = er_permissions dto\<rparr>"
  let ?w' = "snd (createRole E dto u w)"
  have "w_users ?w' = w_users w \<and> (w_roles ?w' = w_roles w \<or> w_roles ?w' = save_row r_id ?r (w_roles w))"
    by (auto simp: createRole_def exec checkUserRoleManageAccess_def name_free_def Let_def split: option.split)
  moreover have "x_uuid E (w_ids w) \<notin> r_id ` set (w_roles w)" using assms by (simp add: new_role_ids_def)
  ultimately have w': "w_users ?w' = w_users w" "w_roles ?w' = w_roles w \<or> w_roles ?w' = w_roles w @ [?r]"
    by (auto simp: save_row_def)
  show ?thesis
  proof (cases "row_of u_id v (w_users w)")
    case (Some x)
    then have "x_uuid E (w_ids w) \<notin> set (u_roles x)" using assms by (auto simp: new_role_ids_def dest: row_of_in)
    then show ?thesis using w' Some by (auto simp: perms_is)
  qed (use w' in \<open>simp add: perms_is\<close>)
qed

lemma edit_perms:
  assumes "ADMIN \<notin> perms u w"
  shows "perms v (snd (editRole dto i u w)) \<subseteq> perms v w \<union> perms u w"
proof -
  let ?w' = "snd (editRole dto i u w)"
  have "?w' = w \<or> (w_users ?w' = w_users w \<and> set (er_permissions dto) \<subseteq> perms u w \<and>
      w_roles ?w' = update_rows (\<lambda>r. r_id r = i)
        (\<lambda>r. r\<lparr>r_name := er_name dto, r_permissions := er_permissions dto, r_priority := er_rolePriority dto\<rparr>) (w_roles w))"
    using assms by (auto simp: editRole_def exec check_priority_def checkUserRoleManageAccess_def name_free_def Let_def
        perms_def split: option.split)
  then show ?thesis
  proof
    assume w': "w_users ?w' = w_users w \<and> set (er_permissions dto) \<subseteq> perms u w \<and>
      w_roles ?w' = update_rows (\<lambda>r. r_id r = i)
        (\<lambda>r. r\<lparr>r_name := er_name dto, r_permissions := er_permissions dto, r_priority := er_rolePriority dto\<rparr>) (w_roles w)"
    show ?thesis
    proof (cases "row_of u_id v (w_users w)")
      case (Some x)
      have "p \<in> perms v w \<or> p \<in> perms u w" if "p \<in> perms v ?w'" for p
        using that w' Some by (auto simp: perms_is [of v] dest!: update_rows_in split: if_splits)
      then show ?thesis by blast
    qed (use w' in \<open>simp add: perms_is [of v]\<close>)
  qed simp
qed

lemma delete_perms: "perms v (snd (deleteRole i u w)) \<subseteq> perms v w"
proof -
  let ?w' = "snd (deleteRole i u w)"
  have "?w' = w \<or> w_users ?w' = update_rows (\<lambda>u. True) (\<lambda>u. u\<lparr>u_roles := filter (\<lambda>j. j \<noteq> i) (u_roles u)\<rparr>) (w_users w)
      \<and> w_roles ?w' = delete_rows (\<lambda>x. r_id x = i) (w_roles w)"
    by (auto simp: deleteRole_def exec split: option.split)
  then show ?thesis
    by (cases "row_of u_id v (w_users w)") (auto simp: perms_is row_of_update set_delete)
qed

text \<open>
  C17. Nobody escalates through the role service: whatever a user without the administrator
  permission creates, edits or deletes, each user's permissions afterwards are ones that this user or
  the caller had before; the caller gains none.
\<close>

theorem roles_do_not_escalate:
  assumes "ADMIN \<notin> perms u w" and "new_role_ids E w"
    and "w' \<in> {snd (createRole E dto u w), snd (editRole dto i u w), snd (deleteRole i u w)}"
  shows "perms v w' \<subseteq> perms v w \<union> perms u w \<and> perms u w' \<subseteq> perms u w"
  using assms(3) create_perms [OF assms(2)] edit_perms [OF assms(1)] delete_perms by fast

definition manager_role :: role where
  "manager_role = \<lparr>r_id = ''m'', r_name = ''manager'', r_priority = 2, r_permissions = [MANAGE_ROLES]\<rparr>"

definition roles_world :: world where
  "roles_world = sample_world\<lparr>w_users := [sample_user\<lparr>u_roles := [''m'']\<rparr>], w_roles := [manager_role]\<rparr>"

definition grab :: edit_role where
  "grab = \<lparr>er_name = ''all'', er_permissions = [ADMIN], er_rolePriority = 9\<rparr>"

theorem roles_do_not_escalate_witness:
  "perms ''u'' (snd (createRole sample_env grab ''u'' roles_world)) \<subseteq> {MANAGE_ROLES}"
proof -
  have p: "perms ''u'' roles_world = {MANAGE_ROLES}"
    by (auto simp: perms_is row_of_def roles_world_def sample_user_def manager_role_def)
  have "x_uuid sample_env n \<noteq> ''m''" for n
    by (simp add: sample_env_def rows_of_def)
  then have "new_role_ids sample_env roles_world"
    by (simp add: new_role_ids_def roles_world_def manager_role_def)
  with p show ?thesis
    using roles_do_not_escalate [of "''u''" roles_world sample_env "snd (createRole sample_env grab ''u'' roles_world)" grab "''m''" "''u''"]
    by simp
qed

end
