(* ===== verification/Auth.thy ===== *)
theory Auth imports Roles Discord Subscriptions begin

text \<open>
  \<open>apps/api/src/modules/auth\<close>: accounts and sessions. A session row holds the bcrypt hash of its
  refresh token; access tokens are JSON web tokens, revoked by a black list in Redis. Signing
  (\<open>x_sign\<close>) and bcrypt (\<open>x_hash\<close>, \<open>x_compare\<close>) are library functions.
\<close>

section \<open>Passwords and tokens\<close>

(* apps/api/src/modules/auth/services/password.service.ts 6-8 PasswordService.hash *)
definition hash_password :: "env \<Rightarrow> string \<Rightarrow> string act" where
  "hash_password E p = andThen fresh (\<lambda>salt. ret (x_hash E salt p))"

(* apps/api/src/modules/auth/services/password.service.ts 10-12 PasswordService.verify *)
definition verify_password :: "env \<Rightarrow> string \<Rightarrow> string \<Rightarrow> bool act" where
  "verify_password E hashed pw = ret (x_compare E pw hashed)"

(* apps/api/src/modules/auth/models/token-type.enum.ts 1-4 TokenType *)
datatype token_type = Access | Refresh

(* apps/api/src/modules/auth/models/token-type.enum.ts 1-4 TokenType *)
fun token_type_text :: "token_type \<Rightarrow> string" where
  "token_type_text Access = ''access''"
| "token_type_text Refresh = ''refresh''"

(* libs/database/src/entities/role.entity.ts 4-12 Permission, its values *)
fun permission_text :: "permission \<Rightarrow> string" where
  "permission_text ADMIN = ''admin''"
| "permission_text READ_APPS = ''read_apps''"
| "permission_text MANAGE_APPS = ''manage_apps''"
| "permission_text READ_ROLES = ''read_roles''"
| "permission_text MANAGE_ROLES = ''manage_roles''"

(* apps/api/src/modules/auth/models/access-token-payload.model.ts 4-12 IAccessTokenPayload *)
record access_claims =
  ak_use :: token_type
  ak_sub :: string
  ak_jti :: string
  ak_sessionId :: string
  ak_exp :: int
  ak_permissions :: "permission list"
  ak_roles :: "string list"

(* apps/api/src/modules/auth/models/refresh-token-payload.model.ts 3-7 IRefreshTokenPayload *)
record refresh_claims =
  rk_use :: token_type
  rk_sub :: string
  rk_sessionId :: string

(* apps/api/src/modules/auth/models/token.model.ts 1-4 ITokenModel *)
record token_pair =
  tp_accessToken :: string
  tp_refreshToken :: string

(* apps/api/src/modules/auth/services/auth.service.ts 411-419 AuthService.signTokenPayload *)
definition signTokenPayload :: "env \<Rightarrow> json \<Rightarrow> token_type \<Rightarrow> string act" where
  "signTokenPayload E payload t = gets (\<lambda>w. x_sign E (token_type_text t) payload (w_now w))"

(* apps/api/src/modules/auth/services/auth.service.ts 386-409 AuthService.generateTokens *)
definition generateTokens :: "env \<Rightarrow> string \<Rightarrow> permission list \<Rightarrow> string list \<Rightarrow> string \<Rightarrow> token_pair act" where
  "generateTokens E userId permissions roles sessionId =
     andThen (fresh_id E) (\<lambda>jti.
     andThen (signTokenPayload E (JObj
       [(''use'', JStr (token_type_text Access)), (''sub'', JStr userId), (''jti'', JStr jti),
        (''sessionId'', JStr sessionId), (''permissions'', JArr (map (\<lambda>p. JStr (permission_text p)) permissions)),
        (''roles'', JArr (map JStr roles))]) Access) (\<lambda>at.
     andThen (signTokenPayload E (JObj
       [(''use'', JStr (token_type_text Refresh)), (''sub'', JStr userId), (''sessionId'', JStr sessionId)]) Refresh) (\<lambda>rt.
     ret \<lparr>tp_accessToken = at, tp_refreshToken = rt\<rparr>)))"

section \<open>Answers\<close>

(* apps/api/src/modules/auth/models/user-payload.model.ts 3-12 IUserPayload *)
record user_payload =
  pf_id :: string
  pf_displayName :: string
  pf_discordId :: "string option"
  pf_twitchLogin :: "string option"
  pf_allowPersonalSubscriptions :: bool
  pf_roles :: "string list"
  pf_permissions :: "permission list"
  pf_balance :: credits

(* apps/api/src/modules/auth/models/auth-response.model.ts 4-7 IAuthResponse *)
record auth_response =
  ar_tokens :: token_pair
  ar_user :: user_payload

(* apps/api/src/modules/auth/models/session.model.ts 1-5 ISessionModel *)
record session_model =
  sm_id :: string
  sm_createdAt :: time
  sm_expiresAt :: time

(* apps/api/src/modules/auth/mappers/auth.mapper.ts 19-32 AuthMapper.toUserPayload *)
definition toUserPayload :: "user \<Rightarrow> role list \<Rightarrow> streamer option \<Rightarrow> user_payload" where
  "toUserPayload u roles twitchAccount =
     \<lparr>pf_id = u_id u, pf_displayName = u_displayName u, pf_discordId = u_discordId u,
      pf_twitchLogin = map_option st_twitchLogin twitchAccount,
      pf_allowPersonalSubscriptions = (case twitchAccount of None \<Rightarrow> False | Some st \<Rightarrow> st_allowPersonalSubscriptions st),
      pf_roles = ac_roles (rolesToAccess roles), pf_permissions = ac_permissions (rolesToAccess roles),
      pf_balance = u_balance u\<rparr>"

(* apps/api/src/modules/auth/mappers/auth.mapper.ts 12-17 AuthMapper.toAuthResponse *)
definition toAuthResponse :: "user \<Rightarrow> role list \<Rightarrow> token_pair \<Rightarrow> auth_response" where
  "toAuthResponse u roles tokens = \<lparr>ar_tokens = tokens, ar_user = toUserPayload u roles None\<rparr>"

(* apps/api/src/modules/auth/mappers/auth.mapper.ts 34-40 AuthMapper.toSessionDto *)
definition toSessionDto :: "session \<Rightarrow> session_model" where
  "toSessionDto s = \<lparr>sm_id = s_id s, sm_createdAt = s_createdAt s, sm_expiresAt = s_expiresAt s\<rparr>"

section \<open>Sessions\<close>

(* apps/api/src/modules/auth/services/auth.service.ts 362-384 AuthService.createSession *)
definition createSession :: "env \<Rightarrow> user \<Rightarrow> role list \<Rightarrow> permission list \<Rightarrow> string list \<Rightarrow> auth_response act" where
  "createSession E u loaded permissions roles =
     andThen (fresh_id E) (\<lambda>sessionId.
     andThen (generateTokens E (u_id u) permissions roles sessionId) (\<lambda>tokens.
     andThen (gets w_now) (\<lambda>now.
     andThen (hash_password E (tp_refreshToken tokens)) (\<lambda>h.
     andThen (modify (w_sessions_update (save_row s_id
       \<lparr>s_id = sessionId, s_userId = u_id u, s_refreshTokenHash = h,
        s_expiresAt = now + x_refresh_ttl E * 1000, s_createdAt = now\<rparr>))) (\<lambda>_.
     ret (toAuthResponse u loaded tokens))))))"

(* apps/api/src/modules/auth/services/auth.service.ts 353-360 AuthService.verifyRefreshToken *)
definition verifyRefreshToken :: "env \<Rightarrow> string \<Rightarrow> string \<Rightarrow> bool act" where
  "verifyRefreshToken E sessionId rawToken =
     andThen (gets (\<lambda>w. row_of s_id sessionId (w_sessions w))) (\<lambda>found.
     andThen (gets w_now) (\<lambda>now.
     case found of
       None \<Rightarrow> ret False
     | Some s \<Rightarrow> if s_expiresAt s < now then ret False else verify_password E (s_refreshTokenHash s) rawToken))"

definition session_of :: "string \<Rightarrow> string \<Rightarrow> world \<Rightarrow> session option" where
  "session_of sessionId userId w = find (\<lambda>s. s_id s = sessionId \<and> s_userId s = userId) (w_sessions w)"

(* apps/api/src/modules/auth/services/auth.service.ts 421-426 AuthService.blacklistAccessToken *)
definition blacklistAccessToken :: "string \<Rightarrow> int \<Rightarrow> unit act" where
  "blacklistAccessToken jti accessExp =
     andThen (gets w_now) (\<lambda>now.
     let ttlSeconds = max 0 (accessExp - now div 1000) in
     whenever (0 < ttlSeconds) (redis_set (accessTokenBlackList jti) (JNum ''1'') (nat ttlSeconds)))"

(* apps/api/src/modules/auth/services/auth.service.ts 183-194 AuthService.logout *)
definition logout :: "string \<Rightarrow> string \<Rightarrow> string \<Rightarrow> int \<Rightarrow> bool act" where
  "logout userId sessionId accessJti accessExp =
     andThen (gets (session_of sessionId userId)) (\<lambda>found.
     if found = None then ret False
     else
       andThen (modify (w_sessions_update (delete_rows (\<lambda>s. s_id s = sessionId)))) (\<lambda>_.
       andThen (blacklistAccessToken accessJti accessExp) (\<lambda>_. ret True)))"

text \<open>The sessions left after the filter are never more than all sessions, so nothing is deleted.\<close>

(* apps/api/src/modules/auth/services/auth.service.ts 196-207 AuthService.getSessions *)
definition getSessions :: "string \<Rightarrow> session_model list act" where
  "getSessions userId =
     andThen (gets (\<lambda>w. newest_first s_createdAt (filter (\<lambda>s. s_userId s = userId) (w_sessions w)))) (\<lambda>ss.
     andThen (gets w_now) (\<lambda>now.
     let live = filter (\<lambda>s. now \<le> s_expiresAt s) ss in
     andThen (whenever (length ss < length live)
       (modify (w_sessions_update (delete_rows (\<lambda>x. x \<in> set ss \<and> x \<notin> set live))))) (\<lambda>_.
     ret (map toSessionDto live))))"

(* apps/api/src/modules/auth/services/auth.service.ts 209-218 AuthService.revokeSession *)
definition revokeSession :: "string \<Rightarrow> string \<Rightarrow> bool act" where
  "revokeSession userId sessionId =
     andThen (gets (session_of sessionId userId)) (\<lambda>found.
     andThen (throwIf (found = None) (notFound ''Session not found'')) (\<lambda>_.
     andThen (modify (w_sessions_update (delete_rows (\<lambda>s. s_id s = sessionId)))) (\<lambda>_. ret True)))"

section \<open>Logging in\<close>

(* apps/api/src/modules/auth/services/auth.service.ts 35-35 BASE_BALANCE *)
definition base_balance :: credits where
  "base_balance = 100"

text \<open>Email and Discord account of a user are unique.\<close>

definition unique_user :: "user \<Rightarrow> world \<Rightarrow> bool" where
  "unique_user u w \<longleftrightarrow> (\<forall>x \<in> set (w_users w). u_id x \<noteq> u_id u \<longrightarrow>
     (u_email u \<noteq> None \<longrightarrow> u_email x \<noteq> u_email u) \<and> (u_discordId u \<noteq> None \<longrightarrow> u_discordId x \<noteq> u_discordId u))"

definition save_user :: "user \<Rightarrow> unit act" where
  "save_user u =
     andThen (gets (unique_user u)) (\<lambda>ok.
     andThen (throwIf (\<not> ok) (ScriptExc ''QueryFailedError'')) (\<lambda>_.
     modify (w_users_update (save_row u_id u))))"

definition new_user :: "env \<Rightarrow> (string \<Rightarrow> time \<Rightarrow> user) \<Rightarrow> user act" where
  "new_user E f =
     andThen (fresh_id E) (\<lambda>newId.
     andThen (gets w_now) (\<lambda>now.
     andThen (save_user (f newId now)) (\<lambda>_. ret (f newId now))))"

definition blank_user :: "string \<Rightarrow> time \<Rightarrow> string \<Rightarrow> user" where
  "blank_user newId now displayName =
     \<lparr>u_id = newId, u_displayName = displayName, u_balance = base_balance, u_email = None, u_discordId = None,
      u_password = None, u_status = ACTIVE, u_discordAccessToken = None, u_discordRefreshToken = None,
      u_discordTokenExpiresAt = None, u_twitchAccessToken = None, u_twitchRefreshToken = None,
      u_twitchTokenExpiresAt = None, u_twitchAccountId = None, u_roles = [], u_createdAt = now\<rparr>"

text \<open>A condition whose value is undefined or null is dropped from the query.\<close>

(* apps/api/src/modules/auth/services/auth.service.ts 67-73 AuthService.authByDiscordCode, the query *)
definition discord_user :: "discord_me \<Rightarrow> world \<Rightarrow> user option" where
  "discord_user me w =
     find (\<lambda>u. (me_email me \<noteq> None \<and> u_email u = me_email me) \<or> u_discordId u = Some (me_id me)) (w_users w)"

(* apps/api/src/modules/auth/services/auth.service.ts 87-98 AuthService.authByDiscordCode, a new user *)
definition new_discord_user :: "env \<Rightarrow> discord_me \<Rightarrow> discord_tokens \<Rightarrow> user act" where
  "new_discord_user E me tokens =
     new_user E (\<lambda>newId now. (blank_user newId now (me_globalName me))\<lparr>
       u_email := me_email me, u_discordId := Some (me_id me), u_discordAccessToken := Some (dk_accessToken tokens),
       u_discordRefreshToken := Some (dk_refreshToken tokens),
       u_discordTokenExpiresAt := Some (now + dk_expiresIn tokens * 1000)\<rparr>)"

(* apps/api/src/modules/auth/services/auth.service.ts 75-86 AuthService.authByDiscordCode, a known user *)
definition known_discord_user :: "discord_me \<Rightarrow> discord_tokens \<Rightarrow> user \<Rightarrow> user act" where
  "known_discord_user me tokens u =
     andThen (throwIf (u_status u = BLOCKED) (forbidden ''Account is blocked'')) (\<lambda>_.
     andThen (gets w_now) (\<lambda>now.
     let u' = u\<lparr>u_discordId := Some (me_id me), u_discordAccessToken := Some (dk_accessToken tokens),
          u_discordRefreshToken := Some (dk_refreshToken tokens),
          u_discordTokenExpiresAt := Some (now + dk_expiresIn tokens * 1000)\<rparr> in
     andThen (save_user u') (\<lambda>_. ret u')))"

(* apps/api/src/modules/auth/services/auth.service.ts 63-102 AuthService.authByDiscordCode *)
definition authByDiscordCode :: "env \<Rightarrow> string \<Rightarrow> auth_response act" where
  "authByDiscordCode E code =
     andThen (exchangeDiscordCode E code) (\<lambda>tokens.
     andThen (fetchMeUserByToken E (dk_accessToken tokens)) (\<lambda>me.
     andThen (gets (discord_user me)) (\<lambda>found.
     andThen (case found of Some u \<Rightarrow> known_discord_user me tokens u | None \<Rightarrow> new_discord_user E me tokens) (\<lambda>u.
     andThen (getRolesAccessesForUser (u_id u)) (\<lambda>acc.
     andThen (gets (roles_of u)) (\<lambda>loaded.
     createSession E u loaded (ac_permissions acc) (ac_roles acc)))))))"

(* apps/api/src/modules/auth/services/auth.service.ts 104-125 AuthService.loginByEmail *)
definition loginByEmail :: "env \<Rightarrow> string \<Rightarrow> string \<Rightarrow> auth_response act" where
  "loginByEmail E email password =
     andThen (gets (\<lambda>w. find (\<lambda>u. u_email u = Some email \<and> u_password u \<noteq> None) (w_users w))) (\<lambda>found.
     andThen (orThrow (badRequest ''Invalid credentials'') found) (\<lambda>u.
     andThen (throwIf (u_status u = BLOCKED) (forbidden ''Account is blocked'')) (\<lambda>_.
     andThen (verify_password E (the (u_password u)) password) (\<lambda>ok.
     andThen (throwIf (\<not> ok) (badRequest ''Invalid credentials'')) (\<lambda>_.
     andThen (getRolesAccessesForUser (u_id u)) (\<lambda>acc.
     andThen (gets (roles_of u)) (\<lambda>loaded.
     createSession E u loaded (ac_permissions acc) (ac_roles acc))))))))"

(* apps/api/src/modules/auth/services/auth.service.ts 127-145 AuthService.registerByEmail *)
definition registerByEmail :: "env \<Rightarrow> string \<Rightarrow> string \<Rightarrow> string \<Rightarrow> auth_response act" where
  "registerByEmail E email password displayName =
     andThen (gets (\<lambda>w. \<exists>u \<in> set (w_users w). u_email u = Some email)) (\<lambda>existing.
     andThen (throwIf existing (badRequest ''Email is already in use'')) (\<lambda>_.
     andThen (hash_password E password) (\<lambda>hashed.
     andThen (new_user E (\<lambda>newId now. (blank_user newId now displayName)\<lparr>u_email := Some email, u_password := Some hashed\<rparr>)) (\<lambda>u.
     createSession E u [] [] []))))"

(* apps/api/src/modules/auth/services/auth.service.ts 147-176 AuthService.refreshToken *)
definition refreshToken :: "env \<Rightarrow> string \<Rightarrow> string \<Rightarrow> auth_response act" where
  "refreshToken E userId sessionId =
     andThen (gets (\<lambda>w. row_of u_id userId (w_users w))) (\<lambda>found.
     andThen (orThrow (unauthorized ''Unauthorized'') found) (\<lambda>u.
     andThen (throwIf (u_status u = BLOCKED) (forbidden ''Account is blocked'')) (\<lambda>_.
     andThen (gets (session_of sessionId userId)) (\<lambda>s.
     andThen (throwIf (s = None) (unauthorized ''Unauthorized'')) (\<lambda>_.
     andThen (getRolesAccessesForUser (u_id u)) (\<lambda>acc.
     andThen (generateTokens E userId (ac_permissions acc) (ac_roles acc) sessionId) (\<lambda>tokens.
     andThen (hash_password E (tp_refreshToken tokens)) (\<lambda>h.
     andThen (modify (w_sessions_update (update_rows (\<lambda>s. s_id s = sessionId) (\<lambda>s. s\<lparr>s_refreshTokenHash := h\<rparr>)))) (\<lambda>_.
     andThen (gets (roles_of u)) (\<lambda>loaded.
     ret (toAuthResponse u loaded tokens)))))))))))"

(* apps/api/src/modules/auth/services/auth.service.ts 178-181 AuthService.refreshDiscordToken *)
definition refreshDiscordToken :: "env \<Rightarrow> string \<Rightarrow> bool act" where
  "refreshDiscordToken E userId = andThen (validateDiscordConnection E userId) (\<lambda>_. ret True)"

section \<open>Linked accounts\<close>

(* apps/api/src/modules/auth/services/auth.service.ts 220-239 AuthService.linkDiscord *)
definition linkDiscord :: "env \<Rightarrow> string \<Rightarrow> string \<Rightarrow> unit act" where
  "linkDiscord E userId code =
     andThen (exchangeDiscordCode E code) (\<lambda>tokens.
     andThen (fetchMeUserByToken E (dk_accessToken tokens)) (\<lambda>me.
     andThen (gets (discord_user me)) (\<lambda>conflicting.
     andThen (throwIf (case conflicting of None \<Rightarrow> False | Some u \<Rightarrow> u_id u \<noteq> userId)
       (badRequest ''This Discord account is already linked to another user'')) (\<lambda>_.
     andThen (gets (\<lambda>w. \<exists>x \<in> set (w_users w). u_id x \<noteq> userId \<and> u_discordId x = Some (me_id me))) (\<lambda>taken.
     andThen (throwIf taken (ScriptExc ''QueryFailedError'')) (\<lambda>_.
     modify (w_users_update (update_rows (\<lambda>u. u_id u = userId)
       (\<lambda>u. u\<lparr>u_discordId := Some (me_id me), u_discordAccessToken := Some (dk_accessToken tokens)\<rparr>)))))))))"

(* apps/api/src/modules/auth/services/auth.service.ts 241-256 AuthService.unlinkDiscord *)
definition unlinkDiscord :: "string \<Rightarrow> unit act" where
  "unlinkDiscord userId =
     andThen (gets (\<lambda>w. row_of u_id userId (w_users w))) (\<lambda>found.
     andThen (orThrow (notFound ''User not found'') found) (\<lambda>u.
     andThen (throwIf (\<not> truthy (u_discordId u)) (badRequest ''No Discord account linked'')) (\<lambda>_.
     andThen (throwIf (\<not> truthy (u_password u))
       (badRequest ''Cannot unlink Discord: no password set. Set a password first.'')) (\<lambda>_.
     modify (w_users_update (update_rows (\<lambda>u. u_id u = userId)
       (\<lambda>u. u\<lparr>u_discordId := None, u_discordAccessToken := None, u_discordRefreshToken := None\<rparr>)))))))"

(* apps/api/src/modules/auth/services/auth.service.ts 267-287 AuthService.linkTwitch, the streamer *)
definition linked_streamer :: "env \<Rightarrow> string \<Rightarrow> api_user \<Rightarrow> streamer act" where
  "linked_streamer E userId me =
     andThen (gets (\<lambda>w. find (\<lambda>st. st_broadcasterId st = au_broadcasterId me) (w_streamers w))) (\<lambda>found.
     andThen (throwIf (case found of None \<Rightarrow> False | Some st \<Rightarrow> truthy (st_userId st) \<and> st_userId st \<noteq> Some userId)
       (badRequest ''This Twitch account is already linked to another user'')) (\<lambda>_.
     andThen (gets w_now) (\<lambda>now.
     andThen (case found of
         Some st \<Rightarrow> ret st
       | None \<Rightarrow>
           andThen (fresh_id E) (\<lambda>newId.
           ret \<lparr>st_id = newId, st_broadcasterId = au_broadcasterId me, st_twitchLogin = au_login me,
                st_displayName = au_displayName me, st_profileImageUrl = au_profileImageUrl me,
                st_profileImageUpdatedAt = Some now, st_isPartner = False, st_isInternal = Some False,
                st_userId = None, st_allowPersonalSubscriptions = True, st_createdAt = now\<rparr>)) (\<lambda>st.
     let st' = st\<lparr>st_userId := Some userId, st_allowPersonalSubscriptions := True\<rparr> in
     andThen (gets (\<lambda>w. \<exists>x \<in> set (w_streamers w). st_id x \<noteq> st_id st' \<and> st_userId x = Some userId)) (\<lambda>taken.
     andThen (throwIf taken (ScriptExc ''QueryFailedError'')) (\<lambda>_.
     andThen (modify (w_streamers_update (save_row st_id st'))) (\<lambda>_. ret st')))))))"

(* apps/api/src/modules/auth/services/auth.service.ts 258-300 AuthService.linkTwitch *)
definition linkTwitch :: "env \<Rightarrow> string \<Rightarrow> string \<Rightarrow> unit act" where
  "linkTwitch E userId code =
     andThen (exchangeCodeForTokens E code) (\<lambda>tokens.
     andThen (getInternalApp E False) (\<lambda>internal.
     andThen (getUserByToken E (tm_accessToken tokens) (a_clientId internal)) (\<lambda>found.
     andThen (orThrow (badRequest ''Could not fetch Twitch account information'') found) (\<lambda>me.
     andThen (linked_streamer E userId me) (\<lambda>st.
     andThen (store_twitch_tokens E userId tokens) (\<lambda>_.
     migrateToUserAuthorizedSubscriptions E (st_id st) userId))))))"

definition streamer_of_user :: "string \<Rightarrow> world \<Rightarrow> streamer option" where
  "streamer_of_user userId w = find (\<lambda>st. st_userId st = Some userId) (w_streamers w)"

definition update_streamer :: "string \<Rightarrow> (streamer \<Rightarrow> streamer) \<Rightarrow> unit act" where
  "update_streamer i f = modify (w_streamers_update (update_rows (\<lambda>st. st_id st = i) f))"

(* apps/api/src/modules/auth/services/auth.service.ts 302-326 AuthService.unlinkTwitch *)
definition unlinkTwitch :: "env \<Rightarrow> string \<Rightarrow> unit act" where
  "unlinkTwitch E userId =
     andThen (gets (streamer_of_user userId)) (\<lambda>found.
     andThen (orThrow (badRequest ''No Twitch account linked'') found) (\<lambda>st.
     andThen (downgradeUserAuthorizedSubscriptions E (st_id st)) (\<lambda>_.
     andThen (update_streamer (st_id st) (\<lambda>x. x\<lparr>st_userId := None\<rparr>)) (\<lambda>_.
     modify (w_users_update (update_rows (\<lambda>u. u_id u = userId)
       (\<lambda>u. u\<lparr>u_twitchAccessToken := None, u_twitchRefreshToken := None, u_twitchTokenExpiresAt := None\<rparr>)))))))"

(* apps/api/src/modules/auth/services/auth.service.ts 328-351 AuthService.setTwitchPersonalAuth *)
definition setTwitchPersonalAuth :: "env \<Rightarrow> string \<Rightarrow> bool \<Rightarrow> unit act" where
  "setTwitchPersonalAuth E userId enabled =
     andThen (gets (streamer_of_user userId)) (\<lambda>found.
     andThen (orThrow (badRequest ''No Twitch account linked'') found) (\<lambda>st.
     if st_allowPersonalSubscriptions st = enabled then ret ()
     else
       andThen (update_streamer (st_id st) (\<lambda>x. x\<lparr>st_allowPersonalSubscriptions := enabled\<rparr>)) (\<lambda>_.
       if enabled then migrateToUserAuthorizedSubscriptions E (st_id st) userId
       else downgradeUserAuthorizedSubscriptions E (st_id st))))"

end
