(* ===== verification/Interleaving.thy ===== *)
theory Interleaving imports Charges Auth begin

text \<open>
  The API answers requests concurrently: a handler runs until it awaits, then any other may go on.
  A thread is what is left of a handler; each turn runs one awaited call of it, with the awaits inside that call. Here the calls of the
  notification service are threads, and what they keep is kept under every interleaving.
\<close>

section \<open>Threads\<close>

datatype thread = Finished | Await "world \<Rightarrow> thread \<times> world"

text \<open>One awaited call, then the rest of the handler with its result; an exception ends the handler.\<close>

definition await :: "'a act \<Rightarrow> ('a \<Rightarrow> thread) \<Rightarrow> thread" where
  "await m k = Await (\<lambda>w. case m w of (Inl e, w') \<Rightarrow> (Finished, w') | (Inr x, w') \<Rightarrow> (k x, w'))"

definition last_await :: "'a act \<Rightarrow> thread" where
  "last_await m = await m (\<lambda>_. Finished)"

text \<open>A thread that nobody interrupts.\<close>

primrec alone :: "thread \<Rightarrow> world \<Rightarrow> world" where
  "alone Finished = (\<lambda>w. w)"
| "alone (Await f) = (\<lambda>w. case (map_prod alone id \<circ> f) w of (g, w') \<Rightarrow> g w')"

lemma alone_await [simp]:
  "alone (await m k) w = (case m w of (Inl e, w') \<Rightarrow> w' | (Inr x, w') \<Rightarrow> alone (k x) w')"
  by (simp add: await_def split: prod.split sum.split)

lemma alone_last [simp]: "alone (last_await m) w = snd (m w)"
  by (simp add: last_await_def split: prod.split sum.split)

lemma alone_then: "(\<And>x v. alone (k x) v = snd (f x v)) \<Longrightarrow> alone (await m k) w = snd (andThen m f w)"
  by (simp add: exec split: prod.split sum.split)

text \<open>Turns of concurrent threads, in any order and as many as one likes.\<close>

inductive turns :: "thread list \<Rightarrow> world \<Rightarrow> thread list \<Rightarrow> world \<Rightarrow> bool" for ts w where
  begun: "turns ts w ts w"
| turn: "turns ts w us v \<Longrightarrow> i < length us \<Longrightarrow> us ! i = Await f \<Longrightarrow> f v = (t, v') \<Longrightarrow> turns ts w (us[i := t]) v'"

text \<open>Uninterrupted runs are among the interleavings.\<close>

lemma runs_to_end:
  "turns ts w us v \<Longrightarrow> i < length us \<Longrightarrow> us ! i = t \<Longrightarrow> turns ts w (us[i := Finished]) (alone t v)"
proof (induction t arbitrary: us v)
  case Finished
  then show ?case using list_update_id [of us i] by simp
next
  case (Await f)
  obtain t v' where f: "f v = (t, v')" by fastforce
  from Await.prems f have "turns ts w (us[i := t]) v'" by (rule turn)
  then have "turns ts w (us[i := t, i := Finished]) (alone t v')"
    using Await.prems(2) f by (intro Await.IH [OF rangeI [of f v]]) auto
  then show ?case using f by simp
qed

lemmas runs_alone = runs_to_end [OF _ _ refl]

text \<open>Every turn of a steady thread keeps the invariant, whatever the others did in between.\<close>

inductive steady :: "(world \<Rightarrow> bool) \<Rightarrow> thread \<Rightarrow> bool" for I where
  steady_end: "steady I Finished"
| steady_turn: "(\<And>w. I w \<Longrightarrow> I (snd (f w)) \<and> steady I (fst (f w))) \<Longrightarrow> steady I (Await f)"

inductive_cases steady_AwaitE: "steady I (Await f)"

lemma steady_AwaitD: "steady I (Await f) \<Longrightarrow> I v \<Longrightarrow> I (snd (f v)) \<and> steady I (fst (f v))"
  by (erule steady_AwaitE) blast

lemma turns_keep:
  assumes "turns ts w us v" and "I w" and "\<forall>t \<in> set ts. steady I t"
  shows "I v \<and> (\<forall>t \<in> set us. steady I t)"
  using assms
proof (induction rule: turns.induct)
  case (turn us v i f t v')
  then have "steady I (Await f)" and "I v" by (metis in_set_conv_nth)+
  from steady_AwaitD [OF this] have "I v' \<and> steady I t" using turn.hyps(4) by simp
  with turn.IH turn.prems show ?case by (auto dest: set_update_subset_insert [THEN subsetD])
qed simp

lemma steady_await:
  assumes "relates (keeps I) m" and "\<And>w x w'. I w \<Longrightarrow> m w = (Inr x, w') \<Longrightarrow> steady I (k x)"
  shows "steady I (await m k)"
  unfolding await_def
proof (rule steady_turn)
  fix w assume w: "I w"
  then show "I (snd (case m w of (Inl e, w') \<Rightarrow> (Finished, w') | (Inr x, w') \<Rightarrow> (k x, w'))) \<and>
      steady I (fst (case m w of (Inl e, w') \<Rightarrow> (Finished, w') | (Inr x, w') \<Rightarrow> (k x, w')))"
    using keepsD [OF assms(1) w] assms(2) [OF w] by (auto intro: steady_end split: prod.split sum.split)
qed

lemma steady_then: "relates (keeps I) m \<Longrightarrow> (\<And>x. steady I (k x)) \<Longrightarrow> steady I (await m k)"
  by (rule steady_await)

lemma steady_last: "relates (keeps I) m \<Longrightarrow> steady I (last_await m)"
  unfolding last_await_def by (intro steady_then steady_end)

section \<open>The calls of the notification service\<close>

(* apps/api/src/modules/notifications/services/twitch-notifications.service.ts 32-63 TwitchNotificationsService.createDiscordNotification, await by await *)
definition creating_discord :: "env \<Rightarrow> create_discord \<Rightarrow> string \<Rightarrow> thread" where
  "creating_discord E dto ownerId =
     await (assertCanCreate ownerId (cd_broadcasterId dto) (cd_event dto)) (\<lambda>_.
     await (assertCanAfford ownerId (cd_broadcasterId dto) (cd_costType dto) (Some (cd_guildId dto))) (\<lambda>_.
     await (getOrCreateEvent E (cd_broadcasterId dto) (cd_event dto)) (\<lambda>subscription.
     await (validateBotPayload E (cd_payload dto)) (\<lambda>_.
     await (applyCharge ownerId (resolveCost (cd_costType dto)) (cd_costType dto) (Some (cd_guildId dto))) (\<lambda>_.
     await (getOrCreateGuild E (cd_guildId dto)) (\<lambda>g.
     last_await (insert_discord E (\<lambda>newId now.
       \<lparr>dn_id = newId, dn_ownerId = ownerId, dn_cost = resolveCost (cd_costType dto), dn_status = Active,
        dn_isDisabled = Some False, dn_costType = cd_costType dto, dn_channelId = cd_channelId dto,
        dn_guildId = g_id g, dn_streamerEventId = e_id subscription, dn_messagePayload = Some (cd_payload dto),
        dn_gameFilters = or_empty (cd_gameFilters dto), dn_createdAt = now\<rparr>))))))))"

(* apps/api/src/modules/notifications/services/twitch-notifications.service.ts 65-106 TwitchNotificationsService.createWebhookNotification, await by await *)
definition creating_webhook :: "env \<Rightarrow> create_webhook \<Rightarrow> string \<Rightarrow> string option \<Rightarrow> thread" where
  "creating_webhook E dto ownerId guildId =
     await (assertCanCreate ownerId (cw_broadcasterId dto) (cw_event dto)) (\<lambda>_.
     await (assertCanAfford ownerId (cw_broadcasterId dto) (cw_costType dto) guildId) (\<lambda>_.
     await (getOrCreateEvent E (cw_broadcasterId dto) (cw_event dto)) (\<lambda>subscription.
     await (detectWebhookType (cw_webhookUrl dto)) (\<lambda>webhookType.
     await (whenever (webhookType = WebhookDiscord)
       (andThen (validateWebhookPayload E (cw_payload dto)) (\<lambda>_. ret ()))) (\<lambda>_.
     await (webhook_guild E (cw_webhookUrl dto) guildId) (\<lambda>g.
     await (applyCharge ownerId (resolveCost (cw_costType dto)) (cw_costType dto) guildId) (\<lambda>_.
     last_await (insert_webhook E (\<lambda>newId now.
       \<lparr>wn_id = newId, wn_streamerEventId = e_id subscription, wn_ownerId = ownerId,
        wn_cost = resolveCost (cw_costType dto), wn_status = Active, wn_isDisabled = Some False,
        wn_costType = cw_costType dto, wn_type = webhookType, wn_webhookUrl = Some (cw_webhookUrl dto),
        wn_guildId = g, wn_messagePayload = Some (cw_payload dto),
        wn_gameFilters = or_empty (cw_gameFilters dto), wn_createdAt = now\<rparr>)))))))))"

(* apps/api/src/modules/notifications/services/twitch-notifications.service.ts 142-171 TwitchNotificationsService.updateDiscordNotification, await by await *)
definition updating_discord :: "env \<Rightarrow> string \<Rightarrow> update_discord \<Rightarrow> string \<Rightarrow> thread" where
  "updating_discord E i dto ownerId =
     await (andThen (gets (\<lambda>w. row_of dn_id i (w_dnotifs w))) (orThrow (notFound ''Notification not found''))) (\<lambda>n.
     await (discord_owner_or_admin E n ownerId) (\<lambda>_.
     await (changed_discord E dto n) (\<lambda>n'.
     last_await (modify (w_dnotifs_update (save_row dn_id (n'\<lparr>dn_status := Active\<rparr>)))))))"

(* apps/api/src/modules/notifications/services/twitch-notifications.service.ts 173-220 TwitchNotificationsService.updateWebhookNotification, await by await *)
definition updating_webhook :: "env \<Rightarrow> string \<Rightarrow> update_webhook \<Rightarrow> string \<Rightarrow> thread" where
  "updating_webhook E i dto ownerId =
     await (andThen (gets (\<lambda>w. row_of wn_id i (w_wnotifs w))) (orThrow (notFound ''Notification not found''))) (\<lambda>n.
     await (webhook_owner_or_admin E n ownerId) (\<lambda>_.
     await (changed_webhook E dto n) (\<lambda>n'.
     last_await (modify (w_wnotifs_update (save_row wn_id (n'\<lparr>wn_status := Active\<rparr>)))))))"

(* apps/api/src/modules/notifications/services/twitch-notifications.service.ts 264-273 TwitchNotificationsService.cleanupSubscriptionIfUnused, await by await *)
definition cleaning_up :: "env \<Rightarrow> string \<Rightarrow> thread" where
  "cleaning_up E streamerEventId =
     await (gets (\<lambda>w. (count_rows (\<lambda>n. dn_streamerEventId n = streamerEventId) (w_dnotifs w),
                          count_rows (\<lambda>n. wn_streamerEventId n = streamerEventId) (w_wnotifs w)))) (\<lambda>(discordCount, webhookCount).
     last_await (whenever (discordCount = 0 \<and> webhookCount = 0) (deleteLocalSubscription E streamerEventId)))"

(* apps/api/src/modules/notifications/services/twitch-notifications.service.ts 222-239 TwitchNotificationsService.deleteDiscordNotification, await by await *)
definition deleting_discord :: "env \<Rightarrow> string \<Rightarrow> string \<Rightarrow> thread" where
  "deleting_discord E i ownerId =
     await (andThen (gets (\<lambda>w. row_of dn_id i (w_dnotifs w))) (orThrow (notFound ''Notification not found''))) (\<lambda>n.
     await (discord_owner_or_admin E n ownerId) (\<lambda>_.
     await (modify (w_dnotifs_update (delete_rows (\<lambda>x. dn_id x = dn_id n)))) (\<lambda>_.
     cleaning_up E (dn_streamerEventId n))))"

(* apps/api/src/modules/notifications/services/twitch-notifications.service.ts 241-261 TwitchNotificationsService.deleteWebhookNotification, await by await *)
definition deleting_webhook :: "env \<Rightarrow> string \<Rightarrow> string \<Rightarrow> thread" where
  "deleting_webhook E i ownerId =
     await (andThen (gets (\<lambda>w. row_of wn_id i (w_wnotifs w))) (orThrow (notFound ''Notification not found''))) (\<lambda>n.
     await (webhook_owner_or_admin E n ownerId) (\<lambda>_.
     await (modify (w_wnotifs_update (delete_rows (\<lambda>x. wn_id x = wn_id n)))) (\<lambda>_.
     cleaning_up E (wn_streamerEventId n))))"

fun handling :: "env \<Rightarrow> notification_call \<Rightarrow> thread" where
  "handling E (CreateDiscord u dto) = creating_discord E dto u"
| "handling E (CreateWebhook u dto g) = creating_webhook E dto u g"
| "handling E (UpdateDiscord u i dto) = updating_discord E i dto u"
| "handling E (UpdateWebhook u i dto) = updating_webhook E i dto u"
| "handling E (DeleteDiscord u i) = deleting_discord E i u"
| "handling E (DeleteWebhook u i) = deleting_webhook E i u"

section \<open>A thread alone is the call\<close>

lemma alone_found:
  assumes "\<And>n v. alone (k n) v = snd (f n v)"
  shows "alone (await (andThen (gets q) (orThrow e)) k) w = snd (andThen (gets q) (\<lambda>found. andThen (orThrow e found) f) w)"
  using assms by (simp add: exec split: option.split)

lemma alone_cleanup: "alone (cleaning_up E i) w = snd (cleanupSubscriptionIfUnused E i w)"
  unfolding cleaning_up_def cleanupSubscriptionIfUnused_def by (rule alone_then) (simp split: prod.split)

lemma andThen_snd: "(\<And>x v. snd (f x v) = snd (g x v)) \<Longrightarrow> snd (andThen m f w) = snd (andThen m g w)"
  by (simp add: exec split: prod.split sum.split)

lemma alone_creates: "alone (creating_discord E dto u) w = snd (createDiscordNotification E dto u w)"
  "alone (creating_webhook E v u d) w = snd (createWebhookNotification E v u d w)"
  unfolding creating_discord_def createDiscordNotification_def creating_webhook_def createWebhookNotification_def
  by (intro alone_then alone_last)+

lemma alone_updates: "alone (updating_discord E i dto u) w = snd (updateDiscordNotification E i dto u w)"
  "alone (updating_webhook E i v u) w = snd (updateWebhookNotification E i v u w)"
  unfolding updating_discord_def updateDiscordNotification_def updating_webhook_def updateWebhookNotification_def
  by (intro alone_found alone_then; simp add: exec)+

lemma alone_deletes: "alone (deleting_discord E i u) w = snd (deleteDiscordNotification E i u w)"
  "alone (deleting_webhook E i u) w = snd (deleteWebhookNotification E i u w)"
  unfolding deleting_discord_def deleteDiscordNotification_def deleting_webhook_def deleteWebhookNotification_def
  by (intro alone_found alone_then alone_cleanup)+

lemma alone_performs: "alone (handling E c) w = perform E c w"
  by (cases c) (simp_all add: alone_creates alone_updates alone_deletes)

section \<open>What interleaved calls keep\<close>

lemma steady_found:
  assumes "\<And>n w. I w \<Longrightarrow> q w = Some n \<Longrightarrow> steady I (k n)"
  shows "steady I (await (andThen (gets q) (orThrow e)) k)"
  by (rule steady_await) (auto intro!: keeping.rel_rules assms simp: exec split: option.splits)

lemma steady_create_discord: "steady (sound E) (creating_discord E dto u)"
  unfolding creating_discord_def
  by (intro steady_then steady_last keeps_sound [OF canCreate_reads] keeps_sound [OF canAfford_reads]
      sound_events.getOrCreateEvent_effect steady_await [OF keeps_sound [OF validate_reads(1)]]
      charge_sound open_guild_sound insert_discord_sound) (auto dest: validated)

lemma steady_create_webhook: "steady (sound E) (creating_webhook E dto u d)"
  unfolding creating_webhook_def is_discord [THEN eqTrueI] whenever_def if_True
  by (intro steady_then steady_last keeps_sound [OF canCreate_reads] keeps_sound [OF canAfford_reads]
      sound_events.getOrCreateEvent_effect keeps_sound [OF detect_reads]
      steady_await [OF keeping.rel_andThen [OF keeps_sound [OF validate_reads(2)] keeping.rel_ret]]
      charge_sound webhook_guild_sound insert_webhook_sound) (auto dest: validated)

lemma steady_update_discord: "steady (sound E) (updating_discord E i dto u)"
  unfolding updating_discord_def
proof (rule steady_found, rule steady_then [OF discord_access_sound], rule steady_await [OF keeps_sound [OF changed_discord_reads]],
    rule steady_last, rule keeping_modify)
  fix n w n' w1 w2 v
  assume w: "sound E w" "row_of dn_id i (w_dnotifs w) = Some n" and c: "changed_discord E dto n w1 = (Inr n', w2)" and v: "sound E v"
  have "discord_row_ok E n" using w by (auto simp: sound_def stored_valid_def dest: row_of_in)
  then have "discord_row_ok E n'" using c changed_discord_result(2) by (fastforce simp: discord_row_ok_def)
  then show "sound E (w_dnotifs_update (save_row dn_id (n'\<lparr>dn_status := Active\<rparr>)) v)"
    using v by (auto simp: sound_def stored_valid_def solvent_def discord_row_ok_def dest!: save_row_in)
qed

lemma steady_update_webhook: "steady (sound E) (updating_webhook E i dto u)"
  unfolding updating_webhook_def
proof (rule steady_found, rule steady_then [OF webhook_access_sound], rule steady_await [OF changed_webhook_sound],
    rule steady_last, rule keeping_modify)
  fix n w n' w1 w2 v
  assume w: "sound E w" "row_of wn_id i (w_wnotifs w) = Some n" and c: "changed_webhook E dto n w1 = (Inr n', w2)" and v: "sound E v"
  have "webhook_row_ok E n" using w by (auto simp: sound_def stored_valid_def dest: row_of_in)
  then have "webhook_row_ok E n'" using c changed_webhook_result by (fastforce simp: webhook_row_ok_def)
  then show "sound E (w_wnotifs_update (save_row wn_id (n'\<lparr>wn_status := Active\<rparr>)) v)"
    using v by (auto simp: sound_def stored_valid_def solvent_def webhook_row_ok_def dest!: save_row_in)
qed

lemma steady_cleanup: "steady (sound E) (cleaning_up F i)"
  unfolding cleaning_up_def prod.case_eq_if
  by (intro steady_then steady_last keeping.rel_gets keeping.rel_whenever sound_events.deleteLocalSubscription_effect)

lemma deleting_sound:
  "relates (keeps (sound E)) (modify (w_dnotifs_update (delete_rows P)))"
  "relates (keeps (sound E)) (modify (w_wnotifs_update (delete_rows Q)))"
  by (rule keeping_modify, auto simp: sound_def stored_valid_def solvent_def set_delete)+

lemma steady_delete: "steady (sound E) (deleting_discord F i u)" "steady (sound E) (deleting_webhook F i u)"
  unfolding deleting_discord_def deleting_webhook_def
  by (intro steady_found steady_then discord_access_sound webhook_access_sound deleting_sound steady_cleanup)+

lemma steady_handling: "steady (sound E) (handling E c)"
  by (cases c) (simp_all add: steady_create_discord steady_create_webhook steady_update_discord steady_update_webhook steady_delete)

lemma interleaved_sound: "turns (map (handling E) cs) w us v \<Longrightarrow> sound E w \<Longrightarrow> sound E v"
  using turns_keep [of "map (handling E) cs" w us v "sound E"] by (simp add: steady_handling)

text \<open>
  C9. However the concurrent calls of the notification service interleave at their awaits, whatever was
  read before is stale by then, no balance of a user or of a guild goes below zero: the update that
  charges checks the balance once more.
\<close>

theorem concurrent_calls_never_overdraw:
  assumes "turns (map (handling E) cs) w us v" and "sound E w"
  shows "solvent v"
  using interleaved_sound [OF assms] by (simp add: sound_def)

section \<open>A login that overlaps a charge\<close>

(* apps/api/src/modules/auth/services/auth.service.ts 63-102 AuthService.authByDiscordCode, await by await *)
definition signing_in :: "env \<Rightarrow> string \<Rightarrow> thread" where
  "signing_in E code =
     await (exchangeDiscordCode E code) (\<lambda>tokens.
     await (fetchMeUserByToken E (dk_accessToken tokens)) (\<lambda>me.
     await (gets (discord_user me)) (\<lambda>found.
     await (case found of Some u \<Rightarrow> known_discord_user me tokens u | None \<Rightarrow> new_discord_user E me tokens) (\<lambda>u.
     await (getRolesAccessesForUser (u_id u)) (\<lambda>acc.
     await (gets (roles_of u)) (\<lambda>loaded.
     last_await (createSession E u loaded (ac_permissions acc) (ac_roles acc))))))))"

lemma alone_signs_in: "alone (signing_in E code) w = snd (authByDiscordCode E code w)"
  unfolding signing_in_def authByDiscordCode_def by (intro alone_then alone_last)

text \<open>
  Signing in with Discord saves the user as it was read, the balance included: a charge between
  the turn that reads and the turn that saves is undone.
\<close>

lemma login_undoes_charge:
  assumes "row_of u_id (u_id u) (w_users w) = Some u" and "c \<le> u_balance u" and "charge_user (u_id u) c w = (r, w1)"
    and "known_discord_user me tokens u w1 = (Inr u', w2)"
  shows "map_option u_balance (row_of u_id (u_id u) (w_users w1)) = Some (u_balance u - c)"
    and "map_option u_balance (row_of u_id (u_id u) (w_users w2)) = Some (u_balance u)"
  using assms
  by (auto simp: charge_user_def known_discord_user_def save_user_def exec row_of_save row_of_update Let_def split: if_splits)

section \<open>The theorem at two calls\<close>

theorem concurrent_calls_never_overdraw_witness:
  "solvent (perform sample_env (CreateDiscord ''u'' (sample_create Personal STREAM_ONLINE))
     (perform sample_env (CreateDiscord ''u'' (sample_create Personal STREAM_ONLINE)) populated_world))"
proof -
  let ?c = "CreateDiscord ''u'' (sample_create Personal STREAM_ONLINE)"
  let ?v = "perform sample_env ?c populated_world"
  have "turns (map (handling sample_env) [?c, ?c]) populated_world (map (handling sample_env) [?c, ?c]) populated_world"
    by (rule begun)
  from runs_alone [OF this, of 0] have "turns (map (handling sample_env) [?c, ?c]) populated_world
      [Finished, handling sample_env ?c] ?v"
    by (simp add: alone_performs del: handling.simps)
  from runs_alone [OF this, of 1] have "turns (map (handling sample_env) [?c, ?c]) populated_world
      [Finished, Finished] (perform sample_env ?c ?v)"
    by (simp add: alone_performs del: handling.simps)
  from concurrent_calls_never_overdraw [OF this populated_sound] show ?thesis .
qed

end
