(* ===== verification/Access.thy ===== *)
theory Access imports Auth Redis begin

text \<open>
  Guards and strategies of \<open>apps/api/src/modules/auth\<close>, the profile service and the routes of the
  authentication and role controllers. A strategy receives the claims of a token whose signature and
  expiry the JWT library has checked; the bodies of requests have passed the validation pipe.
\<close>

section \<open>Strategies and guards\<close>

(* apps/api/src/modules/auth/strategies/jwt-access.strategy.ts 24-33 JwtAccessStrategy.validate *)
definition validateAccess :: "access_claims \<Rightarrow> access_claims act" where
  "validateAccess payload =
     (if ak_use payload \<noteq> Access then throw (unauthorized ''Access denied'')
      else
        andThen (redis_exists (accessTokenBlackList (ak_jti payload))) (\<lambda>isBlacklisted.
        andThen (throwIf isBlacklisted (unauthorized ''Token has been revoked'')) (\<lambda>_. ret payload)))"

text \<open>\<open>token\<close> is what is left of the authorization header without \<open>Bearer\<close>.\<close>

(* apps/api/src/modules/auth/strategies/jwt-refresh.strategy.ts 27-40 JwtRefreshStrategy.validate *)
definition validateRefresh :: "env \<Rightarrow> string option \<Rightarrow> refresh_claims \<Rightarrow> (refresh_claims \<times> string) act" where
  "validateRefresh E token payload =
     (if rk_use payload \<noteq> Refresh then throw (unauthorized ''Refresh denied'')
      else if \<not> truthy token then throw (unauthorized ''Missing refresh token'')
      else
        andThen (verifyRefreshToken E (rk_sessionId payload) (the token)) (\<lambda>isValid.
        andThen (throwIf (\<not> isValid) (unauthorized ''Refresh denied'')) (\<lambda>_. ret (payload, the token))))"

text \<open>A guard that answers \<open>false\<close> makes Nest refuse the request.\<close>

(* apps/api/src/modules/auth/guards/permission.guard.ts 10-21 PermissionsGuard.canActivate *)
definition permissionsGuard :: "permission list option \<Rightarrow> access_claims \<Rightarrow> unit act" where
  "permissionsGuard required user =
     (case required of
        None \<Rightarrow> ret ()
      | Some ps \<Rightarrow> throwIf (\<not> (\<exists>p \<in> set (ak_permissions user). p \<in> set ps)) (forbidden ''Forbidden resource''))"

(* apps/api/src/shared/guards/features.guard.ts 15-31 FeatureGuard.canActivate *)
definition featureGuard :: "(string \<Rightarrow> bool) \<Rightarrow> string option \<Rightarrow> unit act" where
  "featureGuard features feature =
     (if \<not> truthy feature then ret ()
      else throwIf (\<not> features (the feature)) (forbidden (''Feature \"'' @ the feature @ ''\" is disabled'')))"

text \<open>A route for whoever has a valid access token, and one for holders of a permission.\<close>

definition for_user :: "access_claims \<Rightarrow> (access_claims \<Rightarrow> 'a act) \<Rightarrow> 'a act" where
  "for_user claims f = andThen (validateAccess claims) f"

definition for_permission :: "permission list \<Rightarrow> access_claims \<Rightarrow> (access_claims \<Rightarrow> 'a act) \<Rightarrow> 'a act" where
  "for_permission ps claims f =
     andThen (validateAccess claims) (\<lambda>user. andThen (permissionsGuard (Some ps) user) (\<lambda>_. f user))"

section \<open>The profile\<close>

text \<open>\<open>findOneOrFail\<close> throws before the check that follows it.\<close>

(* apps/api/src/modules/auth/services/me.service.ts 18-27 MeService.getMe *)
definition getMe :: "string \<Rightarrow> user_payload act" where
  "getMe userId =
     andThen (gets (\<lambda>w. row_of u_id userId (w_users w))) (\<lambda>found.
     andThen (orThrow (ScriptExc ''EntityNotFoundError'') found) (\<lambda>u.
     gets (\<lambda>w. toUserPayload u (roles_of u w)
       (Option.bind (u_twitchAccountId u) (\<lambda>i. row_of st_id i (w_streamers w))))))"

(* apps/api/src/modules/auth/models/update-profile.model.ts 1-5 IUpdateProfileModel *)
record update_profile =
  upr_displayName :: "string option"
  upr_newPassword :: "string option"
  upr_oldPassword :: "string option"

(* apps/api/src/modules/auth/services/me.service.ts 39-50 MeService.updateProfile, the password *)
definition changed_password :: "env \<Rightarrow> update_profile \<Rightarrow> user \<Rightarrow> user act" where
  "changed_password E dto u =
     (if \<not> truthy (upr_newPassword dto) then ret u
      else
        andThen (if truthy (u_password u) then
            (if \<not> truthy (upr_oldPassword dto) then throw (badRequest ''Old password is required'')
             else
               andThen (verify_password E (the (u_password u)) (the (upr_oldPassword dto))) (\<lambda>ok.
               throwIf (\<not> ok) (badRequest ''Invalid old password'')))
          else ret ()) (\<lambda>_.
        andThen (hash_password E (the (upr_newPassword dto))) (\<lambda>h. ret (u\<lparr>u_password := Some h\<rparr>))))"

(* apps/api/src/modules/auth/services/me.service.ts 29-53 MeService.updateProfile *)
definition updateProfile :: "env \<Rightarrow> string \<Rightarrow> update_profile \<Rightarrow> unit act" where
  "updateProfile E userId dto =
     andThen (gets (\<lambda>w. row_of u_id userId (w_users w))) (\<lambda>found.
     andThen (orThrow (notFound ''User not found'') found) (\<lambda>u.
     let u1 = (if truthy (upr_displayName dto) then u\<lparr>u_displayName := the (upr_displayName dto)\<rparr> else u) in
     andThen (changed_password E dto u1) save_user))"

section \<open>Routes of authentication\<close>

(* apps/api/src/modules/auth/controllers/auth.controller.ts 51-55 AuthController.login *)
definition routeLogin :: "env \<Rightarrow> string \<Rightarrow> string \<Rightarrow> auth_response act" where
  "routeLogin E email password = loginByEmail E email password"

(* apps/api/src/modules/auth/controllers/auth.controller.ts 57-63 AuthController.registerByEmail *)
definition routeRegister :: "env \<Rightarrow> (string \<Rightarrow> bool) \<Rightarrow> string \<Rightarrow> string \<Rightarrow> string \<Rightarrow> auth_response act" where
  "routeRegister E features email password displayName =
     andThen (featureGuard features (Some ''register-email'')) (\<lambda>_. registerByEmail E email password displayName)"

(* apps/api/src/modules/auth/controllers/auth.controller.ts 65-72 AuthController.redirectForDiscordAuth *)
definition routeDiscordRedirect :: "env \<Rightarrow> (string \<Rightarrow> bool) \<Rightarrow> string act" where
  "routeDiscordRedirect E features =
     andThen (featureGuard features (Some ''register-discord'')) (\<lambda>_. ret (getDiscordAuthRedirectUri E))"

(* apps/api/src/modules/auth/controllers/auth.controller.ts 74-80 AuthController.authByDiscord *)
definition routeDiscordAuthorize :: "env \<Rightarrow> (string \<Rightarrow> bool) \<Rightarrow> string \<Rightarrow> auth_response act" where
  "routeDiscordAuthorize E features code =
     andThen (featureGuard features (Some ''register-discord'')) (\<lambda>_. authByDiscordCode E code)"

(* apps/api/src/modules/auth/controllers/auth.controller.ts 82-89 AuthController.refresh *)
definition routeRefresh :: "env \<Rightarrow> string option \<Rightarrow> refresh_claims \<Rightarrow> auth_response act" where
  "routeRefresh E token payload =
     andThen (validateRefresh E token payload) (\<lambda>(claims, t). refreshToken E (rk_sub claims) (rk_sessionId claims))"

(* apps/api/src/modules/auth/controllers/auth.controller.ts 91-98 AuthController.refreshDiscord *)
definition routeRefreshDiscord :: "env \<Rightarrow> access_claims \<Rightarrow> bool act" where
  "routeRefreshDiscord E claims = for_user claims (\<lambda>user. refreshDiscordToken E (ak_sub user))"

(* apps/api/src/modules/auth/controllers/auth.controller.ts 100-107 AuthController.logout *)
definition routeLogout :: "access_claims \<Rightarrow> bool act" where
  "routeLogout claims =
     for_user claims (\<lambda>user. logout (ak_sub user) (ak_sessionId user) (ak_jti user) (ak_exp user))"

(* apps/api/src/modules/auth/controllers/auth.controller.ts 109-116 AuthController.me *)
definition routeMe :: "access_claims \<Rightarrow> user_payload act" where
  "routeMe claims = for_user claims (\<lambda>user. getMe (ak_sub user))"

(* apps/api/src/modules/auth/controllers/auth.controller.ts 118-125 AuthController.updateProfile *)
definition routeUpdateProfile :: "env \<Rightarrow> access_claims \<Rightarrow> update_profile \<Rightarrow> unit act" where
  "routeUpdateProfile E claims dto = for_user claims (\<lambda>user. updateProfile E (ak_sub user) dto)"

(* apps/api/src/modules/auth/controllers/auth.controller.ts 127-134 AuthController.getSessions *)
definition routeSessions :: "access_claims \<Rightarrow> session_model list act" where
  "routeSessions claims = for_user claims (\<lambda>user. getSessions (ak_sub user))"

(* apps/api/src/modules/auth/controllers/auth.controller.ts 136-146 AuthController.revokeSession *)
definition routeRevokeSession :: "access_claims \<Rightarrow> string \<Rightarrow> bool act" where
  "routeRevokeSession claims sessionId = for_user claims (\<lambda>user. revokeSession (ak_sub user) sessionId)"

(* apps/api/src/modules/auth/controllers/auth.controller.ts 148-155 AuthController.linkDiscord *)
definition routeLinkDiscord :: "env \<Rightarrow> access_claims \<Rightarrow> string \<Rightarrow> unit act" where
  "routeLinkDiscord E claims code = for_user claims (\<lambda>user. linkDiscord E (ak_sub user) code)"

(* apps/api/src/modules/auth/controllers/auth.controller.ts 157-164 AuthController.unlinkDiscord *)
definition routeUnlinkDiscord :: "access_claims \<Rightarrow> unit act" where
  "routeUnlinkDiscord claims = for_user claims (\<lambda>user. unlinkDiscord (ak_sub user))"

(* apps/api/src/modules/auth/controllers/auth.controller.ts 166-171 AuthController.redirectForTwitchAuth *)
definition routeTwitchRedirect :: "env \<Rightarrow> string act" where
  "routeTwitchRedirect E = getAuthRedirectUri E"

(* apps/api/src/modules/auth/controllers/auth.controller.ts 173-180 AuthController.linkTwitch *)
definition routeLinkTwitch :: "env \<Rightarrow> access_claims \<Rightarrow> string \<Rightarrow> unit act" where
  "routeLinkTwitch E claims code = for_user claims (\<lambda>user. linkTwitch E (ak_sub user) code)"

(* apps/api/src/modules/auth/controllers/auth.controller.ts 182-189 AuthController.unlinkTwitch *)
definition routeUnlinkTwitch :: "env \<Rightarrow> access_claims \<Rightarrow> unit act" where
  "routeUnlinkTwitch E claims = for_user claims (\<lambda>user. unlinkTwitch E (ak_sub user))"

(* apps/api/src/modules/auth/controllers/auth.controller.ts 191-198 AuthController.setTwitchPersonalAuth *)
definition routeTwitchAuthorization :: "env \<Rightarrow> access_claims \<Rightarrow> bool \<Rightarrow> unit act" where
  "routeTwitchAuthorization E claims enabled =
     for_user claims (\<lambda>user. setTwitchPersonalAuth E (ak_sub user) enabled)"

section \<open>Routes of roles\<close>

definition role_managers :: "permission list" where
  "role_managers = [MANAGE_ROLES, ADMIN]"

(* apps/api/src/modules/roles/controllers/roles.controller.ts 19-25 RolesController.getAllRoles *)
definition routeRoles :: "access_claims \<Rightarrow> nat \<Rightarrow> nat \<Rightarrow> string option \<Rightarrow> (role_item list \<times> nat) act" where
  "routeRoles claims page pageSize search = for_permission role_managers claims (\<lambda>user. getAllRoles page pageSize search)"

(* apps/api/src/modules/roles/controllers/roles.controller.ts 27-33 RolesController.getRole *)
definition routeRole :: "access_claims \<Rightarrow> string \<Rightarrow> role_item act" where
  "routeRole claims i = for_permission role_managers claims (\<lambda>user. getRoleById i)"

(* apps/api/src/modules/roles/controllers/roles.controller.ts 35-42 RolesController.createRole *)
definition routeCreateRole :: "env \<Rightarrow> access_claims \<Rightarrow> edit_role \<Rightarrow> role_item act" where
  "routeCreateRole E claims dto = for_permission role_managers claims (\<lambda>user. createRole E dto (ak_sub user))"

(* apps/api/src/modules/roles/controllers/roles.controller.ts 44-55 RolesController.editRole *)
definition routeEditRole :: "access_claims \<Rightarrow> string \<Rightarrow> edit_role \<Rightarrow> bool act" where
  "routeEditRole claims i dto = for_permission role_managers claims (\<lambda>user. editRole dto i (ak_sub user))"

(* apps/api/src/modules/roles/controllers/roles.controller.ts 57-64 RolesController.deleteRole *)
definition routeDeleteRole :: "access_claims \<Rightarrow> string \<Rightarrow> role_item act" where
  "routeDeleteRole claims i = for_permission role_managers claims (\<lambda>user. deleteRole i (ak_sub user))"

section \<open>Logging in and out\<close>

lemma exec_hash [exec]: "hash_password E p w = (Inr (x_hash E (w_ids w) p), w\<lparr>w_ids := Suc (w_ids w)\<rparr>)"
  by (simp add: hash_password_def exec)

lemma exec_sign [exec]: "signTokenPayload E p t w = (Inr (x_sign E (token_type_text t) p (w_now w)), w)"
  by (simp add: signTokenPayload_def exec)

definition refresh_json :: "string \<Rightarrow> string \<Rightarrow> json" where
  "refresh_json userId sessionId =
     JObj [(''use'', JStr ''refresh''), (''sub'', JStr userId), (''sessionId'', JStr sessionId)]"

lemma exec_generate:
  "\<exists>at. generateTokens E u ps rs s w =
     (Inr \<lparr>tp_accessToken = at, tp_refreshToken = x_sign E ''refresh'' (refresh_json u s) (w_now w)\<rparr>, w\<lparr>w_ids := Suc (w_ids w)\<rparr>)"
  by (simp add: generateTokens_def exec refresh_json_def)

text \<open>The session of a user with the refresh token that goes with it.\<close>

definition opened_session :: "env \<Rightarrow> string \<Rightarrow> string \<Rightarrow> time \<Rightarrow> session \<Rightarrow> bool" where
  "opened_session E userId token now s \<longleftrightarrow>
     s_userId s = userId \<and> token = x_sign E ''refresh'' (refresh_json userId (s_id s)) now \<and>
     (\<exists>salt. s_refreshTokenHash s = x_hash E salt token) \<and> s_expiresAt s = now + x_refresh_ttl E * 1000 \<and> s_createdAt s = now"

definition new_session_ids :: "env \<Rightarrow> world \<Rightarrow> bool" where
  "new_session_ids E w \<longleftrightarrow> (\<forall>n. x_uuid E n \<notin> s_id ` set (w_sessions w))"

lemma createSession_exec:
  assumes "new_session_ids E w"
  shows "\<exists>r w' s. createSession E u loaded ps rs w = (Inr r, w') \<and> w_sessions w' = w_sessions w @ [s] \<and>
    pf_id (ar_user r) = u_id u \<and> opened_session E (u_id u) (tp_refreshToken (ar_tokens r)) (w_now w) s"
proof -
  let ?w1 = "w\<lparr>w_ids := Suc (w_ids w)\<rparr>"
  obtain at where g: "generateTokens E (u_id u) ps rs (x_uuid E (w_ids w)) ?w1 =
      (Inr \<lparr>tp_accessToken = at, tp_refreshToken = x_sign E ''refresh'' (refresh_json (u_id u) (x_uuid E (w_ids w))) (w_now w)\<rparr>,
       ?w1\<lparr>w_ids := Suc (Suc (w_ids w))\<rparr>)"
    using exec_generate [of E "u_id u" ps rs "x_uuid E (w_ids w)" ?w1] by auto
  have "x_uuid E (w_ids w) \<notin> s_id ` set (w_sessions w)" using assms by (simp add: new_session_ids_def)
  then show ?thesis
    using g by (auto simp: createSession_def exec opened_session_def save_row_def toAuthResponse_def toUserPayload_def)
qed

text \<open>
  C18. A login by email succeeds only for an account that is not blocked, has this email and has the
  password given; it opens exactly one session, of that account, whose stored hash is one of the
  refresh token handed out, and it changes neither accounts nor other sessions.
\<close>

theorem login_exact:
  assumes "loginByEmail E email password w = (Inr r, w')" and "new_session_ids E w"
  shows "\<exists>u s. u \<in> set (w_users w) \<and> u_email u = Some email \<and> u_status u = ACTIVE \<and>
    (\<exists>h. u_password u = Some h \<and> x_compare E password h) \<and> pf_id (ar_user r) = u_id u \<and>
    w_users w' = w_users w \<and> w_sessions w' = w_sessions w @ [s] \<and>
    opened_session E (u_id u) (tp_refreshToken (ar_tokens r)) (w_now w) s"
proof -
  let ?f = "find (\<lambda>u. u_email u = Some email \<and> u_password u \<noteq> None) (w_users w)"
  obtain u where u: "?f = Some u" "u_status u \<noteq> BLOCKED" "x_compare E password (the (u_password u))"
    and c: "createSession E u (roles_of u w) (ac_permissions (rolesToAccess (user_roles (u_id u) w)))
      (ac_roles (rolesToAccess (user_roles (u_id u) w))) w = (Inr r, w')"
    using assms(1) by (auto simp: loginByEmail_def exec verify_password_def getRolesAccessesForUser_def split: option.splits if_splits)
  have h: "w_users w' = w_users w"
    using c by (auto simp: createSession_def exec generateTokens_def)
  obtain h where m: "u \<in> set (w_users w)" "u_email u = Some email" "u_password u = Some h"
    using find_in [OF u(1)] by auto
  obtain s where "w_sessions w' = w_sessions w @ [s]" "pf_id (ar_user r) = u_id u"
    "opened_session E (u_id u) (tp_refreshToken (ar_tokens r)) (w_now w) s"
    using c createSession_exec [OF assms(2), of u "roles_of u w" "ac_permissions (rolesToAccess (user_roles (u_id u) w))"
        "ac_roles (rolesToAccess (user_roles (u_id u) w))"] by auto
  moreover have "u_status u = ACTIVE" using u(2) by (cases "u_status u") simp_all
  ultimately show ?thesis using m u(3) h by auto
qed

text \<open>
  C19. After a logout the access token it was made with is refused for as long as it would have been
  valid: its entry in the black list does not expire before the token.
\<close>

theorem logged_out_token_refused:
  assumes "logout (ak_sub c) (ak_sessionId c) (ak_jti c) (ak_exp c) w = (Inr True, w')"
    and "w_redis v = w_redis w'" and "w_now w \<le> w_now v" and "w_now v < ak_exp c * 1000" and "ak_use c = Access"
  shows "fst (validateAccess c v) = Inl (unauthorized ''Token has been revoked'')"
proof -
  let ?ttl = "ak_exp c - w_now w div 1000"
  have "w_now w div 1000 < ak_exp c" using assms(3,4) by linarith
  then have pos: "0 < ?ttl" by simp
  have le: "ak_exp c * 1000 \<le> w_now w + 1000 * ?ttl" by (simp add: right_diff_distrib)
  have "session_of (ak_sessionId c) (ak_sub c) w \<noteq> None"
    using assms(1) by (auto simp: logout_def exec split: if_splits)
  then have "w_redis w' = put_key (w_now w) (accessTokenBlackList (ak_jti c)) (stringify (JNum ''1'')) (nat ?ttl) (w_redis w)"
    using assms(1) pos by (auto simp: logout_def exec blacklistAccessToken_def redis_set_def Let_def)
  then have "lookup (w_now v) (accessTokenBlackList (ak_jti c)) (w_redis v) \<noteq> None"
    using assms(2,4) pos le by (simp add: lookup_def put_key_def)
  then show ?thesis using assms(5) by (simp add: validateAccess_def redis_exists_def exec)
qed

text \<open>
  What bcrypt reads of a password, and what the beginning of a JSON web token depends on: its header
  and the first claims, not the time of issue.
\<close>

definition bcrypt_prefix :: "env \<Rightarrow> bool" where
  "bcrypt_prefix E \<longleftrightarrow> (\<forall>p n q. x_compare E p (x_hash E n q) = (take 72 p = take 72 q))"

definition token_prefix :: "env \<Rightarrow> bool" where
  "token_prefix E \<longleftrightarrow> (\<forall>c t t'. take 72 (x_sign E ''refresh'' c t) = take 72 (x_sign E ''refresh'' c t'))"

text \<open>
  Refreshing does not retire the refresh token that was used: bcrypt reads 72 characters, in
  which two tokens of a session agree, so the old token is accepted after the rotation as before.
\<close>

theorem rotated_token_still_accepted:
  assumes "refreshToken E userId sessionId w = (Inr r, w')"
    and "token_prefix E" and "bcrypt_prefix E"
    and "row_of s_id sessionId (w_sessions w) = Some s" and "w_now v \<le> s_expiresAt s"
    and "w_sessions v = w_sessions w'"
  shows "verifyRefreshToken E sessionId (x_sign E ''refresh'' (refresh_json userId sessionId) t) v = (Inr True, v)"
proof -
  obtain u where "row_of u_id userId (w_users w) = Some u" "u_status u \<noteq> BLOCKED" "session_of sessionId userId w \<noteq> None"
    using assms(1) by (auto simp: refreshToken_def exec split: option.splits if_splits)
  moreover obtain at where "generateTokens E userId (ac_permissions (rolesToAccess (user_roles (u_id u) w)))
      (ac_roles (rolesToAccess (user_roles (u_id u) w))) sessionId w =
      (Inr \<lparr>tp_accessToken = at, tp_refreshToken = x_sign E ''refresh'' (refresh_json userId sessionId) (w_now w)\<rparr>,
       w\<lparr>w_ids := Suc (w_ids w)\<rparr>)"
    using exec_generate by blast
  ultimately have "w_sessions w' = update_rows (\<lambda>s. s_id s = sessionId)
      (\<lambda>s. s\<lparr>s_refreshTokenHash := x_hash E (Suc (w_ids w)) (x_sign E ''refresh'' (refresh_json userId sessionId) (w_now w))\<rparr>)
      (w_sessions w)"
    using assms(1) by (auto simp: refreshToken_def exec getRolesAccessesForUser_def)
  then have "row_of s_id sessionId (w_sessions v) = Some (s\<lparr>s_refreshTokenHash :=
      x_hash E (Suc (w_ids w)) (x_sign E ''refresh'' (refresh_json userId sessionId) (w_now w))\<rparr>)"
    using assms(4,6) row_of_in [OF assms(4)] by (simp add: row_of_update)
  moreover have "take 72 (x_sign E ''refresh'' (refresh_json userId sessionId) t) =
      take 72 (x_sign E ''refresh'' (refresh_json userId sessionId) (w_now w))"
    using assms(2) by (simp add: token_prefix_def)
  ultimately show ?thesis
    using assms(3,5) by (simp add: verifyRefreshToken_def exec verify_password_def bcrypt_prefix_def)
qed

text \<open>
  Linking a Discord account stores its access token only: a user who had no Discord tokens has
  still no usable connection afterwards, whatever Discord answered.
\<close>

theorem linked_discord_unusable:
  assumes "linkDiscord E userId code w = (Inr (), w')" and "row_of u_id userId (w_users w) = Some u"
    and "u_discordRefreshToken u = None"
  shows "fst (getValidDiscordToken E userId w') = Inl discordNotConnected"
proof -
  have r: "relates (same w_users) (exchangeDiscordCode E code)" "relates (same w_users) (fetchMeUserByToken E t)" for t
    unfolding exchangeDiscordCode_def fetchMeUserByToken_def by (intro sameness.rel_rules send_same, simp)+
  obtain tokens w1 where e: "exchangeDiscordCode E code w = (Inr tokens, w1)"
    using assms(1) unfolding linkDiscord_def by (rule andThen_Inr)
  obtain me w2 where f: "fetchMeUserByToken E (dk_accessToken tokens) w1 = (Inr me, w2)"
    using assms(1) e by (auto simp: linkDiscord_def exec split: prod.splits sum.splits)
  have "w_users w2 = w_users w"
    using sameD [OF r(1), of w] sameD [OF r(2), of "dk_accessToken tokens" w1] e f by simp
  then have "w_users w' = update_rows (\<lambda>u. u_id u = userId)
      (\<lambda>u. u\<lparr>u_discordId := Some (me_id me), u_discordAccessToken := Some (dk_accessToken tokens)\<rparr>) (w_users w)"
    using assms(1) e f by (auto simp: linkDiscord_def exec split: if_splits)
  then have "map_option u_discordRefreshToken (row_of u_id userId (w_users w')) = Some None"
    using assms(2,3) by (simp add: row_of_update)
  then show ?thesis
    by (auto simp: getValidDiscordToken_def discordUserWithTokens_def exec truthy_def)
qed

section \<open>The theorems at concrete accounts\<close>

lemma sample_hash [simp]: "x_compare sample_env p (x_hash sample_env n q) = (take 72 p = take 72 q)"
proof -
  have "dropWhile (\<lambda>c. c \<noteq> CHR '':'') (rows_of (CHR ''s'') n @ t) = dropWhile (\<lambda>c. c \<noteq> CHR '':'') t" for t
    unfolding rows_of_def by (induction n) simp_all
  then show ?thesis by (auto simp: sample_env_def after_colon_def)
qed

lemma sample_tokens: "bcrypt_prefix sample_env" "token_prefix sample_env"
  by (simp add: bcrypt_prefix_def) (simp add: token_prefix_def sample_env_def)

definition account :: user where
  "account = sample_user\<lparr>u_password := Some (x_hash sample_env 0 ''secret'')\<rparr>"

definition old_session :: session where
  "old_session = \<lparr>s_id = ''S'', s_userId = ''u'', s_refreshTokenHash = ''h'', s_expiresAt = 90000, s_createdAt = 0\<rparr>"

definition account_world :: world where
  "account_world = sample_world\<lparr>w_users := [account], w_sessions := [old_session]\<rparr>"

lemma account_fields [simp]:
  "w_users account_world = [account]" "w_sessions account_world = [old_session]" "w_now account_world = 1000"
  "w_redis account_world = Map.empty" "w_roles account_world = []"
  "u_id account = ''u''" "u_email account = Some ''a@b.c''" "u_status account = ACTIVE"
  "u_password account = Some (x_hash sample_env 0 ''secret'')" "u_discordRefreshToken account = None"
  "u_discordId account = None" "u_roles account = []"
  "s_id old_session = ''S''" "s_userId old_session = ''u''" "s_expiresAt old_session = 90000"
  by (simp_all add: account_world_def account_def sample_user_def old_session_def)

lemma account_session_ids: "new_session_ids sample_env account_world"
  by (simp add: new_session_ids_def) (simp add: sample_env_def rows_of_def)

theorem login_exact_witness:
  "\<exists>r w' s. loginByEmail sample_env ''a@b.c'' ''secret'' account_world = (Inr r, w') \<and> pf_id (ar_user r) = ''u'' \<and>
     w_sessions w' = [old_session, s]"
proof -
  obtain r w' where r: "loginByEmail sample_env ''a@b.c'' ''secret'' account_world = (Inr r, w')"
    using createSession_exec [OF account_session_ids, of account]
    by (auto simp: loginByEmail_def exec verify_password_def getRolesAccessesForUser_def) metis
  from login_exact [OF r account_session_ids] r show ?thesis by auto
qed

definition access_of_account :: access_claims where
  "access_of_account = \<lparr>ak_use = Access, ak_sub = ''u'', ak_jti = ''j'', ak_sessionId = ''S'', ak_exp = 900,
     ak_permissions = [], ak_roles = []\<rparr>"

theorem logged_out_token_refused_witness:
  "fst (validateAccess access_of_account ((snd (logout ''u'' ''S'' ''j'' 900 account_world))\<lparr>w_now := 2000\<rparr>)) =
     Inl (unauthorized ''Token has been revoked'')"
proof -
  have "fst (logout ''u'' ''S'' ''j'' 900 account_world) = Inr True"
    by (simp add: logout_def exec session_of_def blacklistAccessToken_def redis_set_def Let_def)
  then obtain w' where l: "logout (ak_sub access_of_account) (ak_sessionId access_of_account) (ak_jti access_of_account)
      (ak_exp access_of_account) account_world = (Inr True, w')"
    by (cases "logout ''u'' ''S'' ''j'' 900 account_world") (simp add: access_of_account_def)
  show ?thesis
    using logged_out_token_refused [OF l, of "w'\<lparr>w_now := 2000\<rparr>"] l by (simp add: access_of_account_def)
qed

theorem rotated_token_still_accepted_witness:
  "\<exists>w'. w' = snd (refreshToken sample_env ''u'' ''S'' account_world) \<and>
     verifyRefreshToken sample_env ''S'' (x_sign sample_env ''refresh'' (refresh_json ''u'' ''S'') 0) w' = (Inr True, w')"
proof -
  obtain at where g: "generateTokens sample_env ''u'' [] [] ''S'' account_world =
      (Inr \<lparr>tp_accessToken = at, tp_refreshToken = x_sign sample_env ''refresh'' (refresh_json ''u'' ''S'') (w_now account_world)\<rparr>,
       account_world\<lparr>w_ids := Suc (w_ids account_world)\<rparr>)"
    using exec_generate by blast
  obtain r w' where r: "refreshToken sample_env ''u'' ''S'' account_world = (Inr r, w')" and n: "w_now w' = 1000"
    using g by (simp add: refreshToken_def exec row_of_def session_of_def getRolesAccessesForUser_def user_roles_def roles_of_def
        rolesToAccess_def first_occurrences_def)
  show ?thesis
    using rotated_token_still_accepted [OF r sample_tokens(2,1), of old_session w' 0] r n by (simp add: row_of_def)
qed

definition linking_env :: env where
  "linking_env = sample_env\<lparr>
     x_discord_token := (\<lambda>rs rq. Inr \<lparr>dt_access_token = ''t'', dt_token_type = ''Bearer'', dt_expires_in = 60,
       dt_refresh_token = ''r'', dt_scope = []\<rparr>),
     x_discord_me := (\<lambda>rs rq. Inr \<lparr>dm_id = ''d'', dm_username = ''ann'', dm_avatar = [], dm_global_name = ''Ann'',
       dm_email = None, dm_verified = True\<rparr>)\<rparr>"

theorem linked_discord_unusable_witness:
  "fst (getValidDiscordToken linking_env ''u'' (snd (linkDiscord linking_env ''u'' ''code'' account_world))) = Inl discordNotConnected"
proof -
  have "fst (linkDiscord linking_env ''u'' ''code'' account_world) = Inr ()"
    by (simp add: linkDiscord_def exec exchangeDiscordCode_def fetchMeUserByToken_def linking_env_def discord_user_def apiToMeModel_def)
  then obtain w' where l: "linkDiscord linking_env ''u'' ''code'' account_world = (Inr (), w')"
    by (cases "linkDiscord linking_env ''u'' ''code'' account_world") simp
  show ?thesis using linked_discord_unusable [OF l, of account] l by (simp add: row_of_def)
qed

end
