(* ===== verification/Users.thy ===== *)
theory Users imports Access Notifications begin

text \<open>
  \<open>apps/api/src/modules/users\<close>: what administrators see of the users and change in them. A query
  that names no order gives its rows in the order of the table.
\<close>

section \<open>What is shown of a user\<close>

(* apps/api/src/modules/users/models/user-list-item.model.ts 3-11 IUserListItemModel *)
record user_list_item =
  ul_id :: string
  ul_displayName :: string
  ul_balance :: credits
  ul_status :: account_status
  ul_roles :: "string list"
  ul_allowPersonalSubscriptions :: bool
  ul_createdAt :: time

(* apps/api/src/modules/users/models/user-item.model.ts 3-14 IUserItemModel *)
record user_item =
  ui_id :: string
  ui_displayName :: string
  ui_balance :: credits
  ui_status :: account_status
  ui_email :: "string option"
  ui_discordId :: "string option"
  ui_roles :: "string list"
  ui_allowPersonalSubscriptions :: bool
  ui_twitchLogin :: "string option"
  ui_createdAt :: time

(* apps/api/src/modules/users/models/user-session.model.ts 1-5 IUserSessionModel *)
record user_session =
  us_id :: string
  us_createdAt :: time
  us_expiresAt :: time

(* apps/api/src/modules/users/models/user-subscriptions.model.ts 3-12 IDiscordNotificationItemModel *)
record discord_notification_item =
  di_id :: string
  di_status :: notification_status
  di_costType :: cost_type
  di_cost :: credits
  di_channelId :: string
  di_discordGuildId :: string
  di_streamerEventId :: string
  di_createdAt :: time

(* apps/api/src/modules/users/models/user-subscriptions.model.ts 14-23 IWebhookNotificationItemModel *)
record webhook_notification_item =
  wi_id :: string
  wi_status :: notification_status
  wi_costType :: cost_type
  wi_cost :: credits
  wi_type :: webhook_type
  wi_discordGuildId :: "string option"
  wi_streamerEventId :: string
  wi_createdAt :: time

(* apps/api/src/modules/users/models/user-subscriptions.model.ts 25-28 IUserSubscriptionsModel *)
record user_subscriptions =
  ub_discord :: "discord_notification_item list"
  ub_webhook :: "webhook_notification_item list"

(* apps/api/src/modules/users/models/user-notification-log.model.ts 3-12 IUserNotificationLogModel *)
record user_notification_log =
  ug_id :: string
  ug_notificationId :: string
  ug_notificationType :: log_type
  ug_status :: log_status
  ug_streamerLogin :: string
  ug_eventType :: string
  ug_errorMessage :: "string option"
  ug_createdAt :: time

definition allows_personal :: "streamer option \<Rightarrow> bool" where
  "allows_personal linked = (case linked of None \<Rightarrow> False | Some s \<Rightarrow> st_allowPersonalSubscriptions s)"

(* apps/api/src/modules/users/mappers/users.mapper.ts 14-33 UsersMapper.entityToListItem *)
definition userToListItem :: "user \<Rightarrow> role list \<Rightarrow> streamer option \<Rightarrow> user_list_item" where
  "userToListItem u rs linked =
     \<lparr>ul_id = u_id u, ul_displayName = u_displayName u, ul_balance = u_balance u, ul_status = u_status u,
      ul_roles = map r_name rs, ul_allowPersonalSubscriptions = allows_personal linked, ul_createdAt = u_createdAt u\<rparr>"

(* apps/api/src/modules/users/mappers/users.mapper.ts 35-59 UsersMapper.entityToItem *)
definition userToItem :: "user \<Rightarrow> role list \<Rightarrow> streamer option \<Rightarrow> user_item" where
  "userToItem u rs linked =
     \<lparr>ui_id = u_id u, ui_displayName = u_displayName u, ui_balance = u_balance u, ui_status = u_status u,
      ui_email = u_email u, ui_discordId = u_discordId u, ui_roles = map r_name rs,
      ui_allowPersonalSubscriptions = allows_personal linked,
      ui_twitchLogin = map_option st_twitchLogin linked, ui_createdAt = u_createdAt u\<rparr>"

(* apps/api/src/modules/users/mappers/users.mapper.ts 61-67 UsersMapper.sessionToModel *)
definition sessionToModel :: "session \<Rightarrow> user_session" where
  "sessionToModel s = \<lparr>us_id = s_id s, us_createdAt = s_createdAt s, us_expiresAt = s_expiresAt s\<rparr>"

(* apps/api/src/modules/users/mappers/users.mapper.ts 69-80 UsersMapper.discordNotificationToItem *)
definition discordNotificationToItem :: "discord_notification \<Rightarrow> guild option \<Rightarrow> discord_notification_item act" where
  "discordNotificationToItem n g =
     andThen (orThrow (ScriptExc ''TypeError'') g) (\<lambda>g.
     ret \<lparr>di_id = dn_id n, di_status = dn_status n, di_costType = dn_costType n, di_cost = dn_cost n,
       di_channelId = dn_channelId n, di_discordGuildId = g_discordGuildId g,
       di_streamerEventId = dn_streamerEventId n, di_createdAt = dn_createdAt n\<rparr>)"

(* apps/api/src/modules/users/mappers/users.mapper.ts 82-93 UsersMapper.webhookNotificationToItem *)
definition webhookNotificationToItem :: "webhook_notification \<Rightarrow> guild option \<Rightarrow> webhook_notification_item" where
  "webhookNotificationToItem n g =
     \<lparr>wi_id = wn_id n, wi_status = wn_status n, wi_costType = wn_costType n, wi_cost = wn_cost n,
      wi_type = wn_type n, wi_discordGuildId = map_option g_discordGuildId g,
      wi_streamerEventId = wn_streamerEventId n, wi_createdAt = wn_createdAt n\<rparr>"

(* apps/api/src/modules/users/mappers/users.mapper.ts 95-106 UsersMapper.notificationLogToItem *)
definition userLogToItem :: "notification_log \<Rightarrow> user_notification_log" where
  "userLogToItem l =
     \<lparr>ug_id = l_id l, ug_notificationId = l_notificationId l, ug_notificationType = l_notificationType l,
      ug_status = l_status l, ug_streamerLogin = l_streamerLogin l, ug_eventType = l_eventType l,
      ug_errorMessage = l_errorMessage l, ug_createdAt = l_createdAt l\<rparr>"

section \<open>Reading users\<close>

text \<open>A page has its rows and the number of all rows that match.\<close>

(* apps/api/src/modules/users/services/users.service.ts 43-63 UsersService.getAll *)
definition getAllUsers :: "nat \<Rightarrow> nat \<Rightarrow> string option \<Rightarrow> (user_list_item list \<times> nat) act" where
  "getAllUsers page pageSize search =
     gets (\<lambda>w. let found = filter (\<lambda>u. like_or_all search (u_displayName u)) (w_users w)
       in (map (\<lambda>u. userToListItem u (roles_of u w) (twitch_account_of u w)) (page_rows page pageSize found),
           length found))"

(* apps/api/src/modules/users/services/users.service.ts 65-76 UsersService.getById *)
definition getUserItem :: "string \<Rightarrow> user_item act" where
  "getUserItem userId =
     andThen (gets (\<lambda>w. row_of u_id userId (w_users w))) (\<lambda>found.
     andThen (orThrow (badRequest (''Cannot find User with id \"'' @ userId @ ''\"'')) found) (\<lambda>u.
     gets (\<lambda>w. userToItem u (roles_of u w) (twitch_account_of u w))))"

(* apps/api/src/modules/users/services/users.service.ts 78-88 UsersService.getUserSessions *)
definition getUserSessions :: "string \<Rightarrow> user_session list act" where
  "getUserSessions userId =
     gets (\<lambda>w. map sessionToModel (newest_first s_createdAt
       (filter (\<lambda>s. s_userId s = userId \<and> w_now w < s_expiresAt s) (w_sessions w))))"

(* apps/api/src/modules/users/services/users.service.ts 170-188 UsersService.getUserSubscriptions *)
definition getUserSubscriptions :: "string \<Rightarrow> user_subscriptions act" where
  "getUserSubscriptions userId =
     andThen (gets (\<lambda>w. map (\<lambda>n. (n, guild_by_id (dn_guildId n) w))
       (newest_first dn_createdAt (filter (\<lambda>n. dn_ownerId n = userId) (w_dnotifs w))))) (\<lambda>discord.
     andThen (gets (\<lambda>w. map (\<lambda>n. (n, Option.bind (wn_guildId n) (\<lambda>i. guild_by_id i w)))
       (newest_first wn_createdAt (filter (\<lambda>n. wn_ownerId n = userId) (w_wnotifs w))))) (\<lambda>webhook.
     andThen (mapEach (\<lambda>(n, g). discordNotificationToItem n g) discord) (\<lambda>items.
     ret \<lparr>ub_discord = items, ub_webhook = map (\<lambda>(n, g). webhookNotificationToItem n g) webhook\<rparr>)))"

(* apps/api/src/modules/users/services/users.service.ts 190-197 UsersService.getUserNotificationLogs *)
definition getUserNotificationLogs :: "string \<Rightarrow> user_notification_log list act" where
  "getUserNotificationLogs userId =
     gets (\<lambda>w. map userLogToItem (newest_first l_createdAt (filter (\<lambda>l. l_ownerId l = userId) (w_logs w))))"

section \<open>Changing users\<close>

(* apps/api/src/modules/users/services/users.service.ts 90-100 UsersService.deleteUserSession *)
definition deleteUserSession :: "string \<Rightarrow> string \<Rightarrow> unit act" where
  "deleteUserSession userId sessionId =
     andThen (gets (session_of sessionId userId)) (\<lambda>found.
     andThen (orThrow (notFound ''Session not found'') found) (\<lambda>s.
     modify (w_sessions_update (delete_rows (\<lambda>x. s_id x = s_id s)))))"

definition user_not_found :: "string \<Rightarrow> exc" where
  "user_not_found userId = notFound (''User \"'' @ userId @ ''\" not found'')"

text \<open>\<open>Math.max(0, ...priorities)\<close>.\<close>

definition max_priority :: "role list \<Rightarrow> int" where
  "max_priority rs = foldr (\<lambda>r. max (r_priority r)) rs 0"

(* apps/api/src/modules/users/services/users.service.ts 114-134 UsersService.updateUserRoles, the ranks *)
definition check_ranks :: "string \<Rightarrow> string \<Rightarrow> role list \<Rightarrow> unit act" where
  "check_ranks currentUserId targetUserId newRoles =
     andThen (gets (user_roles currentUserId)) (\<lambda>current.
     andThen (gets (\<lambda>w. row_of u_id targetUserId (w_users w))) (\<lambda>found.
     andThen (orThrow (user_not_found targetUserId) found) (\<lambda>target.
     andThen (gets (roles_of target)) (\<lambda>owned.
     andThen (throwIf (max_priority current \<le> max_priority owned)
       (forbidden ''Cannot edit roles of a user with equal or higher role priority'')) (\<lambda>_.
     throwIf (max_priority current \<le> max_priority newRoles)
       (forbidden ''Cannot assign roles with equal or higher priority than your own''))))))"

text \<open>Identifiers of no role are passed over.\<close>

(* apps/api/src/modules/users/services/users.service.ts 102-148 UsersService.updateUserRoles *)
definition updateUserRoles :: "string \<Rightarrow> permission list \<Rightarrow> string \<Rightarrow> string list \<Rightarrow> unit act" where
  "updateUserRoles currentUserId permissions targetUserId roleIds =
     andThen (gets (\<lambda>w. filter (\<lambda>r. r_id r \<in> set roleIds) (w_roles w))) (\<lambda>newRoles.
     andThen (whenever (ADMIN \<notin> set permissions) (check_ranks currentUserId targetUserId newRoles)) (\<lambda>_.
     andThen (gets (\<lambda>w. row_of u_id targetUserId (w_users w))) (\<lambda>found.
     andThen (orThrow (user_not_found targetUserId) found) (\<lambda>u.
     modify (w_users_update (save_row u_id (u\<lparr>u_roles := map r_id newRoles\<rparr>)))))))"

(* apps/api/src/modules/users/services/users.service.ts 150-158 UsersService.updateUserStatus *)
definition updateUserStatus :: "string \<Rightarrow> account_status \<Rightarrow> unit act" where
  "updateUserStatus userId status =
     andThen (gets (\<lambda>w. row_of u_id userId (w_users w))) (\<lambda>found.
     andThen (orThrow (user_not_found userId) found) (\<lambda>_.
     modify (w_users_update (update_rows (\<lambda>u. u_id u = userId) (\<lambda>u. u\<lparr>u_status := status\<rparr>)))))"

text \<open>The column \<open>balance\<close> is \<open>decimal(3, 1)\<close>: a number of a hundred or more does not fit, and the
  database refuses it.\<close>

(* libs/database/src/entities/user.entity.ts 21-22 UserEntity.balance *)
definition fits_balance :: "credits \<Rightarrow> bool" where
  "fits_balance c \<longleftrightarrow> \<bar>c\<bar> < 1000"

(* apps/api/src/modules/users/dto/update-user-balance.dto.ts 4-10 UpdateUserBalanceDto *)
definition balance_dto :: "credits \<Rightarrow> bool" where
  "balance_dto c \<longleftrightarrow> 0 \<le> c \<and> c \<le> 9999"

(* apps/api/src/modules/users/services/users.service.ts 160-168 UsersService.updateUserBalance *)
definition updateUserBalance :: "string \<Rightarrow> credits \<Rightarrow> unit act" where
  "updateUserBalance userId balance =
     andThen (gets (\<lambda>w. row_of u_id userId (w_users w))) (\<lambda>found.
     andThen (orThrow (user_not_found userId) found) (\<lambda>_.
     andThen (throwIf (\<not> fits_balance balance) (ScriptExc ''QueryFailedError'')) (\<lambda>_.
     modify (w_users_update (update_rows (\<lambda>u. u_id u = userId) (\<lambda>u. u\<lparr>u_balance := balance\<rparr>))))))"

section \<open>Routes\<close>

(* apps/api/src/modules/users/controllers/users.controller.ts 22-26 UsersController.getAllUsers *)
definition routeUsers :: "access_claims \<Rightarrow> nat \<Rightarrow> nat \<Rightarrow> string option \<Rightarrow> (user_list_item list \<times> nat) act" where
  "routeUsers claims page pageSize search = for_permission [ADMIN] claims (\<lambda>_. getAllUsers page pageSize search)"

(* apps/api/src/modules/users/controllers/users.controller.ts 28-32 UsersController.getUser *)
definition routeUser :: "access_claims \<Rightarrow> string \<Rightarrow> user_item act" where
  "routeUser claims userId = for_permission [ADMIN] claims (\<lambda>_. getUserItem userId)"

(* apps/api/src/modules/users/controllers/users.controller.ts 34-38 UsersController.getUserSessions *)
definition routeUserSessions :: "access_claims \<Rightarrow> string \<Rightarrow> user_session list act" where
  "routeUserSessions claims userId = for_permission [ADMIN] claims (\<lambda>_. getUserSessions userId)"

(* apps/api/src/modules/users/controllers/users.controller.ts 40-48 UsersController.deleteUserSession *)
definition routeDeleteUserSession :: "access_claims \<Rightarrow> string \<Rightarrow> string \<Rightarrow> unit act" where
  "routeDeleteUserSession claims userId sessionId =
     for_permission [ADMIN] claims (\<lambda>_. deleteUserSession userId sessionId)"

(* apps/api/src/modules/users/controllers/users.controller.ts 50-60 UsersController.updateUserRoles *)
definition routeUpdateUserRoles :: "access_claims \<Rightarrow> string \<Rightarrow> string list \<Rightarrow> unit act" where
  "routeUpdateUserRoles claims userId roleIds =
     for_permission [ADMIN] claims (\<lambda>user. updateUserRoles (ak_sub user) (ak_permissions user) userId roleIds)"

(* apps/api/src/modules/users/controllers/users.controller.ts 62-70 UsersController.updateUserStatus *)
definition routeUpdateUserStatus :: "access_claims \<Rightarrow> string \<Rightarrow> account_status \<Rightarrow> unit act" where
  "routeUpdateUserStatus claims userId status = for_permission [ADMIN] claims (\<lambda>_. updateUserStatus userId status)"

(* apps/api/src/modules/users/controllers/users.controller.ts 72-80 UsersController.updateUserBalance *)
definition routeUpdateUserBalance :: "access_claims \<Rightarrow> string \<Rightarrow> credits \<Rightarrow> unit act" where
  "routeUpdateUserBalance claims userId balance =
     for_permission [ADMIN] claims (\<lambda>_.
       andThen (throwIf (\<not> balance_dto balance) (badRequest ''balance'')) (\<lambda>_. updateUserBalance userId balance))"

(* apps/api/src/modules/users/controllers/users.controller.ts 82-86 UsersController.getUserSubscriptions *)
definition routeUserSubscriptions :: "access_claims \<Rightarrow> string \<Rightarrow> user_subscriptions act" where
  "routeUserSubscriptions claims userId = for_permission [ADMIN] claims (\<lambda>_. getUserSubscriptions userId)"

(* apps/api/src/modules/users/controllers/users.controller.ts 88-92 UsersController.getUserNotificationLogs *)
definition routeUserNotificationLogs :: "access_claims \<Rightarrow> string \<Rightarrow> user_notification_log list act" where
  "routeUserNotificationLogs claims userId = for_permission [ADMIN] claims (\<lambda>_. getUserNotificationLogs userId)"

section \<open>Rank and blocking\<close>

lemma max_priority_nonneg: "0 \<le> max_priority rs"
  unfolding max_priority_def by (induction rs) auto

lemma max_priority_ge: "r \<in> set rs \<Longrightarrow> r_priority r \<le> max_priority rs"
  unfolding max_priority_def by (induction rs) auto

lemma user_roles_save: "user_roles v (w\<lparr>w_users := save_row u_id u (w_users w)\<rparr>) =
    (if v = u_id u then filter (\<lambda>r. r_id r \<in> set (u_roles u)) (w_roles w) else user_roles v w)"
  by (simp add: user_roles_def row_of_save roles_of_def split: option.split)

lemma role_ids_filter: "filter (\<lambda>r. r_id r \<in> r_id ` set (filter (\<lambda>r. r_id r \<in> S) rs)) rs = filter (\<lambda>r. r_id r \<in> S) rs"
  by (rule filter_cong) auto

lemma updateUserRoles_result:
  assumes "updateUserRoles c ps t ids w = (Inr x, w')"
  obtains u where "row_of u_id t (w_users w) = Some u"
    and "w' = w\<lparr>w_users := save_row u_id (u\<lparr>u_roles := map r_id (filter (\<lambda>r. r_id r \<in> set ids) (w_roles w))\<rparr>) (w_users w)\<rparr>"
    and "ADMIN \<in> set ps \<or> (max_priority (user_roles t w) < max_priority (user_roles c w) \<and>
      max_priority (filter (\<lambda>r. r_id r \<in> set ids) (w_roles w)) < max_priority (user_roles c w))"
  using assms by (auto simp: updateUserRoles_def check_ranks_def exec user_roles_def split: option.splits if_splits)

lemma assigned_below_rank:
  assumes "updateUserRoles c ps t ids w = (Inr x, w')" and "ADMIN \<notin> set ps"
  shows "c \<noteq> t \<and> user_roles c w' = user_roles c w \<and>
    max_priority (user_roles t w) < max_priority (user_roles c w) \<and>
    (\<forall>r \<in> set (user_roles t w'). r_id r \<in> set ids \<and> r_priority r < max_priority (user_roles c w)) \<and>
    (\<forall>v. v \<noteq> t \<longrightarrow> user_roles v w' = user_roles v w)"
proof -
  let ?new = "filter (\<lambda>r. r_id r \<in> set ids) (w_roles w)"
  obtain u where u: "row_of u_id t (w_users w) = Some u"
    and w': "w' = w\<lparr>w_users := save_row u_id (u\<lparr>u_roles := map r_id ?new\<rparr>) (w_users w)\<rparr>"
    and lt: "max_priority (user_roles t w) < max_priority (user_roles c w)" "max_priority ?new < max_priority (user_roles c w)"
    using updateUserRoles_result [OF assms(1)] assms(2) by metis
  have id: "u_id u = t" using row_of_in [OF u] by simp
  have "user_roles t w' = ?new" using id role_ids_filter by (simp add: w' user_roles_save)
  moreover have "user_roles v w' = user_roles v w" if "v \<noteq> t" for v using that id by (simp add: w' user_roles_save)
  ultimately show ?thesis using lt max_priority_ge [of _ ?new] by fastforce
qed

text \<open>
  C35. Without the administrator permission, roles are only given by rank: a change that is accepted
  is of another user who ranks lower, leaves them with requested roles that all rank below the caller,
  and changes nobody else's roles.
\<close>

theorem roles_assigned_below_rank:
  assumes "updateUserRoles c ps t ids w = (Inr x, w')" and "ADMIN \<notin> set ps"
  shows "c \<noteq> t \<and> user_roles c w' = user_roles c w \<and>
    max_priority (user_roles t w) < max_priority (user_roles c w) \<and>
    (\<forall>r \<in> set (user_roles t w'). r_id r \<in> set ids \<and> r_priority r < max_priority (user_roles c w)) \<and>
    (\<forall>v. v \<noteq> t \<longrightarrow> user_roles v w' = user_roles v w)"
  by (rule assigned_below_rank [OF assms])

lemma status_of_update: "updateUserStatus i st w = (Inr x, w') \<Longrightarrow>
    w' = w\<lparr>w_users := update_rows (\<lambda>u. u_id u = i) (\<lambda>u. u\<lparr>u_status := st\<rparr>) (w_users w)\<rparr> \<and>
    row_of u_id i (w_users w') = map_option (\<lambda>u. u\<lparr>u_status := st\<rparr>) (row_of u_id i (w_users w))"
  by (auto simp: updateUserStatus_def exec row_of_update split: option.splits dest: row_of_in)

text \<open>
  Blocking a user takes effect at the next refresh: from then on no session of theirs gets new
  tokens, but every access token they hold is still accepted as before.
\<close>

theorem blocking_leaves_access_tokens:
  assumes "updateUserStatus i BLOCKED w = (Inr x, w')"
  shows "refreshToken E i s w' = (Inl (forbidden ''Account is blocked''), w') \<and>
    validateAccess c w' = (fst (validateAccess c w), w')"
proof -
  obtain u where "row_of u_id i (w_users w) = Some u"
    using assms by (auto simp: updateUserStatus_def exec split: option.splits)
  then show ?thesis using status_of_update [OF assms]
    by (auto simp: refreshToken_def validateAccess_def redis_exists_def exec)
qed

section \<open>The theorems at concrete users\<close>

definition leader_role :: role where
  "leader_role = \<lparr>r_id = ''l'', r_name = ''leader'', r_priority = 3, r_permissions = [MANAGE_ROLES]\<rparr>"

definition ranked_world :: world where
  "ranked_world = sample_world\<lparr>w_roles := [manager_role, leader_role],
     w_users := [sample_user\<lparr>u_roles := [''l'']\<rparr>, sample_user\<lparr>u_id := ''v'', u_roles := []\<rparr>]\<rparr>"

theorem roles_assigned_below_rank_witness:
  "\<exists>w'. updateUserRoles ''u'' [] ''v'' [''m''] ranked_world = (Inr (), w') \<and> user_roles ''v'' w' = [manager_role]"
proof -
  have "fst (updateUserRoles ''u'' [] ''v'' [''m''] ranked_world) = Inr ()"
    by (simp add: updateUserRoles_def check_ranks_def exec ranked_world_def row_of_def user_roles_def roles_of_def
        max_priority_def manager_role_def leader_role_def sample_user_def)
  then obtain w' where r: "updateUserRoles ''u'' [] ''v'' [''m''] ranked_world = (Inr (), w')"
    by (cases "updateUserRoles ''u'' [] ''v'' [''m''] ranked_world") simp
  obtain u where u: "row_of u_id ''v'' (w_users ranked_world) = Some u"
    and w': "w' = ranked_world\<lparr>w_users := save_row u_id
      (u\<lparr>u_roles := map r_id (filter (\<lambda>r. r_id r \<in> set [''m'']) (w_roles ranked_world))\<rparr>) (w_users ranked_world)\<rparr>"
    by (rule updateUserRoles_result [OF r])
  from u have "u_id u = ''v''" by (auto dest: row_of_in)
  then have "user_roles ''v'' w' = [manager_role]"
    unfolding w' user_roles_save by (simp add: ranked_world_def manager_role_def leader_role_def)
  then show ?thesis using roles_assigned_below_rank [OF r] r by simp
qed

theorem blocking_leaves_access_tokens_witness:
  "\<exists>w'. updateUserStatus ''u'' BLOCKED account_world = (Inr (), w') \<and>
     refreshToken sample_env ''u'' ''S'' w' = (Inl (forbidden ''Account is blocked''), w') \<and>
     validateAccess access_of_account w' = (Inr access_of_account, w')"
proof -
  have "fst (updateUserStatus ''u'' BLOCKED account_world) = Inr ()"
    by (simp add: updateUserStatus_def exec row_of_def)
  then obtain w' where r: "updateUserStatus ''u'' BLOCKED account_world = (Inr (), w')"
    by (cases "updateUserStatus ''u'' BLOCKED account_world") simp
  have "fst (validateAccess access_of_account account_world) = Inr access_of_account"
    by (simp add: validateAccess_def access_of_account_def redis_exists_def exec lookup_def)
  then show ?thesis using blocking_leaves_access_tokens [OF r] r by simp
qed

end
