(* ===== verification/Streamers.thy ===== *)
theory Streamers imports Users begin

text \<open>
  \<open>apps/api/src/modules/streamers\<close> and \<open>apps/api/src/modules/notification-logs\<close>: what administrators
  see of the streamers, and the log of what was sent, for everybody who may read a part of it.
\<close>

section \<open>Streamers\<close>

(* apps/api/src/modules/streamers/models/streamer-list-item.model.ts 1-12 IStreamerListItemModel *)
record streamer_list_item =
  sl_id :: string
  sl_broadcasterId :: string
  sl_twitchLogin :: string
  sl_displayName :: string
  sl_profileImageUrl :: "string option"
  sl_isPartner :: bool
  sl_isInternal :: bool
  sl_allowPersonalSubscriptions :: bool
  sl_linkedUserId :: "string option"
  sl_createdAt :: time

(* apps/api/src/modules/streamers/models/streamer-item.model.ts 3-6 IStreamerItemModel *)
record streamer_item = streamer_list_item +
  sl_linkedUserDisplayName :: "string option"
  sl_linkedUserEmail :: "string option"

(* apps/api/src/modules/streamers/models/streamer-notification-log.model.ts 3-11 IStreamerNotificationLogModel *)
record streamer_notification_log =
  sg_id :: string
  sg_notificationId :: string
  sg_notificationType :: log_type
  sg_status :: log_status
  sg_eventType :: string
  sg_errorMessage :: "string option"
  sg_createdAt :: time

(* apps/api/src/modules/streamers/mappers/streamers.mapper.ts 7-33 StreamersMapper.entityToListItem *)
definition streamerToListItem :: "streamer \<Rightarrow> streamer_list_item" where
  "streamerToListItem s =
     \<lparr>sl_id = st_id s, sl_broadcasterId = st_broadcasterId s, sl_twitchLogin = st_twitchLogin s,
      sl_displayName = st_displayName s, sl_profileImageUrl = st_profileImageUrl s, sl_isPartner = st_isPartner s,
      sl_isInternal = (st_isInternal s = Some True), sl_allowPersonalSubscriptions = st_allowPersonalSubscriptions s,
      sl_linkedUserId = st_userId s, sl_createdAt = st_createdAt s\<rparr>"

(* apps/api/src/modules/streamers/mappers/streamers.mapper.ts 35-41 StreamersMapper.entityToItem *)
definition streamerToItem :: "streamer \<Rightarrow> user option \<Rightarrow> streamer_item" where
  "streamerToItem s u =
     streamer_list_item.extend (streamerToListItem s)
       (streamer_item.fields (map_option u_displayName u) (Option.bind u u_email))"

(* apps/api/src/modules/streamers/mappers/streamers.mapper.ts 43-53 StreamersMapper.notificationLogToItem *)
definition streamerLogToItem :: "notification_log \<Rightarrow> streamer_notification_log" where
  "streamerLogToItem l =
     \<lparr>sg_id = l_id l, sg_notificationId = l_notificationId l, sg_notificationType = l_notificationType l,
      sg_status = l_status l, sg_eventType = l_eventType l, sg_errorMessage = l_errorMessage l,
      sg_createdAt = l_createdAt l\<rparr>"

text \<open>\<open>ILIKE\<close> does not distinguish upper and lower case; the letters of ASCII are folded here.\<close>

definition lower_char :: "char \<Rightarrow> char" where
  "lower_char c = (let n = (of_char c :: nat) in if 65 \<le> n \<and> n \<le> 90 then char_of (n + 32) else c)"

definition sql_ilike :: "string \<Rightarrow> string \<Rightarrow> bool" where
  "sql_ilike pattern s = sql_like (map lower_char pattern) (map lower_char s)"

definition found_streamer :: "string option \<Rightarrow> streamer \<Rightarrow> bool" where
  "found_streamer search s \<longleftrightarrow>
     \<not> truthy search \<or>
     (let pattern = ''%'' @ the search @ ''%'' in
      sql_ilike pattern (st_displayName s) \<or> sql_ilike pattern (st_twitchLogin s))"

(* apps/api/src/modules/streamers/services/streamers.service.ts 22-43 StreamersService.getAll *)
definition getAllStreamers :: "nat \<Rightarrow> nat \<Rightarrow> string option \<Rightarrow> (streamer_list_item list \<times> nat) act" where
  "getAllStreamers page pageSize search =
     gets (\<lambda>w. let found = newest_first st_createdAt (filter (found_streamer search) (w_streamers w))
       in (map streamerToListItem (page_rows page pageSize found), length found))"

text \<open>The streamer with the user it is linked to.\<close>

(* apps/api/src/modules/streamers/services/streamers.service.ts 88-99 StreamersService.findOrThrow *)
definition findStreamerOrThrow :: "string \<Rightarrow> (streamer \<times> user option) act" where
  "findStreamerOrThrow streamerId =
     andThen (gets (\<lambda>w. row_of st_id streamerId (w_streamers w))) (\<lambda>found.
     andThen (orThrow (notFound (''Streamer \"'' @ streamerId @ ''\" not found'')) found) (\<lambda>s.
     andThen (gets (\<lambda>w. Option.bind (st_userId s) (\<lambda>i. row_of u_id i (w_users w)))) (\<lambda>u. ret (s, u))))"

(* apps/api/src/modules/streamers/services/streamers.service.ts 45-48 StreamersService.getById *)
definition getStreamerById :: "string \<Rightarrow> streamer_item act" where
  "getStreamerById streamerId = andThen (findStreamerOrThrow streamerId) (\<lambda>(s, u). ret (streamerToItem s u))"

text \<open>Saving writes all columns as they were read; the login is unique.\<close>

(* libs/database/src/entities/twitch-streamer.ts 13-14 TwitchStreamerEntity.twitchLogin *)
definition save_streamer :: "streamer \<Rightarrow> unit act" where
  "save_streamer s =
     andThen (gets (\<lambda>w. \<exists>x \<in> set (w_streamers w). st_id x \<noteq> st_id s \<and> st_twitchLogin x = st_twitchLogin s)) (\<lambda>taken.
     andThen (throwIf taken (ScriptExc ''QueryFailedError'')) (\<lambda>_.
     modify (w_streamers_update (save_row st_id s))))"

text \<open>The only field of the request may be left out, or be null.\<close>

(* apps/api/src/modules/streamers/services/streamers.service.ts 50-57 StreamersService.update *)
definition updateStreamer :: "string \<Rightarrow> bool option option \<Rightarrow> streamer_item act" where
  "updateStreamer streamerId isInternal =
     andThen (findStreamerOrThrow streamerId) (\<lambda>(s, u).
     let s' = (case isInternal of None \<Rightarrow> s | Some v \<Rightarrow> s\<lparr>st_isInternal := v\<rparr>) in
     andThen (save_streamer s') (\<lambda>_. ret (streamerToItem s' u)))"

(* apps/api/src/modules/streamers/services/streamers.service.ts 59-75 StreamersService.syncFromTwitch *)
definition syncFromTwitch :: "env \<Rightarrow> string \<Rightarrow> streamer_item act" where
  "syncFromTwitch E streamerId =
     andThen (findStreamerOrThrow streamerId) (\<lambda>(s, u).
     andThen (getUserById E (st_broadcasterId s)) (\<lambda>found.
     andThen (orThrow (badRequest ''Could not fetch this streamer from Twitch'') found) (\<lambda>t.
     andThen (gets w_now) (\<lambda>now.
     let s' = s\<lparr>st_twitchLogin := au_login t, st_displayName := au_displayName t,
          st_profileImageUrl := au_profileImageUrl t, st_profileImageUpdatedAt := Some now,
          st_isPartner := (au_broadcasterType t = ''partner'')\<rparr> in
     andThen (save_streamer s') (\<lambda>_. ret (streamerToItem s' u))))))"

(* apps/api/src/modules/streamers/services/streamers.service.ts 77-86 StreamersService.getNotificationLogs *)
definition getStreamerLogs :: "string \<Rightarrow> streamer_notification_log list act" where
  "getStreamerLogs streamerId =
     andThen (findStreamerOrThrow streamerId) (\<lambda>(s, _).
     gets (\<lambda>w. map streamerLogToItem (newest_first l_createdAt
       (filter (\<lambda>l. l_streamerLogin l = st_twitchLogin s) (w_logs w)))))"

section \<open>Notification logs\<close>

(* apps/api/src/modules/notification-logs/models/notification-log.model.ts 3-15 INotificationLogModel *)
record notification_log_model =
  nl_id :: string
  nl_notificationId :: string
  nl_notificationType :: log_type
  nl_status :: log_status
  nl_ownerId :: string
  nl_discordGuildId :: "string option"
  nl_streamerLogin :: string
  nl_eventType :: string
  nl_requestPayload :: "json option"
  nl_errorMessage :: "string option"
  nl_createdAt :: time

(* apps/api/src/modules/notification-logs/services/notification-logs.service.ts 61-75 NotificationLogsService.toModel *)
definition logToModel :: "notification_log \<Rightarrow> notification_log_model" where
  "logToModel l =
     \<lparr>nl_id = l_id l, nl_notificationId = l_notificationId l, nl_notificationType = l_notificationType l,
      nl_status = l_status l, nl_ownerId = l_ownerId l, nl_discordGuildId = l_discordGuildId l,
      nl_streamerLogin = l_streamerLogin l, nl_eventType = l_eventType l, nl_requestPayload = l_requestPayload l,
      nl_errorMessage = l_errorMessage l, nl_createdAt = l_createdAt l\<rparr>"

(* apps/api/src/modules/notification-logs/services/notification-logs.service.ts 45-59 NotificationLogsService.paginate *)
definition paginate_logs :: "(notification_log \<Rightarrow> bool) \<Rightarrow> nat \<Rightarrow> nat \<Rightarrow> (notification_log_model list \<times> nat) act" where
  "paginate_logs P page pageSize =
     gets (\<lambda>w. let found = newest_first l_createdAt (filter P (w_logs w))
       in (map logToModel (page_rows page pageSize found), length found))"

(* apps/api/src/modules/notification-logs/services/notification-logs.service.ts 19-21 NotificationLogsService.getAll *)
definition getAllLogs :: "nat \<Rightarrow> nat \<Rightarrow> (notification_log_model list \<times> nat) act" where
  "getAllLogs page pageSize = paginate_logs (\<lambda>_. True) page pageSize"

(* apps/api/src/modules/notification-logs/services/notification-logs.service.ts 23-29 NotificationLogsService.getMy *)
definition getMyLogs :: "string \<Rightarrow> nat \<Rightarrow> nat \<Rightarrow> (notification_log_model list \<times> nat) act" where
  "getMyLogs userId page pageSize = paginate_logs (\<lambda>l. l_ownerId l = userId) page pageSize"

(* apps/api/src/modules/notification-logs/services/notification-logs.service.ts 31-43 NotificationLogsService.getByGuild *)
definition getGuildLogs :: "env \<Rightarrow> string \<Rightarrow> string \<Rightarrow> nat \<Rightarrow> nat \<Rightarrow> (notification_log_model list \<times> nat) act" where
  "getGuildLogs E discordGuildId userId page pageSize =
     andThen (assertAccess E userId discordGuildId) (\<lambda>_.
     paginate_logs (\<lambda>l. l_discordGuildId l = Some discordGuildId) page pageSize)"

section \<open>Routes\<close>

(* apps/api/src/modules/streamers/controllers/streamers.controller.ts 21-25 StreamersController.getAllStreamers *)
definition routeStreamers :: "access_claims \<Rightarrow> nat \<Rightarrow> nat \<Rightarrow> string option \<Rightarrow> (streamer_list_item list \<times> nat) act" where
  "routeStreamers claims page pageSize search =
     for_permission [ADMIN] claims (\<lambda>_. getAllStreamers page pageSize search)"

(* apps/api/src/modules/streamers/controllers/streamers.controller.ts 27-31 StreamersController.getStreamer *)
definition routeStreamer :: "access_claims \<Rightarrow> string \<Rightarrow> streamer_item act" where
  "routeStreamer claims streamerId = for_permission [ADMIN] claims (\<lambda>_. getStreamerById streamerId)"

(* apps/api/src/modules/streamers/controllers/streamers.controller.ts 33-40 StreamersController.updateStreamer *)
definition routeUpdateStreamer :: "access_claims \<Rightarrow> string \<Rightarrow> bool option option \<Rightarrow> streamer_item act" where
  "routeUpdateStreamer claims streamerId isInternal =
     for_permission [ADMIN] claims (\<lambda>_. updateStreamer streamerId isInternal)"

(* apps/api/src/modules/streamers/controllers/streamers.controller.ts 42-46 StreamersController.syncStreamer *)
definition routeSyncStreamer :: "env \<Rightarrow> access_claims \<Rightarrow> string \<Rightarrow> streamer_item act" where
  "routeSyncStreamer E claims streamerId = for_permission [ADMIN] claims (\<lambda>_. syncFromTwitch E streamerId)"

(* apps/api/src/modules/streamers/controllers/streamers.controller.ts 48-52 StreamersController.getStreamerNotificationLogs *)
definition routeStreamerLogs :: "access_claims \<Rightarrow> string \<Rightarrow> streamer_notification_log list act" where
  "routeStreamerLogs claims streamerId = for_permission [ADMIN] claims (\<lambda>_. getStreamerLogs streamerId)"

(* apps/api/src/modules/notification-logs/controllers/notification-logs.controller.ts 17-23 NotificationLogsController.getAll *)
definition routeAllLogs :: "access_claims \<Rightarrow> nat \<Rightarrow> nat \<Rightarrow> (notification_log_model list \<times> nat) act" where
  "routeAllLogs claims page pageSize = for_permission [ADMIN] claims (\<lambda>_. getAllLogs page pageSize)"

(* apps/api/src/modules/notification-logs/controllers/notification-logs.controller.ts 25-31 NotificationLogsController.getMy *)
definition routeMyLogs :: "access_claims \<Rightarrow> nat \<Rightarrow> nat \<Rightarrow> (notification_log_model list \<times> nat) act" where
  "routeMyLogs claims page pageSize = for_user claims (\<lambda>user. getMyLogs (ak_sub user) page pageSize)"

(* apps/api/src/modules/notification-logs/controllers/notification-logs.controller.ts 33-43 NotificationLogsController.getByGuild *)
definition routeGuildLogs :: "env \<Rightarrow> access_claims \<Rightarrow> string \<Rightarrow> nat \<Rightarrow> nat \<Rightarrow> (notification_log_model list \<times> nat) act" where
  "routeGuildLogs E claims guildId page pageSize =
     for_user claims (\<lambda>user. getGuildLogs E guildId (ak_sub user) page pageSize)"

section \<open>Pages\<close>

text \<open>The pages of a list, one after another, are the list.\<close>

lemma pages_cover: "concat (map (\<lambda>p. page_rows (Suc p) n xs) [0..<k]) = take (k * n) xs"
proof (induction k)
  case (Suc k)
  have "take (k * n) xs @ take n (drop (k * n) xs) = take (k * n + n) xs" by (simp add: take_add)
  with Suc show ?case by (simp add: page_rows_def add.commute)
qed (simp add: page_rows_def)

lemma newest_first_set [simp]: "set (newest_first f xs) = set xs"
  by (simp add: newest_first_def)

lemma newest_first_sorted: "sorted (map (\<lambda>x. - f x) (newest_first f xs))"
  by (simp add: newest_first_def)

end
