(* ===== verification/Statistics.thy ===== *)
theory Statistics imports Access Notifications begin

text \<open>
  \<open>apps/api/src/modules/statistics\<close>: counts over the tables, kept in the cache for twenty minutes.
  The answers are JSON, computed or from the cache. Days are days of UTC, the time zone of the process
  and of the database connection.
\<close>

(* apps/api/src/modules/statistics/services/statistics.service.ts 8-8 STATISTICS_CACHE_TTL *)
definition statistics_cache_ttl :: nat where
  "statistics_cache_ttl = 60 * 20"

(* apps/api/src/modules/statistics/services/statistics.service.ts 9-9 DAILY_STATS_DAYS *)
definition daily_stats_days :: nat where
  "daily_stats_days = 7"

(* apps/api/src/modules/statistics/services/statistics.service.ts 10-10 TOP_STREAMERS_LIMIT *)
definition top_streamers_limit :: nat where
  "top_streamers_limit = 5"

text \<open>What all of them do around their queries.\<close>

definition cached_statistics :: "env \<Rightarrow> string \<Rightarrow> json act \<Rightarrow> json act" where
  "cached_statistics E cacheKey compute =
     andThen (redis_get E cacheKey) (\<lambda>cached.
     if truthy_json cached then ret (the cached)
     else
       andThen compute (\<lambda>result.
       andThen (redis_set cacheKey result statistics_cache_ttl) (\<lambda>_. ret result)))"

definition count_json :: "nat \<Rightarrow> json" where
  "count_json n = JNum (nat_text n)"

section \<open>The platform\<close>

(* apps/api/src/modules/statistics/services/statistics.service.ts 30-66 StatisticsService.getPlatformStats *)
definition getPlatformStats :: "env \<Rightarrow> json act" where
  "getPlatformStats E = cached_statistics E platformStatistics (gets (\<lambda>w. JObj [
     (''totalDiscordNotifications'', count_json (length (w_dnotifs w))),
     (''totalWebhookNotifications'', count_json (length (w_wnotifs w))),
     (''totalStreamers'', count_json (length (w_streamers w))),
     (''totalUsers'', count_json (length (w_users w))),
     (''totalGuilds'', count_json (length (w_guilds w))),
     (''successfulNotifications'', count_json (count_rows (\<lambda>l. l_status l = Sent) (w_logs w)))]))"

section \<open>Days\<close>

definition day_ms :: int where
  "day_ms = 24 * 60 * 60 * 1000"

definition day_of :: "time \<Rightarrow> int" where
  "day_of t = t div day_ms"

text \<open>Midnight, seven days ago; then one row for each day that has logs, in order.\<close>

definition since :: "time \<Rightarrow> time" where
  "since now = (day_of now - int daily_stats_days) * day_ms"

definition day_rows :: "time \<Rightarrow> notification_log list \<Rightarrow> (int \<times> nat \<times> nat) list" where
  "day_rows from ls =
     (let recent = filter (\<lambda>l. from \<le> l_createdAt l) ls in
      map (\<lambda>d. (d, count_rows (\<lambda>l. day_of (l_createdAt l) = d) recent,
                   count_rows (\<lambda>l. day_of (l_createdAt l) = d \<and> l_status l = Sent) recent))
        (sort (remdups (map (\<lambda>l. day_of (l_createdAt l)) recent))))"

definition day_json :: "env \<Rightarrow> time \<Rightarrow> nat \<Rightarrow> nat \<Rightarrow> json" where
  "day_json E date logged successful =
     JObj [(''date'', JStr (x_iso E date)), (''total'', count_json logged), (''successful'', count_json successful)]"

(* apps/api/src/modules/statistics/services/statistics.service.ts 179-198 StatisticsService.fillMissingDays *)
definition fillMissingDays :: "env \<Rightarrow> time \<Rightarrow> (int \<times> nat \<times> nat) list \<Rightarrow> nat \<Rightarrow> json list" where
  "fillMissingDays E now rows days =
     map (\<lambda>i. let date = now - int (days - 1 - i) * day_ms in
         case map_of rows (day_of date) of
           None \<Rightarrow> day_json E date 0 0
         | Some (logged, successful) \<Rightarrow> day_json E date logged successful) [0..<days]"

(* apps/api/src/modules/statistics/services/statistics.service.ts 68-93 StatisticsService.getDailyStats *)
definition getDailyStats :: "env \<Rightarrow> json act" where
  "getDailyStats E = cached_statistics E dailyStatistics (gets (\<lambda>w.
     JArr (fillMissingDays E (w_now w) (day_rows (since (w_now w)) (w_logs w)) daily_stats_days)))"

section \<open>A user\<close>

text \<open>The second query names \<open>notification.ownerId\<close>, but the property of the entity is written
  \<open>onwerId\<close>: TypeORM leaves the name as it is, and the database knows no such column.\<close>

(* apps/api/src/modules/statistics/services/statistics.service.ts 95-122 StatisticsService.getUserStats *)
definition getUserStats :: "env \<Rightarrow> string \<Rightarrow> json act" where
  "getUserStats E userId = cached_statistics E (userStatistics userId)
     (andThen (gets (\<lambda>w. count_rows (\<lambda>l. l_ownerId l = userId \<and> l_status l = Sent) (w_logs w))) (\<lambda>_.
      throw (ScriptExc ''QueryFailedError'')))"

section \<open>Streamers\<close>

definition streamer_by_login :: "string \<Rightarrow> streamer list \<Rightarrow> streamer option" where
  "streamer_by_login login = find (\<lambda>s. st_twitchLogin s = login)"

text \<open>\<open>isInternal != true\<close> is not true of NULL: neither of a streamer whose flag is NULL nor of a
  login that is no streamer's.\<close>

definition not_internal :: "string \<Rightarrow> streamer list \<Rightarrow> bool" where
  "not_internal login ss =
     (case streamer_by_login login ss of None \<Rightarrow> False | Some s \<Rightarrow> st_isInternal s = Some False)"

definition log_count :: "string \<Rightarrow> notification_log list \<Rightarrow> nat" where
  "log_count login ls = count_rows (\<lambda>l. l_streamerLogin l = login) ls"

text \<open>Logins with the same count stand in the order of their first logs.\<close>

definition top_logins :: "notification_log list \<Rightarrow> streamer list \<Rightarrow> string list" where
  "top_logins ls ss =
     take top_streamers_limit (sort_key (\<lambda>login. - int (log_count login ls))
       (filter (\<lambda>login. not_internal login ss) (first_occurrences (map l_streamerLogin ls))))"

definition text_json :: "string option \<Rightarrow> json" where
  "text_json t = (case t of None \<Rightarrow> JNull | Some s \<Rightarrow> JStr s)"

(* apps/api/src/modules/statistics/services/statistics.service.ts 144-149 StatisticsService.getTopStreamers, a row *)
definition top_json :: "string \<Rightarrow> streamer option \<Rightarrow> nat \<Rightarrow> json" where
  "top_json login s n =
     JObj [(''twitchLogin'', JStr login), (''displayName'', text_json (map_option st_displayName s)),
       (''profileImageUrl'', text_json (Option.bind s st_profileImageUrl)), (''notificationCount'', count_json n)]"

(* apps/api/src/modules/statistics/services/statistics.service.ts 124-153 StatisticsService.getTopStreamers *)
definition getTopStreamers :: "env \<Rightarrow> json act" where
  "getTopStreamers E = cached_statistics E topStreamersStatistics (gets (\<lambda>w.
     JArr (map (\<lambda>login. top_json login (streamer_by_login login (w_streamers w)) (log_count login (w_logs w)))
       (top_logins (w_logs w) (w_streamers w)))))"

section \<open>Kinds\<close>

definition type_rows :: "notification_log list \<Rightarrow> (log_type \<times> nat) list" where
  "type_rows ls = map (\<lambda>t. (t, count_rows (\<lambda>l. l_notificationType l = t) ls))
     (first_occurrences (map l_notificationType ls))"

definition to_count :: "(log_type \<times> nat) list \<Rightarrow> log_type \<Rightarrow> nat" where
  "to_count rows t = (case map_of rows t of None \<Rightarrow> 0 | Some n \<Rightarrow> n)"

(* apps/api/src/modules/statistics/services/statistics.service.ts 155-177 StatisticsService.getNotificationSplit *)
definition getNotificationSplit :: "env \<Rightarrow> json act" where
  "getNotificationSplit E = cached_statistics E notificationSplitStatistics (gets (\<lambda>w.
     let rows = type_rows (w_logs w) in
     JObj [(''discord'', count_json (to_count rows LogDiscord)), (''webhook'', count_json (to_count rows LogWebhook))]))"

section \<open>Routes\<close>

(* apps/api/src/modules/statistics/controllers/statistics.controller.ts 17-21 StatisticsController.getPlatformStatistics *)
definition routePlatformStatistics :: "env \<Rightarrow> access_claims \<Rightarrow> json act" where
  "routePlatformStatistics E claims = for_user claims (\<lambda>_. getPlatformStats E)"

(* apps/api/src/modules/statistics/controllers/statistics.controller.ts 23-27 StatisticsController.getDailyStatistics *)
definition routeDailyStatistics :: "env \<Rightarrow> access_claims \<Rightarrow> json act" where
  "routeDailyStatistics E claims = for_user claims (\<lambda>_. getDailyStats E)"

(* apps/api/src/modules/statistics/controllers/statistics.controller.ts 29-34 StatisticsController.getMyStatistics *)
definition routeMyStatistics :: "env \<Rightarrow> access_claims \<Rightarrow> json act" where
  "routeMyStatistics E claims = for_user claims (\<lambda>user. getUserStats E (ak_sub user))"

(* apps/api/src/modules/statistics/controllers/statistics.controller.ts 36-40 StatisticsController.getTopStreamers *)
definition routeTopStreamers :: "env \<Rightarrow> access_claims \<Rightarrow> json act" where
  "routeTopStreamers E claims = for_user claims (\<lambda>_. getTopStreamers E)"

(* apps/api/src/modules/statistics/controllers/statistics.controller.ts 42-46 StatisticsController.getNotificationSplit *)
definition routeNotificationSplit :: "env \<Rightarrow> access_claims \<Rightarrow> json act" where
  "routeNotificationSplit E claims = for_user claims (\<lambda>_. getNotificationSplit E)"

section \<open>What the queries count\<close>

lemma map_of_map_keys: "map_of (map (\<lambda>d. (d, f d)) ds) d = (if d \<in> set ds then Some (f d) else None)"
  by (induction ds) auto

lemma count_zero: "(\<And>x. x \<in> set xs \<Longrightarrow> \<not> P x) \<Longrightarrow> count_rows P xs = 0"
  by (auto simp: count_rows_def filter_empty_conv)

lemma count_filter: "count_rows P (filter Q xs) = count_rows (\<lambda>x. P x \<and> Q x) xs"
  by (simp add: count_rows_def conj_commute)

lemma split_counts: "to_count (type_rows ls) t = count_rows (\<lambda>l. l_notificationType l = t) ls"
  unfolding to_count_def type_rows_def map_of_map_keys by (auto simp: image_iff intro!: count_zero)

lemma day_window: "0 \<le> i \<Longrightarrow> i \<le> int daily_stats_days \<Longrightarrow> day_of t = day_of now - i \<Longrightarrow> since now \<le> t"
  unfolding since_def day_of_def day_ms_def daily_stats_days_def by simp

lemma day_of_back: "day_of (now - i * day_ms) = day_of now - i"
  unfolding day_of_def day_ms_def by simp

text \<open>The logs of the day that lies i days back.\<close>

definition logs_back :: "int \<Rightarrow> world \<Rightarrow> notification_log list" where
  "logs_back i w = filter (\<lambda>l. day_of (l_createdAt l) = day_of (w_now w) - i) (w_logs w)"

lemma filled_day:
  assumes "0 \<le> i" and "i \<le> int daily_stats_days"
  shows "(case map_of (day_rows (since now) ls) (day_of now - i) of
      None \<Rightarrow> day_json E date 0 0 | Some (logged, successful) \<Rightarrow> day_json E date logged successful) =
    day_json E date (count_rows (\<lambda>l. day_of (l_createdAt l) = day_of now - i) ls)
      (count_rows (\<lambda>l. day_of (l_createdAt l) = day_of now - i \<and> l_status l = Sent) ls)"
proof -
  let ?d = "day_of now - i"
  let ?recent = "filter (\<lambda>l. since now \<le> l_createdAt l) ls"
  have recent: "l \<in> set ls \<Longrightarrow> day_of (l_createdAt l) = ?d \<Longrightarrow> since now \<le> l_createdAt l" for l
    using day_window [OF assms] by blast
  have count: "count_rows (\<lambda>l. day_of (l_createdAt l) = ?d \<and> Q l) ?recent = count_rows (\<lambda>l. day_of (l_createdAt l) = ?d \<and> Q l) ls" for Q
    unfolding count_rows_def filter_filter using recent by (intro arg_cong [where f = length] filter_cong) auto
  have zero: "?d \<notin> set (map (\<lambda>l. day_of (l_createdAt l)) ?recent) \<Longrightarrow>
      count_rows (\<lambda>l. day_of (l_createdAt l) = ?d \<and> Q l) ls = 0" for Q
    by (intro count_zero) (auto simp: image_iff dest: recent)
  show ?thesis
    using count [of "\<lambda>_. True"] count [of "\<lambda>l. l_status l = Sent"] zero [of "\<lambda>_. True"] zero [of "\<lambda>l. l_status l = Sent"]
    by (simp add: day_rows_def Let_def map_of_map_keys)
qed

lemma uncached:
  assumes "lookup (w_now w) k (w_redis w) = None"
  shows "cached_statistics E k (gets f) w = (Inr (f w), snd (redis_set k (f w) statistics_cache_ttl w))"
    and "cached_statistics E k (andThen (gets g) (\<lambda>_. throw e)) w = (Inl e, w)"
  using assms by (simp_all add: cached_statistics_def redis_get_def redis_set_def exec truthy_json_def)

text \<open>
  C33. The daily statistics that are computed are exact: the entry of each of the seven days up to today
  has the number of logs of that day, and of those sent, days without logs included.
\<close>

theorem daily_statistics_exact:
  assumes "lookup (w_now w) dailyStatistics (w_redis w) = None"
  shows "fst (getDailyStats E w) = Inr (JArr (map (\<lambda>i.
      day_json E (w_now w - int (6 - i) * day_ms) (length (logs_back (int (6 - i)) w))
        (length (filter (\<lambda>l. l_status l = Sent) (logs_back (int (6 - i)) w)))) [0..<7]))"
proof -
  have "fillMissingDays E (w_now w) (day_rows (since (w_now w)) (w_logs w)) 7 = map (\<lambda>i.
      day_json E (w_now w - int (6 - i) * day_ms) (length (logs_back (int (6 - i)) w))
        (length (filter (\<lambda>l. l_status l = Sent) (logs_back (int (6 - i)) w)))) [0..<7]"
    unfolding fillMissingDays_def Let_def day_of_back
    by (rule map_cong [OF refl]) (simp add: filled_day daily_stats_days_def logs_back_def count_rows_def conj_commute)
  then show ?thesis
    unfolding getDailyStats_def by (simp add: uncached [OF assms] daily_stats_days_def)
qed

lemma sorted_take_bound:
  assumes "sorted (map f xs)" and "x \<in> set xs" and "x \<notin> set (take n xs)"
  shows "length (take n xs) = n \<and> (\<forall>y \<in> set (take n xs). f y \<le> f x)"
proof -
  have "x \<in> set (take n xs) \<union> set (drop n xs)"
    unfolding set_append [symmetric] append_take_drop_id by (rule assms(2))
  then have x: "x \<in> set (drop n xs)" using assms(3) by simp
  have "sorted (map f (take n xs @ drop n xs))" using assms(1) by simp
  then have "\<forall>y \<in> set (take n xs). f y \<le> f x" using x unfolding map_append sorted_append by simp
  moreover have "n \<le> length xs" using x by (cases "n \<le> length xs") simp_all
  ultimately show ?thesis by simp
qed

lemma log_count_pos: "0 < log_count login ls \<longleftrightarrow> login \<in> l_streamerLogin ` set ls"
  by (auto simp: log_count_def count_rows_def filter_empty_conv image_iff)

lemma top_logins_exact:
  "length (top_logins ls ss) \<le> 5 \<and> sorted (map (\<lambda>login. - int (log_count login ls)) (top_logins ls ss)) \<and>
   (\<forall>login \<in> set (top_logins ls ss). not_internal login ss \<and> 0 < log_count login ls) \<and>
   (\<forall>login. not_internal login ss \<and> 0 < log_count login ls \<and> login \<notin> set (top_logins ls ss) \<longrightarrow>
     length (top_logins ls ss) = 5 \<and> (\<forall>m \<in> set (top_logins ls ss). log_count login ls \<le> log_count m ls))"
proof -
  let ?f = "\<lambda>login. - int (log_count login ls)"
  let ?xs = "sort_key ?f (filter (\<lambda>login. not_internal login ss) (first_occurrences (map l_streamerLogin ls)))"
  have top: "top_logins ls ss = take 5 ?xs" by (simp add: top_logins_def top_streamers_limit_def)
  have s: "sorted (map ?f ?xs)" by simp
  have few: "length (take 5 ?xs) \<le> 5" by simp
  have sorted: "sorted (map ?f (take 5 ?xs))" using s unfolding take_map [symmetric] by (rule sorted_wrt_take)
  have listed: "\<forall>login \<in> set (take 5 ?xs). not_internal login ss \<and> 0 < log_count login ls"
    by (intro ballI) (drule in_set_takeD, simp add: log_count_pos)
  have missing: "\<forall>login. not_internal login ss \<and> 0 < log_count login ls \<and> login \<notin> set (take 5 ?xs) \<longrightarrow>
      length (take 5 ?xs) = 5 \<and> (\<forall>m \<in> set (take 5 ?xs). log_count login ls \<le> log_count m ls)"
  proof (intro allI impI)
    fix login
    assume m: "not_internal login ss \<and> 0 < log_count login ls \<and> login \<notin> set (take 5 ?xs)"
    then have "login \<in> set ?xs" by (simp add: log_count_pos)
    then have "length (take 5 ?xs) = 5 \<and> (\<forall>m \<in> set (take 5 ?xs). ?f m \<le> ?f login)"
      using m by (intro sorted_take_bound [OF s]) simp_all
    then show "length (take 5 ?xs) = 5 \<and> (\<forall>m \<in> set (take 5 ?xs). log_count login ls \<le> log_count m ls)"
      by (auto simp only: neg_le_iff_le of_nat_le_iff)
  qed
  show ?thesis unfolding top by (intro conjI few sorted listed missing)
qed

text \<open>
  The ranking that is computed has at most five streamers, in descending order of their logs, none
  internal; whoever is missing has no log, has no more logs than anyone of a full ranking, or is not
  known to be no internal streamer.
\<close>

theorem top_streamers_exact:
  assumes "lookup (w_now w) topStreamersStatistics (w_redis w) = None"
  shows "\<exists>logins. fst (getTopStreamers E w) = Inr (JArr (map (\<lambda>login.
      top_json login (streamer_by_login login (w_streamers w)) (log_count login (w_logs w))) logins)) \<and>
    length logins \<le> 5 \<and> sorted (map (\<lambda>login. - int (log_count login (w_logs w))) logins) \<and>
    (\<forall>login \<in> set logins. not_internal login (w_streamers w) \<and> 0 < log_count login (w_logs w)) \<and>
    (\<forall>login. not_internal login (w_streamers w) \<and> 0 < log_count login (w_logs w) \<and> login \<notin> set logins \<longrightarrow>
      length logins = 5 \<and> (\<forall>m \<in> set logins. log_count login (w_logs w) \<le> log_count m (w_logs w)))"
  using top_logins_exact unfolding getTopStreamers_def uncached(1) [OF assms] by (intro exI conjI) auto

text \<open>Nobody gets statistics of their own that were not in the cache already, where nothing puts them.\<close>

lemma own_statistics_fail:
  assumes "lookup (w_now w) (userStatistics userId) (w_redis w) = None"
  shows "getUserStats E userId w = (Inl (ScriptExc ''QueryFailedError''), w)"
  unfolding getUserStats_def by (rule uncached(2) [OF assms])

section \<open>The theorems at concrete logs\<close>

definition log_at :: "time \<Rightarrow> string \<Rightarrow> log_status \<Rightarrow> notification_log" where
  "log_at t login st = \<lparr>l_id = ''l'', l_notificationId = ''n'', l_notificationType = LogDiscord, l_status = st,
     l_ownerId = ''u'', l_discordGuildId = None, l_streamerLogin = login, l_eventType = ''stream.online'',
     l_requestPayload = None, l_errorMessage = None, l_createdAt = t\<rparr>"

definition logged_world :: world where
  "logged_world = sample_world\<lparr>w_now := 10 * day_ms + 5, w_streamers := [sample_streamer],
     w_logs := [log_at (9 * day_ms) (st_twitchLogin sample_streamer) Sent, log_at (9 * day_ms + 7) ''other'' Failed,
                log_at (2 * day_ms) ''other'' Sent]\<rparr>"

lemma logged_fields [simp]: "lookup t k (w_redis logged_world) = None" "w_now logged_world = 10 * day_ms + 5"
  by (simp_all add: logged_world_def lookup_def)

theorem daily_statistics_exact_witness:
  "\<exists>js. fst (getDailyStats sample_env logged_world) = Inr (JArr js) \<and> js ! 5 = day_json sample_env (9 * day_ms + 5) 2 1"
proof -
  have "logs_back 1 logged_world = [log_at (9 * day_ms) (st_twitchLogin sample_streamer) Sent, log_at (9 * day_ms + 7) ''other'' Failed]"
    by (simp add: logs_back_def logged_world_def log_at_def day_of_def day_ms_def)
  then show ?thesis
    using daily_statistics_exact [of logged_world sample_env] by (simp add: log_at_def upt_rec numeral_2_eq_2)
qed

theorem top_streamers_exact_witness:
  "\<exists>logins. fst (getTopStreamers sample_env logged_world) = Inr (JArr (map (\<lambda>login.
      top_json login (streamer_by_login login [sample_streamer]) (log_count login (w_logs logged_world))) logins)) \<and>
    ''other'' \<notin> set logins"
proof -
  have "w_streamers logged_world = [sample_streamer]" "\<not> not_internal ''other'' [sample_streamer]"
    by (simp_all add: logged_world_def not_internal_def streamer_by_login_def sample_streamer_def)
  then show ?thesis using top_streamers_exact [of logged_world sample_env] by auto
qed

end
