(* ===== verification/DiscordHandlers.thy ===== *)
theory DiscordHandlers imports Worker Charges Auth begin

text \<open>
  \<open>apps/api/src/modules/discord-handler\<close>: what the bot asks the API for, over the remote procedure
  calls of \<open>libs/rpc\<close>. A user is known by their Discord identifier. The balance of a guild that has no
  row is \<open>None\<close>, for the number 0.
\<close>

section \<open>Requests and answers\<close>

(* apps/api/src/modules/discord-handler/dto/add-destination.dto.ts 5-24 AddDestinationDto *)
record add_destination =
  ad_discordId :: string
  ad_discordGuildId :: string
  ad_channelId :: string
  ad_broadcasterId :: string
  ad_eventType :: "streamer_events option"
  ad_payload :: json

(* libs/shared/src/models/rpc/add-destination.model.ts 10-15 IAddDestinationResult *)
record added_destination =
  ar_channelId :: string
  ar_cost :: credits
  ar_eventType :: streamer_events

(* libs/shared/src/models/rpc/get-profile.model.ts 6-15 IGetProfileResult, with the guild *)
record profile =
  pr_balance :: credits
  pr_subscriptionsCount :: nat
  pr_guild :: "(credits option \<times> nat) option"

(* libs/shared/src/models/rpc/list-destinations.model.ts 6-14 IDestinationItem *)
record destination_item =
  de_id :: string
  de_streamerLogin :: string
  de_streamerDisplayName :: string
  de_eventType :: string
  de_channelId :: string
  de_costType :: cost_type
  de_isOwn :: bool

(* libs/shared/src/models/rpc/authenticate.model.ts 5-8 IAuthenticateResult *)
record authenticate_result =
  au_isRegistered :: bool
  au_authUrl :: "string option"

(* libs/shared/src/models/rpc/search-streamers.model.ts 5-9 ISearchStreamerItem *)
record search_item =
  se_broadcasterId :: string
  se_broadcasterLogin :: string
  se_displayName :: string

definition discord_account :: "string \<Rightarrow> world \<Rightarrow> user option" where
  "discord_account discordId w = find (\<lambda>u. u_discordId u = Some discordId) (w_users w)"

definition not_registered :: "env \<Rightarrow> exc" where
  "not_registered E =
     rpcBusinessException NOT_REGISTERED ''User is not registered in the system'' (Some (getDiscordAuthRedirectUri E))"

definition registered :: "env \<Rightarrow> string \<Rightarrow> user act" where
  "registered E discordId = andThen (gets (discord_account discordId)) (orThrow (not_registered E))"

section \<open>Handlers\<close>

(* apps/api/src/modules/discord-handler/handlers/authenticate.handler.ts 20-32 AuthenticateHandler.handle *)
definition handleAuthenticate :: "env \<Rightarrow> string \<Rightarrow> authenticate_result act" where
  "handleAuthenticate E discordId =
     andThen (gets (discord_account discordId)) (\<lambda>u.
     if u \<noteq> None then ret \<lparr>au_isRegistered = True, au_authUrl = None\<rparr>
     else ret \<lparr>au_isRegistered = False, au_authUrl = Some (getDiscordAuthRedirectUri E)\<rparr>)"

text \<open>A refusal for want of credits is told by its message.\<close>

definition insufficient :: "exc \<Rightarrow> exc" where
  "insufficient e = (case e of
     HttpExc n m d \<Rightarrow> if n = 400 \<and> prefix ''Insufficient'' m then rpcBusinessException INSUFFICIENT_CREDITS m None else e
   | _ \<Rightarrow> e)"

(* apps/api/src/modules/discord-handler/handlers/add-destination.handler.ts 22-62 AddDestinationHandler.handle *)
definition handleAddDestination :: "env \<Rightarrow> add_destination \<Rightarrow> added_destination act" where
  "handleAddDestination E d =
     andThen (registered E (ad_discordId d)) (\<lambda>u.
     let eventType = (case ad_eventType d of None \<Rightarrow> STREAM_ONLINE | Some e \<Rightarrow> e) in
     catching
       (andThen (createDiscordNotification E
          \<lparr>cd_broadcasterId = ad_broadcasterId d, cd_event = eventType, cd_costType = Personal,
           cd_payload = ad_payload d, cd_guildId = ad_discordGuildId d, cd_channelId = ad_channelId d,
           cd_gameFilters = None\<rparr> (u_id u)) (\<lambda>n.
        ret \<lparr>ar_channelId = dn_channelId n, ar_cost = dn_cost n, ar_eventType = eventType\<rparr>))
       (\<lambda>e. throw (insufficient e)))"

(* apps/api/src/modules/discord-handler/handlers/get-profile.handler.ts 24-65 GetProfileHandler.handle *)
definition handleGetProfile :: "env \<Rightarrow> string \<Rightarrow> string option \<Rightarrow> profile act" where
  "handleGetProfile E discordId discordGuildId =
     andThen (registered E discordId) (\<lambda>u.
     andThen (gets (\<lambda>w. count_rows (\<lambda>n. dn_ownerId n = u_id u \<and> dn_status n = Active) (w_dnotifs w))) (\<lambda>own.
     if \<not> truthy discordGuildId then ret \<lparr>pr_balance = u_balance u, pr_subscriptionsCount = own, pr_guild = None\<rparr>
     else
       andThen (gets (guild_row (the discordGuildId))) (\<lambda>g.
       andThen (gets (\<lambda>w. count_rows (\<lambda>n. dn_status n = Active \<and>
         of_guild (the discordGuildId) (load_discord w n)) (w_dnotifs w))) (\<lambda>there.
       ret \<lparr>pr_balance = u_balance u, pr_subscriptionsCount = own,
         pr_guild = Some (map_option g_balance g, there)\<rparr>))))"

text \<open>The dash that stands for what is missing, in UTF-8.\<close>

definition dash :: string where
  "dash = [CHR 0xE2, CHR 0x80, CHR 0x94]"

definition or_dash :: "string option \<Rightarrow> string" where
  "or_dash v = (case v of None \<Rightarrow> dash | Some s \<Rightarrow> s)"

(* apps/api/src/modules/discord-handler/handlers/list-destinations.handler.ts 72-82 ListDestinationsHandler.toItem *)
definition destination_of :: "string \<Rightarrow> discord_notification loaded \<Rightarrow> destination_item" where
  "destination_of requesterId = (\<lambda>(n, e, st, g).
     \<lparr>de_id = dn_id n, de_streamerLogin = or_dash (map_option st_twitchLogin st),
      de_streamerDisplayName = or_dash (map_option st_displayName st),
      de_eventType = or_dash (map_option (\<lambda>e. event_text (e_event e)) e), de_channelId = dn_channelId n,
      de_costType = dn_costType n, de_isOwn = (dn_ownerId n = requesterId)\<rparr>)"

(* apps/api/src/modules/discord-handler/handlers/list-destinations.handler.ts 50-59 ListDestinationsHandler.fetchGuildDestinations *)
definition fetchGuildDestinations :: "string \<Rightarrow> string \<Rightarrow> destination_item list act" where
  "fetchGuildDestinations guildId requesterId =
     gets (\<lambda>w. map (destination_of requesterId) (filter (of_guild guildId) (map (load_discord w) (w_dnotifs w))))"

(* apps/api/src/modules/discord-handler/handlers/list-destinations.handler.ts 61-70 ListDestinationsHandler.fetchOwnDestinations *)
definition fetchOwnDestinations :: "string \<Rightarrow> destination_item list act" where
  "fetchOwnDestinations ownerId =
     gets (\<lambda>w. map (\<lambda>n. destination_of ownerId (load_discord w n)) (filter (\<lambda>n. dn_ownerId n = ownerId) (w_dnotifs w)))"

(* apps/api/src/modules/discord-handler/handlers/list-destinations.handler.ts 23-48 ListDestinationsHandler.handle *)
definition handleListDestinations :: "env \<Rightarrow> string \<Rightarrow> string option \<Rightarrow> destination_item list act" where
  "handleListDestinations E discordId discordGuildId =
     andThen (registered E discordId) (\<lambda>u.
     if truthy discordGuildId then
       andThen (canAccessGuild E (u_id u) (the discordGuildId)) (\<lambda>hasAccess.
       andThen (throwIf (\<not> hasAccess)
         (rpcBusinessException FORBIDDEN ''No permission to view this server's notifications'' None)) (\<lambda>_.
       fetchGuildDestinations (the discordGuildId) (u_id u)))
     else fetchOwnDestinations (u_id u))"

(* apps/api/src/modules/discord-handler/handlers/remove-destination.handler.ts 49-64 RemoveDestinationHandler.handle, not the owner *)
definition may_remove :: "env \<Rightarrow> user \<Rightarrow> discord_notification \<Rightarrow> string option \<Rightarrow> unit act" where
  "may_remove E u n discordGuildId =
     (if \<not> truthy discordGuildId then throw (rpcBusinessException FORBIDDEN ''No permission to remove this notification'' None)
      else
        andThen (gets (guild_by_id (dn_guildId n))) (\<lambda>g.
        andThen (throwIf (map_option g_discordGuildId g \<noteq> discordGuildId)
          (rpcBusinessException FORBIDDEN ''Notification does not belong to this server'' None)) (\<lambda>_.
        andThen (canAccessGuild E (u_id u) (the discordGuildId)) (\<lambda>hasAccess.
        throwIf (\<not> hasAccess) (rpcBusinessException FORBIDDEN ''No permission to manage this server'' None)))))"

(* apps/api/src/modules/discord-handler/handlers/remove-destination.handler.ts 25-71 RemoveDestinationHandler.handle *)
definition handleRemoveDestination :: "env \<Rightarrow> string \<Rightarrow> string \<Rightarrow> string option \<Rightarrow> unit act" where
  "handleRemoveDestination E discordId notificationId discordGuildId =
     andThen (registered E discordId) (\<lambda>u.
     andThen (gets (\<lambda>w. row_of dn_id notificationId (w_dnotifs w))) (\<lambda>found.
     andThen (orThrow (rpcBusinessException NOT_FOUND ''Notification not found'' None) found) (\<lambda>n.
     andThen (whenever (dn_ownerId n \<noteq> u_id u) (may_remove E u n discordGuildId)) (\<lambda>_.
     andThen (modify (w_dnotifs_update (delete_rows (\<lambda>x. dn_id x = dn_id n)))) (\<lambda>_.
     cleanupSubscriptionIfUnused E (dn_streamerEventId n))))))"

text \<open>\<open>String.prototype.trim\<close>: the white space of ASCII is one character, the other white space and line ends
  of JavaScript are two or three bytes in UTF-8. No byte sequence of these is part of another character.\<close>

definition js_space :: "char \<Rightarrow> bool" where
  "js_space c \<longleftrightarrow> (let n = (of_char c :: nat) in n = 32 \<or> (9 \<le> n \<and> n \<le> 13))"

definition js_wide_spaces :: "string list" where
  "js_wide_spaces =
     [[CHR 0xC2, CHR 0xA0], [CHR 0xE1, CHR 0x9A, CHR 0x80], [CHR 0xE2, CHR 0x80, CHR 0x80], [CHR 0xE2, CHR 0x80, CHR 0x81],
      [CHR 0xE2, CHR 0x80, CHR 0x82], [CHR 0xE2, CHR 0x80, CHR 0x83], [CHR 0xE2, CHR 0x80, CHR 0x84],
      [CHR 0xE2, CHR 0x80, CHR 0x85], [CHR 0xE2, CHR 0x80, CHR 0x86], [CHR 0xE2, CHR 0x80, CHR 0x87],
      [CHR 0xE2, CHR 0x80, CHR 0x88], [CHR 0xE2, CHR 0x80, CHR 0x89], [CHR 0xE2, CHR 0x80, CHR 0x8A],
      [CHR 0xE2, CHR 0x80, CHR 0xA8], [CHR 0xE2, CHR 0x80, CHR 0xA9], [CHR 0xE2, CHR 0x80, CHR 0xAF],
      [CHR 0xE2, CHR 0x81, CHR 0x9F], [CHR 0xE3, CHR 0x80, CHR 0x80], [CHR 0xEF, CHR 0xBB, CHR 0xBF]]"

fun skip_spaces :: "string list \<Rightarrow> string \<Rightarrow> string" where
  "skip_spaces ws [] = []"
| "skip_spaces ws (c # s) =
     (if js_space c then skip_spaces ws s
      else if c # take 1 s \<in> set ws then skip_spaces ws (drop 1 s)
      else if c # take 2 s \<in> set ws then skip_spaces ws (drop 2 s)
      else c # s)"

definition js_trim :: "string \<Rightarrow> string" where
  "js_trim s = rev (skip_spaces (map rev js_wide_spaces) (rev (skip_spaces js_wide_spaces s)))"

lemma skip_spaces_length: "length (skip_spaces ws s) \<le> length s"
  by (induction ws s rule: skip_spaces.induct) auto

lemmas js_trim_simps = js_trim_def js_space_def js_wide_spaces_def

(* apps/api/src/modules/discord-handler/handlers/search-streamers.handler.ts 18-35 SearchStreamersHandler.handle *)
definition handleSearchStreamers :: "env \<Rightarrow> string \<Rightarrow> search_item list act" where
  "handleSearchStreamers E text =
     (let search = js_trim text in
      if length search < 2 then ret []
      else
        andThen (getChannels E (Some search) None 25) (\<lambda>(items, cursor).
        ret (map (\<lambda>c. \<lparr>se_broadcasterId = ch_broadcasterId c, se_broadcasterLogin = ch_broadcasterLogin c,
               se_displayName = ch_displayName c\<rparr>) items)))"

section \<open>Suspending\<close>

text \<open>
  \<open>find\<close> refuses a relation that the entities do not declare. These are the relations a
  notification has, and those of the entities it is related to.
\<close>

definition declared_relations :: "(string \<times> (string \<times> string) list) list" where
  "declared_relations =
     [(''DiscordNotification'', [(''owner'', ''User''), (''guild'', ''DiscordGuild''), (''streamerEvent'', ''TwitchStreamerEvent'')]),
      (''DiscordGuild'', [(''notifications'', ''DiscordNotification''), (''webhookNotifications'', ''WebhookNotification'')]),
      (''TwitchStreamerEvent'', [(''streamer'', ''TwitchStreamer''), (''twitchApp'', ''TwitchApp''),
         (''discordNotifications'', ''DiscordNotification''), (''webhookNotifications'', ''WebhookNotification'')])]"

fun relation_path :: "string \<Rightarrow> string list \<Rightarrow> bool" where
  "relation_path entity [] = True"
| "relation_path entity (p # ps) =
     (case Option.bind (map_of declared_relations entity) (\<lambda>rs. map_of rs p) of
        None \<Rightarrow> False | Some target \<Rightarrow> relation_path target ps)"

definition find_discord_with :: "string list list \<Rightarrow> string \<Rightarrow> discord_notification option act" where
  "find_discord_with relations i =
     andThen (throwIf (\<exists>p \<in> set relations. \<not> relation_path ''DiscordNotification'' p)
       (ScriptExc ''EntityPropertyNotFoundError'')) (\<lambda>_.
     gets (\<lambda>w. row_of dn_id i (w_dnotifs w)))"

(* apps/api/src/modules/discord-handler/handlers/suspend-notification.handler.ts 28-57 SuspendNotificationHandler.handle *)
definition handleSuspendNotification :: "env \<Rightarrow> string \<Rightarrow> string \<Rightarrow> unit act" where
  "handleSuspendNotification E notificationId reason =
     andThen (find_discord_with [[''streamerEvent''], [''streamerEvent'', ''streamer''], [''guild'', ''discordGuildId'']]
       notificationId) (\<lambda>found.
     case found of
       None \<Rightarrow> ret ()
     | Some n \<Rightarrow>
         andThen (modify (w_dnotifs_update (update_rows (\<lambda>x. dn_id x = dn_id n) (\<lambda>x. x\<lparr>dn_status := Suspended\<rparr>)))) (\<lambda>_.
         andThen (gets (\<lambda>w. load_discord w n)) (\<lambda>(_, e, st, g).
         andThen (orThrow (ScriptExc ''TypeError'') g) (\<lambda>g.
         save_log E (\<lambda>newId now.
           \<lparr>l_id = newId, l_notificationId = dn_id n, l_notificationType = LogDiscord, l_status = Failed,
            l_ownerId = dn_ownerId n, l_discordGuildId = Some (g_discordGuildId g), l_streamerLogin = login_of st,
            l_eventType = (case e of None \<Rightarrow> [] | Some e \<Rightarrow> event_text (e_event e)),
            l_requestPayload = dn_messagePayload n, l_errorMessage = Some reason, l_createdAt = now\<rparr>)))))"

lemma suspension_always_fails:
  "handleSuspendNotification E i reason w = (Inl (ScriptExc ''EntityPropertyNotFoundError''), w)"
  by (simp add: handleSuspendNotification_def find_discord_with_def exec declared_relations_def)

section \<open>Who may remove\<close>

interpretation dn_kept: discord_frame w_dnotifs
  by unfold_locales simp_all

lemma may_remove_result:
  "w_dnotifs (snd (may_remove E u n gid w)) = w_dnotifs w"
  "fst (may_remove E u n gid w) = Inr () \<Longrightarrow>
    \<exists>g. guild_by_id (dn_guildId n) w = Some g \<and> gid = Some (g_discordGuildId g) \<and>
      fst (canAccessGuild E (u_id u) (g_discordGuildId g) w) = Inr True"
proof -
  have "relates (same w_dnotifs) (may_remove E u n gid)"
    unfolding may_remove_def by (intro sameness.rel_rules dn_kept.keep_canAccess)
  then show "w_dnotifs (snd (may_remove E u n gid w)) = w_dnotifs w" by (rule sameD)
  show "\<exists>g. guild_by_id (dn_guildId n) w = Some g \<and> gid = Some (g_discordGuildId g) \<and>
      fst (canAccessGuild E (u_id u) (g_discordGuildId g) w) = Inr True" if "fst (may_remove E u n gid w) = Inr ()"
    using that by (auto simp: may_remove_def exec truthy_def split: if_splits prod.splits sum.splits option.splits)
qed

lemma removal_right:
  assumes "w_dnotifs (snd (handleRemoveDestination E did i gid w)) \<noteq> w_dnotifs w"
  shows "\<exists>u n. discord_account did w = Some u \<and> row_of dn_id i (w_dnotifs w) = Some n \<and>
    (dn_ownerId n = u_id u \<or> (\<exists>g. guild_by_id (dn_guildId n) w = Some g \<and> gid = Some (g_discordGuildId g) \<and>
      fst (canAccessGuild E (u_id u) (g_discordGuildId g) w) = Inr True))"
proof -
  obtain u n where u: "discord_account did w = Some u" "row_of dn_id i (w_dnotifs w) = Some n"
    using assms by (auto simp: handleRemoveDestination_def registered_def exec split: option.splits)
  have "dn_ownerId n = u_id u \<or> fst (may_remove E u n gid w) = Inr ()"
  proof (rule disjCI)
    assume r: "fst (may_remove E u n gid w) \<noteq> Inr ()"
    then obtain e w' where e: "may_remove E u n gid w = (Inl e, w')" by (cases "may_remove E u n gid w") (metis fst_conv old.unit.exhaust sum.exhaust)
    then have "w_dnotifs w' = w_dnotifs w" using may_remove_result(1) by (metis snd_conv)
    then show "dn_ownerId n = u_id u"
      using assms u e by (auto simp: handleRemoveDestination_def registered_def exec split: if_splits)
  qed
  with u may_remove_result(2) show ?thesis by blast
qed

text \<open>
  C34. The bot's users remove only what they may: a call that takes notifications away is from a registered
  user, for a notification that is there, and either it is their own or they have access to the guild it
  belongs to and named that guild.
\<close>

theorem removal_authorised:
  assumes "w_dnotifs (snd (handleRemoveDestination E did i gid w)) \<noteq> w_dnotifs w"
  shows "\<exists>u n. discord_account did w = Some u \<and> row_of dn_id i (w_dnotifs w) = Some n \<and>
    (dn_ownerId n = u_id u \<or> (\<exists>g. guild_by_id (dn_guildId n) w = Some g \<and> gid = Some (g_discordGuildId g) \<and>
      fst (canAccessGuild E (u_id u) (g_discordGuildId g) w) = Inr True))"
  by (rule removal_right [OF assms])

definition own_notification :: discord_notification where
  "own_notification = \<lparr>dn_id = ''n'', dn_ownerId = ''u'', dn_cost = 10, dn_status = Active, dn_isDisabled = None,
     dn_costType = Personal, dn_channelId = ''5'', dn_guildId = ''g'', dn_streamerEventId = ''none'',
     dn_messagePayload = None, dn_gameFilters = [], dn_createdAt = 0\<rparr>"

definition notified_world :: world where
  "notified_world = populated_world\<lparr>w_users := [sample_user\<lparr>u_discordId := Some ''d''\<rparr>], w_dnotifs := [own_notification]\<rparr>"

theorem removal_authorised_witness:
  "\<exists>u n. discord_account ''d'' notified_world = Some u \<and> row_of dn_id ''n'' (w_dnotifs notified_world) = Some n \<and>
    dn_ownerId n = u_id u"
proof -
  have "w_dnotifs (snd (handleRemoveDestination sample_env ''d'' ''n'' None notified_world)) \<noteq> w_dnotifs notified_world"
    by (simp add: handleRemoveDestination_def registered_def discord_account_def exec notified_world_def own_notification_def
        sample_user_def row_of_def delete_rows_def cleanupSubscriptionIfUnused_def count_rows_def deleteLocalSubscription_def
        sample_event_def)
  from removal_authorised [OF this] show ?thesis by auto
qed

end
