(* ===== verification/Administration.thy ===== *)
theory Administration imports Access Receiver DiscordHandlers begin

text \<open>
  The routes over Twitch of administrators and users (\<open>apps/api/src/modules/admin\<close> and the controllers of
  \<open>apps/api/src/modules/twitch\<close>), the consumer of the messages about subscriptions
  (\<open>apps/api/src/modules/streamer-events\<close>), and the envelope of every answer of the API
  (\<open>apps/api/src/shared\<close>).
\<close>

section \<open>Administration of events\<close>

(* apps/api/src/modules/admin/services/admin.service.ts 12-14 AdminService.addTwitchEventStreamOnline *)
definition addTwitchEventStreamOnline :: "env \<Rightarrow> string \<Rightarrow> event act" where
  "addTwitchEventStreamOnline E broadcasterId = registerSubscription E broadcasterId STREAM_ONLINE"

(* apps/api/src/modules/admin/services/admin.service.ts 16-18 AdminService.getTwitchEvents *)
definition getTwitchEvents :: "nat \<Rightarrow> nat \<Rightarrow> (subscription_dto list \<times> nat) act" where
  "getTwitchEvents page pageSize = getAllTwitchSubscriptions page pageSize"

(* apps/api/src/modules/admin/services/admin.service.ts 20-22 AdminService.deleteLocalTwitchEvent *)
definition deleteLocalTwitchEvent :: "env \<Rightarrow> string \<Rightarrow> unit act" where
  "deleteLocalTwitchEvent E i = deleteLocalSubscription E i"

(* apps/api/src/modules/admin/controllers/admin.controller.ts 19-22 AdminController.addTwitchOnlineEvent *)
definition routeAddOnlineEvent :: "env \<Rightarrow> access_claims \<Rightarrow> string \<Rightarrow> event act" where
  "routeAddOnlineEvent E claims broadcasterId =
     for_permission [ADMIN] claims (\<lambda>_. addTwitchEventStreamOnline E broadcasterId)"

(* apps/api/src/modules/admin/controllers/admin.controller.ts 24-28 AdminController.getTwitchEvents *)
definition routeTwitchEvents :: "access_claims \<Rightarrow> nat \<Rightarrow> nat \<Rightarrow> (subscription_dto list \<times> nat) act" where
  "routeTwitchEvents claims page pageSize = for_permission [ADMIN] claims (\<lambda>_. getTwitchEvents page pageSize)"

(* apps/api/src/modules/admin/controllers/admin.controller.ts 30-34 AdminController.deleteLocalTwitchEvent *)
definition routeDeleteTwitchEvent :: "env \<Rightarrow> access_claims \<Rightarrow> string \<Rightarrow> unit act" where
  "routeDeleteTwitchEvent E claims i = for_permission [ADMIN] claims (\<lambda>_. deleteLocalTwitchEvent E i)"

(* apps/api/src/modules/admin/controllers/admin.controller.ts 36-40 AdminController.getRawTwitchSubscriptions *)
definition routeRawSubscriptions :: "env \<Rightarrow> access_claims \<Rightarrow> string \<Rightarrow> string option
    \<Rightarrow> (raw_item list \<times> int \<times> int \<times> int \<times> string option) act" where
  "routeRawSubscriptions E claims clientId after =
     for_permission [ADMIN] claims (\<lambda>_. getRawTwitchSubscriptions E clientId after)"

(* apps/api/src/modules/admin/controllers/admin.controller.ts 42-46 AdminController.deleteTwitchOnlySubscription *)
definition routeDeleteRawSubscription :: "env \<Rightarrow> access_claims \<Rightarrow> string \<Rightarrow> string \<Rightarrow> unit act" where
  "routeDeleteRawSubscription E claims subscriptionId clientId =
     for_permission [ADMIN] claims (\<lambda>_. deleteTwitchOnlySubscription E subscriptionId clientId)"

section \<open>Applications\<close>

definition app_managers :: "permission list" where
  "app_managers = [ADMIN, MANAGE_APPS]"

(* apps/api/src/modules/twitch/controllers/twitch-app.controller.ts 21-24 TwitchAppController.getAllApps *)
definition routeApps :: "access_claims \<Rightarrow> nat \<Rightarrow> nat \<Rightarrow> (app_item list \<times> nat) act" where
  "routeApps claims page pageSize = for_permission app_managers claims (\<lambda>_. getAllTwitchApps page pageSize)"

(* apps/api/src/modules/twitch/controllers/twitch-app.controller.ts 26-29 TwitchAppController.getApp *)
definition routeApp :: "env \<Rightarrow> access_claims \<Rightarrow> string \<Rightarrow> app_item act" where
  "routeApp E claims appId = for_permission app_managers claims (\<lambda>_. getAppById E appId)"

(* apps/api/src/modules/twitch/controllers/twitch-app.controller.ts 31-34 TwitchAppController.addTwitchApp *)
definition routeAddApp :: "env \<Rightarrow> access_claims \<Rightarrow> add_app_dto \<Rightarrow> app_item act" where
  "routeAddApp E claims dto = for_permission app_managers claims (\<lambda>_. addTwitchApp E dto)"

(* apps/api/src/modules/twitch/controllers/twitch-app.controller.ts 36-42 TwitchAppController.editTwitchApp *)
definition routeEditApp :: "env \<Rightarrow> access_claims \<Rightarrow> string \<Rightarrow> edit_app_dto \<Rightarrow> app_item act" where
  "routeEditApp E claims appId dto = for_permission app_managers claims (\<lambda>_. editTwitchApp E appId dto)"

(* apps/api/src/modules/twitch/controllers/twitch-app.controller.ts 44-47 TwitchAppController.deleteTwitchApp *)
definition routeDeleteApp :: "env \<Rightarrow> access_claims \<Rightarrow> string \<Rightarrow> bool act" where
  "routeDeleteApp E claims appId = for_permission app_managers claims (\<lambda>_. deleteTwitchApp E appId)"

section \<open>What users ask of Twitch\<close>

(* apps/api/src/modules/twitch/controllers/twitch.controller.ts 23-26 TwitchController.getExternalApiChannels *)
definition routeChannels ::
  "env \<Rightarrow> access_claims \<Rightarrow> string option \<Rightarrow> string option \<Rightarrow> (channel_model list \<times> string option) act" where
  "routeChannels E claims search cursor = for_user claims (\<lambda>_. getChannels E search cursor 20)"

text \<open>A search that is left out becomes the text \<open>undefined\<close>.\<close>

(* apps/api/src/modules/twitch/controllers/twitch.controller.ts 28-31 TwitchController.searchCategories *)
definition routeCategories ::
  "env \<Rightarrow> access_claims \<Rightarrow> string option \<Rightarrow> string option \<Rightarrow> (category_model list \<times> string option) act" where
  "routeCategories E claims search cursor =
     for_user claims (\<lambda>_. searchCategories E (case search of None \<Rightarrow> ''undefined'' | Some s \<Rightarrow> s) cursor 20)"

text \<open>\<open>split(',')\<close>.\<close>

fun split_on :: "char \<Rightarrow> string \<Rightarrow> string list" where
  "split_on sep [] = [[]]"
| "split_on sep (c # s) =
     (if c = sep then [] # split_on sep s
      else (case split_on sep s of [] \<Rightarrow> [[c]] | t # ts \<Rightarrow> (c # t) # ts))"

(* apps/api/src/modules/twitch/controllers/twitch.controller.ts 33-37 TwitchController.getGamesByIds *)
definition routeGames :: "env \<Rightarrow> access_claims \<Rightarrow> string option \<Rightarrow> category_model list act" where
  "routeGames E claims ids =
     for_user claims (\<lambda>_. resolveNames E
       (filter (\<lambda>i. i \<noteq> []) (map js_trim (split_on (CHR '','') (case ids of None \<Rightarrow> [] | Some s \<Rightarrow> s)))))"

(* apps/api/src/modules/twitch/controllers/twitch.controller.ts 39-46 TwitchController.getAllowPersonalSubscriptions *)
definition routeAllowsPersonal :: "access_claims \<Rightarrow> string \<Rightarrow> bool act" where
  "routeAllowsPersonal claims broadcasterId =
     for_user claims (\<lambda>_. gets (\<lambda>w.
       case find (\<lambda>st. st_broadcasterId st = broadcasterId) (w_streamers w) of
         None \<Rightarrow> False | Some st \<Rightarrow> st_allowPersonalSubscriptions st))"

section \<open>Messages about subscriptions\<close>

text \<open>Neither the service nor the controller waits for the update.\<close>

(* apps/api/src/modules/streamer-events/services/streamer-events.service.ts 11-13 StreamerEventsService.markAsVerified *)
definition markAsVerified :: "string \<Rightarrow> unit act" where
  "markAsVerified eventId = unawaited (changeEventStatus eventId VERIFIED)"

(* apps/api/src/modules/streamer-events/services/streamer-events.service.ts 15-17 StreamerEventsService.markAsRevoked *)
definition markAsRevoked :: "string \<Rightarrow> unit act" where
  "markAsRevoked eventId = unawaited (changeEventStatus eventId REVOKED)"

(* apps/api/src/modules/streamer-events/controllers/streamer-intrernal-events.controller.ts 13-16 StreamerInternalEventsController.handleTwitchSubscriptionVerified *)
definition handleSubscriptionVerified :: "json \<Rightarrow> unit act" where
  "handleSubscriptionVerified d = markAsVerified (text_of ''eventId'' d)"

(* apps/api/src/modules/streamer-events/controllers/streamer-intrernal-events.controller.ts 18-21 StreamerInternalEventsController.handleTwitchSubscriptionRevoked *)
definition handleSubscriptionRevoked :: "json \<Rightarrow> unit act" where
  "handleSubscriptionRevoked d = markAsRevoked (text_of ''eventId'' d)"

text \<open>The pattern of a message of the queue decides who handles it.\<close>

definition consume_subscription :: "message \<Rightarrow> unit act" where
  "consume_subscription m =
     (if ms_pattern m = pattern_name Verified then handleSubscriptionVerified (ms_data m)
      else if ms_pattern m = pattern_name Revoked then handleSubscriptionRevoked (ms_data m)
      else ret ())"

section \<open>The envelope\<close>

record 'a response =
  rs_code :: nat
  rs_status :: bool
  rs_message :: "string option"
  rs_result :: "'a option"
  rs_data :: "string option"

(* apps/api/src/shared/interceptors/response.interceptor.ts 12-19 ResponseInterceptor.intercept *)
definition response_of :: "nat \<Rightarrow> 'a \<Rightarrow> 'a response" where
  "response_of code x = \<lparr>rs_code = code, rs_status = True, rs_message = None, rs_result = Some x, rs_data = None\<rparr>"

text \<open>Empty texts are falsy.\<close>

definition or_else :: "string option \<Rightarrow> string option \<Rightarrow> string option" where
  "or_else v d = (if truthy v then v else d)"

(* apps/api/src/shared/filters/exception.filter.ts 11-35 AllExceptionsFilter.catch *)
definition filtered :: "exc \<Rightarrow> 'a response" where
  "filtered e =
     (let (code, text, d) = (case e of
            HttpExc n m d \<Rightarrow> (n, Some m, d)
          | RpcExc c m d \<Rightarrow> (500, or_else (Some m) (Some ''Internal server error''), d)
          | AxiosExc (Failure s m) \<Rightarrow> (500, or_else (Some m) (Some ''Internal server error''), None)
          | ScriptExc m \<Rightarrow> (500, or_else (Some m) (Some ''Internal server error''), None))
      in \<lparr>rs_code = code, rs_status = False, rs_message = text, rs_result = None, rs_data = or_else d None\<rparr>)"

definition answered :: "nat \<Rightarrow> 'a act \<Rightarrow> 'a response act" where
  "answered code m = (\<lambda>w. case m w of (Inl e, w') \<Rightarrow> (Inr (filtered e), w') | (Inr x, w') \<Rightarrow> (Inr (response_of code x), w'))"

lemma answered_total: "\<exists>r. fst (answered code m w) = Inr r \<and> rs_status r = (\<exists>x. fst (m w) = Inr x)"
  by (auto simp: answered_def response_of_def filtered_def Let_def split: prod.split sum.split exc.split failure.split)

section \<open>A challenge makes its event verified\<close>

lemma verified_message:
  "consume_subscription \<lparr>ms_queue = q, ms_pattern = ''twitch.subscriptions.verified'',
      ms_data = JObj [(''eventId'', JStr i)]\<rparr> w =
    (Inr (), w\<lparr>w_events := update_rows (\<lambda>e. e_id e = i) (\<lambda>e. e\<lparr>e_status := VERIFIED\<rparr>) (w_events w)\<rparr>)"
  by (simp add: consume_subscription_def handleSubscriptionVerified_def markAsVerified_def changeEventStatus_def exec
      update_event_def text_of_def field_of_def)

text \<open>
  C26. A challenge of Twitch is answered with itself and verifies its event: exactly one message goes from
  the receiver to the API, and once the API has consumed it, in whatever state it then is, the event of
  the callback is verified and no other event has changed.
\<close>

theorem challenge_verifies_event:
  assumes "acceptable c" and "wc_messageType c = Some ''webhook_callback_verification''"
    and "wc_body c = Some (JObj kvs)" and "\<And>ms m. x_broker E ms m = None"
  shows "\<exists>w' m. handleTwitchWebhook E c w = (Inr (Challenge (map_of kvs ''challenge'')), w') \<and>
    w_outbox w' = w_outbox w @ [m] \<and>
    (\<forall>v. consume_subscription m v = (Inr (), v\<lparr>w_events :=
      update_rows (\<lambda>e. e_id e = wc_eventId c) (\<lambda>e. e\<lparr>e_status := VERIFIED\<rparr>) (w_events v)\<rparr>))"
  using callback_acknowledged [OF assms, of w] verified_message by blast

theorem challenge_verifies_event_witness:
  "\<exists>w' m. handleTwitchWebhook sample_env (online_call\<lparr>wc_messageType := Some ''webhook_callback_verification'',
        wc_body := Some (JObj [(''challenge'', JStr ''xyz'')])\<rparr>) sample_world = (Inr (Challenge (Some (JStr ''xyz''))), w') \<and>
    w_outbox w' = [m] \<and> map e_status (w_events (snd (consume_subscription m populated_world))) = [VERIFIED]"
proof -
  let ?c = "online_call\<lparr>wc_messageType := Some ''webhook_callback_verification'',
        wc_body := Some (JObj [(''challenge'', JStr ''xyz'')])\<rparr>"
  have "acceptable ?c" using online_call_is(2) by (simp add: acceptable_def)
  moreover have "x_broker sample_env ms m = None" for ms m by simp
  ultimately obtain w' m where "handleTwitchWebhook sample_env ?c sample_world = (Inr (Challenge (Some (JStr ''xyz''))), w')"
    and "w_outbox w' = [m]" and "\<forall>v. consume_subscription m v = (Inr (), v\<lparr>w_events :=
      update_rows (\<lambda>e. e_id e = wc_eventId ?c) (\<lambda>e. e\<lparr>e_status := VERIFIED\<rparr>) (w_events v)\<rparr>)"
    using challenge_verifies_event [of ?c "[(''challenge'', JStr ''xyz'')]" sample_env sample_world] by auto
  then show ?thesis by (auto simp: update_rows_def sample_event_def)
qed

end
