(* ===== verification/BotGuilds.thy ===== *)
theory BotGuilds imports Untyped TwitchUserTokens begin

text \<open>
  \<open>apps/discord-bot/src/modules/discord\<close>: what the bot tells the other services of the guilds it is in.
  The client library's picture of the guilds, kept up to date by the gateway, is a parameter. The list
  of guild identifiers in Redis is changed by events and is read and written in two steps.
\<close>

section \<open>The client\<close>

(* apps/discord-bot/src/modules/discord/channel-sync.service.ts 12-18 ICachedChannel *)
record cached_channel =
  cc_id :: string
  cc_name :: string
  cc_position :: int
  cc_parentId :: "string option"
  cc_topic :: "string option"

datatype channel_type = GuildText | GuildAnnouncement | OtherChannel

(* apps/discord-bot/src/modules/discord/get-guild-roles.handler.ts 11-17 IDiscordRoleResult *)
record guild_role =
  gr_id :: string
  gr_name :: string
  gr_color :: nat
  gr_position :: int
  gr_mentionable :: bool

record client_guild =
  cg_id :: string
  cg_channels :: "(channel_type \<times> cached_channel) list"
  cg_roles :: "guild_role list"

text \<open>\<open>fetch\<close> of a member is \<open>None\<close> when the request fails or there is no such member.\<close>

record client =
  cl_guilds :: "client_guild list"
  cl_member :: "string \<Rightarrow> string \<Rightarrow> (string list \<times> bool) option"

definition client_guild :: "client \<Rightarrow> string \<Rightarrow> client_guild option" where
  "client_guild c guildId = find (\<lambda>g. cg_id g = guildId) (cl_guilds c)"

section \<open>Answers to the API\<close>

(* apps/discord-bot/src/modules/discord/get-guild-roles.handler.ts 26-41 GetGuildRolesHandler.handle *)
definition handleGuildRoles :: "client \<Rightarrow> string \<Rightarrow> guild_role list" where
  "handleGuildRoles c guildId =
     (case client_guild c guildId of
        None \<Rightarrow> []
      | Some g \<Rightarrow> sort_key (\<lambda>r. - gr_position r) (filter (\<lambda>r. gr_id r \<noteq> guildId) (cg_roles g)))"

(* apps/discord-bot/src/modules/discord/get-guild-member.handler.ts 12-15 IGuildMemberRolesResult *)
record member_roles =
  mr_roles :: "string list"
  mr_isAdministrator :: bool

(* apps/discord-bot/src/modules/discord/get-guild-member.handler.ts 24-41 GetGuildMemberHandler.handle *)
definition handleGuildMember :: "client \<Rightarrow> string \<Rightarrow> string \<Rightarrow> member_roles" where
  "handleGuildMember c guildId discordUserId =
     (case client_guild c guildId of
        None \<Rightarrow> \<lparr>mr_roles = [], mr_isAdministrator = False\<rparr>
      | Some g \<Rightarrow>
          (case cl_member c guildId discordUserId of
             None \<Rightarrow> \<lparr>mr_roles = [], mr_isAdministrator = False\<rparr>
           | Some (rs, administrator) \<Rightarrow> \<lparr>mr_roles = rs, mr_isAdministrator = administrator\<rparr>))"

section \<open>Channels\<close>

(* apps/discord-bot/src/modules/discord/channel-sync.service.ts 10-10 CHANNELS_TTL *)
definition channels_ttl :: nat where
  "channels_ttl = 24 * 60 * 60"

(* apps/discord-bot/src/modules/discord/channel-sync.service.ts 20-22 isTextGuildChannel *)
definition isTextGuildChannel :: "channel_type \<Rightarrow> bool" where
  "isTextGuildChannel t \<longleftrightarrow> t = GuildText \<or> t = GuildAnnouncement"

fun int_text :: "int \<Rightarrow> string" where
  "int_text i = (if i < 0 then CHR ''-'' # nat_text (nat (- i)) else nat_text (nat i))"

definition text_or_null :: "string option \<Rightarrow> json" where
  "text_or_null t = (case t of None \<Rightarrow> JNull | Some s \<Rightarrow> JStr s)"

definition cached_channel_json :: "cached_channel \<Rightarrow> json" where
  "cached_channel_json ch =
     JObj [(''id'', JStr (cc_id ch)), (''name'', JStr (cc_name ch)), (''position'', JNum (int_text (cc_position ch))),
       (''parentId'', text_or_null (cc_parentId ch)), (''topic'', text_or_null (cc_topic ch))]"

definition text_channels :: "client_guild \<Rightarrow> cached_channel list" where
  "text_channels g = sort_key cc_position (map snd (filter (\<lambda>(t, ch). isTextGuildChannel t) (cg_channels g)))"

(* apps/discord-bot/src/modules/discord/channel-sync.service.ts 52-69 ChannelSyncService.syncGuild *)
definition syncGuild :: "client \<Rightarrow> string \<Rightarrow> cached_channel list act" where
  "syncGuild c guildId =
     (case client_guild c guildId of
        None \<Rightarrow> ret []
      | Some g \<Rightarrow>
          andThen (redis_set (discordGuildChannels guildId) (JArr (map cached_channel_json (text_channels g))) channels_ttl) (\<lambda>_.
          ret (text_channels g)))"

(* apps/discord-bot/src/modules/discord/channel-sync.service.ts 46-50 ChannelSyncService.syncAll *)
definition syncAll :: "client \<Rightarrow> unit act" where
  "syncAll c = forEach (\<lambda>g. andThen (syncGuild c (cg_id g)) (\<lambda>_. ret ())) (cl_guilds c)"

text \<open>A channel outside a guild has no guild identifier.\<close>

(* apps/discord-bot/src/modules/discord/channel-sync.service.ts 71-75 ChannelSyncService.onChannelCreate *)
definition onChannelCreate :: "client \<Rightarrow> string option \<Rightarrow> unit act" where
  "onChannelCreate c guildId =
     whenever (truthy guildId) (andThen (syncGuild c (the guildId)) (\<lambda>_. ret ()))"

(* apps/discord-bot/src/modules/discord/channel-sync.service.ts 77-81 ChannelSyncService.onChannelDelete *)
definition onChannelDelete :: "client \<Rightarrow> string option \<Rightarrow> unit act" where
  "onChannelDelete c guildId =
     whenever (truthy guildId) (andThen (syncGuild c (the guildId)) (\<lambda>_. ret ()))"

(* apps/discord-bot/src/modules/discord/channel-sync.service.ts 83-87 ChannelSyncService.onChannelUpdate *)
definition onChannelUpdate :: "client \<Rightarrow> string option \<Rightarrow> unit act" where
  "onChannelUpdate c guildId =
     whenever (truthy guildId) (andThen (syncGuild c (the guildId)) (\<lambda>_. ret ()))"

(* apps/discord-bot/src/modules/discord/get-guild-channels.handler.ts 14-17 GetGuildChannelsHandler.handle *)
definition handleGuildChannels :: "client \<Rightarrow> string \<Rightarrow> cached_channel list act" where
  "handleGuildChannels c guildId = syncGuild c guildId"

section \<open>The guilds of the bot\<close>

definition ids_json :: "string list \<Rightarrow> json" where
  "ids_json ids = JArr (map JStr ids)"

(* apps/discord-bot/src/modules/discord/guild-sync.service.ts 22-27 GuildSyncService.syncGuilds *)
definition syncGuilds :: "client \<Rightarrow> string list act" where
  "syncGuilds c =
     (let guildIds = map cg_id (cl_guilds c) in
      andThen (redis_set botGuildIds (ids_json guildIds) 0) (\<lambda>_. ret guildIds))"

(* apps/discord-bot/src/modules/discord/guild-sync.service.ts 44-46 GuildSyncService.getBotGuildIds *)
definition readBotGuildIds :: "env \<Rightarrow> string list act" where
  "readBotGuildIds E = andThen (redis_get E botGuildIds) (\<lambda>j. ret (texts_of j))"

(* apps/discord-bot/src/modules/discord/guild-sync.service.ts 29-33 GuildSyncService.onGuildJoin *)
definition onGuildJoin :: "env \<Rightarrow> string \<Rightarrow> unit act" where
  "onGuildJoin E guildId =
     andThen (readBotGuildIds E) (\<lambda>guildIds. redis_set botGuildIds (ids_json (guildIds @ [guildId])) 0)"

(* apps/discord-bot/src/modules/discord/guild-sync.service.ts 35-42 GuildSyncService.onGuildLeave *)
definition onGuildLeave :: "env \<Rightarrow> string \<Rightarrow> unit act" where
  "onGuildLeave E guildId =
     andThen (readBotGuildIds E) (\<lambda>guildIds.
     redis_set botGuildIds (ids_json (filter (\<lambda>i. i \<noteq> guildId) guildIds)) 0)"

(* apps/discord-bot/src/modules/discord/get-guild-ids.handler.ts 10-13 GetGuildIdsHandler.handle *)
definition handleGuildIds :: "client \<Rightarrow> string list act" where
  "handleGuildIds c = syncGuilds c"

section \<open>Events, one after another and at once\<close>

datatype guild_event = Joined string | Left string

fun changed_guilds :: "guild_event \<Rightarrow> string list \<Rightarrow> string list" where
  "changed_guilds (Joined g) ids = ids @ [g]"
| "changed_guilds (Left g) ids = filter (\<lambda>i. i \<noteq> g) ids"

fun on_guild_event :: "env \<Rightarrow> guild_event \<Rightarrow> unit act" where
  "on_guild_event E (Joined g) = onGuildJoin E g"
| "on_guild_event E (Left g) = onGuildLeave E g"

text \<open>What the API reads is what the cache holds for ever.\<close>

definition shows_guilds :: "env \<Rightarrow> string list \<Rightarrow> world \<Rightarrow> bool" where
  "shows_guilds E ids w \<longleftrightarrow> w_redis w botGuildIds = Some (stringify (ids_json ids), None)"

lemma ids_wf: "wf_json canon (ids_json ids)"
  unfolding ids_json_def by (induction ids) simp_all

lemma shown_guilds: "shows_guilds E ids w \<Longrightarrow> readBotGuildIds E w = (Inr ids, w)"
  using json_round_trip [OF ids_wf, of "x_canon E" ids] stringify_not_Nil [OF ids_wf, of ids]
  by (simp add: shows_guilds_def readBotGuildIds_def redis_get_def lookup_def exec) (simp add: ids_json_def)

lemma set_guilds: "shows_guilds E ids (snd (redis_set botGuildIds (ids_json ids) 0 w))"
  by (simp add: shows_guilds_def redis_set_def put_key_def)

lemma guild_event_shown:
  assumes "shows_guilds E ids w"
  shows "fst (on_guild_event E ev w) = Inr () \<and> shows_guilds E (changed_guilds ev ids) (snd (on_guild_event E ev w))"
  by (cases ev) (simp_all add: onGuildJoin_def onGuildLeave_def exec shown_guilds [OF assms] set_guilds,
      simp_all add: redis_set_def)

text \<open>
  C32. Handled one after another, the events keep the list exact: after a synchronisation and any events,
  the list in Redis is the guilds of the client with the events applied in their order.
\<close>

theorem guild_list_follows_events:
  "readBotGuildIds E (snd (andThen (syncGuilds c) (\<lambda>_. forEach (on_guild_event E) evs) w)) =
    (Inr (fold changed_guilds evs (map cg_id (cl_guilds c))),
     snd (andThen (syncGuilds c) (\<lambda>_. forEach (on_guild_event E) evs) w))"
proof -
  have step: "shows_guilds E ids v \<Longrightarrow> shows_guilds E (fold changed_guilds evs ids) (snd (forEach (on_guild_event E) evs v))" for ids v
  proof (induction evs arbitrary: ids v)
    case (Cons ev evs)
    obtain v' where "on_guild_event E ev v = (Inr (), v')" and "shows_guilds E (changed_guilds ev ids) v'"
      using guild_event_shown [OF Cons.prems, of ev] by (cases "on_guild_event E ev v") auto
    then show ?case using Cons.IH by (simp add: exec)
  qed (simp add: exec)
  have "shows_guilds E (map cg_id (cl_guilds c)) (snd (syncGuilds c w))" and "\<exists>x. fst (syncGuilds c w) = Inr x"
    using set_guilds by (auto simp: syncGuilds_def Let_def exec redis_set_def shows_guilds_def put_key_def)
  then show ?thesis
    by (intro shown_guilds) (auto simp: exec intro: step split: prod.split sum.split)
qed

text \<open>
  The two handlers of events that arrive together read before either writes: the second write undoes
  the first.
\<close>

definition joins_at_once :: "env \<Rightarrow> string \<Rightarrow> string \<Rightarrow> unit act" where
  "joins_at_once E g h =
     andThen (readBotGuildIds E) (\<lambda>first.
     andThen (readBotGuildIds E) (\<lambda>second.
     andThen (redis_set botGuildIds (ids_json (first @ [g])) 0) (\<lambda>_.
     redis_set botGuildIds (ids_json (second @ [h])) 0)))"

lemma joins_at_once_lose_one:
  assumes "shows_guilds E ids w"
  shows "readBotGuildIds E (snd (joins_at_once E g h w)) = (Inr (ids @ [h]), snd (joins_at_once E g h w))"
  by (intro shown_guilds)
    (simp add: joins_at_once_def exec shown_guilds [OF assms] redis_set_def shows_guilds_def put_key_def)

end
