(* ===== verification/BotCommands.thy ===== *)
theory BotCommands imports DiscordHandlers BotGuilds Rpc begin

text \<open>
  \<open>apps/discord-bot/src/modules/notifications\<close> and \<open>apps/discord-bot/src/modules/account\<close>: the
  commands of the bot, the drafts they keep while a user writes a message, and the delivery of
  notifications. The bot calls the handlers of the API; \<open>callSafe\<close> gives it what comes back. Beside the
  shared state it has its own, the drafts. What a handler answers to Discord is its result; an
  exception that a handler throws is caught by nobody.
\<close>

section \<open>Drafts\<close>

(* apps/discord-bot/src/modules/notifications/helpers/embed-draft.model.ts 1-7 EmbedDraft *)
record embed_draft =
  df_content :: string
  df_title :: string
  df_description :: string
  df_color :: string
  df_imageUrl :: string

(* apps/discord-bot/src/modules/notifications/helpers/embed-draft.model.ts 9-15 DEFAULT_EMBED_DRAFT *)
definition default_embed_draft :: embed_draft where
  "default_embed_draft =
     \<lparr>df_content = ''${streamerName} is now live!'', df_title = ''${streamerName} is now live!'',
      df_description = ''Watch the stream live!'', df_color = ''#9146FF'', df_imageUrl = ''${thumbnailUrl}''\<rparr>"

text \<open>\<open>started\<close> is the time at which the process loaded the module.\<close>

(* apps/discord-bot/src/modules/notifications/helpers/preview-vars.ts 1-10 PREVIEW_VARS *)
definition preview_vars :: "env \<Rightarrow> time \<Rightarrow> vars" where
  "preview_vars E started =
     [(''streamerName'', ''ExampleStreamer''), (''streamerLogin'', ''examplestreamer''), (''streamerId'', ''123456789''),
      (''streamType'', ''live''), (''startedAt'', x_iso E started), (''streamUrl'', ''https://twitch.tv/examplestreamer''),
      (''thumbnailUrl'', ''https://static-cdn.jtvnw.net/ttv-static/404_preview-1280x720.jpg''),
      (''avatarUrl'', ''https://static-cdn.jtvnw.net/ttv-static/404_user_70x70.jpg'')]"

(* apps/discord-bot/src/modules/notifications/helpers/preview-vars.ts 12-14 interpolateForPreview *)
definition interpolateForPreview :: "env \<Rightarrow> time \<Rightarrow> string \<Rightarrow> string" where
  "interpolateForPreview E started = replace_vars (var_text (preview_vars E started))"

(* apps/discord-bot/src/modules/notifications/helpers/build-message-payload.ts 3-3 DEFAULT_COLOR *)
definition default_color :: nat where
  "default_color = 0x9146FF"

fun hex_number :: "nat \<Rightarrow> string \<Rightarrow> nat option" where
  "hex_number v [] = Some v"
| "hex_number v (c # s) = (case hex_val c of None \<Rightarrow> None | Some d \<Rightarrow> hex_number (16 * v + d) s)"

(* apps/discord-bot/src/modules/notifications/helpers/build-message-payload.ts 15-19 parseColor *)
definition parseColor :: "string \<Rightarrow> nat" where
  "parseColor color =
     (let hex = (case js_trim color of c # s \<Rightarrow> if c = CHR ''#'' then s else c # s | [] \<Rightarrow> []) in
      if length hex = 6 then (case hex_number 0 hex of None \<Rightarrow> default_color | Some v \<Rightarrow> v) else default_color)"

definition field_if :: "string \<Rightarrow> string \<Rightarrow> (string \<Rightarrow> json) \<Rightarrow> (string \<times> json) list" where
  "field_if k v f = (if v = [] then [] else [(k, f v)])"

(* apps/discord-bot/src/modules/notifications/helpers/build-message-payload.ts 21-41 buildMessagePayload *)
definition buildMessagePayload :: "embed_draft \<Rightarrow> (string \<Rightarrow> string) \<Rightarrow> json" where
  "buildMessagePayload d transform =
     (let content = transform (js_trim (df_content d));
          title = transform (js_trim (df_title d));
          description = transform (js_trim (df_description d));
          imageUrl = transform (js_trim (df_imageUrl d))
      in JObj (field_if ''content'' content JStr @
        (if title \<noteq> [] \<or> description \<noteq> [] \<or> imageUrl \<noteq> [] then
           [(''embeds'', JArr [JObj (field_if ''title'' title JStr @ field_if ''description'' description JStr @
              field_if ''image'' imageUrl (\<lambda>u. JObj [(''url'', JStr u)]) @
              [(''color'', JNum (nat_text (parseColor (df_color d))))])])]
         else [])))"

section \<open>The form\<close>

datatype input_style = ShortText | Paragraph

record text_input =
  ti_id :: string
  ti_label :: string
  ti_style :: input_style
  ti_maxLength :: nat
  ti_value :: string

record modal =
  md_customId :: string
  md_inputs :: "text_input list"

(* apps/discord-bot/src/modules/notifications/helpers/embed-config.modal.ts 4-56 buildEmbedConfigModal *)
definition buildEmbedConfigModal :: "string \<Rightarrow> embed_draft \<Rightarrow> modal" where
  "buildEmbedConfigModal customId d =
     \<lparr>md_customId = customId, md_inputs =
       [\<lparr>ti_id = ''content'', ti_label = ''Message content'', ti_style = ShortText, ti_maxLength = 2000, ti_value = df_content d\<rparr>,
        \<lparr>ti_id = ''title'', ti_label = ''Embed title'', ti_style = ShortText, ti_maxLength = 256, ti_value = df_title d\<rparr>,
        \<lparr>ti_id = ''description'', ti_label = ''Embed description'', ti_style = Paragraph, ti_maxLength = 1000,
          ti_value = df_description d\<rparr>,
        \<lparr>ti_id = ''color'', ti_label = ''Embed color (hex)'', ti_style = ShortText, ti_maxLength = 7, ti_value = df_color d\<rparr>,
        \<lparr>ti_id = ''imageUrl'', ti_label = ''Image URL'', ti_style = ShortText, ti_maxLength = 300, ti_value = df_imageUrl d\<rparr>]\<rparr>"

text \<open>What Discord lets a user hand in: no input longer than its limit.\<close>

definition submittable :: "embed_draft \<Rightarrow> bool" where
  "submittable d \<longleftrightarrow> length (df_content d) \<le> 2000 \<and> length (df_title d) \<le> 256 \<and> length (df_description d) \<le> 1000 \<and>
     length (df_color d) \<le> 7 \<and> length (df_imageUrl d) \<le> 300"

section \<open>Drafts being written\<close>

(* apps/discord-bot/src/modules/notifications/services/pending-destination.store.ts 7-14 PendingDestination *)
record pending =
  pe_userId :: string
  pe_discordGuildId :: string
  pe_channelId :: string
  pe_broadcasterId :: string
  pe_eventType :: streamer_events
  pe_draft :: embed_draft

text \<open>An entry with the time at which its timer deletes it.\<close>

type_synonym pending_store = "string \<Rightarrow> (pending \<times> time) option"

(* apps/discord-bot/src/modules/notifications/services/pending-destination.store.ts 5-5 TTL_MS *)
definition pending_ttl :: int where
  "pending_ttl = 15 * 60 * 1000"

(* apps/discord-bot/src/modules/notifications/services/pending-destination.store.ts 48-52 PendingDestinationStore.scheduleExpiry *)
definition scheduleExpiry :: "time \<Rightarrow> string \<Rightarrow> pending \<Rightarrow> pending_store \<Rightarrow> pending_store" where
  "scheduleExpiry now token p st = st(token \<mapsto> (p, now + pending_ttl))"

(* apps/discord-bot/src/modules/notifications/services/pending-destination.store.ts 21-26 PendingDestinationStore.create *)
definition pending_create :: "time \<Rightarrow> string \<Rightarrow> pending \<Rightarrow> pending_store \<Rightarrow> pending_store" where
  "pending_create now token p st = scheduleExpiry now token p st"

(* apps/discord-bot/src/modules/notifications/services/pending-destination.store.ts 28-30 PendingDestinationStore.get *)
definition pending_get :: "time \<Rightarrow> string \<Rightarrow> pending_store \<Rightarrow> pending option" where
  "pending_get now token st =
     (case st token of None \<Rightarrow> None | Some (p, expiry) \<Rightarrow> if now < expiry then Some p else None)"

(* apps/discord-bot/src/modules/notifications/services/pending-destination.store.ts 32-37 PendingDestinationStore.update *)
definition pending_update :: "time \<Rightarrow> string \<Rightarrow> embed_draft \<Rightarrow> pending_store \<Rightarrow> pending_store" where
  "pending_update now token d st =
     (case pending_get now token st of
        None \<Rightarrow> st
      | Some p \<Rightarrow> scheduleExpiry now token (p\<lparr>pe_draft := d\<rparr>) st)"

(* apps/discord-bot/src/modules/notifications/services/pending-destination.store.ts 39-46 PendingDestinationStore.delete *)
definition pending_delete :: "string \<Rightarrow> pending_store \<Rightarrow> pending_store" where
  "pending_delete token st = st(token := None)"

text \<open>A contract: what a store of drafts that expire promises.\<close>

locale draft_store =
  fixes get :: "time \<Rightarrow> string \<Rightarrow> 'st \<Rightarrow> 'p option"
    and put :: "time \<Rightarrow> string \<Rightarrow> 'p \<Rightarrow> 'st \<Rightarrow> 'st"
    and drop :: "string \<Rightarrow> 'st \<Rightarrow> 'st"
    and ttl :: int
  assumes ttl_pos: "0 < ttl"
    and get_put: "get later token (put now token p st) = (if later < now + ttl then Some p else None)"
    and get_put_other: "other \<noteq> token \<Longrightarrow> get later other (put now token p st) = get later other st"
    and get_drop: "get later other (drop token st) = (if other = token then None else get later other st)"
    and get_earlier: "get later token st = Some p \<Longrightarrow> now \<le> later \<Longrightarrow> get now token st = Some p"
begin

text \<open>A draft that is kept alive by being written again lives as long as the pauses are shorter than
  the time to live.\<close>

fun written :: "time \<Rightarrow> string \<Rightarrow> (time \<times> 'p) list \<Rightarrow> 'st \<Rightarrow> 'st" where
  "written now token [] st = st"
| "written now token ((pause, p) # rest) st = written (now + pause) token rest (put (now + pause) token p st)"

lemma kept_alive:
  assumes "ws \<noteq> []" and "0 \<le> wait" and "wait < ttl"
  shows "get (now + sum_list (map fst ws) + wait) token (written now token ws st) = Some (snd (last ws))"
  using assms
proof (induction ws arbitrary: now st)
  case (Cons r ws)
  obtain pause p where r: "r = (pause, p)" by force
  show ?case
  proof (cases "ws = []")
    case False
    from Cons.IH [OF this Cons.prems(2,3), of "now + pause"] False show ?thesis by (simp add: r add.assoc)
  qed (use Cons.prems r in \<open>simp add: get_put\<close>)
qed simp

lemma forgotten: "now + ttl \<le> later \<Longrightarrow> get later token (put now token p st) = None"
  by (simp add: get_put)

end

interpretation drafts: draft_store pending_get pending_create pending_delete pending_ttl
  by unfold_locales
    (auto simp: pending_get_def pending_create_def scheduleExpiry_def pending_delete_def pending_ttl_def
      split: option.splits prod.splits if_splits)

section \<open>Interactions\<close>

record interaction =
  ix_userId :: string
  ix_guildId :: "string option"
  ix_channelId :: string
  ix_administrator :: bool
  ix_isFromMessage :: bool

record command_options =
  op_channel :: "string option"
  op_broadcaster :: string
  op_type :: "streamer_events option"

record error_view =
  ev_title :: string
  ev_description :: string
  ev_connect :: "string option"

datatype bot_reply =
    Ephemeral string
  | ShowModal modal
  | Preview bool json string
  | ErrorEmbed error_view
  | Added string streamer_events credits
  | Connected
  | Authorize string
  | Profile "(string \<times> string) list"
  | Choices "(string \<times> string) list"

type_synonym 'a bot_act = "(world \<times> pending_store, exc, 'a) action"

definition on_world :: "'a act \<Rightarrow> 'a bot_act" where
  "on_world m = (\<lambda>(w, st). case m w of (r, w') \<Rightarrow> (r, w', st))"

definition find_draft :: "string \<Rightarrow> pending option bot_act" where
  "find_draft token = gets (\<lambda>(w, st). pending_get (w_now w) token st)"

section \<open>Errors shown to the user\<close>

(* apps/discord-bot/src/shared/helpers/rpc-error.helper.ts 4-25 ERROR_EMBEDS *)
definition error_embeds :: "(string \<times> string \<times> string) list" where
  "error_embeds =
     [(rpc_error_text NOT_REGISTERED, ''Account not connected'',
         ''Your Discord account is not linked to the system. Click the button below to authorize.''),
      (rpc_error_text STREAMER_NOT_FOUND, ''Streamer not found'',
         ''The specified Twitch broadcaster was not found. Please check the broadcaster ID and try again.''),
      (rpc_error_text INSUFFICIENT_CREDITS, ''Insufficient credits'',
         ''You do not have enough credits for this action. Top up your balance and try again.''),
      (rpc_error_text DESTINATION_EXISTS, ''Subscription already exists'',
         ''A notification for this channel and event already exists. Choose a different channel or event type.''),
      (rpc_error_text VALIDATION_ERROR, ''Validation error'',
         ''Invalid command parameters. Please check your input and try again.'')]"

(* apps/discord-bot/src/shared/helpers/rpc-error.helper.ts 27-30 FALLBACK_EMBED *)
definition fallback_embed :: "string \<times> string" where
  "fallback_embed = (''Internal error'', ''An unexpected error occurred. Please try again later.'')"

(* apps/discord-bot/src/shared/helpers/rpc-error.helper.ts 32-52 buildRpcErrorReply *)
definition buildRpcErrorReply :: "'r call_result \<Rightarrow> error_view" where
  "buildRpcErrorReply e =
     (let (title, description) = (case Option.bind (cr_rpcError e) (map_of error_embeds) of
            None \<Rightarrow> fallback_embed | Some td \<Rightarrow> td)
      in \<lparr>ev_title = title, ev_description = (case cr_message e of None \<Rightarrow> description | Some m \<Rightarrow> m),
          ev_connect = (if cr_rpcError e = Some (rpc_error_text NOT_REGISTERED) \<and> truthy (cr_errorData e)
            then cr_errorData e else None)\<rparr>)"

text \<open>\<open>res.data.x\<close> of a reply without data.\<close>

definition reply_data :: "'r call_result \<Rightarrow> 'r bot_act" where
  "reply_data r = orThrow (ScriptExc ''TypeError'') (cr_data r)"

section \<open>Account commands\<close>

text \<open>In the branch for errors there is no \<open>isRegistered\<close>; and the builder of a link button refuses
  a URL that is undefined.\<close>

(* apps/discord-bot/src/modules/account/commands/authorize.command.ts 14-54 AuthorizeCommand.handle *)
definition handleAuthorize :: "env \<Rightarrow> interaction \<Rightarrow> bot_reply bot_act" where
  "handleAuthorize E i =
     andThen (on_world (callSafe (handleAuthenticate E (ix_userId i)))) (\<lambda>res.
     if \<not> cr_status res then ret (ErrorEmbed (buildRpcErrorReply res))
     else
       andThen (reply_data res) (\<lambda>d.
       andThen (orThrow (ScriptExc ''ValidationError'') (au_authUrl d)) (\<lambda>url. ret (Authorize url))))"

text \<open>A decimal comes from the database as text, with its one place.\<close>

definition credits_text :: "credits \<Rightarrow> string" where
  "credits_text c = (if c < 0 then ''-'' else []) @ nat_text (nat (\<bar>c\<bar> div 10)) @ ''.'' @ nat_text (nat (\<bar>c\<bar> mod 10))"

(* apps/discord-bot/src/modules/account/commands/profile.command.ts 14-49 ProfileCommand.handle *)
definition handleProfile :: "env \<Rightarrow> interaction \<Rightarrow> bot_reply bot_act" where
  "handleProfile E i =
     andThen (on_world (callSafe (handleGetProfile E (ix_userId i) (ix_guildId i)))) (\<lambda>res.
     if \<not> cr_status res then ret (ErrorEmbed (buildRpcErrorReply res))
     else
       andThen (reply_data res) (\<lambda>p.
       ret (Profile
         ([(''Your balance'', credits_text (pr_balance p) @ '' credit(s)''),
           (''Your subscriptions'', nat_text (pr_subscriptionsCount p))] @
          (case pr_guild p of None \<Rightarrow> []
           | Some (balance, n) \<Rightarrow> [(''Server balance'', (case balance of None \<Rightarrow> ''0'' | Some c \<Rightarrow> credits_text c) @ '' credit(s)''),
               (''Server subscriptions'', nat_text n)])))))"

section \<open>Adding a destination\<close>

definition session_expired :: bot_reply where
  "session_expired = Ephemeral ''This session has expired. Please run /add-destination again.''"

(* apps/discord-bot/src/modules/notifications/commands/add-destination.command.ts 12-31 AddDestinationCommand.handle *)
definition handleAddCommand :: "env \<Rightarrow> interaction \<Rightarrow> command_options \<Rightarrow> bot_reply bot_act" where
  "handleAddCommand E i ops =
     (if \<not> ix_administrator i then ret (Ephemeral ''You need administrator permissions to use this command.'')
      else
        andThen (on_world (fresh_id E)) (\<lambda>token.
        andThen (modify (\<lambda>(w, st). (w, pending_create (w_now w) token
          \<lparr>pe_userId = ix_userId i, pe_discordGuildId = the (ix_guildId i),
           pe_channelId = (case op_channel ops of None \<Rightarrow> ix_channelId i | Some ch \<Rightarrow> ch),
           pe_broadcasterId = op_broadcaster ops,
           pe_eventType = (case op_type ops of None \<Rightarrow> STREAM_ONLINE | Some t \<Rightarrow> t),
           pe_draft = default_embed_draft\<rparr> st))) (\<lambda>_.
        ret (ShowModal (buildEmbedConfigModal (''add-destination:modal:'' @ token) default_embed_draft)))))"

definition after_last :: "string \<Rightarrow> string" where
  "after_last s = rev (takeWhile (\<lambda>c. c \<noteq> CHR '':'') (rev s))"

definition before_last :: "string \<Rightarrow> string" where
  "before_last s = rev (tl (dropWhile (\<lambda>c. c \<noteq> CHR '':'') (rev s)))"

text \<open>The form does not ask who hands it in.\<close>

(* apps/discord-bot/src/modules/notifications/commands/add-destination-modal.handler.ts 11-57 AddDestinationModalHandler.handle *)
definition handleModal :: "env \<Rightarrow> time \<Rightarrow> interaction \<Rightarrow> string \<Rightarrow> embed_draft \<Rightarrow> bot_reply bot_act" where
  "handleModal E started i customId d =
     (let token = after_last customId in
      andThen (find_draft token) (\<lambda>found.
      case found of
        None \<Rightarrow> ret session_expired
      | Some p \<Rightarrow>
          andThen (modify (\<lambda>(w, st). (w, pending_update (w_now w) token d st))) (\<lambda>_.
          ret (Preview (ix_isFromMessage i) (buildMessagePayload d (interpolateForPreview E started)) token))))"

definition own_draft :: "interaction \<Rightarrow> pending option \<Rightarrow> bool" where
  "own_draft i found = (case found of None \<Rightarrow> False | Some p \<Rightarrow> pe_userId p = ix_userId i)"

(* apps/discord-bot/src/modules/notifications/commands/add-destination-button.handler.ts 18-31 AddDestinationButtonHandler.handleEdit *)
definition handleEdit :: "interaction \<Rightarrow> string \<Rightarrow> bot_reply bot_act" where
  "handleEdit i customId =
     (let token = after_last customId in
      andThen (find_draft token) (\<lambda>found.
      if \<not> own_draft i found then ret session_expired
      else ret (ShowModal (buildEmbedConfigModal (''add-destination:modal:'' @ token) (pe_draft (the found))))))"

definition identity :: "string \<Rightarrow> string" where
  "identity s = s"

(* apps/discord-bot/src/modules/notifications/commands/add-destination-button.handler.ts 47-57 AddDestinationButtonHandler.handleAccept, the request *)
definition destination_request :: "interaction \<Rightarrow> pending \<Rightarrow> add_destination" where
  "destination_request i p =
     \<lparr>ad_discordId = ix_userId i, ad_discordGuildId = pe_discordGuildId p, ad_channelId = pe_channelId p,
      ad_broadcasterId = pe_broadcasterId p, ad_eventType = Some (pe_eventType p),
      ad_payload = buildMessagePayload (pe_draft p) identity\<rparr>"

text \<open>The way the call is made is a parameter: with an answer in time it is \<open>callSafe\<close>.\<close>

(* apps/discord-bot/src/modules/notifications/commands/add-destination-button.handler.ts 33-77 AddDestinationButtonHandler.handleAccept *)
definition acceptDestination ::
  "(added_destination act \<Rightarrow> added_destination call_result act) \<Rightarrow> env \<Rightarrow> interaction \<Rightarrow> string \<Rightarrow> bot_reply bot_act" where
  "acceptDestination remote E i customId =
     (let token = after_last customId in
      andThen (find_draft token) (\<lambda>found.
      if \<not> own_draft i found then ret session_expired
      else
        andThen (on_world (remote (handleAddDestination E (destination_request i (the found))))) (\<lambda>res.
        andThen (modify (\<lambda>(w, st). (w, pending_delete token st))) (\<lambda>_.
        if \<not> cr_status res then ret (ErrorEmbed (buildRpcErrorReply res))
        else
          andThen (reply_data res) (\<lambda>d. ret (Added (ar_channelId d) (ar_eventType d) (ar_cost d)))))))"

definition handleAccept :: "env \<Rightarrow> interaction \<Rightarrow> string \<Rightarrow> bot_reply bot_act" where
  "handleAccept = acceptDestination callSafe"

(* apps/discord-bot/src/modules/notifications/commands/add-destination-autocomplete.handler.ts 14-43 AddDestinationAutocompleteHandler.handle *)
definition handleAutocomplete :: "env \<Rightarrow> string \<Rightarrow> string \<Rightarrow> bot_reply bot_act" where
  "handleAutocomplete E focused text =
     (let query = js_trim text in
      if focused \<noteq> ''broadcaster'' \<or> length query < 3 then ret (Choices [])
      else
        andThen (on_world (callSafe (handleSearchStreamers E query))) (\<lambda>res.
        if \<not> cr_status res then ret (Choices [])
        else
          andThen (reply_data res) (\<lambda>items.
          ret (Choices (map (\<lambda>c. (se_displayName c @ '' ('' @ se_broadcasterLogin c @ '')'', se_broadcasterId c)) (take 25 items))))))"

section \<open>Which handler an interaction goes to\<close>

datatype event_input =
    ChatInput string command_options
  | ModalSubmitted string embed_draft
  | ButtonClicked string
  | Autocompleted string string string

text \<open>The names are those that the decorators of the handlers register.\<close>

(* apps/discord-bot/src/modules/discord/discord.explorer.ts 81-115 DiscordExplorer.registerCommands, interactionCreate *)
definition interactionCreate :: "env \<Rightarrow> time \<Rightarrow> interaction \<Rightarrow> event_input \<Rightarrow> bot_reply option bot_act" where
  "interactionCreate E started i input =
     (case input of
        ChatInput name ops \<Rightarrow>
          if name = ''authorize'' then andThen (handleAuthorize E i) (\<lambda>r. ret (Some r))
          else if name = ''profile'' then andThen (handleProfile E i) (\<lambda>r. ret (Some r))
          else if name = ''add-destination'' then andThen (handleAddCommand E i ops) (\<lambda>r. ret (Some r))
          else ret None
      | ModalSubmitted customId d \<Rightarrow>
          if before_last customId = ''add-destination:modal'' then andThen (handleModal E started i customId d) (\<lambda>r. ret (Some r))
          else ret None
      | ButtonClicked customId \<Rightarrow>
          if before_last customId = ''add-destination:edit'' then andThen (handleEdit i customId) (\<lambda>r. ret (Some r))
          else if before_last customId = ''add-destination:accept'' then andThen (handleAccept E i customId) (\<lambda>r. ret (Some r))
          else ret None
      | Autocompleted name focused text \<Rightarrow>
          if name = ''add-destination'' then andThen (handleAutocomplete E focused text) (\<lambda>r. ret (Some r))
          else ret None)"

end
