(* ===== verification/BotDelivery.thy ===== *)
theory BotDelivery imports BotCommands begin

text \<open>
  What the bot delivers (\<open>apps/discord-bot/src/modules/notifications/handlers\<close>), and what comes of the
  bot and the API together: which drafts the API takes, what an error of the API does to the bot, and
  what becomes of a notification that cannot be delivered.
\<close>

section \<open>Delivery\<close>

text \<open>The client's requests to Discord: a channel is null, or text based or not.\<close>

record gateway =
  gw_fetch :: "bool option endpoint"
  gw_send :: "unit endpoint"

text \<open>The result tells whether the failure of the call is written to the log of the process.\<close>

(* apps/discord-bot/src/modules/notifications/handlers/send-notification.handler.ts 40-49 SendNotificationHandler.suspend *)
definition suspend_by_call :: "env \<Rightarrow> string \<Rightarrow> string \<Rightarrow> bool act" where
  "suspend_by_call E notificationId reason =
     andThen (callSafe (handleSuspendNotification E notificationId reason)) (\<lambda>res. ret (\<not> cr_status res))"

(* apps/discord-bot/src/modules/notifications/handlers/send-notification.handler.ts 21-38 SendNotificationHandler.handle *)
definition handleSendNotification :: "env \<Rightarrow> gateway \<Rightarrow> string \<Rightarrow> string \<Rightarrow> json \<Rightarrow> bool act" where
  "handleSendNotification E G notificationId channelId payload =
     catching
       (andThen (send (gw_fetch G) (discord_request ''GET'' channelId [] None)) (\<lambda>channel.
        if channel \<noteq> Some True then suspend_by_call E notificationId ''Channel is not text-based or not found''
        else
          andThen (send (gw_send G) (discord_request ''POST'' channelId [(''body'', stringify payload)] None)) (\<lambda>_.
          ret False)))
       (\<lambda>e. suspend_by_call E notificationId (exc_message e))"

lemma suspend_by_call_exec: "suspend_by_call E i reason w = (Inr False, w)"
  by (simp add: suspend_by_call_def exec suspension_always_fails error_reply_def)

text \<open>
  C22. A notification that the bot cannot deliver stays active and unlogged: whatever Discord answers, the
  call that should suspend it fails in the API, changes nothing, and the bot does not notice.
\<close>

theorem undelivered_stays_active:
  "\<exists>rs. handleSendNotification E G i ch payload w = (Inr False, w\<lparr>w_requests := rs\<rparr>)"
proof -
  let ?fetch = "gw_fetch G (w_requests w) (discord_request ''GET'' ch [] None)"
  let ?rs = "w_requests w @ [discord_request ''GET'' ch [] None]"
  let ?post = "discord_request ''POST'' ch [(''body'', stringify payload)] None"
  have "handleSendNotification E G i ch payload w =
      (Inr False, w\<lparr>w_requests := (if ?fetch = Inr (Some True) then ?rs @ [?post] else ?rs)\<rparr>)"
    by (cases ?fetch; cases "gw_send G ?rs ?post")
      (simp_all add: handleSendNotification_def exec suspend_by_call_exec split: option.split)
  then show ?thesis by (rule exI)
qed

section \<open>Which drafts the API takes\<close>

lemma trim_length: "length (js_trim s) \<le> length s"
  using skip_spaces_length [of "map rev js_wide_spaces" "rev (skip_spaces js_wide_spaces s)"]
    skip_spaces_length [of js_wide_spaces s] by (simp add: js_trim_def)

lemma hex_val_less: "hex_val c = Some d \<Longrightarrow> d < 16"
  by (auto simp: hex_val_def Let_def split: if_splits)

lemma hex_number_less: "hex_number v s = Some r \<Longrightarrow> r < (v + 1) * 16 ^ length s"
proof (induction s arbitrary: v)
  case (Cons c s)
  then obtain d where d: "hex_val c = Some d" "hex_number (16 * v + d) s = Some r" by (auto split: option.splits)
  have "r < (16 * v + d + 1) * 16 ^ length s" by (rule Cons.IH [OF d(2)])
  also have "\<dots> \<le> (16 * (v + 1)) * 16 ^ length s" using hex_val_less [OF d(1)] by (intro mult_right_mono) simp_all
  finally show ?case by (simp add: algebra_simps)
qed simp

lemma parseColor_bound: "parseColor c \<le> 0xFFFFFF"
  by (auto simp: parseColor_def Let_def default_color_def split: option.split dest!: hex_number_less)

lemma field_of_Nil: "field_of k (Some (JObj [])) = None"
  by (simp add: field_of_def)

lemma field_of_Cons: "field_of k (Some (JObj ((k', v) # kvs))) = (if k = k' then Some v else field_of k (Some (JObj kvs)))"
  by (simp add: field_of_def)

lemma field_of_if:
  "field_of k (Some (JObj (field_if k' v f @ kvs))) = (if k = k' \<and> v \<noteq> [] then Some (f v) else field_of k (Some (JObj kvs)))"
  by (simp add: field_if_def field_of_Cons)

lemmas fields = field_of_Nil field_of_Cons field_of_if

lemma built_embed:
  assumes "length title \<le> 256" and "length description \<le> 4096"
  shows "embedSchema E (JObj (field_if ''title'' title JStr @ field_if ''description'' description JStr @
      field_if ''image'' imageUrl (\<lambda>u. JObj [(''url'', JStr u)]) @ [(''color'', JNum (nat_text (parseColor c)))])) \<longleftrightarrow>
    imageUrl = [] \<or> x_is_url E imageUrl \<or> has_template imageUrl"
  using assms parseColor_bound [of c]
  by (auto simp: embedSchema_def object_with_def optional_field_def required_field_def fields)

lemma built_object:
  assumes "length content \<le> 2000"
  shows "botPayload E (JObj (field_if ''content'' content JStr @ (if b then [(''embeds'', JArr [j])] else []))) \<longleftrightarrow>
    (content \<noteq> [] \<or> b) \<and> (b \<longrightarrow> embedSchema E j)"
  using assms
  by (cases b) (auto simp: botPayload_def payloadObject_def object_with_def optional_field_def hasContentOrEmbeds_def
    fields truthy_json_def list_of_def field_if_def)

lemma built_payload:
  assumes "submittable d"
  shows "botPayload E (buildMessagePayload d identity) \<longleftrightarrow>
    \<not> (js_trim (df_content d) = [] \<and> js_trim (df_title d) = [] \<and> js_trim (df_description d) = [] \<and> js_trim (df_imageUrl d) = []) \<and>
    (js_trim (df_imageUrl d) = [] \<or> x_is_url E (js_trim (df_imageUrl d)) \<or> has_template (js_trim (df_imageUrl d)))"
proof -
  have l: "length (js_trim (df_content d)) \<le> 2000" "length (js_trim (df_title d)) \<le> 256" "length (js_trim (df_description d)) \<le> 4096"
    using assms trim_length [of "df_content d"] trim_length [of "df_title d"] trim_length [of "df_description d"]
    by (simp_all add: submittable_def)
  show ?thesis
    unfolding buildMessagePayload_def Let_def identity_def built_object [OF l(1)] built_embed [OF l(2,3)] by blast
qed

text \<open>
  C25. Of the drafts that the form can hand in, the API accepts exactly those that are not blank all over
  and whose image, where there is one, is a URL or has a variable: no limit of the form is beyond the
  schema's, and a colour is always one.
\<close>

theorem form_payload_exact:
  assumes "submittable d"
  shows "botPayload E (buildMessagePayload d identity) \<longleftrightarrow>
    \<not> (js_trim (df_content d) = [] \<and> js_trim (df_title d) = [] \<and> js_trim (df_description d) = [] \<and> js_trim (df_imageUrl d) = []) \<and>
    (js_trim (df_imageUrl d) = [] \<or> x_is_url E (js_trim (df_imageUrl d)) \<or> has_template (js_trim (df_imageUrl d)))"
  by (rule built_payload [OF assms])

section \<open>What an error of the API does to the bot\<close>

lemma exec_on_world [exec]: "on_world m (w, st) = (case m w of (r, w') \<Rightarrow> (r, w', st))"
  by (simp add: on_world_def)

lemma exec_reply [exec]: "reply_data r s = (case cr_data r of None \<Rightarrow> (Inl (ScriptExc ''TypeError''), s) | Some d \<Rightarrow> (Inr d, s))"
  by (simp add: reply_data_def exec split: option.split)

lemma after_last_token: "CHR '':'' \<notin> set token \<Longrightarrow> after_last (p @ CHR '':'' # token) = token"
  unfolding after_last_def rev_append by (simp, subst takeWhile_append2) auto

lemma before_last_token: "CHR '':'' \<notin> set token \<Longrightarrow> before_last (p @ CHR '':'' # token) = p"
  unfolding before_last_def by (simp, subst dropWhile_append2) auto

lemma internal_reply:
  "(\<And>c m d. e \<noteq> RpcExc c m d) \<Longrightarrow> error_reply e = \<lparr>cr_status = True, cr_data = None, cr_rpcError = None,
      cr_message = Some ''Internal server error'', cr_errorData = None\<rparr>"
  by (cases e) (auto simp: error_reply_def)

lemma internal_error_ends_accept:
  assumes "pending_get (w_now w) (after_last customId) st = Some p" and "pe_userId p = ix_userId i"
    and "handleAddDestination E (destination_request i p) w = (Inl e, w')" and "\<And>c m d. e \<noteq> RpcExc c m d"
  shows "handleAccept E i customId (w, st) = (Inl (ScriptExc ''TypeError''), w', pending_delete (after_last customId) st)"
  using assms(1-3)
  by (simp add: handleAccept_def acceptDestination_def Let_def find_draft_def own_draft_def exec internal_reply [OF assms(4)])

definition blank :: "embed_draft \<Rightarrow> bool" where
  "blank d \<longleftrightarrow> js_trim (df_content d) = [] \<and> js_trim (df_title d) = [] \<and> js_trim (df_description d) = [] \<and>
     js_trim (df_imageUrl d) = []"

lemma blank_payload: "blank d \<Longrightarrow> buildMessagePayload d identity = JObj []"
  by (simp add: blank_def buildMessagePayload_def identity_def field_if_def)

lemma blank_refused:
  assumes "blank (pe_draft p)" and "pe_eventType p = STREAM_ONLINE"
    and "discord_account (ix_userId i) w = Some u" and "row_of u_id (u_id u) (w_users w) = Some u" and "10 \<le> u_balance u"
    and "event_of_broadcaster (pe_broadcasterId p) STREAM_ONLINE w = Some e"
  shows "handleAddDestination E (destination_request i p) w = (Inl (badRequest ''Bad Request Exception''), w)"
proof -
  have "\<not> botPayload E (JObj [])"
    by (simp add: botPayload_def hasContentOrEmbeds_def field_of_def truthy_json_def list_of_def)
  then show ?thesis
    using assms
    by (simp add: handleAddDestination_def destination_request_def registered_def exec createDiscordNotification_def
        assertCanCreate_def publicStreamerEvents_def assertCanAfford_def resolveCost_def price_standard_def
        getOrCreateEvent_def validateBotPayload_def blank_payload insufficient_def prefix_def)
qed

text \<open>
  C24. Accepting a blank message ends the bot: the API refuses the payload with an exception that travels
  as an internal error, the bot takes this for success and reads data that are not there, and nobody
  catches what it throws; the draft is gone.
\<close>

theorem blank_message_ends_bot:
  assumes "pending_get (w_now w) token st = Some p" and "pe_userId p = ix_userId i" and "CHR '':'' \<notin> set token"
    and "blank (pe_draft p)" and "pe_eventType p = STREAM_ONLINE"
    and "discord_account (ix_userId i) w = Some u" and "row_of u_id (u_id u) (w_users w) = Some u" and "10 \<le> u_balance u"
    and "event_of_broadcaster (pe_broadcasterId p) STREAM_ONLINE w = Some e"
  shows "interactionCreate E started i (ButtonClicked (''add-destination:accept'' @ '':'' @ token)) (w, st) =
    (Inl (ScriptExc ''TypeError''), w, st(token := None))"
proof -
  let ?id = "''add-destination:accept'' @ CHR '':'' # token"
  have t: "after_last ?id = token" "before_last ?id = ''add-destination:accept''"
    using after_last_token [OF assms(3)] before_last_token [OF assms(3)] by blast+
  have "handleAccept E i ?id (w, st) = (Inl (ScriptExc ''TypeError''), w, pending_delete token st)"
    using internal_error_ends_accept [OF _ assms(2) blank_refused [OF assms(4-9)], of ?id st E] assms(1) t(1) by simp
  then show ?thesis using t(2) by (simp add: interactionCreate_def exec pending_delete_def)
qed

text \<open>A registered user who asks to be authorized gets no answer: the address that the button needs is
  not there.\<close>

lemma authorize_fails_when_registered:
  assumes "discord_account (ix_userId i) w \<noteq> None"
  shows "handleAuthorize E i (w, st) = (Inl (ScriptExc ''ValidationError''), w, st)"
  using assms by (simp add: handleAuthorize_def handleAuthenticate_def exec)

text \<open>The drafts live as their contract says.\<close>

lemma draft_forgotten: "now + pending_ttl \<le> later \<Longrightarrow> pending_get later token (pending_create now token p st) = None"
  by (rule drafts.forgotten)

lemma draft_kept: "later < now + pending_ttl \<Longrightarrow> pending_get later token (pending_create now token p st) = Some p"
  by (simp add: drafts.get_put)

section \<open>The theorems at concrete drafts\<close>

theorem form_payload_exact_witness:
  "botPayload sample_env (buildMessagePayload default_embed_draft identity)"
proof -
  have "submittable default_embed_draft" by (simp add: submittable_def default_embed_draft_def)
  from form_payload_exact [OF this, of sample_env] show ?thesis
    by (simp add: default_embed_draft_def js_trim_simps placeholder_def is_word_def)
qed

definition blank_draft :: embed_draft where
  "blank_draft = \<lparr>df_content = '' '', df_title = [], df_description = [], df_color = [], df_imageUrl = []\<rparr>"

definition pending_blank :: pending where
  "pending_blank = \<lparr>pe_userId = ''d'', pe_discordGuildId = ''7'', pe_channelId = ''5'', pe_broadcasterId = ''b'',
     pe_eventType = STREAM_ONLINE, pe_draft = blank_draft\<rparr>"

definition clicking :: interaction where
  "clicking = \<lparr>ix_userId = ''d'', ix_guildId = Some ''7'', ix_channelId = ''5'', ix_administrator = True, ix_isFromMessage = True\<rparr>"

definition linked_world :: world where
  "linked_world = populated_world\<lparr>w_users := [sample_user\<lparr>u_discordId := Some ''d''\<rparr>]\<rparr>"

theorem blank_message_ends_bot_witness:
  "interactionCreate sample_env 0 clicking (ButtonClicked ''add-destination:accept:T'')
     (linked_world, pending_create 1000 ''T'' pending_blank Map.empty) =
   (Inl (ScriptExc ''TypeError''), linked_world, (pending_create 1000 ''T'' pending_blank Map.empty)(''T'' := None))"
proof -
  let ?u = "sample_user\<lparr>u_discordId := Some ''d''\<rparr>"
  have "pending_get (w_now linked_world) ''T'' (pending_create 1000 ''T'' pending_blank Map.empty) = Some pending_blank"
    by (rule draft_kept) (simp add: linked_world_def pending_ttl_def)
  moreover have "blank (pe_draft pending_blank)"
    by (simp add: blank_def pending_blank_def blank_draft_def js_trim_simps)
  moreover have "discord_account (ix_userId clicking) linked_world = Some ?u"
    by (simp add: discord_account_def linked_world_def clicking_def)
  moreover have "row_of u_id (u_id ?u) (w_users linked_world) = Some ?u"
    by (simp add: row_of_def linked_world_def)
  moreover have "event_of_broadcaster (pe_broadcasterId pending_blank) STREAM_ONLINE linked_world = Some sample_event"
    by (simp add: event_of_broadcaster_def linked_world_def pending_blank_def sample_streamer_def sample_event_def)
  ultimately show ?thesis
    using blank_message_ends_bot [of linked_world "''T''" "pending_create 1000 ''T'' pending_blank Map.empty" pending_blank
        clicking ?u sample_event sample_env 0]
    by (simp add: pending_blank_def clicking_def sample_user_def)
qed

end
