(* ===== verification/BotView.thy ===== *)
theory BotView imports Discord BotGuilds begin

text \<open>
  What the API sees of the guilds the bot is in: the channels that the events of the gateway keep in the
  cache (\<open>apps/discord-bot/src/modules/discord/channel-sync.service.ts\<close>) and that
  \<open>DiscordBotService\<close> reads. Then the models of \<open>apps/api/src/modules/discord/models\<close> for members and
  channels, and the mapper of members, which no service uses yet.
\<close>

section \<open>Integers in the cache\<close>

text \<open>Reading a number that was printed from an integer gives the same text again.\<close>

definition canon_whole :: "env \<Rightarrow> bool" where
  "canon_whole E \<longleftrightarrow> (\<forall>i. x_canon E (int_text i) = int_text i)"

lemma nat_digit: "n < (10 :: nat) \<Longrightarrow> is_digit (char_of (48 + n))"
proof -
  assume "n < 10"
  then have "n \<in> set [0..<10]" by simp
  moreover have "list_all (\<lambda>n. is_digit (char_of (48 + n))) [0..<10]" by code_simp
  ultimately show ?thesis by (simp only: list_all_iff)
qed

lemma nat_text_digits: "list_all is_digit (nat_text n)"
proof (induction n rule: nat_text.induct)
  case (1 n)
  then show ?case by (subst nat_text.simps) (auto simp: nat_digit)
qed

lemma zero_char: "char_of (48 :: nat) = CHR ''0''"
  by code_simp

lemma char_of_zero: "n < 10 \<Longrightarrow> char_of (48 + n) = CHR ''0'' \<longleftrightarrow> n = (0 :: nat)"
proof
  assume "n < 10" "char_of (48 + n) = CHR ''0''"
  then have "of_char (char_of (48 + n)) = (48 :: nat)" by simp
  then show "n = 0" using \<open>n < 10\<close> by simp
qed (simp add: zero_char)

lemma nat_text_first_digit: "0 < n \<Longrightarrow> hd (nat_text n) \<noteq> CHR ''0''"
proof (induction n rule: nat_text.induct)
  case (1 n)
  show ?case
  proof (cases "n < 10")
    case True
    with "1.prems" show ?thesis by (subst nat_text.simps) (simp add: char_of_zero)
  next
    case False
    then have "hd (nat_text (n div 10)) \<noteq> CHR ''0''" by (intro "1.IH") simp_all
    moreover have "nat_text (n div 10) \<noteq> []" by simp
    ultimately show ?thesis using False by (subst nat_text.simps) simp
  qed
qed

lemma nat_text_zero: "nat_text 0 = ''0''"
  by (subst nat_text.simps) (simp add: zero_char)

lemma whole_digits: "takeWhile is_digit (nat_text n) = nat_text n" "dropWhile is_digit (nat_text n) = []"
  using nat_text_digits [of n] by (auto simp: list_all_iff)

lemma num_ok_digits: "t = nat_text n \<Longrightarrow> t \<noteq> [] \<and> (hd t = CHR ''0'' \<longrightarrow> length t = 1)"
  using nat_text_first_digit [of n] by (cases "n = 0") (auto simp: nat_text_zero)

lemma digit_no_minus: "is_digit c \<Longrightarrow> c \<noteq> CHR ''-''"
  by (auto simp: is_digit_def)

lemma num_ok_nat_text: "num_ok (nat_text n)" "num_ok (CHR ''-'' # nat_text n)"
proof -
  obtain c t where c: "nat_text n = c # t" by (cases "nat_text n") simp_all
  then have "c \<noteq> CHR ''-''" using nat_text_digits [of n] digit_no_minus by simp
  then show "num_ok (nat_text n)" "num_ok (CHR ''-'' # nat_text n)"
    using whole_digits [of n] num_ok_digits [OF refl, of n]
    by (simp_all add: num_ok_def Let_def num_frac_ok_def c is_digit_def [of "CHR ''0''"])
qed

lemma int_text_wf:
  assumes "canon_whole E"
  shows "wf_json (x_canon E) (JNum (int_text i))"
proof -
  have n: "list_all is_num_char (nat_text n)" for n
    using nat_text_digits [of n] by (auto simp: list_all_iff is_num_char_def)
  have "num_ok (int_text i) \<and> list_all is_num_char (int_text i)"
    using n num_ok_nat_text by (cases "i < 0") (simp_all add: is_num_char_def)
  then show ?thesis using assms by (simp add: canon_whole_def del: int_text.simps)
qed

section \<open>Channels across the processes\<close>

datatype channel_change = Channel_Create | Channel_Delete | Channel_Update

fun on_channel_change :: "client \<times> channel_change \<times> string option \<Rightarrow> unit act" where
  "on_channel_change (c, Channel_Create, g) = onChannelCreate c g"
| "on_channel_change (c, Channel_Delete, g) = onChannelDelete c g"
| "on_channel_change (c, Channel_Update, g) = onChannelUpdate c g"

definition channels_json :: "client_guild \<Rightarrow> json" where
  "channels_json g = JArr (map cached_channel_json (text_channels g))"

lemma channels_wf: "canon_whole E \<Longrightarrow> wf_json (x_canon E) (channels_json g)"
  using int_text_wf [of E]
  by (auto simp: channels_json_def cached_channel_json_def text_or_null_def split: option.split)

lemma channel_change_is:
  "on_channel_change (c, k, gid) = whenever (truthy gid) (andThen (syncGuild c (the gid)) (\<lambda>_. ret ()))"
  by (cases k) (simp_all add: onChannelCreate_def onChannelDelete_def onChannelUpdate_def)

lemma guild_key_inj: "discordGuildChannels g = discordGuildChannels h \<longleftrightarrow> g = h"
  by (simp add: discordGuildChannels_def)

lemma other_guild_change:
  assumes "snd (snd ev) \<noteq> Some gid"
  shows "fst (on_channel_change ev w) = Inr () \<and> w_now (snd (on_channel_change ev w)) = w_now w \<and>
    w_redis (snd (on_channel_change ev w)) (discordGuildChannels gid) = w_redis w (discordGuildChannels gid)"
proof -
  obtain c k h where "ev = (c, k, h)" by (cases ev)
  then show ?thesis
    using assms
    by (cases h) (auto simp: truthy_def channel_change_is syncGuild_def exec redis_set_def put_key_def guild_key_inj split: option.split)
qed

lemma other_guild_changes:
  assumes "list_all (\<lambda>ev. snd (snd ev) \<noteq> Some gid) evs"
  shows "w_now (snd (forEach on_channel_change evs w)) = w_now w \<and>
    w_redis (snd (forEach on_channel_change evs w)) (discordGuildChannels gid) = w_redis w (discordGuildChannels gid)"
  using assms
proof (induction evs arbitrary: w)
  case (Cons ev evs)
  then show ?case
    using other_guild_change [of ev gid w] by (cases "on_channel_change ev w") (auto simp: exec)
qed (simp add: exec)

text \<open>
  After an event of a channel, the API sees the guild as the client of the bot then had it, for a day:
  its text channels by their position, whatever happens in other guilds, without a call of the bot.
\<close>

theorem api_sees_channels:
  assumes "canon_whole E" and "client_guild c gid = Some g" and "gid \<noteq> []"
    and "list_all (\<lambda>ev. snd (snd ev) \<noteq> Some gid) evs"
    and "w' = snd (forEach on_channel_change ((c, k, Some gid) # evs) w)"
    and "t < w_now w + 24 * 60 * 60 * 1000"
  shows "getGuildTextChannels E gid (w'\<lparr>w_now := t\<rparr>) = (Inr (channels_json g), w'\<lparr>w_now := t\<rparr>) \<and>
    sorted (map cc_position (text_channels g)) \<and>
    set (text_channels g) = {ch. \<exists>ty. (ty, ch) \<in> set (cg_channels g) \<and> isTextGuildChannel ty}"
proof -
  let ?v = "w\<lparr>w_redis := put_key (w_now w) (discordGuildChannels gid) (stringify (channels_json g)) channels_ttl (w_redis w)\<rparr>"
  have "on_channel_change (c, k, Some gid) w = (Inr (), ?v)"
    using assms(2,3) by (simp add: channel_change_is syncGuild_def exec redis_set_def truthy_def channels_json_def)
  then have "w' = snd (forEach on_channel_change evs ?v)" by (simp add: assms(5) exec)
  then have "w_redis w' (discordGuildChannels gid) = Some (stringify (channels_json g), Some (w_now w + 86400000))"
    using other_guild_changes [OF assms(4), of ?v] by (simp add: put_key_def channels_ttl_def)
  then have "redis_get E (discordGuildChannels gid) (w'\<lparr>w_now := t\<rparr>) = (Inr (Some (channels_json g)), w'\<lparr>w_now := t\<rparr>)"
    using assms(6) json_round_trip [OF channels_wf [OF assms(1), of g]] stringify_not_Nil [OF channels_wf [OF assms(1), of g]]
    by (simp add: redis_get_def lookup_def) (simp add: channels_json_def)
  moreover have "truthy_json (Some (channels_json g))" by (simp add: truthy_json_def channels_json_def)
  moreover have "set (text_channels g) = {ch. \<exists>ty. (ty, ch) \<in> set (cg_channels g) \<and> isTextGuildChannel ty}"
    by (force simp: text_channels_def)
  ultimately show ?thesis
    by (simp add: getGuildTextChannels_def exec) (simp add: text_channels_def)
qed

text \<open>The channels of a guild that the bot has left stay in the cache: no event removes them.\<close>

lemma left_guild_stays_cached:
  "client_guild c gid = None \<Longrightarrow> on_channel_change (c, k, Some gid) w = (Inr (), w)"
  by (simp add: channel_change_is syncGuild_def exec)

section \<open>Models without a use\<close>

text \<open>The types of Discord that the API would show; the bot has the same ones by name.\<close>

fun channel_type_number :: "channel_type \<Rightarrow> nat" where
  "channel_type_number GuildText = 0"
| "channel_type_number GuildAnnouncement = 5"
| "channel_type_number OtherChannel = 2"

(* apps/api/src/modules/discord/models/discord-channel.model.ts 18-22 TEXT_CHANNEL_TYPES *)
definition text_channel_types :: "nat list" where
  "text_channel_types = [0, 5]"

lemma text_channel_types_agree: "isTextGuildChannel t \<longleftrightarrow> channel_type_number t \<in> set text_channel_types"
  by (cases t) (simp_all add: isTextGuildChannel_def text_channel_types_def)

(* apps/api/src/modules/discord/models/discord-member.model.ts 15-25 IDiscordApiGuildMemberModel *)
record member_reply =
  dr_user :: "discord_me_reply option"
  dr_nick :: "string option"
  dr_avatar :: "string option"
  dr_premium_since :: "string option"
  dr_permissions :: "string option"
  dr_roles :: "string list"
  dr_joined_at :: string
  dr_deaf :: bool
  dr_mute :: bool

(* apps/api/src/modules/discord/models/discord-member.model.ts 3-13 IDiscordGuildMemberModel *)
record member_model =
  gx_user :: "discord_me option"
  gx_nick :: "string option"
  gx_avatar :: "string option"
  gx_premiumSince :: "string option"
  gx_permissions :: "string option"
  gx_roles :: "string list"
  gx_joinedAt :: string
  gx_deaf :: bool
  gx_mute :: bool

(* apps/api/src/modules/discord/mappers/discord-guild.mapper.ts 25-39 DiscordGuildMapper.ApiToMemberModel *)
definition apiToMemberModel :: "member_reply \<Rightarrow> member_model" where
  "apiToMemberModel d =
     \<lparr>gx_user = map_option apiToMeModel (dr_user d), gx_nick = dr_nick d, gx_avatar = dr_avatar d,
      gx_premiumSince = dr_premium_since d, gx_permissions = dr_permissions d, gx_roles = dr_roles d,
      gx_joinedAt = dr_joined_at d, gx_deaf = dr_deaf d, gx_mute = dr_mute d\<rparr>"

section \<open>The theorem at a concrete guild\<close>

definition sample_guild :: client_guild where
  "sample_guild = \<lparr>cg_id = ''7'', cg_channels =
     [(GuildText, \<lparr>cc_id = ''b'', cc_name = ''news'', cc_position = 1, cc_parentId = None, cc_topic = None\<rparr>),
      (OtherChannel, \<lparr>cc_id = ''v'', cc_name = ''voice'', cc_position = 0, cc_parentId = None, cc_topic = None\<rparr>),
      (GuildText, \<lparr>cc_id = ''a'', cc_name = ''rules'', cc_position = 0, cc_parentId = None, cc_topic = None\<rparr>)],
     cg_roles = []\<rparr>"

definition sample_client :: client where
  "sample_client = \<lparr>cl_guilds = [sample_guild], cl_member = (\<lambda>_ _. None)\<rparr>"

theorem api_sees_channels_witness:
  "\<exists>w' js. getGuildTextChannels sample_env ''7'' w' = (Inr (JArr js), w') \<and> map (text_of ''id'') js = [''a'', ''b'']"
proof -
  let ?w = "snd (forEach on_channel_change [(sample_client, Channel_Update, Some ''7''),
      (sample_client, Channel_Delete, Some ''8'')] sample_world)"
  have "canon_whole sample_env" by (simp add: canon_whole_def sample_env_def)
  moreover have "client_guild sample_client ''7'' = Some sample_guild"
    by (simp add: client_guild_def sample_client_def sample_guild_def)
  ultimately have "getGuildTextChannels sample_env ''7'' (?w\<lparr>w_now := 5000\<rparr>) =
      (Inr (channels_json sample_guild), ?w\<lparr>w_now := 5000\<rparr>)"
    using api_sees_channels [of sample_env sample_client "''7''" sample_guild "[(sample_client, Channel_Delete, Some ''8'')]"
        ?w Channel_Update sample_world 5000] by simp
  moreover have "\<exists>js. channels_json sample_guild = JArr js \<and> map (text_of ''id'') js = [''a'', ''b'']"
    by (simp add: channels_json_def text_channels_def sample_guild_def isTextGuildChannel_def insort_key_def
        cached_channel_json_def text_of_def field_of_def)
  ultimately show ?thesis by metis
qed

end
