(* ===== verification/CacheLock.thy ===== *)
theory CacheLock imports Redis begin

text \<open>
  Progress of \<open>getOrSet\<close> (\<open>libs/redis/src/redis.service.ts\<close>): a call takes few steps of its own and
  is never kept from its next one, and a holder that never comes back does not keep the key empty.
\<close>

inductive_cases stepE: "lock_step limit k ttl s s'"

section \<open>Calls finish\<close>

text \<open>The steps a process has left in its call.\<close>

fun remaining :: "phase \<Rightarrow> nat" where
  "remaining Outside = 0"
| "remaining Missed = 4"
| "remaining (Holding a) = 3"
| "remaining (Resolving a) = 2"
| "remaining (Leaving a) = 1"
| "remaining Waiting = 1"

lemma remaining_bound: "remaining ph \<le> 4"
  by (cases ph) simp_all

lemma set_phase_phase: "ls_phase (set_phase p ph s) q = (if q = p then ph else ls_phase s q)"
  by (simp add: set_phase_def)

lemma own_stepI:
  "lock_step limit k ttl s s' \<Longrightarrow> remaining (ls_phase s' p) < n \<Longrightarrow>
    \<exists>s'. lock_step limit k ttl s s' \<and> remaining (ls_phase s' p) < n"
  by blast

lemma own_step:
  assumes "ls_phase s p \<noteq> Outside"
  shows "\<exists>s'. lock_step limit k ttl s s' \<and> remaining (ls_phase s' p) < remaining (ls_phase s p)"
proof (cases "ls_phase s p")
  case Missed
  obtain ok st where n: "put_new (ls_now s) (lock_key k) ''\"1\"'' lock_ttl (ls_store s) = (ok, st)" by force
  show ?thesis
  proof (cases ok)
    case True
    show ?thesis by (rule own_stepI [OF acquire]) (use n Missed True in \<open>auto simp: set_phase_phase\<close>)
  next
    case False
    show ?thesis by (rule own_stepI [OF wait]) (use n Missed False in \<open>auto simp: set_phase_phase\<close>)
  qed
next
  case Waiting
  show ?thesis by (rule own_stepI [OF woken]) (use Waiting in \<open>auto simp: set_phase_phase\<close>)
next
  case (Holding a)
  show ?thesis
  proof (cases "cached (ls_now s) k (ls_store s)")
    case None
    show ?thesis by (rule own_stepI [OF double_check_miss]) (use Holding None in \<open>auto simp: set_phase_phase\<close>)
  next
    case (Some v)
    show ?thesis by (rule own_stepI [OF double_check_hit]) (use Holding Some in \<open>auto simp: set_phase_phase\<close>)
  qed
next
  case (Resolving a)
  show ?thesis by (rule own_stepI [OF resolver_failed]) (use Resolving in \<open>auto simp: set_phase_phase\<close>)
next
  case (Leaving a)
  show ?thesis by (rule own_stepI [OF release]) (use Leaving in \<open>auto simp: set_phase_phase\<close>)
qed (use assms in simp)

lemma step_remaining:
  assumes "lock_step limit k ttl s s'" and "ls_phase s p \<noteq> Outside"
  shows "ls_phase s' p = ls_phase s p \<or> remaining (ls_phase s' p) < remaining (ls_phase s p)"
  using assms by (elim stepE) (auto simp: set_phase_phase)

text \<open>
  A call of \<open>getOrSet\<close> ends: whatever the others do, a process inside it always has a step of its
  own to take, each step it takes brings it nearer to the end, no step of another sets it back, and there
  are at most four.
\<close>

theorem getOrSet_calls_finish:
  assumes "ls_phase s p \<noteq> Outside"
  shows "(\<exists>s'. lock_step limit k ttl s s' \<and> remaining (ls_phase s' p) < remaining (ls_phase s p)) \<and>
    (\<forall>s'. lock_step limit k ttl s s' \<longrightarrow>
       ls_phase s' p = ls_phase s p \<or> remaining (ls_phase s' p) < remaining (ls_phase s p)) \<and>
    remaining (ls_phase s p) \<le> 4"
  using own_step [OF assms] step_remaining [OF _ assms] remaining_bound by blast

section \<open>A lost holder\<close>

text \<open>The entry of the lock always has an expiry.\<close>

definition lock_expires :: "string \<Rightarrow> lock_state \<Rightarrow> bool" where
  "lock_expires k s \<longleftrightarrow> (case ls_store s (lock_key k) of None \<Rightarrow> True | Some (v, e) \<Rightarrow> e \<noteq> None)"

lemma lock_expires_step: "lock_step limit k ttl s s' \<Longrightarrow> lock_expires k s \<Longrightarrow> lock_expires k s'"
  by (elim stepE)
    (auto simp: lock_expires_def set_phase_def put_new_def put_key_def drop_key_def split: if_splits option.splits)

lemma lock_expires_reach: "lock_reach limit k ttl s \<Longrightarrow> lock_expires k s"
  unfolding lock_reach_def
  by (induction rule: rtranclp_induct) (simp add: lock_start_def lock_expires_def, blast intro: lock_expires_step)

lemma lock_free_later:
  assumes "lock_expires k s"
  shows "\<exists>t \<ge> ls_now s. lookup t (lock_key k) (ls_store s) = None"
proof (cases "ls_store s (lock_key k)")
  case (Some x)
  then obtain v e where "x = (v, Some e)" using assms by (cases x) (auto simp: lock_expires_def)
  with Some show ?thesis by (intro exI [of _ "max (ls_now s) e"]) (simp add: lookup_def)
qed (auto simp: lookup_def)

lemma cached_after_put: "v \<noteq> [] \<Longrightarrow> v \<noteq> ''null'' \<Longrightarrow> cached now k (put_key now k v ttl st) = Some v"
  by (simp add: cached_def lookup_def put_key_def)

lemma fill_steps:
  assumes p: "ls_phase s p = Outside" and v: "v \<noteq> []" "v \<noteq> ''null''"
    and k: "cached (ls_now s) k (ls_store s) = None"
    and l: "lookup (ls_now s) (lock_key k) (ls_store s) = None"
  shows "\<exists>s'. (lock_step None k ttl)\<^sup>*\<^sup>* s s' \<and> cached (ls_now s') k (ls_store s') = Some v \<and>
    (\<forall>q. q \<noteq> p \<longrightarrow> ls_phase s' q = ls_phase s q)"
proof -
  let ?now = "ls_now s"
  obtain st where n: "put_new ?now (lock_key k) ''\"1\"'' lock_ttl (ls_store s) = (True, st)"
    and k': "cached ?now k st = None"
    using k l by (simp add: put_new_def lookup_def cached_def)
  define a where "a = set_phase p Missed s"
  define b where "b = set_phase p (Holding ?now) (a\<lparr>ls_store := st\<rparr>)"
  define c where "c = set_phase p (Resolving ?now) b"
  define d where "d = set_phase p (Leaving ?now)
    (c\<lparr>ls_store := put_key ?now k v ttl (ls_store c), ls_published := ls_published c @ [v]\<rparr>)"
  note defs = a_def b_def c_def d_def
  have s1: "lock_step None k ttl s a" unfolding a_def by (rule miss [OF p k])
  have s2: "lock_step None k ttl a b"
    unfolding b_def using acquire [of a p k st None ttl] n by (simp add: a_def set_phase_def)
  have s3: "lock_step None k ttl b c"
    unfolding c_def by (rule double_check_miss) (use k' in \<open>simp_all add: b_def a_def set_phase_def\<close>)
  have s4: "lock_step None k ttl c d"
    unfolding d_def using resolved [of c p ?now None k ttl v] by (simp add: c_def b_def a_def set_phase_def)
  have "(lock_step None k ttl)\<^sup>*\<^sup>* s d"
    by (rule converse_rtranclp_into_rtranclp, rule s1, rule converse_rtranclp_into_rtranclp, rule s2,
        rule converse_rtranclp_into_rtranclp, rule s3, rule converse_rtranclp_into_rtranclp, rule s4,
        rule rtranclp.rtrancl_refl)
  moreover have "cached (ls_now d) k (ls_store d) = Some v \<and> (\<forall>q. q \<noteq> p \<longrightarrow> ls_phase d q = ls_phase s q)"
    by (simp add: defs set_phase_def cached_after_put v)
  ultimately show ?thesis by blast
qed

text \<open>
  C14. The key does not stay empty: in every state that can be reached, even one in which a holder of the
  lock is never heard of again, a process that calls \<open>getOrSet\<close> can bring a value into the cache while
  no other process takes a step.
\<close>

theorem getOrSet_recovers:
  assumes "lock_reach None k ttl s" and "ls_phase s p = Outside"
  shows "\<exists>s' v. (lock_step None k ttl)\<^sup>*\<^sup>* s s' \<and> cached (ls_now s') k (ls_store s') = Some v \<and>
    (\<forall>q. q \<noteq> p \<longrightarrow> ls_phase s' q = ls_phase s q)"
proof -
  obtain t where t: "ls_now s \<le> t" "lookup t (lock_key k) (ls_store s) = None"
    using lock_free_later [OF lock_expires_reach [OF assms(1)]] by blast
  let ?s = "s\<lparr>ls_now := t\<rparr>"
  have step: "lock_step None k ttl s ?s" using t(1) by (intro tick) simp_all
  show ?thesis
  proof (cases "cached t k (ls_store s)")
    case None
    obtain s' where "(lock_step None k ttl)\<^sup>*\<^sup>* ?s s'" "cached (ls_now s') k (ls_store s') = Some ''0''"
        "\<forall>q. q \<noteq> p \<longrightarrow> ls_phase s' q = ls_phase ?s q"
      using fill_steps [of ?s p "''0''" k ttl] None t(2) assms(2) by auto
    with step show ?thesis by (intro exI [of _ s']) (auto intro: converse_rtranclp_into_rtranclp)
  next
    case (Some v)
    with step show ?thesis by (intro exI [of _ ?s]) auto
  qed
qed

theorem getOrSet_calls_finish_witness:
  "\<exists>s'. lock_step None ''k'' 60 resolving_once s' \<and> remaining (ls_phase s' 0) < remaining (ls_phase resolving_once 0)"
  using getOrSet_calls_finish [of resolving_once 0 None "''k''" 60] by (simp add: resolving_once_def)

theorem getOrSet_recovers_witness:
  "\<exists>s' v. (lock_step None ''k'' 60)\<^sup>*\<^sup>* resolving_once s' \<and> cached (ls_now s') ''k'' (ls_store s') = Some v \<and>
    ls_phase s' 0 = Resolving 0"
proof -
  have "ls_phase resolving_once 1 = Outside" "ls_phase resolving_once 0 = Resolving 0"
    by (simp_all add: resolving_once_def)
  then show ?thesis using getOrSet_recovers [OF resolving_once_reach, of 1] by fastforce
qed

end
