(* ===== verification/CacheWait.thy ===== *)
theory CacheWait imports CacheLock begin

text \<open>
  How a caller of \<open>getOrSet\<close> waits for the holder of the lock (\<open>waitForCacheReady\<close>, \<open>subscribe\<close>,
  \<open>unsubscribe\<close> and \<open>publish\<close> of \<open>libs/redis/src/redis.service.ts\<close>). Each service process has one
  connection for its subscriptions, which all its callers share: \<open>home\<close> says where a caller runs. The
  state extends that of the lock by the commands a connection has yet to send, what the server has it
  subscribed to, the messages on their way and the listeners of the process, which are never taken
  away. The steps refine those of the lock, in which a waiting caller is woken by anything.
\<close>

section \<open>Connections and waits\<close>

datatype command = Subscribe nat nat | Unsubscribe

datatype outcome = Value string | Wait_Timeout

text \<open>A listener is the caller it belongs to and the number of the wait it was made for. A wait is over
  when its caller is no longer waiting or waits under another number; what its listener then hears
  is dropped by the observer, which has completed.\<close>

record wait_state =
  ws_lock :: lock_state
  ws_commands :: "nat \<Rightarrow> command list"
  ws_channel :: "nat \<Rightarrow> bool"
  ws_replies :: "nat \<Rightarrow> (nat \<times> nat) list"
  ws_inbox :: "nat \<Rightarrow> string list"
  ws_listeners :: "nat \<Rightarrow> (nat \<times> nat) list"
  ws_sent :: nat
  ws_waits :: nat
  ws_number :: "nat \<Rightarrow> nat"
  ws_deadline :: "nat \<Rightarrow> int"
  ws_reading :: "nat \<Rightarrow> bool"
  ws_outcome :: "nat \<Rightarrow> outcome option"

definition waits :: "lock_state \<Rightarrow> nat \<Rightarrow> bool" where
  "waits s p \<longleftrightarrow> ls_phase s p = Waiting"

definition add_command :: "nat \<Rightarrow> command \<Rightarrow> wait_state \<Rightarrow> wait_state" where
  "add_command h c s = s\<lparr>ws_commands := (ws_commands s)(h := ws_commands s h @ [c])\<rparr>"

text \<open>The first of message and timeout decides; the observer of the message is torn down either way,
  which sends the command to unsubscribe.\<close>

(* libs/redis/src/redis.service.ts 40-56 RedisService.waitForCacheReady, the end of a wait *)
definition end_wait :: "(nat \<Rightarrow> nat) \<Rightarrow> nat \<Rightarrow> outcome \<Rightarrow> wait_state \<Rightarrow> wait_state" where
  "end_wait home p r s = add_command (home p) Unsubscribe
     (s\<lparr>ws_lock := set_phase p Outside (ws_lock s), ws_outcome := (ws_outcome s)(p := Some r)\<rparr>)"

text \<open>The subscription is asked for at once; its command goes out on the connection of the process.\<close>

(* libs/redis/src/redis.service.ts 30-46 RedisService.waitForCacheReady, the start of a wait *)
definition begin_wait :: "(nat \<Rightarrow> nat) \<Rightarrow> int \<Rightarrow> nat \<Rightarrow> lock_state \<Rightarrow> wait_state \<Rightarrow> wait_state" where
  "begin_wait home ms p l s = add_command (home p) (Subscribe p (ws_waits s))
     (s\<lparr>ws_lock := l, ws_waits := Suc (ws_waits s), ws_number := (ws_number s)(p := ws_waits s),
        ws_deadline := (ws_deadline s)(p := ls_now l + ms), ws_reading := (ws_reading s)(p := False),
        ws_outcome := (ws_outcome s)(p := None)\<rparr>)"

definition listens_still :: "wait_state \<Rightarrow> nat \<times> nat \<Rightarrow> bool" where
  "listens_still s = (\<lambda>(p, n). waits (ws_lock s) p \<and> ws_number s p = n)"

text \<open>A message reaches the listeners of the process in the order they were added.\<close>

(* libs/redis/src/redis.service.ts 19-24 RedisService.subscribe, a message *)
fun tell :: "(nat \<Rightarrow> nat) \<Rightarrow> string \<Rightarrow> (nat \<times> nat) list \<Rightarrow> wait_state \<Rightarrow> wait_state" where
  "tell home v [] s = s"
| "tell home v (l # ls) s =
     tell home v ls (if listens_still s l then end_wait home (fst l) (Value v) s else s)"

section \<open>Steps\<close>

text \<open>
  A step of the lock that leaves the waiting callers alone; a caller that did not get the lock begins to
  wait; the server takes a command of a connection; the promise of a subscription is resolved and its
  listener added; a holder's message reaches the server, which passes it on to the connections subscribed
  at that moment; a process hears the next message; a timer goes off, and its caller reads the cache.
\<close>

(* libs/redis/src/redis.service.ts 15-57 RedisService.publish, subscribe, unsubscribe, waitForCacheReady *)
inductive wait_step :: "(nat \<Rightarrow> nat) \<Rightarrow> int option \<Rightarrow> string \<Rightarrow> nat \<Rightarrow> int \<Rightarrow> wait_state \<Rightarrow> wait_state \<Rightarrow> bool"
  for home :: "nat \<Rightarrow> nat" and limit :: "int option" and k :: string and ttl :: nat and ms :: int where
  locking: "lock_step limit k ttl (ws_lock s) l \<Longrightarrow> waits l = waits (ws_lock s) \<Longrightarrow>
     wait_step home limit k ttl ms s (s\<lparr>ws_lock := l\<rparr>)"
| begins: "lock_step limit k ttl (ws_lock s) l \<Longrightarrow> \<not> waits (ws_lock s) p \<Longrightarrow> waits l p \<Longrightarrow>
     wait_step home limit k ttl ms s (begin_wait home ms p l s)"
| subscribed: "ws_commands s h = Subscribe p n # cs \<Longrightarrow>
     wait_step home limit k ttl ms s
       (s\<lparr>ws_commands := (ws_commands s)(h := cs), ws_channel := (ws_channel s)(h := True),
          ws_replies := (ws_replies s)(h := ws_replies s h @ [(p, n)])\<rparr>)"
| unsubscribed: "ws_commands s h = Unsubscribe # cs \<Longrightarrow>
     wait_step home limit k ttl ms s
       (s\<lparr>ws_commands := (ws_commands s)(h := cs), ws_channel := (ws_channel s)(h := False)\<rparr>)"
| listening: "ws_replies s h = l # ls \<Longrightarrow>
     wait_step home limit k ttl ms s
       (s\<lparr>ws_replies := (ws_replies s)(h := ls), ws_listeners := (ws_listeners s)(h := ws_listeners s h @ [l])\<rparr>)"
| published: "ws_sent s < length (ls_published (ws_lock s)) \<Longrightarrow> v = ls_published (ws_lock s) ! ws_sent s \<Longrightarrow>
     wait_step home limit k ttl ms s
       (s\<lparr>ws_sent := Suc (ws_sent s),
          ws_inbox := (\<lambda>h. if ws_channel s h then ws_inbox s h @ [v] else ws_inbox s h)\<rparr>)"
| heard: "ws_inbox s h = v # vs \<Longrightarrow>
     wait_step home limit k ttl ms s
       (tell home v (ws_listeners s h) (s\<lparr>ws_inbox := (ws_inbox s)(h := vs)\<rparr>))"
| timer: "waits (ws_lock s) p \<Longrightarrow> ws_deadline s p \<le> ls_now (ws_lock s) \<Longrightarrow> \<not> ws_reading s p \<Longrightarrow>
     wait_step home limit k ttl ms s (s\<lparr>ws_reading := (ws_reading s)(p := True)\<rparr>)"
| reads: "waits (ws_lock s) p \<Longrightarrow> ws_reading s p \<Longrightarrow>
     wait_step home limit k ttl ms s
       (end_wait home p (case cached (ls_now (ws_lock s)) k (ls_store (ws_lock s)) of
          Some v \<Rightarrow> Value v | None \<Rightarrow> Wait_Timeout) s)"

definition wait_start :: wait_state where
  "wait_start = \<lparr>ws_lock = lock_start, ws_commands = (\<lambda>_. []), ws_channel = (\<lambda>_. False), ws_replies = (\<lambda>_. []),
     ws_inbox = (\<lambda>_. []), ws_listeners = (\<lambda>_. []), ws_sent = 0, ws_waits = 0, ws_number = (\<lambda>_. 0),
     ws_deadline = (\<lambda>_. 0), ws_reading = (\<lambda>_. False), ws_outcome = (\<lambda>_. None)\<rparr>"

definition wait_reach :: "(nat \<Rightarrow> nat) \<Rightarrow> int option \<Rightarrow> string \<Rightarrow> nat \<Rightarrow> int \<Rightarrow> wait_state \<Rightarrow> bool" where
  "wait_reach home limit k ttl ms s \<longleftrightarrow> (wait_step home limit k ttl ms)\<^sup>*\<^sup>* wait_start s"

lemma wait_reach_step:
  "wait_reach home limit k ttl ms s \<Longrightarrow> wait_step home limit k ttl ms s s' \<Longrightarrow> wait_reach home limit k ttl ms s'"
  unfolding wait_reach_def by (rule rtranclp.rtrancl_into_rtrancl)

lemma wait_reach_induct [consumes 1, case_names start step]:
  assumes "wait_reach home limit k ttl ms s" and "P wait_start"
    and "\<And>s s'. wait_reach home limit k ttl ms s \<Longrightarrow> P s \<Longrightarrow> wait_step home limit k ttl ms s s' \<Longrightarrow> P s'"
  shows "P s"
  using assms(1) unfolding wait_reach_def
  by (induction rule: rtranclp_induct) (use assms(2,3) in \<open>auto simp: wait_reach_def\<close>)

section \<open>The waits refine the lock\<close>

lemma wait_fields [simp]:
  "ws_lock (add_command h c s) = ws_lock s" "ws_lock (end_wait home p r s) = set_phase p Outside (ws_lock s)"
  "ws_lock (begin_wait home ms p l s) = l"
  "ws_listeners (add_command h c s) = ws_listeners s" "ws_listeners (end_wait home p r s) = ws_listeners s"
  "ws_listeners (begin_wait home ms p l s) = ws_listeners s"
  "ws_inbox (add_command h c s) = ws_inbox s" "ws_inbox (end_wait home p r s) = ws_inbox s"
  "ws_inbox (begin_wait home ms p l s) = ws_inbox s"
  "ws_outcome (add_command h c s) = ws_outcome s" "ws_outcome (end_wait home p r s) = (ws_outcome s)(p := Some r)"
  "ws_outcome (begin_wait home ms p l s) = (ws_outcome s)(p := None)"
  by (simp_all add: add_command_def end_wait_def begin_wait_def)

lemma tell_steps: "(lock_step limit k ttl)\<^sup>*\<^sup>* (ws_lock s) (ws_lock (tell home v ls s))"
proof (induction ls arbitrary: s)
  case (Cons l ls)
  show ?case
  proof (cases "listens_still s l")
    case True
    then have "lock_step limit k ttl (ws_lock s) (ws_lock (end_wait home (fst l) (Value v) s))"
      by (cases l) (auto simp: listens_still_def waits_def intro: lock_step.woken)
    with True Cons.IH [of "end_wait home (fst l) (Value v) s"] show ?thesis
      by (simp add: converse_rtranclp_into_rtranclp)
  qed (use Cons.IH [of s] in simp)
qed simp

lemma wait_step_refines:
  "wait_step home limit k ttl ms s s' \<Longrightarrow> (lock_step limit k ttl)\<^sup>*\<^sup>* (ws_lock s) (ws_lock s')"
proof (induction rule: wait_step.induct)
  case (heard s h v vs)
  then show ?case using tell_steps [of limit k ttl "s\<lparr>ws_inbox := (ws_inbox s)(h := vs)\<rparr>"] by simp
next
  case (reads s p)
  then have "lock_step limit k ttl (ws_lock s) (set_phase p Outside (ws_lock s))"
    by (intro lock_step.woken) (simp add: waits_def)
  then show ?case by simp
qed auto

text \<open>
  The waits are a refinement of the lock: whatever the connections, messages and timers do, the state of the
  lock is one the lock alone can reach, so what holds of every state of the lock holds here.
\<close>

theorem waiting_refines_lock:
  assumes "wait_reach home limit k ttl ms s"
  shows "lock_reach limit k ttl (ws_lock s)"
  using assms
proof (induction rule: wait_reach_induct)
  case start
  show ?case by (simp add: lock_reach_def wait_start_def)
next
  case (step s s')
  then show ?case unfolding lock_reach_def using wait_step_refines by (blast intro: rtranclp_trans)
qed

section \<open>What callers are told\<close>

lemma tell_fields [simp]:
  "ws_inbox (tell home v ls s) = ws_inbox s" "ls_published (ws_lock (tell home v ls s)) = ls_published (ws_lock s)"
  "ls_store (ws_lock (tell home v ls s)) = ls_store (ws_lock s)"
  "ws_listeners (tell home v ls s) = ws_listeners s" "ws_number (tell home v ls s) = ws_number s"
  by (induction ls arbitrary: s) (simp_all add: set_phase_def end_wait_def add_command_def)

text \<open>A message ends the waits whose listeners are there, with its value, and no other.\<close>

lemma tell_exact:
  "ws_outcome (tell home v ls s) p =
     (if waits (ws_lock s) p \<and> (p, ws_number s p) \<in> set ls then Some (Value v) else ws_outcome s p) \<and>
   waits (ws_lock (tell home v ls s)) p = (waits (ws_lock s) p \<and> (p, ws_number s p) \<notin> set ls)"
proof (induction ls arbitrary: s)
  case (Cons l ls)
  obtain q n where l: "l = (q, n)" by force
  show ?case
    using Cons.IH [of "end_wait home q (Value v) s"] Cons.IH [of s]
    by (auto simp: l listens_still_def waits_def set_phase_def end_wait_def add_command_def)
qed simp

definition values_known :: "string \<Rightarrow> wait_state \<Rightarrow> bool" where
  "values_known k s \<longleftrightarrow>
     (\<forall>v e. ls_store (ws_lock s) k = Some (v, e) \<longrightarrow> v \<in> set (ls_published (ws_lock s))) \<and>
     (\<forall>h. set (ws_inbox s h) \<subseteq> set (ls_published (ws_lock s))) \<and>
     (\<forall>p v. ws_outcome s p = Some (Value v) \<longrightarrow> v \<in> set (ls_published (ws_lock s)))"

lemma lock_step_published:
  assumes "lock_step limit k ttl s s'"
  shows "set (ls_published s) \<subseteq> set (ls_published s') \<and>
    (ls_store s' k = ls_store s k \<or> (\<exists>v e. ls_store s' k = Some (v, e) \<and> v \<in> set (ls_published s')))"
  using assms
  by (elim stepE) (auto simp: set_phase_def put_key_def put_new_def drop_key_def split: if_splits)

lemma values_known_lock:
  assumes "values_known k s" and "lock_step limit k ttl (ws_lock s) l"
    and "ws_lock s' = l" "ws_inbox s' = ws_inbox s"
    and "\<And>p v. ws_outcome s' p = Some (Value v) \<Longrightarrow> ws_outcome s p = Some (Value v)"
  shows "values_known k s'"
proof -
  have grows: "set (ls_published (ws_lock s)) \<subseteq> set (ls_published (ws_lock s'))"
    using lock_step_published [OF assms(2)] assms(3) by simp
  have "v \<in> set (ls_published (ws_lock s'))" if "ls_store (ws_lock s') k = Some (v, e)" for v e
    using lock_step_published [OF assms(2)] assms(1,3) that grows unfolding values_known_def by fastforce
  moreover have "set (ws_inbox s' h) \<subseteq> set (ls_published (ws_lock s'))" for h
    using assms(1,4) grows unfolding values_known_def by (metis subset_trans)
  moreover have "v \<in> set (ls_published (ws_lock s'))" if "ws_outcome s' p = Some (Value v)" for p v
    using assms(1,5) that grows unfolding values_known_def by blast
  ultimately show ?thesis unfolding values_known_def by blast
qed

lemma values_known_step: "wait_step home limit k ttl ms s s' \<Longrightarrow> values_known k s \<Longrightarrow> values_known k s'"
proof (induction rule: wait_step.induct)
  case (locking s l)
  then show ?case by (auto intro: values_known_lock)
next
  case (begins s l p)
  show ?case
    by (rule values_known_lock [OF begins.prems begins.hyps(1)]) (auto split: if_splits)
next
  case (published s v)
  then show ?case by (auto simp: values_known_def)
next
  case (heard s h v vs)
  then have "set (v # vs) \<subseteq> set (ls_published (ws_lock s))" unfolding values_known_def by metis
  with heard.prems show ?case
    by (auto simp: values_known_def tell_exact split: if_splits)
next
  case (reads s p)
  then show ?case
    by (fastforce simp: values_known_def cached_def lookup_def set_phase_def split: option.splits if_splits)
qed (simp_all add: values_known_def)

lemma values_known_reach: "wait_reach home limit k ttl ms s \<Longrightarrow> values_known k s"
proof (induction rule: wait_reach_induct)
  case start
  show ?case by (simp add: values_known_def wait_start_def lock_start_def)
qed (rule values_known_step)

lemma lock_step_now: "lock_step limit k ttl s s' \<Longrightarrow> ls_now s \<le> ls_now s'"
  by (elim stepE) (auto simp: set_phase_def)

lemma one_begins:
  "lock_step limit k ttl s l \<Longrightarrow> \<not> waits s p \<Longrightarrow> waits l p \<Longrightarrow> q \<noteq> p \<Longrightarrow> waits l q \<longleftrightarrow> waits s q"
  by (elim stepE) (auto simp: set_phase_def waits_def split: if_splits)

text \<open>A caller reads the cache after its deadline only.\<close>

definition reads_late :: "wait_state \<Rightarrow> bool" where
  "reads_late s \<longleftrightarrow> (\<forall>p. waits (ws_lock s) p \<longrightarrow> ws_reading s p \<longrightarrow> ws_deadline s p \<le> ls_now (ws_lock s))"

lemma tell_times [simp]:
  "ls_now (ws_lock (tell home v ls s)) = ls_now (ws_lock s)" "ws_reading (tell home v ls s) = ws_reading s"
  "ws_deadline (tell home v ls s) = ws_deadline s"
  by (induction ls arbitrary: s) (simp_all add: set_phase_def end_wait_def add_command_def)

lemma reads_late_step: "wait_step home limit k ttl ms s s' \<Longrightarrow> reads_late s \<Longrightarrow> reads_late s'"
proof (induction rule: wait_step.induct)
  case (locking s l)
  then show ?case using lock_step_now [OF locking.hyps(1)] by (fastforce simp: reads_late_def)
next
  case (begins s l p)
  then show ?case
    using lock_step_now [OF begins.hyps(1)] one_begins [OF begins.hyps]
    by (fastforce simp: reads_late_def begin_wait_def add_command_def)
next
  case (heard s h v vs)
  then show ?case by (auto simp: reads_late_def tell_exact)
next
  case (reads s p)
  then show ?case by (auto simp: reads_late_def end_wait_def add_command_def waits_def set_phase_def)
qed (auto simp: reads_late_def)

lemma reads_late_reach: "wait_reach home limit k ttl ms s \<Longrightarrow> reads_late s"
proof (induction rule: wait_reach_induct)
  case start
  show ?case by (simp add: reads_late_def wait_start_def)
qed (rule reads_late_step)

text \<open>
  C16. A caller that waits is told the truth: a value it is given is one a holder of the lock resolved, and it
  is refused only after its deadline, at a moment at which the cache has no value for the key.
\<close>

theorem waiting_callers_told_truth:
  assumes "wait_reach home limit k ttl ms s" and "wait_step home limit k ttl ms s s'"
    and "ws_outcome s' p = Some r" and "ws_outcome s p \<noteq> Some r"
  shows "case r of
      Value v \<Rightarrow> v \<in> set (ls_published (ws_lock s'))
    | Wait_Timeout \<Rightarrow> ws_deadline s p \<le> ls_now (ws_lock s) \<and>
        cached (ls_now (ws_lock s)) k (ls_store (ws_lock s)) = None"
proof (cases r)
  case (Value v)
  then show ?thesis
    using values_known_reach [OF wait_reach_step [OF assms(1,2)]] assms(3) by (simp add: values_known_def)
next
  case Wait_Timeout
  from assms(2-4) reads_late_reach [OF assms(1)] show ?thesis
    unfolding Wait_Timeout
    by cases (auto simp: tell_exact reads_late_def split: if_splits option.splits)
qed

text \<open>
  From any state a wait can be ended by its own steps alone: at the deadline the caller is given what the
  cache holds then.
\<close>

theorem waits_end_in_time:
  assumes "waits (ws_lock s) p" and "t = max (ls_now (ws_lock s)) (ws_deadline s p)"
  shows "\<exists>s'. (wait_step home None k ttl ms)\<^sup>*\<^sup>* s s' \<and> ls_now (ws_lock s') = t \<and>
    ws_outcome s' p = Some (case cached t k (ls_store (ws_lock s)) of Some v \<Rightarrow> Value v | None \<Rightarrow> Wait_Timeout) \<and>
    \<not> waits (ws_lock s') p \<and> (\<forall>q. q \<noteq> p \<longrightarrow> ls_phase (ws_lock s') q = ls_phase (ws_lock s) q)"
proof -
  let ?a = "s\<lparr>ws_lock := (ws_lock s)\<lparr>ls_now := t\<rparr>\<rparr>"
  let ?b = "?a\<lparr>ws_reading := (ws_reading s)(p := True)\<rparr>"
  let ?c = "end_wait home p (case cached (ls_now (ws_lock ?b)) k (ls_store (ws_lock ?b)) of
      Some v \<Rightarrow> Value v | None \<Rightarrow> Wait_Timeout) ?b"
  have a: "wait_step home None k ttl ms s ?a"
    by (rule locking, rule lock_step.tick) (use assms(2) in \<open>auto simp: waits_def\<close>)
  have b: "(wait_step home None k ttl ms)\<^sup>*\<^sup>* ?a ?b"
  proof (cases "ws_reading s p")
    case True
    then have "?a = ?b" by (simp add: fun_upd_idem)
    then show ?thesis by (metis rtranclp.rtrancl_refl)
  next
    case False
    have "wait_step home None k ttl ms ?a (?a\<lparr>ws_reading := (ws_reading ?a)(p := True)\<rparr>)"
      by (rule timer) (use assms False in \<open>auto simp: waits_def\<close>)
    then show ?thesis by (simp add: r_into_rtranclp)
  qed
  have c: "wait_step home None k ttl ms ?b ?c"
    by (rule reads) (use assms(1) in \<open>auto simp: waits_def\<close>)
  have "(wait_step home None k ttl ms)\<^sup>*\<^sup>* s ?c"
    using converse_rtranclp_into_rtranclp [OF a b] c by (rule rtranclp.rtrancl_into_rtrancl)
  then show ?thesis
    by (intro exI [of _ ?c]) (simp add: set_phase_def waits_def)
qed

section \<open>Waits end\<close>

text \<open>
  A run is what happens from some moment on: in each state a step is made, or none for a while. What the
  runtime promises of a run is that an enabled step of a wait is made within some time unless
  something else has made it impossible: a timer that is due goes off after at most \<open>lag\<close>, a read of the
  cache is answered after at most \<open>delay\<close>. The clock passes every moment, and at most \<open>grain\<close> at a time.
\<close>

definition clock :: "wait_state \<Rightarrow> int" where
  "clock s = ls_now (ws_lock s)"

definition timer_due :: "nat \<Rightarrow> wait_state \<Rightarrow> bool" where
  "timer_due p s \<longleftrightarrow> waits (ws_lock s) p \<and> ws_deadline s p \<le> clock s \<and> \<not> ws_reading s p"

definition timer_fired :: "nat \<Rightarrow> wait_state \<Rightarrow> wait_state" where
  "timer_fired p s = s\<lparr>ws_reading := (ws_reading s)(p := True)\<rparr>"

definition read_pending :: "nat \<Rightarrow> wait_state \<Rightarrow> bool" where
  "read_pending p s \<longleftrightarrow> waits (ws_lock s) p \<and> ws_reading s p"

definition read_answered :: "(nat \<Rightarrow> nat) \<Rightarrow> string \<Rightarrow> nat \<Rightarrow> wait_state \<Rightarrow> wait_state" where
  "read_answered home k p s = end_wait home p
     (case cached (clock s) k (ls_store (ws_lock s)) of Some v \<Rightarrow> Value v | None \<Rightarrow> Wait_Timeout) s"

text \<open>These are the two steps of a wait on its own.\<close>

lemma own_steps:
  "timer_due p s \<Longrightarrow> wait_step home limit k ttl ms s (timer_fired p s)"
  "read_pending p s \<Longrightarrow> wait_step home limit k ttl ms s (read_answered home k p s)"
  unfolding timer_due_def timer_fired_def read_pending_def read_answered_def clock_def
  by (auto intro: timer reads)

definition wait_run :: "(nat \<Rightarrow> nat) \<Rightarrow> int option \<Rightarrow> string \<Rightarrow> nat \<Rightarrow> int \<Rightarrow> (nat \<Rightarrow> wait_state) \<Rightarrow> bool" where
  "wait_run home limit k ttl ms r \<longleftrightarrow> wait_reach home limit k ttl ms (r 0) \<and>
     (\<forall>i. r (Suc i) = r i \<or> wait_step home limit k ttl ms (r i) (r (Suc i)))"

definition soon :: "int \<Rightarrow> (nat \<Rightarrow> wait_state) \<Rightarrow> (wait_state \<Rightarrow> bool) \<Rightarrow> (wait_state \<Rightarrow> wait_state) \<Rightarrow> bool" where
  "soon d r enabled made \<longleftrightarrow> (\<forall>i. enabled (r i) \<longrightarrow>
     (\<exists>m\<ge>i. clock (r m) \<le> clock (r i) + d \<and> (\<not> enabled (r m) \<or> r (Suc m) = made (r m))))"

definition punctual :: "(nat \<Rightarrow> nat) \<Rightarrow> string \<Rightarrow> int \<Rightarrow> int \<Rightarrow> int \<Rightarrow> (nat \<Rightarrow> wait_state) \<Rightarrow> bool" where
  "punctual home k grain lag delay r \<longleftrightarrow>
     (\<forall>t. \<exists>i. t \<le> clock (r i)) \<and> (\<forall>i. clock (r (Suc i)) \<le> clock (r i) + grain) \<and>
     (\<forall>p. soon lag r (timer_due p) (timer_fired p)) \<and> (\<forall>p. soon delay r (read_pending p) (read_answered home k p))"

lemma run_step: "wait_run home limit k ttl ms r \<Longrightarrow> r (Suc i) = r i \<or> wait_step home limit k ttl ms (r i) (r (Suc i))"
  unfolding wait_run_def by blast

lemma soonD:
  "soon d r enabled made \<Longrightarrow> enabled (r i) \<Longrightarrow>
     \<exists>m\<ge>i. clock (r m) \<le> clock (r i) + d \<and> (\<not> enabled (r m) \<or> r (Suc m) = made (r m))"
  unfolding soon_def by blast

lemma punctualD:
  assumes "punctual home k grain lag delay r"
  shows "\<exists>i. t \<le> clock (r i)" "clock (r (Suc i)) \<le> clock (r i) + grain"
    "soon lag r (timer_due p) (timer_fired p)" "soon delay r (read_pending p) (read_answered home k p)"
  using assms unfolding punctual_def by blast+

text \<open>What a wait keeps until it ends, and that it ends with an outcome.\<close>

definition same_wait :: "nat \<Rightarrow> wait_state \<Rightarrow> wait_state \<Rightarrow> bool" where
  "same_wait p s s' \<longleftrightarrow> waits (ws_lock s') p \<and> ws_deadline s' p = ws_deadline s p \<and> (ws_reading s p \<longrightarrow> ws_reading s' p)"

definition ended :: "nat \<Rightarrow> wait_state \<Rightarrow> bool" where
  "ended p s \<longleftrightarrow> \<not> waits (ws_lock s) p \<and> ws_outcome s p \<noteq> None"

lemma clock_step: "wait_step home limit k ttl ms s s' \<Longrightarrow> clock s \<le> clock s'"
  unfolding clock_def by (elim wait_step.cases) (auto simp: set_phase_def dest: lock_step_now)

lemma wait_step_wait:
  assumes "wait_step home limit k ttl ms s s'" and "waits (ws_lock s) p"
  shows "same_wait p s s' \<or> ended p s'"
  using assms
proof (induction rule: wait_step.induct)
  case (begins s l q)
  then show ?case using one_begins [OF begins.hyps, of p]
    by (auto simp: same_wait_def begin_wait_def add_command_def)
next
  case (heard s h v vs)
  then show ?case by (auto simp: same_wait_def ended_def tell_exact)
next
  case (reads s q)
  then show ?case by (auto simp: same_wait_def ended_def end_wait_def add_command_def waits_def set_phase_def)
qed (auto simp: same_wait_def)

lemma run_clock: "wait_run home limit k ttl ms r \<Longrightarrow> i \<le> j \<Longrightarrow> clock (r i) \<le> clock (r j)"
proof (induction j)
  case (Suc j)
  have "clock (r j) \<le> clock (r (Suc j))"
    using run_step [OF Suc.prems(1), of j] clock_step [of home limit k ttl ms "r j" "r (Suc j)"] by auto
  then show ?case using Suc by (cases "i = Suc j") auto
qed simp

lemma run_wait:
  assumes "wait_run home limit k ttl ms r" and "waits (ws_lock (r i)) p" and "i \<le> j"
  shows "same_wait p (r i) (r j) \<or> (\<exists>m. i \<le> m \<and> m \<le> j \<and> ended p (r m))"
  using assms(3)
proof (induction j rule: dec_induct)
  case base
  show ?case using assms(2) by (simp add: same_wait_def)
next
  case (step j)
  show ?case
  proof (cases "\<exists>m. i \<le> m \<and> m \<le> j \<and> ended p (r m)")
    case False
    then have s: "same_wait p (r i) (r j)" using step.IH by blast
    then have "waits (ws_lock (r j)) p" by (simp add: same_wait_def)
    then have "same_wait p (r j) (r (Suc j)) \<or> ended p (r (Suc j))"
      using run_step [OF assms(1), of j] wait_step_wait [of home limit k ttl ms "r j" "r (Suc j)"]
      by (cases "r (Suc j) = r j") (auto simp: same_wait_def)
    with s show ?thesis using step.hyps by (auto simp: same_wait_def intro!: exI [of _ "Suc j"])
  qed (use le_SucI in blast)
qed

text \<open>A clock that passes every moment, and not too much of it at a time, shows one just after \<open>t\<close>.\<close>

lemma clock_passes:
  assumes "wait_run home limit k ttl ms r" and "punctual home k grain lag delay r" and "0 \<le> grain"
  shows "\<exists>a\<ge>i. t \<le> clock (r a) \<and> clock (r a) \<le> max (clock (r i)) t + grain"
proof (cases "t \<le> clock (r i)")
  case True
  then show ?thesis using assms(3) by (intro exI [of _ i]) simp
next
  case False
  define a where "a = (LEAST a. t \<le> clock (r a))"
  obtain b where b: "t \<le> clock (r b)" using punctualD(1) [OF assms(2)] by blast
  then have a: "t \<le> clock (r a)" unfolding a_def by (rule LeastI)
  have i: "i < a" using False a run_clock [OF assms(1), of a i] by (cases "a \<le> i") auto
  then obtain c where c: "a = Suc c" by (cases a) auto
  then have "\<not> t \<le> clock (r c)" using not_less_Least [of c "\<lambda>a. t \<le> clock (r a)"] by (simp add: a_def [symmetric])
  moreover have "clock (r a) \<le> clock (r c) + grain" using punctualD(2) [OF assms(2)] unfolding c .
  ultimately show ?thesis using a i by (intro exI [of _ a]) simp
qed


section \<open>One connection for all callers of a process\<close>

text \<open>
  Two callers of one process wait for the same holder, the second two seconds after the first. When the
  first gives up it unsubscribes the connection of both: the state below can be reached, in which the
  second waits with its listener in place and the value has been stored and published, but nothing is on
  its way to the process. The caller learns of the value only at its own deadline.
\<close>

definition move :: "nat \<Rightarrow> phase \<Rightarrow> wait_state \<Rightarrow> wait_state" where
  "move p ph s = s\<lparr>ws_lock := set_phase p ph (ws_lock s)\<rparr>"

definition pass :: "int \<Rightarrow> wait_state \<Rightarrow> wait_state" where
  "pass t s = s\<lparr>ws_lock := (ws_lock s)\<lparr>ls_now := t\<rparr>\<rparr>"

definition serve :: "wait_state \<Rightarrow> wait_state" where
  "serve s = (case ws_commands s 0 of
     [] \<Rightarrow> s
   | Unsubscribe # cs \<Rightarrow> s\<lparr>ws_commands := (ws_commands s)(0 := cs), ws_channel := (ws_channel s)(0 := False)\<rparr>
   | Subscribe p n # cs \<Rightarrow> s\<lparr>ws_commands := (ws_commands s)(0 := cs), ws_channel := (ws_channel s)(0 := True),
          ws_replies := (ws_replies s)(0 := []), ws_listeners := (ws_listeners s)(0 := ws_listeners s 0 @ [(p, n)])\<rparr>)"

lemma reach_move:
  assumes "wait_reach home limit k ttl ms s" and "lock_step limit k ttl (ws_lock s) (set_phase p ph (ws_lock s))"
    and "\<not> waits (ws_lock s) p" and "ph \<noteq> Waiting"
  shows "wait_reach home limit k ttl ms (move p ph s)"
  unfolding move_def
  by (rule wait_reach_step [OF assms(1)], rule locking [OF assms(2)])
    (use assms(3,4) in \<open>auto simp: waits_def set_phase_def fun_eq_iff\<close>)

lemma reach_pass:
  assumes "wait_reach home None k ttl ms s" and "ls_now (ws_lock s) \<le> t"
  shows "wait_reach home None k ttl ms (pass t s)"
  unfolding pass_def
  by (rule wait_reach_step [OF assms(1)], rule locking, rule lock_step.tick) (use assms(2) in \<open>auto simp: waits_def\<close>)

lemma reach_serve:
  assumes "wait_reach home limit k ttl ms s" and "ws_replies s 0 = []"
  shows "wait_reach home limit k ttl ms (serve s)"
proof (cases "ws_commands s 0")
  case Nil
  with assms(1) show ?thesis by (simp add: serve_def)
next
  case (Cons c cs)
  show ?thesis
  proof (cases c)
    case (Subscribe p n)
    let ?a = "s\<lparr>ws_commands := (ws_commands s)(0 := cs), ws_channel := (ws_channel s)(0 := True),
          ws_replies := (ws_replies s)(0 := [(p, n)])\<rparr>"
    have "wait_reach home limit k ttl ms ?a"
      using wait_reach_step [OF assms(1) subscribed [of s 0 p n cs]] Cons Subscribe assms(2) by simp
    from wait_reach_step [OF this listening [of ?a 0 "(p, n)" "[]"]] show ?thesis
      by (simp add: serve_def Cons Subscribe)
  next
    case Unsubscribe
    with Cons show ?thesis
      using wait_reach_step [OF assms(1) unsubscribed [of s 0 cs]] by (simp add: serve_def)
  qed
qed

lemma reach_wait:
  assumes "wait_reach home limit k ttl ms s" and "cached (ls_now (ws_lock s)) k (ls_store (ws_lock s)) = None"
    and "ls_phase (ws_lock s) p = Outside" and "lookup (ls_now (ws_lock s)) (lock_key k) (ls_store (ws_lock s)) \<noteq> None"
  shows "wait_reach home limit k ttl ms (begin_wait home ms p (set_phase p Waiting (ws_lock s)) (move p Missed s))"
proof -
  have m: "wait_reach home limit k ttl ms (move p Missed s)"
    by (rule reach_move [OF assms(1)]) (use assms in \<open>auto simp: waits_def intro: lock_step.miss\<close>)
  have "lock_step limit k ttl (ws_lock (move p Missed s)) (set_phase p Waiting (ws_lock (move p Missed s)))"
    by (rule lock_step.wait [where st = "ls_store (ws_lock s)"])
      (use assms(4) in \<open>auto simp: move_def set_phase_def put_new_def\<close>)
  moreover have "set_phase p Waiting (ws_lock (move p Missed s)) = set_phase p Waiting (ws_lock s)"
    by (simp add: move_def set_phase_def)
  ultimately show ?thesis
    by (intro wait_reach_step [OF m] begins) (auto simp: waits_def set_phase_def move_def)
qed

lemma reach_gives_up:
  assumes "wait_reach home limit k ttl ms s" and "waits (ws_lock s) p" and "ws_deadline s p \<le> ls_now (ws_lock s)"
    and "\<not> ws_reading s p" and "cached (ls_now (ws_lock s)) k (ls_store (ws_lock s)) = None"
  shows "wait_reach home limit k ttl ms
    (end_wait home p Wait_Timeout (s\<lparr>ws_reading := (ws_reading s)(p := True)\<rparr>))"
  using wait_reach_step [OF wait_reach_step [OF assms(1) timer [OF assms(2-4)]] reads [of _ p]] assms(2,5) by simp

lemma reach_holder:
  "wait_reach home limit k ttl ms (wait_start\<lparr>ws_lock := set_phase 0 (Resolving 0) (lock_start\<lparr>ls_store :=
     [lock_key k \<mapsto> (''\"1\"'', Some 10000)]\<rparr>)\<rparr>)"
proof -
  have "wait_reach home limit k ttl ms wait_start" by (simp add: wait_reach_def)
  then have "wait_reach home limit k ttl ms (move 0 Missed wait_start)" (is "wait_reach _ _ _ _ _ ?a")
    by (rule reach_move) (auto simp: wait_start_def waits_def lock_start_def cached_def lookup_def intro: lock_step.miss)
  then have "wait_reach home limit k ttl ms (?a\<lparr>ws_lock := set_phase 0 (Holding 0) ((ws_lock ?a)\<lparr>ls_store :=
       [lock_key k \<mapsto> (''\"1\"'', Some 10000)]\<rparr>)\<rparr>)" (is "wait_reach _ _ _ _ _ ?b")
    by (rule wait_reach_step, intro locking)
      (use lock_step.acquire [of "ws_lock ?a" 0 k "[lock_key k \<mapsto> (''\"1\"'', Some 10000)]" limit ttl] in
        \<open>auto simp: wait_start_def move_def waits_def set_phase_def lock_start_def put_new_def lookup_def lock_ttl_def fun_eq_iff\<close>)
  then have "wait_reach home limit k ttl ms (move 0 (Resolving 0) ?b)"
    by (rule reach_move, intro lock_step.double_check_miss [where a = 0])
      (auto simp: waits_def move_def set_phase_def wait_start_def lock_start_def cached_def lookup_def)
  moreover have "move 0 (Resolving 0) ?b = wait_start\<lparr>ws_lock := set_phase 0 (Resolving 0) (lock_start\<lparr>ls_store :=
     [lock_key k \<mapsto> (''\"1\"'', Some 10000)]\<rparr>)\<rparr>"
    by (simp add: move_def set_phase_def wait_start_def)
  ultimately show ?thesis by simp
qed

definition both_wait :: "string \<Rightarrow> wait_state" where
  "both_wait k =
     (let s0 = wait_start\<lparr>ws_lock := set_phase 0 (Resolving 0) (lock_start\<lparr>ls_store :=
            [lock_key k \<mapsto> (''\"1\"'', Some 10000)]\<rparr>)\<rparr>;
          s1 = serve (begin_wait (\<lambda>_. 0) 3000 1 (set_phase 1 Waiting (ws_lock s0)) (move 1 Missed s0));
          s2 = pass 2000 s1 in
      serve (begin_wait (\<lambda>_. 0) 3000 2 (set_phase 2 Waiting (ws_lock s2)) (move 2 Missed s2)))"

definition deaf :: "string \<Rightarrow> wait_state" where
  "deaf k =
     (let s = pass 3000 (both_wait k) in
      serve (end_wait (\<lambda>_. 0) 1 Wait_Timeout (s\<lparr>ws_reading := (ws_reading s)(1 := True)\<rparr>)))"

lemmas scene_defs = serve_def begin_wait_def end_wait_def add_command_def move_def pass_def wait_start_def lock_start_def
  set_phase_def

lemma both_wait_reach: "wait_reach (\<lambda>_. 0) None k ttl 3000 (both_wait k)"
  unfolding both_wait_def Let_def
  by (intro reach_serve reach_wait reach_pass reach_holder) (simp_all add: scene_defs cached_def lookup_def)

lemma deaf_reach: "wait_reach (\<lambda>_. 0) None k ttl 3000 (deaf k)"
  unfolding deaf_def Let_def
  by (intro reach_serve reach_gives_up reach_pass both_wait_reach)
    (simp_all add: both_wait_def scene_defs cached_def lookup_def waits_def)

theorem one_giving_up_deafens_others:
  "\<exists>s. wait_reach (\<lambda>_. 0) None k ttl 3000 s \<and> waits (ws_lock s) 2 \<and> ws_deadline s 2 = 5000 \<and>
     ls_now (ws_lock s) = 3000 \<and> (2, ws_number s 2) \<in> set (ws_listeners s 0) \<and>
     ls_published (ws_lock s) = [v] \<and> ws_sent s = 1 \<and>
     ws_inbox s 0 = [] \<and> ws_commands s 0 = [] \<and> ws_replies s 0 = []"
proof -
  let ?d = "deaf k"
  let ?l = "set_phase 0 (Leaving 0) ((ws_lock ?d)\<lparr>ls_store := put_key 3000 k v ttl (ls_store (ws_lock ?d)),
      ls_published := ls_published (ws_lock ?d) @ [v]\<rparr>)"
  have facts: "ls_phase (ws_lock ?d) 0 = Resolving 0" "ls_phase (ws_lock ?d) 2 = Waiting" "ls_now (ws_lock ?d) = 3000"
      "ls_published (ws_lock ?d) = []" "ws_sent ?d = 0" "ws_channel ?d 0 = False" "ws_inbox ?d 0 = []"
      "ws_commands ?d 0 = []" "ws_replies ?d 0 = []" "ws_deadline ?d 2 = 5000" "ws_number ?d 2 = 1"
      "ws_listeners ?d 0 = [(1, 0), (2, 1)]"
    by (simp_all add: deaf_def both_wait_def scene_defs)
  have "lock_step None k ttl (ws_lock ?d) ?l"
    using lock_step.resolved [of "ws_lock ?d" 0 0 None k ttl v] facts by simp
  then have a: "wait_reach (\<lambda>_. 0) None k ttl 3000 (?d\<lparr>ws_lock := ?l\<rparr>)"
    by (intro wait_reach_step [OF deaf_reach] locking) (use facts in \<open>auto simp: waits_def set_phase_def fun_eq_iff\<close>)
  show ?thesis
    by (rule exI, rule conjI, rule wait_reach_step [OF a], rule published [OF _ refl])
      (use facts in \<open>simp_all add: set_phase_def waits_def\<close>)
qed

text \<open>Listeners are only ever added: a connection keeps one for every wait its process has had.\<close>

lemma listeners_stay: "wait_step home limit k ttl ms s s' \<Longrightarrow> \<exists>ls. ws_listeners s' h = ws_listeners s h @ ls"
  by (elim wait_step.cases) auto

section \<open>The theorems at concrete states\<close>

theorem waiting_refines_lock_witness: "lock_reach None ''k'' 60 (ws_lock (deaf ''k''))"
  by (rule waiting_refines_lock [OF deaf_reach])

theorem waiting_callers_told_truth_witness:
  "\<exists>s s'. wait_step (\<lambda>_. 0) None ''k'' 60 3000 s s' \<and> ws_outcome s' 1 = Some Wait_Timeout \<and>
     cached (ls_now (ws_lock s)) ''k'' (ls_store (ws_lock s)) = None"
proof -
  let ?s = "pass 3000 (both_wait ''k'')"
  let ?r = "?s\<lparr>ws_reading := (ws_reading ?s)(1 := True)\<rparr>"
  have facts: "waits (ws_lock ?s) 1" "ws_deadline ?s 1 = 3000" "ls_now (ws_lock ?s) = 3000" "\<not> ws_reading ?s 1"
      "ws_outcome ?s 1 = None" "cached 3000 ''k'' (ls_store (ws_lock ?s)) = None"
    by (simp_all add: both_wait_def scene_defs waits_def cached_def lookup_def)
  have s: "wait_reach (\<lambda>_. 0) None ''k'' 60 3000 ?s"
    by (rule reach_pass [OF both_wait_reach]) (simp add: both_wait_def scene_defs)
  have r: "wait_reach (\<lambda>_. 0) None ''k'' 60 3000 ?r"
    by (rule wait_reach_step [OF s timer]) (use facts in simp_all)
  have e: "wait_step (\<lambda>_. 0) None ''k'' 60 3000 ?r (end_wait (\<lambda>_. 0) 1 Wait_Timeout ?r)"
    using reads [of ?r 1 "\<lambda>_. 0" None "''k''" 60 3000] facts by simp
  show ?thesis
    using waiting_callers_told_truth [OF r e, of 1 Wait_Timeout] e facts
    by (intro exI [of _ ?r] exI [of _ "end_wait (\<lambda>_. 0) 1 Wait_Timeout ?r"]) simp
qed

theorem waits_end_in_time_witness:
  "\<exists>s'. (wait_step (\<lambda>_. 0) None ''k'' 60 3000)\<^sup>*\<^sup>* (deaf ''k'') s' \<and> ls_now (ws_lock s') = 5000 \<and>
     ws_outcome s' 2 = Some Wait_Timeout"
proof -
  have "waits (ws_lock (deaf ''k'')) 2" "5000 = max (ls_now (ws_lock (deaf ''k''))) (ws_deadline (deaf ''k'') 2)"
    "cached 5000 ''k'' (ls_store (ws_lock (deaf ''k''))) = None"
    by (simp_all add: deaf_def both_wait_def scene_defs waits_def cached_def lookup_def)
  then show ?thesis using waits_end_in_time [of "deaf ''k''" 2 5000 "\<lambda>_. 0" "''k''" 60 3000] by auto
qed

section \<open>At a concrete run\<close>

definition late_run :: "nat \<Rightarrow> wait_state" where
  "late_run i = (let s = pass 5000 (deaf ''k'') in
     if i = 0 then s else if i = 1 then timer_fired 2 s
     else pass (5000 + int (i - 2)) (read_answered (\<lambda>_. 0) ''k'' 2 (timer_fired 2 s)))"

lemma deaf_facts:
  "ls_phase (ws_lock (deaf k)) 2 = Waiting" "p \<noteq> 2 \<Longrightarrow> \<not> waits (ws_lock (deaf k)) p" "ws_reading (deaf k) 2 = False"
  "ws_deadline (deaf k) 2 = 5000" "ls_now (ws_lock (deaf k)) = 3000" "cached t ''k'' (ls_store (ws_lock (deaf ''k''))) = None"
  by (simp_all add: deaf_def both_wait_def scene_defs waits_def cached_def lookup_def)

lemma late_clock: "clock (late_run i) = 5000 + int (i - 2)"
  by (simp add: late_run_def Let_def pass_def clock_def timer_fired_def)

lemma late_waits: "waits (ws_lock (late_run i)) p \<longleftrightarrow> p = 2 \<and> i < 2"
  using deaf_facts(2) [of p "''k''"]
  by (auto simp: late_run_def Let_def pass_def timer_fired_def read_answered_def waits_def set_phase_def deaf_facts)

lemma late_reading: "i < 2 \<Longrightarrow> ws_reading (late_run i) 2 \<longleftrightarrow> i = 1"
  by (auto simp: late_run_def Let_def pass_def timer_fired_def deaf_facts less_2_cases_iff)

lemma late_deadline: "i < 2 \<Longrightarrow> ws_deadline (late_run i) 2 = 5000"
  by (auto simp: late_run_def Let_def pass_def timer_fired_def deaf_facts less_2_cases_iff)

lemma late_run_runs: "wait_run (\<lambda>_. 0) None ''k'' 60 3000 late_run"
  unfolding wait_run_def
proof (intro conjI allI)
  show "wait_reach (\<lambda>_. 0) None ''k'' 60 3000 (late_run 0)"
    by (simp add: late_run_def Let_def) (rule reach_pass [OF deaf_reach], simp add: deaf_facts)
  fix i
  have pass_step: "wait_step (\<lambda>_. 0) None ''k'' 60 3000 (pass t s) (pass (t + 1) s)" for t s
  proof -
    have "lock_step None ''k'' 60 (ws_lock (pass t s)) ((ws_lock (pass t s))\<lparr>ls_now := t + 1\<rparr>)"
      by (rule lock_step.tick) (simp_all add: pass_def)
    from locking [OF this, where home = "\<lambda>_. 0" and ms = 3000] show ?thesis by (simp add: pass_def waits_def fun_eq_iff)
  qed
  consider "i = 0" | "i = 1" | j where "i = Suc (Suc j)" by (metis One_nat_def not0_implies_Suc)
  then show "late_run (Suc i) = late_run i \<or> wait_step (\<lambda>_. 0) None ''k'' 60 3000 (late_run i) (late_run (Suc i))"
  proof cases
    case 1
    then have "timer_due 2 (late_run i)" by (simp add: timer_due_def late_waits late_clock late_deadline late_reading)
    from own_steps(1) [OF this] show ?thesis using 1 by (simp add: late_run_def Let_def)
  next
    case 2
    then have "read_pending 2 (late_run i)" by (simp add: read_pending_def late_waits late_reading)
    from own_steps(2) [OF this] have "wait_step (\<lambda>_. 0) None ''k'' 60 3000 (late_run i) (read_answered (\<lambda>_. 0) ''k'' 2 (late_run i))" .
    moreover have "late_run (Suc i) = read_answered (\<lambda>_. 0) ''k'' 2 (late_run i)"
      using 2 by (simp add: late_run_def Let_def pass_def read_answered_def timer_fired_def clock_def end_wait_def add_command_def set_phase_def)
    ultimately show ?thesis by simp
  next
    case 3
    then show ?thesis using pass_step [of "int j + 5000"] by (simp add: late_run_def Let_def add.commute)
  qed
qed

lemma late_run_punctual: "punctual (\<lambda>_. 0) ''k'' 1 0 0 late_run"
  unfolding punctual_def soon_def
proof (intro conjI allI impI)
  fix t
  show "\<exists>i. t \<le> clock (late_run i)" by (rule exI [of _ "nat t + 2"]) (simp add: late_clock)
next
  fix i show "clock (late_run (Suc i)) \<le> clock (late_run i) + 1" by (auto simp: late_clock)
next
  fix p i assume "timer_due p (late_run i)"
  then have "p = 2" "i = 0" by (auto simp: timer_due_def late_waits late_reading less_2_cases_iff)
  then show "\<exists>m\<ge>i. clock (late_run m) \<le> clock (late_run i) + 0 \<and> (\<not> timer_due p (late_run m) \<or> late_run (Suc m) = timer_fired p (late_run m))"
    by (intro exI [of _ 0]) (simp add: late_run_def Let_def)
next
  fix p i assume "read_pending p (late_run i)"
  then have "p = 2" "i = 1" by (auto simp: read_pending_def late_waits late_reading less_2_cases_iff)
  then show "\<exists>m\<ge>i. clock (late_run m) \<le> clock (late_run i) + 0 \<and>
      (\<not> read_pending p (late_run m) \<or> late_run (Suc m) = read_answered (\<lambda>_. 0) ''k'' p (late_run m))"
    by (intro exI [of _ 2]) (simp add: late_clock read_pending_def late_waits)
qed


end
