(* ===== verification/Schema.thy ===== *)
theory Schema imports Tables begin

text \<open>
  What the migrations use of PostgreSQL: tables with typed columns and constraints, enumeration
  types, indexes, and the statements that create and change them. A statement that PostgreSQL refuses
  gives \<open>None\<close>. Rows are not represented, only whether a table has any (\<open>tb_filled\<close>): a
  column that is \<open>NOT NULL\<close> without a default cannot be added to such a table, and for the statements
  that look at existing values (\<open>SET NOT NULL\<close>, a new constraint, another type) the parameter
  \<open>fits\<close> says whether those values allow it. The runner applies the pending migrations in the order
  of their timestamps in one transaction and remembers which ones it has applied; it reverts the
  last applied one. Both are TypeORM's documented behaviour.
\<close>

section \<open>Schemas\<close>

datatype sql_type =
  SqlUuid | SqlVarchar | SqlText | SqlInteger | SqlNumeric nat nat | SqlBoolean | SqlJsonb | SqlDate
| SqlTimestamp | SqlTimestamptz | SqlEnum string | SqlEnumArray string

datatype on_change = No_Action | Cascade

datatype table_rule =
  Primary_Key "string list"
| Unique_Columns "string list"
| Foreign_Key string string string on_change on_change

record sql_column =
  co_name :: string
  co_type :: sql_type
  co_notNull :: bool
  co_default :: "string option"

record sql_table =
  tb_name :: string
  tb_columns :: "sql_column list"
  tb_rules :: "(string \<times> table_rule) list"
  tb_filled :: bool

record sql_schema =
  sc_tables :: "sql_table list"
  sc_enums :: "(string \<times> string list) list"
  sc_indexes :: "(string \<times> string \<times> string list) list"

definition empty_schema :: sql_schema where
  "empty_schema = \<lparr>sc_tables = [], sc_enums = [], sc_indexes = []\<rparr>"

definition col :: "string \<Rightarrow> sql_type \<Rightarrow> sql_column" where
  "col n ty = \<lparr>co_name = n, co_type = ty, co_notNull = True, co_default = None\<rparr>"

definition optional :: "sql_column \<Rightarrow> sql_column" where
  "optional c = c\<lparr>co_notNull := False\<rparr>"

definition by_default :: "string \<Rightarrow> sql_column \<Rightarrow> sql_column" where
  "by_default d c = c\<lparr>co_default := Some d\<rparr>"

primrec rule_columns :: "table_rule \<Rightarrow> string list" where
  "rule_columns (Primary_Key cs) = cs"
| "rule_columns (Unique_Columns cs) = cs"
| "rule_columns (Foreign_Key c t k d u) = [c]"

primrec is_foreign :: "table_rule \<Rightarrow> bool" where
  "is_foreign (Primary_Key cs) = False"
| "is_foreign (Unique_Columns cs) = False"
| "is_foreign (Foreign_Key c t k d u) = True"

primrec refers_to :: "string \<Rightarrow> string \<Rightarrow> table_rule \<Rightarrow> bool" where
  "refers_to t c (Primary_Key cs) = False"
| "refers_to t c (Unique_Columns cs) = False"
| "refers_to t c (Foreign_Key c' t' k d u) = (t' = t \<and> k = c)"

primrec refers_table :: "string \<Rightarrow> table_rule \<Rightarrow> bool" where
  "refers_table t (Primary_Key cs) = False"
| "refers_table t (Unique_Columns cs) = False"
| "refers_table t (Foreign_Key c' t' k d u) = (t' = t)"

definition table_of :: "string \<Rightarrow> sql_schema \<Rightarrow> sql_table option" where
  "table_of n s = find (\<lambda>t. tb_name t = n) (sc_tables s)"

definition column_of :: "string \<Rightarrow> sql_table \<Rightarrow> sql_column option" where
  "column_of c t = find (\<lambda>x. co_name x = c) (tb_columns t)"

definition column_names :: "sql_table \<Rightarrow> string list" where
  "column_names t = map co_name (tb_columns t)"

definition put_table :: "sql_table \<Rightarrow> sql_schema \<Rightarrow> sql_schema" where
  "put_table t s = s\<lparr>sc_tables := map (\<lambda>x. if tb_name x = tb_name t then t else x) (sc_tables s)\<rparr>"

text \<open>Tables, indexes and the indexes behind keys share one name space.\<close>

definition relation_names :: "sql_schema \<Rightarrow> string list" where
  "relation_names s = map tb_name (sc_tables s) @ map fst (sc_indexes s) @
     concat (map (\<lambda>t. map fst (filter (\<lambda>r. \<not> is_foreign (snd r)) (tb_rules t))) (sc_tables s))"

primrec known_type :: "sql_schema \<Rightarrow> sql_type \<Rightarrow> bool" where
  "known_type s SqlUuid = True"
| "known_type s SqlVarchar = True"
| "known_type s SqlText = True"
| "known_type s SqlInteger = True"
| "known_type s (SqlNumeric p q) = True"
| "known_type s SqlBoolean = True"
| "known_type s SqlJsonb = True"
| "known_type s SqlDate = True"
| "known_type s SqlTimestamp = True"
| "known_type s SqlTimestamptz = True"
| "known_type s (SqlEnum e) = (e \<in> set (map fst (sc_enums s)))"
| "known_type s (SqlEnumArray e) = (e \<in> set (map fst (sc_enums s)))"

definition uses_enum :: "string \<Rightarrow> sql_column \<Rightarrow> bool" where
  "uses_enum e c = (case co_type c of SqlEnum x \<Rightarrow> x = e | SqlEnumArray x \<Rightarrow> x = e | _ \<Rightarrow> False)"

definition renamed_enum :: "string \<Rightarrow> string \<Rightarrow> sql_column \<Rightarrow> sql_column" where
  "renamed_enum e e' c = (case co_type c of
       SqlEnum x \<Rightarrow> if x = e then c\<lparr>co_type := SqlEnum e'\<rparr> else c
     | SqlEnumArray x \<Rightarrow> if x = e then c\<lparr>co_type := SqlEnumArray e'\<rparr> else c
     | _ \<Rightarrow> c)"

definition date_like :: "sql_type \<Rightarrow> bool" where
  "date_like ty \<longleftrightarrow> ty \<in> {SqlDate, SqlTimestamp, SqlTimestamptz}"

definition renamed_to :: "string \<Rightarrow> string \<Rightarrow> string \<Rightarrow> string" where
  "renamed_to a b x = (if x = a then b else x)"

primrec renamed_rule :: "string \<Rightarrow> string \<Rightarrow> table_rule \<Rightarrow> table_rule" where
  "renamed_rule a b (Primary_Key cs) = Primary_Key (map (renamed_to a b) cs)"
| "renamed_rule a b (Unique_Columns cs) = Unique_Columns (map (renamed_to a b) cs)"
| "renamed_rule a b (Foreign_Key c t k d u) = Foreign_Key (renamed_to a b c) t k d u"

primrec renamed_target :: "string \<Rightarrow> string \<Rightarrow> string \<Rightarrow> table_rule \<Rightarrow> table_rule" where
  "renamed_target n a b (Primary_Key cs) = Primary_Key cs"
| "renamed_target n a b (Unique_Columns cs) = Unique_Columns cs"
| "renamed_target n a b (Foreign_Key c t k d u) = Foreign_Key c t (if t = n then renamed_to a b k else k) d u"

section \<open>Statements\<close>

datatype statement =
  CreateTable string "sql_column list" "(string \<times> table_rule) list"
| DropTable string
| AddColumn string sql_column
| DropColumn string string
| RenameColumn string string string
| SetNotNull string string
| DropNotNull string string
| SetDefault string string string
| DropDefault string string
| ChangeType string string sql_type
| ChangeTypeUsing string string sql_type
| AddConstraint string string table_rule
| DropConstraint string string
| CreateType string "string list"
| DropType string
| RenameType string string
| CreateIndex string string "string list"
| DropIndex string
| UpdateRows "(string \<times> string) list"

definition key_rule :: "string list \<Rightarrow> (string \<times> table_rule) \<Rightarrow> bool" where
  "key_rule ks r \<longleftrightarrow> snd r = Primary_Key ks \<or> snd r = Unique_Columns ks"

definition good_rule :: "sql_schema \<Rightarrow> sql_table \<Rightarrow> table_rule \<Rightarrow> bool" where
  "good_rule s t r =
     (if \<not> list_all (\<lambda>c. c \<in> set (column_names t)) (rule_columns r) then False
      else case r of Primary_Key cs \<Rightarrow> True | Unique_Columns cs \<Rightarrow> True
      | Foreign_Key c t' k d u \<Rightarrow>
        (case table_of t' s of None \<Rightarrow> False
         | Some target \<Rightarrow> if list_ex (key_rule [k]) (tb_rules target)
             then map_option co_type (column_of c t) = map_option co_type (column_of k target) else False))"

definition free_name :: "sql_schema \<Rightarrow> sql_table \<Rightarrow> string \<times> table_rule \<Rightarrow> bool" where
  "free_name s t r =
     (if fst r \<in> set (map fst (tb_rules t)) then False
      else if is_foreign (snd r) then True else fst r \<notin> set (relation_names s))"

definition enum_names :: "sql_schema \<Rightarrow> string list" where
  "enum_names s = map fst (sc_enums s)"

definition depended_on :: "(table_rule \<Rightarrow> bool) \<Rightarrow> string \<Rightarrow> sql_schema \<Rightarrow> bool" where
  "depended_on P n s = list_ex (\<lambda>x. if tb_name x = n then False else list_ex (\<lambda>r. P (snd r)) (tb_rules x)) (sc_tables s)"

definition put_column :: "string \<Rightarrow> string \<Rightarrow> sql_column \<Rightarrow> sql_schema \<Rightarrow> sql_schema" where
  "put_column n c x' s = s\<lparr>sc_tables := map (\<lambda>t. if tb_name t = n
     then t\<lparr>tb_columns := map (\<lambda>y. if co_name y = c then x' else y) (tb_columns t)\<rparr> else t) (sc_tables s)\<rparr>"

definition find_column :: "string \<Rightarrow> string \<Rightarrow> sql_schema \<Rightarrow> (sql_table \<times> sql_column) option" where
  "find_column n c s = (case table_of n s of None \<Rightarrow> None
     | Some t \<Rightarrow> (case column_of c t of None \<Rightarrow> None | Some x \<Rightarrow> Some (t, x)))"

definition dropped_column :: "string \<Rightarrow> sql_table \<Rightarrow> sql_table" where
  "dropped_column c t = t\<lparr>tb_columns := filter (\<lambda>x. co_name x \<noteq> c) (tb_columns t),
     tb_rules := filter (\<lambda>r. c \<notin> set (rule_columns (snd r))) (tb_rules t)\<rparr>"

definition renamed_column :: "string \<Rightarrow> string \<Rightarrow> string \<Rightarrow> sql_table \<Rightarrow> sql_table" where
  "renamed_column n a b t =
     (let t' = t\<lparr>tb_rules := map (\<lambda>r. (fst r, renamed_target n a b (snd r))) (tb_rules t)\<rparr> in
      if tb_name t \<noteq> n then t'
      else t'\<lparr>tb_columns := map (\<lambda>x. x\<lparr>co_name := renamed_to a b (co_name x)\<rparr>) (tb_columns t'),
              tb_rules := map (\<lambda>r. (fst r, renamed_rule a b (snd r))) (tb_rules t')\<rparr>)"

text \<open>A key that a foreign key of some table refers to.\<close>

definition key_in_use :: "string \<Rightarrow> table_rule \<Rightarrow> sql_schema \<Rightarrow> bool" where
  "key_in_use n r s = (if is_foreign r then False
     else list_ex (\<lambda>k. list_ex (\<lambda>x. list_ex (\<lambda>q. refers_to n k (snd q)) (tb_rules x)) (sc_tables s)) (rule_columns r))"

primrec exec_statement :: "(statement \<Rightarrow> bool) \<Rightarrow> statement \<Rightarrow> sql_schema \<Rightarrow> sql_schema option" where
  "exec_statement fits (CreateTable n cs rs) s =
     (let t = \<lparr>tb_name = n, tb_columns = cs, tb_rules = [], tb_filled = False\<rparr> in
      if n \<in> set (relation_names s) then None else if n \<in> set (enum_names s) then None
      else if \<not> distinct (map co_name cs) \<or> \<not> distinct (map fst rs) then None
      else if \<not> list_all (\<lambda>c. known_type s (co_type c)) cs then None
      else if \<not> list_all (\<lambda>r. good_rule s t (snd r) \<and> free_name s t r) rs then None
      else Some (s\<lparr>sc_tables := sc_tables s @ [t\<lparr>tb_rules := rs\<rparr>]\<rparr>))"
| "exec_statement fits (DropTable n) s =
     (case table_of n s of None \<Rightarrow> None
      | Some t \<Rightarrow> if depended_on (refers_table n) n s then None
          else Some (s\<lparr>sc_tables := filter (\<lambda>x. tb_name x \<noteq> n) (sc_tables s),
                       sc_indexes := filter (\<lambda>i. fst (snd i) \<noteq> n) (sc_indexes s)\<rparr>))"
| "exec_statement fits (AddColumn n c) s =
     (case table_of n s of None \<Rightarrow> None
      | Some t \<Rightarrow> if co_name c \<in> set (column_names t) then None
          else if \<not> known_type s (co_type c) then None
          else if tb_filled t \<and> co_notNull c \<and> co_default c = None then None
          else Some (put_table (t\<lparr>tb_columns := tb_columns t @ [c]\<rparr>) s))"
| "exec_statement fits (DropColumn n c) s =
     (case find_column n c s of None \<Rightarrow> None
      | Some (t, x) \<Rightarrow> if depended_on (refers_to n c) n s then None
          else Some ((put_table (dropped_column c t) s)
            \<lparr>sc_indexes := filter (\<lambda>i. \<not> (fst (snd i) = n \<and> c \<in> set (snd (snd i)))) (sc_indexes s)\<rparr>))"
| "exec_statement fits (RenameColumn n a b) s =
     (case find_column n a s of None \<Rightarrow> None
      | Some (t, x) \<Rightarrow> if b \<in> set (column_names t) then None
          else Some (s\<lparr>sc_tables := map (renamed_column n a b) (sc_tables s),
            sc_indexes := map (\<lambda>(i, t', cs). (i, t', if t' = n then map (renamed_to a b) cs else cs)) (sc_indexes s)\<rparr>))"
| "exec_statement fits (SetNotNull n c) s =
     (case find_column n c s of None \<Rightarrow> None
      | Some (t, x) \<Rightarrow> if (if tb_filled t then fits (SetNotNull n c) else True)
          then Some (put_column n c (x\<lparr>co_notNull := True\<rparr>) s) else None)"
| "exec_statement fits (DropNotNull n c) s =
     (case find_column n c s of None \<Rightarrow> None
      | Some (t, x) \<Rightarrow> Some (put_column n c (x\<lparr>co_notNull := False\<rparr>) s))"
| "exec_statement fits (SetDefault n c d) s =
     (case find_column n c s of None \<Rightarrow> None
      | Some (t, x) \<Rightarrow> Some (put_column n c (x\<lparr>co_default := Some d\<rparr>) s))"
| "exec_statement fits (DropDefault n c) s =
     (case find_column n c s of None \<Rightarrow> None
      | Some (t, x) \<Rightarrow> Some (put_column n c (x\<lparr>co_default := None\<rparr>) s))"
| "exec_statement fits (ChangeType n c ty) s =
     (case find_column n c s of None \<Rightarrow> None
      | Some (t, x) \<Rightarrow> if (if date_like (co_type x) then date_like ty else ty = co_type x)
          then Some (put_column n c (x\<lparr>co_type := ty\<rparr>) s) else None)"
| "exec_statement fits (ChangeTypeUsing n c ty) s =
     (case find_column n c s of None \<Rightarrow> None
      | Some (t, x) \<Rightarrow> if \<not> known_type s ty then None else if co_default x \<noteq> None then None
          else if (if tb_filled t then fits (ChangeTypeUsing n c ty) else True)
          then Some (put_column n c (x\<lparr>co_type := ty\<rparr>) s) else None)"
| "exec_statement fits (AddConstraint n name r) s =
     (case table_of n s of None \<Rightarrow> None
      | Some t \<Rightarrow> if \<not> good_rule s t r then None else if \<not> free_name s t (name, r) then None
          else if (if tb_filled t then fits (AddConstraint n name r) else True)
          then Some (put_table (t\<lparr>tb_rules := tb_rules t @ [(name, r)]\<rparr>) s) else None)"
| "exec_statement fits (DropConstraint n name) s =
     (case table_of n s of None \<Rightarrow> None
      | Some t \<Rightarrow> (case map_of (tb_rules t) name of None \<Rightarrow> None
         | Some r \<Rightarrow> if key_in_use n r s then None
             else Some (put_table (t\<lparr>tb_rules := filter (\<lambda>q. fst q \<noteq> name) (tb_rules t)\<rparr>) s)))"
| "exec_statement fits (CreateType e vs) s =
     (if e \<in> set (enum_names s) then None else if e \<in> set (map tb_name (sc_tables s)) then None
      else Some (s\<lparr>sc_enums := sc_enums s @ [(e, vs)]\<rparr>))"
| "exec_statement fits (DropType e) s =
     (if e \<notin> set (enum_names s) then None
      else if list_ex (\<lambda>t. list_ex (uses_enum e) (tb_columns t)) (sc_tables s) then None
      else Some (s\<lparr>sc_enums := filter (\<lambda>x. fst x \<noteq> e) (sc_enums s)\<rparr>))"
| "exec_statement fits (RenameType e e') s =
     (if e \<notin> set (enum_names s) then None else if e' \<in> set (enum_names s) then None
      else if e' \<in> set (map tb_name (sc_tables s)) then None
      else Some (s\<lparr>sc_enums := map (\<lambda>x. (renamed_to e e' (fst x), snd x)) (sc_enums s),
          sc_tables := map (\<lambda>t. t\<lparr>tb_columns := map (renamed_enum e e') (tb_columns t)\<rparr>) (sc_tables s)\<rparr>))"
| "exec_statement fits (CreateIndex i n cs) s =
     (case table_of n s of None \<Rightarrow> None
      | Some t \<Rightarrow> if i \<in> set (relation_names s) then None
          else if \<not> list_all (\<lambda>c. c \<in> set (column_names t)) cs then None
          else Some (s\<lparr>sc_indexes := sc_indexes s @ [(i, n, cs)]\<rparr>))"
| "exec_statement fits (DropIndex i) s =
     (if i \<notin> set (map fst (sc_indexes s)) then None
      else Some (s\<lparr>sc_indexes := filter (\<lambda>x. fst x \<noteq> i) (sc_indexes s)\<rparr>))"
| "exec_statement fits (UpdateRows cs) s =
     (if list_all (\<lambda>(n, c). find_column n c s \<noteq> None) cs then Some s else None)"

primrec exec_all :: "(statement \<Rightarrow> bool) \<Rightarrow> statement list \<Rightarrow> sql_schema \<Rightarrow> sql_schema option" where
  "exec_all fits [] s = Some s"
| "exec_all fits (x # xs) s = (case exec_statement fits x s of None \<Rightarrow> None | Some s' \<Rightarrow> exec_all fits xs s')"

section \<open>The runner\<close>

record migration =
  mi_name :: string
  mi_up :: "statement list"
  mi_down :: "statement list"

record database =
  db_applied :: "string list"
  db_schema :: sql_schema

definition pending :: "migration list \<Rightarrow> database \<Rightarrow> migration list" where
  "pending ms db = filter (\<lambda>m. mi_name m \<notin> set (db_applied db)) ms"

definition migration_run :: "(statement \<Rightarrow> bool) \<Rightarrow> migration list \<Rightarrow> database \<Rightarrow> database option" where
  "migration_run fits ms db = map_option (\<lambda>s.
     \<lparr>db_applied = db_applied db @ map mi_name (pending ms db), db_schema = s\<rparr>)
     (exec_all fits (concat (map mi_up (pending ms db))) (db_schema db))"

definition migration_revert :: "(statement \<Rightarrow> bool) \<Rightarrow> migration list \<Rightarrow> database \<Rightarrow> database option" where
  "migration_revert fits ms db =
     (if db_applied db = [] then Some db
      else Option.bind (find (\<lambda>m. mi_name m = last (db_applied db)) ms) (\<lambda>m.
          map_option (\<lambda>s. \<lparr>db_applied = butlast (db_applied db), db_schema = s\<rparr>)
            (exec_all fits (mi_down m) (db_schema db))))"

primrec reverts :: "(statement \<Rightarrow> bool) \<Rightarrow> migration list \<Rightarrow> nat \<Rightarrow> database \<Rightarrow> database option" where
  "reverts fits ms 0 db = Some db"
| "reverts fits ms (Suc k) db = Option.bind (migration_revert fits ms db) (reverts fits ms k)"

section \<open>Laws of execution\<close>

definition then_holds :: "'a option \<Rightarrow> ('a \<Rightarrow> bool) \<Rightarrow> bool" where
  "then_holds r P = (case r of None \<Rightarrow> False | Some x \<Rightarrow> P x)"

lemma then_holdsD: "then_holds r P \<Longrightarrow> \<exists>x. r = Some x \<and> P x"
  by (simp add: then_holds_def split: option.splits)

lemma exec_all_append:
  "exec_all fits (xs @ ys) s = Option.bind (exec_all fits xs s) (exec_all fits ys)"
  by (induction xs arbitrary: s) (auto split: option.splits)

lemma then_holds_append:
  "then_holds (exec_all fits (xs @ ys) s) P =
     then_holds (exec_all fits xs s) (\<lambda>s'. then_holds (exec_all fits ys s') P)"
  by (simp add: exec_all_append then_holds_def split: option.splits)

text \<open>Reverting \<open>length ys\<close> times executes the \<open>down\<close> lists of the last migrations, the last one first.\<close>

lemma revert_last:
  assumes "distinct (map mi_name (xs @ [m]))" and "db_applied db = map mi_name (xs @ [m])"
    and "set (xs @ [m]) \<subseteq> set ms" and "distinct (map mi_name ms)"
  shows "migration_revert fits ms db =
    map_option (\<lambda>s. \<lparr>db_applied = map mi_name xs, db_schema = s\<rparr>) (exec_all fits (mi_down m) (db_schema db))"
proof -
  have "find (\<lambda>x. mi_name x = mi_name m) ms = Some m"
  proof -
    have "m \<in> set ms" using assms(3) by simp
    then show ?thesis using assms(4) by (induction ms) (auto simp: image_iff)
  qed
  then show ?thesis using assms(2) by (simp add: migration_revert_def)
qed

lemma reverts_exec:
  assumes "distinct (map mi_name ms)" and "ms = xs @ ys" and "db_applied db = map mi_name ms"
  shows "reverts fits ms (length ys) db =
    map_option (\<lambda>s. \<lparr>db_applied = map mi_name xs, db_schema = s\<rparr>)
      (exec_all fits (concat (map mi_down (rev ys))) (db_schema db))"
proof -
  have "set (xs @ ys) \<subseteq> set ms \<Longrightarrow> distinct (map mi_name (xs @ ys)) \<Longrightarrow> db_applied db = map mi_name (xs @ ys) \<Longrightarrow> ?thesis"
  proof (induction ys arbitrary: db rule: rev_induct)
    case Nil
    then show ?case by (cases db) simp
  next
    case (snoc m ys)
    have "migration_revert fits ms db =
        map_option (\<lambda>s. \<lparr>db_applied = map mi_name (xs @ ys), db_schema = s\<rparr>) (exec_all fits (mi_down m) (db_schema db))"
      using snoc.prems assms(1) by (intro revert_last) auto
    then show ?case using snoc by (cases "exec_all fits (mi_down m) (db_schema db)") (auto simp: exec_all_append)
  qed
  then show ?thesis using assms by simp
qed

lemma reverts_add: "reverts fits ms (a + b) db = Option.bind (reverts fits ms a db) (reverts fits ms b)"
  by (induction a arbitrary: db) (auto split: bind_splits)

section \<open>Tables with rows\<close>

definition has_rows :: "string \<Rightarrow> sql_schema \<Rightarrow> bool" where
  "has_rows n s = (case table_of n s of None \<Rightarrow> False | Some t \<Rightarrow> tb_filled t)"

definition strict_addition :: "string \<Rightarrow> statement \<Rightarrow> bool" where
  "strict_addition n st = (case st of
     AddColumn m c \<Rightarrow> m = n \<and> co_notNull c \<and> co_default c = None | _ \<Rightarrow> False)"

definition drops_table :: "statement \<Rightarrow> bool" where
  "drops_table st = (case st of DropTable n \<Rightarrow> True | _ \<Rightarrow> False)"

lemma table_of_name: "table_of n s = Some t \<Longrightarrow> tb_name t = n"
  unfolding table_of_def by (induction "sc_tables s") (auto simp: find_Some_iff)

lemma rows_map:
  assumes "\<And>t. tb_name (f t) = tb_name t" and "\<And>t. t \<in> set ts \<Longrightarrow> tb_name t = n \<Longrightarrow> tb_filled t \<Longrightarrow> tb_filled (f t)"
  shows "(case find (\<lambda>t. tb_name t = n) ts of None \<Rightarrow> False | Some t \<Rightarrow> tb_filled t) \<Longrightarrow>
    (case find (\<lambda>t. tb_name t = n) (map f ts) of None \<Rightarrow> False | Some t \<Rightarrow> tb_filled t)"
  using assms(2) by (induction ts) (auto simp: assms(1))

lemma rows_put_table:
  assumes "has_rows n s" and "table_of m s = Some t" and "tb_name t' = m" and "tb_filled t' = tb_filled t"
  shows "has_rows n (put_table t' s)"
proof (cases "n = m")
  case True
  then have "tb_filled t'" using assms by (simp add: has_rows_def)
  then show ?thesis
    using assms(1) True unfolding has_rows_def table_of_def put_table_def
    by (simp, intro rows_map) (auto simp: assms(3))
next
  case False
  then show ?thesis
    using assms(1) unfolding has_rows_def table_of_def put_table_def
    by (simp, intro rows_map) (auto simp: assms(3))
qed

lemma rows_mapped:
  assumes "has_rows n s" and "sc_tables s' = map f (sc_tables s)"
    and "\<And>t. tb_name (f t) = tb_name t" and "\<And>t. tb_filled (f t) = tb_filled t"
  shows "has_rows n s'"
  using assms(1) unfolding has_rows_def table_of_def assms(2) by (intro rows_map) (simp_all add: assms(3,4))

lemma rows_indexes [simp]: "has_rows n (s\<lparr>sc_indexes := is\<rparr>) = has_rows n s"
  "has_rows n (s\<lparr>sc_enums := es\<rparr>) = has_rows n s"
  by (simp_all add: has_rows_def table_of_def)

lemma renamed_column_parts:
  "tb_name (renamed_column n a b t) = tb_name t" "tb_filled (renamed_column n a b t) = tb_filled t"
  by (simp_all add: renamed_column_def Let_def)

lemma rows_put_column: "has_rows n s \<Longrightarrow> has_rows n (put_column m c x s)"
  by (erule rows_mapped [where f = "\<lambda>t. if tb_name t = m
        then t\<lparr>tb_columns := map (\<lambda>y. if co_name y = c then x else y) (tb_columns t)\<rparr> else t"])
    (simp_all add: put_column_def)

lemma rows_appended: "has_rows n s \<Longrightarrow> has_rows n (s\<lparr>sc_tables := sc_tables s @ ts\<rparr>)"
  unfolding has_rows_def table_of_def by (auto simp: find_app split: option.splits)

lemma exec_keeps_rows:
  assumes "exec_statement fits st s = Some s'" and "has_rows n s" and "\<not> drops_table st"
  shows "has_rows n s'"
proof (cases st)
  case (RenameColumn m a b)
  then have "sc_tables s' = map (renamed_column m a b) (sc_tables s)"
    using assms(1) by (auto split: option.splits if_splits)
  then show ?thesis by (rule rows_mapped [OF assms(2)]) (simp_all add: renamed_column_parts)
next
  case (RenameType a b)
  then have "sc_tables s' = map (\<lambda>t. t\<lparr>tb_columns := map (renamed_enum a b) (tb_columns t)\<rparr>) (sc_tables s)"
    using assms(1) by (auto split: if_splits)
  then show ?thesis by (rule rows_mapped [OF assms(2)]) simp_all
next
  case (DropColumn m c)
  then obtain t where t: "table_of m s = Some t"
      and s': "s' = (put_table (dropped_column c t) s)\<lparr>sc_indexes := filter (\<lambda>i. \<not> (fst (snd i) = m \<and> c \<in> set (snd (snd i)))) (sc_indexes s)\<rparr>"
    using assms(1) by (auto simp: find_column_def split: option.splits if_splits)
  show ?thesis
    unfolding s' using rows_put_table [OF assms(2) t, of "dropped_column c t"] t
    by (simp add: dropped_column_def table_of_name)
next
  case (AddColumn m c)
  then obtain t where t: "table_of m s = Some t" and s': "s' = put_table (t\<lparr>tb_columns := tb_columns t @ [c]\<rparr>) s"
    using assms(1) by (auto split: option.splits if_splits)
  show ?thesis unfolding s' by (rule rows_put_table [OF assms(2) t]) (use t in \<open>simp_all add: table_of_name\<close>)
next
  case (AddConstraint m c r)
  then obtain t where t: "table_of m s = Some t" and s': "s' = put_table (t\<lparr>tb_rules := tb_rules t @ [(c, r)]\<rparr>) s"
    using assms(1) by (auto split: option.splits if_splits)
  show ?thesis unfolding s' by (rule rows_put_table [OF assms(2) t]) (use t in \<open>simp_all add: table_of_name\<close>)
next
  case (DropConstraint m c)
  then obtain t where t: "table_of m s = Some t" and s': "s' = put_table (t\<lparr>tb_rules := filter (\<lambda>q. fst q \<noteq> c) (tb_rules t)\<rparr>) s"
    using assms(1) by (auto split: option.splits if_splits)
  show ?thesis unfolding s' by (rule rows_put_table [OF assms(2) t]) (use t in \<open>simp_all add: table_of_name\<close>)
next
  case (CreateTable m cs rs)
  then obtain ts where "s' = s\<lparr>sc_tables := sc_tables s @ ts\<rparr>"
    using assms(1) by (auto simp: Let_def split: if_splits)
  then show ?thesis using rows_appended [OF assms(2)] by simp
next
  case (DropTable m)
  then show ?thesis using assms(3) by (simp add: drops_table_def)
qed (use assms(1,2) in \<open>auto intro!: rows_put_column split: option.splits if_splits\<close>)

lemma strict_refused: "has_rows n s \<Longrightarrow> strict_addition n st \<Longrightarrow> exec_statement fits st s = None"
  by (cases st) (auto simp: strict_addition_def has_rows_def split: option.splits)

lemma rows_refuse:
  "has_rows n s \<Longrightarrow> list_ex (strict_addition n) xs \<Longrightarrow> \<not> list_ex drops_table xs \<Longrightarrow> exec_all fits xs s = None"
proof (induction xs arbitrary: s)
  case (Cons st xs)
  then show ?case
    using strict_refused [of n s st fits] exec_keeps_rows [of fits st s _ n] by (auto split: option.splits)
qed simp

end
