(* ===== verification/Migrations.thy ===== *)
theory Migrations imports Schema begin

text \<open>
  The migrations of the database, one list of statements per method \<open>up\<close> and \<open>down\<close>, in the order
  of their timestamps (\<open>libs/database/src/migrations\<close>), and the tables that the entities declare.
\<close>

(* libs/database/src/migrations/1777210052158-init.ts 6-9 Init.up *)
definition init_tables_up :: "statement list" where
  "init_tables_up =
    [CreateTable ''users''
     [by_default ''uuid_generate_v4()'' (col ''id'' SqlUuid),
      col ''displayName'' SqlVarchar,
      optional (col ''email'' SqlVarchar),
      optional (col ''discordId'' SqlVarchar),
      col ''password'' SqlVarchar,
      optional (col ''refreshToken'' SqlVarchar),
      by_default ''now()'' (col ''createdAt'' SqlTimestamp)]
     [(''UQ_97672ac88f789774dd47f7c8be3'', Unique_Columns [''email'']), (''UQ_ae4a93a6b25195ccc2a97e13f0d'', Unique_Columns [''discordId'']), (''PK_a3ffb1c0c8416b9fc6f907b7433'', Primary_Key [''id''])],
     CreateTable ''streamers''
     [by_default ''uuid_generate_v4()'' (col ''id'' SqlUuid),
      col ''twitchLogin'' SqlVarchar,
      col ''displayName'' SqlVarchar,
      by_default ''now()'' (col ''createdAt'' SqlTimestamp)]
     [(''UQ_27e7dfa2d94ef73137dc3f43352'', Unique_Columns [''twitchLogin'']), (''PK_48125098658de7c988403e66e6b'', Primary_Key [''id''])]]"

(* libs/database/src/migrations/1777210052158-init.ts 11-14 Init.down *)
definition init_tables_down :: "statement list" where
  "init_tables_down =
    [DropTable ''streamers'',
     DropTable ''users'']"

(* libs/database/src/migrations/1777225679873-add-discord-auth.ts 6-9 AddDiscordAuth.up *)
definition add_discord_auth_up :: "statement list" where
  "add_discord_auth_up =
    [AddColumn ''users'' (optional (col ''discordAccessToken'' SqlVarchar)),
     DropNotNull ''users'' ''password'']"

(* libs/database/src/migrations/1777225679873-add-discord-auth.ts 11-14 AddDiscordAuth.down *)
definition add_discord_auth_down :: "statement list" where
  "add_discord_auth_down =
    [SetNotNull ''users'' ''password'',
     DropColumn ''users'' ''discordAccessToken'']"

(* libs/database/src/migrations/1777680536775-add-base-twitch-structure.ts 6-19 AddBaseTwitchStructure.up *)
definition add_base_twitch_structure_up :: "statement list" where
  "add_base_twitch_structure_up =
    [CreateTable ''twitch_streamer_events''
     [by_default ''uuid_generate_v4()'' (col ''id'' SqlUuid),
      col ''event'' SqlInteger,
      optional (col ''payload'' SqlText),
      by_default ''now()'' (col ''createdAt'' SqlTimestamp),
      optional (col ''streamerId'' SqlUuid),
      optional (col ''twitchAppId'' SqlUuid)]
     [(''PK_99ad8cf2f5e104ac587d0385c1d'', Primary_Key [''id''])],
     CreateTable ''twitch_apps''
     [by_default ''uuid_generate_v4()'' (col ''id'' SqlUuid),
      col ''name'' SqlVarchar,
      col ''clientId'' SqlVarchar,
      col ''client_secret'' SqlVarchar,
      optional (col ''access_token'' SqlVarchar),
      optional (col ''tokenExpiresAt'' SqlTimestamp),
      by_default ''0'' (col ''currentCost'' SqlInteger),
      by_default ''9000'' (col ''maxCost'' SqlInteger),
      by_default ''now()'' (col ''createdAt'' SqlTimestamp)]
     [(''UQ_25ea1660099082d7896311453fb'', Unique_Columns [''clientId'']), (''PK_486ab8efbf04eb793fb7d188f30'', Primary_Key [''id''])],
     CreateTable ''twitch_broadcast_subscription''
     [by_default ''uuid_generate_v4()'' (col ''id'' SqlUuid),
      by_default ''now()'' (col ''createdAt'' SqlTimestamp),
      optional (col ''twitchAppId'' SqlUuid)]
     [(''PK_e4f9e03911e4096c75639d9775c'', Primary_Key [''id''])],
     CreateTable ''twitch_streamer''
     [by_default ''uuid_generate_v4()'' (col ''id'' SqlUuid),
      col ''twitchLogin'' SqlVarchar,
      col ''displayName'' SqlVarchar,
      by_default ''now()'' (col ''createdAt'' SqlTimestamp),
      optional (col ''broadcastSubscriptionId'' SqlUuid)]
     [(''UQ_2d84676a48249a92cf693422c26'', Unique_Columns [''twitchLogin'']), (''REL_1edaee24a3db75f2781102370b'', Unique_Columns [''broadcastSubscriptionId'']), (''PK_893ec973dcc92622ed060f914db'', Primary_Key [''id''])],
     AddColumn ''users'' (optional (col ''discordRefreshToken'' SqlVarchar)),
     AddColumn ''users'' (optional (col ''twitchAccountId'' SqlUuid)),
     AddConstraint ''users'' ''UQ_f568dd633964988b5e6dfcb1734'' (Unique_Columns [''twitchAccountId'']),
     AddConstraint ''twitch_streamer_events'' ''FK_1b6089d07c5e16caf80d1a6c971'' (Foreign_Key ''streamerId'' ''twitch_streamer'' ''id'' No_Action No_Action),
     AddConstraint ''twitch_streamer_events'' ''FK_a3b342200b61eef4771525f5740'' (Foreign_Key ''twitchAppId'' ''twitch_apps'' ''id'' No_Action No_Action),
     AddConstraint ''twitch_broadcast_subscription'' ''FK_43f43606690d3d1f24c3e552040'' (Foreign_Key ''twitchAppId'' ''twitch_apps'' ''id'' No_Action No_Action),
     AddConstraint ''twitch_streamer'' ''FK_1edaee24a3db75f2781102370b8'' (Foreign_Key ''broadcastSubscriptionId'' ''twitch_broadcast_subscription'' ''id'' No_Action No_Action),
     AddConstraint ''users'' ''FK_f568dd633964988b5e6dfcb1734'' (Foreign_Key ''twitchAccountId'' ''twitch_streamer'' ''id'' No_Action No_Action)]"

(* libs/database/src/migrations/1777680536775-add-base-twitch-structure.ts 21-34 AddBaseTwitchStructure.down *)
definition add_base_twitch_structure_down :: "statement list" where
  "add_base_twitch_structure_down =
    [DropConstraint ''users'' ''FK_f568dd633964988b5e6dfcb1734'',
     DropConstraint ''twitch_streamer'' ''FK_1edaee24a3db75f2781102370b8'',
     DropConstraint ''twitch_broadcast_subscription'' ''FK_43f43606690d3d1f24c3e552040'',
     DropConstraint ''twitch_streamer_events'' ''FK_a3b342200b61eef4771525f5740'',
     DropConstraint ''twitch_streamer_events'' ''FK_1b6089d07c5e16caf80d1a6c971'',
     DropConstraint ''users'' ''UQ_f568dd633964988b5e6dfcb1734'',
     DropColumn ''users'' ''twitchAccountId'',
     DropColumn ''users'' ''discordRefreshToken'',
     DropTable ''twitch_streamer'',
     DropTable ''twitch_broadcast_subscription'',
     DropTable ''twitch_apps'',
     DropTable ''twitch_streamer_events'']"

(* libs/database/src/migrations/1777765520945-change-twitch-notifications-system.ts 6-28 ChangeTwitchNotificationsSystem.up *)
definition change_twitch_notifications_system_up :: "statement list" where
  "change_twitch_notifications_system_up =
    [DropConstraint ''twitch_streamer_events'' ''FK_1b6089d07c5e16caf80d1a6c971'',
     DropConstraint ''twitch_streamer_events'' ''FK_a3b342200b61eef4771525f5740'',
     DropConstraint ''twitch_streamer'' ''FK_1edaee24a3db75f2781102370b8'',
     RenameColumn ''twitch_streamer'' ''broadcastSubscriptionId'' ''broadcasterId'',
     CreateType ''notification_destinations_platform_enum'' [''discord_bot'', ''discord_webhook'', ''telegram_bot''],
     CreateTable ''notification_destinations''
     [by_default ''uuid_generate_v4()'' (col ''id'' SqlUuid),
      col ''streamerEventId'' SqlVarchar,
      col ''platform'' (SqlEnum ''notification_destinations_platform_enum''),
      optional (col ''channelId'' SqlVarchar),
      optional (col ''guildId'' SqlVarchar),
      optional (col ''webhookUrl'' SqlVarchar),
      by_default ''now()'' (col ''createdAt'' SqlTimestamp),
      optional (col ''streamer_event_id'' SqlUuid)]
     [(''PK_e928f2b463f90c61949d7113c88'', Primary_Key [''id''])],
     AddColumn ''twitch_streamer_events'' (optional (col ''subscriptionId'' SqlVarchar)),
     AddConstraint ''twitch_streamer_events'' ''UQ_b03926b83345af03988b91047ea'' (Unique_Columns [''subscriptionId'']),
     AddColumn ''twitch_streamer_events'' (optional (col ''streamer_id'' SqlUuid)),
     AddColumn ''twitch_streamer_events'' (optional (col ''twitch_app_id'' SqlUuid)),
     DropColumn ''twitch_streamer_events'' ''streamerId'',
     AddColumn ''twitch_streamer_events'' (col ''streamerId'' SqlVarchar),
     DropColumn ''twitch_streamer_events'' ''twitchAppId'',
     AddColumn ''twitch_streamer_events'' (col ''twitchAppId'' SqlVarchar),
     DropColumn ''twitch_streamer_events'' ''event'',
     AddColumn ''twitch_streamer_events'' (col ''event'' SqlVarchar),
     DropColumn ''twitch_streamer'' ''broadcasterId'',
     AddColumn ''twitch_streamer'' (col ''broadcasterId'' SqlVarchar),
     AddConstraint ''notification_destinations'' ''FK_933f7ffebe83b68ee5892541b0e'' (Foreign_Key ''streamer_event_id'' ''twitch_streamer_events'' ''id'' No_Action No_Action),
     AddConstraint ''twitch_streamer_events'' ''FK_da0e3dcc3e1d212c321b3896f18'' (Foreign_Key ''streamer_id'' ''twitch_streamer'' ''id'' No_Action No_Action),
     AddConstraint ''twitch_streamer_events'' ''FK_c47002236e7f4235683b0a74f10'' (Foreign_Key ''twitch_app_id'' ''twitch_apps'' ''id'' No_Action No_Action)]"

(* libs/database/src/migrations/1777765520945-change-twitch-notifications-system.ts 30-52 ChangeTwitchNotificationsSystem.down *)
definition change_twitch_notifications_system_down :: "statement list" where
  "change_twitch_notifications_system_down =
    [DropConstraint ''twitch_streamer_events'' ''FK_c47002236e7f4235683b0a74f10'',
     DropConstraint ''twitch_streamer_events'' ''FK_da0e3dcc3e1d212c321b3896f18'',
     DropConstraint ''notification_destinations'' ''FK_933f7ffebe83b68ee5892541b0e'',
     DropColumn ''twitch_streamer'' ''broadcasterId'',
     AddColumn ''twitch_streamer'' (optional (col ''broadcasterId'' SqlUuid)),
     DropColumn ''twitch_streamer_events'' ''event'',
     AddColumn ''twitch_streamer_events'' (col ''event'' SqlInteger),
     DropColumn ''twitch_streamer_events'' ''twitchAppId'',
     AddColumn ''twitch_streamer_events'' (optional (col ''twitchAppId'' SqlUuid)),
     DropColumn ''twitch_streamer_events'' ''streamerId'',
     AddColumn ''twitch_streamer_events'' (optional (col ''streamerId'' SqlUuid)),
     DropColumn ''twitch_streamer_events'' ''twitch_app_id'',
     DropColumn ''twitch_streamer_events'' ''streamer_id'',
     DropConstraint ''twitch_streamer_events'' ''UQ_b03926b83345af03988b91047ea'',
     DropColumn ''twitch_streamer_events'' ''subscriptionId'',
     DropTable ''notification_destinations'',
     DropType ''notification_destinations_platform_enum'',
     RenameColumn ''twitch_streamer'' ''broadcasterId'' ''broadcastSubscriptionId'',
     AddConstraint ''twitch_streamer'' ''FK_1edaee24a3db75f2781102370b8'' (Foreign_Key ''broadcastSubscriptionId'' ''twitch_broadcast_subscription'' ''id'' No_Action No_Action),
     AddConstraint ''twitch_streamer_events'' ''FK_a3b342200b61eef4771525f5740'' (Foreign_Key ''twitchAppId'' ''twitch_apps'' ''id'' No_Action No_Action),
     AddConstraint ''twitch_streamer_events'' ''FK_1b6089d07c5e16caf80d1a6c971'' (Foreign_Key ''streamerId'' ''twitch_streamer'' ''id'' No_Action No_Action)]"

(* libs/database/src/migrations/1777931333511-update-twitch-app-with-webhook-options.ts 6-10 UpdateTwitchAppWithWebhookOptions.up *)
definition update_twitch_app_with_webhook_options_up :: "statement list" where
  "update_twitch_app_with_webhook_options_up =
    [AddColumn ''twitch_apps'' (by_default ''active'' (col ''status'' SqlVarchar)),
     AddColumn ''twitch_apps'' (col ''clusterTag'' SqlVarchar),
     AddColumn ''twitch_apps'' (col ''webhookSecret'' SqlVarchar)]"

(* libs/database/src/migrations/1777931333511-update-twitch-app-with-webhook-options.ts 12-16 UpdateTwitchAppWithWebhookOptions.down *)
definition update_twitch_app_with_webhook_options_down :: "statement list" where
  "update_twitch_app_with_webhook_options_down =
    [DropColumn ''twitch_apps'' ''webhookSecret'',
     DropColumn ''twitch_apps'' ''clusterTag'',
     DropColumn ''twitch_apps'' ''status'']"

(* libs/database/src/migrations/1778528173638-add-twitch-event-status.ts 6-13 AddTwitchEventStatus.up *)
definition add_twitch_event_status_up :: "statement list" where
  "add_twitch_event_status_up =
    [RenameColumn ''twitch_streamer_events'' ''payload'' ''eventStatus'',
     DropColumn ''twitch_apps'' ''clusterTag'',
     AddColumn ''notification_destinations'' (optional (col ''payload'' SqlText)),
     DropColumn ''twitch_streamer_events'' ''eventStatus'',
     AddColumn ''twitch_streamer_events'' (col ''eventStatus'' SqlVarchar),
     AddConstraint ''twitch_streamer_events'' ''UQ_1b150333a53b55767e13f367a8d'' (Unique_Columns [''event'', ''streamerId''])]"

(* libs/database/src/migrations/1778528173638-add-twitch-event-status.ts 15-22 AddTwitchEventStatus.down *)
definition add_twitch_event_status_down :: "statement list" where
  "add_twitch_event_status_down =
    [DropConstraint ''twitch_streamer_events'' ''UQ_1b150333a53b55767e13f367a8d'',
     DropColumn ''twitch_streamer_events'' ''eventStatus'',
     AddColumn ''twitch_streamer_events'' (optional (col ''eventStatus'' SqlText)),
     DropColumn ''notification_destinations'' ''payload'',
     AddColumn ''twitch_apps'' (col ''clusterTag'' SqlVarchar),
     RenameColumn ''twitch_streamer_events'' ''eventStatus'' ''payload'']"

(* libs/database/src/migrations/1778874487532-abstract-discord-notifications.ts 6-12 AbstractDiscordNotifications.up *)
definition abstract_discord_notifications_up :: "statement list" where
  "abstract_discord_notifications_up =
    [CreateType ''discord_notification_destinations_type_enum'' [''discord_bot'', ''discord_webhook''],
     CreateTable ''discord_notification_destinations''
     [by_default ''uuid_generate_v4()'' (col ''id'' SqlUuid),
      col ''streamerEventId'' SqlVarchar,
      col ''type'' (SqlEnum ''discord_notification_destinations_type_enum''),
      optional (col ''channelId'' SqlVarchar),
      optional (col ''guildId'' SqlVarchar),
      optional (col ''webhookUrl'' SqlVarchar),
      optional (col ''messagePayload'' SqlJsonb),
      by_default ''now()'' (col ''createdAt'' SqlTimestamp),
      optional (col ''streamer_event_id'' SqlUuid)]
     [(''PK_e60d95df19f01a7d205d84cdc1d'', Primary_Key [''id''])],
     AddColumn ''users'' (by_default ''0'' (col ''publicEvenetsCost'' SqlInteger)),
     AddColumn ''users'' (by_default ''0'' (col ''privateEvenetsCost'' SqlInteger)),
     AddConstraint ''discord_notification_destinations'' ''FK_3a0238d3f6b2c360e0889496dc9'' (Foreign_Key ''streamer_event_id'' ''twitch_streamer_events'' ''id'' No_Action No_Action)]"

(* libs/database/src/migrations/1778874487532-abstract-discord-notifications.ts 14-20 AbstractDiscordNotifications.down *)
definition abstract_discord_notifications_down :: "statement list" where
  "abstract_discord_notifications_down =
    [DropConstraint ''discord_notification_destinations'' ''FK_3a0238d3f6b2c360e0889496dc9'',
     DropColumn ''users'' ''privateEvenetsCost'',
     DropColumn ''users'' ''publicEvenetsCost'',
     DropTable ''discord_notification_destinations'',
     DropType ''discord_notification_destinations_type_enum'']"

(* libs/database/src/migrations/1778921795308-change-credits-logic.ts 6-14 ChangeCreditsLogic.up *)
definition change_credits_logic_up :: "statement list" where
  "change_credits_logic_up =
    [DropColumn ''users'' ''publicEvenetsCost'',
     DropColumn ''users'' ''privateEvenetsCost'',
     AddColumn ''discord_notification_destinations'' (col ''credit_owner_id'' SqlUuid),
     AddColumn ''discord_notification_destinations'' (col ''creditCost'' (SqlNumeric 3 1)),
     AddColumn ''users'' (by_default ''0'' (col ''publicCreditsUsed'' SqlInteger)),
     AddColumn ''users'' (by_default ''0'' (col ''privateCreditsUsed'' SqlInteger)),
     AddConstraint ''discord_notification_destinations'' ''FK_359722f9345a48b43dcb1686e14'' (Foreign_Key ''credit_owner_id'' ''users'' ''id'' No_Action No_Action)]"

(* libs/database/src/migrations/1778921795308-change-credits-logic.ts 16-24 ChangeCreditsLogic.down *)
definition change_credits_logic_down :: "statement list" where
  "change_credits_logic_down =
    [DropConstraint ''discord_notification_destinations'' ''FK_359722f9345a48b43dcb1686e14'',
     DropColumn ''users'' ''privateCreditsUsed'',
     DropColumn ''users'' ''publicCreditsUsed'',
     DropColumn ''discord_notification_destinations'' ''creditCost'',
     DropColumn ''discord_notification_destinations'' ''credit_owner_id'',
     AddColumn ''users'' (by_default ''0'' (col ''privateEvenetsCost'' SqlInteger)),
     AddColumn ''users'' (by_default ''0'' (col ''publicEvenetsCost'' SqlInteger))]"

(* libs/database/src/migrations/1778950576719-fix-column-names.ts 6-83 FixColumnNames.up *)
definition fix_column_names_up :: "statement list" where
  "fix_column_names_up =
    [DropConstraint ''twitch_streamer_events'' ''UQ_1b150333a53b55767e13f367a8d'',
     DropColumn ''discord_notification_destinations'' ''streamerEventId'',
     DropColumn ''discord_notification_destinations'' ''channelId'',
     DropColumn ''discord_notification_destinations'' ''guildId'',
     DropColumn ''discord_notification_destinations'' ''webhookUrl'',
     DropColumn ''discord_notification_destinations'' ''messagePayload'',
     DropColumn ''discord_notification_destinations'' ''createdAt'',
     DropColumn ''discord_notification_destinations'' ''creditCost'',
     DropConstraint ''twitch_apps'' ''UQ_25ea1660099082d7896311453fb'',
     DropColumn ''twitch_apps'' ''clientId'',
     DropColumn ''twitch_apps'' ''tokenExpiresAt'',
     DropColumn ''twitch_apps'' ''currentCost'',
     DropColumn ''twitch_apps'' ''maxCost'',
     DropColumn ''twitch_apps'' ''createdAt'',
     DropColumn ''twitch_apps'' ''webhookSecret'',
     DropColumn ''twitch_streamer_events'' ''createdAt'',
     DropConstraint ''twitch_streamer_events'' ''UQ_b03926b83345af03988b91047ea'',
     DropColumn ''twitch_streamer_events'' ''subscriptionId'',
     DropColumn ''twitch_streamer_events'' ''streamerId'',
     DropColumn ''twitch_streamer_events'' ''twitchAppId'',
     DropColumn ''twitch_streamer_events'' ''eventStatus'',
     DropConstraint ''twitch_streamer'' ''UQ_2d84676a48249a92cf693422c26'',
     DropColumn ''twitch_streamer'' ''twitchLogin'',
     DropColumn ''twitch_streamer'' ''displayName'',
     DropColumn ''twitch_streamer'' ''createdAt'',
     DropColumn ''twitch_streamer'' ''broadcasterId'',
     DropColumn ''users'' ''displayName'',
     DropConstraint ''users'' ''UQ_ae4a93a6b25195ccc2a97e13f0d'',
     DropColumn ''users'' ''discordId'',
     DropColumn ''users'' ''refreshToken'',
     DropColumn ''users'' ''createdAt'',
     DropColumn ''users'' ''discordAccessToken'',
     DropColumn ''users'' ''discordRefreshToken'',
     DropColumn ''users'' ''publicCreditsUsed'',
     DropColumn ''users'' ''privateCreditsUsed'',
     AddColumn ''discord_notification_destinations'' (col ''credit_cost'' (SqlNumeric 3 1)),
     AddColumn ''discord_notification_destinations'' (optional (col ''channel_id'' SqlVarchar)),
     AddColumn ''discord_notification_destinations'' (optional (col ''guild_id'' SqlVarchar)),
     AddColumn ''discord_notification_destinations'' (optional (col ''webhook_url'' SqlVarchar)),
     AddColumn ''discord_notification_destinations'' (optional (col ''message_payload'' SqlJsonb)),
     AddColumn ''discord_notification_destinations'' (by_default ''now()'' (col ''created_at'' SqlTimestamp)),
     AddColumn ''twitch_apps'' (col ''client_id'' SqlVarchar),
     AddConstraint ''twitch_apps'' ''UQ_e0b2f1ce39600aad6cf28187a9c'' (Unique_Columns [''client_id'']),
     AddColumn ''twitch_apps'' (col ''webhook_secret'' SqlVarchar),
     AddColumn ''twitch_apps'' (optional (col ''token_expires_at'' SqlTimestamp)),
     AddColumn ''twitch_apps'' (by_default ''0'' (col ''current_cost'' SqlInteger)),
     AddColumn ''twitch_apps'' (by_default ''9000'' (col ''max_cost'' SqlInteger)),
     AddColumn ''twitch_apps'' (by_default ''now()'' (col ''created_at'' SqlTimestamp)),
     AddColumn ''twitch_streamer_events'' (optional (col ''subscription_id'' SqlVarchar)),
     AddConstraint ''twitch_streamer_events'' ''UQ_e9e231b35cd0595caff4d764e4d'' (Unique_Columns [''subscription_id'']),
     AddColumn ''twitch_streamer_events'' (col ''event_status'' SqlVarchar),
     AddColumn ''twitch_streamer_events'' (by_default ''now()'' (col ''created_at'' SqlTimestamp)),
     AddColumn ''twitch_streamer'' (col ''broadcaster_id'' SqlVarchar),
     AddColumn ''twitch_streamer'' (col ''twitch_login'' SqlVarchar),
     AddConstraint ''twitch_streamer'' ''UQ_0cbf45d2070afe1b16d2aff5f16'' (Unique_Columns [''twitch_login'']),
     AddColumn ''twitch_streamer'' (col ''display_name'' SqlVarchar),
     AddColumn ''twitch_streamer'' (by_default ''now()'' (col ''created_at'' SqlTimestamp)),
     AddColumn ''users'' (col ''display_name'' SqlVarchar),
     AddColumn ''users'' (by_default ''0'' (col ''public_credits_used'' SqlInteger)),
     AddColumn ''users'' (by_default ''0'' (col ''private_credits_used'' SqlInteger)),
     AddColumn ''users'' (optional (col ''discord_id'' SqlVarchar)),
     AddConstraint ''users'' ''UQ_ecb6461da358b6d8a4f83d611a0'' (Unique_Columns [''discord_id'']),
     AddColumn ''users'' (optional (col ''refresh_token'' SqlVarchar)),
     AddColumn ''users'' (optional (col ''discord_access_token'' SqlVarchar)),
     AddColumn ''users'' (optional (col ''discord_refresh_token'' SqlVarchar)),
     AddColumn ''users'' (by_default ''now()'' (col ''created_at'' SqlTimestamp)),
     DropConstraint ''discord_notification_destinations'' ''FK_3a0238d3f6b2c360e0889496dc9'',
     SetNotNull ''discord_notification_destinations'' ''streamer_event_id'',
     DropConstraint ''twitch_streamer_events'' ''FK_da0e3dcc3e1d212c321b3896f18'',
     DropConstraint ''twitch_streamer_events'' ''FK_c47002236e7f4235683b0a74f10'',
     SetNotNull ''twitch_streamer_events'' ''streamer_id'',
     SetNotNull ''twitch_streamer_events'' ''twitch_app_id'',
     AddConstraint ''twitch_streamer_events'' ''UQ_db4fb7f4d9d7ce6a32f0e858643'' (Unique_Columns [''event'', ''streamer_id'']),
     AddConstraint ''discord_notification_destinations'' ''FK_3a0238d3f6b2c360e0889496dc9'' (Foreign_Key ''streamer_event_id'' ''twitch_streamer_events'' ''id'' No_Action No_Action),
     AddConstraint ''twitch_streamer_events'' ''FK_da0e3dcc3e1d212c321b3896f18'' (Foreign_Key ''streamer_id'' ''twitch_streamer'' ''id'' No_Action No_Action),
     AddConstraint ''twitch_streamer_events'' ''FK_c47002236e7f4235683b0a74f10'' (Foreign_Key ''twitch_app_id'' ''twitch_apps'' ''id'' No_Action No_Action)]"

(* libs/database/src/migrations/1778950576719-fix-column-names.ts 85-162 FixColumnNames.down *)
definition fix_column_names_down :: "statement list" where
  "fix_column_names_down =
    [DropConstraint ''twitch_streamer_events'' ''FK_c47002236e7f4235683b0a74f10'',
     DropConstraint ''twitch_streamer_events'' ''FK_da0e3dcc3e1d212c321b3896f18'',
     DropConstraint ''discord_notification_destinations'' ''FK_3a0238d3f6b2c360e0889496dc9'',
     DropConstraint ''twitch_streamer_events'' ''UQ_db4fb7f4d9d7ce6a32f0e858643'',
     DropNotNull ''twitch_streamer_events'' ''twitch_app_id'',
     DropNotNull ''twitch_streamer_events'' ''streamer_id'',
     AddConstraint ''twitch_streamer_events'' ''FK_c47002236e7f4235683b0a74f10'' (Foreign_Key ''twitch_app_id'' ''twitch_apps'' ''id'' No_Action No_Action),
     AddConstraint ''twitch_streamer_events'' ''FK_da0e3dcc3e1d212c321b3896f18'' (Foreign_Key ''streamer_id'' ''twitch_streamer'' ''id'' No_Action No_Action),
     DropNotNull ''discord_notification_destinations'' ''streamer_event_id'',
     AddConstraint ''discord_notification_destinations'' ''FK_3a0238d3f6b2c360e0889496dc9'' (Foreign_Key ''streamer_event_id'' ''twitch_streamer_events'' ''id'' No_Action No_Action),
     DropColumn ''users'' ''created_at'',
     DropColumn ''users'' ''discord_refresh_token'',
     DropColumn ''users'' ''discord_access_token'',
     DropColumn ''users'' ''refresh_token'',
     DropConstraint ''users'' ''UQ_ecb6461da358b6d8a4f83d611a0'',
     DropColumn ''users'' ''discord_id'',
     DropColumn ''users'' ''private_credits_used'',
     DropColumn ''users'' ''public_credits_used'',
     DropColumn ''users'' ''display_name'',
     DropColumn ''twitch_streamer'' ''created_at'',
     DropColumn ''twitch_streamer'' ''display_name'',
     DropConstraint ''twitch_streamer'' ''UQ_0cbf45d2070afe1b16d2aff5f16'',
     DropColumn ''twitch_streamer'' ''twitch_login'',
     DropColumn ''twitch_streamer'' ''broadcaster_id'',
     DropColumn ''twitch_streamer_events'' ''created_at'',
     DropColumn ''twitch_streamer_events'' ''event_status'',
     DropConstraint ''twitch_streamer_events'' ''UQ_e9e231b35cd0595caff4d764e4d'',
     DropColumn ''twitch_streamer_events'' ''subscription_id'',
     DropColumn ''twitch_apps'' ''created_at'',
     DropColumn ''twitch_apps'' ''max_cost'',
     DropColumn ''twitch_apps'' ''current_cost'',
     DropColumn ''twitch_apps'' ''token_expires_at'',
     DropColumn ''twitch_apps'' ''webhook_secret'',
     DropConstraint ''twitch_apps'' ''UQ_e0b2f1ce39600aad6cf28187a9c'',
     DropColumn ''twitch_apps'' ''client_id'',
     DropColumn ''discord_notification_destinations'' ''created_at'',
     DropColumn ''discord_notification_destinations'' ''message_payload'',
     DropColumn ''discord_notification_destinations'' ''webhook_url'',
     DropColumn ''discord_notification_destinations'' ''guild_id'',
     DropColumn ''discord_notification_destinations'' ''channel_id'',
     DropColumn ''discord_notification_destinations'' ''credit_cost'',
     AddColumn ''users'' (by_default ''0'' (col ''privateCreditsUsed'' SqlInteger)),
     AddColumn ''users'' (by_default ''0'' (col ''publicCreditsUsed'' SqlInteger)),
     AddColumn ''users'' (optional (col ''discordRefreshToken'' SqlVarchar)),
     AddColumn ''users'' (optional (col ''discordAccessToken'' SqlVarchar)),
     AddColumn ''users'' (by_default ''now()'' (col ''createdAt'' SqlTimestamp)),
     AddColumn ''users'' (optional (col ''refreshToken'' SqlVarchar)),
     AddColumn ''users'' (optional (col ''discordId'' SqlVarchar)),
     AddConstraint ''users'' ''UQ_ae4a93a6b25195ccc2a97e13f0d'' (Unique_Columns [''discordId'']),
     AddColumn ''users'' (col ''displayName'' SqlVarchar),
     AddColumn ''twitch_streamer'' (col ''broadcasterId'' SqlVarchar),
     AddColumn ''twitch_streamer'' (by_default ''now()'' (col ''createdAt'' SqlTimestamp)),
     AddColumn ''twitch_streamer'' (col ''displayName'' SqlVarchar),
     AddColumn ''twitch_streamer'' (col ''twitchLogin'' SqlVarchar),
     AddConstraint ''twitch_streamer'' ''UQ_2d84676a48249a92cf693422c26'' (Unique_Columns [''twitchLogin'']),
     AddColumn ''twitch_streamer_events'' (col ''eventStatus'' SqlVarchar),
     AddColumn ''twitch_streamer_events'' (col ''twitchAppId'' SqlVarchar),
     AddColumn ''twitch_streamer_events'' (col ''streamerId'' SqlVarchar),
     AddColumn ''twitch_streamer_events'' (optional (col ''subscriptionId'' SqlVarchar)),
     AddConstraint ''twitch_streamer_events'' ''UQ_b03926b83345af03988b91047ea'' (Unique_Columns [''subscriptionId'']),
     AddColumn ''twitch_streamer_events'' (by_default ''now()'' (col ''createdAt'' SqlTimestamp)),
     AddColumn ''twitch_apps'' (col ''webhookSecret'' SqlVarchar),
     AddColumn ''twitch_apps'' (by_default ''now()'' (col ''createdAt'' SqlTimestamp)),
     AddColumn ''twitch_apps'' (by_default ''9000'' (col ''maxCost'' SqlInteger)),
     AddColumn ''twitch_apps'' (by_default ''0'' (col ''currentCost'' SqlInteger)),
     AddColumn ''twitch_apps'' (optional (col ''tokenExpiresAt'' SqlTimestamp)),
     AddColumn ''twitch_apps'' (col ''clientId'' SqlVarchar),
     AddConstraint ''twitch_apps'' ''UQ_25ea1660099082d7896311453fb'' (Unique_Columns [''clientId'']),
     AddColumn ''discord_notification_destinations'' (col ''creditCost'' (SqlNumeric 3 1)),
     AddColumn ''discord_notification_destinations'' (by_default ''now()'' (col ''createdAt'' SqlTimestamp)),
     AddColumn ''discord_notification_destinations'' (optional (col ''messagePayload'' SqlJsonb)),
     AddColumn ''discord_notification_destinations'' (optional (col ''webhookUrl'' SqlVarchar)),
     AddColumn ''discord_notification_destinations'' (optional (col ''guildId'' SqlVarchar)),
     AddColumn ''discord_notification_destinations'' (optional (col ''channelId'' SqlVarchar)),
     AddColumn ''discord_notification_destinations'' (col ''streamerEventId'' SqlVarchar),
     AddConstraint ''twitch_streamer_events'' ''UQ_1b150333a53b55767e13f367a8d'' (Unique_Columns [''streamerId'', ''event''])]"

(* libs/database/src/migrations/1778957531617-change-credits-logic.ts 6-13 ChangeCreditsLogic.up *)
definition change_credits_logic_again_up :: "statement list" where
  "change_credits_logic_again_up =
    [DropColumn ''users'' ''public_credits_used'',
     DropColumn ''users'' ''private_credits_used'',
     AddColumn ''twitch_streamer'' (col ''user_id'' SqlUuid),
     AddConstraint ''twitch_streamer'' ''UQ_8f214a6945ef00e6d5a78f8be70'' (Unique_Columns [''user_id'']),
     AddColumn ''users'' (by_default ''0'' (col ''credits_used'' SqlInteger)),
     AddConstraint ''twitch_streamer'' ''FK_8f214a6945ef00e6d5a78f8be70'' (Foreign_Key ''user_id'' ''users'' ''id'' No_Action No_Action)]"

(* libs/database/src/migrations/1778957531617-change-credits-logic.ts 15-22 ChangeCreditsLogic.down *)
definition change_credits_logic_again_down :: "statement list" where
  "change_credits_logic_again_down =
    [DropConstraint ''twitch_streamer'' ''FK_8f214a6945ef00e6d5a78f8be70'',
     DropColumn ''users'' ''credits_used'',
     DropConstraint ''twitch_streamer'' ''UQ_8f214a6945ef00e6d5a78f8be70'',
     DropColumn ''twitch_streamer'' ''user_id'',
     AddColumn ''users'' (by_default ''0'' (col ''private_credits_used'' SqlInteger)),
     AddColumn ''users'' (by_default ''0'' (col ''public_credits_used'' SqlInteger))]"

(* libs/database/src/migrations/1779144874026-add-role-model.ts 6-14 AddRoleModel.up *)
definition add_role_model_up :: "statement list" where
  "add_role_model_up =
    [CreateType ''roles_permissions_enum'' [''admin'', ''read_apps'', ''manage_apps''],
     CreateTable ''roles''
     [by_default ''uuid_generate_v4()'' (col ''id'' SqlUuid),
      col ''name'' SqlVarchar,
      by_default ''0'' (col ''rolePriority'' SqlInteger),
      col ''permissions'' (SqlEnumArray ''roles_permissions_enum'')]
     [(''UQ_648e3f5447f725579d7d4ffdfb7'', Unique_Columns [''name'']), (''PK_c1433d71a4838793a49dcad46ab'', Primary_Key [''id''])],
     CreateTable ''user_roles''
     [col ''user_id'' SqlUuid,
      col ''role_id'' SqlUuid]
     [(''PK_23ed6f04fe43066df08379fd034'', Primary_Key [''user_id'', ''role_id''])],
     CreateIndex ''IDX_87b8888186ca9769c960e92687'' ''user_roles'' [''user_id''],
     CreateIndex ''IDX_b23c65e50a758245a33ee35fda'' ''user_roles'' [''role_id''],
     AddConstraint ''user_roles'' ''FK_87b8888186ca9769c960e926870'' (Foreign_Key ''user_id'' ''users'' ''id'' Cascade Cascade),
     AddConstraint ''user_roles'' ''FK_b23c65e50a758245a33ee35fda1'' (Foreign_Key ''role_id'' ''roles'' ''id'' No_Action No_Action)]"

(* libs/database/src/migrations/1779144874026-add-role-model.ts 16-24 AddRoleModel.down *)
definition add_role_model_down :: "statement list" where
  "add_role_model_down =
    [DropConstraint ''user_roles'' ''FK_b23c65e50a758245a33ee35fda1'',
     DropConstraint ''user_roles'' ''FK_87b8888186ca9769c960e926870'',
     DropIndex ''IDX_b23c65e50a758245a33ee35fda'',
     DropIndex ''IDX_87b8888186ca9769c960e92687'',
     DropTable ''user_roles'',
     DropTable ''roles'',
     DropType ''roles_permissions_enum'']"

(* libs/database/src/migrations/1779991707985-auth-changes.ts 6-17 AuthChanges.up *)
definition auth_changes_up :: "statement list" where
  "auth_changes_up =
    [RenameColumn ''users'' ''refresh_token'' ''status'',
     CreateTable ''user_sessions''
     [by_default ''uuid_generate_v4()'' (col ''id'' SqlUuid),
      col ''user_id'' SqlUuid,
      col ''refresh_token_hash'' SqlVarchar,
      col ''expires_at'' SqlTimestamptz,
      by_default ''now()'' (col ''created_at'' SqlTimestamp)]
     [(''PK_e93e031a5fed190d4789b6bfd83'', Primary_Key [''id''])],
     RenameType ''roles_permissions_enum'' ''roles_permissions_enum_old'',
     CreateType ''roles_permissions_enum'' [''admin'', ''read_apps'', ''manage_apps'', ''read_roles'', ''manage_roles''],
     ChangeTypeUsing ''roles'' ''permissions'' (SqlEnumArray ''roles_permissions_enum''),
     DropType ''roles_permissions_enum_old'',
     DropColumn ''users'' ''status'',
     CreateType ''users_status_enum'' [''active'', ''blocked''],
     AddColumn ''users'' (by_default ''active'' (col ''status'' (SqlEnum ''users_status_enum''))),
     AddConstraint ''user_sessions'' ''FK_e9658e959c490b0a634dfc54783'' (Foreign_Key ''user_id'' ''users'' ''id'' Cascade No_Action)]"

(* libs/database/src/migrations/1779991707985-auth-changes.ts 19-30 AuthChanges.down *)
definition auth_changes_down :: "statement list" where
  "auth_changes_down =
    [DropConstraint ''user_sessions'' ''FK_e9658e959c490b0a634dfc54783'',
     DropColumn ''users'' ''status'',
     DropType ''users_status_enum'',
     AddColumn ''users'' (optional (col ''status'' SqlVarchar)),
     CreateType ''roles_permissions_enum_old'' [''admin'', ''read_apps'', ''manage_apps''],
     ChangeTypeUsing ''roles'' ''permissions'' (SqlEnumArray ''roles_permissions_enum_old''),
     DropType ''roles_permissions_enum'',
     RenameType ''roles_permissions_enum_old'' ''roles_permissions_enum'',
     DropTable ''user_sessions'',
     RenameColumn ''users'' ''status'' ''refresh_token'']"

(* libs/database/src/migrations/1780093794024-global-db-changes.ts 6-28 GlobalDbChanges.up *)
definition global_db_changes_up :: "statement list" where
  "global_db_changes_up =
    [CreateTable ''discord_guilds''
     [by_default ''uuid_generate_v4()'' (col ''id'' SqlUuid),
      by_default ''0'' (col ''balance'' (SqlNumeric 3 1)),
      by_default ''now()'' (col ''created_at'' SqlTimestamp)]
     [(''PK_0549d637a8cf188fc8290f4313b'', Primary_Key [''id''])],
     CreateType ''discord_notifications_status_enum'' [''active'', ''suspended''],
     CreateType ''discord_notifications_cost_type_enum'' [''personal'', ''credit'', ''guild''],
     CreateTable ''discord_notifications''
     [by_default ''uuid_generate_v4()'' (col ''id'' SqlUuid),
      col ''owner_id'' SqlUuid,
      col ''cost'' (SqlNumeric 3 1),
      by_default ''active'' (col ''status'' (SqlEnum ''discord_notifications_status_enum'')),
      col ''cost_type'' (SqlEnum ''discord_notifications_cost_type_enum''),
      col ''channel_id'' SqlVarchar,
      col ''guild_id'' SqlUuid,
      col ''streamer_event_id'' SqlUuid,
      optional (col ''message_payload'' SqlJsonb),
      by_default ''now()'' (col ''created_at'' SqlTimestamp)]
     [(''PK_ea7621898107c04d155c86088f1'', Primary_Key [''id''])],
     CreateType ''webhook_notifications_type_enum'' [''discord''],
     CreateTable ''webhook_notifications''
     [by_default ''uuid_generate_v4()'' (col ''id'' SqlUuid),
      col ''streamer_event_id'' SqlUuid,
      col ''owner_id'' SqlUuid,
      col ''cost'' (SqlNumeric 3 1),
      by_default ''false'' (col ''is_credited'' SqlBoolean),
      col ''type'' (SqlEnum ''webhook_notifications_type_enum''),
      optional (col ''webhook_url'' SqlVarchar),
      optional (col ''message_payload'' SqlJsonb),
      by_default ''now()'' (col ''created_at'' SqlTimestamp)]
     [(''PK_ae644eb6677f6e4ac17f6765399'', Primary_Key [''id''])],
     DropColumn ''users'' ''credits_used'',
     AddColumn ''twitch_streamer'' (by_default ''false'' (col ''is_partner'' SqlBoolean)),
     AddColumn ''users'' (by_default ''0'' (col ''balance'' (SqlNumeric 3 1))),
     DropDefault ''users'' ''balance'',
     AddColumn ''users'' (optional (col ''discord_token_expires_at'' SqlDate)),
     AddColumn ''users'' (optional (col ''twitch_access_token'' SqlVarchar)),
     AddColumn ''users'' (optional (col ''twitch_refresh_token'' SqlVarchar)),
     AddColumn ''users'' (optional (col ''twitch_token_expires_at'' SqlDate)),
     AddColumn ''twitch_streamer_events'' (by_default ''1'' (col ''app_cost'' (SqlNumeric 3 1))),
     SetDefault ''twitch_apps'' ''max_cost'' ''9500'',
     AddConstraint ''discord_notifications'' ''FK_8c33ffefce3671373a0b4e7e27b'' (Foreign_Key ''owner_id'' ''users'' ''id'' No_Action No_Action),
     AddConstraint ''discord_notifications'' ''FK_639f7ddd705e903f45747ff1596'' (Foreign_Key ''guild_id'' ''discord_guilds'' ''id'' No_Action No_Action),
     AddConstraint ''discord_notifications'' ''FK_197b793441956ff312674aec7f0'' (Foreign_Key ''streamer_event_id'' ''twitch_streamer_events'' ''id'' No_Action No_Action),
     AddConstraint ''webhook_notifications'' ''FK_ee6a4ddccab38ba7aba426bd620'' (Foreign_Key ''owner_id'' ''users'' ''id'' No_Action No_Action),
     AddConstraint ''webhook_notifications'' ''FK_2a38b4fabdad616b95e14c6c322'' (Foreign_Key ''streamer_event_id'' ''twitch_streamer_events'' ''id'' No_Action No_Action)]"

(* libs/database/src/migrations/1780093794024-global-db-changes.ts 30-51 GlobalDbChanges.down *)
definition global_db_changes_down :: "statement list" where
  "global_db_changes_down =
    [DropConstraint ''webhook_notifications'' ''FK_2a38b4fabdad616b95e14c6c322'',
     DropConstraint ''webhook_notifications'' ''FK_ee6a4ddccab38ba7aba426bd620'',
     DropConstraint ''discord_notifications'' ''FK_197b793441956ff312674aec7f0'',
     DropConstraint ''discord_notifications'' ''FK_639f7ddd705e903f45747ff1596'',
     DropConstraint ''discord_notifications'' ''FK_8c33ffefce3671373a0b4e7e27b'',
     SetDefault ''twitch_apps'' ''max_cost'' ''9000'',
     DropColumn ''twitch_streamer_events'' ''app_cost'',
     DropColumn ''users'' ''twitch_token_expires_at'',
     DropColumn ''users'' ''twitch_refresh_token'',
     DropColumn ''users'' ''twitch_access_token'',
     DropColumn ''users'' ''discord_token_expires_at'',
     DropColumn ''users'' ''balance'',
     DropColumn ''twitch_streamer'' ''is_partner'',
     AddColumn ''users'' (by_default ''0'' (col ''credits_used'' SqlInteger)),
     DropTable ''webhook_notifications'',
     DropType ''webhook_notifications_type_enum'',
     DropTable ''discord_notifications'',
     DropType ''discord_notifications_cost_type_enum'',
     DropType ''discord_notifications_status_enum'',
     DropTable ''discord_guilds'']"

(* libs/database/src/migrations/1780100000000-webhook-notification-cost-type.ts 6-22 WebhookNotificationCostType.up *)
definition webhook_notification_cost_type_up :: "statement list" where
  "webhook_notification_cost_type_up =
    [CreateType ''webhook_notifications_cost_type_enum'' [''personal'', ''credit'', ''guild''],
     AddColumn ''webhook_notifications'' (by_default ''personal'' (col ''cost_type'' (SqlEnum ''webhook_notifications_cost_type_enum''))),
     UpdateRows [(''webhook_notifications'', ''cost_type''), (''webhook_notifications'', ''is_credited'')],
     DropDefault ''webhook_notifications'' ''cost_type'',
     DropColumn ''webhook_notifications'' ''is_credited'']"

(* libs/database/src/migrations/1780100000000-webhook-notification-cost-type.ts 24-37 WebhookNotificationCostType.down *)
definition webhook_notification_cost_type_down :: "statement list" where
  "webhook_notification_cost_type_down =
    [AddColumn ''webhook_notifications'' (by_default ''false'' (col ''is_credited'' SqlBoolean)),
     UpdateRows [(''webhook_notifications'', ''is_credited''), (''webhook_notifications'', ''cost_type'')],
     DropColumn ''webhook_notifications'' ''cost_type'',
     DropType ''webhook_notifications_cost_type_enum'']"

(* libs/database/src/migrations/1780271792254-fix-notification-relations.ts 6-20 FixNotificationRelations.up *)
definition fix_notification_relations_up :: "statement list" where
  "fix_notification_relations_up =
    [AddColumn ''discord_guilds'' (col ''guild_id'' SqlVarchar),
     AddConstraint ''discord_guilds'' ''UQ_6b0bf64a0419a0879f85bb23718'' (Unique_Columns [''guild_id'']),
     AddColumn ''webhook_notifications'' (optional (col ''discord_guild_id'' SqlUuid)),
     RenameType ''discord_notifications_cost_type_enum'' ''discord_notifications_cost_type_enum_old'',
     CreateType ''discord_notifications_cost_type_enum'' [''personal'', ''credit'', ''guild''],
     ChangeTypeUsing ''discord_notifications'' ''cost_type'' (SqlEnum ''discord_notifications_cost_type_enum''),
     DropType ''discord_notifications_cost_type_enum_old'',
     RenameType ''webhook_notifications_cost_type_enum'' ''webhook_notifications_cost_type_enum_old'',
     CreateType ''webhook_notifications_cost_type_enum'' [''personal'', ''credit'', ''guild''],
     ChangeTypeUsing ''webhook_notifications'' ''cost_type'' (SqlEnum ''webhook_notifications_cost_type_enum''),
     DropType ''webhook_notifications_cost_type_enum_old'',
     CreateIndex ''IDX_6b0bf64a0419a0879f85bb2371'' ''discord_guilds'' [''guild_id''],
     AddConstraint ''webhook_notifications'' ''FK_cfef007fd83f175b14731666767'' (Foreign_Key ''discord_guild_id'' ''discord_guilds'' ''id'' No_Action No_Action)]"

(* libs/database/src/migrations/1780271792254-fix-notification-relations.ts 22-36 FixNotificationRelations.down *)
definition fix_notification_relations_down :: "statement list" where
  "fix_notification_relations_down =
    [DropConstraint ''webhook_notifications'' ''FK_cfef007fd83f175b14731666767'',
     DropIndex ''IDX_6b0bf64a0419a0879f85bb2371'',
     CreateType ''webhook_notifications_cost_type_enum_old'' [''personal'', ''credit'', ''guild''],
     ChangeTypeUsing ''webhook_notifications'' ''cost_type'' (SqlEnum ''webhook_notifications_cost_type_enum_old''),
     DropType ''webhook_notifications_cost_type_enum'',
     RenameType ''webhook_notifications_cost_type_enum_old'' ''webhook_notifications_cost_type_enum'',
     CreateType ''discord_notifications_cost_type_enum_old'' [''personal'', ''credit'', ''guild''],
     ChangeTypeUsing ''discord_notifications'' ''cost_type'' (SqlEnum ''discord_notifications_cost_type_enum_old''),
     DropType ''discord_notifications_cost_type_enum'',
     RenameType ''discord_notifications_cost_type_enum_old'' ''discord_notifications_cost_type_enum'',
     DropColumn ''webhook_notifications'' ''discord_guild_id'',
     DropConstraint ''discord_guilds'' ''UQ_6b0bf64a0419a0879f85bb23718'',
     DropColumn ''discord_guilds'' ''guild_id'']"

(* libs/database/src/migrations/1780327124519-cast-null-to-user-streamer.ts 6-18 CastNullToUserStreamer.up *)
definition cast_null_to_user_streamer_up :: "statement list" where
  "cast_null_to_user_streamer_up =
    [DropConstraint ''twitch_streamer'' ''FK_8f214a6945ef00e6d5a78f8be70'',
     DropNotNull ''twitch_streamer'' ''user_id'',
     RenameType ''discord_notifications_cost_type_enum'' ''discord_notifications_cost_type_enum_old'',
     CreateType ''discord_notifications_cost_type_enum'' [''personal'', ''credit'', ''guild''],
     ChangeTypeUsing ''discord_notifications'' ''cost_type'' (SqlEnum ''discord_notifications_cost_type_enum''),
     DropType ''discord_notifications_cost_type_enum_old'',
     RenameType ''webhook_notifications_cost_type_enum'' ''webhook_notifications_cost_type_enum_old'',
     CreateType ''webhook_notifications_cost_type_enum'' [''personal'', ''credit'', ''guild''],
     ChangeTypeUsing ''webhook_notifications'' ''cost_type'' (SqlEnum ''webhook_notifications_cost_type_enum''),
     DropType ''webhook_notifications_cost_type_enum_old'',
     AddConstraint ''twitch_streamer'' ''FK_8f214a6945ef00e6d5a78f8be70'' (Foreign_Key ''user_id'' ''users'' ''id'' No_Action No_Action)]"

(* libs/database/src/migrations/1780327124519-cast-null-to-user-streamer.ts 20-32 CastNullToUserStreamer.down *)
definition cast_null_to_user_streamer_down :: "statement list" where
  "cast_null_to_user_streamer_down =
    [DropConstraint ''twitch_streamer'' ''FK_8f214a6945ef00e6d5a78f8be70'',
     CreateType ''webhook_notifications_cost_type_enum_old'' [''personal'', ''credit'', ''guild''],
     ChangeTypeUsing ''webhook_notifications'' ''cost_type'' (SqlEnum ''webhook_notifications_cost_type_enum_old''),
     DropType ''webhook_notifications_cost_type_enum'',
     RenameType ''webhook_notifications_cost_type_enum_old'' ''webhook_notifications_cost_type_enum'',
     CreateType ''discord_notifications_cost_type_enum_old'' [''personal'', ''credit'', ''guild''],
     ChangeTypeUsing ''discord_notifications'' ''cost_type'' (SqlEnum ''discord_notifications_cost_type_enum_old''),
     DropType ''discord_notifications_cost_type_enum'',
     RenameType ''discord_notifications_cost_type_enum_old'' ''discord_notifications_cost_type_enum'',
     SetNotNull ''twitch_streamer'' ''user_id'',
     AddConstraint ''twitch_streamer'' ''FK_8f214a6945ef00e6d5a78f8be70'' (Foreign_Key ''user_id'' ''users'' ''id'' No_Action No_Action)]"

(* libs/database/src/migrations/1780343798148-add-broadcaster-logo.ts 6-17 AddBroadcasterLogo.up *)
definition add_broadcaster_logo_up :: "statement list" where
  "add_broadcaster_logo_up =
    [AddColumn ''twitch_streamer'' (optional (col ''profile_image_url'' SqlVarchar)),
     AddColumn ''twitch_streamer'' (optional (col ''profile_image_updated_at'' SqlTimestamptz)),
     RenameType ''discord_notifications_cost_type_enum'' ''discord_notifications_cost_type_enum_old'',
     CreateType ''discord_notifications_cost_type_enum'' [''personal'', ''credit'', ''guild''],
     ChangeTypeUsing ''discord_notifications'' ''cost_type'' (SqlEnum ''discord_notifications_cost_type_enum''),
     DropType ''discord_notifications_cost_type_enum_old'',
     RenameType ''webhook_notifications_cost_type_enum'' ''webhook_notifications_cost_type_enum_old'',
     CreateType ''webhook_notifications_cost_type_enum'' [''personal'', ''credit'', ''guild''],
     ChangeTypeUsing ''webhook_notifications'' ''cost_type'' (SqlEnum ''webhook_notifications_cost_type_enum''),
     DropType ''webhook_notifications_cost_type_enum_old'']"

(* libs/database/src/migrations/1780343798148-add-broadcaster-logo.ts 19-30 AddBroadcasterLogo.down *)
definition add_broadcaster_logo_down :: "statement list" where
  "add_broadcaster_logo_down =
    [CreateType ''webhook_notifications_cost_type_enum_old'' [''personal'', ''credit'', ''guild''],
     ChangeTypeUsing ''webhook_notifications'' ''cost_type'' (SqlEnum ''webhook_notifications_cost_type_enum_old''),
     DropType ''webhook_notifications_cost_type_enum'',
     RenameType ''webhook_notifications_cost_type_enum_old'' ''webhook_notifications_cost_type_enum'',
     CreateType ''discord_notifications_cost_type_enum_old'' [''personal'', ''credit'', ''guild''],
     ChangeTypeUsing ''discord_notifications'' ''cost_type'' (SqlEnum ''discord_notifications_cost_type_enum_old''),
     DropType ''discord_notifications_cost_type_enum'',
     RenameType ''discord_notifications_cost_type_enum_old'' ''discord_notifications_cost_type_enum'',
     DropColumn ''twitch_streamer'' ''profile_image_updated_at'',
     DropColumn ''twitch_streamer'' ''profile_image_url'']"

(* libs/database/src/migrations/1780400000000-cascade-delete-notifications-on-event.ts 6-12 CascadeDeleteNotificationsOnEvent.up *)
definition cascade_delete_notifications_on_event_up :: "statement list" where
  "cascade_delete_notifications_on_event_up =
    [DropConstraint ''discord_notifications'' ''FK_197b793441956ff312674aec7f0'',
     AddConstraint ''discord_notifications'' ''FK_197b793441956ff312674aec7f0'' (Foreign_Key ''streamer_event_id'' ''twitch_streamer_events'' ''id'' Cascade No_Action),
     DropConstraint ''webhook_notifications'' ''FK_2a38b4fabdad616b95e14c6c322'',
     AddConstraint ''webhook_notifications'' ''FK_2a38b4fabdad616b95e14c6c322'' (Foreign_Key ''streamer_event_id'' ''twitch_streamer_events'' ''id'' Cascade No_Action)]"

(* libs/database/src/migrations/1780400000000-cascade-delete-notifications-on-event.ts 14-20 CascadeDeleteNotificationsOnEvent.down *)
definition cascade_delete_notifications_on_event_down :: "statement list" where
  "cascade_delete_notifications_on_event_down =
    [DropConstraint ''webhook_notifications'' ''FK_2a38b4fabdad616b95e14c6c322'',
     AddConstraint ''webhook_notifications'' ''FK_2a38b4fabdad616b95e14c6c322'' (Foreign_Key ''streamer_event_id'' ''twitch_streamer_events'' ''id'' No_Action No_Action),
     DropConstraint ''discord_notifications'' ''FK_197b793441956ff312674aec7f0'',
     AddConstraint ''discord_notifications'' ''FK_197b793441956ff312674aec7f0'' (Foreign_Key ''streamer_event_id'' ''twitch_streamer_events'' ''id'' No_Action No_Action)]"

(* libs/database/src/migrations/1780500000000-add-notification-log.ts 6-37 AddNotificationLog.up *)
definition add_notification_log_up :: "statement list" where
  "add_notification_log_up =
    [CreateType ''notification_logs_type_enum'' [''discord'', ''webhook''],
     CreateType ''notification_logs_status_enum'' [''sent'', ''failed''],
     CreateTable ''notification_logs''
     [by_default ''uuid_generate_v4()'' (col ''id'' SqlUuid),
      col ''notification_id'' SqlUuid,
      col ''notification_type'' (SqlEnum ''notification_logs_type_enum''),
      col ''status'' (SqlEnum ''notification_logs_status_enum''),
      col ''owner_id'' SqlUuid,
      optional (col ''guild_id'' SqlVarchar),
      col ''streamer_login'' SqlVarchar,
      col ''event_type'' SqlVarchar,
      optional (col ''request_payload'' SqlJsonb),
      optional (col ''error_message'' SqlText),
      by_default ''now()'' (col ''created_at'' SqlTimestamptz)]
     [(''PK_notification_logs'', Primary_Key [''id''])],
     CreateIndex ''IDX_notification_logs_owner_created'' ''notification_logs'' [''owner_id'', ''created_at''],
     CreateIndex ''IDX_notification_logs_guild_created'' ''notification_logs'' [''guild_id'', ''created_at'']]"

(* libs/database/src/migrations/1780500000000-add-notification-log.ts 39-45 AddNotificationLog.down *)
definition add_notification_log_down :: "statement list" where
  "add_notification_log_down =
    [DropIndex ''IDX_notification_logs_guild_created'',
     DropIndex ''IDX_notification_logs_owner_created'',
     DropTable ''notification_logs'',
     DropType ''notification_logs_status_enum'',
     DropType ''notification_logs_type_enum'']"

(* libs/database/src/migrations/1780510000000-add-guild-manager-role.ts 6-11 AddGuildManagerRole.up *)
definition add_guild_manager_role_up :: "statement list" where
  "add_guild_manager_role_up =
    [AddColumn ''discord_guilds'' (optional (col ''manager_role_id'' SqlVarchar))]"

(* libs/database/src/migrations/1780510000000-add-guild-manager-role.ts 13-18 AddGuildManagerRole.down *)
definition add_guild_manager_role_down :: "statement list" where
  "add_guild_manager_role_down =
    [DropColumn ''discord_guilds'' ''manager_role_id'']"

(* libs/database/src/migrations/1780520000000-replace-guild-manager-role-with-permission.ts 6-14 ReplaceGuildManagerRoleWithPermission.up *)
definition replace_guild_manager_role_with_permission_up :: "statement list" where
  "replace_guild_manager_role_with_permission_up =
    [RenameColumn ''discord_guilds'' ''manager_role_id'' ''manager_permission'',
     UpdateRows [(''discord_guilds'', ''manager_permission'')]]"

(* libs/database/src/migrations/1780520000000-replace-guild-manager-role-with-permission.ts 16-24 ReplaceGuildManagerRoleWithPermission.down *)
definition replace_guild_manager_role_with_permission_down :: "statement list" where
  "replace_guild_manager_role_with_permission_down =
    [UpdateRows [(''discord_guilds'', ''manager_permission'')],
     RenameColumn ''discord_guilds'' ''manager_permission'' ''manager_role_id'']"

(* libs/database/src/migrations/1780530000000-add-webhook-notification-status.ts 6-14 AddWebhookNotificationStatus.up *)
definition add_webhook_notification_status_up :: "statement list" where
  "add_webhook_notification_status_up =
    [CreateType ''webhook_notifications_status_enum'' [''active'', ''suspended''],
     AddColumn ''webhook_notifications'' (by_default ''active'' (col ''status'' (SqlEnum ''webhook_notifications_status_enum'')))]"

(* libs/database/src/migrations/1780530000000-add-webhook-notification-status.ts 16-23 AddWebhookNotificationStatus.down *)
definition add_webhook_notification_status_down :: "statement list" where
  "add_webhook_notification_status_down =
    [DropColumn ''webhook_notifications'' ''status'',
     DropType ''webhook_notifications_status_enum'']"

(* libs/database/src/migrations/1780600000000-add-twitch-user-auth.ts 6-9 AddTwitchUserAuth.up *)
definition add_twitch_user_auth_up :: "statement list" where
  "add_twitch_user_auth_up =
    [ChangeType ''users'' ''twitch_token_expires_at'' SqlTimestamptz,
     AddColumn ''twitch_streamer'' (by_default ''true'' (col ''allow_personal_subscriptions'' SqlBoolean))]"

(* libs/database/src/migrations/1780600000000-add-twitch-user-auth.ts 11-14 AddTwitchUserAuth.down *)
definition add_twitch_user_auth_down :: "statement list" where
  "add_twitch_user_auth_down =
    [ChangeType ''users'' ''twitch_token_expires_at'' SqlDate,
     DropColumn ''twitch_streamer'' ''allow_personal_subscriptions'']"

(* libs/database/src/migrations/1782291741174-expires-at-type-fix.ts 6-11 ExpiresAtTypeFix.up *)
definition expires_at_type_fix_up :: "statement list" where
  "expires_at_type_fix_up =
    [DropColumn ''users'' ''discord_token_expires_at'',
     AddColumn ''users'' (optional (col ''discord_token_expires_at'' SqlTimestamptz)),
     DropColumn ''notification_logs'' ''created_at'',
     AddColumn ''notification_logs'' (by_default ''now()'' (col ''created_at'' SqlTimestamp))]"

(* libs/database/src/migrations/1782291741174-expires-at-type-fix.ts 13-18 ExpiresAtTypeFix.down *)
definition expires_at_type_fix_down :: "statement list" where
  "expires_at_type_fix_down =
    [DropColumn ''notification_logs'' ''created_at'',
     AddColumn ''notification_logs'' (by_default ''now()'' (col ''created_at'' SqlTimestamptz)),
     DropColumn ''users'' ''discord_token_expires_at'',
     AddColumn ''users'' (optional (col ''discord_token_expires_at'' SqlDate))]"

(* libs/database/src/migrations/1782994146700-add-streamer-internal-flag.ts 6-8 AddStreamerInternalFlag.up *)
definition add_streamer_internal_flag_up :: "statement list" where
  "add_streamer_internal_flag_up =
    [AddColumn ''twitch_streamer'' (by_default ''false'' (optional (col ''is_internal'' SqlBoolean)))]"

(* libs/database/src/migrations/1782994146700-add-streamer-internal-flag.ts 10-12 AddStreamerInternalFlag.down *)
definition add_streamer_internal_flag_down :: "statement list" where
  "add_streamer_internal_flag_down =
    [DropColumn ''twitch_streamer'' ''is_internal'']"

(* libs/database/src/migrations/1783159087616-add-is-disabled-field.ts 6-9 AddIsDisabledField.up *)
definition add_is_disabled_field_up :: "statement list" where
  "add_is_disabled_field_up =
    [AddColumn ''discord_notifications'' (by_default ''false'' (optional (col ''is_disabled'' SqlBoolean))),
     AddColumn ''webhook_notifications'' (by_default ''false'' (optional (col ''is_disabled'' SqlBoolean)))]"

(* libs/database/src/migrations/1783159087616-add-is-disabled-field.ts 11-14 AddIsDisabledField.down *)
definition add_is_disabled_field_down :: "statement list" where
  "add_is_disabled_field_down =
    [DropColumn ''webhook_notifications'' ''is_disabled'',
     DropColumn ''discord_notifications'' ''is_disabled'']"

(* libs/database/src/migrations/1783200000000-add-game-filters.ts 6-9 AddGameFilters.up *)
definition add_game_filters_up :: "statement list" where
  "add_game_filters_up =
    [AddColumn ''discord_notifications'' (by_default ''[]'' (col ''game_filters'' SqlJsonb)),
     AddColumn ''webhook_notifications'' (by_default ''[]'' (col ''game_filters'' SqlJsonb))]"

(* libs/database/src/migrations/1783200000000-add-game-filters.ts 11-14 AddGameFilters.down *)
definition add_game_filters_down :: "statement list" where
  "add_game_filters_down =
    [DropColumn ''webhook_notifications'' ''game_filters'',
     DropColumn ''discord_notifications'' ''game_filters'']"

(* libs/database/src/migrations/1783300000000-backfill-webhook-log-guild-id.ts 6-16 BackfillWebhookLogGuildId.up *)
definition backfill_webhook_log_guild_id_up :: "statement list" where
  "backfill_webhook_log_guild_id_up =
    [UpdateRows [(''notification_logs'', ''guild_id''), (''notification_logs'', ''notification_id''), (''notification_logs'', ''notification_type''), (''webhook_notifications'', ''discord_guild_id''), (''webhook_notifications'', ''id'')]]"

(* libs/database/src/migrations/1783300000000-backfill-webhook-log-guild-id.ts 18-20 BackfillWebhookLogGuildId.down *)
definition backfill_webhook_log_guild_id_down :: "statement list" where
  "backfill_webhook_log_guild_id_down =
    []"

definition all_migrations :: "migration list" where
  "all_migrations =
    [\<lparr>mi_name = ''Init1777210052158'', mi_up = init_tables_up, mi_down = init_tables_down\<rparr>,
     \<lparr>mi_name = ''AddDiscordAuth1777225679873'', mi_up = add_discord_auth_up, mi_down = add_discord_auth_down\<rparr>,
     \<lparr>mi_name = ''AddBaseTwitchStructure1777680536775'', mi_up = add_base_twitch_structure_up, mi_down = add_base_twitch_structure_down\<rparr>,
     \<lparr>mi_name = ''ChangeTwitchNotificationsSystem1777765520945'', mi_up = change_twitch_notifications_system_up, mi_down = change_twitch_notifications_system_down\<rparr>,
     \<lparr>mi_name = ''UpdateTwitchAppWithWebhookOptions1777931333511'', mi_up = update_twitch_app_with_webhook_options_up, mi_down = update_twitch_app_with_webhook_options_down\<rparr>,
     \<lparr>mi_name = ''AddTwitchEventStatus1778528173638'', mi_up = add_twitch_event_status_up, mi_down = add_twitch_event_status_down\<rparr>,
     \<lparr>mi_name = ''AbstractDiscordNotifications1778874487532'', mi_up = abstract_discord_notifications_up, mi_down = abstract_discord_notifications_down\<rparr>,
     \<lparr>mi_name = ''ChangeCreditsLogic1778921795308'', mi_up = change_credits_logic_up, mi_down = change_credits_logic_down\<rparr>,
     \<lparr>mi_name = ''FixColumnNames1778950576719'', mi_up = fix_column_names_up, mi_down = fix_column_names_down\<rparr>,
     \<lparr>mi_name = ''ChangeCreditsLogic1778957531617'', mi_up = change_credits_logic_again_up, mi_down = change_credits_logic_again_down\<rparr>,
     \<lparr>mi_name = ''AddRoleModel1779144874026'', mi_up = add_role_model_up, mi_down = add_role_model_down\<rparr>,
     \<lparr>mi_name = ''AuthChanges1779991707985'', mi_up = auth_changes_up, mi_down = auth_changes_down\<rparr>,
     \<lparr>mi_name = ''GlobalDbChanges1780093794024'', mi_up = global_db_changes_up, mi_down = global_db_changes_down\<rparr>,
     \<lparr>mi_name = ''WebhookNotificationCostType1780100000000'', mi_up = webhook_notification_cost_type_up, mi_down = webhook_notification_cost_type_down\<rparr>,
     \<lparr>mi_name = ''FixNotificationRelations1780271792254'', mi_up = fix_notification_relations_up, mi_down = fix_notification_relations_down\<rparr>,
     \<lparr>mi_name = ''CastNullToUserStreamer1780327124519'', mi_up = cast_null_to_user_streamer_up, mi_down = cast_null_to_user_streamer_down\<rparr>,
     \<lparr>mi_name = ''AddBroadcasterLogo1780343798148'', mi_up = add_broadcaster_logo_up, mi_down = add_broadcaster_logo_down\<rparr>,
     \<lparr>mi_name = ''CascadeDeleteNotificationsOnEvent1780400000000'', mi_up = cascade_delete_notifications_on_event_up, mi_down = cascade_delete_notifications_on_event_down\<rparr>,
     \<lparr>mi_name = ''AddNotificationLog1780500000000'', mi_up = add_notification_log_up, mi_down = add_notification_log_down\<rparr>,
     \<lparr>mi_name = ''AddGuildManagerRole1780510000000'', mi_up = add_guild_manager_role_up, mi_down = add_guild_manager_role_down\<rparr>,
     \<lparr>mi_name = ''ReplaceGuildManagerRoleWithPermission1780520000000'', mi_up = replace_guild_manager_role_with_permission_up, mi_down = replace_guild_manager_role_with_permission_down\<rparr>,
     \<lparr>mi_name = ''AddWebhookNotificationStatus1780530000000'', mi_up = add_webhook_notification_status_up, mi_down = add_webhook_notification_status_down\<rparr>,
     \<lparr>mi_name = ''AddTwitchUserAuth1780600000000'', mi_up = add_twitch_user_auth_up, mi_down = add_twitch_user_auth_down\<rparr>,
     \<lparr>mi_name = ''ExpiresAtTypeFix1782291741174'', mi_up = expires_at_type_fix_up, mi_down = expires_at_type_fix_down\<rparr>,
     \<lparr>mi_name = ''AddStreamerInternalFlag1782994146700'', mi_up = add_streamer_internal_flag_up, mi_down = add_streamer_internal_flag_down\<rparr>,
     \<lparr>mi_name = ''AddIsDisabledField1783159087616'', mi_up = add_is_disabled_field_up, mi_down = add_is_disabled_field_down\<rparr>,
     \<lparr>mi_name = ''AddGameFilters1783200000000'', mi_up = add_game_filters_up, mi_down = add_game_filters_down\<rparr>,
     \<lparr>mi_name = ''BackfillWebhookLogGuildId1783300000000'', mi_up = backfill_webhook_log_guild_id_up, mi_down = backfill_webhook_log_guild_id_down\<rparr>]"


section \<open>What the entities declare\<close>

text \<open>
  The table that TypeORM derives from the decorators of an entity: the key and the creation date
  have generated columns, a property without a type gets the one of its TypeScript type, a join column
  has the type of the column it refers to, the owning side of a one-to-one relation is unique, and a
  join table has both keys as its primary key, each with an index. Constraints have no names here,
  because TypeORM derives them from the columns.
\<close>

record declared_table =
  dt_name :: string
  dt_columns :: "sql_column list"
  dt_rules :: "table_rule list"
  dt_indexes :: "string list list"

definition generated_id :: sql_column where
  "generated_id = by_default ''uuid_generate_v4()'' (col ''id'' SqlUuid)"

definition create_date :: sql_column where
  "create_date = by_default ''now()'' (col ''created_at'' SqlTimestamp)"

definition entity_table :: "string \<Rightarrow> sql_column list \<Rightarrow> table_rule list \<Rightarrow> string list list \<Rightarrow> declared_table" where
  "entity_table n cs rs is = \<lparr>dt_name = n, dt_columns = [generated_id] @ cs @ [create_date],
     dt_rules = Primary_Key [''id''] # rs, dt_indexes = is\<rparr>"

definition many_to_one :: "string \<Rightarrow> string \<Rightarrow> table_rule" where
  "many_to_one c t = Foreign_Key c t ''id'' No_Action No_Action"

(* libs/database/src/entities/user.entity.ts 13-93 UserEntity *)
definition users_table :: declared_table where
  "users_table = entity_table ''users''
     [col ''display_name'' SqlVarchar, col ''balance'' (SqlNumeric 3 1), optional (col ''email'' SqlVarchar),
      optional (col ''discord_id'' SqlVarchar), optional (col ''password'' SqlVarchar),
      by_default ''active'' (col ''status'' (SqlEnum ''users_status_enum'')),
      optional (col ''discord_access_token'' SqlVarchar), optional (col ''discord_refresh_token'' SqlVarchar),
      optional (col ''discord_token_expires_at'' SqlTimestamptz), optional (col ''twitch_access_token'' SqlVarchar),
      optional (col ''twitch_refresh_token'' SqlVarchar), optional (col ''twitch_token_expires_at'' SqlTimestamptz),
      optional (col ''twitchAccountId'' SqlUuid)]
     [Unique_Columns [''email''], Unique_Columns [''discord_id''], Unique_Columns [''twitchAccountId''],
      many_to_one ''twitchAccountId'' ''twitch_streamer''] []"

(* libs/database/src/entities/user.entity.ts 83-89 UserEntity.roles *)
definition user_roles_table :: declared_table where
  "user_roles_table =
     \<lparr>dt_name = ''user_roles'', dt_columns = [col ''user_id'' SqlUuid, col ''role_id'' SqlUuid],
      dt_rules = [Primary_Key [''user_id'', ''role_id''], Foreign_Key ''user_id'' ''users'' ''id'' Cascade Cascade,
        many_to_one ''role_id'' ''roles''],
      dt_indexes = [[''user_id''], [''role_id'']]\<rparr>"

(* libs/database/src/entities/user-session.entity.ts 4-24 UserSessionEntity *)
definition user_sessions_table :: declared_table where
  "user_sessions_table = entity_table ''user_sessions''
     [col ''user_id'' SqlUuid, col ''refresh_token_hash'' SqlVarchar, col ''expires_at'' SqlTimestamptz]
     [Foreign_Key ''user_id'' ''users'' ''id'' Cascade No_Action] []"

(* libs/database/src/entities/role.entity.ts 14-34 RoleEntity *)
definition roles_table :: declared_table where
  "roles_table =
     \<lparr>dt_name = ''roles'', dt_columns = [generated_id, col ''name'' SqlVarchar,
        by_default ''0'' (col ''rolePriority'' SqlInteger), col ''permissions'' (SqlEnumArray ''roles_permissions_enum'')],
      dt_rules = [Primary_Key [''id''], Unique_Columns [''name'']], dt_indexes = []\<rparr>"

(* libs/database/src/entities/twitch-app.entity.ts 10-47 TwitchAppEntity *)
definition twitch_apps_table :: declared_table where
  "twitch_apps_table = entity_table ''twitch_apps''
     [col ''name'' SqlVarchar, by_default ''active'' (col ''status'' SqlVarchar), col ''client_id'' SqlVarchar,
      col ''client_secret'' SqlVarchar, col ''webhook_secret'' SqlVarchar, optional (col ''access_token'' SqlVarchar),
      optional (col ''token_expires_at'' SqlTimestamp), by_default ''0'' (col ''current_cost'' SqlInteger),
      by_default ''9500'' (col ''max_cost'' SqlInteger)]
     [Unique_Columns [''client_id'']] []"

(* libs/database/src/entities/twitch-streamer.ts 5-50 TwitchStreamerEntity *)
definition twitch_streamer_table :: declared_table where
  "twitch_streamer_table = entity_table ''twitch_streamer''
     [col ''broadcaster_id'' SqlVarchar, col ''twitch_login'' SqlVarchar, col ''display_name'' SqlVarchar,
      optional (col ''profile_image_url'' SqlVarchar), optional (col ''profile_image_updated_at'' SqlTimestamptz),
      by_default ''false'' (col ''is_partner'' SqlBoolean), by_default ''false'' (optional (col ''is_internal'' SqlBoolean)),
      optional (col ''user_id'' SqlUuid), by_default ''true'' (col ''allow_personal_subscriptions'' SqlBoolean)]
     [Unique_Columns [''twitch_login''], Unique_Columns [''user_id''], many_to_one ''user_id'' ''users''] []"

(* libs/database/src/entities/twitch-streamer-event.ts 23-71 TwitchStreamerEventEntity *)
definition twitch_streamer_events_table :: declared_table where
  "twitch_streamer_events_table = entity_table ''twitch_streamer_events''
     [col ''streamer_id'' SqlUuid, col ''twitch_app_id'' SqlUuid, by_default ''1'' (col ''app_cost'' (SqlNumeric 3 1)),
      optional (col ''subscription_id'' SqlVarchar), col ''event'' SqlVarchar, col ''event_status'' SqlVarchar]
     [Unique_Columns [''event'', ''streamer_id''], Unique_Columns [''subscription_id''],
      many_to_one ''streamer_id'' ''twitch_streamer'', many_to_one ''twitch_app_id'' ''twitch_apps''] []"

(* libs/database/src/entities/discord-guild.entity.ts 6-37 DiscordGuildEntity *)
definition discord_guilds_table :: declared_table where
  "discord_guilds_table = entity_table ''discord_guilds''
     [col ''guild_id'' SqlVarchar, optional (col ''manager_permission'' SqlVarchar),
      by_default ''0'' (col ''balance'' (SqlNumeric 3 1))]
     [Unique_Columns [''guild_id'']] [[''guild_id'']]"

(* libs/database/src/entities/discord-notification.entity.ts 13-77 DiscordNotificationEntity *)
definition discord_notifications_table :: declared_table where
  "discord_notifications_table = entity_table ''discord_notifications''
     [col ''owner_id'' SqlUuid, col ''cost'' (SqlNumeric 3 1),
      by_default ''active'' (col ''status'' (SqlEnum ''discord_notifications_status_enum'')),
      by_default ''false'' (optional (col ''is_disabled'' SqlBoolean)),
      col ''cost_type'' (SqlEnum ''discord_notifications_cost_type_enum''), col ''channel_id'' SqlVarchar,
      col ''guild_id'' SqlUuid, col ''streamer_event_id'' SqlUuid, optional (col ''message_payload'' SqlJsonb),
      by_default ''[]'' (col ''game_filters'' SqlJsonb)]
     [many_to_one ''owner_id'' ''users'', many_to_one ''guild_id'' ''discord_guilds'',
      Foreign_Key ''streamer_event_id'' ''twitch_streamer_events'' ''id'' Cascade No_Action] []"

(* libs/database/src/entities/webhook-notification.entity.ts 12-80 WebhookNotificationEntity *)
definition webhook_notifications_table :: declared_table where
  "webhook_notifications_table = entity_table ''webhook_notifications''
     [col ''streamer_event_id'' SqlUuid, col ''owner_id'' SqlUuid, col ''cost'' (SqlNumeric 3 1),
      by_default ''active'' (col ''status'' (SqlEnum ''webhook_notifications_status_enum'')),
      by_default ''false'' (optional (col ''is_disabled'' SqlBoolean)),
      col ''cost_type'' (SqlEnum ''webhook_notifications_cost_type_enum''),
      col ''type'' (SqlEnum ''webhook_notifications_type_enum''), optional (col ''webhook_url'' SqlVarchar),
      optional (col ''discord_guild_id'' SqlUuid), optional (col ''message_payload'' SqlJsonb),
      by_default ''[]'' (col ''game_filters'' SqlJsonb)]
     [many_to_one ''owner_id'' ''users'', many_to_one ''discord_guild_id'' ''discord_guilds'',
      Foreign_Key ''streamer_event_id'' ''twitch_streamer_events'' ''id'' Cascade No_Action] []"

(* libs/database/src/entities/notification-log.entity.ts 13-49 NotificationLogEntity *)
definition notification_logs_table :: declared_table where
  "notification_logs_table = entity_table ''notification_logs''
     [col ''notification_id'' SqlUuid, col ''notification_type'' (SqlEnum ''notification_logs_type_enum''),
      col ''status'' (SqlEnum ''notification_logs_status_enum''), col ''owner_id'' SqlUuid,
      optional (col ''guild_id'' SqlVarchar), col ''streamer_login'' SqlVarchar, col ''event_type'' SqlVarchar,
      optional (col ''request_payload'' SqlJsonb), optional (col ''error_message'' SqlText)]
     [] [[''owner_id'', ''created_at''], [''guild_id'', ''created_at'']]"

definition declared_tables :: "declared_table list" where
  "declared_tables = [users_table, user_roles_table, user_sessions_table, roles_table, twitch_apps_table,
     twitch_streamer_table, twitch_streamer_events_table, discord_guilds_table, discord_notifications_table,
     webhook_notifications_table, notification_logs_table]"

definition declared_enums :: "(string \<times> string list) list" where
  "declared_enums =
     [(''users_status_enum'', [''active'', ''blocked'']),
      (''roles_permissions_enum'', [''admin'', ''read_apps'', ''manage_apps'', ''read_roles'', ''manage_roles'']),
      (''discord_notifications_status_enum'', [''active'', ''suspended'']),
      (''webhook_notifications_status_enum'', [''active'', ''suspended'']),
      (''discord_notifications_cost_type_enum'', [''personal'', ''credit'', ''guild'']),
      (''webhook_notifications_cost_type_enum'', [''personal'', ''credit'', ''guild'']),
      (''webhook_notifications_type_enum'', [''discord'']),
      (''notification_logs_type_enum'', [''discord'', ''webhook'']),
      (''notification_logs_status_enum'', [''sent'', ''failed''])]"

definition same_members :: "'a list \<Rightarrow> 'a list \<Rightarrow> bool" where
  "same_members xs ys \<longleftrightarrow> list_all (\<lambda>x. x \<in> set ys) xs \<and> list_all (\<lambda>y. y \<in> set xs) ys"

definition has_table :: "sql_schema \<Rightarrow> declared_table \<Rightarrow> bool" where
  "has_table s d \<longleftrightarrow> (case table_of (dt_name d) s of None \<Rightarrow> False | Some t \<Rightarrow>
     same_members (tb_columns t) (dt_columns d) \<and> same_members (map snd (tb_rules t)) (dt_rules d))"

definition missing_indexes :: "sql_schema \<Rightarrow> declared_table \<Rightarrow> (string \<times> string list) list" where
  "missing_indexes s d =
     filter (\<lambda>i. i \<notin> snd ` set (sc_indexes s)) (map (\<lambda>cs. (dt_name d, cs)) (dt_indexes d))"

end
