(* ===== verification/SchemaChecks.thy ===== *)
theory SchemaChecks imports Migrations Streamers DiscordFrame begin

text \<open>
  What the migrations do to a database: run on an empty one they give the tables the entities declare,
  they cannot be reverted past the creation of the logs, and most of them refuse a database that
  already has rows.
\<close>

section \<open>An empty database\<close>

definition fresh_database :: database where
  "fresh_database = \<lparr>db_applied = [], db_schema = empty_schema\<rparr>"

definition ups :: "nat \<Rightarrow> nat \<Rightarrow> statement list" where
  "ups i n = concat (map mi_up (take n (drop i all_migrations)))"

text \<open>What no entity declares any more and no migration drops; and the declared indexes that a migration drops.\<close>

definition abandoned_tables :: "string list" where
  "abandoned_tables =
     [''streamers'', ''twitch_broadcast_subscription'', ''notification_destinations'', ''discord_notification_destinations'']"

definition abandoned_enums :: "(string \<times> string list) list" where
  "abandoned_enums =
     [(''notification_destinations_platform_enum'', [''discord_bot'', ''discord_webhook'', ''telegram_bot'']),
      (''discord_notification_destinations_type_enum'', [''discord_bot'', ''discord_webhook''])]"

definition lost_indexes :: "(string \<times> string list) list" where
  "lost_indexes = [(''notification_logs'', [''owner_id'', ''created_at'']), (''notification_logs'', [''guild_id'', ''created_at''])]"

definition declared_indexes :: "(string \<times> string list) list" where
  "declared_indexes = concat (map (\<lambda>d. map (Pair (dt_name d)) (dt_indexes d)) declared_tables)"

definition matches_entities :: "sql_schema \<Rightarrow> bool" where
  "matches_entities s \<longleftrightarrow> list_all (has_table s) declared_tables \<and>
     same_members (map tb_name (sc_tables s)) (map dt_name declared_tables @ abandoned_tables) \<and>
     same_members (sc_enums s) (declared_enums @ abandoned_enums) \<and>
     same_members (map snd (sc_indexes s)) (filter (\<lambda>i. i \<notin> set lost_indexes) declared_indexes)"

definition settled :: "(statement \<Rightarrow> bool) \<Rightarrow> sql_schema \<Rightarrow> bool" where
  "settled fits s = (if \<not> matches_entities s then False
     else if concat (map (missing_indexes s) declared_tables) \<noteq> lost_indexes then False
     else then_holds (exec_all fits (concat (map mi_down (rev (drop 19 all_migrations)))) s)
       (\<lambda>s'. exec_all fits add_notification_log_down s' = None))"

lemma migrations_settle:
  "then_holds (exec_all fits (concat (map mi_up all_migrations)) empty_schema) (settled fits)"
proof -
  define k9 where "k9 = settled fits"
  define k8 where "k8 = (\<lambda>s. then_holds (exec_all fits (ups 22 6) s) k9)"
  define k7 where "k7 = (\<lambda>s. then_holds (exec_all fits (ups 17 5) s) k8)"
  define k6 where "k6 = (\<lambda>s. then_holds (exec_all fits (ups 15 2) s) k7)"
  define k5 where "k5 = (\<lambda>s. then_holds (exec_all fits (ups 13 2) s) k6)"
  define k4 where "k4 = (\<lambda>s. then_holds (exec_all fits (ups 12 1) s) k5)"
  define k3 where "k3 = (\<lambda>s. then_holds (exec_all fits (ups 9 3) s) k4)"
  define k2 where "k2 = (\<lambda>s. then_holds (exec_all fits (ups 8 1) s) k3)"
  define k1 where "k1 = (\<lambda>s. then_holds (exec_all fits (ups 4 4) s) k2)"
  have "concat (map mi_up all_migrations) =
      ups 0 4 @ ups 4 4 @ ups 8 1 @ ups 9 3 @ ups 12 1 @ ups 13 2 @ ups 15 2 @ ups 17 5 @ ups 22 6"
    by (simp add: ups_def all_migrations_def)
  moreover have "then_holds (exec_all fits (ups 0 4) empty_schema) k1"
    apply code_simp
    apply (unfold k1_def)
    apply code_simp
    apply (unfold k2_def)
    apply code_simp
    apply (unfold k3_def)
    apply code_simp
    apply (unfold k4_def)
    apply code_simp
    apply (unfold k5_def)
    apply code_simp
    apply (unfold k6_def)
    apply code_simp
    apply (unfold k7_def)
    apply code_simp
    apply (unfold k8_def)
    apply code_simp
    apply (unfold k9_def)
    apply code_simp
    done
  ultimately show ?thesis
    by (simp only: then_holds_append k1_def k2_def k3_def k4_def k5_def k6_def k7_def k8_def k9_def)
qed

lemma migrations_run:
  obtains s where "migration_run fits all_migrations fresh_database =
      Some \<lparr>db_applied = map mi_name all_migrations, db_schema = s\<rparr>" and "settled fits s"
proof -
  obtain s where s: "exec_all fits (concat (map mi_up all_migrations)) empty_schema = Some s" "settled fits s"
    using then_holdsD [OF migrations_settle] by blast
  have "pending all_migrations fresh_database = all_migrations" by (simp add: pending_def fresh_database_def)
  then show ?thesis using that s by (simp add: migration_run_def fresh_database_def)
qed

lemma migration_names: "distinct (map mi_name all_migrations)"
  by (simp add: all_migrations_def)

lemma same_members_iff: "same_members xs ys \<longleftrightarrow> set xs = set ys"
  by (auto simp: same_members_def list_all_iff)

text \<open>
  C38. Run on an empty database, the migrations succeed and give every table that the entities
  declare, with exactly its columns, types, defaults and constraints, every enumeration, and no index that is not
  declared. They differ from the entities in three things: four tables and two enumerations of earlier
  versions are never dropped, and of the declared indexes two are missing, because dropping and adding
  \<open>created_at\<close> of the logs also drops the indexes on it.
\<close>

theorem migrations_match_entities:
  "\<exists>db. migration_run fits all_migrations fresh_database = Some db \<and>
     list_all (has_table (db_schema db)) declared_tables \<and>
     tb_name ` set (sc_tables (db_schema db)) = dt_name ` set declared_tables \<union>
       {''streamers'', ''twitch_broadcast_subscription'', ''notification_destinations'', ''discord_notification_destinations''} \<and>
     set (sc_enums (db_schema db)) = set declared_enums \<union>
       {(''notification_destinations_platform_enum'', [''discord_bot'', ''discord_webhook'', ''telegram_bot'']),
        (''discord_notification_destinations_type_enum'', [''discord_bot'', ''discord_webhook''])} \<and>
     snd ` set (sc_indexes (db_schema db)) = set declared_indexes -
       {(''notification_logs'', [''owner_id'', ''created_at'']), (''notification_logs'', [''guild_id'', ''created_at''])}"
proof -
  obtain s where s: "migration_run fits all_migrations fresh_database =
      Some \<lparr>db_applied = map mi_name all_migrations, db_schema = s\<rparr>" "settled fits s"
    by (rule migrations_run)
  then have m: "matches_entities s" by (simp add: settled_def split: if_splits)
  note members = m [unfolded matches_entities_def same_members_iff, simplified]
  from members have "tb_name ` set (sc_tables s) = dt_name ` set declared_tables \<union> set abandoned_tables"
    "set (sc_enums s) = set declared_enums \<union> set abandoned_enums"
    "snd ` set (sc_indexes s) = set declared_indexes - set lost_indexes" "list_all (has_table s) declared_tables"
    by (auto simp: set_diff_eq)
  with s(1) show ?thesis by (simp add: abandoned_tables_def abandoned_enums_def lost_indexes_def)
qed

lemma all_migrations_length: "length all_migrations = 28"
  by (simp add: all_migrations_def)

lemma reverts_of_all:
  "reverts fits all_migrations (28 - i) \<lparr>db_applied = map mi_name all_migrations, db_schema = s\<rparr> =
    map_option (\<lambda>s'. \<lparr>db_applied = map mi_name (take i all_migrations), db_schema = s'\<rparr>)
      (exec_all fits (concat (map mi_down (rev (drop i all_migrations)))) s)"
  using reverts_exec [OF migration_names, of "take i all_migrations" "drop i all_migrations"
      "\<lparr>db_applied = map mi_name all_migrations, db_schema = s\<rparr>" fits]
  by (simp add: all_migrations_length)

lemma tenth_revert_fails:
  assumes "settled fits s"
  shows "reverts fits all_migrations (10 + j) \<lparr>db_applied = map mi_name all_migrations, db_schema = s\<rparr> = None"
proof -
  have "rev (drop 18 all_migrations) = rev (drop 19 all_migrations) @ [all_migrations ! 18]"
    using Cons_nth_drop_Suc [of 18 all_migrations] by (simp add: all_migrations_length flip: rev.simps(2))
  moreover have "mi_down (all_migrations ! 18) = add_notification_log_down" by (simp add: all_migrations_def)
  ultimately have "reverts fits all_migrations (28 - 18) \<lparr>db_applied = map mi_name all_migrations, db_schema = s\<rparr> = None"
    using assms unfolding reverts_of_all
    by (auto simp: settled_def exec_all_append then_holds_def split: if_splits option.splits)
  then show ?thesis by (simp add: reverts_add)
qed

lemma reverts_stop:
  assumes "settled fits s" and "reverts fits all_migrations k \<lparr>db_applied = map mi_name all_migrations, db_schema = s\<rparr> = Some db"
  shows "k \<le> 9 \<and> db_applied db = map mi_name (take (28 - k) all_migrations)"
proof -
  have k: "k \<le> 9"
  proof (rule ccontr)
    assume "\<not> k \<le> 9"
    then have "k = 10 + (k - 10)" by simp
    then show False using tenth_revert_fails [OF assms(1), of "k - 10"] assms(2) by simp
  qed
  then show ?thesis
    using reverts_of_all [of fits "28 - k" s] assms(2) by (auto simp: map_option_case split: option.splits)
qed

text \<open>
  The migration that creates the logs can never be reverted: however often the migrations
  are reverted after having been run on an empty database, either a revert fails or that migration
  is still applied. Its \<open>down\<close> drops the two indexes that a later migration has lost.
\<close>

theorem logs_migration_never_reverted:
  assumes "migration_run fits all_migrations fresh_database = Some db"
    and "reverts fits all_migrations k db = Some db'"
  shows "''AddNotificationLog1780500000000'' \<in> set (db_applied db')"
proof -
  obtain s where "migration_run fits all_migrations fresh_database =
      Some \<lparr>db_applied = map mi_name all_migrations, db_schema = s\<rparr>" "settled fits s"
    by (rule migrations_run)
  then have k: "k \<le> 9" "db_applied db' = map mi_name (take (28 - k) all_migrations)"
    using reverts_stop [of fits s k db'] assms by auto
  then have "take (28 - k) all_migrations ! 18 = all_migrations ! 18" "18 < length (take (28 - k) all_migrations)"
    by (auto simp: all_migrations_def)
  then have "mi_name (all_migrations ! 18) \<in> set (db_applied db')"
    unfolding k(2) set_map by (metis image_eqI nth_mem)
  then show ?thesis by (simp add: all_migrations_def)
qed

theorem logs_migration_never_reverted_witness:
  "\<exists>db db'. migration_run (\<lambda>_. True) all_migrations fresh_database = Some db \<and>
     reverts (\<lambda>_. True) all_migrations 9 db = Some db' \<and>
     ''AddNotificationLog1780500000000'' \<in> set (db_applied db')"
proof -
  obtain s where s: "migration_run (\<lambda>_. True) all_migrations fresh_database =
      Some \<lparr>db_applied = map mi_name all_migrations, db_schema = s\<rparr>" "settled (\<lambda>_. True) s"
    by (rule migrations_run)
  obtain s' where "exec_all (\<lambda>_. True) (concat (map mi_down (rev (drop 19 all_migrations)))) s = Some s'"
    using s(2) by (auto simp: settled_def then_holds_def split: if_splits option.splits)
  then have "reverts (\<lambda>_. True) all_migrations 9 \<lparr>db_applied = map mi_name all_migrations, db_schema = s\<rparr> =
      Some \<lparr>db_applied = map mi_name (take 19 all_migrations), db_schema = s'\<rparr>"
    using reverts_of_all [of "\<lambda>_. True" 19 s] by simp
  then show ?thesis using logs_migration_never_reverted [OF s(1)] s(1) by blast
qed

section \<open>A database with rows\<close>

lemma ups_drop_nothing: "m \<in> set all_migrations \<Longrightarrow> \<not> list_ex drops_table (mi_up m)"
proof -
  have "list_all (\<lambda>m. \<not> list_ex drops_table (mi_up m)) all_migrations" by code_simp
  then show "m \<in> set all_migrations \<Longrightarrow> \<not> list_ex drops_table (mi_up m)" by (auto simp: list_all_iff)
qed

text \<open>
  A pending migration that adds a column without a default that must not be null to a table with
  rows makes the whole run fail, whatever else the database holds, and the transaction leaves nothing of it.
  The migration that is called after fixing the names of columns is of this kind for users,
  applications, streamers and events: it drops the old columns and adds new ones.
\<close>

theorem rows_block_migrations:
  assumes "m \<in> set (pending all_migrations db)" and "has_rows n (db_schema db)" and "list_ex (strict_addition n) (mi_up m)"
  shows "migration_run fits all_migrations db = None"
proof -
  have "list_ex (strict_addition n) (concat (map mi_up (pending all_migrations db)))"
    using assms(1,3) by (auto simp: list_ex_iff)
  moreover have "\<not> list_ex drops_table (concat (map mi_up (pending all_migrations db)))"
    using ups_drop_nothing by (auto simp: list_ex_iff pending_def)
  ultimately show ?thesis by (simp add: migration_run_def rows_refuse [OF assms(2)])
qed

definition used_database :: database where
  "used_database =
     \<lparr>db_applied = map mi_name (take 8 all_migrations),
      db_schema = empty_schema\<lparr>sc_tables := [\<lparr>tb_name = ''twitch_streamer'', tb_columns = [], tb_rules = [], tb_filled = True\<rparr>]\<rparr>\<rparr>"

theorem rows_block_migrations_witness: "migration_run (\<lambda>_. True) all_migrations used_database = None"
proof (rule rows_block_migrations [of "all_migrations ! 8" _ "''twitch_streamer''"])
  show "all_migrations ! 8 \<in> set (pending all_migrations used_database)"
    by (simp add: pending_def used_database_def all_migrations_def)
  show "has_rows ''twitch_streamer'' (db_schema used_database)"
    by (simp add: has_rows_def table_of_def used_database_def)
  show "list_ex (strict_addition ''twitch_streamer'') (mi_up (all_migrations ! 8))"
    by (simp add: all_migrations_def fix_column_names_up_def strict_addition_def col_def)
qed

section \<open>The backfill of the logs\<close>

(* libs/database/src/migrations/1783300000000-backfill-webhook-log-guild-id.ts 7-15 BackfillWebhookLogGuildId.up, the rows *)
definition backfill_log_guilds :: "unit act" where
  "backfill_log_guilds = modify (\<lambda>w. w\<lparr>w_logs := map (\<lambda>l.
     if l_notificationType l = LogWebhook \<and> l_discordGuildId l = None
     then case find (\<lambda>n. wn_id n = l_notificationId l \<and> wn_guildId n \<noteq> None) (w_wnotifs w) of
            None \<Rightarrow> l | Some n \<Rightarrow> l\<lparr>l_discordGuildId := wn_guildId n\<rparr>
     else l) (w_logs w)\<rparr>)"

interpretation logs_frame: discord_frame w_logs
  by unfold_locales simp_all

lemma filter_map_unchanged:
  assumes "\<And>x. x \<in> set xs \<Longrightarrow> f x = x \<or> \<not> P x \<and> \<not> P (f x)"
  shows "filter P (map f xs) = filter P xs"
  using assms
proof (induction xs)
  case (Cons x xs)
  then have "f x = x \<or> \<not> P x \<and> \<not> P (f x)" and "filter P (map f xs) = filter P xs" by simp_all
  then show ?case by auto
qed simp

lemma backfill_invisible:
  assumes "\<forall>n \<in> set (w_wnotifs w). \<forall>x. wn_guildId n = Some x \<longrightarrow> x \<in> g_id ` set (w_guilds w)"
    and "discordGuildId \<notin> g_id ` set (w_guilds w)"
  shows "filter (\<lambda>l. l_discordGuildId l = Some discordGuildId) (w_logs (snd (backfill_log_guilds w))) =
    filter (\<lambda>l. l_discordGuildId l = Some discordGuildId) (w_logs w)"
proof -
  have "find (\<lambda>n. wn_id n = k \<and> wn_guildId n \<noteq> None) (w_wnotifs w) = Some n \<Longrightarrow> wn_guildId n \<noteq> Some discordGuildId" for k n
    using assms by (auto simp: find_Some_iff)
  then show ?thesis
    by (simp add: backfill_log_guilds_def exec) (rule filter_map_unchanged, auto split: option.splits)
qed

text \<open>
  The backfill of the logs of webhooks does not reach the lists it was made for: it writes
  the identifier of the row of the guild, while the worker writes, and the list of a guild selects, the identifier
  of the guild at Discord. When no row has such an identifier, the list of every guild is after the backfill what the
  logs before it gave.
\<close>

theorem backfilled_logs_stay_hidden:
  assumes "\<forall>n \<in> set (w_wnotifs w). \<forall>x. wn_guildId n = Some x \<longrightarrow> x \<in> g_id ` set (w_guilds w)"
    and "discordGuildId \<notin> g_id ` set (w_guilds w)"
    and "fst (getGuildLogs E discordGuildId userId page pageSize (snd (backfill_log_guilds w))) = Inr (ms, n)"
  shows "ms = map logToModel (page_rows page pageSize (newest_first l_createdAt
      (filter (\<lambda>l. l_discordGuildId l = Some discordGuildId) (w_logs w)))) \<and>
    n = length (filter (\<lambda>l. l_discordGuildId l = Some discordGuildId) (w_logs w))"
proof -
  define w1 where "w1 = snd (backfill_log_guilds w)"
  have "w_logs (snd (assertAccess E userId discordGuildId w1)) = w_logs w1"
    using relatesD [OF logs_frame.keep_access(1), of w1 E userId discordGuildId] by (simp add: same_def)
  then show ?thesis
    using assms(3) backfill_invisible [OF assms(1,2)] unfolding getGuildLogs_def paginate_logs_def w1_def [symmetric]
    by (auto simp: exec Let_def newest_first_def split: prod.splits sum.splits)
qed

definition backfill_world :: world where
  "backfill_world = sample_world\<lparr>
     w_guilds := [\<lparr>g_id = ''g'', g_discordGuildId = ''77'', g_managerPermission = None, g_balance = 0, g_createdAt = 0\<rparr>],
     w_wnotifs := [\<lparr>wn_id = ''n'', wn_streamerEventId = ''e'', wn_ownerId = ''u'', wn_cost = 0, wn_status = Active,
       wn_isDisabled = None, wn_costType = Guild, wn_type = WebhookDiscord, wn_webhookUrl = None, wn_guildId = Some ''g'',
       wn_messagePayload = None, wn_gameFilters = [], wn_createdAt = 0\<rparr>],
     w_logs := [\<lparr>l_id = ''l'', l_notificationId = ''n'', l_notificationType = LogWebhook, l_status = Sent, l_ownerId = ''u'',
       l_discordGuildId = None, l_streamerLogin = ''ann'', l_eventType = ''stream.online'', l_requestPayload = None,
       l_errorMessage = None, l_createdAt = 0\<rparr>],
     w_redis := [guildUserAccess ''77'' ''u'' \<mapsto> (''true'', None)]\<rparr>"

theorem backfilled_logs_stay_hidden_witness:
  "map l_discordGuildId (w_logs (snd (backfill_log_guilds backfill_world))) = [Some ''g''] \<and>
   fst (getGuildLogs sample_env ''77'' ''u'' 1 10 (snd (backfill_log_guilds backfill_world))) = Inr ([], 0)"
proof -
  have filled: "map l_discordGuildId (w_logs (snd (backfill_log_guilds backfill_world))) = [Some ''g'']"
    by (simp add: backfill_log_guilds_def backfill_world_def exec)
  have "json_parse (x_canon sample_env) ''true'' = Some (JBool True)" by code_simp
  then have "fst (assertAccess sample_env ''u'' ''77'' (snd (backfill_log_guilds backfill_world))) = Inr ()"
    by (simp add: assertAccess_def canAccessGuild_def cached_access_def getOrSet_def redis_get_def lookup_def
        backfill_log_guilds_def backfill_world_def exec truthy_json_def)
  then obtain w1 where "assertAccess sample_env ''u'' ''77'' (snd (backfill_log_guilds backfill_world)) = (Inr (), w1)"
    by (metis prod.collapse)
  then obtain ms n where "fst (getGuildLogs sample_env ''77'' ''u'' 1 10 (snd (backfill_log_guilds backfill_world))) = Inr (ms, n)"
    by (auto simp: getGuildLogs_def paginate_logs_def exec Let_def)
  then show ?thesis
    using backfilled_logs_stay_hidden [of backfill_world "''77''" sample_env "''u''" 1 10 ms n] filled
    by (simp add: backfill_world_def newest_first_def page_rows_def)
qed

end
