(* ===== verification/Validation.thy ===== *)
theory Validation imports Users DiscordHandlers begin

text \<open>
  Request bodies and queries before they reach a route. The decorators of a DTO are data, a list of
  fields with their rules; \<open>pipe\<close> is the \<open>ValidationPipe\<close> the API installs, with \<open>transform\<close> and
  \<open>whitelist\<close>: it drops what is not declared, fills in the defaults, converts the fields marked with
  \<open>Type(() => Number)\<close> and gives the names of the fields that break a rule. The handlers of the bot's
  calls use the same pipe through \<open>RpcPayload\<close>. What counts as an address of mail or as a UUID is the
  library's (\<open>v_email\<close>, \<open>v_uuid\<close>), and \<open>v_number\<close> is \<open>Number(text).toString()\<close>. The second part reads the accepted
  fields as the records the services are modelled on.
\<close>

section \<open>Numbers\<close>

text \<open>\<open>decimal_of\<close> reads the text ECMAScript prints for a finite number as \<open>m * 10 ^ e\<close>.\<close>

definition unsigned_of :: "string \<Rightarrow> (int \<times> int) option" where
  "unsigned_of s =
     (let whole = takeWhile is_digit s;
          rest = dropWhile is_digit s;
          frac = (case rest of c # t \<Rightarrow> if c = CHR ''.'' then takeWhile is_digit t else [] | [] \<Rightarrow> []);
          tail = (case rest of c # t \<Rightarrow> if c = CHR ''.'' then dropWhile is_digit t else rest | [] \<Rightarrow> []) in
      (case nat_of_text (whole @ frac) of None \<Rightarrow> None | Some m \<Rightarrow>
         if whole = [] then None
         else case tail of [] \<Rightarrow> Some (int m, - int (length frac))
         | c # sg # t \<Rightarrow> if c = CHR ''e''
             then map_option (\<lambda>x. (int m, (if sg = CHR ''-'' then - int x else int x) - int (length frac))) (nat_of_text t)
             else None
         | _ \<Rightarrow> None))"

definition decimal_of :: "string \<Rightarrow> (int \<times> int) option" where
  "decimal_of s = (case s of [] \<Rightarrow> None
     | c # t \<Rightarrow> if c = CHR ''-'' then map_option (\<lambda>(m, e). (- m, e)) (unsigned_of t) else unsigned_of s)"

text \<open>The bounds of the DTOs are counted in tenths.\<close>

definition tenths_at_least :: "int \<Rightarrow> int \<times> int \<Rightarrow> bool" where
  "tenths_at_least t d = (let e = snd d + 1 in
     if 0 \<le> e then t \<le> fst d * 10 ^ nat e else t * 10 ^ nat (- e) \<le> fst d)"

definition tenths_at_most :: "int \<Rightarrow> int \<times> int \<Rightarrow> bool" where
  "tenths_at_most t d = (let e = snd d + 1 in
     if 0 \<le> e then fst d * 10 ^ nat e \<le> t else fst d \<le> t * 10 ^ nat (- e))"

section \<open>Decorators\<close>

datatype rule =
  Is_String | Is_Email | Is_UUID | Is_Not_Empty | Is_Boolean | Is_Number "nat option"
| Min_Length nat | Min_Tenths int | Max_Tenths int | Is_Enum "string list" | Is_Array | Is_Object | Each rule

record body_field =
  bf_name :: string
  bf_optional :: bool
  bf_number :: bool
  bf_default :: "json option"
  bf_rules :: "rule list"

record validators =
  v_email :: "string \<Rightarrow> bool"
  v_uuid :: "string \<Rightarrow> bool"
  v_number :: "string \<Rightarrow> string"

definition required :: "string \<Rightarrow> rule list \<Rightarrow> body_field" where
  "required n rs = \<lparr>bf_name = n, bf_optional = False, bf_number = False, bf_default = None, bf_rules = rs\<rparr>"

definition if_given :: "string \<Rightarrow> rule list \<Rightarrow> body_field" where
  "if_given n rs = \<lparr>bf_name = n, bf_optional = True, bf_number = False, bf_default = None, bf_rules = rs\<rparr>"

definition counted :: "string \<Rightarrow> string \<Rightarrow> rule list \<Rightarrow> body_field" where
  "counted n d rs = \<lparr>bf_name = n, bf_optional = False, bf_number = True, bf_default = Some (JNum d), bf_rules = rs\<rparr>"

primrec rule_holds :: "validators \<Rightarrow> rule \<Rightarrow> json option \<Rightarrow> bool" where
  "rule_holds V Is_String v = (case v of Some (JStr s) \<Rightarrow> True | _ \<Rightarrow> False)"
| "rule_holds V Is_Email v = (case v of Some (JStr s) \<Rightarrow> v_email V s | _ \<Rightarrow> False)"
| "rule_holds V Is_UUID v = (case v of Some (JStr s) \<Rightarrow> v_uuid V s | _ \<Rightarrow> False)"
| "rule_holds V Is_Not_Empty v = (v \<notin> {None, Some JNull, Some (JStr [])})"
| "rule_holds V Is_Boolean v = (case v of Some (JBool b) \<Rightarrow> True | _ \<Rightarrow> False)"
| "rule_holds V (Is_Number places) v = (case v of
     Some (JNum n) \<Rightarrow> (case decimal_of n of None \<Rightarrow> False
       | Some (m, e) \<Rightarrow> (case places of None \<Rightarrow> True | Some k \<Rightarrow> - int k \<le> e))
   | _ \<Rightarrow> False)"
| "rule_holds V (Min_Length k) v = (case v of Some (JStr s) \<Rightarrow> k \<le> length s | _ \<Rightarrow> False)"
| "rule_holds V (Min_Tenths t) v = (case v of
     Some (JNum n) \<Rightarrow> (case decimal_of n of None \<Rightarrow> False | Some d \<Rightarrow> tenths_at_least t d) | _ \<Rightarrow> False)"
| "rule_holds V (Max_Tenths t) v = (case v of
     Some (JNum n) \<Rightarrow> (case decimal_of n of None \<Rightarrow> False | Some d \<Rightarrow> tenths_at_most t d) | _ \<Rightarrow> False)"
| "rule_holds V (Is_Enum vs) v = (case v of Some (JStr s) \<Rightarrow> s \<in> set vs | _ \<Rightarrow> False)"
| "rule_holds V Is_Array v = (case v of Some (JArr js) \<Rightarrow> True | _ \<Rightarrow> False)"
| "rule_holds V Is_Object v = (case v of Some (JObj kvs) \<Rightarrow> True | _ \<Rightarrow> False)"
| "rule_holds V (Each r) v = (case v of Some (JArr js) \<Rightarrow> list_all (\<lambda>j. rule_holds V r (Some j)) js | _ \<Rightarrow> False)"

section \<open>The pipe\<close>

text \<open>\<open>Number\<close> of what a query or a body can hold; \<open>null\<close> stays as it is.\<close>

fun number_of :: "validators \<Rightarrow> json \<Rightarrow> json" where
  "number_of V JNull = JNull"
| "number_of V (JBool b) = JNum (if b then ''1'' else ''0'')"
| "number_of V (JNum n) = JNum n"
| "number_of V (JStr s) = JNum (v_number V s)"
| "number_of V (JArr js) = JArr (map (number_of V) js)"
| "number_of V (JObj kvs) = JNum ''NaN''"

definition transformed :: "validators \<Rightarrow> (string \<times> json) list \<Rightarrow> body_field \<Rightarrow> json option" where
  "transformed V kvs f = (case map_of kvs (bf_name f) of
     None \<Rightarrow> bf_default f
   | Some j \<Rightarrow> Some (if bf_number f then number_of V j else j))"

definition field_ok :: "validators \<Rightarrow> body_field \<Rightarrow> json option \<Rightarrow> bool" where
  "field_ok V f v \<longleftrightarrow>
     (if bf_optional f \<and> (v = None \<or> v = Some JNull) then True else list_all (\<lambda>r. rule_holds V r v) (bf_rules f))"

definition declared_fields :: "validators \<Rightarrow> body_field list \<Rightarrow> (string \<times> json) list \<Rightarrow> (string \<times> json) list" where
  "declared_fields V d kvs = List.map_filter (\<lambda>f. map_option (Pair (bf_name f)) (transformed V kvs f)) d"

(* apps/api/src/main.ts 79-84 bootstrap, ValidationPipe *)
definition pipe :: "validators \<Rightarrow> body_field list \<Rightarrow> (string \<times> json) list \<Rightarrow> string list + (string \<times> json) list" where
  "pipe V d kvs =
     (let broken = filter (\<lambda>f. \<not> field_ok V f (transformed V kvs f)) d in
      if broken = [] then Inr (declared_fields V d kvs) else Inl (map bf_name broken))"

section \<open>Authentication and users\<close>

(* apps/api/src/modules/auth/dto/login-by-email.dto.ts 5-14 LoginByEmailDto *)
definition login_by_email_body :: "body_field list" where
  "login_by_email_body = [required ''email'' [Is_Email], required ''password'' [Is_String, Min_Length 8]]"

(* apps/api/src/modules/auth/dto/register-by-email.dto.ts 5-19 RegistrationByEmailDto *)
definition registration_body :: "body_field list" where
  "registration_body =
     [required ''email'' [Is_Email], required ''password'' [Is_String, Min_Length 8],
      required ''displayName'' [Is_String, Min_Length 2]]"

(* apps/api/src/modules/auth/dto/update-profile.dto.ts 5-22 UpdateProfileDto *)
definition update_profile_body :: "body_field list" where
  "update_profile_body =
     [if_given ''displayName'' [Is_String, Min_Length 2], if_given ''newPassword'' [Is_String, Min_Length 8],
      if_given ''oldPassword'' [Is_String]]"

(* apps/api/src/modules/auth/dto/link-discord.dto.ts 4-9 LinkDiscordDto *)
definition link_discord_body :: "body_field list" where
  "link_discord_body = [required ''code'' [Is_String, Is_Not_Empty]]"

(* apps/api/src/modules/auth/dto/set-twitch-personal-auth.dto.ts 4-8 SetTwitchPersonalAuthDto *)
definition twitch_personal_auth_body :: "body_field list" where
  "twitch_personal_auth_body = [required ''enabled'' [Is_Boolean]]"

definition page_field :: body_field where
  "page_field = counted ''page'' ''1'' [Is_Number None, Min_Tenths 10]"

definition page_size_field :: "int \<Rightarrow> body_field" where
  "page_size_field least = counted ''pageSize'' ''20'' [Is_Number None, Min_Tenths least, Max_Tenths 1000]"

definition search_field :: body_field where
  "search_field = if_given ''search'' [Is_String]"

(* apps/api/src/modules/users/dto/get-users-request.dto.ts 6-24 GetUsersRequestDto *)
definition users_query :: "body_field list" where
  "users_query = [page_field, page_size_field 0, search_field]"

(* apps/api/src/modules/users/dto/update-user-balance.dto.ts 4-10 UpdateUserBalanceDto *)
definition user_balance_body :: "body_field list" where
  "user_balance_body = [required ''balance'' [Is_Number (Some 1), Min_Tenths 0, Max_Tenths 9999]]"

(* apps/api/src/modules/users/dto/update-user-roles.dto.ts 4-9 UpdateUserRolesDto *)
definition user_roles_body :: "body_field list" where
  "user_roles_body = [required ''roleIds'' [Is_Array, Each Is_UUID]]"

definition account_statuses :: "string list" where
  "account_statuses = [''active'', ''blocked'']"

(* apps/api/src/modules/users/dto/update-user-status.dto.ts 5-9 UpdateUserStatusDto *)
definition user_status_body :: "body_field list" where
  "user_status_body = [required ''status'' [Is_Enum account_statuses]]"

section \<open>Roles, streamers and logs\<close>

definition all_permissions :: "permission list" where
  "all_permissions = [ADMIN, READ_APPS, MANAGE_APPS, READ_ROLES, MANAGE_ROLES]"

(* apps/api/src/modules/roles/dto/edit-role-request.dto.ts 6-23 EditRoleRequestDto *)
definition edit_role_body :: "body_field list" where
  "edit_role_body =
     [required ''name'' [Is_String, Min_Length 3],
      required ''permissions'' [Is_Array, Each (Is_Enum (map permission_text all_permissions))],
      (if_given ''rolePriority'' [Is_Number None, Min_Tenths 0, Max_Tenths 2560])\<lparr>bf_default := Some (JNum ''1'')\<rparr>]"

(* apps/api/src/modules/roles/dto/create-role-request.dto.ts 4-4 CreateRoleRequestDto *)
definition create_role_body :: "body_field list" where
  "create_role_body = edit_role_body"

(* apps/api/src/modules/roles/dto/get-roles-request.dto.ts 6-24 GetRolesRequestDto *)
definition roles_query :: "body_field list" where
  "roles_query = [page_field, page_size_field 0, search_field]"

(* apps/api/src/modules/streamers/dto/get-streamers-request.dto.ts 6-24 GetStreamersRequestDto *)
definition streamers_query :: "body_field list" where
  "streamers_query = [page_field, page_size_field 0, search_field]"

(* apps/api/src/modules/streamers/dto/update-streamer.dto.ts 4-9 UpdateStreamerDto *)
definition update_streamer_body :: "body_field list" where
  "update_streamer_body = [if_given ''isInternal'' [Is_Boolean]]"

(* apps/api/src/modules/notification-logs/dto/get-notification-logs.dto.ts 5-18 GetNotificationLogsDto *)
definition notification_logs_query :: "body_field list" where
  "notification_logs_query = [page_field, page_size_field 10]"

section \<open>Twitch\<close>

definition app_statuses :: "string list" where
  "app_statuses = [''active'', ''internal'', ''locked'']"

(* apps/api/src/modules/twitch/dto/add-twitch-app.dto.ts 5-28 AddTwitchAppDto *)
definition add_twitch_app_body :: "body_field list" where
  "add_twitch_app_body =
     [required ''clientId'' [Is_String], required ''clientSecret'' [Is_String, Min_Length 8], required ''name'' [Is_String],
      if_given ''webhookSecret'' [Is_String], if_given ''status'' [Is_Enum app_statuses]]"

(* apps/api/src/modules/twitch/dto/edit-twitch-app.dto.ts 5-27 EditTwitchAppDto *)
definition edit_twitch_app_body :: "body_field list" where
  "edit_twitch_app_body =
     [if_given ''clientSecret'' [Is_String, Min_Length 8], if_given ''webhookSecret'' [Is_String],
      if_given ''name'' [Is_String], if_given ''status'' [Is_Enum app_statuses]]"

(* apps/api/src/modules/twitch/dto/get-twitch-apps.dto.ts 6-19 GetTwitchAppsDto *)
definition twitch_apps_query :: "body_field list" where
  "twitch_apps_query = [page_field, page_size_field 0]"

(* apps/api/src/modules/twitch/dto/search-twitch-categories.dto.ts 4-15 SearchTwitchCategoriesDto *)
definition search_categories_query :: "body_field list" where
  "search_categories_query = [if_given ''search'' [Is_String, Min_Length 1], if_given ''cursor'' [Is_String]]"

(* apps/api/src/modules/twitch/dto/search-twitch-channels.dto.ts 4-15 SearchTwtichChannelsDto *)
definition search_channels_query :: "body_field list" where
  "search_channels_query = [if_given ''search'' [Is_String, Min_Length 3], if_given ''cursor'' [Is_String]]"

(* apps/api/src/modules/admin/dto/add-stream-online-subscription.dto.ts 4-8 AddStreamOnlineSubscriptionDto *)
definition add_subscription_body :: "body_field list" where
  "add_subscription_body = [required ''broadcasterId'' [Is_String]]"

(* apps/api/src/modules/admin/dto/delete-twitch-subscription.dto.ts 4-12 DeleteTwitchSubscriptionDto *)
definition delete_subscription_body :: "body_field list" where
  "delete_subscription_body = [required ''subscriptionId'' [Is_String], required ''clientId'' [Is_String]]"

(* apps/api/src/modules/admin/dto/get-raw-twitch-subscriptions.dto.ts 4-13 GetRawTwitchSubscriptionsDto *)
definition raw_subscriptions_query :: "body_field list" where
  "raw_subscriptions_query = [required ''clientId'' [Is_String], if_given ''after'' [Is_String]]"

(* apps/api/src/modules/admin/dto/get-twitch-subscriptions.dto.ts 6-19 GetTwitchSubscriptionsDto *)
definition subscriptions_query :: "body_field list" where
  "subscriptions_query = [page_field, page_size_field 0]"

section \<open>Notifications\<close>

definition cost_types :: "string list" where
  "cost_types = [''personal'', ''credit'', ''guild'']"

definition game_filters_field :: body_field where
  "game_filters_field = if_given ''gameFilters'' [Is_Array, Each Is_String]"

(* apps/api/src/modules/notifications/dto/create-discord-notification.dto.ts 6-30 CreateDiscordNotificationDto *)
definition create_discord_body :: "body_field list" where
  "create_discord_body =
     [required ''broadcasterId'' [Is_String], required ''event'' [Is_Enum (map event_text allowedTwitchEvents)],
      required ''costType'' [Is_Enum cost_types], required ''payload'' [Is_Object], required ''guildId'' [Is_String],
      required ''channelId'' [Is_String], game_filters_field]"

(* apps/api/src/modules/notifications/dto/create-webhook-notification.dto.ts 6-27 CreateWebhookNotificationDto *)
definition create_webhook_body :: "body_field list" where
  "create_webhook_body =
     [required ''broadcasterId'' [Is_String], required ''event'' [Is_Enum (map event_text allowedTwitchEvents)],
      required ''costType'' [Is_Enum cost_types], required ''payload'' [Is_Object], required ''webhookUrl'' [Is_String],
      game_filters_field]"

(* apps/api/src/modules/notifications/dto/update-discord-notification.dto.ts 5-32 UpdateDiscordNotificationDto *)
definition update_discord_body :: "body_field list" where
  "update_discord_body =
     [if_given ''costType'' [Is_Enum cost_types], if_given ''channelId'' [Is_String], if_given ''payload'' [Is_Object],
      if_given ''isDisabled'' [Is_Boolean], game_filters_field]"

(* apps/api/src/modules/notifications/dto/update-webhook-notification.dto.ts 5-31 UpdateWebhookNotificationDto *)
definition update_webhook_body :: "body_field list" where
  "update_webhook_body =
     [if_given ''costType'' [Is_Enum cost_types], if_given ''webhookUrl'' [Is_String], if_given ''payload'' [Is_Object],
      if_given ''isDisabled'' [Is_Boolean], game_filters_field]"

(* apps/api/src/modules/discord/dto/set-manager-permission.dto.ts 5-11 SetManagerPermissionDto *)
definition manager_permission_body :: "body_field list" where
  "manager_permission_body = [if_given ''permission'' [Is_String]]"

section \<open>Calls of the bot\<close>

definition all_events :: "streamer_events list" where
  "all_events = [STREAM_ONLINE, STREAM_OFFLINE, CHANNEL_UPDATE, CHANNEL_RAID, CHANNEL_SUBSCRIBE, CHANNEL_CHEER]"

definition guild_field :: body_field where
  "guild_field = if_given ''discordGuildId'' [Is_String]"

(* apps/api/src/modules/discord-handler/dto/add-destination.dto.ts 5-24 AddDestinationDto *)
definition add_destination_body :: "body_field list" where
  "add_destination_body =
     [required ''discordId'' [Is_String], required ''discordGuildId'' [Is_String], required ''channelId'' [Is_String],
      required ''broadcasterId'' [Is_String], if_given ''eventType'' [Is_Enum (map event_text all_events)],
      required ''payload'' [Is_Object]]"

(* apps/api/src/modules/discord-handler/dto/authenticate.dto.ts 4-7 AuthenticateDto *)
definition authenticate_body :: "body_field list" where
  "authenticate_body = [required ''discordId'' [Is_String]]"

(* apps/api/src/modules/discord-handler/dto/get-profile.dto.ts 4-11 GetProfileDto *)
definition get_profile_body :: "body_field list" where
  "get_profile_body = [required ''discordId'' [Is_String], guild_field]"

(* apps/api/src/modules/discord-handler/dto/list-destinations.dto.ts 4-11 ListDestinationsDto *)
definition list_destinations_body :: "body_field list" where
  "list_destinations_body = [required ''discordId'' [Is_String], guild_field]"

(* apps/api/src/modules/discord-handler/dto/remove-destination.dto.ts 4-14 RemoveDestinationDto *)
definition remove_destination_body :: "body_field list" where
  "remove_destination_body =
     [required ''discordId'' [Is_String], required ''notificationId'' [Is_UUID], guild_field]"

(* apps/api/src/modules/discord-handler/dto/search-streamers.dto.ts 4-7 SearchStreamersDto *)
definition search_streamers_body :: "body_field list" where
  "search_streamers_body = [required ''search'' [Is_String]]"

(* apps/api/src/modules/discord-handler/dto/suspend-notification.dto.ts 4-10 SuspendNotificationDto *)
definition suspend_notification_body :: "body_field list" where
  "suspend_notification_body = [required ''notificationId'' [Is_UUID], required ''reason'' [Is_String]]"

definition all_bodies :: "body_field list list" where
  "all_bodies =
     [login_by_email_body, registration_body, update_profile_body, link_discord_body, twitch_personal_auth_body,
      users_query, user_balance_body, user_roles_body, user_status_body, edit_role_body, create_role_body, roles_query,
      streamers_query, update_streamer_body, notification_logs_query, add_twitch_app_body, edit_twitch_app_body,
      twitch_apps_query, search_categories_query, search_channels_query, add_subscription_body,
      delete_subscription_body, raw_subscriptions_query, subscriptions_query, create_discord_body,
      create_webhook_body, update_discord_body, update_webhook_body, manager_permission_body, add_destination_body,
      authenticate_body, get_profile_body, list_destinations_body, remove_destination_body, search_streamers_body,
      suspend_notification_body]"

section \<open>Accepted fields as records\<close>

definition text_in :: "string \<Rightarrow> (string \<times> json) list \<Rightarrow> string option" where
  "text_in k out = (case map_of out k of Some (JStr s) \<Rightarrow> Some s | _ \<Rightarrow> None)"

definition object_in :: "string \<Rightarrow> (string \<times> json) list \<Rightarrow> json option" where
  "object_in k out = (case map_of out k of Some (JObj kvs) \<Rightarrow> Some (JObj kvs) | _ \<Rightarrow> None)"

definition texts_in :: "json \<Rightarrow> string list option" where
  "texts_in j = (case j of
     JArr js \<Rightarrow> if list_all (\<lambda>j. case j of JStr s \<Rightarrow> True | _ \<Rightarrow> False) js then Some (texts_of (Some j)) else None
   | _ \<Rightarrow> None)"

text \<open>A field that may be missing or \<open>null\<close>; the outer option is whether it could be read.\<close>

definition maybe_in :: "(json \<Rightarrow> 'a option) \<Rightarrow> string \<Rightarrow> (string \<times> json) list \<Rightarrow> 'a field option" where
  "maybe_in get k out = (case map_of out k of
     None \<Rightarrow> Some None | Some JNull \<Rightarrow> Some (Some None) | Some j \<Rightarrow> map_option (\<lambda>x. Some (Some x)) (get j))"

definition event_named :: "string \<Rightarrow> streamer_events option" where
  "event_named s = find (\<lambda>e. event_text e = s) all_events"

definition cost_named :: "string \<Rightarrow> cost_type option" where
  "cost_named s = map_of (zip cost_types [Personal, Credit, Guild]) s"

definition text_value :: "json \<Rightarrow> string option" where
  "text_value j = (case j of JStr s \<Rightarrow> Some s | _ \<Rightarrow> None)"

definition bool_value :: "json \<Rightarrow> bool option" where
  "bool_value j = (case j of JBool b \<Rightarrow> Some b | _ \<Rightarrow> None)"

definition object_value :: "json \<Rightarrow> json option" where
  "object_value j = (case j of JObj kvs \<Rightarrow> Some j | _ \<Rightarrow> None)"

(* apps/api/src/modules/notifications/dto/create-discord-notification.dto.ts 6-30 CreateDiscordNotificationDto *)
definition read_create_discord :: "(string \<times> json) list \<Rightarrow> create_discord option" where
  "read_create_discord out =
     Option.bind (text_in ''broadcasterId'' out) (\<lambda>broadcasterId.
     Option.bind (Option.bind (text_in ''event'' out) event_named) (\<lambda>event.
     Option.bind (Option.bind (text_in ''costType'' out) cost_named) (\<lambda>costType.
     Option.bind (object_in ''payload'' out) (\<lambda>payload.
     Option.bind (text_in ''guildId'' out) (\<lambda>guildId.
     Option.bind (text_in ''channelId'' out) (\<lambda>channelId.
     Option.bind (maybe_in texts_in ''gameFilters'' out) (\<lambda>gameFilters.
     Some \<lparr>cd_broadcasterId = broadcasterId, cd_event = event, cd_costType = costType, cd_payload = payload,
       cd_guildId = guildId, cd_channelId = channelId, cd_gameFilters = Option.bind gameFilters (\<lambda>x. x)\<rparr>)))))))"

(* apps/api/src/modules/notifications/dto/create-webhook-notification.dto.ts 6-27 CreateWebhookNotificationDto *)
definition read_create_webhook :: "(string \<times> json) list \<Rightarrow> create_webhook option" where
  "read_create_webhook out =
     Option.bind (text_in ''broadcasterId'' out) (\<lambda>broadcasterId.
     Option.bind (Option.bind (text_in ''event'' out) event_named) (\<lambda>event.
     Option.bind (Option.bind (text_in ''costType'' out) cost_named) (\<lambda>costType.
     Option.bind (object_in ''payload'' out) (\<lambda>payload.
     Option.bind (text_in ''webhookUrl'' out) (\<lambda>webhookUrl.
     Option.bind (maybe_in texts_in ''gameFilters'' out) (\<lambda>gameFilters.
     Some \<lparr>cw_broadcasterId = broadcasterId, cw_event = event, cw_costType = costType, cw_payload = payload,
       cw_webhookUrl = webhookUrl, cw_gameFilters = Option.bind gameFilters (\<lambda>x. x)\<rparr>))))))"

(* apps/api/src/modules/notifications/dto/update-discord-notification.dto.ts 5-32 UpdateDiscordNotificationDto *)
definition read_update_discord :: "(string \<times> json) list \<Rightarrow> update_discord option" where
  "read_update_discord out =
     Option.bind (maybe_in (\<lambda>j. Option.bind (text_value j) cost_named) ''costType'' out) (\<lambda>costType.
     Option.bind (maybe_in text_value ''channelId'' out) (\<lambda>channelId.
     Option.bind (maybe_in object_value ''payload'' out) (\<lambda>payload.
     Option.bind (maybe_in bool_value ''isDisabled'' out) (\<lambda>isDisabled.
     Option.bind (maybe_in texts_in ''gameFilters'' out) (\<lambda>gameFilters.
     Some \<lparr>ud_costType = costType, ud_channelId = channelId, ud_payload = payload, ud_isDisabled = isDisabled,
       ud_gameFilters = gameFilters\<rparr>)))))"

(* apps/api/src/modules/notifications/dto/update-webhook-notification.dto.ts 5-31 UpdateWebhookNotificationDto *)
definition read_update_webhook :: "(string \<times> json) list \<Rightarrow> update_webhook option" where
  "read_update_webhook out =
     Option.bind (maybe_in (\<lambda>j. Option.bind (text_value j) cost_named) ''costType'' out) (\<lambda>costType.
     Option.bind (maybe_in text_value ''webhookUrl'' out) (\<lambda>webhookUrl.
     Option.bind (maybe_in object_value ''payload'' out) (\<lambda>payload.
     Option.bind (maybe_in bool_value ''isDisabled'' out) (\<lambda>isDisabled.
     Option.bind (maybe_in texts_in ''gameFilters'' out) (\<lambda>gameFilters.
     Some \<lparr>uw_costType = costType, uw_webhookUrl = webhookUrl, uw_payload = payload, uw_isDisabled = isDisabled,
       uw_gameFilters = gameFilters\<rparr>)))))"

text \<open>A balance in tenths of a credit.\<close>

(* apps/api/src/modules/users/dto/update-user-balance.dto.ts 4-10 UpdateUserBalanceDto *)
definition read_balance :: "(string \<times> json) list \<Rightarrow> credits option" where
  "read_balance out = (case map_of out ''balance'' of
     Some (JNum n) \<Rightarrow> Option.bind (decimal_of n) (\<lambda>(m, e). if - 1 \<le> e then Some (m * 10 ^ nat (e + 1)) else None)
   | _ \<Rightarrow> None)"

section \<open>Laws of the pipe\<close>

definition well_declared :: "body_field list \<Rightarrow> bool" where
  "well_declared d \<longleftrightarrow> distinct (map bf_name d) \<and>
     list_all (\<lambda>f. bf_number f \<longrightarrow> (case bf_default f of Some (JNum n) \<Rightarrow> True | _ \<Rightarrow> False)) d"

lemmas bodies = login_by_email_body_def registration_body_def update_profile_body_def link_discord_body_def
  twitch_personal_auth_body_def users_query_def user_balance_body_def user_roles_body_def user_status_body_def
  edit_role_body_def create_role_body_def roles_query_def streamers_query_def update_streamer_body_def
  notification_logs_query_def add_twitch_app_body_def edit_twitch_app_body_def twitch_apps_query_def
  search_categories_query_def search_channels_query_def add_subscription_body_def delete_subscription_body_def
  raw_subscriptions_query_def subscriptions_query_def create_discord_body_def create_webhook_body_def
  update_discord_body_def update_webhook_body_def manager_permission_body_def add_destination_body_def
  authenticate_body_def get_profile_body_def list_destinations_body_def remove_destination_body_def
  search_streamers_body_def suspend_notification_body_def

lemmas fields = required_def if_given_def counted_def page_field_def page_size_field_def search_field_def
  game_filters_field_def guild_field_def

lemma bodies_well_declared: "d \<in> set all_bodies \<Longrightarrow> well_declared d"
proof -
  have "list_all well_declared all_bodies"
    by (simp add: all_bodies_def bodies fields well_declared_def)
  then show "d \<in> set all_bodies \<Longrightarrow> well_declared d" by (simp add: list_all_iff)
qed

lemma number_of_again: "number_of V (number_of V j) = number_of V j"
  by (induction j rule: number_of.induct) simp_all

lemma declared_lookup:
  assumes "distinct (map bf_name d)" and "f \<in> set d"
  shows "map_of (declared_fields V d kvs) (bf_name f) = transformed V kvs f"
  using assms
proof (induction d)
  case (Cons g d)
  have other: "map_of (declared_fields V ds kvs) n = None" if "n \<notin> bf_name ` set ds" for n and ds :: "body_field list"
    using that by (induction ds) (auto simp: declared_fields_def List.map_filter_def split: option.splits)
  have "declared_fields V (g # d) kvs = (case transformed V kvs g of None \<Rightarrow> [] | Some j \<Rightarrow> [(bf_name g, j)]) @ declared_fields V d kvs"
    by (simp add: declared_fields_def List.map_filter_def split: option.split)
  moreover have "f \<noteq> g \<Longrightarrow> bf_name f \<noteq> bf_name g" using Cons.prems by (metis distinct.simps(2) image_eqI list.simps(9) list.set_map set_ConsD)
  ultimately show ?case using Cons other [of "bf_name g" d] by (cases "f = g") (auto split: option.splits)
qed simp

lemma transformed_again:
  assumes "well_declared d" and "f \<in> set d"
  shows "transformed V (declared_fields V d kvs) f = transformed V kvs f"
proof -
  have "map_of (declared_fields V d kvs) (bf_name f) = transformed V kvs f"
    using assms by (simp add: well_declared_def declared_lookup)
  moreover have "bf_number f \<Longrightarrow> \<exists>n. bf_default f = Some (JNum n)"
    using assms by (cases "bf_default f"; cases "the (bf_default f)") (auto simp: well_declared_def list_all_iff)
  ultimately show ?thesis
    by (auto simp: transformed_def number_of_again split: option.splits)
qed

lemma piped:
  assumes "pipe V d kvs = Inr out" and "d \<in> set all_bodies"
  shows "out = declared_fields V d kvs" and "f \<in> set d \<Longrightarrow> field_ok V f (map_of out (bf_name f))"
proof -
  show out: "out = declared_fields V d kvs" using assms(1) by (simp add: pipe_def Let_def split: if_splits)
  show "f \<in> set d \<Longrightarrow> field_ok V f (map_of out (bf_name f))"
    using assms(1) bodies_well_declared [OF assms(2)] unfolding out
    by (auto simp: pipe_def Let_def well_declared_def declared_lookup filter_empty_conv split: if_splits)
qed

text \<open>
  What the pipe lets through, it lets through again unchanged: an accepted body has only
  declared fields, with the defaults and the conversions already made. This holds for every body and query of the
  API and every call of the bot.
\<close>

theorem accepted_bodies_are_stable:
  assumes "d \<in> set all_bodies" and "pipe V d kvs = Inr out"
  shows "pipe V d out = Inr out"
proof -
  note wf = bodies_well_declared [OF assms(1)]
  have out: "out = declared_fields V d kvs" by (rule piped(1) [OF assms(2,1)])
  have same: "f \<in> set d \<Longrightarrow> transformed V out f = transformed V kvs f" for f
    unfolding out by (rule transformed_again [OF wf])
  have "filter (\<lambda>f. \<not> field_ok V f (transformed V out f)) d = []"
    using assms(2) same by (auto simp: pipe_def Let_def filter_empty_conv split: if_splits)
  moreover have "declared_fields V d out = out"
  proof -
    have "map (\<lambda>f. map_option (Pair (bf_name f)) (transformed V out f)) d =
        map (\<lambda>f. map_option (Pair (bf_name f)) (transformed V kvs f)) d"
      using same by simp
    then show ?thesis
      by (auto simp: declared_fields_def out List.map_filter_def same cong: filter_cong)
  qed
  ultimately show ?thesis by (simp add: pipe_def Let_def)
qed

section \<open>Accepted bodies are read\<close>

lemma accepted_text: "rule_holds V Is_String (map_of out k) \<Longrightarrow> \<exists>s. text_in k out = Some s"
  by (auto simp: text_in_def split: option.splits json.splits)

lemma accepted_member: "rule_holds V (Is_Enum vs) (map_of out k) \<Longrightarrow> \<exists>s \<in> set vs. text_in k out = Some s"
  by (auto simp: text_in_def split: option.splits json.splits)

lemma accepted_object_field: "rule_holds V Is_Object (map_of out k) \<Longrightarrow> \<exists>p. object_in k out = Some (JObj p)"
  by (auto simp: object_in_def split: option.splits json.splits)

lemma event_named_allowed: "s \<in> event_text ` set allowedTwitchEvents \<Longrightarrow> \<exists>e \<in> set allowedTwitchEvents. event_named s = Some e"
  by (auto simp: allowedTwitchEvents_def event_named_def all_events_def)

lemma cost_named_listed: "s \<in> set cost_types \<Longrightarrow> \<exists>c. cost_named s = Some c"
  by (auto simp: cost_types_def cost_named_def)

lemma accepted_texts: "rule_holds V (Each Is_String) (Some j) \<Longrightarrow> \<exists>ss. texts_in j = Some ss"
  by (cases j) (auto simp: texts_in_def list_all_iff split: json.splits)

lemma accepted_maybe:
  assumes "field_ok V (if_given k rs) (map_of out k)" and "\<And>j. list_all (\<lambda>r. rule_holds V r (Some j)) rs \<Longrightarrow> \<exists>x. get j = Some x"
  shows "\<exists>x. maybe_in get k out = Some x"
  using assms
  by (cases "map_of out k"; cases "the (map_of out k)") (fastforce simp: field_ok_def if_given_def maybe_in_def split: if_splits)+

lemma accepted_filters: "field_ok V game_filters_field (map_of out ''gameFilters'') \<Longrightarrow> \<exists>x. maybe_in texts_in ''gameFilters'' out = Some x"
  unfolding game_filters_field_def
proof (erule accepted_maybe)
  fix j assume "list_all (\<lambda>r. rule_holds V r (Some j)) [Is_Array, Each Is_String]"
  then have "rule_holds V (Each Is_String) (Some j)" by (simp only: list.pred_inject)
  then show "\<exists>x. texts_in j = Some x" by (rule accepted_texts)
qed

text \<open>What a required field of an accepted body is read as.\<close>

lemma required_rules:
  assumes "pipe V d kvs = Inr out" and "d \<in> set all_bodies" and "required k rs \<in> set d"
  shows "list_all (\<lambda>r. rule_holds V r (map_of out k)) rs"
  using piped(2) [OF assms] by (simp add: field_ok_def required_def)

lemma required_text:
  assumes "pipe V d kvs = Inr out" and "d \<in> set all_bodies" and "required k [Is_String] \<in> set d"
  shows "\<exists>s. text_in k out = Some s"
  using required_rules [OF assms] by (intro accepted_text) simp

lemma required_event:
  assumes "pipe V d kvs = Inr out" and "d \<in> set all_bodies"
    and "required k [Is_Enum (map event_text allowedTwitchEvents)] \<in> set d"
  shows "\<exists>e \<in> set allowedTwitchEvents. Option.bind (text_in k out) event_named = Some e"
proof -
  have "rule_holds V (Is_Enum (map event_text allowedTwitchEvents)) (map_of out k)"
    using required_rules [OF assms] by (simp del: rule_holds.simps)
  from accepted_member [OF this] obtain s where "s \<in> event_text ` set allowedTwitchEvents" "text_in k out = Some s"
    unfolding set_map by blast
  then show ?thesis using event_named_allowed [of s] by auto
qed

lemma required_cost:
  assumes "pipe V d kvs = Inr out" and "d \<in> set all_bodies" and "required k [Is_Enum cost_types] \<in> set d"
  shows "\<exists>c. Option.bind (text_in k out) cost_named = Some c"
proof -
  have "rule_holds V (Is_Enum cost_types) (map_of out k)"
    using required_rules [OF assms] by (simp del: rule_holds.simps)
  from accepted_member [OF this] obtain s where "s \<in> set cost_types" "text_in k out = Some s" by blast
  then show ?thesis using cost_named_listed [of s] by auto
qed

lemma required_object:
  assumes "pipe V d kvs = Inr out" and "d \<in> set all_bodies" and "required k [Is_Object] \<in> set d"
  shows "\<exists>p. object_in k out = Some (JObj p)"
  using required_rules [OF assms] by (intro accepted_object_field) simp

lemma listed_filters:
  assumes "pipe V d kvs = Inr out" and "d \<in> set all_bodies" and "game_filters_field \<in> set d"
  shows "\<exists>x. maybe_in texts_in ''gameFilters'' out = Some x"
  using piped(2) [OF assms] by (intro accepted_filters) (simp add: game_filters_field_def if_given_def)

lemma accepted_discord_creation:
  assumes p: "pipe V create_discord_body kvs = Inr out"
  shows "\<exists>r. read_create_discord out = Some r \<and> cd_event r \<in> set allowedTwitchEvents \<and> (\<exists>p. cd_payload r = JObj p)"
proof -
  have b: "create_discord_body \<in> set all_bodies" by (simp add: all_bodies_def)
  obtain x where "text_in ''broadcasterId'' out = Some x"
    using required_text [OF p b, of "''broadcasterId''"] by (auto simp: create_discord_body_def)
  moreover obtain y where "text_in ''guildId'' out = Some y"
    using required_text [OF p b, of "''guildId''"] by (auto simp: create_discord_body_def)
  moreover obtain z where "text_in ''channelId'' out = Some z"
    using required_text [OF p b, of "''channelId''"] by (auto simp: create_discord_body_def)
  moreover obtain e where "e \<in> set allowedTwitchEvents" "Option.bind (text_in ''event'' out) event_named = Some e"
    using required_event [OF p b, of "''event''"] by (auto simp: create_discord_body_def)
  moreover obtain c where "Option.bind (text_in ''costType'' out) cost_named = Some c"
    using required_cost [OF p b, of "''costType''"] by (auto simp: create_discord_body_def)
  moreover obtain q where "object_in ''payload'' out = Some (JObj q)"
    using required_object [OF p b, of "''payload''"] by (auto simp: create_discord_body_def)
  moreover obtain g where "maybe_in texts_in ''gameFilters'' out = Some g"
    using listed_filters [OF p b] by (auto simp: create_discord_body_def)
  ultimately show ?thesis by (simp add: read_create_discord_def)
qed

lemma accepted_webhook_creation:
  assumes p: "pipe V create_webhook_body kvs = Inr out"
  shows "\<exists>r. read_create_webhook out = Some r \<and> cw_event r \<in> set allowedTwitchEvents \<and> (\<exists>p. cw_payload r = JObj p)"
proof -
  have b: "create_webhook_body \<in> set all_bodies" by (simp add: all_bodies_def)
  obtain x where "text_in ''broadcasterId'' out = Some x"
    using required_text [OF p b, of "''broadcasterId''"] by (auto simp: create_webhook_body_def)
  moreover obtain y where "text_in ''webhookUrl'' out = Some y"
    using required_text [OF p b, of "''webhookUrl''"] by (auto simp: create_webhook_body_def)
  moreover obtain e where "e \<in> set allowedTwitchEvents" "Option.bind (text_in ''event'' out) event_named = Some e"
    using required_event [OF p b, of "''event''"] by (auto simp: create_webhook_body_def)
  moreover obtain c where "Option.bind (text_in ''costType'' out) cost_named = Some c"
    using required_cost [OF p b, of "''costType''"] by (auto simp: create_webhook_body_def)
  moreover obtain q where "object_in ''payload'' out = Some (JObj q)"
    using required_object [OF p b, of "''payload''"] by (auto simp: create_webhook_body_def)
  moreover obtain g where "maybe_in texts_in ''gameFilters'' out = Some g"
    using listed_filters [OF p b] by (auto simp: create_webhook_body_def)
  ultimately show ?thesis by (simp add: read_create_webhook_def)
qed

text \<open>
  C39. Every accepted body of a new notification, of either kind, is one the service is modelled on: all texts are
  there, for a webhook its URL among them, the event is one of the three allowed ones, the way of paying is
  one of the three, the payload is an object and the filters, when given, are texts.
\<close>

theorem accepted_creations_read:
  "(pipe V create_discord_body kvs = Inr out \<longrightarrow>
      (\<exists>r. read_create_discord out = Some r \<and> cd_event r \<in> set allowedTwitchEvents \<and> (\<exists>p. cd_payload r = JObj p))) \<and>
   (pipe V create_webhook_body kvs = Inr out \<longrightarrow>
      (\<exists>r. read_create_webhook out = Some r \<and> cw_event r \<in> set allowedTwitchEvents \<and> (\<exists>p. cw_payload r = JObj p)))"
  using accepted_discord_creation [of V kvs out] accepted_webhook_creation [of V kvs out] by blast

text \<open>
  Every accepted change of a notification can be read, but each of its fields may be
  \<open>null\<close>: a rule for an optional field does not look at it.
\<close>

lemma optional_fields_may_be_null:
  "pipe V update_discord_body [(''channelId'', JNull), (''payload'', JNull)] = Inr [(''channelId'', JNull), (''payload'', JNull)]"
  by (simp add: pipe_def update_discord_body_def fields field_ok_def transformed_def declared_fields_def List.map_filter_def)

lemma given_field:
  assumes "pipe V d kvs = Inr out" and "d \<in> set all_bodies" and "if_given k rs \<in> set d"
  shows "field_ok V (if_given k rs) (map_of out k)"
  using piped(2) [OF assms] by (simp add: if_given_def)

lemma given_cost:
  "field_ok V (if_given k [Is_Enum cost_types]) (map_of out k) \<Longrightarrow>
     \<exists>x. maybe_in (\<lambda>j. Option.bind (text_value j) cost_named) k out = Some x"
  by (erule accepted_maybe) (auto simp: text_value_def dest: cost_named_listed split: json.splits)

lemma given_values:
  "field_ok V (if_given k [Is_String]) (map_of out k) \<Longrightarrow> \<exists>x. maybe_in text_value k out = Some x"
  "field_ok V (if_given k [Is_Object]) (map_of out k) \<Longrightarrow> \<exists>x. maybe_in object_value k out = Some x"
  "field_ok V (if_given k [Is_Boolean]) (map_of out k) \<Longrightarrow> \<exists>x. maybe_in bool_value k out = Some x"
  by (erule accepted_maybe, auto simp: text_value_def object_value_def bool_value_def split: json.splits)+

lemma accepted_updates_read:
  assumes p: "pipe V update_discord_body kvs = Inr out"
  shows "\<exists>r. read_update_discord out = Some r"
proof -
  have b: "update_discord_body \<in> set all_bodies" by (simp add: all_bodies_def)
  note given = given_field [OF p b]
  note facts = given_cost [OF given, of "''costType''"] given_values(1) [OF given, of "''channelId''"]
    given_values(2) [OF given, of "''payload''"] given_values(3) [OF given, of "''isDisabled''"] listed_filters [OF p b]
  show ?thesis using facts by (fastforce simp: update_discord_body_def read_update_discord_def)
qed

lemma accepted_webhook_updates_read:
  assumes p: "pipe V update_webhook_body kvs = Inr out"
  shows "\<exists>r. read_update_webhook out = Some r"
proof -
  have b: "update_webhook_body \<in> set all_bodies" by (simp add: all_bodies_def)
  note given = given_field [OF p b]
  note facts = given_cost [OF given, of "''costType''"] given_values(1) [OF given, of "''webhookUrl''"]
    given_values(2) [OF given, of "''payload''"] given_values(3) [OF given, of "''isDisabled''"] listed_filters [OF p b]
  show ?thesis using facts by (fastforce simp: update_webhook_body_def read_update_webhook_def)
qed

text \<open>
  A balance that the route accepts is a number of tenths between 0 and 999.9, as its DTO
  says, but the column holds only up to 99.9: from 100 on the update fails in the database.
\<close>

theorem accepted_balances_may_fail:
  assumes "pipe V user_balance_body kvs = Inr out" and "row_of u_id userId (w_users w) = Some u"
  shows "\<exists>c. read_balance out = Some c \<and> 0 \<le> c \<and> c \<le> 9999 \<and>
    fst (updateUserBalance userId c w) = (if c \<le> 999 then Inr () else Inl (ScriptExc ''QueryFailedError''))"
proof -
  have "field_ok V (required ''balance'' [Is_Number (Some 1), Min_Tenths 0, Max_Tenths 9999]) (map_of out ''balance'')"
    using piped(2) [OF assms(1), of "required ''balance'' [Is_Number (Some 1), Min_Tenths 0, Max_Tenths 9999]"]
    by (simp add: all_bodies_def user_balance_body_def required_def)
  then obtain n m e where n: "map_of out ''balance'' = Some (JNum n)" "decimal_of n = Some (m, e)" "- 1 \<le> e"
    and bounds: "tenths_at_least 0 (m, e)" "tenths_at_most 9999 (m, e)"
    by (auto simp: field_ok_def required_def split: option.splits json.splits)
  then have "read_balance out = Some (m * 10 ^ nat (e + 1))" by (simp add: read_balance_def)
  moreover have "0 \<le> m * 10 ^ nat (e + 1)" "m * 10 ^ nat (e + 1) \<le> 9999"
    using bounds n(3) by (auto simp: tenths_at_least_def tenths_at_most_def Let_def)
  ultimately show ?thesis
    using assms(2) by (auto simp: updateUserBalance_def exec fits_balance_def)
qed

section \<open>At concrete bodies\<close>

definition sample_validators :: validators where
  "sample_validators = \<lparr>v_email = (\<lambda>s. CHR ''@'' \<in> set s), v_uuid = (\<lambda>s. length s = 36), v_number = (\<lambda>s. s)\<rparr>"

definition sample_creation_body :: "(string \<times> json) list" where
  "sample_creation_body =
     [(''broadcasterId'', JStr ''b''), (''event'', JStr ''stream.online''), (''costType'', JStr ''guild''),
      (''payload'', JObj [(''content'', JStr ''live'')]), (''guildId'', JStr ''77''), (''channelId'', JStr ''5''),
      (''isAdmin'', JBool True)]"

lemma sample_creation_piped:
  "pipe sample_validators create_discord_body sample_creation_body = Inr (butlast sample_creation_body)"
  by (simp add: pipe_def create_discord_body_def fields field_ok_def transformed_def declared_fields_def
      List.map_filter_def sample_creation_body_def allowedTwitchEvents_def cost_types_def)

theorem accepted_bodies_are_stable_witness:
  "pipe sample_validators create_discord_body (butlast sample_creation_body) = Inr (butlast sample_creation_body)"
  using accepted_bodies_are_stable [OF _ sample_creation_piped] by (simp add: all_bodies_def)

definition sample_webhook_body :: "(string \<times> json) list" where
  "sample_webhook_body =
     [(''broadcasterId'', JStr ''b''), (''event'', JStr ''stream.online''), (''costType'', JStr ''personal''),
      (''payload'', JObj [(''content'', JStr ''live'')]), (''webhookUrl'', JStr ''https://discord.com/api/webhooks/1/t''),
      (''gameFilters'', JArr [JStr ''509658''])]"

lemma sample_webhook_piped: "pipe sample_validators create_webhook_body sample_webhook_body = Inr sample_webhook_body"
  by (simp add: pipe_def create_webhook_body_def fields field_ok_def transformed_def declared_fields_def
      List.map_filter_def sample_webhook_body_def allowedTwitchEvents_def cost_types_def)

theorem accepted_creations_read_witness:
  "(\<exists>r. read_create_discord (butlast sample_creation_body) = Some r \<and> cd_event r \<in> set allowedTwitchEvents \<and>
     (\<exists>p. cd_payload r = JObj p)) \<and>
   (\<exists>r. read_create_webhook sample_webhook_body = Some r \<and> cw_event r \<in> set allowedTwitchEvents \<and>
     (\<exists>p. cw_payload r = JObj p))"
  using accepted_creations_read [of sample_validators sample_creation_body "butlast sample_creation_body"]
    accepted_creations_read [of sample_validators sample_webhook_body sample_webhook_body]
    sample_creation_piped sample_webhook_piped by blast

lemma null_updates_read:
  "\<exists>r. read_update_discord [(''channelId'', JNull), (''payload'', JNull)] = Some r"
  using accepted_updates_read [OF optional_fields_may_be_null] .

theorem accepted_balances_may_fail_witness:
  "fst (updateUserBalance ''u'' 9990 populated_world) = Inl (ScriptExc ''QueryFailedError'')"
proof -
  have "decimal_of ''999'' = Some (999, 0)" by code_simp
  then have "pipe sample_validators user_balance_body [(''balance'', JNum ''999'')] = Inr [(''balance'', JNum ''999'')]"
    by (simp add: pipe_def user_balance_body_def fields field_ok_def transformed_def declared_fields_def
        List.map_filter_def tenths_at_least_def tenths_at_most_def)
  moreover have "row_of u_id ''u'' (w_users populated_world) = Some sample_user"
    by (simp add: row_of_def populated_world_def sample_user_def)
  moreover have "read_balance [(''balance'', JNum ''999'')] = Some 9990"
    using \<open>decimal_of ''999'' = Some (999, 0)\<close> by (simp add: read_balance_def)
  ultimately show ?thesis
    using accepted_balances_may_fail [of sample_validators "[(''balance'', JNum ''999'')]" "[(''balance'', JNum ''999'')]" "''u''" populated_world sample_user]
    by auto
qed

end
