(* ===== verification/BotRegistry.thy ===== *)
theory BotRegistry imports BotDelivery begin

text \<open>
  \<open>apps/discord-bot/src/modules/discord/discord.explorer.ts\<close>: how the handlers of the bot are found. A
  method carries the metadata that its decorator sets; the explorer goes through the methods of all providers,
  collects the commands to announce, fills one map per kind of interaction (a later method replaces an earlier one with the
  same name) and listens. Without a token or the identifier of the client it does neither. The last theorem says
  that the handlers it finds are those of \<open>interactionCreate\<close>.
\<close>

section \<open>Commands as they are announced\<close>

datatype option_kind = StringOption | ChannelOption

(* apps/discord-bot/src/modules/notifications/commands/add-destination.meta.ts 9-27 addDestinationCommandMeta *)
record command_option =
  co_option :: string
  co_kind :: option_kind
  co_required :: bool
  co_autocomplete :: bool
  co_choices :: "(string \<times> string) list"

(* apps/discord-bot/src/shared/decorators/command.decorator.ts 4-7 Command *)
record command_meta =
  cm_name :: string
  cm_description :: string
  cm_memberPermissions :: "string option"
  cm_options :: "command_option list"

(* apps/discord-bot/src/modules/account/commands/authorize.meta.ts 3-8 authorizeMeta *)
definition authorizeMeta :: command_meta where
  "authorizeMeta = \<lparr>cm_name = ''authorize'', cm_description = ''Link your Discord account to Xelar Notify'',
     cm_memberPermissions = None, cm_options = []\<rparr>"

(* apps/discord-bot/src/modules/account/commands/profile.meta.ts 3-8 profileMeta *)
definition profileMeta :: command_meta where
  "profileMeta = \<lparr>cm_name = ''profile'', cm_description = ''Show your Xelar Notify balance and subscriptions'',
     cm_memberPermissions = None, cm_options = []\<rparr>"

(* apps/discord-bot/src/modules/notifications/commands/add-destination.meta.ts 4-29 addDestinationCommandMeta *)
definition addDestinationCommandMeta :: command_meta where
  "addDestinationCommandMeta =
     \<lparr>cm_name = ''add-destination'', cm_description = ''Add a notification destination for a streamer event'',
      cm_memberPermissions = Some (flag_text ADMINISTRATOR),
      cm_options =
        [\<lparr>co_option = ''broadcaster'', co_kind = StringOption, co_required = True, co_autocomplete = True, co_choices = []\<rparr>,
         \<lparr>co_option = ''channel'', co_kind = ChannelOption, co_required = True, co_autocomplete = False, co_choices = []\<rparr>,
         \<lparr>co_option = ''type'', co_kind = StringOption, co_required = False, co_autocomplete = False,
          co_choices = [(''Stream Online'', event_text STREAM_ONLINE)]\<rparr>]\<rparr>"

section \<open>Methods and their decorators\<close>

datatype bot_handler =
  Authorize | Profile_Command | Add_Destination | Destination_Modal | Destination_Edit | Destination_Accept
| Destination_Autocomplete | Channel_Create | Channel_Delete | Channel_Update | Guild_Join | Guild_Leave

record bot_method =
  bm_handler :: bot_handler
  bm_command :: "command_meta option"
  bm_modal :: "string option"
  bm_button :: "string option"
  bm_autocomplete :: "string option"
  bm_event :: "string option"

definition undecorated :: "bot_handler \<Rightarrow> bot_method" where
  "undecorated h = \<lparr>bm_handler = h, bm_command = None, bm_modal = None, bm_button = None, bm_autocomplete = None, bm_event = None\<rparr>"

(* apps/discord-bot/src/shared/decorators/command.decorator.ts 6-7 Command *)
definition Command_decorator :: "command_meta \<Rightarrow> bot_handler \<Rightarrow> bot_method" where
  "Command_decorator m h = (undecorated h)\<lparr>bm_command := Some m\<rparr>"

(* apps/discord-bot/src/shared/decorators/modal.decorator.ts 5-6 ModalSubmit *)
definition ModalSubmit :: "string \<Rightarrow> bot_handler \<Rightarrow> bot_method" where
  "ModalSubmit p h = (undecorated h)\<lparr>bm_modal := Some p\<rparr>"

(* apps/discord-bot/src/shared/decorators/button.decorator.ts 5-6 ButtonClick *)
definition ButtonClick :: "string \<Rightarrow> bot_handler \<Rightarrow> bot_method" where
  "ButtonClick p h = (undecorated h)\<lparr>bm_button := Some p\<rparr>"

(* apps/discord-bot/src/shared/decorators/autocomplete.decorator.ts 5-6 Autocomplete *)
definition Autocomplete_decorator :: "string \<Rightarrow> bot_handler \<Rightarrow> bot_method" where
  "Autocomplete_decorator n h = (undecorated h)\<lparr>bm_autocomplete := Some n\<rparr>"

(* apps/discord-bot/src/shared/decorators/event.decorator.ts 5-6 OnDiscordEvent *)
definition OnDiscordEvent :: "string \<Rightarrow> bot_handler \<Rightarrow> bot_method" where
  "OnDiscordEvent e h = (undecorated h)\<lparr>bm_event := Some e\<rparr>"

text \<open>The decorated methods of the bot, in the order of its modules.\<close>

definition bot_methods :: "bot_method list" where
  "bot_methods =
     [OnDiscordEvent ''channelCreate'' Channel_Create, OnDiscordEvent ''channelDelete'' Channel_Delete,
      OnDiscordEvent ''channelUpdate'' Channel_Update, OnDiscordEvent ''guildCreate'' Guild_Join,
      OnDiscordEvent ''guildDelete'' Guild_Leave, Command_decorator authorizeMeta Authorize,
      Command_decorator profileMeta Profile_Command, Command_decorator addDestinationCommandMeta Add_Destination,
      ModalSubmit ''add-destination:modal'' Destination_Modal, ButtonClick ''add-destination:edit'' Destination_Edit,
      ButtonClick ''add-destination:accept'' Destination_Accept,
      Autocomplete_decorator ''add-destination'' Destination_Autocomplete]"

section \<open>The explorer\<close>

record registry =
  rg_commands :: "command_meta list"
  rg_handlers :: "string \<rightharpoonup> bot_handler"
  rg_modals :: "string \<rightharpoonup> bot_handler"
  rg_buttons :: "string \<rightharpoonup> bot_handler"
  rg_autocompletes :: "string \<rightharpoonup> bot_handler"

definition set_entry :: "string option \<Rightarrow> bot_handler \<Rightarrow> (string \<rightharpoonup> bot_handler) \<Rightarrow> (string \<rightharpoonup> bot_handler)" where
  "set_entry k h m = (case k of None \<Rightarrow> m | Some n \<Rightarrow> if n = [] then m else m(n \<mapsto> h))"

(* apps/discord-bot/src/modules/discord/discord.explorer.ts 39-69 DiscordExplorer.registerCommands, one method *)
definition explore_method :: "bot_method \<Rightarrow> registry \<Rightarrow> registry" where
  "explore_method b r =
     (let r1 = (case bm_command b of None \<Rightarrow> r
                | Some m \<Rightarrow> r\<lparr>rg_commands := rg_commands r @ [m], rg_handlers := (rg_handlers r)(cm_name m \<mapsto> bm_handler b)\<rparr>) in
      r1\<lparr>rg_modals := set_entry (bm_modal b) (bm_handler b) (rg_modals r1),
         rg_buttons := set_entry (bm_button b) (bm_handler b) (rg_buttons r1),
         rg_autocompletes := set_entry (bm_autocomplete b) (bm_handler b) (rg_autocompletes r1)\<rparr>)"

(* apps/discord-bot/src/modules/discord/discord.explorer.ts 24-69 DiscordExplorer.registerCommands, the maps *)
definition explore :: "bot_method list \<Rightarrow> registry" where
  "explore bs = fold explore_method bs
     \<lparr>rg_commands = [], rg_handlers = Map.empty, rg_modals = Map.empty, rg_buttons = Map.empty, rg_autocompletes = Map.empty\<rparr>"

text \<open>What the client listens with, and the commands Discord is told of; \<open>None\<close> when it does not listen.\<close>

(* apps/discord-bot/src/modules/discord/discord.explorer.ts 71-81 DiscordExplorer.registerCommands, announcing *)
definition registerCommands :: "string \<Rightarrow> string \<Rightarrow> bot_method list \<Rightarrow> registry option" where
  "registerCommands discordToken clientId bs =
     (if discordToken = [] \<or> clientId = [] then None else Some (explore bs))"

(* apps/discord-bot/src/modules/discord/discord.explorer.ts 120-141 DiscordExplorer.registerEventListeners *)
definition registerEventListeners :: "bot_method list \<Rightarrow> (string \<times> bot_handler) list" where
  "registerEventListeners bs = List.map_filter (\<lambda>b. case bm_event b of None \<Rightarrow> None
     | Some e \<Rightarrow> if e = [] then None else Some (e, bm_handler b)) bs"

section \<open>Interactions\<close>

text \<open>Running a handler that was found for the kind of input it handles.\<close>

definition run_handler :: "env \<Rightarrow> time \<Rightarrow> interaction \<Rightarrow> event_input \<Rightarrow> bot_handler \<Rightarrow> bot_reply option bot_act" where
  "run_handler E started i input h =
     (case (h, input) of
        (Authorize, ChatInput n ops) \<Rightarrow> andThen (handleAuthorize E i) (\<lambda>r. ret (Some r))
      | (Profile_Command, ChatInput n ops) \<Rightarrow> andThen (handleProfile E i) (\<lambda>r. ret (Some r))
      | (Add_Destination, ChatInput n ops) \<Rightarrow> andThen (handleAddCommand E i ops) (\<lambda>r. ret (Some r))
      | (Destination_Modal, ModalSubmitted customId d) \<Rightarrow> andThen (handleModal E started i customId d) (\<lambda>r. ret (Some r))
      | (Destination_Edit, ButtonClicked customId) \<Rightarrow> andThen (handleEdit i customId) (\<lambda>r. ret (Some r))
      | (Destination_Accept, ButtonClicked customId) \<Rightarrow> andThen (handleAccept E i customId) (\<lambda>r. ret (Some r))
      | (Destination_Autocomplete, Autocompleted n focused t) \<Rightarrow> andThen (handleAutocomplete E focused t) (\<lambda>r. ret (Some r))
      | _ \<Rightarrow> throw (ScriptExc ''TypeError''))"

(* apps/discord-bot/src/modules/discord/discord.explorer.ts 82-115 DiscordExplorer.registerCommands, the listener *)
definition found_handler :: "registry \<Rightarrow> event_input \<Rightarrow> bot_handler option" where
  "found_handler r input = (case input of
     ChatInput n ops \<Rightarrow> rg_handlers r n
   | ModalSubmitted customId d \<Rightarrow> rg_modals r (before_last customId)
   | ButtonClicked customId \<Rightarrow> rg_buttons r (before_last customId)
   | Autocompleted n focused t \<Rightarrow> rg_autocompletes r n)"

definition listen :: "registry option \<Rightarrow> env \<Rightarrow> time \<Rightarrow> interaction \<Rightarrow> event_input \<Rightarrow> bot_reply option bot_act" where
  "listen reg E started i input = (case reg of None \<Rightarrow> ret None
   | Some r \<Rightarrow> (case found_handler r input of None \<Rightarrow> ret None | Some h \<Rightarrow> run_handler E started i input h))"

section \<open>What is found\<close>

lemmas decorators = Command_decorator_def ModalSubmit_def ButtonClick_def Autocomplete_decorator_def
  OnDiscordEvent_def undecorated_def

lemma explore_method_fields:
  "rg_commands (explore_method b r) = rg_commands r @ (case bm_command b of None \<Rightarrow> [] | Some m \<Rightarrow> [m])"
  "rg_handlers (explore_method b r) = (case bm_command b of None \<Rightarrow> rg_handlers r
     | Some m \<Rightarrow> (rg_handlers r)(cm_name m \<mapsto> bm_handler b))"
  "rg_modals (explore_method b r) = set_entry (bm_modal b) (bm_handler b) (rg_modals r)"
  "rg_buttons (explore_method b r) = set_entry (bm_button b) (bm_handler b) (rg_buttons r)"
  "rg_autocompletes (explore_method b r) = set_entry (bm_autocomplete b) (bm_handler b) (rg_autocompletes r)"
  by (simp_all add: explore_method_def Let_def split: option.split)

lemma decorated:
  "bm_command (Command_decorator m h) = Some m" "bm_handler (Command_decorator m h) = h" "bm_modal (Command_decorator m h) = None"
  "bm_button (Command_decorator m h) = None" "bm_autocomplete (Command_decorator m h) = None" "bm_event (Command_decorator m h) = None"
  "bm_command (ModalSubmit p h) = None" "bm_handler (ModalSubmit p h) = h" "bm_modal (ModalSubmit p h) = Some p"
  "bm_button (ModalSubmit p h) = None" "bm_autocomplete (ModalSubmit p h) = None" "bm_event (ModalSubmit p h) = None"
  "bm_command (ButtonClick p h) = None" "bm_handler (ButtonClick p h) = h" "bm_modal (ButtonClick p h) = None"
  "bm_button (ButtonClick p h) = Some p" "bm_autocomplete (ButtonClick p h) = None" "bm_event (ButtonClick p h) = None"
  "bm_command (Autocomplete_decorator p h) = None" "bm_handler (Autocomplete_decorator p h) = h" "bm_modal (Autocomplete_decorator p h) = None"
  "bm_button (Autocomplete_decorator p h) = None" "bm_autocomplete (Autocomplete_decorator p h) = Some p" "bm_event (Autocomplete_decorator p h) = None"
  "bm_command (OnDiscordEvent p h) = None" "bm_handler (OnDiscordEvent p h) = h" "bm_modal (OnDiscordEvent p h) = None"
  "bm_button (OnDiscordEvent p h) = None" "bm_autocomplete (OnDiscordEvent p h) = None" "bm_event (OnDiscordEvent p h) = Some p"
  by (simp_all add: decorators)

lemma meta_names:
  "cm_name authorizeMeta = ''authorize''" "cm_name profileMeta = ''profile''" "cm_name addDestinationCommandMeta = ''add-destination''"
  by (simp_all add: authorizeMeta_def profileMeta_def addDestinationCommandMeta_def)

lemma explored:
  "rg_handlers (explore bot_methods) =
     [''authorize'' \<mapsto> Authorize, ''profile'' \<mapsto> Profile_Command, ''add-destination'' \<mapsto> Add_Destination]"
  "rg_modals (explore bot_methods) = [''add-destination:modal'' \<mapsto> Destination_Modal]"
  "rg_buttons (explore bot_methods) = [''add-destination:edit'' \<mapsto> Destination_Edit, ''add-destination:accept'' \<mapsto> Destination_Accept]"
  "rg_autocompletes (explore bot_methods) = [''add-destination'' \<mapsto> Destination_Autocomplete]"
  "map cm_name (rg_commands (explore bot_methods)) = [''authorize'', ''profile'', ''add-destination'']"
  by (simp_all add: explore_def bot_methods_def explore_method_fields decorated meta_names set_entry_def)

lemma found_command:
  "rg_handlers (explore bot_methods) n =
     (if n = ''authorize'' then Some Authorize else if n = ''profile'' then Some Profile_Command
      else if n = ''add-destination'' then Some Add_Destination else None)"
  unfolding explored by simp

lemma found_button:
  "rg_buttons (explore bot_methods) p =
     (if p = ''add-destination:edit'' then Some Destination_Edit
      else if p = ''add-destination:accept'' then Some Destination_Accept else None)"
  unfolding explored by simp

lemma found_form: "rg_modals (explore bot_methods) p = (if p = ''add-destination:modal'' then Some Destination_Modal else None)"
  unfolding explored by simp

lemma found_completion:
  "rg_autocompletes (explore bot_methods) n = (if n = ''add-destination'' then Some Destination_Autocomplete else None)"
  unfolding explored by simp

lemmas found = found_command found_button found_form found_completion

lemma listen_found:
  "listen (Some r) E started i input = (case found_handler r input of None \<Rightarrow> ret None | Some h \<Rightarrow> run_handler E started i input h)"
  by (simp add: listen_def)

lemma explored_dispatch:
  "listen (Some (explore bot_methods)) E started i input = interactionCreate E started i input"
proof (cases input)
  case (ChatInput n ops)
  show ?thesis
    unfolding listen_found ChatInput found_handler_def interactionCreate_def event_input.case found
    by (simp only: run_handler_def option.case prod.case bot_handler.case event_input.case split: if_split) simp
next
  case (ModalSubmitted customId d)
  show ?thesis
    unfolding listen_found ModalSubmitted found_handler_def interactionCreate_def event_input.case found
    by (simp only: run_handler_def option.case prod.case bot_handler.case event_input.case split: if_split) simp
next
  case (ButtonClicked customId)
  show ?thesis
    unfolding listen_found ButtonClicked found_handler_def interactionCreate_def event_input.case found
    by (simp only: run_handler_def option.case prod.case bot_handler.case event_input.case split: if_split) simp
next
  case (Autocompleted n focused t)
  show ?thesis
    unfolding listen_found Autocompleted found_handler_def interactionCreate_def event_input.case found
    by (simp only: run_handler_def option.case prod.case bot_handler.case event_input.case split: if_split) simp
qed

text \<open>
  The bot reacts to an interaction exactly as \<open>interactionCreate\<close> says: for every command, form, button
  and completion the explorer finds the one method that handles it, never two for the same, and calls none with an
  input of another kind. Without a token or the identifier of the client nothing is handled at all.
\<close>

theorem explored_handlers_dispatch:
  "listen (registerCommands discordToken clientId bot_methods) E started i input =
     (if discordToken = [] \<or> clientId = [] then ret None else interactionCreate E started i input)"
  by (simp add: registerCommands_def explored_dispatch listen_def [of None])

text \<open>Every command that is announced has a handler, and every listener is one of the five for guilds and channels.\<close>

lemma announced_commands_handled:
  assumes "m \<in> set (rg_commands (explore bot_methods))"
  shows "rg_handlers (explore bot_methods) (cm_name m) \<noteq> None"
proof -
  have "cm_name m \<in> set (map cm_name (rg_commands (explore bot_methods)))" using assms unfolding set_map by (rule imageI)
  then have "cm_name m \<in> {''authorize'', ''profile'', ''add-destination''}" by (simp only: explored(5) list.set)
  then show ?thesis by (elim insertE emptyE) (simp_all only: found_command if_True option.distinct refl, simp_all)
qed

lemma listened_events:
  "registerEventListeners bot_methods =
     [(''channelCreate'', Channel_Create), (''channelDelete'', Channel_Delete), (''channelUpdate'', Channel_Update),
      (''guildCreate'', Guild_Join), (''guildDelete'', Guild_Leave)]"
  by (simp add: registerEventListeners_def bot_methods_def decorated List.map_filter_def)

end
