(* ===== verification/Setup.thy ===== *)
theory Setup imports Access Validation Samples begin

text \<open>
  \<open>scripts/seed.ts\<close>: the script that fills an empty database with the role of the administrators
  and, when the environment names one, the first administrator. It saves through the same
  repositories as the services do, so its effect is an action on the shared state.
\<close>

section \<open>The script\<close>

(* scripts/seed.ts 7-7 ADMIN_ROLE_NAME *)
definition ADMIN_ROLE_NAME :: string where
  "ADMIN_ROLE_NAME = ''super admin''"

(* scripts/seed.ts 8-14 DEFAULT_ROLES *)
definition DEFAULT_ROLES :: "(string \<times> int \<times> permission list) list" where
  "DEFAULT_ROLES = [(ADMIN_ROLE_NAME, 100, all_permissions)]"

definition save_default_role :: "env \<Rightarrow> string \<times> int \<times> permission list \<Rightarrow> unit act" where
  "save_default_role E d =
     andThen (fresh_id E) (\<lambda>newId.
     andThen (name_free newId (fst d)) (\<lambda>_.
     modify (w_roles_update (save_row r_id
       \<lparr>r_id = newId, r_name = fst d, r_priority = fst (snd d), r_permissions = snd (snd d)\<rparr>))))"

text \<open>
  Roles are counted without a condition, so any role at all stops the script from adding its own.
\<close>

(* scripts/seed.ts 23-29 seed, the roles *)
definition seed_roles :: "env \<Rightarrow> unit act" where
  "seed_roles E =
     andThen (gets (\<lambda>w. count_rows (\<lambda>_. True) (w_roles w))) (\<lambda>existingRolesCount.
     if existingRolesCount = 0 then forEach (save_default_role E) DEFAULT_ROLES else ret ())"

(* scripts/seed.ts 41-50 seed, the row of the administrator *)
definition admin_row :: "string \<Rightarrow> string \<Rightarrow> role option \<Rightarrow> string \<Rightarrow> time \<Rightarrow> user" where
  "admin_row email hashed superAdmin newId now =
     (blank_user newId now ''Admin'')\<lparr>u_email := Some email, u_password := Some hashed, u_balance := 0,
        u_status := ACTIVE, u_roles := (case superAdmin of None \<Rightarrow> [] | Some r \<Rightarrow> [r_id r])\<rparr>"

text \<open>An environment variable that is not set and one that is empty are alike here.\<close>

(* scripts/seed.ts 31-55 seed, the administrator *)
definition seed_admin :: "env \<Rightarrow> string option \<Rightarrow> string option \<Rightarrow> unit act" where
  "seed_admin E adminEmail adminPassword =
     (case (adminEmail, adminPassword) of
       (Some (a # email), Some (c # pw)) \<Rightarrow>
         andThen (gets (\<lambda>w. find (\<lambda>u. u_email u = Some (a # email)) (w_users w))) (\<lambda>existingAdmin.
         if existingAdmin = None then
           andThen (gets (\<lambda>w. find (\<lambda>r. r_name r = ADMIN_ROLE_NAME) (w_roles w))) (\<lambda>superAdminRole.
           andThen (hash_password E (c # pw)) (\<lambda>hashedPassword.
           andThen (new_user E (admin_row (a # email) hashedPassword superAdminRole)) (\<lambda>_. ret ())))
         else ret ())
     | _ \<Rightarrow> ret ())"

(* scripts/seed.ts 16-63 seed *)
definition seed :: "env \<Rightarrow> string option \<Rightarrow> string option \<Rightarrow> unit act" where
  "seed E adminEmail adminPassword = andThen (seed_roles E) (\<lambda>_. seed_admin E adminEmail adminPassword)"

text \<open>The exit status of the process: every exception is caught and turned into 1.\<close>

(* scripts/seed.ts 57-62 seed, the end of the process *)
definition seed_status :: "exc + unit \<Rightarrow> nat" where
  "seed_status r = (case r of Inl _ \<Rightarrow> 1 | Inr _ \<Rightarrow> 0)"

section \<open>What a run leaves behind\<close>

definition default_role :: "string \<Rightarrow> role" where
  "default_role i = \<lparr>r_id = i, r_name = ADMIN_ROLE_NAME, r_priority = 100, r_permissions = all_permissions\<rparr>"

lemma default_role_id [simp]: "r_id (default_role i) = i" "r_name (default_role i) = ADMIN_ROLE_NAME"
  by (simp_all add: default_role_def)

lemma exec_seed_roles:
  "seed_roles E w =
     (Inr (), if w_roles w = [] then w\<lparr>w_roles := [default_role (x_uuid E (w_ids w))], w_ids := Suc (w_ids w)\<rparr> else w)"
  by (simp add: seed_roles_def count_rows_def DEFAULT_ROLES_def save_default_role_def name_free_def save_row_def
      default_role_def exec)

lemma exec_new_user:
  assumes "unique_user (f (x_uuid E (w_ids w)) (w_now w)) (w\<lparr>w_ids := Suc (w_ids w)\<rparr>)"
  shows "new_user E f w = (Inr (f (x_uuid E (w_ids w)) (w_now w)),
    w\<lparr>w_ids := Suc (w_ids w), w_users := save_row u_id (f (x_uuid E (w_ids w)) (w_now w)) (w_users w)\<rparr>)"
  using assms by (simp add: new_user_def save_user_def exec)

text \<open>The administrator a run adds, when it adds one.\<close>

definition seeded_admin :: "env \<Rightarrow> string \<Rightarrow> string \<Rightarrow> world \<Rightarrow> user" where
  "seeded_admin E email pw w =
     admin_row email (x_hash E (w_ids w) pw) (find (\<lambda>r. r_name r = ADMIN_ROLE_NAME) (w_roles w))
       (x_uuid E (Suc (w_ids w))) (w_now w)"

lemma admin_row_fields [simp]:
  "u_email (admin_row e h r i t) = Some e" "u_discordId (admin_row e h r i t) = None" "u_id (admin_row e h r i t) = i"
  "u_password (admin_row e h r i t) = Some h" "u_status (admin_row e h r i t) = ACTIVE" "u_balance (admin_row e h r i t) = 0"
  "u_roles (admin_row e h r i t) = (case r of None \<Rightarrow> [] | Some r \<Rightarrow> [r_id r])"
  by (simp_all add: admin_row_def blank_user_def)

lemma find_email_None:
  "find (\<lambda>u. u_email u = Some e) us = None \<longleftrightarrow> (\<forall>u \<in> set us. u_email u \<noteq> Some e)"
  by (auto simp: find_None_iff)

lemma exec_seed_admin:
  assumes "email \<noteq> []" and "pw \<noteq> []"
  shows "seed_admin E (Some email) (Some pw) w =
    (Inr (), if find (\<lambda>u. u_email u = Some email) (w_users w) = None
       then w\<lparr>w_ids := Suc (Suc (w_ids w)), w_users := save_row u_id (seeded_admin E email pw w) (w_users w)\<rparr> else w)"
proof -
  obtain a e c p where s: "email = a # e" "pw = c # p" using assms by (meson neq_Nil_conv)
  show ?thesis
  proof (cases "find (\<lambda>u. u_email u = Some email) (w_users w)")
    case None
    let ?w = "w\<lparr>w_ids := Suc (w_ids w)\<rparr>"
    let ?f = "admin_row email (x_hash E (w_ids w) pw) (find (\<lambda>r. r_name r = ADMIN_ROLE_NAME) (w_roles w))"
    have u: "unique_user (?f (x_uuid E (w_ids ?w)) (w_now ?w)) (?w\<lparr>w_ids := Suc (w_ids ?w)\<rparr>)"
      using None by (auto simp: unique_user_def find_email_None)
    show ?thesis using None exec_new_user [where f = ?f and w = ?w, OF u] s
      by (simp add: seed_admin_def hash_password_def seeded_admin_def exec)
  next
    case (Some u)
    then show ?thesis using s by (simp add: seed_admin_def exec)
  qed
qed

lemma seed_admin_skipped:
  "email = None \<or> email = Some [] \<or> pw = None \<or> pw = Some [] \<Longrightarrow> seed_admin E email pw w = (Inr (), w)"
  by (auto simp: seed_admin_def exec split: option.splits list.splits)

lemma save_row_nonempty: "save_row key r rs \<noteq> []"
  by (auto simp: save_row_def)

lemma seeded_in_rows: "seeded_admin E email pw w \<in> set (save_row u_id (seeded_admin E email pw w) us)"
  by (auto simp: save_row_def image_iff)

lemma seed_admin_twice: "seed_admin E email pw (snd (seed_admin E email pw w)) = (Inr (), snd (seed_admin E email pw w))"
proof (cases "email = None \<or> email = Some [] \<or> pw = None \<or> pw = Some []")
  case False
  then obtain e p where s: "email = Some e" "pw = Some p" "e \<noteq> []" "p \<noteq> []" by (cases email; cases pw) auto
  have "find (\<lambda>u. u_email u = Some e) (save_row u_id (seeded_admin E e p w) (w_users w)) \<noteq> None"
    using seeded_in_rows [of E e p w "w_users w"] unfolding find_email_None
    by (metis admin_row_fields(1) seeded_admin_def)
  then show ?thesis using s by (auto simp: exec_seed_admin)
qed (simp add: seed_admin_skipped)

lemma seed_admin_runs: "fst (seed_admin E email pw w) = Inr () \<and> w_roles (snd (seed_admin E email pw w)) = w_roles w"
proof (cases "email = None \<or> email = Some [] \<or> pw = None \<or> pw = Some []")
  case False
  then obtain e p where "email = Some e" "pw = Some p" "e \<noteq> []" "p \<noteq> []" by (cases email; cases pw) auto
  then show ?thesis by (simp add: exec_seed_admin)
qed (simp add: seed_admin_skipped)

lemma exec_seed: "seed E email pw w = seed_admin E email pw (snd (seed_roles E w))"
  by (simp add: seed_def exec exec_seed_roles)

text \<open>
  The script may be run again and again: it always ends with status 0, and a second run with the
  same environment changes nothing, neither roles nor users nor the password of the administrator.
\<close>

theorem seed_idempotent:
  "seed_status (fst (seed E email pw w)) = 0 \<and>
   seed E email pw (snd (seed E email pw w)) = (Inr (), snd (seed E email pw w))"
proof -
  let ?v = "snd (seed E email pw w)"
  have "w_roles ?v \<noteq> []" by (simp add: exec_seed seed_admin_runs exec_seed_roles)
  then have "snd (seed_roles E ?v) = ?v" by (simp add: exec_seed_roles)
  then have "seed E email pw ?v = seed_admin E email pw ?v" by (simp add: exec_seed [of E email pw ?v])
  also have "\<dots> = (Inr (), ?v)" unfolding exec_seed [of E email pw w] by (rule seed_admin_twice)
  finally have t: "seed E email pw ?v = (Inr (), ?v)" .
  have "fst (seed E email pw w) = Inr ()" by (simp add: exec_seed seed_admin_runs)
  then show ?thesis using t by (simp add: seed_status_def)
qed

lemma login_after_seed:
  assumes "w_roles w = []" and "w_users w = []" and "new_session_ids E w" and "email \<noteq> []" and "pw \<noteq> []"
    and "\<And>n p. x_compare E p (x_hash E n p)"
  shows "\<exists>r w'. loginByEmail E email pw (snd (seed E (Some email) (Some pw) w)) = (Inr r, w') \<and>
    pf_roles (ar_user r) = [ADMIN_ROLE_NAME] \<and> pf_permissions (ar_user r) = all_permissions"
proof -
  let ?w1 = "w\<lparr>w_roles := [default_role (x_uuid E (w_ids w))], w_ids := Suc (w_ids w)\<rparr>"
  let ?u = "seeded_admin E email pw ?w1"
  let ?v = "snd (seed E (Some email) (Some pw) w)"
  have v: "?v = ?w1\<lparr>w_ids := Suc (Suc (w_ids ?w1)), w_users := [?u]\<rparr>"
    using assms by (simp add: exec_seed exec_seed_roles exec_seed_admin save_row_def)
  have u: "u_email ?u = Some email" "u_status ?u = ACTIVE" "u_password ?u = Some (x_hash E (w_ids ?w1) pw)"
    "u_roles ?u = [x_uuid E (w_ids w)]"
    by (simp_all add: seeded_admin_def)
  have s: "new_session_ids E ?v" using assms(3) by (simp add: new_session_ids_def v)
  have ro: "roles_of ?u ?v = [default_role (x_uuid E (w_ids w))]" "user_roles (u_id ?u) ?v = [default_role (x_uuid E (w_ids w))]"
    by (simp_all add: roles_of_def user_roles_def row_of_def u v)
  have acc: "rolesToAccess [default_role i] = \<lparr>ac_roles = [ADMIN_ROLE_NAME], ac_permissions = all_permissions\<rparr>" for i
    by (simp add: rolesToAccess_def default_role_def all_permissions_def first_occurrences_def)
  have l: "loginByEmail E email pw ?v = createSession E ?u (roles_of ?u ?v)
      (ac_permissions (rolesToAccess (user_roles (u_id ?u) ?v))) (ac_roles (rolesToAccess (user_roles (u_id ?u) ?v))) ?v"
    using assms(6) u by (simp add: loginByEmail_def exec verify_password_def getRolesAccessesForUser_def v)
  then obtain r w' where r: "loginByEmail E email pw ?v = (Inr r, w')"
    using createSession_exec [OF s] by metis
  then have "ar_user r = toUserPayload ?u (roles_of ?u ?v) None"
    unfolding l by (auto simp: createSession_def exec generateTokens_def toAuthResponse_def)
  then have "pf_roles (ar_user r) = [ADMIN_ROLE_NAME] \<and> pf_permissions (ar_user r) = all_permissions"
    unfolding ro by (simp add: toUserPayload_def acc)
  with r show ?thesis by blast
qed

text \<open>The request to log in: its body is checked by the rules of \<open>LoginByEmailDto\<close> before the controller sees it.\<close>

(* apps/api/src/modules/auth/controllers/auth.controller.ts 51-55 AuthController.login, with the check of its body *)
definition post_login :: "validators \<Rightarrow> env \<Rightarrow> (string \<times> json) list \<Rightarrow> auth_response act" where
  "post_login V E body =
     (case pipe V login_by_email_body body of
        Inl broken \<Rightarrow> throw (badRequest ''Bad Request Exception'')
      | Inr dto \<Rightarrow> (case (text_in ''email'' dto, text_in ''password'' dto) of
          (Some email, Some password) \<Rightarrow> routeLogin E email password
        | _ \<Rightarrow> throw (ScriptExc ''TypeError'')))"

lemma post_login_exact:
  "post_login V E [(''email'', JStr email), (''password'', JStr pw)] =
     (if v_email V email \<and> 8 \<le> length pw then loginByEmail E email pw else throw (badRequest ''Bad Request Exception''))"
  by (simp add: post_login_def pipe_def login_by_email_body_def required_def field_ok_def transformed_def
      declared_fields_def List.map_filter_def text_in_def routeLogin_def)

text \<open>
  C40. After the script has run on an empty database, the administrator named in its environment can log in
  through the API with the password given there, and is told to have the role and every permission there is,
  when the name is an email address and the password has eight characters. The script takes any other name and password
  as well; then the API answers every such login with 400.
\<close>

theorem seeded_admin_logs_in:
  assumes "w_roles w = []" and "w_users w = []" and "new_session_ids E w" and "email \<noteq> []" and "pw \<noteq> []"
    and "\<And>n p. x_compare E p (x_hash E n p)"
  shows "if v_email V email \<and> 8 \<le> length pw
    then \<exists>r w'. post_login V E [(''email'', JStr email), (''password'', JStr pw)] (snd (seed E (Some email) (Some pw) w)) =
        (Inr r, w') \<and> pf_roles (ar_user r) = [ADMIN_ROLE_NAME] \<and> pf_permissions (ar_user r) = all_permissions
    else post_login V E [(''email'', JStr email), (''password'', JStr pw)] (snd (seed E (Some email) (Some pw) w)) =
        (Inl (badRequest ''Bad Request Exception''), snd (seed E (Some email) (Some pw) w))"
  using login_after_seed [OF assms] by (simp add: post_login_exact throw_def)

lemma sample_sessions: "new_session_ids sample_env sample_world"
  by (simp add: new_session_ids_def)

theorem seeded_admin_logs_in_witness:
  "(\<exists>r w'. post_login sample_validators sample_env [(''email'', JStr ''root@b.c''), (''password'', JStr ''longer secret'')]
     (snd (seed sample_env (Some ''root@b.c'') (Some ''longer secret'') sample_world)) = (Inr r, w') \<and>
     pf_roles (ar_user r) = [''super admin''] \<and> ADMIN \<in> set (pf_permissions (ar_user r))) \<and>
   fst (post_login sample_validators sample_env [(''email'', JStr ''root@b.c''), (''password'', JStr ''secret'')]
     (snd (seed sample_env (Some ''root@b.c'') (Some ''secret'') sample_world))) = Inl (badRequest ''Bad Request Exception'')"
proof -
  have "x_compare sample_env p (x_hash sample_env n p)" for n p
    by simp
  then show ?thesis
    using seeded_admin_logs_in [of sample_world sample_env "''root@b.c''" "''longer secret''" sample_validators]
      seeded_admin_logs_in [of sample_world sample_env "''root@b.c''" "''secret''" sample_validators] sample_sessions
    by (fastforce simp: ADMIN_ROLE_NAME_def all_permissions_def sample_validators_def)
qed

end
