(* ===== verification/Wiring.thy ===== *)
theory Wiring imports Administration BotDelivery Worker begin

text \<open>
  How the four processes are put together: the queue each one listens to, the patterns its
  controllers handle, the remote calls and who answers them. The theorems join the services: no
  message and no call is without a handler, and what Twitch tells the receiver about a stream
  arrives as posts of the bot, through the queue of the worker and the queue of the bot.
\<close>

section \<open>Queues\<close>

datatype process = Api_Process | Receiver_Process | Worker_Process | Bot_Process

(* apps/api/src/main.ts 33-41 bootstrap, the queue *)
definition api_queue :: queue where
  "api_queue = TWITCH_SUBSCRIPTIONS"

(* apps/notification-worker/src/main.ts 18-29 bootstrap, the queue *)
definition worker_queue :: queue where
  "worker_queue = STREAM_EVENTS"

(* apps/discord-bot/src/main.ts 23-30 bootstrap, the queue *)
definition bot_queue :: queue where
  "bot_queue = DISCORD_NOTIFICATIONS"

fun listens_to :: "process \<Rightarrow> queue option" where
  "listens_to Api_Process = Some api_queue"
| "listens_to Receiver_Process = None"
| "listens_to Worker_Process = Some worker_queue"
| "listens_to Bot_Process = Some bot_queue"

text \<open>The event patterns of the controllers that the modules of a process register.\<close>

fun handled_events :: "process \<Rightarrow> queue_pattern list" where
  "handled_events Api_Process = [Verified, Revoked]"
| "handled_events Receiver_Process = []"
| "handled_events Worker_Process = [Online]"
| "handled_events Bot_Process = [SendNotification]"

definition has_consumer :: "message \<Rightarrow> bool" where
  "has_consumer m \<longleftrightarrow> (\<exists>p q. listens_to p = Some q \<and> ms_queue m = queue_name q \<and>
     ms_pattern m \<in> pattern_name ` set (handled_events p))"

section \<open>Remote calls\<close>

(* libs/rpc/src/patterns/index.ts 1-21 RpcPatterns *)
datatype rpc_pattern =
    Authenticate | Add_Destination | Remove_Destination | List_Destinations | Get_Credits | Get_Profile
  | Suspend_Notification | Search_Streamers
  | Guild_Roles | Guild_Member_Roles | Guild_Channels | Guild_Ids
  | Get_Channel_Info

(* libs/rpc/src/patterns/index.ts 1-21 RpcPatterns *)
fun rpc_name :: "rpc_pattern \<Rightarrow> string" where
  "rpc_name Authenticate = ''discord.authenticate''"
| "rpc_name Add_Destination = ''discord.add-destination''"
| "rpc_name Remove_Destination = ''discord.remove-destination''"
| "rpc_name List_Destinations = ''discord.list-destinations''"
| "rpc_name Get_Credits = ''discord.get-credits''"
| "rpc_name Get_Profile = ''discord.get-profile''"
| "rpc_name Suspend_Notification = ''discord.notifications.suspend''"
| "rpc_name Search_Streamers = ''discord.search-streamers''"
| "rpc_name Guild_Roles = ''bot.discord.guild-roles''"
| "rpc_name Guild_Member_Roles = ''bot.discord.guild-member-roles''"
| "rpc_name Guild_Channels = ''bot.discord.guild-channels''"
| "rpc_name Guild_Ids = ''bot.discord.guild-ids''"
| "rpc_name Get_Channel_Info = ''twitch.get-channel-info''"

(* apps/api/src/modules/discord-handler/discord-handler.module.ts 23-31 DiscordHandlerModule, controllers *)
definition discord_handlers :: "rpc_pattern list" where
  "discord_handlers =
     [Add_Destination, Remove_Destination, List_Destinations, Authenticate, Suspend_Notification, Search_Streamers,
      Get_Profile]"

(* apps/discord-bot/src/modules/discord/discord.module.ts 20-20 DiscordModule, controllers *)
definition bot_handlers :: "rpc_pattern list" where
  "bot_handlers = [Guild_Roles, Guild_Member_Roles, Guild_Channels, Guild_Ids]"

fun answered_calls :: "process \<Rightarrow> rpc_pattern list" where
  "answered_calls Api_Process = discord_handlers @ [Get_Channel_Info]"
| "answered_calls Bot_Process = bot_handlers"
| "answered_calls p = []"

text \<open>The calls of a process: the API asks the bot, the bot and the receiver ask the API.\<close>

fun made_calls :: "process \<Rightarrow> (process \<times> rpc_pattern) list" where
  "made_calls Api_Process = map (Pair Bot_Process) [Guild_Channels, Guild_Ids, Guild_Roles]"
| "made_calls Receiver_Process = [(Api_Process, Get_Channel_Info)]"
| "made_calls Worker_Process = []"
| "made_calls Bot_Process =
     map (Pair Api_Process) [Authenticate, Get_Profile, Suspend_Notification, Add_Destination, Search_Streamers]"

lemma calls_are_answered:
  "(q, c) \<in> set (made_calls p) \<Longrightarrow> c \<in> set (answered_calls q)"
  "inj rpc_name" "inj pattern_name" "inj queue_name"
proof -
  show "(q, c) \<in> set (made_calls p) \<Longrightarrow> c \<in> set (answered_calls q)"
    by (cases p) (auto simp: discord_handlers_def bot_handlers_def)
  show "inj rpc_name"
  proof (rule injI)
    fix a b show "rpc_name a = rpc_name b \<Longrightarrow> a = b" by (cases a; cases b) simp_all
  qed
  show "inj pattern_name"
  proof (rule injI)
    fix a b show "pattern_name a = pattern_name b \<Longrightarrow> a = b" by (cases a; cases b) simp_all
  qed
  show "inj queue_name"
  proof (rule injI)
    fix a b show "queue_name a = queue_name b \<Longrightarrow> a = b" by (cases a; cases b) simp_all
  qed
qed

section \<open>Every message has a consumer\<close>

text \<open>What an action puts on the queues satisfies a predicate.\<close>

definition puts :: "(message \<Rightarrow> bool) \<Rightarrow> world \<Rightarrow> world \<Rightarrow> bool" where
  "puts P s t \<longleftrightarrow> (\<exists>ms. w_outbox t = w_outbox s @ ms \<and> list_all P ms)"

interpretation putting: state_rel "puts P"
proof unfold_locales
  fix s t u :: world
  show "puts P s s" by (auto simp: puts_def)
  show "puts P s t \<Longrightarrow> puts P t u \<Longrightarrow> puts P s u" by (auto simp: puts_def)
qed

lemma same_puts: "relates (same w_outbox) m \<Longrightarrow> relates (puts P) m"
  by (rule relatesI) (simp add: puts_def sameD)

lemma emit_puts: "P \<lparr>ms_queue = q, ms_pattern = p, ms_data = d\<rparr> \<Longrightarrow> relates (puts P) (emit E q p d)"
  by (rule relatesI) (auto simp: exec puts_def split: option.split)

lemma unawaited_puts:
  assumes "relates (puts P) m"
  shows "relates (puts P) (unawaited m)"
proof (rule relatesI)
  fix s
  show "puts P s (snd (unawaited m s))"
    using relatesD [OF assms, of s] by (cases "m s"; cases "fst (m s)") (auto simp: exec puts_def)
qed

lemma consumed [simp]:
  "has_consumer \<lparr>ms_queue = ''twitch.subscriptions'', ms_pattern = ''twitch.subscriptions.verified'', ms_data = d\<rparr>"
  "has_consumer \<lparr>ms_queue = ''twitch.subscriptions'', ms_pattern = ''twitch.subscriptions.revoked'', ms_data = d\<rparr>"
  "has_consumer \<lparr>ms_queue = ''stream.events'', ms_pattern = ''stream.events.online'', ms_data = d\<rparr>"
  "has_consumer \<lparr>ms_queue = ''discord.notifications'', ms_pattern = ''discord.notifications.send'', ms_data = d\<rparr>"
  unfolding has_consumer_def
  by (rule exI [of _ Api_Process], simp add: api_queue_def) (rule exI [of _ Api_Process], simp add: api_queue_def,
     rule exI [of _ Worker_Process], simp add: worker_queue_def, rule exI [of _ Bot_Process], simp add: bot_queue_def)

lemma signature_check_outbox:
  fixes c :: webhook_call
  shows "relates (same w_outbox) (unawaited (verify E (wc_clientId c) (wc_messageId c) (wc_timestamp c) b (wc_signature c)))"
proof (rule relatesI)
  fix s :: world
  let ?c = "c\<lparr>wc_rawBody := Some b\<rparr>"
  have "message_view (snd (check_signature E ?c s)) = message_view s" using sameD [OF check_signature_view] .
  then show "same w_outbox s (snd (unawaited (verify E (wc_clientId c) (wc_messageId c) (wc_timestamp c) b (wc_signature c)) s))"
    by (simp add: check_signature_def message_view_def same_def)
qed

lemma receiver_puts: "relates (puts has_consumer) (handleTwitchWebhook E c)"
proof -
  have m: "relates (puts has_consumer) (markIfNew E a b)" for a b
    by (rule same_puts, rule relatesI) (simp add: markIfNew_def redis_setNX_def exec same_def split: prod.split)
  have e: "relates (puts has_consumer) (handleEvent E dto)" for dto
    unfolding handleEvent_def Let_def getChannelInfo_def
    by (intro putting.rel_rules same_puts [OF member_same] same_puts [OF callSafe_same]
        outbox_kept.keep_getChannelById unawaited_puts emit_puts) simp
  show ?thesis
    unfolding handleTwitchWebhook_def acknowledgeEvent_def revokeTwitchSubscription_def
    by (intro putting.rel_rules same_puts [OF signature_check_outbox] same_puts [OF member_same]
        unawaited_puts emit_puts m e) simp_all
qed

lemma worker_puts: "relates (puts has_consumer) (handleStreamOnline E data)"
proof -
  have i: "relates (puts has_consumer) (interpolated E vars j)" for vars j
    unfolding interpolated_def by (intro putting.rel_rules)
  have "relates (puts has_consumer) (dispatch_one E e st vars n)" for e st vars n
    unfolding dispatch_one_def
    by (intro putting.rel_rules i same_puts [OF save_log_outbox] emit_puts) simp
  then show ?thesis
    unfolding handleStreamOnline_def dispatchDiscord_def Let_def
    by (auto intro!: putting.rel_rules same_puts [OF dispatchWebhooks_outbox] split: option.split prod.split)
qed

text \<open>
  C3. Whatever Twitch sends to the receiver and whatever the worker makes of a stream, every message they
  put on a queue is for a process that listens to that queue and has a handler for its pattern.
\<close>

theorem every_message_has_a_handler:
  "list_all has_consumer (w_outbox w) =
     list_all has_consumer (w_outbox (snd (handleTwitchWebhook E c w))) \<and>
   list_all has_consumer (w_outbox w) =
     list_all has_consumer (w_outbox (snd (handleStreamOnline E data w)))"
  using relatesD [OF receiver_puts, of w E c] relatesD [OF worker_puts, of w E data]
  by (auto simp: puts_def)

section \<open>From Twitch to the channels\<close>

text \<open>A message read back at the type it is declared with.\<close>

definition text_field :: "string \<Rightarrow> json \<Rightarrow> string option" where
  "text_field k j = (case field_of k (Some j) of Some (JStr s) \<Rightarrow> Some s | _ \<Rightarrow> None)"

(* libs/queue/src/payloads.ts 1-8 ITwitchStreamOnlineEvent, read *)
definition read_stream_event :: "json \<Rightarrow> stream_event option" where
  "read_stream_event j =
     Option.bind (text_field ''id'' j) (\<lambda>i.
     Option.bind (text_field ''broadcaster_user_id'' j) (\<lambda>b.
     Option.bind (text_field ''broadcaster_user_login'' j) (\<lambda>l.
     Option.bind (text_field ''broadcaster_user_name'' j) (\<lambda>n.
     Option.bind (text_field ''type'' j) (\<lambda>t.
     Option.bind (text_field ''started_at'' j) (\<lambda>st.
     Some \<lparr>ev_id = i, broadcaster_user_id = b, broadcaster_user_login = l, broadcaster_user_name = n, ev_type = t,
       started_at = st\<rparr>))))))"

(* libs/queue/src/payloads.ts 13-25 IStreamOnlineMessage.channelInfo, read *)
definition read_channel_info :: "json \<Rightarrow> channel_info" where
  "read_channel_info j =
     \<lparr>ci_broadcasterId = text_of ''broadcasterId'' j, ci_broadcasterLogin = text_of ''broadcasterLogin'' j,
      ci_displayName = text_of ''displayName'' j, ci_gameId = text_of ''gameId'' j, ci_gameName = text_field ''gameName'' j,
      ci_isLive = bool_of ''isLive'' j, ci_tagIds = texts_of (field_of ''tagIds'' (Some j)),
      ci_tags = texts_of (field_of ''tags'' (Some j)), ci_thumbnailUrl = text_of ''thumbnailUrl'' j,
      ci_streamTitle = text_field ''streamTitle'' j, ci_streamStartedAt = text_field ''streamStartedAt'' j\<rparr>"

(* libs/queue/src/payloads.ts 10-26 IStreamOnlineMessage, read *)
definition read_stream_message :: "json \<Rightarrow> stream_message option" where
  "read_stream_message j =
     Option.bind (field_of ''subscription'' (Some j)) (\<lambda>sub.
     Option.bind (text_field ''id'' sub) (\<lambda>i.
     Option.bind (field_of ''event'' (Some j)) (\<lambda>ej.
     Option.bind (read_stream_event ej) (\<lambda>ev.
     Some \<lparr>sm_subscriptionId = i, sm_event = ev,
       sm_channelInfo = map_option read_channel_info (field_of ''channelInfo'' (Some j))\<rparr>))))"

(* apps/discord-bot/src/modules/notifications/handlers/send-notification.handler.ts 21-24 SendNotificationHandler.handle, its data *)
definition consume_notification :: "env \<Rightarrow> gateway \<Rightarrow> message \<Rightarrow> bool act" where
  "consume_notification E G m =
     (if ms_pattern m = pattern_name SendNotification
      then handleSendNotification E G (text_of ''notificationId'' (ms_data m)) (text_of ''channelId'' (ms_data m))
        (or_null (field_of ''messagePayload'' (Some (ms_data m))))
      else ret False)"

text \<open>What the API told of a channel survives the way to the worker.\<close>

definition channel_as_info :: "channel_model \<Rightarrow> channel_info" where
  "channel_as_info c =
     \<lparr>ci_broadcasterId = ch_broadcasterId c, ci_broadcasterLogin = ch_broadcasterLogin c, ci_displayName = ch_displayName c,
      ci_gameId = ch_gameId c, ci_gameName = ch_gameName c, ci_isLive = ch_isLive c, ci_tagIds = ch_tagIds c,
      ci_tags = ch_tags c, ci_thumbnailUrl = ch_thumbnailUrl c, ci_streamTitle = ch_streamTitle c,
      ci_streamStartedAt = ch_streamStartedAt c\<rparr>"

lemma object_field:
  assumes "distinct (map fst kvs)"
  shows "field_of k (Some (object kvs)) = Option.bind (map_of kvs k) id"
  using assms
proof (induction kvs)
  case Nil
  then show ?case by (simp add: field_of_def object_def List.map_filter_simps)
next
  case (Cons kv kvs)
  obtain k' v where kv: "kv = (k', v)" by (cases kv)
  have "map_of kvs k' = None" using Cons.prems by (simp add: kv map_of_eq_None_iff)
  then show ?case
    using Cons by (cases v) (auto simp: kv field_of_def object_def List.map_filter_simps)
qed

lemma channel_read: "read_channel_info (channel_json c) = channel_as_info c"
  by (simp add: read_channel_info_def channel_json_def channel_as_info_def object_field text_of_def text_field_def bool_of_def
      truthy_json_def split: option.split)

lemma online_message_read:
  assumes "field_of ''id'' (Some sj) = Some (JStr sid)" and "read_stream_event ej = Some ev"
  shows "read_stream_message (object
      [(''subscription'', Some (object [(''id'', field_of ''id'' (Some sj))])), (''event'', Some ej),
       (''channelInfo'', map_option channel_json ci)]) =
    Some \<lparr>sm_subscriptionId = sid, sm_event = ev, sm_channelInfo = map_option channel_as_info ci\<rparr>"
  using assms
  by (cases ci) (simp_all add: read_stream_message_def object_field text_field_def channel_read)

text \<open>
  C2. A new notification of Twitch that a stream has begun becomes exactly one message, on the queue the
  worker listens to and with the pattern it handles, and the worker reads in it the subscription and
  the event of the notification, whether or not the API could tell about the channel.
\<close>

theorem online_event_forwarded:
  assumes "is_notification c" and "lookup (w_now w) (message_key c) (w_redis w) = None"
    and "field_of ''subscription'' (wc_body c) = Some sj" and "field_of ''type'' (Some sj) = Some (JStr ''stream.online'')"
    and "field_of ''id'' (Some sj) = Some (JStr sid)"
    and "field_of ''event'' (wc_body c) = Some ej" and "read_stream_event ej = Some ev"
    and "\<And>ms m. x_broker E ms m = None"
  shows "\<exists>w' m ci. handleTwitchWebhook E c w = (Inr (Status ''ok''), w') \<and> w_outbox w' = w_outbox w @ [m] \<and>
    ms_queue m = queue_name worker_queue \<and> ms_pattern m = pattern_name Online \<and>
    read_stream_message (ms_data m) = Some \<lparr>sm_subscriptionId = sid, sm_event = ev, sm_channelInfo = ci\<rparr>"
proof -
  obtain w1 where w1: "check_signature E c w = (Inr (), w1)" "message_view w1 = message_view w"
    using check_signature_result by blast
  have view: "w_now w1 = w_now w" "w_outbox w1 = w_outbox w" using w1(2) by (simp_all add: message_view_def)
  have free: "lookup (w_now w) (message_key c) (w_redis w1) = None"
    using assms(2) view_lookup [OF w1(2)] by (simp add: message_key_def)
  obtain w2 where w2: "markIfNew E (wc_messageId c) (wc_messageType c) w1 = (Inr True, w2)" "w_outbox w2 = w_outbox w"
    using free view by (simp add: markIfNew_exec message_key_def)
  obtain b where b: "member ''broadcaster_user_id'' (Some ej) w2 = (Inr b, w2)"
    using assms(7) by (cases ej) (auto simp: member_def exec read_stream_event_def text_field_def field_of_def)
  obtain r w3 where r: "callSafe (getChannelInfo E (as_param b)) w2 = (Inr r, w3)"
    using callSafe_total by blast
  have o: "w_outbox w3 = w_outbox w"
    using sameD [OF callSafe_same [OF outbox_kept.keep_getChannelById], of E "as_param b" w2] r w2(2)
    by (simp add: getChannelInfo_def)
  let ?ci = "if cr_status r then cr_data r else None"
  let ?m = "\<lparr>ms_queue = ''stream.events'', ms_pattern = ''stream.events.online'', ms_data = object
      [(''subscription'', Some (object [(''id'', field_of ''id'' (Some sj))])), (''event'', Some ej),
       (''channelInfo'', map_option channel_json ?ci)]\<rparr>"
  have "handleEvent E (wc_body c) w2 = (Inr (), w3\<lparr>w_outbox := w_outbox w @ [?m]\<rparr>)"
    using assms(3,4,6,8) b r o
    by (simp add: handleEvent_def truthy_json_def exec_andThen exec_unawaited exec_emit if_distrib cong: if_cong)
  then have "handleTwitchWebhook E c w = (Inr (Status ''ok''), w3\<lparr>w_outbox := w_outbox w @ [?m]\<rparr>)"
    using assms(1) w1(1) w2(1) by (simp add: notification_unfold exec)
  moreover have "read_stream_message (ms_data ?m) =
      Some \<lparr>sm_subscriptionId = sid, sm_event = ev, sm_channelInfo = map_option channel_as_info ?ci\<rparr>"
    using online_message_read [OF assms(5,7)] by simp
  ultimately show ?thesis
    by (intro exI [of _ "w3\<lparr>w_outbox := w_outbox w @ [?m]\<rparr>"] exI [of _ ?m]
        exI [of _ "map_option channel_as_info ?ci"] conjI) (simp_all add: worker_queue_def)
qed

definition channel_requests :: "string \<Rightarrow> json option \<Rightarrow> request list" where
  "channel_requests channelId payload =
     [discord_request ''GET'' channelId [] None,
      discord_request ''POST'' channelId [(''body'', stringify (or_null payload))] None]"

lemma consume_bot_message:
  assumes "\<And>rs rq. gw_fetch G rs rq = Inr (Some True)" and "\<And>rs rq. gw_send G rs rq = Inr ()"
  shows "consume_notification E G (bot_message n g p) w =
    (Inr False, w\<lparr>w_requests := w_requests w @ channel_requests (dn_channelId n) p\<rparr>)"
  using assms
  by (simp add: consume_notification_def bot_message_def discord_message_def text_of_def field_of_Cons or_null_def
      handleSendNotification_def exec channel_requests_def split: option.split)

lemma consume_bot_messages:
  assumes "\<And>rs rq. gw_fetch G rs rq = Inr (Some True)" and "\<And>rs rq. gw_send G rs rq = Inr ()"
  shows "mapEach (consume_notification E G) (map (\<lambda>n. bot_message n (g n) (p n)) ns) w =
    (Inr (replicate (length ns) False),
     w\<lparr>w_requests := w_requests w @ concat (map (\<lambda>n. channel_requests (dn_channelId n) (p n)) ns)\<rparr>)"
proof (induction ns arbitrary: w)
  case (Cons n ns)
  then show ?case by (simp add: exec consume_bot_message [OF assms])
qed (simp add: exec)

text \<open>
  C1. While the broker takes messages and Discord answers, the start of a stream is posted to the channel
  of every active notification that wants its game, once, in order and with the payload interpolated:
  the worker puts one message per notification on the queue of the bot, and the bot, in whatever state
  it then is, sends for each of them the payload to the channel, and nothing else.
\<close>

theorem stream_start_reaches_channels:
  assumes "message_event data w = Some e"
    and "\<And>n. n \<in> set (wanted_discord (message_vars E data e w) (active_discord e w)) \<Longrightarrow>
      interpolatePayload (x_canon E) (message_vars E data e w) (dn_messagePayload n) = Inr (p n)"
    and "\<And>n. n \<in> set (active_discord e w) \<Longrightarrow> guild_of (dn_guildId n) w \<noteq> None"
    and "\<And>ms m. x_broker E ms m = None"
    and "\<And>rs rq. gw_fetch G rs rq = Inr (Some True)" and "\<And>rs rq. gw_send G rs rq = Inr ()"
  shows "\<exists>ms. w_outbox (snd (handleStreamOnline E data w)) = w_outbox w @ ms \<and>
    list_all (\<lambda>m. ms_queue m = queue_name bot_queue) ms \<and>
    (\<forall>v. snd (mapEach (consume_notification E G) ms v) =
       v\<lparr>w_requests := w_requests v @ concat (map (\<lambda>n. channel_requests (dn_channelId n) (p n))
         (wanted_discord (message_vars E data e w) (active_discord e w)))\<rparr>)"
proof -
  let ?ns = "wanted_discord (message_vars E data e w) (active_discord e w)"
  let ?g = "\<lambda>n. the (guild_of (dn_guildId n) w)"
  let ?ms = "map (\<lambda>n. bot_message n (?g n) (p n)) ?ns"
  have g: "guild_of (dn_guildId n) w = Some (?g n)" if "n \<in> set (active_discord e w)" for n
    using assms(3) [OF that] by simp
  have "w_outbox (snd (handleStreamOnline E data w)) = w_outbox w @ ?ms"
    by (rule stream_dispatched [OF assms(1,2) g assms(4)])
  moreover have "list_all (\<lambda>m. ms_queue m = queue_name bot_queue) ?ms"
    by (simp add: list_all_iff bot_message_def bot_queue_def)
  ultimately show ?thesis
    using consume_bot_messages [OF assms(5,6), of E ?g p ?ns] by (intro exI [of _ ?ms]) simp
qed

section \<open>The theorems at a concrete stream\<close>

definition stream_call :: webhook_call where
  "stream_call = online_call\<lparr>wc_body := Some (JObj
     [(''subscription'', JObj [(''id'', JStr ''sub''), (''type'', JStr ''stream.online'')]),
      (''event'', JObj [(''id'', JStr ''9''), (''broadcaster_user_id'', JStr ''b''), (''broadcaster_user_login'', JStr ''ann''),
        (''broadcaster_user_name'', JStr ''Ann''), (''type'', JStr ''live''), (''started_at'', JStr ''now'')])])\<rparr>"

theorem online_event_forwarded_witness:
  "\<exists>w' m. handleTwitchWebhook sample_env stream_call sample_world = (Inr (Status ''ok''), w') \<and> w_outbox w' = [m] \<and>
     map_option (broadcaster_user_login \<circ> sm_event) (read_stream_message (ms_data m)) = Some ''ann''"
proof -
  have "is_notification stream_call" using online_call_is(1) by (simp add: stream_call_def is_notification_def acceptable_def)
  then show ?thesis
    using online_event_forwarded [of stream_call sample_world
        "JObj [(''id'', JStr ''sub''), (''type'', JStr ''stream.online'')]" "''sub''"
        "JObj [(''id'', JStr ''9''), (''broadcaster_user_id'', JStr ''b''), (''broadcaster_user_login'', JStr ''ann''),
          (''broadcaster_user_name'', JStr ''Ann''), (''type'', JStr ''live''), (''started_at'', JStr ''now'')]"
        "\<lparr>ev_id = ''9'', broadcaster_user_id = ''b'', broadcaster_user_login = ''ann'', broadcaster_user_name = ''Ann'',
          ev_type = ''live'', started_at = ''now''\<rparr>" sample_env]
    by (fastforce simp: lookup_def stream_call_def field_of_def read_stream_event_def text_field_def)
qed

definition open_gateway :: gateway where
  "open_gateway = \<lparr>gw_fetch = (\<lambda>rs rq. Inr (Some True)), gw_send = (\<lambda>rs rq. Inr ())\<rparr>"

theorem stream_start_reaches_channels_witness:
  "\<exists>ms. w_outbox (snd (handleStreamOnline sample_env online_message (worker_world [good_notification]))) = ms \<and>
     w_requests (snd (mapEach (consume_notification sample_env open_gateway) ms sample_world)) =
       channel_requests ''ch'' (Some (JObj [(''content'', JStr ''live'')]))"
  using stream_start_reaches_channels
    [of online_message "worker_world [good_notification]" sample_event sample_env
      "\<lambda>_. Some (JObj [(''content'', JStr ''live'')])" open_gateway]
  by (auto simp: worker_fields worker_active worker_wanted good_interpolates good_guild open_gateway_def)
    (simp add: good_notification_def)

end
