(* ===== verification/Routes.thy ===== *)
theory Routes imports Streamers Administration begin

text \<open>
  The HTTP side of the API: the routes that the decorators of the controllers declare, how a request finds
  its route, and the guards it passes before a handler runs. A path is the list of its segments. The
  claims of a token are there when the JWT library has accepted it, and missing otherwise.
\<close>

section \<open>Declarations\<close>

datatype http_method = Get | Post | Put | Patch | Delete

text \<open>A segment is fixed or a parameter, which takes any text that is not empty.\<close>

datatype segment = Fixed string | Param string

datatype guard = Jwt_Access | Jwt_Refresh | Permissions | Discord_Connected | Features

record method_decl =
  md_method :: http_method
  md_path :: "segment list"
  md_guards :: "guard list"
  md_permissions :: "permission list option"
  md_feature :: "string option"
  md_code :: nat
  md_name :: string

record controller =
  ct_prefix :: "segment list"
  ct_guards :: "guard list"
  ct_permissions :: "permission list option"
  ct_methods :: "method_decl list"

definition handler ::
  "http_method \<Rightarrow> segment list \<Rightarrow> guard list \<Rightarrow> permission list option \<Rightarrow> string option \<Rightarrow> nat \<Rightarrow> string \<Rightarrow> method_decl" where
  "handler m p gs ps ft c n =
     \<lparr>md_method = m, md_path = p, md_guards = gs, md_permissions = ps, md_feature = ft, md_code = c, md_name = n\<rparr>"

section \<open>The controllers\<close>

text \<open>The code is the status of success: that of the decorator, 201 for a POST without one, 302 where the handler redirects.\<close>

(* apps/api/src/modules/auth/controllers/auth.controller.ts 41-198 AuthController, decorators *)
definition auth_controller :: controller where
  "auth_controller =
     \<lparr>ct_prefix = [Fixed ''api'', Fixed ''auth''], ct_guards = [], ct_permissions = None,
      ct_methods =
       [handler Post [Fixed ''login'', Fixed ''email''] [] None None 201 ''login'',
        handler Post [Fixed ''register'', Fixed ''email''] [Features] None (Some ''register-email'') 201 ''registerByEmail'',
        handler Post [Fixed ''discord''] [Features] None (Some ''register-discord'') 302 ''redirectForDiscordAuth'',
        handler Get [Fixed ''discord'', Fixed ''authorize''] [Features] None (Some ''register-discord'') 200 ''authByDiscord'',
        handler Post [Fixed ''refresh''] [Jwt_Refresh] None None 201 ''refresh'',
        handler Post [Fixed ''refresh'', Fixed ''discord''] [Jwt_Access] None None 200 ''refreshDiscord'',
        handler Post [Fixed ''logout''] [Jwt_Access] None None 200 ''logout'',
        handler Get [Fixed ''me''] [Jwt_Access] None None 200 ''me'',
        handler Patch [Fixed ''me''] [Jwt_Access] None None 200 ''updateProfile'',
        handler Get [Fixed ''sessions''] [Jwt_Access] None None 200 ''getSessions'',
        handler Delete [Fixed ''sessions'', Param ''sessionId''] [Jwt_Access] None None 200 ''revokeSession'',
        handler Post [Fixed ''discord'', Fixed ''link''] [Jwt_Access] None None 200 ''linkDiscord'',
        handler Delete [Fixed ''discord'', Fixed ''unlink''] [Jwt_Access] None None 200 ''unlinkDiscord'',
        handler Get [Fixed ''twitch''] [] None None 302 ''redirectForTwitchAuth'',
        handler Get [Fixed ''twitch'', Fixed ''link''] [Jwt_Access] None None 200 ''linkTwitch'',
        handler Delete [Fixed ''twitch'', Fixed ''unlink''] [Jwt_Access] None None 200 ''unlinkTwitch'',
        handler Patch [Fixed ''twitch'', Fixed ''authorization''] [Jwt_Access] None None 200 ''setTwitchPersonalAuth'']\<rparr>"

(* apps/api/src/modules/users/controllers/users.controller.ts 12-92 UsersController, decorators *)
definition users_controller :: controller where
  "users_controller =
     \<lparr>ct_prefix = [Fixed ''api'', Fixed ''users''], ct_guards = [Jwt_Access, Permissions], ct_permissions = Some [ADMIN],
      ct_methods =
       [handler Get [] [] None None 200 ''getAllUsers'',
        handler Get [Param ''userId''] [] None None 200 ''getUser'',
        handler Get [Param ''userId'', Fixed ''sessions''] [] None None 200 ''getUserSessions'',
        handler Delete [Param ''userId'', Fixed ''sessions'', Param ''sessionId''] [] None None 204 ''deleteUserSession'',
        handler Patch [Param ''userId'', Fixed ''roles''] [] None None 204 ''updateUserRoles'',
        handler Patch [Param ''userId'', Fixed ''status''] [] None None 204 ''updateUserStatus'',
        handler Patch [Param ''userId'', Fixed ''balance''] [] None None 204 ''updateUserBalance'',
        handler Get [Param ''userId'', Fixed ''subscriptions''] [] None None 200 ''getUserSubscriptions'',
        handler Get [Param ''userId'', Fixed ''notification-logs''] [] None None 200 ''getUserNotificationLogs'']\<rparr>"

(* apps/api/src/modules/roles/controllers/roles.controller.ts 12-64 RolesController, decorators *)
definition roles_controller :: controller where
  "roles_controller =
     \<lparr>ct_prefix = [Fixed ''api'', Fixed ''roles''], ct_guards = [], ct_permissions = None,
      ct_methods =
       [handler Get [] [Jwt_Access, Permissions] (Some [MANAGE_ROLES, ADMIN]) None 200 ''getAllRoles'',
        handler Get [Param ''roleId''] [Jwt_Access, Permissions] (Some [MANAGE_ROLES, ADMIN]) None 200 ''getRole'',
        handler Post [] [Jwt_Access, Permissions] (Some [MANAGE_ROLES, ADMIN]) None 201 ''createRole'',
        handler Put [Param ''roleId''] [Jwt_Access, Permissions] (Some [MANAGE_ROLES, ADMIN]) None 200 ''editRole'',
        handler Delete [Param ''roleId''] [Jwt_Access, Permissions] (Some [MANAGE_ROLES, ADMIN]) None 200 ''deleteRole'']\<rparr>"

(* apps/api/src/modules/discord/controllers/discord.controller.ts 12-71 DiscordController, decorators *)
definition discord_controller :: controller where
  "discord_controller =
     \<lparr>ct_prefix = [Fixed ''api'', Fixed ''discord''], ct_guards = [Jwt_Access, Discord_Connected], ct_permissions = None,
      ct_methods =
       [handler Get [Fixed ''guilds''] [] None None 200 ''getUserGuilds'',
        handler Get [Fixed ''guilds'', Param ''guildId''] [] None None 200 ''getGuildInfo'',
        handler Get [Fixed ''guilds'', Param ''guildId'', Fixed ''channels''] [] None None 200 ''getGuildTextChannels'',
        handler Get [Fixed ''guilds'', Param ''guildId'', Fixed ''roles''] [] None None 200 ''getGuildRoles'',
        handler Patch [Fixed ''guilds'', Param ''guildId'', Fixed ''manager-permission''] [] None None 200 ''setManagerPermission'']\<rparr>"

(* apps/api/src/modules/twitch/controllers/twitch.controller.ts 11-46 TwitchController, decorators *)
definition twitch_controller :: controller where
  "twitch_controller =
     \<lparr>ct_prefix = [Fixed ''api'', Fixed ''twitch''], ct_guards = [Jwt_Access], ct_permissions = None,
      ct_methods =
       [handler Get [Fixed ''channels''] [] None None 200 ''getExternalApiChannels'',
        handler Get [Fixed ''categories''] [] None None 200 ''searchCategories'',
        handler Get [Fixed ''games''] [] None None 200 ''getGamesByIds'',
        handler Get [Param ''broadcasterId'', Fixed ''allow-personal-subscriptions''] [] None None 200 ''getAllowPersonalSubscriptions'']\<rparr>"

(* apps/api/src/modules/twitch/controllers/twitch-app.controller.ts 11-47 TwitchAppController, decorators *)
definition twitch_app_controller :: controller where
  "twitch_app_controller =
     \<lparr>ct_prefix = [Fixed ''api'', Fixed ''twitch'', Fixed ''apps''], ct_guards = [Jwt_Access, Permissions], ct_permissions = Some [ADMIN, MANAGE_APPS],
      ct_methods =
       [handler Get [] [] None None 200 ''getAllApps'',
        handler Get [Param ''appId''] [] None None 200 ''getApp'',
        handler Post [] [] None None 201 ''addTwitchApp'',
        handler Patch [Param ''appId''] [] None None 200 ''editTwitchApp'',
        handler Delete [Param ''appId''] [] None None 200 ''deleteTwitchApp'']\<rparr>"

(* apps/api/src/modules/notifications/controllers/twitch-notifications.controller.ts 9-96 DiscordNotificationsController, decorators *)
definition notifications_controller :: controller where
  "notifications_controller =
     \<lparr>ct_prefix = [Fixed ''api'', Fixed ''twitch-notifications''], ct_guards = [Jwt_Access], ct_permissions = None,
      ct_methods =
       [handler Get [] [] None None 200 ''getUserNotifications'',
        handler Get [Fixed ''discord'', Param ''discordGuildId''] [Discord_Connected] None None 200 ''getGuildNotifications'',
        handler Post [Fixed ''discord''] [Discord_Connected] None None 201 ''createDiscordNotification'',
        handler Post [Fixed ''discord'', Param ''guildId'', Fixed ''webhook''] [Discord_Connected] None None 201 ''createDiscordWebhookNotification'',
        handler Post [Fixed ''webhook''] [] None None 201 ''createWebhookNotification'',
        handler Patch [Fixed ''discord'', Param ''id''] [] None None 200 ''updateDiscordNotification'',
        handler Patch [Fixed ''webhook'', Param ''id''] [] None None 200 ''updateWebhookNotification'',
        handler Delete [Fixed ''discord'', Param ''id''] [] None None 204 ''deleteDiscordNotification'',
        handler Delete [Fixed ''webhook'', Param ''id''] [] None None 204 ''deleteWebhookNotification'']\<rparr>"

(* apps/api/src/modules/admin/controllers/admin.controller.ts 9-46 AdminController, decorators *)
definition admin_controller :: controller where
  "admin_controller =
     \<lparr>ct_prefix = [Fixed ''api'', Fixed ''admin''], ct_guards = [Jwt_Access, Permissions], ct_permissions = Some [ADMIN],
      ct_methods =
       [handler Post [Fixed ''twitch'', Fixed ''events'', Fixed ''stream-online''] [] None None 201 ''addTwitchOnlineEvent'',
        handler Get [Fixed ''twitch'', Fixed ''events''] [] None None 200 ''getTwitchEvents'',
        handler Delete [Fixed ''twitch'', Fixed ''events'', Param ''id''] [] None None 200 ''deleteLocalTwitchEvent'',
        handler Get [Fixed ''twitch'', Fixed ''subscriptions'', Fixed ''raw''] [] None None 200 ''getRawTwitchSubscriptions'',
        handler Delete [Fixed ''twitch'', Fixed ''subscriptions'', Fixed ''raw''] [] None None 200 ''deleteTwitchOnlySubscription'']\<rparr>"

(* apps/api/src/modules/notification-logs/controllers/notification-logs.controller.ts 10-43 NotificationLogsController, decorators *)
definition notification_logs_controller :: controller where
  "notification_logs_controller =
     \<lparr>ct_prefix = [Fixed ''api'', Fixed ''notification-logs''], ct_guards = [], ct_permissions = None,
      ct_methods =
       [handler Get [] [Jwt_Access, Permissions] (Some [ADMIN]) None 200 ''getAll'',
        handler Get [Fixed ''my''] [Jwt_Access] None None 200 ''getMy'',
        handler Get [Fixed ''guild'', Param ''guildId''] [Jwt_Access] None None 200 ''getByGuild'']\<rparr>"

(* apps/api/src/modules/statistics/controllers/statistics.controller.ts 8-46 StatisticsController, decorators *)
definition statistics_controller :: controller where
  "statistics_controller =
     \<lparr>ct_prefix = [Fixed ''api'', Fixed ''statistics''], ct_guards = [Jwt_Access], ct_permissions = None,
      ct_methods =
       [handler Get [Fixed ''platform''] [] None None 200 ''getPlatformStatistics'',
        handler Get [Fixed ''daily''] [] None None 200 ''getDailyStatistics'',
        handler Get [Fixed ''me''] [] None None 200 ''getMyStatistics'',
        handler Get [Fixed ''top-streamers''] [] None None 200 ''getTopStreamers'',
        handler Get [Fixed ''notification-split''] [] None None 200 ''getNotificationSplit'']\<rparr>"

(* apps/api/src/modules/streamers/controllers/streamers.controller.ts 11-52 StreamersController, decorators *)
definition streamers_controller :: controller where
  "streamers_controller =
     \<lparr>ct_prefix = [Fixed ''api'', Fixed ''streamers''], ct_guards = [Jwt_Access, Permissions], ct_permissions = Some [ADMIN],
      ct_methods =
       [handler Get [] [] None None 200 ''getAllStreamers'',
        handler Get [Param ''streamerId''] [] None None 200 ''getStreamer'',
        handler Patch [Param ''streamerId''] [] None None 200 ''updateStreamer'',
        handler Post [Param ''streamerId'', Fixed ''sync''] [] None None 201 ''syncStreamer'',
        handler Get [Param ''streamerId'', Fixed ''notification-logs''] [] None None 200 ''getStreamerNotificationLogs'']\<rparr>"

(* apps/webhook-receiver/src/modules/twitch-receiver/controllers/twitch-receiver.controller.ts 6-85 TwitchReceiverController, decorators *)
definition receiver_controller :: controller where
  "receiver_controller =
     \<lparr>ct_prefix = [Fixed ''twitch''], ct_guards = [], ct_permissions = None,
      ct_methods =
       [handler Post [Param ''clientId'', Param ''eventId''] [] None None 200 ''handleTwitchWebhook'']\<rparr>"

section \<open>Finding a route\<close>

record route =
  rt_method :: http_method
  rt_path :: "segment list"
  rt_guards :: "guard list"
  rt_permissions :: "permission list option"
  rt_feature :: "string option"
  rt_code :: nat
  rt_name :: string

text \<open>The guards of the class come before those of the method, whose permissions override the class's.\<close>

definition route_of :: "controller \<Rightarrow> method_decl \<Rightarrow> route" where
  "route_of c m =
     \<lparr>rt_method = md_method m, rt_path = ct_prefix c @ md_path m, rt_guards = ct_guards c @ md_guards m,
      rt_permissions = (case md_permissions m of None \<Rightarrow> ct_permissions c | Some ps \<Rightarrow> Some ps),
      rt_feature = md_feature m, rt_code = md_code m, rt_name = md_name m\<rparr>"

definition routes_of :: "controller \<Rightarrow> route list" where
  "routes_of c = map (route_of c) (ct_methods c)"

definition api_routes :: "route list" where
  "api_routes = concat (map routes_of
     [auth_controller, users_controller, roles_controller, discord_controller, twitch_controller, twitch_app_controller,
      notifications_controller, admin_controller, notification_logs_controller, statistics_controller,
      streamers_controller])"

text \<open>Fixed segments are compared without regard to case.\<close>

fun path_matches :: "segment list \<Rightarrow> string list \<Rightarrow> bool" where
  "path_matches [] [] = True"
| "path_matches (Fixed s # p) (t # ts) = (map lower_char s = map lower_char t \<and> path_matches p ts)"
| "path_matches (Param n # p) (t # ts) = (t \<noteq> [] \<and> path_matches p ts)"
| "path_matches p ts = False"

definition find_route :: "http_method \<Rightarrow> string list \<Rightarrow> route option" where
  "find_route m path = find (\<lambda>r. rt_method r = m \<and> path_matches (rt_path r) path) api_routes"

fun method_text :: "http_method \<Rightarrow> string" where
  "method_text Get = ''GET ''"
| "method_text Post = ''POST ''"
| "method_text Put = ''PUT ''"
| "method_text Patch = ''PATCH ''"
| "method_text Delete = ''DELETE ''"

text \<open>The preflight of a browser: the methods and headers that another origin may use.\<close>

record cors_policy =
  co_origin :: string
  co_methods :: "string list"
  co_headers :: "string list"
  co_credentials :: bool

(* apps/api/src/main.ts 62-67 bootstrap, enableCors *)
definition api_cors :: cors_policy where
  "api_cors =
     \<lparr>co_origin = ''*'', co_methods = [''GET'', ''POST'', ''PUT'', ''PATCH'', ''DELETE'', ''OPTIONS''],
      co_headers = [''Content-Type'', ''Authorization''], co_credentials = True\<rparr>"

lemma routes_pass_preflight: "method_text (rt_method r) = m @ '' '' \<Longrightarrow> m \<in> set (co_methods api_cors)"
  by (cases "rt_method r") (auto simp: api_cors_def append_eq_Cons_conv)

section \<open>Guards\<close>

record credentials =
  cd_access :: "access_claims option"
  cd_refresh :: "refresh_claims option"
  cd_token :: "string option"

datatype signed_in = By_Access access_claims | By_Refresh refresh_claims

fun user_sub :: "signed_in \<Rightarrow> string" where
  "user_sub (By_Access c) = ak_sub c"
| "user_sub (By_Refresh c) = rk_sub c"

fun run_guard ::
  "env \<Rightarrow> (string \<Rightarrow> bool) \<Rightarrow> route \<Rightarrow> credentials \<Rightarrow> guard \<Rightarrow> signed_in option \<Rightarrow> signed_in option act" where
  "run_guard E F r cd Jwt_Access u =
     andThen (orThrow (unauthorized ''Unauthorized'') (cd_access cd)) (\<lambda>c.
     andThen (validateAccess c) (\<lambda>c. ret (Some (By_Access c))))"
| "run_guard E F r cd Jwt_Refresh u =
     andThen (orThrow (unauthorized ''Unauthorized'') (cd_refresh cd)) (\<lambda>c.
     andThen (validateRefresh E (cd_token cd) c) (\<lambda>(c, t). ret (Some (By_Refresh c))))"
| "run_guard E F r cd Permissions u =
     (case (rt_permissions r, u) of
        (None, _) \<Rightarrow> ret u
      | (ps, Some (By_Access c)) \<Rightarrow> andThen (permissionsGuard ps c) (\<lambda>_. ret u)
      | _ \<Rightarrow> throw (ScriptExc ''TypeError''))"
| "run_guard E F r cd Discord_Connected u =
     (case u of None \<Rightarrow> throw (ScriptExc ''TypeError'')
      | Some c \<Rightarrow> andThen (discordGuard E (user_sub c)) (\<lambda>_. ret u))"
| "run_guard E F r cd Features u = andThen (featureGuard F (rt_feature r)) (\<lambda>_. ret u)"

fun run_guards ::
  "env \<Rightarrow> (string \<Rightarrow> bool) \<Rightarrow> route \<Rightarrow> credentials \<Rightarrow> guard list \<Rightarrow> signed_in option \<Rightarrow> signed_in option act" where
  "run_guards E F r cd [] u = ret u"
| "run_guards E F r cd (g # gs) u = andThen (run_guard E F r cd g u) (run_guards E F r cd gs)"

text \<open>What a request comes to before its handler runs: the route and who asks.\<close>

definition admit ::
  "env \<Rightarrow> (string \<Rightarrow> bool) \<Rightarrow> http_method \<Rightarrow> string list \<Rightarrow> credentials \<Rightarrow> (route \<times> signed_in option) act" where
  "admit E F m path cd =
     (case find_route m path of
        None \<Rightarrow> throw (notFound (''Cannot '' @ method_text m @ concat (map (Cons (CHR ''/'')) path)))
      | Some r \<Rightarrow> andThen (run_guards E F r cd (rt_guards r) None) (\<lambda>u. ret (r, u)))"

section \<open>Every request has at most one route\<close>

text \<open>Two patterns that some path matches both, when their fixed segments are in lower case.\<close>

fun overlap :: "segment list \<Rightarrow> segment list \<Rightarrow> bool" where
  "overlap [] [] = True"
| "overlap (Fixed s # p) (Fixed t # q) = (if s = t then overlap p q else False)"
| "overlap (Fixed s # p) (Param t # q) = overlap p q"
| "overlap (Param s # p) (Fixed t # q) = overlap p q"
| "overlap (Param s # p) (Param t # q) = overlap p q"
| "overlap [] (b # q) = False"
| "overlap (a # p) [] = False"

fun in_lower_case :: "segment \<Rightarrow> bool" where
  "in_lower_case (Fixed s) = (map lower_char s = s)"
| "in_lower_case (Param n) = True"

lemma overlapping:
  "path_matches p s \<Longrightarrow> path_matches q s \<Longrightarrow> list_all in_lower_case p \<Longrightarrow> list_all in_lower_case q \<Longrightarrow> overlap p q"
proof (induction p s arbitrary: q rule: path_matches.induct)
  case 1
  then show ?case by (cases q) auto
next
  case (2 s p t ts)
  then show ?case by (cases q rule: list.exhaust; cases "hd q") auto
next
  case (3 n p t ts)
  then show ?case by (cases q rule: list.exhaust; cases "hd q") auto
qed auto

definition clash :: "route \<Rightarrow> route \<Rightarrow> bool" where
  "clash r q = (if rt_method r = rt_method q then overlap (rt_path r) (rt_path q) else False)"

text \<open>The one pair: an application of that very name, and the question about a broadcaster called apps.\<close>

definition odd_pair :: "route \<Rightarrow> route \<Rightarrow> bool" where
  "odd_pair r q \<longleftrightarrow> rt_name r = ''getAllowPersonalSubscriptions'' \<and> rt_name q = ''getApp''"

fun all_apart :: "route list \<Rightarrow> bool" where
  "all_apart [] = True"
| "all_apart (r # rs) = (list_all (\<lambda>q. if clash r q then odd_pair r q else True) rs \<and> all_apart rs)"

lemma api_routes_apart: "all_apart api_routes"
  by code_simp

lemma api_routes_lower: "list_all (\<lambda>r. list_all in_lower_case (rt_path r)) api_routes"
  by code_simp

lemma route_lower: "r \<in> set api_routes \<Longrightarrow> list_all in_lower_case (rt_path r)"
  using api_routes_lower by (simp add: list_all_iff)

lemma found_first:
  assumes "all_apart rs" and "\<And>q. q \<in> set rs \<Longrightarrow> list_all in_lower_case (rt_path q)"
    and "r \<in> set rs" and "rt_method r = m" and "path_matches (rt_path r) path"
  shows "\<exists>q. find (\<lambda>r. rt_method r = m \<and> path_matches (rt_path r) path) rs = Some q \<and> (q = r \<or> odd_pair q r)"
  using assms
proof (induction rs)
  case (Cons x rs)
  show ?case
  proof (cases "rt_method x = m \<and> path_matches (rt_path x) path")
    case True
    then have "clash x r"
      using Cons.prems overlapping [of "rt_path x" path "rt_path r"] by (auto simp: clash_def)
    then have "x = r \<or> odd_pair x r" using Cons.prems(1,3) by (auto simp: list_all_iff)
    with True show ?thesis by auto
  next
    case False
    then show ?thesis using Cons by auto
  qed
qed simp

lemma question_path:
  "q \<in> set api_routes \<Longrightarrow> rt_name q = ''getAllowPersonalSubscriptions'' \<Longrightarrow>
     rt_path q = [Fixed ''api'', Fixed ''twitch'', Param ''broadcasterId'', Fixed ''allow-personal-subscriptions'']"
proof -
  have "list_all (\<lambda>q. if rt_name q = ''getAllowPersonalSubscriptions''
      then rt_path q = [Fixed ''api'', Fixed ''twitch'', Param ''broadcasterId'', Fixed ''allow-personal-subscriptions''] else True)
    api_routes" by code_simp
  then show "q \<in> set api_routes \<Longrightarrow> rt_name q = ''getAllowPersonalSubscriptions'' \<Longrightarrow>
     rt_path q = [Fixed ''api'', Fixed ''twitch'', Param ''broadcasterId'', Fixed ''allow-personal-subscriptions'']"
    by (auto simp: list_all_iff)
qed

lemma ends_with_question:
  "path_matches [Fixed a, Fixed b, Param c, Fixed d] path \<Longrightarrow> map lower_char (last path) = map lower_char d"
  by (cases path rule: list.exhaust; cases "tl path"; cases "tl (tl path)"; cases "tl (tl (tl path))"; cases "tl (tl (tl (tl path)))") auto

lemma lower_question: "map lower_char ''allow-personal-subscriptions'' = ''allow-personal-subscriptions''"
  by code_simp

text \<open>
  C36. Every route is reached: a request that fits the method and the pattern of a route is given to that
  route, whatever stands for its parameters and in whatever case it is written, and no other route takes it
  away. The one exception is an application whose identifier would be the words
  \<open>allow-personal-subscriptions\<close>.
\<close>

theorem requests_find_their_route:
  assumes "r \<in> set api_routes" and "path_matches (rt_path r) path"
  shows "find_route (rt_method r) path = Some r \<or>
    rt_name r = ''getApp'' \<and> map lower_char (last path) = ''allow-personal-subscriptions''"
proof -
  obtain q where q: "find_route (rt_method r) path = Some q" "q = r \<or> odd_pair q r"
    using found_first [OF api_routes_apart route_lower assms(1) refl assms(2)] by (auto simp: find_route_def)
  show ?thesis
  proof (cases "q = r")
    case False
    then have n: "rt_name q = ''getAllowPersonalSubscriptions''" "rt_name r = ''getApp''"
      using q(2) by (simp_all add: odd_pair_def)
    have "q \<in> set api_routes" "path_matches (rt_path q) path"
      using q(1) find_in [of _ api_routes q] by (auto simp: find_route_def)
    then show ?thesis
      using ends_with_question [of _ _ _ "''allow-personal-subscriptions''" path] question_path [of q] n lower_question by auto
  qed (simp add: q(1))
qed

section \<open>Who reaches what\<close>

definition public_routes :: "string list" where
  "public_routes = [''login'', ''registerByEmail'', ''redirectForDiscordAuth'', ''authByDiscord'', ''redirectForTwitchAuth'']"

definition guarded :: "route \<Rightarrow> bool" where
  "guarded r = (if rt_name r \<in> set public_routes
     then (if rt_guards r = [Features] then truthy (rt_feature r) else rt_guards r = [] \<and> rt_feature r = None)
     else rt_guards r \<noteq> [] \<and> (hd (rt_guards r) = Jwt_Access \<or> hd (rt_guards r) = Jwt_Refresh))"

lemma all_guarded: "list_all guarded api_routes"
  by code_simp

lemma found_route: "find_route m path = Some r \<Longrightarrow> r \<in> set api_routes \<and> rt_method r = m \<and> path_matches (rt_path r) path"
  unfolding find_route_def by (drule find_in) simp

lemma strangers_admitted:
  "admit E F m path \<lparr>cd_access = None, cd_refresh = None, cd_token = t\<rparr> w =
     (case find_route m path of
        None \<Rightarrow> (Inl (notFound (''Cannot '' @ method_text m @ concat (map (Cons (CHR ''/'')) path))), w)
      | Some r \<Rightarrow>
          if rt_name r \<notin> set public_routes then (Inl (unauthorized ''Unauthorized''), w)
          else if truthy (rt_feature r) \<and> \<not> F (the (rt_feature r))
            then (Inl (forbidden (''Feature \"'' @ the (rt_feature r) @ ''\" is disabled'')), w)
          else (Inr (r, None), w))"
proof (cases "find_route m path")
  case (Some r)
  then have "guarded r" using found_route all_guarded by (auto simp: list_all_iff)
  then show ?thesis
    using Some
    by (cases "rt_guards r"; cases "hd (rt_guards r)")
      (auto simp: admit_def guarded_def exec featureGuard_def truthy_def split: if_splits)
qed (simp add: admit_def exec)

section \<open>The description of the interface\<close>

text \<open>
  Unless the process runs in production, the Swagger library serves a page that describes the routes, its files
  and the description itself, to everybody, before any route of a controller is looked at. Which of the
  requests below its address it has an answer to is the library's: \<open>page\<close>.
\<close>

fun docs_path :: "string list \<Rightarrow> bool" where
  "docs_path (a # d # rest) =
     (map lower_char a = ''api'' \<and>
      (map lower_char d = ''docs'' \<or> rest = [] \<and> (map lower_char d = ''docs-json'' \<or> map lower_char d = ''docs-yaml'')))"
| "docs_path path = False"

(* apps/api/src/main.ts 43-60 bootstrap, SwaggerModule.setup *)
definition serves_docs ::
  "(string \<times> json) list \<Rightarrow> (http_method \<Rightarrow> string list \<Rightarrow> bool) \<Rightarrow> http_method \<Rightarrow> string list \<Rightarrow> bool" where
  "serves_docs config page m path \<longleftrightarrow>
     map_of config ''NODE_ENV'' \<noteq> Some (JStr ''production'') \<and> docs_path path \<and> page m path"

datatype answer = Docs_Page | Routed route "signed_in option"

definition receive_request ::
  "(string \<times> json) list \<Rightarrow> (http_method \<Rightarrow> string list \<Rightarrow> bool) \<Rightarrow> env \<Rightarrow> (string \<Rightarrow> bool) \<Rightarrow>
     http_method \<Rightarrow> string list \<Rightarrow> credentials \<Rightarrow> answer act" where
  "receive_request config page E F m path cd =
     (if serves_docs config page m path then ret Docs_Page
      else andThen (admit E F m path cd) (\<lambda>(r, u). ret (Routed r u)))"

definition away_from_docs :: "route \<Rightarrow> bool" where
  "away_from_docs r = (case rt_path r of
     Fixed a # Fixed s # _ \<Rightarrow> (if s = ''docs'' \<or> s = ''docs-json'' \<or> s = ''docs-yaml'' then False else True)
   | _ \<Rightarrow> False)"

lemma all_away_from_docs: "list_all away_from_docs api_routes"
  by code_simp

text \<open>The page takes no request away from a route.\<close>

lemma docs_shadow_nothing:
  assumes "docs_path path"
  shows "find_route m path = None"
proof (rule ccontr)
  assume "find_route m path \<noteq> None"
  then obtain r where r: "r \<in> set api_routes" "path_matches (rt_path r) path"
    using found_route by (auto simp: option.collapse)
  then have k: "away_from_docs r" "list_all in_lower_case (rt_path r)"
    using all_away_from_docs route_lower by (auto simp: list_all_iff)
  then obtain a s p where p: "rt_path r = Fixed a # Fixed s # p" "s \<noteq> ''docs''" "s \<noteq> ''docs-json''" "s \<noteq> ''docs-yaml''"
    by (auto simp: away_from_docs_def split: list.splits segment.splits if_splits)
  with r(2) obtain x y path' where "path = x # y # path'" "map lower_char s = map lower_char y"
    by (cases path rule: list.exhaust; cases "tl path") auto
  moreover have "map lower_char s = s" using k(2) p by simp
  ultimately show False using assms p by auto
qed

text \<open>
  C6. Without a token that the JWT library accepts, five routes answer: the login, the registration and the
  two steps of the login with Discord as far as their feature is on, and the redirect to Twitch. Outside production
  the page that describes the interface answers too, at the requests below \<open>/api/docs\<close> that the Swagger library serves.
  Every other request, of the five methods and with a body that Express can parse, ends with 404 or 401 and
  changes nothing.
\<close>

theorem strangers_reach_public_routes:
  "receive_request config page E F m path \<lparr>cd_access = None, cd_refresh = None, cd_token = t\<rparr> w =
     (if map_of config ''NODE_ENV'' \<noteq> Some (JStr ''production'') \<and> docs_path path \<and> page m path then (Inr Docs_Page, w)
      else case find_route m path of
        None \<Rightarrow> (Inl (notFound (''Cannot '' @ method_text m @ concat (map (Cons (CHR ''/'')) path))), w)
      | Some r \<Rightarrow>
          if rt_name r \<notin> set public_routes then (Inl (unauthorized ''Unauthorized''), w)
          else if truthy (rt_feature r) \<and> \<not> F (the (rt_feature r))
            then (Inl (forbidden (''Feature \"'' @ the (rt_feature r) @ ''\" is disabled'')), w)
          else (Inr (Routed r None), w))"
  unfolding receive_request_def serves_docs_def
  using strangers_admitted [of E F m path t w]
  by (simp add: exec split: option.split)

definition admin_areas :: "string set" where
  "admin_areas = {''admin'', ''users'', ''streamers''}"

definition keeps_out :: "route \<Rightarrow> bool" where
  "keeps_out r = (case rt_path r of
     Fixed a # Fixed s # _ \<Rightarrow>
       if s = ''admin'' \<or> s = ''users'' \<or> s = ''streamers''
       then rt_guards r = [Jwt_Access, Permissions] \<and> rt_permissions r = Some [ADMIN] else True
   | _ \<Rightarrow> False)"

lemma all_keep_out: "list_all keeps_out api_routes"
  by code_simp

lemma validated_claims: "validateAccess c w = (Inr c', w') \<Longrightarrow> c' = c \<and> ak_use c = Access"
  by (auto simp: validateAccess_def redis_exists_def exec split: if_splits)

text \<open>
  C7. Nobody gets into the administration of events, users or streamers without an access token that
  carries the permission of administrators.
\<close>

theorem administration_needs_permission:
  assumes "admit E F m path cd w = (Inr (r, u), w')" and "map lower_char (path ! 1) \<in> admin_areas"
  shows "\<exists>c. cd_access cd = Some c \<and> ak_use c = Access \<and> u = Some (By_Access c) \<and> ADMIN \<in> set (ak_permissions c)"
proof -
  have f: "find_route m path = Some r" and g: "run_guards E F r cd (rt_guards r) None w = (Inr u, w')"
    using assms(1) by (auto simp: admit_def exec split: option.splits prod.splits sum.splits)
  have r: "r \<in> set api_routes" "path_matches (rt_path r) path" using found_route [OF f] by simp_all
  then have k: "keeps_out r" "list_all in_lower_case (rt_path r)" using all_keep_out route_lower by (auto simp: list_all_iff)
  then obtain a s p where p: "rt_path r = Fixed a # Fixed s # p"
    by (auto simp: keeps_out_def split: list.splits segment.splits)
  with r(2) obtain x y path' where "path = x # y # path'" "map lower_char s = map lower_char y"
    by (cases path rule: list.exhaust; cases "tl path") auto
  moreover have "map lower_char s = s" using k(2) p by simp
  ultimately have "s \<in> admin_areas" using assms(2) by simp
  then have "rt_guards r = [Jwt_Access, Permissions]" "rt_permissions r = Some [ADMIN]"
    using k(1) p by (auto simp: keeps_out_def admin_areas_def)
  then show ?thesis
    using g by (auto simp: exec permissionsGuard_def orThrow_def dest: validated_claims split: option.splits prod.splits sum.splits if_splits)
qed

text \<open>The guards of a route are what the routes of the model begin with.\<close>

lemma guards_for_user:
  "cd_access cd = Some c \<Longrightarrow> andThen (run_guards E F r cd [Jwt_Access] None) (\<lambda>u. f) = for_user c (\<lambda>_. f)"
  by (rule ext) (simp add: for_user_def exec split: prod.split sum.split)

lemma guards_for_permission:
  "cd_access cd = Some c \<Longrightarrow> rt_permissions r = Some ps \<Longrightarrow>
     andThen (run_guards E F r cd [Jwt_Access, Permissions] None) (\<lambda>u. f) = for_permission ps c (\<lambda>_. f)"
  by (rule ext) (simp add: for_permission_def exec split: prod.split sum.split)

section \<open>The theorems at concrete requests\<close>

theorem requests_find_their_route_witness:
  "\<exists>r. rt_name r = ''getUserSessions'' \<and> find_route Get [''api'', ''Users'', ''7'', ''sessions''] = Some r"
proof -
  let ?r = "route_of users_controller (handler Get [Param ''userId'', Fixed ''sessions''] [] None None 200 ''getUserSessions'')"
  have "?r \<in> set api_routes" by (simp add: api_routes_def routes_of_def users_controller_def)
  moreover have "path_matches (rt_path ?r) [''api'', ''Users'', ''7'', ''sessions'']" by code_simp
  ultimately show ?thesis
    using requests_find_their_route [of ?r "[''api'', ''Users'', ''7'', ''sessions'']"]
    by (intro exI [of _ ?r]) (simp add: route_of_def handler_def)
qed

definition admin_claims :: access_claims where
  "admin_claims = access_of_account\<lparr>ak_permissions := [ADMIN]\<rparr>"

theorem administration_needs_permission_witness:
  "\<exists>r w'. admit sample_env (\<lambda>_. False) Get [''api'', ''users''] \<lparr>cd_access = Some admin_claims, cd_refresh = None, cd_token = None\<rparr>
     sample_world = (Inr (r, Some (By_Access admin_claims)), w') \<and> ADMIN \<in> set (ak_permissions admin_claims)"
proof -
  let ?r = "route_of users_controller (handler Get [] [] None None 200 ''getAllUsers'')"
  have "?r \<in> set api_routes" by (simp add: api_routes_def routes_of_def users_controller_def)
  moreover have "path_matches (rt_path ?r) [''api'', ''users'']" by code_simp
  ultimately obtain q where q: "find_route Get [''api'', ''users''] = Some q" "q = ?r \<or> odd_pair q ?r"
    using found_first [OF api_routes_apart route_lower, of ?r Get "[''api'', ''users'']"]
    by (auto simp: find_route_def route_of_def handler_def)
  then have "q = ?r" by (auto simp: odd_pair_def route_of_def handler_def)
  then have a: "admit sample_env (\<lambda>_. False) Get [''api'', ''users'']
      \<lparr>cd_access = Some admin_claims, cd_refresh = None, cd_token = None\<rparr> sample_world =
    (Inr (?r, Some (By_Access admin_claims)), sample_world)"
    using q(1) by (simp add: admit_def route_of_def handler_def users_controller_def exec validateAccess_def redis_exists_def
        lookup_def admin_claims_def access_of_account_def permissionsGuard_def)
  have "map lower_char ([''api'', ''users''] ! 1) \<in> admin_areas" by (simp add: admin_areas_def) code_simp
  from administration_needs_permission [OF a this] a show ?thesis by auto
qed

end
