(* ===== verification/Modules.thy ===== *)
theory Modules imports Main begin

text \<open>
  How the processes are put together from classes: what each constructor asks for and which module provides,
  imports and exports it. Nest builds the classes of every module that the root imports, directly or through
  another, and a class may ask for what its own module provides, what a module it imports
  exports, and what a global module exports. Modules of libraries are their exports, a repository of an
  entity is named \<open>Repository<Entity>\<close>. A class without a constructor asks for nothing.
\<close>

section \<open>Classes\<close>

text \<open>What is provided and what is asked for to make it.\<close>

type_synonym injectable = "string \<times> string list"

datatype module_import = Own string | Library string "string list" bool

record module_decl =
  mo_name :: string
  mo_imports :: "module_import list"
  mo_providers :: "injectable list"
  mo_controllers :: "injectable list"
  mo_guards :: "injectable list"
  mo_exports :: "string list"
  mo_global :: bool

definition repositories :: "string list \<Rightarrow> string list" where
  "repositories es = map (\<lambda>e. ''Repository<'' @ e @ ''>'') es"

(* libs/queue/src/queue.helpers.ts 18-25 buildChannelProvider *)
definition buildChannelProvider :: "string list \<Rightarrow> injectable" where
  "buildChannelProvider injected = (''QUEUE_CHANNEL'', ''ConfigService'' # injected)"

(* apps/discord-bot/src/modules/discord/discord.provider.ts 6-8 discordProvider *)
definition discordProvider :: injectable where
  "discordProvider = (''DISCORD_CLIENT'', [''ConfigService''])"

(* apps/discord-bot/src/modules/notifications/commands/add-destination-autocomplete.handler.ts 12-12 AddDestinationAutocompleteHandler.constructor *)
definition constructor_AddDestinationAutocompleteHandler :: injectable where
  "constructor_AddDestinationAutocompleteHandler = (''AddDestinationAutocompleteHandler'', [''RpcService''])"

(* apps/discord-bot/src/modules/notifications/commands/add-destination-button.handler.ts 13-16 AddDestinationButtonHandler.constructor *)
definition constructor_AddDestinationButtonHandler :: injectable where
  "constructor_AddDestinationButtonHandler = (''AddDestinationButtonHandler'', [''RpcService'', ''PendingDestinationStore''])"

(* apps/discord-bot/src/modules/notifications/commands/add-destination.command.ts 10-10 AddDestinationCommand.constructor *)
definition constructor_AddDestinationCommand :: injectable where
  "constructor_AddDestinationCommand = (''AddDestinationCommand'', [''PendingDestinationStore''])"

(* apps/api/src/modules/discord-handler/handlers/add-destination.handler.ts 15-20 AddDestinationHandler.constructor *)
definition constructor_AddDestinationHandler :: injectable where
  "constructor_AddDestinationHandler = (''AddDestinationHandler'', [''Repository<UserEntity>'', ''TwitchNotificationsService'', ''DiscordAuthService''])"

(* apps/discord-bot/src/modules/notifications/commands/add-destination-modal.handler.ts 9-9 AddDestinationModalHandler.constructor *)
definition constructor_AddDestinationModalHandler :: injectable where
  "constructor_AddDestinationModalHandler = (''AddDestinationModalHandler'', [''PendingDestinationStore''])"

(* apps/api/src/modules/admin/controllers/admin.controller.ts 15-17 AdminController.constructor *)
definition constructor_AdminController :: injectable where
  "constructor_AdminController = (''AdminController'', [''AdminService''])"

(* apps/api/src/modules/admin/services/admin.service.ts 8-10 AdminService.constructor *)
definition constructor_AdminService :: injectable where
  "constructor_AdminService = (''AdminService'', [''TwitchSubscriptionService''])"

(* apps/api/src/modules/auth/controllers/auth.controller.ts 44-49 AuthController.constructor *)
definition constructor_AuthController :: injectable where
  "constructor_AuthController = (''AuthController'', [''AuthService'', ''DiscordAuthService'', ''TwitchUserAuthService'', ''MeService''])"

(* apps/api/src/modules/auth/mappers/auth.mapper.ts 8-10 AuthMapper.constructor *)
definition constructor_AuthMapper :: injectable where
  "constructor_AuthMapper = (''AuthMapper'', [''RolesMapper''])"

(* apps/api/src/modules/auth/services/auth.service.ts 39-61 AuthService.constructor *)
definition constructor_AuthService :: injectable where
  "constructor_AuthService = (''AuthService'', [''DiscordAuthService'', ''DiscordApiService'', ''DiscordTokenService'',
         ''PasswordService'', ''JwtService'', ''AuthMapper'', ''RolesMapper'', ''RolesService'',
         ''RedisService'', ''authConfig.KEY'', ''CryptoService'', ''TwitchUserAuthService'',
         ''TwitchApiService'', ''TwitchSubscriptionService'', ''Repository<UserEntity>'',
         ''Repository<UserSessionEntity>'', ''Repository<TwitchStreamerEntity>''])"

(* apps/api/src/modules/discord-handler/handlers/authenticate.handler.ts 14-18 AuthenticateHandler.constructor *)
definition constructor_AuthenticateHandler :: injectable where
  "constructor_AuthenticateHandler = (''AuthenticateHandler'', [''Repository<UserEntity>'', ''DiscordAuthService''])"

(* apps/discord-bot/src/modules/account/commands/authorize.command.ts 12-12 AuthorizeCommand.constructor *)
definition constructor_AuthorizeCommand :: injectable where
  "constructor_AuthorizeCommand = (''AuthorizeCommand'', [''RpcService''])"

(* apps/discord-bot/src/modules/discord/channel-sync.service.ts 32-36 ChannelSyncService.constructor *)
definition constructor_ChannelSyncService :: injectable where
  "constructor_ChannelSyncService = (''ChannelSyncService'', [''DISCORD_CLIENT'', ''RedisService''])"

(* libs/shared/src/modules/crypto/services/crypto.service.ts 16-16 CryptoService.constructor *)
definition constructor_CryptoService :: injectable where
  "constructor_CryptoService = (''CryptoService'', [''ConfigService''])"

(* apps/api/src/modules/discord/services/discord-api-base.service.ts 8-11 DiscordApiBaseService.constructor *)
definition constructor_DiscordApiBaseService :: injectable where
  "constructor_DiscordApiBaseService = (''DiscordApiBaseService'', [''Repository<UserEntity>''])"

(* apps/api/src/modules/discord/services/discord-api.service.ts 14-21 DiscordApiService.constructor *)
definition constructor_DiscordApiService :: injectable where
  "constructor_DiscordApiService = (''DiscordApiService'', [''HttpService'', ''DiscordTokenService'', ''DiscordGuildMapper'',
         ''DiscordAuthMapper'', ''DiscordApiBaseService'', ''RedisService''])"

(* apps/api/src/modules/discord/services/discord-auth.service.ts 13-18 DiscordAuthService.constructor *)
definition constructor_DiscordAuthService :: injectable where
  "constructor_DiscordAuthService = (''DiscordAuthService'', [''discordConfig.KEY'', ''DiscordAuthMapper'', ''HttpService''])"

(* apps/api/src/modules/discord/services/discord-bot.service.ts 14-18 DiscordBotService.constructor *)
definition constructor_DiscordBotService :: injectable where
  "constructor_DiscordBotService = (''DiscordBotService'', [''RedisService'', ''BOT_RPC_CLIENT''])"

(* apps/api/src/modules/discord/controllers/discord.controller.ts 17-21 DiscordController.constructor *)
definition constructor_DiscordController :: injectable where
  "constructor_DiscordController = (''DiscordController'', [''DiscordGuildService'', ''DiscordGuildAccessService'', ''DiscordBotService''])"

(* apps/discord-bot/src/modules/discord/discord.explorer.ts 11-17 DiscordExplorer.constructor *)
definition constructor_DiscordExplorer :: injectable where
  "constructor_DiscordExplorer = (''DiscordExplorer'', [''DISCORD_CLIENT'', ''DiscoveryService'', ''MetadataScanner'', ''Reflector'',
         ''ConfigService''])"

(* apps/api/src/modules/discord/guards/discord.guard.ts 7-9 DiscordGuard.constructor *)
definition constructor_DiscordGuard :: injectable where
  "constructor_DiscordGuard = (''DiscordGuard'', [''DiscordTokenService''])"

(* apps/api/src/modules/discord/services/discord-guild-access.service.ts 13-18 DiscordGuildAccessService.constructor *)
definition constructor_DiscordGuildAccessService :: injectable where
  "constructor_DiscordGuildAccessService = (''DiscordGuildAccessService'', [''Repository<DiscordGuildEntity>'', ''RedisService'', ''DiscordApiService''])"

(* apps/api/src/modules/discord/mappers/discord-guild.mapper.ts 7-9 DiscordGuildMapper.constructor *)
definition constructor_DiscordGuildMapper :: injectable where
  "constructor_DiscordGuildMapper = (''DiscordGuildMapper'', [''DiscordAuthMapper''])"

(* apps/api/src/modules/discord/services/discord-guild.service.ts 15-21 DiscordGuildService.constructor *)
definition constructor_DiscordGuildService :: injectable where
  "constructor_DiscordGuildService = (''DiscordGuildService'', [''DiscordApiService'', ''DiscordBotService'', ''DiscordGuildAccessService'',
         ''Repository<DiscordGuildEntity>''])"

(* apps/api/src/modules/notifications/controllers/twitch-notifications.controller.ts 13-16 DiscordNotificationsController.constructor *)
definition constructor_DiscordNotificationsController :: injectable where
  "constructor_DiscordNotificationsController = (''DiscordNotificationsController'', [''TwitchNotificationsService'', ''DiscordGuildAccessService''])"

(* apps/api/src/modules/discord/services/discord-token.service.ts 11-16 DiscordTokenService.constructor *)
definition constructor_DiscordTokenService :: injectable where
  "constructor_DiscordTokenService = (''DiscordTokenService'', [''CryptoService'', ''DiscordAuthService'', ''Repository<UserEntity>''])"

(* apps/api/src/modules/discord/services/discord-webhook.service.ts 9-11 DiscordWebhookService.constructor *)
definition constructor_DiscordWebhookService :: injectable where
  "constructor_DiscordWebhookService = (''DiscordWebhookService'', [''HttpService''])"

(* apps/api/src/shared/guards/features.guard.ts 9-13 FeatureGuard.constructor *)
definition constructor_FeatureGuard :: injectable where
  "constructor_FeatureGuard = (''FeatureGuard'', [''Reflector'', ''featureConfig.KEY''])"

(* apps/discord-bot/src/modules/discord/get-guild-channels.handler.ts 12-12 GetGuildChannelsHandler.constructor *)
definition constructor_GetGuildChannelsHandler :: injectable where
  "constructor_GetGuildChannelsHandler = (''GetGuildChannelsHandler'', [''ChannelSyncService''])"

(* apps/discord-bot/src/modules/discord/get-guild-ids.handler.ts 8-8 GetGuildIdsHandler.constructor *)
definition constructor_GetGuildIdsHandler :: injectable where
  "constructor_GetGuildIdsHandler = (''GetGuildIdsHandler'', [''GuildSyncService''])"

(* apps/discord-bot/src/modules/discord/get-guild-member.handler.ts 19-22 GetGuildMemberHandler.constructor *)
definition constructor_GetGuildMemberHandler :: injectable where
  "constructor_GetGuildMemberHandler = (''GetGuildMemberHandler'', [''DISCORD_CLIENT''])"

(* apps/discord-bot/src/modules/discord/get-guild-roles.handler.ts 21-24 GetGuildRolesHandler.constructor *)
definition constructor_GetGuildRolesHandler :: injectable where
  "constructor_GetGuildRolesHandler = (''GetGuildRolesHandler'', [''DISCORD_CLIENT''])"

(* apps/api/src/modules/discord-handler/handlers/get-profile.handler.ts 14-22 GetProfileHandler.constructor *)
definition constructor_GetProfileHandler :: injectable where
  "constructor_GetProfileHandler = (''GetProfileHandler'', [''Repository<UserEntity>'', ''Repository<DiscordNotificationEntity>'',
         ''Repository<DiscordGuildEntity>'', ''DiscordAuthService''])"

(* apps/discord-bot/src/modules/discord/guild-sync.service.ts 8-12 GuildSyncService.constructor *)
definition constructor_GuildSyncService :: injectable where
  "constructor_GuildSyncService = (''GuildSyncService'', [''DISCORD_CLIENT'', ''RedisService''])"

(* apps/api/src/modules/auth/strategies/jwt-access.strategy.ts 13-16 JwtAccessStrategy.constructor *)
definition constructor_JwtAccessStrategy :: injectable where
  "constructor_JwtAccessStrategy = (''JwtAccessStrategy'', [''ConfigService'', ''RedisService''])"

(* apps/api/src/modules/auth/strategies/jwt-refresh.strategy.ts 15-18 JwtRefreshStrategy.constructor *)
definition constructor_JwtRefreshStrategy :: injectable where
  "constructor_JwtRefreshStrategy = (''JwtRefreshStrategy'', [''ConfigService'', ''AuthService''])"

(* apps/api/src/modules/discord-handler/handlers/list-destinations.handler.ts 14-21 ListDestinationsHandler.constructor *)
definition constructor_ListDestinationsHandler :: injectable where
  "constructor_ListDestinationsHandler = (''ListDestinationsHandler'', [''Repository<UserEntity>'', ''Repository<DiscordNotificationEntity>'',
         ''DiscordAuthService'', ''DiscordGuildAccessService''])"

(* apps/api/src/modules/auth/services/me.service.ts 11-16 MeService.constructor *)
definition constructor_MeService :: injectable where
  "constructor_MeService = (''MeService'', [''AuthMapper'', ''PasswordService'', ''Repository<UserEntity>''])"

(* apps/api/src/modules/notification-logs/controllers/notification-logs.controller.ts 13-15 NotificationLogsController.constructor *)
definition constructor_NotificationLogsController :: injectable where
  "constructor_NotificationLogsController = (''NotificationLogsController'', [''NotificationLogsService''])"

(* apps/api/src/modules/notification-logs/services/notification-logs.service.ts 13-17 NotificationLogsService.constructor *)
definition constructor_NotificationLogsService :: injectable where
  "constructor_NotificationLogsService = (''NotificationLogsService'', [''DiscordGuildAccessService'', ''Repository<NotificationLogEntity>''])"

(* apps/api/src/modules/auth/guards/permission.guard.ts 8-8 PermissionsGuard.constructor *)
definition constructor_PermissionsGuard :: injectable where
  "constructor_PermissionsGuard = (''PermissionsGuard'', [''Reflector''])"

(* apps/discord-bot/src/modules/account/commands/profile.command.ts 12-12 ProfileCommand.constructor *)
definition constructor_ProfileCommand :: injectable where
  "constructor_ProfileCommand = (''ProfileCommand'', [''RpcService''])"

(* libs/queue/src/queue.service.ts 7-10 QueueService.constructor *)
definition constructor_QueueService :: injectable where
  "constructor_QueueService = (''QueueService'', [''QUEUE_CHANNEL''])"

(* libs/redis/src/redis.service.ts 8-13 RedisService.constructor *)
definition constructor_RedisService :: injectable where
  "constructor_RedisService = (''RedisService'', [''REDIS_CLIENT'', ''REDIS_CHANNEL_CLIENT''])"

(* apps/api/src/modules/discord-handler/handlers/remove-destination.handler.ts 15-23 RemoveDestinationHandler.constructor *)
definition constructor_RemoveDestinationHandler :: injectable where
  "constructor_RemoveDestinationHandler = (''RemoveDestinationHandler'', [''Repository<UserEntity>'', ''Repository<DiscordNotificationEntity>'',
         ''DiscordAuthService'', ''DiscordGuildAccessService'', ''TwitchNotificationsService''])"

(* apps/api/src/modules/roles/controllers/roles.controller.ts 15-17 RolesController.constructor *)
definition constructor_RolesController :: injectable where
  "constructor_RolesController = (''RolesController'', [''RolesService''])"

(* apps/api/src/modules/roles/services/roles.service.ts 11-17 RolesService.constructor *)
definition constructor_RolesService :: injectable where
  "constructor_RolesService = (''RolesService'', [''RolesMapper'', ''Repository<RoleEntity>'', ''Repository<UserEntity>''])"

(* libs/rpc/src/rpc.service.ts 9-12 RpcService.constructor *)
definition constructor_RpcService :: injectable where
  "constructor_RpcService = (''RpcService'', [''API_RPC_CLIENT''])"

(* apps/api/src/modules/discord-handler/handlers/search-streamers.handler.ts 14-16 SearchStreamersHandler.constructor *)
definition constructor_SearchStreamersHandler :: injectable where
  "constructor_SearchStreamersHandler = (''SearchStreamersHandler'', [''TwitchApiService''])"

(* apps/discord-bot/src/modules/notifications/handlers/send-notification.handler.ts 15-19 SendNotificationHandler.constructor *)
definition constructor_SendNotificationHandler :: injectable where
  "constructor_SendNotificationHandler = (''SendNotificationHandler'', [''DISCORD_CLIENT'', ''RpcService''])"

(* apps/api/src/modules/statistics/controllers/statistics.controller.ts 13-15 StatisticsController.constructor *)
definition constructor_StatisticsController :: injectable where
  "constructor_StatisticsController = (''StatisticsController'', [''StatisticsService''])"

(* apps/api/src/modules/statistics/services/statistics.service.ts 14-28 StatisticsService.constructor *)
definition constructor_StatisticsService :: injectable where
  "constructor_StatisticsService = (''StatisticsService'', [''RedisService'', ''Repository<DiscordNotificationEntity>'',
         ''Repository<WebhookNotificationEntity>'', ''Repository<TwitchStreamerEntity>'',
         ''Repository<NotificationLogEntity>'', ''Repository<UserEntity>'',
         ''Repository<DiscordGuildEntity>''])"

(* apps/notification-worker/src/handlers/stream-online.handler.ts 21-29 StreamOnlineHandler.constructor *)
definition constructor_StreamOnlineHandler :: injectable where
  "constructor_StreamOnlineHandler = (''StreamOnlineHandler'', [''Repository<TwitchStreamerEventEntity>'', ''Repository<NotificationLogEntity>'',
         ''Repository<WebhookNotificationEntity>'', ''QueueService''])"

(* apps/api/src/modules/streamer-events/services/streamer-events.service.ts 7-9 StreamerEventsService.constructor *)
definition constructor_StreamerEventsService :: injectable where
  "constructor_StreamerEventsService = (''StreamerEventsService'', [''TwitchSubscriptionService''])"

(* apps/api/src/modules/streamer-events/controllers/streamer-intrernal-events.controller.ts 9-11 StreamerInternalEventsController.constructor *)
definition constructor_StreamerInternalEventsController :: injectable where
  "constructor_StreamerInternalEventsController = (''StreamerInternalEventsController'', [''StreamerEventsService''])"

(* apps/api/src/modules/streamers/controllers/streamers.controller.ts 17-19 StreamersController.constructor *)
definition constructor_StreamersController :: injectable where
  "constructor_StreamersController = (''StreamersController'', [''StreamersService''])"

(* apps/api/src/modules/streamers/services/streamers.service.ts 13-20 StreamersService.constructor *)
definition constructor_StreamersService :: injectable where
  "constructor_StreamersService = (''StreamersService'', [''StreamersMapper'', ''TwitchApiService'', ''Repository<TwitchStreamerEntity>'',
         ''Repository<NotificationLogEntity>''])"

(* apps/api/src/modules/discord-handler/handlers/suspend-notification.handler.ts 21-26 SuspendNotificationHandler.constructor *)
definition constructor_SuspendNotificationHandler :: injectable where
  "constructor_SuspendNotificationHandler = (''SuspendNotificationHandler'', [''Repository<DiscordNotificationEntity>'', ''Repository<NotificationLogEntity>''])"

(* apps/api/src/modules/twitch/services/twitch-api.service.ts 29-33 TwitchApiService.constructor *)
definition constructor_TwitchApiService :: injectable where
  "constructor_TwitchApiService = (''TwitchApiService'', [''HttpService'', ''TwitchAppsRepository'', ''TwitchApiMapper''])"

(* apps/api/src/modules/twitch/services/twitch-app-auth.service.ts 13-17 TwitchAppAuthService.constructor *)
definition constructor_TwitchAppAuthService :: injectable where
  "constructor_TwitchAppAuthService = (''TwitchAppAuthService'', [''HttpService'', ''TwitchAppTokenManager'', ''TwitchAppsRepository''])"

(* apps/api/src/modules/twitch/controllers/twitch-app.controller.ts 17-19 TwitchAppController.constructor *)
definition constructor_TwitchAppController :: injectable where
  "constructor_TwitchAppController = (''TwitchAppController'', [''TwitchAppService''])"

(* apps/api/src/modules/twitch/services/twitch-app.service.ts 15-21 TwitchAppService.constructor *)
definition constructor_TwitchAppService :: injectable where
  "constructor_TwitchAppService = (''TwitchAppService'', [''TwitchAppsRepository'', ''TwitchAppMapper'', ''TwitchAppAuthService'',
         ''Repository<TwitchStreamerEventEntity>''])"

(* apps/api/src/modules/twitch/twitch-token.manager.ts 7-9 TwitchAppTokenManager.constructor *)
definition constructor_TwitchAppTokenManager :: injectable where
  "constructor_TwitchAppTokenManager = (''TwitchAppTokenManager'', [''TwitchAppsRepository''])"

(* apps/api/src/modules/twitch/repositories/twitch-app.repository.ts 15-18 TwitchAppsRepository.constructor *)
definition constructor_TwitchAppsRepository :: injectable where
  "constructor_TwitchAppsRepository = (''TwitchAppsRepository'', [''DataSource'', ''CryptoService''])"

(* apps/api/src/modules/twitch/twitch-auth.interceptor.ts 15-18 TwitchAuthInterceptor.constructor *)
definition constructor_TwitchAuthInterceptor :: injectable where
  "constructor_TwitchAuthInterceptor = (''TwitchAuthInterceptor'', [''TwitchAppAuthService'', ''TwitchUserTokenService''])"

(* apps/api/src/modules/twitch/controllers/twitch.controller.ts 16-21 TwitchController.constructor *)
definition constructor_TwitchController :: injectable where
  "constructor_TwitchController = (''TwitchController'', [''TwitchApiService'', ''TwitchGamesService'', ''Repository<TwitchStreamerEntity>''])"

(* apps/webhook-receiver/src/modules/twitch-receiver/services/twitch-dedup.service.ts 13-15 TwitchDedupService.constructor *)
definition constructor_TwitchDedupService :: injectable where
  "constructor_TwitchDedupService = (''TwitchDedupService'', [''RedisService''])"

(* apps/api/src/modules/twitch/services/twitch-games.service.ts 10-13 TwitchGamesService.constructor *)
definition constructor_TwitchGamesService :: injectable where
  "constructor_TwitchGamesService = (''TwitchGamesService'', [''RedisService'', ''TwitchApiService''])"

(* apps/api/src/modules/twitch/twitch.module.ts 64-67 TwitchModule.constructor *)
definition constructor_TwitchModule :: injectable where
  "constructor_TwitchModule = (''TwitchModule'', [''HttpService'', ''TwitchAuthInterceptor''])"

(* apps/api/src/modules/notifications/services/twitch-notifications.service.ts 17-30 TwitchNotificationsService.constructor *)
definition constructor_TwitchNotificationsService :: injectable where
  "constructor_TwitchNotificationsService = (''TwitchNotificationsService'', [''TwitchSubscriptionService'', ''DiscordPayloadService'', ''DiscordWebhookService'',
         ''DiscordGuildAccessService'', ''NotificationsService'', ''DiscordGuildService'',
         ''Repository<DiscordNotificationEntity>'', ''Repository<WebhookNotificationEntity>'',
         ''Repository<UserEntity>''])"

(* apps/webhook-receiver/src/modules/twitch-receiver/controllers/twitch-receiver.controller.ts 10-14 TwitchReceiverController.constructor *)
definition constructor_TwitchReceiverController :: injectable where
  "constructor_TwitchReceiverController = (''TwitchReceiverController'', [''TwitchSecretService'', ''TwitchReceiverService'', ''TwitchDedupService''])"

(* apps/webhook-receiver/src/modules/twitch-receiver/services/twitch-receiver.service.ts 11-14 TwitchReceiverService.constructor *)
definition constructor_TwitchReceiverService :: injectable where
  "constructor_TwitchReceiverService = (''TwitchReceiverService'', [''QueueService'', ''RpcService''])"

(* apps/api/src/modules/twitch/controllers/twitch-rpc.controller.ts 10-10 TwitchRpcController.constructor *)
definition constructor_TwitchRpcController :: injectable where
  "constructor_TwitchRpcController = (''TwitchRpcController'', [''TwitchApiService''])"

(* apps/webhook-receiver/src/modules/twitch-receiver/services/twitch-secret-cache.service.ts 9-11 TwitchSecretCacheService.constructor *)
definition constructor_TwitchSecretCacheService :: injectable where
  "constructor_TwitchSecretCacheService = (''TwitchSecretCacheService'', [''RedisService''])"

(* apps/webhook-receiver/src/modules/twitch-receiver/services/twitch-secret.service.ts 11-16 TwitchSecretService.constructor *)
definition constructor_TwitchSecretService :: injectable where
  "constructor_TwitchSecretService = (''TwitchSecretService'', [''Repository<TwitchAppEntity>'', ''CryptoService'', ''TwitchSecretCacheService''])"

(* apps/api/src/modules/twitch-subscriptions/services/twitch-subscriptions.service.ts 25-40 TwitchSubscriptionService.constructor *)
definition constructor_TwitchSubscriptionService :: injectable where
  "constructor_TwitchSubscriptionService = (''TwitchSubscriptionService'', [''TwitchAppsRepository'', ''TwitchApiService'', ''TwitchAppService'',
         ''TwitchUserTokenService'', ''ConfigService'', ''TwitchSubscriptionMapper'',
         ''Repository<TwitchStreamerEventEntity>'', ''Repository<TwitchStreamerEntity>'',
         ''Repository<DiscordNotificationEntity>'', ''Repository<WebhookNotificationEntity>''])"

(* apps/api/src/modules/twitch-subscriptions/services/twitch-subscriptions.cron.ts 14-19 TwitchSubscriptionsCronService.constructor *)
definition constructor_TwitchSubscriptionsCronService :: injectable where
  "constructor_TwitchSubscriptionsCronService = (''TwitchSubscriptionsCronService'', [''Repository<TwitchStreamerEventEntity>'', ''TwitchApiService'', ''TwitchAppService''])"

(* apps/api/src/modules/twitch/services/twitch-user-auth.service.ts 15-20 TwitchUserAuthService.constructor *)
definition constructor_TwitchUserAuthService :: injectable where
  "constructor_TwitchUserAuthService = (''TwitchUserAuthService'', [''HttpService'', ''TwitchAppsRepository'', ''twitchAuthConfig.KEY''])"

(* apps/api/src/modules/twitch-subscriptions/services/twitch-user-token.cron.ts 15-22 TwitchUserTokenRefreshCronService.constructor *)
definition constructor_TwitchUserTokenRefreshCronService :: injectable where
  "constructor_TwitchUserTokenRefreshCronService = (''TwitchUserTokenRefreshCronService'', [''Repository<UserEntity>'', ''Repository<TwitchStreamerEntity>'',
         ''TwitchUserTokenService'', ''TwitchSubscriptionService''])"

(* apps/api/src/modules/twitch/services/twitch-user-token.service.ts 13-20 TwitchUserTokenService.constructor *)
definition constructor_TwitchUserTokenService :: injectable where
  "constructor_TwitchUserTokenService = (''TwitchUserTokenService'', [''CryptoService'', ''TwitchUserAuthService'', ''Repository<UserEntity>'',
         ''Repository<TwitchStreamerEntity>''])"

(* apps/api/src/modules/users/controllers/users.controller.ts 18-20 UsersController.constructor *)
definition constructor_UsersController :: injectable where
  "constructor_UsersController = (''UsersController'', [''UsersService''])"

(* apps/api/src/modules/users/services/users.service.ts 27-41 UsersService.constructor *)
definition constructor_UsersService :: injectable where
  "constructor_UsersService = (''UsersService'', [''UsersMapper'', ''Repository<UserEntity>'', ''Repository<UserSessionEntity>'',
         ''Repository<RoleEntity>'', ''Repository<DiscordNotificationEntity>'',
         ''Repository<WebhookNotificationEntity>'', ''Repository<NotificationLogEntity>''])"

section \<open>The modules\<close>

(* libs/config/src/app-config.module.ts 6-24 AppConfigModule *)
definition AppConfigModule :: module_decl where
  "AppConfigModule =
     \<lparr>mo_name = ''AppConfigModule'',
      mo_imports = [
         Library ''ConfigModule'' [''ConfigService'', ''authConfig.KEY'', ''databaseConfig.KEY'', ''redisConfig.KEY'', ''rabbitConfig.KEY'', ''featureConfig.KEY'', ''discordConfig.KEY'', ''twitchAuthConfig.KEY''] True],
      mo_providers = [],
      mo_controllers = [],
      mo_guards = [],
      mo_exports = [''ConfigModule''], mo_global = False\<rparr>"

(* libs/database/src/database.module.ts 18-23 DatabaseModule *)
definition DatabaseModule :: module_decl where
  "DatabaseModule =
     \<lparr>mo_name = ''DatabaseModule'',
      mo_imports = [Library ''TypeOrmModule'' [''DataSource'', ''EntityManager''] True],
      mo_providers = [],
      mo_controllers = [],
      mo_guards = [],
      mo_exports = [''TypeOrmModule''], mo_global = False\<rparr>"

(* libs/redis/src/redis.module.ts 9-36 RedisModule *)
definition RedisModule :: module_decl where
  "RedisModule =
     \<lparr>mo_name = ''RedisModule'',
      mo_imports = [],
      mo_providers = [(''REDIS_CHANNEL_CLIENT'', [''ConfigService'']),
         (''REDIS_CLIENT'', [''ConfigService'']), constructor_RedisService],
      mo_controllers = [],
      mo_guards = [],
      mo_exports = [''RedisService''], mo_global = True\<rparr>"

(* libs/shared/src/modules/crypto/crypto.module.ts 4-9 CryptoModule *)
definition CryptoModule :: module_decl where
  "CryptoModule =
     \<lparr>mo_name = ''CryptoModule'',
      mo_imports = [],
      mo_providers = [constructor_CryptoService],
      mo_controllers = [],
      mo_guards = [],
      mo_exports = [''CryptoService''], mo_global = True\<rparr>"

(* libs/queue/src/queue.module.ts 6-19 QueueModule *)
definition QueueModule :: module_decl where
  "QueueModule =
     \<lparr>mo_name = ''QueueModule'',
      mo_imports = [],
      mo_providers = [buildChannelProvider [''ConfigService''], constructor_QueueService],
      mo_controllers = [], mo_guards = [], mo_exports = [''QueueService''], mo_global = True\<rparr>"

(* libs/rpc/src/rpc.module.ts 8-33 RpcModule *)
definition RpcModule :: module_decl where
  "RpcModule =
     \<lparr>mo_name = ''RpcModule'',
      mo_imports = [Library ''ClientsModule'' [''API_RPC_CLIENT''] False],
      mo_providers = [constructor_RpcService],
      mo_controllers = [], mo_guards = [], mo_exports = [''RpcService''], mo_global = True\<rparr>"

(* apps/api/src/modules/roles/roles.module.ts 8-25 RolesModule *)
definition RolesModule :: module_decl where
  "RolesModule =
     \<lparr>mo_name = ''RolesModule'',
      mo_imports = [Library ''TypeOrmModule'' (repositories [''RoleEntity'', ''UserEntity'']) False],
      mo_providers = [(''RolesMapper'', []), constructor_RolesService],
      mo_controllers = [constructor_RolesController],
      mo_guards = [(''JwtAccessGuard'', []), constructor_PermissionsGuard],
      mo_exports = [''RolesMapper'', ''RolesService''], mo_global = False\<rparr>"

(* apps/api/src/modules/twitch/twitch.module.ts 15-63 TwitchModule *)
definition TwitchModule :: module_decl where
  "TwitchModule =
     \<lparr>mo_name = ''TwitchModule'',
      mo_imports = [Library ''HttpModule'' [''HttpService''] False,
         Library ''TypeOrmModule'' (repositories [''TwitchAppEntity'', ''TwitchStreamerEventEntity'', ''TwitchStreamerEntity'', ''UserEntity'']) False],
      mo_providers = [constructor_TwitchAppAuthService, constructor_TwitchAppTokenManager,
         constructor_TwitchApiService, constructor_TwitchAuthInterceptor,
         (''TwitchAppMapper'', []), (''TwitchApiMapper'', []), constructor_TwitchAppsRepository,
         constructor_TwitchAppService, constructor_TwitchUserAuthService,
         constructor_TwitchUserTokenService, constructor_TwitchGamesService,
         (''TwitchAppsRepository'', [''DataSource'', ''CryptoService'']),
         constructor_TwitchModule],
      mo_controllers = [constructor_TwitchController, constructor_TwitchAppController,
         constructor_TwitchRpcController],
      mo_guards = [(''JwtAccessGuard'', []), constructor_PermissionsGuard],
      mo_exports = [''TwitchAppAuthService'', ''TwitchAppsRepository'', ''TwitchAppMapper'',
         ''TwitchApiService'', ''TwitchAppService'', ''TwitchUserAuthService'',
         ''TwitchUserTokenService'', ''TwitchGamesService''], mo_global = False\<rparr>"

(* apps/api/src/modules/twitch-subscriptions/twitch-subscriptions.module.ts 14-35 TwitchSubscriptionsModule *)
definition TwitchSubscriptionsModule :: module_decl where
  "TwitchSubscriptionsModule =
     \<lparr>mo_name = ''TwitchSubscriptionsModule'',
      mo_imports = [Own ''TwitchModule'',
         Library ''TypeOrmModule'' (repositories [''TwitchStreamerEventEntity'', ''TwitchStreamerEntity'', ''UserEntity'', ''DiscordNotificationEntity'', ''WebhookNotificationEntity'']) False],
      mo_providers = [constructor_TwitchSubscriptionsCronService,
         constructor_TwitchUserTokenRefreshCronService, constructor_TwitchSubscriptionService,
         (''TwitchSubscriptionMapper'', [])],
      mo_controllers = [],
      mo_guards = [],
      mo_exports = [''TwitchSubscriptionService''], mo_global = False\<rparr>"

(* apps/api/src/modules/discord/discord.module.ts 15-65 DiscordModule *)
definition DiscordModule :: module_decl where
  "DiscordModule =
     \<lparr>mo_name = ''DiscordModule'',
      mo_imports = [Library ''HttpModule'' [''HttpService''] False,
         Library ''TypeOrmModule'' (repositories [''UserEntity'', ''DiscordGuildEntity'']) False,
         Library ''ClientsModule'' [''BOT_RPC_CLIENT''] False],
      mo_providers = [constructor_DiscordApiBaseService, constructor_DiscordGuildService,
         constructor_DiscordAuthService, (''DiscordAuthMapper'', []),
         constructor_DiscordGuildMapper, constructor_DiscordWebhookService,
         constructor_DiscordApiService, constructor_DiscordTokenService,
         constructor_DiscordBotService, constructor_DiscordGuildAccessService,
         constructor_DiscordGuard],
      mo_controllers = [constructor_DiscordController],
      mo_guards = [(''JwtAccessGuard'', []), constructor_DiscordGuard],
      mo_exports = [''DiscordAuthService'', ''DiscordApiBaseService'', ''DiscordGuildService'',
         ''DiscordWebhookService'', ''DiscordApiService'', ''DiscordTokenService'',
         ''DiscordBotService'', ''DiscordGuildAccessService'', ''DiscordGuard''], mo_global = False\<rparr>"

(* apps/api/src/modules/auth/auth.module.ts 15-43 AuthModule *)
definition AuthModule :: module_decl where
  "AuthModule =
     \<lparr>mo_name = ''AuthModule'',
      mo_imports = [
         Library ''TypeOrmModule'' (repositories [''UserEntity'', ''UserSessionEntity'', ''TwitchStreamerEntity'']) False,
         Library ''PassportModule'' [] False, Library ''JwtModule'' [''JwtService''] False,
         Own ''DiscordModule'', Own ''RolesModule'', Own ''TwitchModule'',
         Own ''TwitchSubscriptionsModule''],
      mo_providers = [(''JwtService'', []), (''PasswordService'', []), constructor_AuthService,
         constructor_MeService, constructor_AuthMapper, constructor_JwtAccessStrategy,
         constructor_JwtRefreshStrategy],
      mo_controllers = [constructor_AuthController],
      mo_guards = [constructor_FeatureGuard, (''JwtRefreshGuard'', []), (''JwtAccessGuard'', [])],
      mo_exports = [], mo_global = False\<rparr>"

(* apps/api/src/modules/notification-payload/notification-payload.module.ts 4-14 NotificationPayloadModule *)
definition NotificationPayloadModule :: module_decl where
  "NotificationPayloadModule =
     \<lparr>mo_name = ''NotificationPayloadModule'',
      mo_imports = [],
      mo_providers = [(''DiscordPayloadService'', [])],
      mo_controllers = [],
      mo_guards = [],
      mo_exports = [''DiscordPayloadService''], mo_global = False\<rparr>"

(* apps/api/src/modules/notifications/notifications.module.ts 11-32 NotificationsModule *)
definition NotificationsModule :: module_decl where
  "NotificationsModule =
     \<lparr>mo_name = ''NotificationsModule'',
      mo_imports = [Own ''TwitchSubscriptionsModule'', Own ''NotificationPayloadModule'',
         Own ''DiscordModule'',
         Library ''TypeOrmModule'' (repositories [''UserEntity'', ''DiscordNotificationEntity'', ''WebhookNotificationEntity'']) False],
      mo_providers = [(''NotificationsService'', []), constructor_TwitchNotificationsService],
      mo_controllers = [constructor_DiscordNotificationsController],
      mo_guards = [(''JwtAccessGuard'', []), constructor_DiscordGuard],
      mo_exports = [''NotificationsService'', ''TwitchNotificationsService''], mo_global = False\<rparr>"

(* apps/api/src/modules/admin/admin.module.ts 9-22 AdminModule *)
definition AdminModule :: module_decl where
  "AdminModule =
     \<lparr>mo_name = ''AdminModule'',
      mo_imports = [Own ''TwitchSubscriptionsModule'', Own ''TwitchModule'',
         Library ''TypeOrmModule'' (repositories [''TwitchStreamerEventEntity'']) False],
      mo_providers = [constructor_AdminService],
      mo_controllers = [constructor_AdminController],
      mo_guards = [(''JwtAccessGuard'', []), constructor_PermissionsGuard],
      mo_exports = [], mo_global = False\<rparr>"

(* apps/api/src/modules/streamer-events/streamer-events.module.ts 6-14 TwitchEventsModule *)
definition TwitchEventsModule :: module_decl where
  "TwitchEventsModule =
     \<lparr>mo_name = ''TwitchEventsModule'',
      mo_imports = [Own ''TwitchSubscriptionsModule''],
      mo_providers = [constructor_StreamerEventsService],
      mo_controllers = [constructor_StreamerInternalEventsController],
      mo_guards = [],
      mo_exports = [], mo_global = False\<rparr>"

(* apps/api/src/modules/discord-handler/discord-handler.module.ts 10-34 DiscordHandlerModule *)
definition DiscordHandlerModule :: module_decl where
  "DiscordHandlerModule =
     \<lparr>mo_name = ''DiscordHandlerModule'',
      mo_imports = [Own ''DiscordModule'', Own ''TwitchSubscriptionsModule'', Own ''TwitchModule'',
         Own ''NotificationsModule'',
         Library ''TypeOrmModule'' (repositories [''UserEntity'', ''DiscordNotificationEntity'', ''NotificationLogEntity'', ''DiscordGuildEntity'']) False],
      mo_providers = [],
      mo_controllers = [constructor_AddDestinationHandler, constructor_RemoveDestinationHandler,
         constructor_ListDestinationsHandler, constructor_AuthenticateHandler,
         constructor_SuspendNotificationHandler, constructor_SearchStreamersHandler,
         constructor_GetProfileHandler],
      mo_guards = [],
      mo_exports = [], mo_global = False\<rparr>"

(* apps/api/src/modules/notification-logs/notification-logs.module.ts 8-16 NotificationLogsModule *)
definition NotificationLogsModule :: module_decl where
  "NotificationLogsModule =
     \<lparr>mo_name = ''NotificationLogsModule'',
      mo_imports = [Library ''TypeOrmModule'' (repositories [''NotificationLogEntity'']) False,
         Own ''DiscordModule''],
      mo_providers = [constructor_NotificationLogsService],
      mo_controllers = [constructor_NotificationLogsController],
      mo_guards = [(''JwtAccessGuard'', []), constructor_PermissionsGuard],
      mo_exports = [], mo_global = False\<rparr>"

(* apps/api/src/modules/statistics/statistics.module.ts 9-27 StatisticsModule *)
definition StatisticsModule :: module_decl where
  "StatisticsModule =
     \<lparr>mo_name = ''StatisticsModule'',
      mo_imports = [Own ''TwitchSubscriptionsModule'', Own ''TwitchModule'',
         Library ''TypeOrmModule'' (repositories [''TwitchStreamerEntity'', ''DiscordNotificationEntity'', ''WebhookNotificationEntity'', ''NotificationLogEntity'', ''DiscordGuildEntity'', ''UserEntity'']) False],
      mo_providers = [constructor_StatisticsService],
      mo_controllers = [constructor_StatisticsController],
      mo_guards = [(''JwtAccessGuard'', [])],
      mo_exports = [], mo_global = False\<rparr>"

(* apps/api/src/modules/users/users.module.ts 15-29 UsersModule *)
definition UsersModule :: module_decl where
  "UsersModule =
     \<lparr>mo_name = ''UsersModule'',
      mo_imports = [
         Library ''TypeOrmModule'' (repositories [''UserEntity'', ''UserSessionEntity'', ''RoleEntity'', ''DiscordNotificationEntity'', ''WebhookNotificationEntity'', ''NotificationLogEntity'']) False],
      mo_providers = [constructor_UsersService, (''UsersMapper'', [])],
      mo_controllers = [constructor_UsersController],
      mo_guards = [(''JwtAccessGuard'', []), constructor_PermissionsGuard],
      mo_exports = [], mo_global = False\<rparr>"

(* apps/api/src/modules/streamers/streamers.module.ts 9-20 StreamersModule *)
definition StreamersModule :: module_decl where
  "StreamersModule =
     \<lparr>mo_name = ''StreamersModule'',
      mo_imports = [
         Library ''TypeOrmModule'' (repositories [''TwitchStreamerEntity'', ''NotificationLogEntity'']) False,
         Own ''TwitchModule''],
      mo_providers = [constructor_StreamersService, (''StreamersMapper'', [])],
      mo_controllers = [constructor_StreamersController],
      mo_guards = [(''JwtAccessGuard'', []), constructor_PermissionsGuard],
      mo_exports = [], mo_global = False\<rparr>"

(* apps/api/src/api.module.ts 21-43 ApiModule *)
definition ApiModule :: module_decl where
  "ApiModule =
     \<lparr>mo_name = ''ApiModule'',
      mo_imports = [Own ''AuthModule'', Own ''DatabaseModule'', Own ''AppConfigModule'',
         Own ''DiscordModule'', Own ''TwitchModule'', Own ''TwitchSubscriptionsModule'',
         Own ''NotificationsModule'', Own ''CryptoModule'', Own ''AdminModule'',
         Own ''TwitchEventsModule'', Own ''NotificationPayloadModule'',
         Own ''DiscordHandlerModule'', Own ''RolesModule'', Own ''RedisModule'',
         Own ''NotificationLogsModule'', Own ''StatisticsModule'', Own ''UsersModule'',
         Own ''StreamersModule''],
      mo_providers = [],
      mo_controllers = [],
      mo_guards = [],
      mo_exports = [], mo_global = False\<rparr>"

(* apps/webhook-receiver/src/modules/twitch-receiver/twitch-receiver.module.ts 7-22 TwitchReceiverModule *)
definition TwitchReceiverModule :: module_decl where
  "TwitchReceiverModule =
     \<lparr>mo_name = ''TwitchReceiverModule'',
      mo_imports = [Library ''TypeOrmModule'' (repositories [''TwitchAppEntity'']) False],
      mo_providers = [constructor_TwitchReceiverService, constructor_TwitchSecretService,
         constructor_TwitchSecretCacheService, constructor_TwitchDedupService],
      mo_controllers = [constructor_TwitchReceiverController],
      mo_guards = [],
      mo_exports = [], mo_global = False\<rparr>"

(* apps/webhook-receiver/src/webhook-receiver.module.ts 11-34 WebhookReceiverModule *)
definition WebhookReceiverModule :: module_decl where
  "WebhookReceiverModule =
     \<lparr>mo_name = ''WebhookReceiverModule'',
      mo_imports = [Own ''TwitchReceiverModule'', Own ''AppConfigModule'', Own ''DatabaseModule'',
         Own ''CryptoModule'', Own ''RedisModule'', Own ''QueueModule'', Own ''RpcModule''],
      mo_providers = [],
      mo_controllers = [],
      mo_guards = [],
      mo_exports = [], mo_global = False\<rparr>"

(* apps/notification-worker/src/notification-worker.module.ts 9-31 NotificationWorkerModule *)
definition NotificationWorkerModule :: module_decl where
  "NotificationWorkerModule =
     \<lparr>mo_name = ''NotificationWorkerModule'',
      mo_imports = [Own ''DatabaseModule'', Own ''AppConfigModule'', Own ''QueueModule'',
         Library ''TypeOrmModule'' (repositories [''TwitchStreamerEventEntity'', ''NotificationLogEntity'', ''WebhookNotificationEntity'']) False],
      mo_providers = [],
      mo_controllers = [constructor_StreamOnlineHandler],
      mo_guards = [],
      mo_exports = [], mo_global = False\<rparr>"

(* apps/discord-bot/src/modules/discord/discord.module.ts 12-26 DiscordModule *)
definition bot_DiscordModule :: module_decl where
  "bot_DiscordModule =
     \<lparr>mo_name = ''DiscordModule'',
      mo_imports = [Library ''DiscoveryModule'' [''DiscoveryService'', ''MetadataScanner''] False],
      mo_providers = [discordProvider, constructor_DiscordExplorer, constructor_GuildSyncService,
         constructor_ChannelSyncService],
      mo_controllers = [constructor_GetGuildRolesHandler, constructor_GetGuildMemberHandler,
         constructor_GetGuildChannelsHandler, constructor_GetGuildIdsHandler],
      mo_guards = [],
      mo_exports = [''DISCORD_CLIENT'', ''DiscordExplorer''], mo_global = False\<rparr>"

(* apps/discord-bot/src/modules/account/account.module.ts 4-7 AccountModule *)
definition bot_AccountModule :: module_decl where
  "bot_AccountModule =
     \<lparr>mo_name = ''AccountModule'',
      mo_imports = [],
      mo_providers = [constructor_AuthorizeCommand, constructor_ProfileCommand],
      mo_controllers = [],
      mo_guards = [],
      mo_exports = [], mo_global = False\<rparr>"

(* apps/discord-bot/src/modules/notifications/notifications.module.ts 7-18 NotificationsModule *)
definition bot_NotificationsModule :: module_decl where
  "bot_NotificationsModule =
     \<lparr>mo_name = ''NotificationsModule'',
      mo_imports = [Own ''DiscordModule''],
      mo_providers = [constructor_AddDestinationCommand, constructor_AddDestinationModalHandler,
         constructor_AddDestinationButtonHandler, constructor_AddDestinationAutocompleteHandler,
         (''PendingDestinationStore'', [])],
      mo_controllers = [constructor_SendNotificationHandler],
      mo_guards = [],
      mo_exports = [], mo_global = False\<rparr>"

(* apps/discord-bot/src/discord-bot.module.ts 8-26 DiscordBotModule *)
definition bot_DiscordBotModule :: module_decl where
  "bot_DiscordBotModule =
     \<lparr>mo_name = ''DiscordBotModule'',
      mo_imports = [Own ''AppConfigModule'', Own ''AccountModule'', Own ''DiscordModule'',
         Own ''NotificationsModule'', Own ''RedisModule'', Own ''RpcModule''],
      mo_providers = [],
      mo_controllers = [],
      mo_guards = [],
      mo_exports = [], mo_global = False\<rparr>"


section \<open>Building a process\<close>

text \<open>The modules of a process, each after a module that imports it.\<close>

definition api_modules :: "module_decl list" where
  "api_modules =
     [ApiModule, AuthModule, DatabaseModule, AppConfigModule, DiscordModule, TwitchModule, TwitchSubscriptionsModule,
      NotificationsModule, CryptoModule, AdminModule, TwitchEventsModule, NotificationPayloadModule, DiscordHandlerModule,
      RolesModule, RedisModule, NotificationLogsModule, StatisticsModule, UsersModule, StreamersModule]"

definition receiver_modules :: "module_decl list" where
  "receiver_modules =
     [WebhookReceiverModule, TwitchReceiverModule, AppConfigModule, DatabaseModule, CryptoModule, RedisModule, QueueModule,
      RpcModule]"

definition worker_modules :: "module_decl list" where
  "worker_modules = [NotificationWorkerModule, DatabaseModule, AppConfigModule, QueueModule]"

definition bot_modules :: "module_decl list" where
  "bot_modules =
     [bot_DiscordBotModule, AppConfigModule, bot_AccountModule, bot_DiscordModule, bot_NotificationsModule, RedisModule, RpcModule]"

fun imported_names :: "module_import list \<Rightarrow> string list" where
  "imported_names [] = []"
| "imported_names (Own n # is) = n # imported_names is"
| "imported_names (Library n ts g # is) = imported_names is"

text \<open>All modules of the list are reached from the first, and all that are reached are in it.\<close>

fun reached_from :: "string list \<Rightarrow> module_decl list \<Rightarrow> bool" where
  "reached_from seen [] = True"
| "reached_from seen (m # ms) = (mo_name m \<in> set seen \<and> reached_from (imported_names (mo_imports m) @ seen) ms)"

definition closed_under_imports :: "module_decl list \<Rightarrow> bool" where
  "closed_under_imports ms \<longleftrightarrow>
     list_all (\<lambda>m. list_all (\<lambda>n. n \<in> set (map mo_name ms)) (imported_names (mo_imports m))) ms"

definition library_named :: "string \<Rightarrow> module_import \<Rightarrow> bool" where
  "library_named n i = (case i of Own _ \<Rightarrow> False | Library k _ _ \<Rightarrow> k = n)"

fun library_tokens :: "module_import \<Rightarrow> string list" where
  "library_tokens (Own n) = []"
| "library_tokens (Library n ts g) = ts"

text \<open>An export that names a library module passes on what that module exports.\<close>

definition exported_by :: "module_decl \<Rightarrow> string list" where
  "exported_by m = concat (map (\<lambda>e.
     case find (library_named e) (mo_imports m) of Some i \<Rightarrow> library_tokens i | None \<Rightarrow> [e]) (mo_exports m))"

definition import_tokens :: "module_decl list \<Rightarrow> module_import \<Rightarrow> string list" where
  "import_tokens ms i = (case i of
     Own n \<Rightarrow> (case find (\<lambda>m. mo_name m = n) ms of None \<Rightarrow> [] | Some m \<Rightarrow> exported_by m)
   | Library n ts g \<Rightarrow> ts)"

definition global_tokens :: "module_decl list \<Rightarrow> string list" where
  "global_tokens ms = ''Reflector'' #
     concat (map (\<lambda>m. (if mo_global m then exported_by m else []) @
       concat (map (\<lambda>i. case i of Library n ts True \<Rightarrow> ts | _ \<Rightarrow> []) (mo_imports m))) ms)"

definition visible_tokens :: "module_decl list \<Rightarrow> module_decl \<Rightarrow> string list" where
  "visible_tokens ms m =
     map fst (mo_providers m) @ concat (map (import_tokens ms) (mo_imports m)) @ global_tokens ms"

fun listed :: "string \<Rightarrow> string list \<Rightarrow> bool" where
  "listed x [] = False"
| "listed x (y # ys) = (if x = y then True else listed x ys)"

definition dependencies :: "module_decl \<Rightarrow> string list" where
  "dependencies m = remdups (concat (map snd (mo_providers m @ mo_controllers m @ mo_guards m)))"

definition builds :: "module_decl list \<Rightarrow> module_decl \<Rightarrow> bool" where
  "builds ms m = (let ts = visible_tokens ms m in
     list_all (\<lambda>d. listed d ts) (dependencies m) \<and>
     list_all (\<lambda>e. listed e (map fst (mo_providers m)) \<or> find (library_named e) (mo_imports m) \<noteq> None) (mo_exports m))"

text \<open>The entities TypeORM is told of; a repository of any other would not be there.\<close>

(* libs/database/src/database.module.ts 29-40 DatabaseModule, entities *)
definition database_entities :: "string list" where
  "database_entities =
     [''DiscordNotificationEntity'', ''WebhookNotificationEntity'', ''TwitchStreamerEventEntity'', ''TwitchStreamerEntity'',
      ''DiscordGuildEntity'', ''UserEntity'', ''UserSessionEntity'', ''RoleEntity'', ''TwitchAppEntity'', ''NotificationLogEntity'']"

definition entities_known :: "module_decl \<Rightarrow> bool" where
  "entities_known m \<longleftrightarrow> list_all (\<lambda>i. if library_named ''TypeOrmModule'' i
     then list_all (\<lambda>t. listed t (''DataSource'' # ''EntityManager'' # repositories database_entities)) (library_tokens i)
     else True) (mo_imports m)"

section \<open>Every process has what it asks for\<close>

definition process_builds :: "module_decl list \<Rightarrow> bool" where
  "process_builds ms \<longleftrightarrow>
     reached_from [mo_name (hd ms)] ms \<and> closed_under_imports ms \<and> list_all (builds ms) ms \<and> list_all entities_known ms"

lemma api_builds: "process_builds api_modules"
  by code_simp

lemma others_build: "process_builds receiver_modules" "process_builds worker_modules" "process_builds bot_modules"
  by code_simp+

lemma listed_iff: "listed x ys \<longleftrightarrow> x \<in> set ys"
  by (induction ys) auto

lemma built:
  assumes "process_builds ms" and "m \<in> set ms" and "c \<in> set (mo_providers m @ mo_controllers m @ mo_guards m)"
  shows "set (snd c) \<subseteq> set (visible_tokens ms m)"
proof -
  have "list_all (\<lambda>d. listed d (visible_tokens ms m)) (dependencies m)"
    using assms(1,2) by (auto simp: process_builds_def list_all_iff builds_def Let_def)
  then show ?thesis using assms(3) by (auto simp: list_all_iff listed_iff dependencies_def)
qed

text \<open>
  Nothing is missing in any of the four processes: whatever a provider, a controller or a guard of one of its modules
  asks for is provided by that module, exported by one it imports or global in that process.
\<close>

theorem every_dependency_is_visible:
  assumes "ms \<in> {api_modules, receiver_modules, worker_modules, bot_modules}" and "m \<in> set ms"
    and "c \<in> set (mo_providers m @ mo_controllers m @ mo_guards m)"
  shows "set (snd c) \<subseteq> set (visible_tokens ms m)"
proof -
  have "process_builds ms" using assms(1) api_builds others_build by auto
  then show ?thesis using assms(2,3) by (rule built)
qed

section \<open>Scheduled jobs\<close>

text \<open>A method with \<open>@Cron\<close>: its class, its name and when it is to run.\<close>

(* apps/api/src/modules/twitch-subscriptions/services/twitch-subscriptions.cron.ts 21-22 TwitchSubscriptionsCronService.syncStaleSubscriptions, decorator *)
definition sync_job :: "string \<times> string \<times> string" where
  "sync_job = (''TwitchSubscriptionsCronService'', ''syncStaleSubscriptions'', ''0 * * * *'')"

(* apps/api/src/modules/twitch-subscriptions/services/twitch-user-token.cron.ts 24-25 TwitchUserTokenRefreshCronService.refreshExpiringTokens, decorator *)
definition refresh_job :: "string \<times> string \<times> string" where
  "refresh_job = (''TwitchUserTokenRefreshCronService'', ''refreshExpiringTokens'', ''*/15 * * * *'')"

text \<open>
  The decorator only marks the method. The scheduler that looks for the marks comes with \<open>ScheduleModule\<close>, which
  some module of the process has to import; then the marked methods of all providers are run.
\<close>

definition scheduled_jobs :: "module_decl list \<Rightarrow> (string \<times> string \<times> string) list" where
  "scheduled_jobs ms =
     (if list_all (\<lambda>m. find (library_named ''ScheduleModule'') (mo_imports m) = None) ms then []
      else filter (\<lambda>j. listed (fst j) (map fst (concat (map mo_providers ms)))) [sync_job, refresh_job])"

definition with_scheduler :: "module_decl \<Rightarrow> module_decl" where
  "with_scheduler m = m\<lparr>mo_imports := Library ''ScheduleModule'' [''SchedulerRegistry''] False # mo_imports m\<rparr>"

text \<open>
  The jobs of the API never run. Neither the hourly check of pending subscriptions nor the refresh of
  the tokens of users is started, although the classes with the jobs are built: no module imports the
  scheduler. With the import in the root module both would run.
\<close>

theorem jobs_never_start:
  "scheduled_jobs api_modules = [] \<and>
   scheduled_jobs (with_scheduler (hd api_modules) # tl api_modules) = [sync_job, refresh_job]"
  by code_simp

theorem every_dependency_is_visible_witness:
  "set [''ConfigService'', ''AuthService''] \<subseteq> set (visible_tokens api_modules AuthModule)"
proof -
  have "AuthModule \<in> set api_modules" by (simp add: api_modules_def)
  moreover have "constructor_JwtRefreshStrategy \<in> set (mo_providers AuthModule @ mo_controllers AuthModule @ mo_guards AuthModule)"
    by (simp add: AuthModule_def)
  ultimately have "set (snd constructor_JwtRefreshStrategy) \<subseteq> set (visible_tokens api_modules AuthModule)"
    using every_dependency_is_visible [of api_modules AuthModule constructor_JwtRefreshStrategy] by blast
  then show ?thesis by (simp add: constructor_JwtRefreshStrategy_def)
qed

end
