(* ===== verification/Building.thy ===== *)
theory Building imports Modules Tables begin

text \<open>
  That Nest can build the four processes: the classes of a process and its modules have an order in which each is made
  after what it asks for. The order exists because the classes lie in layers.
\<close>

section \<open>An order to build things in\<close>

text \<open>
  What a thing needs before it can be made; \<open>None\<close> when something it asks for cannot be found. Things are built
  in an order, here with the latest first, when each is made once and after all that it needs. Two classes that ask for
  each other, directly or through others, are in no such order, and Nest stops at them.
\<close>

fun built_in_order :: "('a \<Rightarrow> 'a list option) \<Rightarrow> 'a list \<Rightarrow> bool" where
  "built_in_order needs [] = True"
| "built_in_order needs (x # xs) =
     (x \<notin> set xs \<and> (case needs x of None \<Rightarrow> False | Some ds \<Rightarrow> set ds \<subseteq> set xs) \<and> built_in_order needs xs)"

definition needed_by :: "('a \<Rightarrow> 'a list option) \<Rightarrow> ('a \<times> 'a) set" where
  "needed_by needs = {(d, x). \<exists>ds. needs x = Some ds \<and> d \<in> set ds}"

lemma needs_are_built:
  "(d, x) \<in> (needed_by needs)\<^sup>+ \<Longrightarrow> built_in_order needs xs \<Longrightarrow> x \<in> set xs \<Longrightarrow> d \<in> set xs"
proof (induction rule: trancl_induct)
  case (base y)
  then show ?case by (induction xs) (auto simp: needed_by_def)
next
  case (step y z)
  have "y \<in> set xs" using step.prems step.hyps(2) by (induction xs) (auto simp: needed_by_def)
  then show ?case using step by blast
qed

lemma built_without_cycles: "built_in_order needs xs \<Longrightarrow> x \<in> set xs \<Longrightarrow> (x, x) \<notin> (needed_by needs)\<^sup>+"
proof (induction xs)
  case (Cons y ys)
  show ?case
  proof (cases "x = y")
    case True
    show ?thesis
    proof
      assume "(x, x) \<in> (needed_by needs)\<^sup>+"
      then obtain d where d: "(x, d) \<in> (needed_by needs)\<^sup>*" "(d, x) \<in> needed_by needs" by (meson tranclD2)
      then have "d \<in> set ys" using Cons.prems(1) True by (auto simp: needed_by_def)
      then have "x \<in> set ys" using d(1) needs_are_built [of x d needs ys] Cons.prems(1) by (auto simp: rtrancl_eq_or_trancl)
      then show False using Cons.prems(1) True by simp
    qed
  qed (use Cons in auto)
qed simp

text \<open>Things with a rank, each above what it needs, can be built in the order of their ranks.\<close>

definition ranked :: "('a \<Rightarrow> 'a list option) \<Rightarrow> ('a \<Rightarrow> nat) \<Rightarrow> 'a set \<Rightarrow> bool" where
  "ranked needs rank X \<longleftrightarrow> (\<forall>x \<in> X. \<exists>ds. needs x = Some ds \<and> (\<forall>d \<in> set ds. d \<in> X \<and> rank d < rank x))"

lemma sorted_is_built:
  "sorted (map rank xs) \<Longrightarrow> distinct xs \<Longrightarrow> ranked needs rank (set xs) \<Longrightarrow> built_in_order needs (rev xs)"
proof (induction xs rule: rev_induct)
  case (snoc x xs)
  have top: "rank y \<le> rank x" if "y \<in> set xs" for y using snoc.prems(1) that by (auto simp: sorted_append)
  have "ranked needs rank (set xs)"
    unfolding ranked_def
  proof
    fix y assume y: "y \<in> set xs"
    then obtain ds where "needs y = Some ds" "\<forall>d \<in> set ds. d \<in> insert x (set xs) \<and> rank d < rank y"
      using snoc.prems(3) by (auto simp: ranked_def)
    then show "\<exists>ds. needs y = Some ds \<and> (\<forall>d \<in> set ds. d \<in> set xs \<and> rank d < rank y)"
      using top [OF y] by (intro exI [of _ ds]) auto
  qed
  moreover obtain ds where "needs x = Some ds" "\<forall>d \<in> set ds. d \<in> insert x (set xs) \<and> rank d < rank x"
    using snoc.prems(3) by (auto simp: ranked_def)
  ultimately show ?case using snoc by (auto simp: sorted_append)
qed simp

lemma ranked_is_built:
  assumes "ranked needs rank (set xs)"
  shows "\<exists>order. built_in_order needs order \<and> set order = set xs"
proof -
  let ?ys = "sort_key rank (remdups xs)"
  have "built_in_order needs (rev ?ys)" using assms by (intro sorted_is_built) simp_all
  then show ?thesis by (intro exI [of _ "rev ?ys"]) simp
qed

section \<open>What the classes of a process are made from\<close>

text \<open>
  A class belongs to a module. What it asks for comes from a library or is a class of some module: one its own module
  provides before one that an imported module exports, and that before one of a global module.
\<close>

datatype origin = Library_Made | Class_Of module_decl string

definition module_exports :: "module_decl \<Rightarrow> (string \<times> origin) list" where
  "module_exports m = concat (map (\<lambda>e.
     case find (library_named e) (mo_imports m) of
       Some i \<Rightarrow> map (\<lambda>t. (t, Library_Made)) (library_tokens i)
     | None \<Rightarrow> [(e, Class_Of m e)]) (mo_exports m))"

definition import_origins :: "module_decl list \<Rightarrow> module_import \<Rightarrow> (string \<times> origin) list" where
  "import_origins ms i = (case i of
     Own n \<Rightarrow> (case find (\<lambda>m. mo_name m = n) ms of None \<Rightarrow> [] | Some m \<Rightarrow> module_exports m)
   | Library n ts g \<Rightarrow> map (\<lambda>t. (t, Library_Made)) ts)"

definition global_origins :: "module_decl list \<Rightarrow> (string \<times> origin) list" where
  "global_origins ms = (''Reflector'', Library_Made) #
     concat (map (\<lambda>m. (if mo_global m then module_exports m else []) @
       concat (map (\<lambda>i. case i of Library n ts True \<Rightarrow> map (\<lambda>t. (t, Library_Made)) ts | _ \<Rightarrow> []) (mo_imports m))) ms)"

definition origins :: "module_decl list \<Rightarrow> module_decl \<Rightarrow> (string \<times> origin) list" where
  "origins ms m = map (\<lambda>c. (fst c, Class_Of m (fst c))) (mo_providers m) @
     concat (map (import_origins ms) (mo_imports m)) @ global_origins ms"

fun class_part :: "origin \<Rightarrow> (module_decl \<times> string) option" where
  "class_part Library_Made = None"
| "class_part (Class_Of m t) = Some (m, t)"

text \<open>Of two providers of one name in a module the later counts.\<close>

definition injectables :: "module_decl \<Rightarrow> injectable list" where
  "injectables m = rev (mo_providers m) @ mo_controllers m @ mo_guards m"

definition classes_of :: "module_decl list \<Rightarrow> (module_decl \<times> string) list" where
  "classes_of ms = concat (map (\<lambda>m. map (\<lambda>c. (m, fst c)) (injectables m)) ms)"

definition class_needs :: "module_decl list \<Rightarrow> module_decl \<times> string \<Rightarrow> (module_decl \<times> string) list option" where
  "class_needs ms = (\<lambda>(m, c). Option.bind (map_of (injectables m) c) (\<lambda>ds.
     map_option (List.map_filter class_part) (those (map (map_of (origins ms m)) ds))))"

definition module_needs :: "module_decl list \<Rightarrow> module_decl \<Rightarrow> module_decl list option" where
  "module_needs ms m = those (map (\<lambda>n. find (\<lambda>k. mo_name k = n) ms) (imported_names (mo_imports m)))"

lemma origin_names: "map fst (origins ms m) = visible_tokens ms m"
proof -
  have "map fst (module_exports n) = exported_by n" for n
    by (auto simp: module_exports_def exported_by_def map_concat comp_def intro!: arg_cong [where f = concat] split: option.split)
  then have "map fst (import_origins ms i) = import_tokens ms i" and
    "map fst (global_origins ms) = global_tokens ms" for i
    by (auto simp: import_origins_def import_tokens_def global_origins_def global_tokens_def map_concat comp_def
        intro!: arg_cong [where f = concat] split: module_import.split option.split bool.split)
  then show ?thesis by (simp add: origins_def visible_tokens_def map_concat comp_def)
qed

text \<open>The classes an origin names are classes of the process, when modules export only what they provide.\<close>

definition exports_own :: "module_decl \<Rightarrow> bool" where
  "exports_own m \<longleftrightarrow> (\<forall>e \<in> set (mo_exports m). e \<in> fst ` set (mo_providers m) \<or> find (library_named e) (mo_imports m) \<noteq> None)"

lemma exported_class:
  "(d, Class_Of n t) \<in> set (module_exports m) \<Longrightarrow> exports_own m \<Longrightarrow> n = m \<and> t = d \<and> d \<in> fst ` set (mo_providers m)"
  by (auto simp: module_exports_def exports_own_def split: option.splits)

lemma imported_origin:
  "(d, Class_Of n t) \<in> set (import_origins ms i) \<Longrightarrow> \<exists>k \<in> set ms. (d, Class_Of n t) \<in> set (module_exports k)"
  by (cases i) (auto simp: import_origins_def dest!: find_in [OF sym] split: option.splits)

lemma global_origin:
  "(d, Class_Of n t) \<in> set (global_origins ms) \<Longrightarrow> \<exists>k \<in> set ms. (d, Class_Of n t) \<in> set (module_exports k)"
  by (auto simp: global_origins_def split: module_import.splits bool.splits if_splits)

lemma origin_class:
  assumes "(d, Class_Of n t) \<in> set (origins ms m)" and "m \<in> set ms" and "\<forall>m \<in> set ms. exports_own m"
  shows "t = d \<and> (n, t) \<in> set (classes_of ms)"
proof -
  have "(d, Class_Of n t) \<in> set (map (\<lambda>c. (fst c, Class_Of m (fst c))) (mo_providers m)) \<or>
      (\<exists>i. (d, Class_Of n t) \<in> set (import_origins ms i)) \<or> (d, Class_Of n t) \<in> set (global_origins ms)"
    using assms(1) unfolding origins_def by (simp only: set_append set_concat set_map) blast
  then consider (own) "n = m" "t = d" "d \<in> fst ` set (mo_providers m)"
    | (exported) k where "k \<in> set ms" "(d, Class_Of n t) \<in> set (module_exports k)"
    by (elim disjE exE) (auto dest!: imported_origin global_origin)
  then show ?thesis
  proof cases
    case own
    then show ?thesis using assms(2) by (auto simp: classes_of_def injectables_def)
  next
    case exported
    then show ?thesis using exported_class [of d n t k] assms(3) by (auto simp: classes_of_def injectables_def)
  qed
qed

lemma those_all: "\<forall>x \<in> set xs. f x \<noteq> None \<Longrightarrow> those (map f xs) = Some (map (the \<circ> f) xs)"
  by (induction xs) (auto split: option.split)

section \<open>Layers\<close>

text \<open>
  The classes and modules of the four processes in layers: each asks only for what libraries give and for what lies in
  layers before its own.
\<close>

definition class_layers :: "string list list" where
  "class_layers = [
      [''DISCORD_CLIENT'', ''CryptoService'', ''DiscordApiBaseService'', ''DiscordWebhookService'',
       ''FeatureGuard'', ''PermissionsGuard'', ''RpcService'', ''SuspendNotificationHandler'',
       ''REDIS_CHANNEL_CLIENT'', ''REDIS_CLIENT'', ''RolesMapper'', ''JwtAccessGuard'', ''TwitchAppMapper'',
       ''TwitchApiMapper'', ''TwitchSubscriptionMapper'', ''DiscordAuthMapper'', ''JwtService'',
       ''PasswordService'', ''JwtRefreshGuard'', ''DiscordPayloadService'', ''NotificationsService'',
       ''UsersMapper'', ''StreamersMapper'', ''PendingDestinationStore'', ''QUEUE_CHANNEL''],
      [''AddDestinationAutocompleteHandler'', ''AddDestinationButtonHandler'', ''AddDestinationCommand'',
       ''AddDestinationModalHandler'', ''AuthMapper'', ''AuthorizeCommand'', ''DiscordAuthService'',
       ''DiscordExplorer'', ''DiscordGuildMapper'', ''GetGuildMemberHandler'', ''GetGuildRolesHandler'',
       ''ProfileCommand'', ''QueueService'', ''RedisService'', ''RolesService'', ''SendNotificationHandler'',
       ''TwitchAppsRepository'', ''UsersService''],
      [''AuthenticateHandler'', ''ChannelSyncService'', ''DiscordBotService'', ''DiscordTokenService'',
       ''GetProfileHandler'', ''GuildSyncService'', ''JwtAccessStrategy'', ''MeService'', ''RolesController'',
       ''StatisticsService'', ''StreamOnlineHandler'', ''TwitchApiService'', ''TwitchAppTokenManager'',
       ''TwitchDedupService'', ''TwitchReceiverService'', ''TwitchSecretCacheService'', ''TwitchUserAuthService'',
       ''UsersController''],
      [''DiscordApiService'', ''DiscordGuard'', ''GetGuildChannelsHandler'', ''GetGuildIdsHandler'',
       ''SearchStreamersHandler'', ''StatisticsController'', ''StreamersService'', ''TwitchAppAuthService'',
       ''TwitchGamesService'', ''TwitchRpcController'', ''TwitchSecretService'', ''TwitchUserTokenService''],
      [''DiscordGuildAccessService'', ''StreamersController'', ''TwitchAppService'', ''TwitchAuthInterceptor'',
       ''TwitchController'', ''TwitchReceiverController''],
      [''DiscordGuildService'', ''ListDestinationsHandler'', ''NotificationLogsService'', ''TwitchAppController'',
       ''TwitchModule'', ''TwitchSubscriptionService'', ''TwitchSubscriptionsCronService''],
      [''AdminService'', ''AuthService'', ''DiscordController'', ''NotificationLogsController'',
       ''StreamerEventsService'', ''TwitchNotificationsService'', ''TwitchUserTokenRefreshCronService''],
      [''AddDestinationHandler'', ''AdminController'', ''AuthController'', ''DiscordNotificationsController'',
       ''JwtRefreshStrategy'', ''RemoveDestinationHandler'', ''StreamerInternalEventsController'']]"

definition module_layers :: "string list list" where
  "module_layers = [
      [''AppConfigModule'', ''DatabaseModule'', ''RedisModule'', ''CryptoModule'', ''QueueModule'', ''RpcModule'',
       ''RolesModule'', ''TwitchModule'', ''DiscordModule'', ''NotificationPayloadModule'', ''UsersModule'',
       ''TwitchReceiverModule'', ''AccountModule''],
      [''TwitchSubscriptionsModule'', ''NotificationLogsModule'', ''StreamersModule'', ''WebhookReceiverModule'',
       ''NotificationWorkerModule''],
      [''AuthModule'', ''NotificationsModule'', ''AdminModule'', ''TwitchEventsModule'', ''StatisticsModule''],
      [''DiscordHandlerModule'', ''DiscordBotModule''],
      [''ApiModule'']]"

fun layer_in :: "nat \<Rightarrow> string list list \<Rightarrow> string \<Rightarrow> nat" where
  "layer_in n [] x = 0"
| "layer_in n (l # ls) x = (if listed x l then n else layer_in (Suc n) ls x)"

definition class_layer :: "string \<Rightarrow> nat" where
  "class_layer x = layer_in 1 class_layers x"

definition module_layer :: "string \<Rightarrow> nat" where
  "module_layer x = layer_in 1 module_layers x"

definition layered :: "module_decl \<Rightarrow> bool" where
  "layered m \<longleftrightarrow>
     list_all (\<lambda>c. let k = class_layer (fst c) in list_all (\<lambda>d. class_layer d < k) (snd c)) (injectables m) \<and>
     list_all (\<lambda>n. module_layer n < module_layer (mo_name m)) (imported_names (mo_imports m))"

lemma layered_first: "list_all layered (take 6 api_modules)"
  by code_simp

lemma layered_second: "list_all layered (take 6 (drop 6 api_modules))"
  by code_simp

lemma layered_third: "list_all layered (drop 12 api_modules)"
  by code_simp

lemma layered_others: "list_all layered receiver_modules" "list_all layered worker_modules" "list_all layered bot_modules"
  by code_simp+

lemma layered_api: "list_all layered api_modules"
  using layered_first layered_second layered_third
  by (metis append_take_drop_id list_all_append drop_drop numeral_Bit0 add.commute)

lemma builds_layers:
  assumes "process_builds ms" and "list_all layered ms"
  shows "ranked (class_needs ms) (class_layer \<circ> snd) (set (classes_of ms))"
    and "ranked (module_needs ms) (module_layer \<circ> mo_name) (set ms)"
proof -
  have own: "\<forall>m \<in> set ms. exports_own m"
    using assms(1) by (auto simp: process_builds_def list_all_iff builds_def Let_def exports_own_def listed_iff)
  have lay: "layered m" if "m \<in> set ms" for m using assms(2) that by (simp add: list_all_iff)
  show "ranked (class_needs ms) (class_layer \<circ> snd) (set (classes_of ms))"
    unfolding ranked_def
  proof
    fix x assume "x \<in> set (classes_of ms)"
    then obtain m c where x: "x = (m, c)" "m \<in> set ms" "c \<in> fst ` set (injectables m)" by (auto simp: classes_of_def)
    then obtain ds where ds: "map_of (injectables m) c = Some ds" by (metis map_of_eq_None_iff option.exhaust)
    then have c: "(c, ds) \<in> set (injectables m)" by (rule map_of_SomeD)
    then have "(c, ds) \<in> set (mo_providers m @ mo_controllers m @ mo_guards m)" by (auto simp: injectables_def)
    from built [OF assms(1) x(2) this] have "set ds \<subseteq> fst ` set (origins ms m)" using origin_names [of ms m] by (metis list.set_map snd_conv)
    then have some: "map_of (origins ms m) d \<noteq> None" if "d \<in> set ds" for d using that by (auto simp: map_of_eq_None_iff)
    let ?os = "map (the \<circ> map_of (origins ms m)) ds"
    have n: "class_needs ms x = Some (List.map_filter class_part ?os)"
      using those_all [of ds "map_of (origins ms m)"] some by (simp add: class_needs_def x(1) ds)
    have "d \<in> set (classes_of ms) \<and> class_layer (snd d) < class_layer c" if d: "d \<in> set (List.map_filter class_part ?os)" for d
    proof -
      from d obtain e where e: "e \<in> set ds" "class_part (the (map_of (origins ms m) e)) = Some d"
        by (auto simp: List.map_filter_def split: option.splits)
      then obtain n t where "map_of (origins ms m) e = Some (Class_Of n t)" "d = (n, t)"
        using some [OF e(1)] by (cases "the (map_of (origins ms m) e)") auto
      then have "t = e" "d \<in> set (classes_of ms)" using origin_class [OF map_of_SomeD x(2) own] by simp_all
      moreover have "class_layer e < class_layer c"
        using lay [OF x(2)] c e(1) by (auto simp: layered_def list_all_iff Let_def)
      ultimately show ?thesis using \<open>d = (n, t)\<close> by simp
    qed
    then show "\<exists>ds. class_needs ms x = Some ds \<and>
        (\<forall>d \<in> set ds. d \<in> set (classes_of ms) \<and> (class_layer \<circ> snd) d < (class_layer \<circ> snd) x)"
      using n x(1) by (intro exI [of _ "List.map_filter class_part ?os"]) simp
  qed
  show "ranked (module_needs ms) (module_layer \<circ> mo_name) (set ms)"
    unfolding ranked_def
  proof
    fix m assume m: "m \<in> set ms"
    let ?f = "\<lambda>n. find (\<lambda>k. mo_name k = n) ms"
    let ?ns = "imported_names (mo_imports m)"
    have found: "\<exists>k. ?f n = Some k \<and> k \<in> set ms \<and> mo_name k = n" if "n \<in> set ?ns" for n
    proof -
      have "n \<in> mo_name ` set ms"
        using assms(1) m that by (auto simp: process_builds_def closed_under_imports_def list_all_iff)
      then have "?f n \<noteq> None" by (auto simp: find_None_iff)
      then show ?thesis using find_in [of "\<lambda>k. mo_name k = n" ms] by auto
    qed
    then have "module_needs ms m = Some (map (the \<circ> ?f) ?ns)"
      unfolding module_needs_def by (intro those_all) force
    moreover have "the (?f n) \<in> set ms \<and> module_layer (mo_name (the (?f n))) < module_layer (mo_name m)" if "n \<in> set ?ns" for n
      using found [OF that] lay [OF m] that by (auto simp: layered_def list_all_iff)
    ultimately show "\<exists>ds. module_needs ms m = Some ds \<and>
        (\<forall>d \<in> set ds. d \<in> set ms \<and> (module_layer \<circ> mo_name) d < (module_layer \<circ> mo_name) m)"
      by (intro exI [of _ "map (the \<circ> ?f) ?ns"]) auto
  qed
qed

text \<open>
  C37. Each of the four processes can be built: there is an order of its modules, each after those it imports, and an
  order of all its providers, controllers and guards, each after everything it asks for, which is found among what its
  module provides, what imported modules export and what is global. So nothing is missing and no two classes
  or modules wait for each other.
\<close>

theorem processes_can_be_built:
  assumes "ms \<in> {api_modules, receiver_modules, worker_modules, bot_modules}"
  shows "(\<exists>order. built_in_order (module_needs ms) order \<and> set order = set ms) \<and>
    (\<exists>order. built_in_order (class_needs ms) order \<and> set order = set (classes_of ms))"
proof -
  have "process_builds ms \<and> list_all layered ms" using assms api_builds others_build layered_api layered_others by auto
  then show ?thesis using builds_layers [of ms] by (blast intro: ranked_is_built)
qed

text \<open>Two services that ask for each other are in no order: the theorem would fail for them.\<close>

lemma circular_classes_not_built:
  assumes "class_needs ms a = Some (b # bs)" and "class_needs ms b = Some (a # as)" and "built_in_order (class_needs ms) order"
  shows "a \<notin> set order"
proof
  have "(a, b) \<in> needed_by (class_needs ms)" "(b, a) \<in> needed_by (class_needs ms)"
    using assms(1,2) by (auto simp: needed_by_def)
  then have "(a, a) \<in> (needed_by (class_needs ms))\<^sup>+" by (meson trancl.simps)
  then show "a \<in> set order \<Longrightarrow> False" using built_without_cycles [OF assms(3)] by blast
qed

theorem processes_can_be_built_witness:
  "\<exists>order. built_in_order (class_needs api_modules) order \<and> (AuthModule, ''JwtRefreshStrategy'') \<in> set order"
proof -
  have "(AuthModule, ''JwtRefreshStrategy'') \<in> set (classes_of api_modules)"
    by (simp add: classes_of_def api_modules_def injectables_def AuthModule_def constructor_JwtRefreshStrategy_def)
  then show ?thesis using processes_can_be_built [of api_modules] by auto
qed

end
