(* ===== verification/Cipher.thy ===== *)
theory Cipher imports Crypto begin

text \<open>
  The layout of an encrypted value (\<open>libs/shared/src/modules/crypto/services/crypto.service.ts\<close>): nonce,
  authentication tag and ciphertext, packed in base64. A character stands for a byte; \<open>Buffer\<close> is
  modelled with its base64, written with padding and read leniently. The primitives of Node's \<open>crypto\<close> are a
  parameter. The last theorem makes the two functions that the other theories take for the cipher out of
  these and shows that they fit together as those theories assume.
\<close>

section \<open>Bits\<close>

fun bits :: "nat \<Rightarrow> nat \<Rightarrow> bool list" where
  "bits 0 v = []"
| "bits (Suc n) v = bits n (v div 2) @ [odd v]"

definition number :: "bool list \<Rightarrow> nat" where
  "number bs = foldl (\<lambda>v b. 2 * v + of_bool b) 0 bs"

lemma length_bits [simp]: "length (bits n v) = n"
  by (induction n arbitrary: v) simp_all

lemma number_bits: "v < 2 ^ n \<Longrightarrow> number (bits n v) = v"
proof (induction n arbitrary: v)
  case (Suc n)
  then have "number (bits n (v div 2)) = v div 2" by simp
  then show ?case by (simp add: number_def)
qed (simp add: number_def)

lemma number_less: "number bs < 2 ^ length bs"
  by (induction bs rule: rev_induct) (auto simp: number_def)

lemma bits_number: "length bs = n \<Longrightarrow> bits n (number bs) = bs"
proof (induction bs arbitrary: n rule: rev_induct)
  case (snoc b bs)
  then show ?case by (auto simp: number_def)
qed simp

function pieces :: "nat \<Rightarrow> 'a list \<Rightarrow> 'a list list" where
  "pieces n xs = (if n = 0 \<or> xs = [] then [] else take n xs # pieces n (drop n xs))"
  by pat_completeness auto
termination by (relation "measure (\<lambda>(n, xs). length xs)") auto

declare pieces.simps [simp del]

lemma concat_pieces: "0 < n \<Longrightarrow> concat (pieces n xs) = xs"
  by (induction n xs rule: pieces.induct) (subst pieces.simps, auto)

lemma pieces_append:
  "0 < n \<Longrightarrow> length xs = n \<Longrightarrow> pieces n (xs @ ys) = xs # pieces n ys"
  by (subst pieces.simps) auto

lemma pieces_concat:
  assumes "0 < n" and "\<And>x. x \<in> set xss \<Longrightarrow> length x = n" and "length r < n"
  shows "pieces n (concat xss @ r) = xss @ (if r = [] then [] else [r])"
  using assms(2)
proof (induction xss)
  case Nil
  show ?case using assms(1,3) by (simp add: pieces.simps [of n r] pieces.simps [of n "[]"])
next
  case (Cons x xss)
  then show ?case using pieces_append [OF assms(1), of x "concat xss @ r"] by simp
qed

lemma pieces_length:
  "0 < n \<Longrightarrow> n dvd length xs \<Longrightarrow> x \<in> set (pieces n xs) \<Longrightarrow> length x = n"
proof (induction n xs rule: pieces.induct)
  case (1 n xs)
  then show ?case
    by (cases "xs = []") (auto simp: pieces.simps [of n xs] pieces.simps [of n "[]"] dest: dvd_imp_le intro!: dvd_diff_nat)
qed

section \<open>Base64\<close>

definition base64_alphabet :: string where
  "base64_alphabet = ''ABCDEFGHIJKLMNOPQRSTUVWXYZabcdefghijklmnopqrstuvwxyz0123456789+/''"

fun position :: "'a \<Rightarrow> 'a list \<Rightarrow> nat option" where
  "position x [] = None"
| "position x (y # ys) = (if x = y then Some 0 else map_option Suc (position x ys))"

text \<open>Reading takes the two characters of the URL alphabet as well, skips what is no digit, and ends at
  the padding.\<close>

definition base64_digit :: "char \<Rightarrow> nat option" where
  "base64_digit c =
     (if c = CHR ''-'' then Some 62 else if c = CHR ''_'' then Some 63 else position c base64_alphabet)"

definition byte_bits :: "string \<Rightarrow> bool list" where
  "byte_bits s = concat (map (\<lambda>c. bits 8 (of_char c)) s)"

definition padded :: "bool list \<Rightarrow> bool list" where
  "padded bs = bs @ replicate ((6 - length bs mod 6) mod 6) False"

definition base64 :: "string \<Rightarrow> string" where
  "base64 s =
     (let ds = map (\<lambda>p. base64_alphabet ! number p) (pieces 6 (padded (byte_bits s)))
      in ds @ replicate ((4 - length ds mod 4) mod 4) (CHR ''=''))"

definition from_base64 :: "string \<Rightarrow> string" where
  "from_base64 s =
     (let ds = List.map_filter base64_digit (takeWhile (\<lambda>c. c \<noteq> CHR ''='') s)
      in map (\<lambda>p. char_of (number p)) (filter (\<lambda>p. length p = 8) (pieces 8 (concat (map (bits 6) ds)))))"

lemma position_nth: "distinct xs \<Longrightarrow> n < length xs \<Longrightarrow> position (xs ! n) xs = Some n"
  by (induction xs arbitrary: n) (auto simp: nth_Cons split: nat.split)

lemma alphabet:
  "length base64_alphabet = 64" "distinct base64_alphabet" "set base64_alphabet \<inter> {CHR ''-'', CHR ''_'', CHR ''=''} = {}"
  by (simp_all add: base64_alphabet_def)

lemma alphabet_nth:
  assumes "n < 64"
  shows "base64_digit (base64_alphabet ! n) = Some n" and "base64_alphabet ! n \<noteq> CHR ''=''"
proof -
  have "base64_alphabet ! n \<in> set base64_alphabet" using assms alphabet(1) by simp
  then have "base64_alphabet ! n \<notin> {CHR ''-'', CHR ''_'', CHR ''=''}" using alphabet(3) by blast
  then show "base64_digit (base64_alphabet ! n) = Some n" and "base64_alphabet ! n \<noteq> CHR ''=''"
    using position_nth [OF alphabet(2)] assms alphabet(1) by (simp_all add: base64_digit_def)
qed

lemma padded_length: "6 dvd length (padded bs)"
proof (cases "length bs mod 6 = 0")
  case False
  have "length bs mod 6 < 6" by simp
  with False have "(6 - length bs mod 6) mod 6 = 6 - length bs mod 6" by simp
  moreover have "length bs + (6 - length bs mod 6) = 6 * (length bs div 6) + 6"
    using \<open>length bs mod 6 < 6\<close> mult_div_mod_eq [of 6 "length bs"] by linarith
  ultimately have "length (padded bs) = 6 * (length bs div 6 + 1)" by (simp add: padded_def)
  then show ?thesis by (metis dvd_triv_left)
qed (auto simp: padded_def)

lemma digits_back:
  assumes "\<And>p. p \<in> set ps \<Longrightarrow> length p = 6"
  shows "takeWhile (\<lambda>c. c \<noteq> CHR ''='') (map (\<lambda>p. base64_alphabet ! number p) ps @ replicate k (CHR ''='')) =
      map (\<lambda>p. base64_alphabet ! number p) ps"
    and "concat (map (bits 6) (List.map_filter base64_digit (map (\<lambda>p. base64_alphabet ! number p) ps))) = concat ps"
proof -
  have less: "number p < 64" if "p \<in> set ps" for p
    using number_less [of p] assms [OF that] by simp
  show "takeWhile (\<lambda>c. c \<noteq> CHR ''='') (map (\<lambda>p. base64_alphabet ! number p) ps @ replicate k (CHR ''='')) =
      map (\<lambda>p. base64_alphabet ! number p) ps"
    by (subst takeWhile_append2) (use less alphabet_nth(2) in \<open>auto simp: takeWhile_eq_Nil_iff\<close>)
  have "bits 6 (number p) = p" if "p \<in> set ps" for p
    using bits_number assms [OF that] .
  then show "concat (map (bits 6) (List.map_filter base64_digit (map (\<lambda>p. base64_alphabet ! number p) ps))) = concat ps"
    using less by (induction ps) (simp_all add: List.map_filter_simps alphabet_nth(1))
qed

lemma byte_back: "char_of (number (bits 8 (of_char c))) = c"
  using number_bits [of "of_char c" 8] by simp

theorem from_base64_base64: "from_base64 (base64 s) = s"
proof -
  let ?b = "byte_bits s"
  define ps where "ps = pieces 6 (padded ?b)"
  have six: "length p = 6" if "p \<in> set ps" for p
    using pieces_length [OF _ padded_length] that unfolding ps_def by simp
  define r where "r = replicate ((6 - length ?b mod 6) mod 6) False"
  have c: "concat ps = concat (map (\<lambda>c. bits 8 (of_char c)) s) @ r"
    unfolding ps_def by (simp add: concat_pieces) (simp add: padded_def byte_bits_def r_def)
  have r: "length r < 8" by (simp add: r_def)
  have "pieces 8 (concat (map (\<lambda>c. bits 8 (of_char c)) s) @ r) =
      map (\<lambda>c. bits 8 (of_char c)) s @ (if r = [] then [] else [r])"
    by (rule pieces_concat) (use r in auto)
  then have "filter (\<lambda>p. length p = 8) (pieces 8 (concat ps)) = map (\<lambda>c. bits 8 (of_char c)) s"
    using r by (simp add: c filter_map comp_def)
  moreover have "from_base64 (base64 s) = map (\<lambda>p. char_of (number p)) (filter (\<lambda>p. length p = 8) (pieces 8 (concat ps)))"
    by (simp only: base64_def from_base64_def Let_def ps_def [symmetric] digits_back [OF six])
  ultimately show ?thesis by (simp add: byte_back comp_def)
qed

section \<open>Sealed values\<close>

text \<open>
  The primitives: authenticated encryption of a text under a key and a nonce gives a ciphertext and a tag;
  decryption is \<open>None\<close> when it throws; the key derivation; random bytes, by the number of the request.
\<close>

record primitives =
  p_encrypt :: "string \<Rightarrow> string \<Rightarrow> string \<Rightarrow> string \<times> string"
  p_decrypt :: "string \<Rightarrow> string \<Rightarrow> string \<Rightarrow> string \<Rightarrow> string option"
  p_scrypt :: "string \<Rightarrow> string \<Rightarrow> nat \<Rightarrow> string"
  p_random :: "nat \<Rightarrow> nat \<Rightarrow> string"

text \<open>Their documented behaviour: decryption with the tag of the encryption gives the text back, a tag has
  sixteen bytes, and there are as many random bytes as were asked for.\<close>

definition primitives_ok :: "primitives \<Rightarrow> bool" where
  "primitives_ok P \<longleftrightarrow>
     (\<forall>k iv t. case p_encrypt P k iv t of (c, tag) \<Rightarrow> p_decrypt P k iv tag c = Some t \<and> length tag = 16) \<and>
     (\<forall>n l. length (p_random P n l) = l)"

(* libs/shared/src/modules/crypto/services/crypto.service.ts 7-8 IV_LENGTH, TAG_LENGTH *)
definition iv_length :: nat where
  "iv_length = 16"

definition tag_length :: nat where
  "tag_length = 16"

(* libs/shared/src/modules/crypto/services/crypto.service.ts 16-20 CryptoService.constructor *)
definition service_key :: "primitives \<Rightarrow> string \<Rightarrow> string \<Rightarrow> string" where
  "service_key P secret salt = p_scrypt P secret salt 32"

(* libs/shared/src/modules/crypto/services/crypto.service.ts 30-40 CryptoService.encrypt, the value *)
definition sealed :: "primitives \<Rightarrow> string \<Rightarrow> nat \<Rightarrow> string \<Rightarrow> string" where
  "sealed P key n plaintext =
     (let iv = p_random P n iv_length; (encrypted, tag) = p_encrypt P key iv plaintext
      in base64 (iv @ tag @ encrypted))"

(* libs/shared/src/modules/crypto/services/crypto.service.ts 48-60 CryptoService.decrypt, the value *)
definition opened :: "primitives \<Rightarrow> string \<Rightarrow> string \<Rightarrow> string option" where
  "opened P key value =
     (let buffer = from_base64 value;
          iv = take iv_length buffer;
          tag = take tag_length (drop iv_length buffer);
          encrypted = drop (iv_length + tag_length) buffer
      in p_decrypt P key iv tag encrypted)"

lemma opened_sealed:
  assumes "primitives_ok P"
  shows "opened P key (sealed P key n t) = Some t"
proof -
  obtain c tag where e: "p_encrypt P key (p_random P n iv_length) t = (c, tag)" by force
  then have "length tag = tag_length" "p_decrypt P key (p_random P n iv_length) tag c = Some t"
    and "length (p_random P n iv_length) = iv_length"
    using assms unfolding primitives_ok_def tag_length_def by (auto split: prod.splits)
  then show ?thesis by (simp add: opened_def sealed_def e from_base64_base64)
qed

text \<open>The outside of the other theories, with this cipher under the key of the service.\<close>

definition with_cipher :: "primitives \<Rightarrow> string \<Rightarrow> string \<Rightarrow> env \<Rightarrow> env" where
  "with_cipher P secret salt E =
     E\<lparr>x_seal := sealed P (service_key P secret salt), x_open := opened P (service_key P secret salt)\<rparr>"

lemma with_cipher_ok: "primitives_ok P \<Longrightarrow> cipher_ok (with_cipher P secret salt E)"
  by (simp add: cipher_ok_def with_cipher_def opened_sealed)

text \<open>
  C30. A secret of any content that is not marked as encrypted, stored through the service and read through a
  service with the same settings, at whatever later time, is the secret again; what is stored is marked, so
  that storing it once more changes nothing, and holds the nonce, the tag and as many bytes as the cipher
  made of the secret.
\<close>

theorem stored_secret_round_trip:
  assumes "primitives_ok P" and "\<not> isEncrypted t"
  shows "\<exists>c w'. encrypt (with_cipher P secret salt E) t False w = (Inr c, w') \<and> isEncrypted c \<and>
    decrypt (with_cipher P secret salt E) c False v = (Inr t, v) \<and>
    encrypt (with_cipher P secret salt E) c False v = (Inr c, v) \<and>
    length (from_base64 (drop (length encrypted_prefix) c)) =
      32 + length (fst (p_encrypt P (service_key P secret salt) (p_random P (w_ids w) iv_length) t))"
proof -
  let ?c = "encrypted_prefix @ sealed P (service_key P secret salt) (w_ids w) t"
  let ?e = "p_encrypt P (service_key P secret salt) (p_random P (w_ids w) iv_length) t"
  have m: "isEncrypted ?c" by (simp add: isEncrypted_def)
  have e: "encrypt (with_cipher P secret salt E) t False w = (Inr ?c, w\<lparr>w_ids := Suc (w_ids w)\<rparr>)"
    using assms(2) by (simp add: encrypt_result with_cipher_def)
  have d: "decrypt (with_cipher P secret salt E) ?c False v = (Inr t, v)"
    by (simp add: decrypt_def isEncrypted_def with_cipher_def opened_sealed [OF assms(1)] exec)
  have i: "encrypt (with_cipher P secret salt E) ?c False v = (Inr ?c, v)"
    using m by (simp add: encrypt_result)
  have "length (snd ?e) = 16" "length (p_random P (w_ids w) iv_length) = 16"
    using assms(1) by (simp_all add: primitives_ok_def iv_length_def case_prod_unfold)
  then have "length (from_base64 (drop (length encrypted_prefix) ?c)) = 32 + length (fst ?e)"
    by (simp add: sealed_def Let_def from_base64_base64 case_prod_unfold)
  with e m d i show ?thesis by blast
qed

section \<open>The theorem at a concrete cipher\<close>

definition toy_primitives :: primitives where
  "toy_primitives = \<lparr>p_encrypt = (\<lambda>k iv t. (rev t, replicate 16 CHR ''t'')),
     p_decrypt = (\<lambda>k iv tag c. if tag = replicate 16 CHR ''t'' then Some (rev c) else None),
     p_scrypt = (\<lambda>secret salt n. replicate n CHR ''k''), p_random = (\<lambda>n l. replicate l CHR ''r'')\<rparr>"

theorem stored_secret_round_trip_witness:
  "\<exists>c w'. encrypt (with_cipher toy_primitives ''s'' ''t'' sample_env) ''secret'' False sample_world = (Inr c, w') \<and>
     decrypt (with_cipher toy_primitives ''s'' ''t'' sample_env) c False sample_world = (Inr ''secret'', sample_world)"
proof -
  have "primitives_ok toy_primitives" by (simp add: primitives_ok_def toy_primitives_def)
  moreover have "\<not> isEncrypted ''secret''" by (simp add: isEncrypted_def encrypted_prefix_def)
  ultimately show ?thesis
    using stored_secret_round_trip [of toy_primitives "''secret''" "''s''" "''t''" sample_env sample_world sample_world]
    by blast
qed

end
