(* ===== verification/Replies.thy ===== *)
theory Replies imports Administration BotDelivery begin

text \<open>
  How an answer leaves the API and how it reaches a caller: the interceptors and filters that \<open>main.ts\<close>
  sets, in the order in which Nest runs them, with those of \<open>libs/rpc\<close>; and a remote call with its
  timeout (\<open>RpcService.call\<close>). Nest gives the global interceptors and filters to the HTTP side of a hybrid
  application alone, since the microservices are connected without \<open>inheritAppConfig\<close>; among filters
  that catch everything it asks the one that was registered last.
\<close>

section \<open>Interceptors and filters\<close>

datatype host = Http | Remote

text \<open>Both interceptors make \<open>{ status: true, data }\<close> of what comes from the next one.\<close>

datatype 'a body = Plain 'a | Enveloped "'a body"

(* libs/rpc/src/rpc-response.interceptor.ts 6-14 RpcResponseInterceptor.intercept *)
definition rpcResponseInterceptor :: "host \<Rightarrow> 'a body act \<Rightarrow> 'a body act" where
  "rpcResponseInterceptor h next =
     (if h \<noteq> Remote then next else andThen next (\<lambda>data. ret (Enveloped data)))"

(* apps/api/src/shared/interceptors/response.interceptor.ts 12-19 ResponseInterceptor.intercept *)
definition responseInterceptor :: "host \<Rightarrow> 'a body act \<Rightarrow> 'a body act" where
  "responseInterceptor h next = andThen next (\<lambda>data. ret (Enveloped data))"

text \<open>A filter writes a response, gives a remote caller a result, or throws on.\<close>

datatype 'a filtering = Responds "'a response" | Results "'a call_result" | Rethrows exc

(* libs/rpc/src/rpc-exception.filter.ts 7-26 RpcExceptionFilter.catch *)
definition rpcExceptionFilter :: "host \<Rightarrow> exc \<Rightarrow> 'a filtering" where
  "rpcExceptionFilter h e =
     (if h \<noteq> Remote then Rethrows e
      else (case e of
          RpcExc code m d \<Rightarrow> Results \<lparr>cr_status = False, cr_data = None, cr_rpcError = Some code, cr_message = Some m,
            cr_errorData = d\<rparr>
        | _ \<Rightarrow> Results \<lparr>cr_status = False, cr_data = None, cr_rpcError = Some (rpc_error_text INTERNAL_ERROR),
            cr_message = None, cr_errorData = None\<rparr>))"

definition allExceptionsFilter :: "host \<Rightarrow> exc \<Rightarrow> 'a filtering" where
  "allExceptionsFilter h e = Responds (filtered e)"

(* apps/api/src/main.ts 69-72 bootstrap, the interceptors *)
definition api_interceptors :: "(host \<Rightarrow> 'a body act \<Rightarrow> 'a body act) list" where
  "api_interceptors = [rpcResponseInterceptor, responseInterceptor]"

(* apps/api/src/main.ts 73-76 bootstrap, the filters *)
definition api_filters :: "(host \<Rightarrow> exc \<Rightarrow> 'a filtering) list" where
  "api_filters = [rpcExceptionFilter, allExceptionsFilter]"

text \<open>The first interceptor is the outermost one.\<close>

definition intercepted :: "(host \<Rightarrow> 'a body act \<Rightarrow> 'a body act) list \<Rightarrow> host \<Rightarrow> 'a act \<Rightarrow> 'a body act" where
  "intercepted is h m = foldr (\<lambda>i next. i h next) is (andThen m (\<lambda>x. ret (Plain x)))"

definition asked_filter :: "(host \<Rightarrow> exc \<Rightarrow> 'a filtering) list \<Rightarrow> host \<Rightarrow> exc \<Rightarrow> 'a filtering" where
  "asked_filter fs = last fs"

text \<open>The response to a request whose handler has the status \<open>code\<close> on success: none where a
  filter throws on or the body is not one envelope around the value.\<close>

definition http_exchange :: "nat \<Rightarrow> 'a act \<Rightarrow> world \<Rightarrow> 'a response option \<times> world" where
  "http_exchange code m w =
     (case intercepted api_interceptors Http m w of
        (Inr (Enveloped (Plain x)), w') \<Rightarrow> (Some (response_of code x), w')
      | (Inr _, w') \<Rightarrow> (None, w')
      | (Inl e, w') \<Rightarrow> ((case asked_filter api_filters Http e of Responds r \<Rightarrow> Some r | _ \<Rightarrow> None), w'))"

text \<open>
  What \<open>main.ts\<close> puts around the handlers is exactly the envelope: every request gets a response, a value
  is wrapped once, an exception is answered by the filter of the API, and the state is the handler's. The
  interceptor and the filter for remote calls have no part in it.
\<close>

theorem pipeline_is_envelope:
  "\<exists>r. http_exchange code m w = (Some r, snd (m w)) \<and> answered code m w = (Inr r, snd (m w))"
  by (simp add: http_exchange_def intercepted_def api_interceptors_def rpcResponseInterceptor_def
      responseInterceptor_def asked_filter_def api_filters_def allExceptionsFilter_def answered_def exec
      split: prod.split sum.split)

text \<open>With the other order of the filters no exception would be answered at all.\<close>

lemma swapped_filters_rethrow:
  "asked_filter [allExceptionsFilter, rpcExceptionFilter] Http e = Rethrows e"
  by (simp add: asked_filter_def rpcExceptionFilter_def)

text \<open>
  Had the microservices inherited the configuration, a remote caller would get its value in two envelopes,
  to which \<open>callSafe\<close> adds a third, and a filtered error as the data of a success.
\<close>

lemma inherited_interceptors_nest:
  "m w = (Inr x, w') \<Longrightarrow> intercepted api_interceptors Remote m w = (Inr (Enveloped (Enveloped (Plain x))), w')"
  by (simp add: intercepted_def api_interceptors_def rpcResponseInterceptor_def responseInterceptor_def exec)

section \<open>Calls that take time\<close>

text \<open>A call is rejected with the error object of the handler or, once the time is up, with the
  \<open>TimeoutError\<close> of RxJS, which has a message and neither status nor code. The handler does not learn
  of that and goes on.\<close>

datatype rejection = Handler_Error exc | Timed_Out

definition default_timeout :: nat where
  "default_timeout = 8000"

(* libs/rpc/src/rpc.service.ts 18-29 RpcService.call *)
definition rpc_call :: "nat \<Rightarrow> nat \<Rightarrow> 'r act \<Rightarrow> world \<Rightarrow> (rejection + 'r) \<times> world" where
  "rpc_call timeoutMs took handler w =
     (case handler w of
        (r, w') \<Rightarrow>
          (if took < timeoutMs then (case r of Inl e \<Rightarrow> Inl (Handler_Error e) | Inr x \<Rightarrow> Inr x) else Inl Timed_Out, w'))"

fun rejected :: "rejection \<Rightarrow> 'r call_result" where
  "rejected (Handler_Error e) = error_reply e"
| "rejected Timed_Out = \<lparr>cr_status = False, cr_data = None, cr_rpcError = None, cr_message = Some ''Timeout has occurred'',
     cr_errorData = None\<rparr>"

(* libs/rpc/src/rpc.service.ts 31-46 RpcService.callSafe *)
definition timed_callSafe :: "nat \<Rightarrow> nat \<Rightarrow> 'r act \<Rightarrow> 'r call_result act" where
  "timed_callSafe timeoutMs took handler w =
     (case rpc_call timeoutMs took handler w of
        (Inl j, w') \<Rightarrow> (Inr (rejected j), w')
      | (Inr x, w') \<Rightarrow> (Inr \<lparr>cr_status = True, cr_data = Some x, cr_rpcError = None, cr_message = None, cr_errorData = None\<rparr>, w'))"

lemma call_in_time: "took < timeoutMs \<Longrightarrow> timed_callSafe timeoutMs took m = callSafe m"
  by (rule ext) (simp add: timed_callSafe_def rpc_call_def exec split: prod.split sum.split)

lemma call_too_late: "timeoutMs \<le> took \<Longrightarrow> timed_callSafe timeoutMs took m w = (Inr (rejected Timed_Out), snd (m w))"
  by (simp add: timed_callSafe_def rpc_call_def split: prod.split)

lemma added_destination_ledger:
  assumes "handleAddDestination E d w = (Inr a, w')" and "discord_account (ad_discordId d) w = Some u"
    and "accounts_unique w" and "new_guild_ids E w"
  shows "purchase Personal (u_id u) (ad_discordGuildId d) (ledger w) = Some (ledger w')"
proof -
  let ?dto = "\<lparr>cd_broadcasterId = ad_broadcasterId d, cd_event = (case ad_eventType d of None \<Rightarrow> STREAM_ONLINE | Some e \<Rightarrow> e),
    cd_costType = Personal, cd_payload = ad_payload d, cd_guildId = ad_discordGuildId d, cd_channelId = ad_channelId d,
    cd_gameFilters = None\<rparr>"
  obtain n where "createDiscordNotification E ?dto (u_id u) w = (Inr n, w')"
    using assms(1,2) by (auto simp: handleAddDestination_def registered_def Let_def exec split: prod.splits sum.splits)
  then show ?thesis
    using creation_implements [of E ?dto "u_id u", unfolded implements_def books_open_def, rule_format, of w "Inr n" w']
      assms(3,4) by simp
qed

text \<open>
  C23. A late answer costs the user a credit: when the API needs longer than the timeout to add a notification,
  the bot reports an internal error and forgets the draft, while the API has added the notification and
  the user has paid for it.
\<close>

theorem late_answer_charges:
  assumes "pending_get (w_now w) (after_last customId) st = Some p" and "pe_userId p = ix_userId i"
    and "handleAddDestination E (destination_request i p) w = (Inr a, w')"
    and "discord_account (ix_userId i) w = Some u" and "accounts_unique w" and "new_guild_ids E w"
    and "default_timeout \<le> took"
  shows "acceptDestination (timed_callSafe default_timeout took) E i customId (w, st) =
      (Inr (ErrorEmbed \<lparr>ev_title = ''Internal error'', ev_description = ''Timeout has occurred'', ev_connect = None\<rparr>),
       w', pending_delete (after_last customId) st) \<and>
    purchase Personal (u_id u) (pe_discordGuildId p) (ledger w) = Some (ledger w')"
proof -
  have "purchase Personal (u_id u) (ad_discordGuildId (destination_request i p)) (ledger w) = Some (ledger w')"
    using assms(4) by (intro added_destination_ledger [OF assms(3) _ assms(5,6)]) (simp add: destination_request_def)
  moreover have "timed_callSafe default_timeout took (handleAddDestination E (destination_request i p)) w =
      (Inr (rejected Timed_Out), w')"
    by (simp add: call_too_late [OF assms(7)] assms(3))
  ultimately show ?thesis
    using assms(1,2)
    by (simp add: acceptDestination_def Let_def find_draft_def own_draft_def exec buildRpcErrorReply_def
        fallback_embed_def destination_request_def rpc_error_text.simps)
qed

section \<open>The theorem at a concrete draft\<close>

definition pending_hello :: pending where
  "pending_hello = pending_blank\<lparr>pe_draft := blank_draft\<lparr>df_content := ''Hi''\<rparr>\<rparr>"

lemma hello_payload: "buildMessagePayload (blank_draft\<lparr>df_content := ''Hi''\<rparr>) identity = JObj [(''content'', JStr ''Hi'')]"
  by (simp add: buildMessagePayload_def identity_def field_if_def blank_draft_def js_trim_simps)

lemma hello_added:
  "\<exists>a w'. handleAddDestination sample_env (destination_request clicking pending_hello) linked_world = (Inr a, w')"
proof -
  have "event_of_broadcaster ''b'' STREAM_ONLINE linked_world = Some sample_event"
    by (simp add: event_of_broadcaster_def linked_world_def sample_streamer_def sample_event_def)
  then show ?thesis
    by (simp add: handleAddDestination_def destination_request_def registered_def Let_def exec pending_hello_def
        hello_payload pending_blank_def clicking_def discord_account_def createDiscordNotification_def assertCanCreate_def
        publicStreamerEvents_def assertCanAfford_def resolveCost_def price_standard_def row_of_def getOrCreateEvent_def
        validateBotPayload_def content_payload applyCharge_def charge_user_def getOrCreateGuild_def guild_row_def
        insert_discord_def linked_world_def sample_user_def)
qed

theorem late_answer_charges_witness:
  "\<exists>w'. acceptDestination (timed_callSafe default_timeout 9000) sample_env clicking ''add-destination:accept:T''
      (linked_world, pending_create 1000 ''T'' pending_hello Map.empty) =
      (Inr (ErrorEmbed \<lparr>ev_title = ''Internal error'', ev_description = ''Timeout has occurred'', ev_connect = None\<rparr>),
       w', pending_delete ''T'' (pending_create 1000 ''T'' pending_hello Map.empty)) \<and>
    ledger w' (UserAccount ''u'') = Some 90"
proof -
  let ?st = "pending_create 1000 ''T'' pending_hello Map.empty"
  let ?u = "sample_user\<lparr>u_discordId := Some ''d''\<rparr>"
  obtain a w' where a: "handleAddDestination sample_env (destination_request clicking pending_hello) linked_world = (Inr a, w')"
    using hello_added by blast
  have t: "after_last ''add-destination:accept:T'' = ''T''"
    using after_last_token [of "''T''" "''add-destination:accept''"] by simp
  have p: "pending_get (w_now linked_world) (after_last ''add-destination:accept:T'') ?st = Some pending_hello"
    unfolding t by (rule draft_kept) (simp add: linked_world_def pending_ttl_def)
  have w: "accounts_unique linked_world" "new_guild_ids sample_env linked_world"
    by (simp_all add: accounts_unique_def unique_keys_def new_guild_ids_def linked_world_def)
  have u: "discord_account (ix_userId clicking) linked_world = Some ?u"
    by (simp add: discord_account_def linked_world_def clicking_def)
  have "pe_userId pending_hello = ix_userId clicking" "default_timeout \<le> 9000"
    by (simp_all add: pending_hello_def pending_blank_def clicking_def default_timeout_def)
  from late_answer_charges [OF p this(1) a u w this(2)]
  have r: "acceptDestination (timed_callSafe default_timeout 9000) sample_env clicking ''add-destination:accept:T''
      (linked_world, ?st) =
      (Inr (ErrorEmbed \<lparr>ev_title = ''Internal error'', ev_description = ''Timeout has occurred'', ev_connect = None\<rparr>),
       w', pending_delete ''T'' ?st)"
    and "purchase Personal (u_id ?u) (pe_discordGuildId pending_hello) (ledger linked_world) = Some (ledger w')"
    unfolding t by blast+
  then have "(ledger linked_world)(UserAccount ''u'' \<mapsto> 90, GuildAccount ''7'' \<mapsto> 50) = ledger w'"
    by (simp add: purchase_def payer_def debit_def open_guild_def row_of_def guild_row_def linked_world_def
        pending_hello_def pending_blank_def sample_user_def)
  then have "ledger w' (UserAccount ''u'') = Some 90"
    by (metis account.distinct(1) fun_upd_def)
  with r show ?thesis by blast
qed

end
