(* ===== verification/Processes.thy ===== *)
theory Processes imports Configuration BotGuilds Migrations begin

text \<open>
  What the processes and scripts do with their settings beside the addresses of Configuration: the
  connections to the database and to Redis, the secrets of the token strategies, the port of the API,
  the script that runs the migrations, the channel of the message broker, and the first
  synchronisation of the bot. \<open>number_text\<close> and \<open>port_or\<close> are those of Configuration.
\<close>

section \<open>The database\<close>

type_synonym connection = "server_settings \<times> string option"

(* libs/database/src/data-source.ts 4-13 AppDataSource *)
definition script_connection :: "config_library \<Rightarrow> environment \<Rightarrow> connection" where
  "script_connection L env =
     (\<lparr>sv_host = env ''DB_HOST'', sv_port = port_or L env ''DB_PORT'' ''5432'', sv_user = env ''DB_USER'',
       sv_password = env ''DB_PASSWORD''\<rparr>, env ''DB_NAME'')"

definition config_text :: "(string \<times> json) list \<Rightarrow> string \<Rightarrow> string option" where
  "config_text config n = map_option (\<lambda>v. json_printed (Some v)) (map_of config n)"

(* libs/database/src/database.module.ts 24-28 DatabaseModule, the connection *)
definition service_connection :: "(string \<times> json) list \<Rightarrow> connection" where
  "service_connection config =
     (\<lparr>sv_host = config_text config ''DB_HOST'', sv_port = json_printed (map_of config ''DB_PORT''),
       sv_user = config_text config ''DB_USER'', sv_password = config_text config ''DB_PASSWORD''\<rparr>,
      config_text config ''DB_NAME'')"

text \<open>Neither migrations nor a synchronisation of the schema run at the start of a service.\<close>

(* libs/database/src/database.module.ts 41-44 DatabaseModule, the options *)
definition service_options :: "(string \<times> json) list \<Rightarrow> (string \<times> bool) list" where
  "service_options config =
     [(''migrationsRun'', False), (''synchronize'', False),
      (''logging'', map_of config ''NODE_ENV'' \<noteq> Some (JStr ''production''))]"

lemma config_text_of:
  assumes "validate L env = Some config" and "plain_text n \<in> set configSchema"
  shows "config_text config n = env n"
  using validated_text [OF assms] by (auto simp: config_text_def json_printed_def)

text \<open>
  The scripts that migrate and seed read the raw environment, the services the checked one: under an
  environment that passes the check they connect to the same database with the same account, unless the
  port is written as 0, which the scripts take for none.
\<close>

theorem scripts_and_services_share_database:
  assumes "validate L env = Some config" and "number_text L (env ''DB_PORT'') \<noteq> ''0''"
  shows "script_connection L env = service_connection config"
proof -
  have t: "plain_text ''DB_HOST'' \<in> set configSchema" "plain_text ''DB_USER'' \<in> set configSchema"
      "plain_text ''DB_PASSWORD'' \<in> set configSchema" "plain_text ''DB_NAME'' \<in> set configSchema"
      "number_or ''DB_PORT'' ''5432'' \<in> set configSchema"
    by (simp_all add: configSchema_def plain_text_def number_or_def)
  have "map_of config ''DB_PORT'' = Some (JNum (case env ''DB_PORT'' of None \<Rightarrow> ''5432'' | Some s \<Rightarrow> c_number L s))"
    by (rule validated_number [OF assms(1) t(5)])
  moreover have "c_number L s \<noteq> ''NaN''" if "env ''DB_PORT'' = Some s" for s
    using validated_setting [OF assms(1), of "''DB_PORT''" Coerced_Number "Some ''5432''"] t(5) that
    by (auto simp: number_or_def read_setting_def Let_def split: if_splits)
  ultimately have "json_printed (map_of config ''DB_PORT'') = port_or L env ''DB_PORT'' ''5432''"
    using assms(2) by (auto simp: json_printed_def port_or_def number_text_def Let_def split: option.splits)
  then show ?thesis
    by (simp add: script_connection_def service_connection_def t(1-4) [THEN config_text_of [OF assms(1)]])
qed

text \<open>The script ends the process with 0 after all migrations and the end of the connection, with 1 at
  the first failure. What was migrated stays.\<close>

(* scripts/migrate.ts 4-15 migrate *)
definition migrate :: "(statement \<Rightarrow> bool) \<Rightarrow> bool \<Rightarrow> bool \<Rightarrow> database \<Rightarrow> nat \<times> database" where
  "migrate fits connects closes db =
     (if \<not> connects then (1, db)
      else (case migration_run fits all_migrations db of
          None \<Rightarrow> (1, db)
        | Some db' \<Rightarrow> (if closes then 0 else 1, db')))"

lemma nothing_pending:
  "set (map mi_name ms) \<subseteq> set (db_applied db) \<Longrightarrow> migration_run fits ms db = Some db"
proof -
  assume "set (map mi_name ms) \<subseteq> set (db_applied db)"
  then have "pending ms db = []" by (auto simp: pending_def filter_empty_conv)
  then show ?thesis by (cases db) (simp add: migration_run_def)
qed

text \<open>Run again, a script that succeeded changes nothing and succeeds.\<close>

lemma migrate_twice:
  assumes "migrate fits True True db = (0, db')"
  shows "migrate fits True True db' = (0, db')"
proof -
  have r: "migration_run fits all_migrations db = Some db'"
    using assms by (auto simp: migrate_def split: option.splits)
  then have "db_applied db' = db_applied db @ map mi_name (pending all_migrations db)"
    by (auto simp: migration_run_def)
  then have "set (map mi_name all_migrations) \<subseteq> set (db_applied db')"
    by (auto simp: pending_def)
  then show ?thesis by (simp add: migrate_def nothing_pending)
qed

text \<open>Without a name the script that generates a migration ends with 1 before it runs anything.\<close>

(* scripts/migration-generate.ts 3-13 the script *)
definition migration_generate :: "string option \<Rightarrow> string + nat" where
  "migration_generate name =
     (if \<not> truthy name then Inr 1
      else Inl (''typeorm-ts-node-commonjs -d libs/database/src/data-source.ts migration:generate libs/database/src/migrations/'' @
        the name))"

section \<open>Redis, the API and its tokens\<close>

(* libs/redis/src/redis.module.ts 15-20 RedisModule, REDIS_CHANNEL_CLIENT *)
definition redis_address :: "(string \<times> json) list \<Rightarrow> string option \<times> string" where
  "redis_address config = (config_text config ''REDIS_HOST'', json_printed (map_of config ''REDIS_PORT''))"

(* apps/api/src/main.ts 86-86 bootstrap, the port *)
definition api_port :: "(string \<times> json) list \<Rightarrow> string" where
  "api_port config = (case map_of config ''API_PORT'' of None \<Rightarrow> ''3000'' | Some v \<Rightarrow> json_printed (Some v))"

record token_strategy =
  ts_secret :: "string option"
  ts_ignoreExpiration :: bool
  ts_passRequest :: bool

(* apps/api/src/modules/auth/strategies/jwt-access.strategy.ts 17-21 JwtAccessStrategy.constructor *)
definition access_strategy :: "(string \<times> json) list \<Rightarrow> token_strategy" where
  "access_strategy config =
     \<lparr>ts_secret = config_text config ''JWT_SECRET_ACCESS'', ts_ignoreExpiration = False, ts_passRequest = False\<rparr>"

(* apps/api/src/modules/auth/strategies/jwt-refresh.strategy.ts 19-24 JwtRefreshStrategy.constructor *)
definition refresh_strategy :: "(string \<times> json) list \<Rightarrow> token_strategy" where
  "refresh_strategy config =
     \<lparr>ts_secret = config_text config ''JWT_SECRET_REFRESH'', ts_ignoreExpiration = False, ts_passRequest = True\<rparr>"

text \<open>Tokens are signed with the secrets of \<open>authConfig\<close>, which reads the raw environment, and checked with
  those of the strategies.\<close>

lemma tokens_checked_as_signed:
  assumes "validate L env = Some config"
  shows "ts_secret (access_strategy config) = as_access (authConfig env)"
    and "ts_secret (refresh_strategy config) = as_refresh (authConfig env)"
  using config_text_of [OF assms, of "''JWT_SECRET_ACCESS''"] config_text_of [OF assms, of "''JWT_SECRET_REFRESH''"]
  by (simp_all add: access_strategy_def refresh_strategy_def authConfig_def configSchema_def plain_text_def number_or_def)

section \<open>The channel of the broker\<close>

text \<open>The provider makes one connection and one channel at the start; the listeners of the connection only
  write to the log. A lost connection takes its channel with it.\<close>

datatype connection_event = Connection_Error string | Connection_Closed

record channel_state =
  ch_open :: bool
  ch_log :: "string list"

(* libs/queue/src/queue.helpers.ts 32-37 buildChannelProvider, the listeners *)
fun on_connection :: "connection_event \<Rightarrow> channel_state \<Rightarrow> channel_state" where
  "on_connection (Connection_Error m) s = s\<lparr>ch_log := ch_log s @ [''[RabbitMQ] Connection error: '' @ m]\<rparr>"
| "on_connection Connection_Closed s = s\<lparr>ch_open := False, ch_log := ch_log s @ [''[RabbitMQ] Connection closed'']\<rparr>"

text \<open>So a process that has lost its broker does not get it back: no later event opens the channel again.\<close>

lemma lost_broker_stays_lost:
  "Connection_Closed \<in> set evs \<Longrightarrow> \<not> ch_open (fold on_connection evs s)"
proof -
  have closed: "\<not> ch_open s \<Longrightarrow> \<not> ch_open (fold on_connection evs s)" for evs s
  proof (induction evs arbitrary: s)
    case (Cons ev evs)
    have "\<not> ch_open (on_connection ev s)" using Cons.prems by (cases ev) simp_all
    then show ?case using Cons.IH by simp
  qed simp
  show "Connection_Closed \<in> set evs \<Longrightarrow> \<not> ch_open (fold on_connection evs s)"
    by (induction evs arbitrary: s) (auto simp: closed)
qed

section \<open>The first synchronisation of the bot\<close>

text \<open>A client that is not ready yet keeps the synchronisations for the moment it is.\<close>

record bot_start =
  bs_ready :: bool
  bs_kept :: "unit act list"

definition at_ready :: "unit act \<Rightarrow> bot_start \<Rightarrow> bot_start \<times> unit act" where
  "at_ready m b = (if \<not> bs_ready b then (b\<lparr>bs_kept := bs_kept b @ [m]\<rparr>, ret ()) else (b, unawaited m))"

(* apps/discord-bot/src/modules/discord/channel-sync.service.ts 38-44 ChannelSyncService.onModuleInit *)
definition initChannels :: "client \<Rightarrow> bot_start \<Rightarrow> bot_start \<times> unit act" where
  "initChannels c = at_ready (syncAll c)"

(* apps/discord-bot/src/modules/discord/guild-sync.service.ts 14-20 GuildSyncService.onModuleInit *)
definition initGuilds :: "client \<Rightarrow> bot_start \<Rightarrow> bot_start \<times> unit act" where
  "initGuilds c = at_ready (andThen (syncGuilds c) (\<lambda>_. ret ()))"

text \<open>The provider of the client waits until it is ready, so the modules find it ready.\<close>

(* apps/discord-bot/src/modules/discord/discord.provider.ts 13-22 discordProvider, the factory *)
definition provided_client :: bot_start where
  "provided_client = \<lparr>bs_ready = True, bs_kept = []\<rparr>"

definition becomes_ready :: "bot_start \<Rightarrow> unit act" where
  "becomes_ready b = forEach unawaited (bs_kept b)"

text \<open>Whether the client is ready at the start or later, both synchronisations run, in the order of the
  modules, and once.\<close>

lemma syncs_at_start:
  "(case initChannels c provided_client of (b, m) \<Rightarrow> case initGuilds c b of (b', m') \<Rightarrow>
      andThen m (\<lambda>_. andThen m' (\<lambda>_. becomes_ready b'))) =
   (case initChannels c \<lparr>bs_ready = False, bs_kept = []\<rparr> of (b, m) \<Rightarrow> case initGuilds c b of (b', m') \<Rightarrow>
      andThen m (\<lambda>_. andThen m' (\<lambda>_. becomes_ready b')))"
  by (rule ext) (simp add: initChannels_def initGuilds_def at_ready_def provided_client_def becomes_ready_def exec
      split: prod.split sum.split)

section \<open>The theorem at a concrete environment\<close>

theorem scripts_and_services_share_database_witness:
  "\<exists>config. validate sample_library sample_environment = Some config \<and>
     service_connection config = (\<lparr>sv_host = Some ''DB_HOST'', sv_port = ''5432'', sv_user = Some ''DB_USER'',
       sv_password = Some ''DB_PASSWORD''\<rparr>, Some ''DB_NAME'')"
proof -
  obtain config where c: "validate sample_library sample_environment = Some config"
    using sample_environment_passes by blast
  have "number_text sample_library (sample_environment ''DB_PORT'') \<noteq> ''0''" by code_simp
  from scripts_and_services_share_database [OF c this]
  have "service_connection config = script_connection sample_library sample_environment" by simp
  moreover have "script_connection sample_library sample_environment =
      (\<lparr>sv_host = Some ''DB_HOST'', sv_port = ''5432'', sv_user = Some ''DB_USER'',
       sv_password = Some ''DB_PASSWORD''\<rparr>, Some ''DB_NAME'')" by code_simp
  ultimately show ?thesis using c by simp
qed

end
