(* ===== verification/Spec2Isabelle.thy ===== *)
theory Spec2Isabelle imports Worker Interleaving Streamers Statistics Administration BotDelivery BotView CacheWait SchemaChecks Validation BotRegistry Setup Configuration Wiring Routes Building Cipher Replies Processes begin

text \<open>
  Xelar Notify tells Discord channels and webhooks what happens to streamers on Twitch. Four processes
  share a PostgreSQL database, a Redis store and the queues of RabbitMQ:

  The API (\<open>apps/api\<close>) has the routes for users and administrators, keeps the subscriptions at Twitch and
  answers the remote calls of the others. The webhook receiver (\<open>apps/webhook-receiver\<close>) takes what Twitch
  posts, drops repetitions and puts messages on the queues. The notification worker
  (\<open>apps/notification-worker\<close>) takes the message that a stream has begun, writes the logs, posts to
  webhooks and puts one message per Discord notification on the queue of the bot. The bot
  (\<open>apps/discord-bot\<close>) sends them to their channels, runs the commands and forms, and keeps the list of its
  guilds in Redis.

  How the code is modelled. \<open>world\<close> (World) is the state all processes share: the tables, the Redis
  store, the queues, the requests sent, the token cache of the API and the rejections nobody handled. A method
  of a service is a value of type \<open>act\<close>, a function from the state to a result or an exception and the state
  after it; sequencing, exceptions, loops and calls that nobody awaits are the combinators of Prelude and World.
  \<open>env\<close> is the code that is not in the repository: the answers of Twitch and Discord as functions of the requests so
  far, encryption, bcrypt, signing, identifiers, the broker. Nothing is assumed of it except where a theorem says so.
  Values of type \<open>any\<close> are JSON (Json, Untyped), and integers of JavaScript are unbounded
  except where the code works on bits.

  Which theory models what, paths under \<open>apps/api/src/modules\<close> unless they begin with another directory:

  Prelude, Tables: actions, relations an action keeps (\<open>state_rel\<close>), rows of a repository (\<open>repository\<close>).
  Json, Untyped: \<open>JSON.stringify\<close>, \<open>JSON.parse\<close> with fuel that is proved enough, and their round trip.
  Entities: \<open>libs/database/src/entities\<close>. Redis, CacheLock, CacheWait: \<open>libs/redis\<close> with the keys; \<open>getOrSet\<close> as an action and as
  an interleaving of processes under its lock, then with the waits over publish and subscribe on the one connection of a
  process. World, Rpc: the shared state, \<open>libs/queue\<close>, \<open>libs/rpc\<close>, the errors of remote calls. Replies: the interceptors
  and filters of \<open>main.ts\<close> and of \<open>libs/rpc\<close> in the order Nest runs them, and calls that time out. Crypto, Cipher:
  \<open>libs/shared/src/modules/crypto\<close>, the prefix logic over an abstract cipher and the layout of the values in base64. TwitchApps, TwitchUserTokens, TwitchApi: \<open>twitch\<close>. Subscriptions:
  \<open>twitch-subscriptions\<close>. Discord: \<open>discord\<close>. NotificationPayload, Notifications, Charges, Interleaving:
  \<open>notification-payload\<close>, \<open>notifications\<close>, with a ledger of balances as the specification, and its calls and the Discord login
  as threads that take turns at their awaits. Roles, Auth, Access: \<open>roles\<close>,
  \<open>auth\<close>, the guards and strategies. Users, Streamers, Statistics, Administration: \<open>users\<close>, \<open>streamers\<close>,
  \<open>notification-logs\<close>, \<open>statistics\<close>, \<open>admin\<close>, \<open>streamer-events\<close>, the envelope of answers. DiscordHandlers:
  \<open>discord-handler\<close>. Validation: the rules of the request bodies and the validation pipe. Receiver: \<open>apps/webhook-receiver\<close>.
  Worker, Interpolation: \<open>apps/notification-worker\<close>. BotGuilds, BotView, BotCommands, BotDelivery, BotRegistry:
  \<open>apps/discord-bot\<close> and what the API sees of its guilds. Schema, Migrations, SchemaChecks: \<open>libs/database/src/migrations\<close> and the tables the entities
  declare. Configuration, Processes, Setup, Wiring: \<open>libs/config\<close>, the connections and secrets made of
  it, \<open>scripts\<close>, and the start of the four processes. Routes:
  the decorators of all controllers, the way from a request to its route and through the guards, and when the page of Swagger
  answers instead. Modules, Building: the constructors and modules of all processes, as Nest reads them, and an order to build
  them in.
  Samples has small states and an \<open>env\<close> for the witnesses. Every definition that translates code names its file and lines.

  What the theorems show. Wiring joins the services: a notification of Twitch becomes one message, the worker one
  message per wanted notification, the bot one post per message, and no message lacks a handler. Subscriptions: the cost of
  an application equals the cost of its events, through registration and deletion. Charges: creating a
  notification is a purchase on the ledger, every stored payload is valid.
  Interleaving: concurrent calls, in whatever order their awaits come, overdraw no balance, and each alone is the call as modelled
  before; a login that overlaps a charge undoes it. Redis, CacheLock,
  CacheWait: the lock of the cache excludes, calls finish, a lost holder does not block it, the waits refine it, end in time and
  give what a holder resolved. Cipher: what is sealed opens again. Replies: what \<open>main.ts\<close> puts around the handlers is the
  envelope, and a call that is late charges for what the bot reports as failed. BotView: the API sees the channels as the bot has them. Roles, Users: nobody gains a permission that
  neither they nor the caller had. Access: when a login succeeds, and that a logout holds. Discord, DiscordHandlers: who may do
  something to a guild. Interpolation: substitution in printed JSON is substitution in its strings for plain
  values. Routes: every route is reached, strangers reach five and, outside production, the page that
  describes them, and the administration needs its permission. Building: the classes and modules of every process can be built
  one after another; Modules: the scheduled jobs of the API are never started. SchemaChecks: the migrations give exactly the tables
  the entities declare, some old tables besides, and lose two indexes. Setup: when the administrator of the seed script can log in. Validation: what the
  pipe lets through is what the services are modelled on. BotRegistry: the explorer of decorators dispatches as the model of
  the bot does. Several theorems state what the code does where that is not what it means to do.

  Interfaces. \<open>state_rel\<close> and \<open>repository\<close> carry the proofs that an operation keeps a relation and what tables
  promise; \<open>key_value\<close> is the contract of Redis; \<open>twitch_frame\<close> and \<open>discord_frame\<close> say which parts of the state the calls to
  Twitch and Discord leave alone, \<open>event_effects\<close> the same for registering events; \<open>draft_store\<close> is the contract of
  the drafts of the bot. Each is interpreted on the definitions of the model, and the properties rest on these interpretations.

  Bounds. Reading JSON has as fuel the length of its input, and \<open>fuel_enough\<close> shows that more changes nothing. The lock of
  \<open>getOrSet\<close> lasts ten seconds, a message is remembered for twenty minutes, a draft as long as the store says. Money
  is counted in tenths; costs of events and applications are not held to the three digits of their columns, balances are. The waits
  of the cache end within what clock, timer and read are late, which are parameters. Migrations run on a schema with a flag that says whether a table has rows; a change of a type succeeds on
  a filled table as the parameter \<open>fits\<close> says.

  Strings are bytes in UTF-8, and lengths count bytes; a thread of Interleaving makes the awaits inside an awaited call in one
  turn; requests are those of the five methods the controllers use, with a body that Express can parse.

  Taken for granted: a query without an order gives rows in the order of the table; foreign keys that no modelled operation
  can break are not checked; days are days of UTC; case folding of \<open>ILIKE\<close> is that of ASCII; a page of size zero is
  empty; the JWT library has checked signature and expiry before a strategy sees the claims; errors of remote handlers travel as
  the default filter of Nest writes them; TypeORM refuses a relation that is not declared, and an empty criterion in an
  update; modules of libraries export what their documents say, and the scheduler runs only where its module is imported. Mail addresses, UUIDs and URLs are what the libraries say they are.

  Not modelled: the classes and decorators that describe the REST interface, and what its Swagger page shows; logging; the protocols of PostgreSQL, Redis, RabbitMQ and Discord below the calls of their libraries; tests and build
  files. What else is not mapped of a file are its imports, re-exports and class headers.
\<close>

end
